(* ===== verification/Prelude.thy ===== *)
theory Prelude
  imports Complex_Main "HOL-Library.Sublist" "HOL-Library.Multiset"
begin

text \<open>
  Shared vocabulary of the development: the collections of facts the component proofs use, the
  shapes every HTTP handler and every SQL statement of the gateway is modelled with, and the list
  lemmas (keeping first occurrences, \<open>ORDER BY ... LIMIT 1\<close>) that several components share.
\<close>

named_theorems text_simps \<open>evaluation of Go string functions\<close>
named_theorems stage_simps \<open>unfolding of the disposition stages of the ingest pipeline\<close>
named_theorems handler_simps \<open>unfolding of HTTP handlers and their guards\<close>

subsection \<open>Identifiers, JSON values, results\<close>

text \<open>
  A \<open>uuid.UUID\<close> is only compared and copied, so a natural number stands for it; \<open>uuid.Nil\<close>
  is 0. A \<open>float64\<close> that comes out of JSON or of a Postgres column is finite, so a rational
  number stands for it, with the same order. A Go value of type \<open>any\<close> decoded from JSON is
  a \<open>json\<close>; a \<open>map[string]any\<close> is the list of its pairs in the order in which one
  \<open>range\<close> loop visits them, which Go leaves open.
\<close>

type_synonym uuid = nat

datatype json =
    JNull
  | JBool bool
  | JNum rat
  | JStr string
  | JArr "json list"
  | JObj "(string \<times> json) list"

type_synonym json_map = "(string \<times> json) list"

text \<open>An error of the Go code is its message (\<open>err.Error()\<close>) on the left of a sum.\<close>

type_synonym 'a result = "string + 'a"

text \<open>What a handler answers: \<open>httpx.WriteError\<close>, \<open>httpx.WriteJSON\<close>, or a bare status.\<close>

datatype 'a response =
    WriteError nat string
  | WriteJSON nat 'a
  | WriteHeader nat

fun status :: "'a response \<Rightarrow> nat" where
  "status (WriteError n _) = n"
| "status (WriteJSON n _) = n"
| "status (WriteHeader n) = n"

text \<open>
  Statements of a handler can fail on their own (a lost connection, a violated constraint). A
  handler takes the set of its failing statements as a predicate on the statements' labels.
\<close>

type_synonym faults = "string \<Rightarrow> bool"

definition no_faults :: faults where
  "no_faults = (\<lambda>_. False)"

lemma no_faults_simps [simp]: "no_faults l = False"
  by (simp add: no_faults_def)

text \<open>
  A handler is a cascade of guards over pairs of a response and the state after it. To show a
  predicate of the state after any run, walk down the cascade: one rule per construct.
\<close>

definition ends_in :: "('s \<Rightarrow> bool) \<Rightarrow> 'r \<times> 's \<Rightarrow> bool" where
  "ends_in P run = P (snd run)"

lemma ends_if: "(c \<Longrightarrow> ends_in P a) \<Longrightarrow> (\<not> c \<Longrightarrow> ends_in P b) \<Longrightarrow> ends_in P (if c then a else b)"
  by simp

lemma ends_let: "(\<And>x. x = t \<Longrightarrow> ends_in P (f x)) \<Longrightarrow> ends_in P (let x = t in f x)"
  by simp

lemma ends_option:
  "(x = None \<Longrightarrow> ends_in P a) \<Longrightarrow> (\<And>y. x = Some y \<Longrightarrow> ends_in P (f y)) \<Longrightarrow>
     ends_in P (case x of None \<Rightarrow> a | Some y \<Rightarrow> f y)"
  by (cases x) auto

lemma ends_result:
  "(\<And>e. x = Inl e \<Longrightarrow> ends_in P (f e)) \<Longrightarrow> (\<And>y. x = Inr y \<Longrightarrow> ends_in P (g y)) \<Longrightarrow>
     ends_in P (case x of Inl e \<Rightarrow> f e | Inr y \<Rightarrow> g y)"
  by (cases x) auto

lemma ends_prod: "(\<And>a b. x = (a, b) \<Longrightarrow> ends_in P (f a b)) \<Longrightarrow> ends_in P (case x of (a, b) \<Rightarrow> f a b)"
  by (cases x) auto

lemma ends_answer: "P s \<Longrightarrow> ends_in P (r, s)"
  by (simp add: ends_in_def)

lemma ends_inI: "ends_in P run \<Longrightarrow> P (snd run)"
  by (simp add: ends_in_def)

lemmas handler_walk = ends_if ends_let ends_option ends_result ends_prod ends_answer

text \<open>The same walk for a predicate of the answer and the state together.\<close>

definition runs_to :: "('r \<times> 's \<Rightarrow> bool) \<Rightarrow> 'r \<times> 's \<Rightarrow> bool" where
  "runs_to Q run = Q run"

lemma runs_if: "(c \<Longrightarrow> runs_to Q a) \<Longrightarrow> (\<not> c \<Longrightarrow> runs_to Q b) \<Longrightarrow> runs_to Q (if c then a else b)"
  by simp

lemma runs_let: "(\<And>x. x = t \<Longrightarrow> runs_to Q (f x)) \<Longrightarrow> runs_to Q (let x = t in f x)"
  by simp

lemma runs_option:
  "(x = None \<Longrightarrow> runs_to Q a) \<Longrightarrow> (\<And>y. x = Some y \<Longrightarrow> runs_to Q (f y)) \<Longrightarrow>
     runs_to Q (case x of None \<Rightarrow> a | Some y \<Rightarrow> f y)"
  by (cases x) auto

lemma runs_result:
  "(\<And>e. x = Inl e \<Longrightarrow> runs_to Q (f e)) \<Longrightarrow> (\<And>y. x = Inr y \<Longrightarrow> runs_to Q (g y)) \<Longrightarrow>
     runs_to Q (case x of Inl e \<Rightarrow> f e | Inr y \<Rightarrow> g y)"
  by (cases x) auto

lemma runs_prod: "(\<And>a b. x = (a, b) \<Longrightarrow> runs_to Q (f a b)) \<Longrightarrow> runs_to Q (case x of (a, b) \<Rightarrow> f a b)"
  by (cases x) auto

lemma runs_answer: "Q (r, s) \<Longrightarrow> runs_to Q (r, s)"
  by (simp add: runs_to_def)

lemma runs_toI: "runs_to Q run \<Longrightarrow> Q run"
  by (simp add: runs_to_def)

lemmas run_walk = runs_if runs_let runs_option runs_result runs_prod runs_answer


subsection \<open>Keeping first occurrences\<close>

text \<open>
  The loops of the form \<open>if seen[k] { continue }; seen[k] = true; out = append(out, v)\<close>:
  \<open>dedup_on k seen xs\<close> keeps the elements whose key is met for the first time.
\<close>

fun dedup_on :: "('a \<Rightarrow> 'k) \<Rightarrow> 'k list \<Rightarrow> 'a list \<Rightarrow> 'a list" where
  "dedup_on k seen [] = []"
| "dedup_on k seen (x # xs) =
     (if k x \<in> set seen then dedup_on k seen xs
      else x # dedup_on k (k x # seen) xs)"

lemma set_dedup_on_subset: "set (dedup_on k seen xs) \<subseteq> set xs"
  by (induction k seen xs rule: dedup_on.induct) auto

lemma subseq_dedup_on: "subseq (dedup_on k seen xs) xs"
  by (induction k seen xs rule: dedup_on.induct) auto

lemma keys_dedup_on: "k ` set (dedup_on k seen xs) = k ` set xs - set seen"
  by (induction k seen xs rule: dedup_on.induct) auto

lemma distinct_dedup_on: "distinct (map k (dedup_on k seen xs))"
proof (induction k seen xs rule: dedup_on.induct)
  case (2 k seen x xs)
  then show ?case
    using keys_dedup_on [of k "k x # seen" xs] by auto
qed simp

lemma set_dedup_on_id: "set (dedup_on (\<lambda>x. x) [] xs) = set xs"
  using keys_dedup_on [of "\<lambda>x. x" "[]" xs] by simp

lemma distinct_dedup_on_id: "distinct (dedup_on (\<lambda>x. x) seen xs)"
  using distinct_dedup_on [of "\<lambda>x. x" seen xs] by simp

lemma dedup_on_distinct: "distinct xs \<Longrightarrow> set xs \<inter> set seen = {} \<Longrightarrow> dedup_on (\<lambda>x. x) seen xs = xs"
  by (induction "\<lambda>x::'a. x" seen xs rule: dedup_on.induct) auto

subsection \<open>\<open>ORDER BY k LIMIT 1\<close>\<close>

text \<open>
  The first row of the result: a row whose sort key is least, the earlier row in case of a tie
  (SQL leaves ties open; the table's order stands for the choice Postgres makes).
\<close>

fun first_by :: "('a \<Rightarrow> 'k::linorder) \<Rightarrow> 'a list \<Rightarrow> 'a option" where
  "first_by k [] = None"
| "first_by k (x # xs) =
     (case first_by k xs of
        None \<Rightarrow> Some x
      | Some y \<Rightarrow> if k x \<le> k y then Some x else Some y)"

lemma first_by_None [simp]: "first_by k xs = None \<longleftrightarrow> xs = []"
  by (cases xs) (auto split: option.splits)

lemma first_by_mem: "first_by k xs = Some x \<Longrightarrow> x \<in> set xs"
  by (induction xs arbitrary: x) (auto split: option.splits if_splits)

lemma first_by_least: "first_by k xs = Some x \<Longrightarrow> y \<in> set xs \<Longrightarrow> k x \<le> k y"
proof (induction xs arbitrary: x y)
  case (Cons z zs)
  show ?case
  proof (cases "first_by k zs")
    case None
    with Cons.prems show ?thesis by simp
  next
    case (Some u)
    with Cons.IH [of u] Cons.prems show ?thesis
      by (auto split: if_splits intro: order_trans)
  qed
qed simp

lemma first_by_Some_iff: "(\<exists>x. first_by k xs = Some x) \<longleftrightarrow> xs \<noteq> []"
  using first_by_None [of k xs] by (cases "first_by k xs") auto

lemma first_by_filter_Some:
  "first_by k (filter p xs) = Some x \<Longrightarrow> x \<in> set xs \<and> p x \<and> (\<forall>y \<in> set xs. p y \<longrightarrow> k x \<le> k y)"
  using first_by_mem [of k "filter p xs" x] first_by_least [of k "filter p xs" x] by auto

lemma first_by_filter_None: "first_by k (filter p xs) = None \<longleftrightarrow> (\<forall>x \<in> set xs. \<not> p x)"
  by (auto simp: filter_empty_conv)

subsection \<open>Lists up to order\<close>

text \<open>A test over all pairs of a map gives the same answer for every order of the pairs.\<close>

lemma list_ex_mset: "mset xs = mset ys \<Longrightarrow> list_ex p xs = list_ex p ys"
  by (metis list_ex_iff mset_eq_setD)

lemma list_all_mset: "mset xs = mset ys \<Longrightarrow> list_all p xs = list_all p ys"
  by (metis list_all_iff mset_eq_setD)

end
