(* ===== verification/GoText.thy ===== *)
theory GoText
  imports Prelude
begin

text \<open>
  The functions of Go's \<open>strings\<close> package that the gateway uses. A Go string is a list of
  bytes (\<open>char list\<close>). Case mapping, white space and \<open>Fields\<close> are those of ASCII
  text: a byte of 128 or more is neither a letter nor a space here, where Go consults the Unicode
  tables. Prefix, suffix, substring and \<open>Split\<close> are bytewise in Go too.
\<close>

subsection \<open>Characters\<close>

abbreviation byte :: "char \<Rightarrow> nat" where "byte c \<equiv> of_char c"

definition is_upper :: "char \<Rightarrow> bool" where
  "is_upper c = (65 \<le> byte c \<and> byte c \<le> 90)"

definition is_lower :: "char \<Rightarrow> bool" where
  "is_lower c = (97 \<le> byte c \<and> byte c \<le> 122)"

definition is_digit :: "char \<Rightarrow> bool" where
  "is_digit c = (48 \<le> byte c \<and> byte c \<le> 57)"

definition is_letter :: "char \<Rightarrow> bool" where
  "is_letter c = (is_upper c \<or> is_lower c)"

definition is_space :: "char \<Rightarrow> bool" where
  "is_space c = (byte c \<in> {9, 10, 11, 12, 13, 32})"

text \<open>The sixth bit is the case bit of an ASCII letter.\<close>

definition lower_char :: "char \<Rightarrow> char" where
  "lower_char c = (if is_upper c
     then Char (digit0 c) (digit1 c) (digit2 c) (digit3 c) (digit4 c) True (digit6 c) (digit7 c)
     else c)"

definition upper_char :: "char \<Rightarrow> char" where
  "upper_char c = (if is_lower c
     then Char (digit0 c) (digit1 c) (digit2 c) (digit3 c) (digit4 c) False (digit6 c) (digit7 c)
     else c)"

lemmas char_class_defs = is_upper_def is_lower_def is_digit_def is_letter_def is_space_def

text \<open>The classes on the bits of a byte: these evaluate fast and settle equations of characters.\<close>

lemma is_upper_Char [simp, code]:
  "is_upper (Char b0 b1 b2 b3 b4 b5 b6 b7) =
     (\<not> b7 \<and> b6 \<and> \<not> b5 \<and> (b0 \<or> b1 \<or> b2 \<or> b3 \<or> b4) \<and> (b4 \<and> b3 \<longrightarrow> \<not> b2 \<and> (b1 \<longrightarrow> \<not> b0)))"
  by (cases b0; cases b1; cases b2; cases b3; cases b4; cases b5; cases b6; cases b7; simp add: is_upper_def)

lemma is_lower_Char [simp, code]:
  "is_lower (Char b0 b1 b2 b3 b4 b5 b6 b7) =
     (\<not> b7 \<and> b6 \<and> b5 \<and> (b0 \<or> b1 \<or> b2 \<or> b3 \<or> b4) \<and> (b4 \<and> b3 \<longrightarrow> \<not> b2 \<and> (b1 \<longrightarrow> \<not> b0)))"
  by (cases b0; cases b1; cases b2; cases b3; cases b4; cases b5; cases b6; cases b7; simp add: is_lower_def)

lemma is_digit_Char [simp, code]:
  "is_digit (Char b0 b1 b2 b3 b4 b5 b6 b7) =
     (\<not> b7 \<and> \<not> b6 \<and> b5 \<and> b4 \<and> (b3 \<longrightarrow> \<not> b2 \<and> \<not> b1))"
  by (cases b0; cases b1; cases b2; cases b3; cases b4; cases b5; cases b6; cases b7; simp add: is_digit_def)

lemma is_letter_Char [simp, code]:
  "is_letter (Char b0 b1 b2 b3 b4 b5 b6 b7) =
     (is_upper (Char b0 b1 b2 b3 b4 b5 b6 b7) \<or> is_lower (Char b0 b1 b2 b3 b4 b5 b6 b7))"
  by (simp only: is_letter_def)

lemma is_space_Char [simp, code]:
  "is_space (Char b0 b1 b2 b3 b4 b5 b6 b7) =
     (\<not> b7 \<and> \<not> b6 \<and> \<not> b4 \<and>
      (b5 \<and> \<not> b3 \<and> \<not> b2 \<and> \<not> b1 \<and> \<not> b0 \<or>
       \<not> b5 \<and> b3 \<and> (b2 \<longrightarrow> \<not> b1) \<and> (b2 \<or> b1 \<or> b0)))"
  by (cases b0; cases b1; cases b2; cases b3; cases b4; cases b5; cases b6; cases b7; simp add: is_space_def)

lemma lower_char_Char [simp, code]:
  "lower_char (Char b0 b1 b2 b3 b4 b5 b6 b7) =
     Char b0 b1 b2 b3 b4 (b5 \<or> is_upper (Char b0 b1 b2 b3 b4 b5 b6 b7)) b6 b7"
  by (auto simp: lower_char_def)

lemma upper_char_Char [simp, code]:
  "upper_char (Char b0 b1 b2 b3 b4 b5 b6 b7) =
     Char b0 b1 b2 b3 b4 (b5 \<and> \<not> is_lower (Char b0 b1 b2 b3 b4 b5 b6 b7)) b6 b7"
  by (auto simp: upper_char_def)

lemma lower_char_not_upper [simp]: "\<not> is_upper (lower_char c)"
  by (cases c) auto

lemma lower_char_idem [simp]: "lower_char (lower_char c) = lower_char c"
  by (subst lower_char_def) simp

lemma is_space_lower_char [simp]: "is_space (lower_char c) = is_space c"
  by (cases c) auto

lemma lower_upper_char [simp]: "lower_char (upper_char c) = lower_char c"
  by (cases c) auto

lemma upper_lower_char [simp]: "upper_char (lower_char c) = upper_char c"
  by (cases c) auto

lemma lower_char_cases: "\<not> is_upper c \<Longrightarrow> lower_char c = c"
  by (simp add: lower_char_def)

subsection \<open>Case\<close>

definition to_lower :: "string \<Rightarrow> string" where
  "to_lower s = map lower_char s"

definition to_upper :: "string \<Rightarrow> string" where
  "to_upper s = map upper_char s"

definition equal_fold :: "string \<Rightarrow> string \<Rightarrow> bool" where
  "equal_fold s t = (to_lower s = to_lower t)"

lemma to_lower_simps [simp, text_simps]:
  "to_lower [] = []"
  "to_lower (c # s) = lower_char c # to_lower s"
  "to_lower (s @ t) = to_lower s @ to_lower t"
  "length (to_lower s) = length s"
  "to_lower (to_lower s) = to_lower s"
  "to_lower (to_upper s) = to_lower s"
  "to_lower s = [] \<longleftrightarrow> s = []"
  by (simp_all add: to_lower_def to_upper_def)

lemma to_upper_simps [simp, text_simps]:
  "to_upper [] = []"
  "to_upper (c # s) = upper_char c # to_upper s"
  "to_upper (s @ t) = to_upper s @ to_upper t"
  "length (to_upper s) = length s"
  "to_upper (to_lower s) = to_upper s"
  by (simp_all add: to_lower_def to_upper_def)

lemma equal_fold_upper: "equal_fold s t \<longleftrightarrow> to_upper s = to_upper t"
  unfolding equal_fold_def
  by (metis to_lower_simps(6) to_upper_simps(5))

lemma equal_fold_refl [simp]: "equal_fold s s"
  by (simp add: equal_fold_def)

subsection \<open>Trimming\<close>

definition trim_left :: "(char \<Rightarrow> bool) \<Rightarrow> string \<Rightarrow> string" where
  "trim_left p s = dropWhile p s"

definition trim_right :: "(char \<Rightarrow> bool) \<Rightarrow> string \<Rightarrow> string" where
  "trim_right p s = rev (dropWhile p (rev s))"

definition trim_by :: "(char \<Rightarrow> bool) \<Rightarrow> string \<Rightarrow> string" where
  "trim_by p s = trim_right p (trim_left p s)"

definition trim_space :: "string \<Rightarrow> string" where
  "trim_space s = trim_by is_space s"

text \<open>\<open>strings.Trim(s, cutset)\<close>.\<close>

definition trim :: "string \<Rightarrow> string \<Rightarrow> string" where
  "trim s cutset = trim_by (\<lambda>c. c \<in> set cutset) s"

lemmas trim_defs = trim_left_def trim_right_def trim_by_def trim_space_def trim_def

lemma trim_by_Nil [simp]: "trim_by p [] = []" "trim_space [] = []" "trim [] cs = []"
  by (simp_all add: trim_defs)

lemma trim_by_ends:
  assumes "trim_by p s \<noteq> []"
  shows "\<not> p (hd (trim_by p s)) \<and> \<not> p (last (trim_by p s))"
proof -
  let ?l = "dropWhile p s"
  have "dropWhile p (rev ?l) \<noteq> []"
    using assms by (simp add: trim_defs)
  then have last: "\<not> p (last (trim_by p s))"
    by (simp add: trim_defs last_rev hd_dropWhile)
  have "prefix (trim_by p s) ?l"
    by (metis rev_rev_ident suffix_dropWhile suffix_to_prefix trim_by_def trim_left_def trim_right_def)
  then have "hd (trim_by p s) = hd ?l" and "?l \<noteq> []"
    using assms by (auto simp: prefix_def hd_append simp del: dropWhile_eq_Nil_conv)
  with last show ?thesis by (simp add: hd_dropWhile)
qed

lemma trim_by_fixed:
  assumes "s = [] \<or> (\<not> p (hd s) \<and> \<not> p (last s))"
  shows "trim_by p s = s"
proof (cases "s = []")
  case False
  with assms have "dropWhile p s = s" "dropWhile p (rev s) = rev s"
    by (auto simp: dropWhile_eq_self_iff hd_rev)
  then show ?thesis by (simp add: trim_defs)
qed simp

lemma trim_by_idem [simp]: "trim_by p (trim_by p s) = trim_by p s"
  using trim_by_ends [of p s] by (intro trim_by_fixed) auto

lemma trim_space_idem [simp]: "trim_space (trim_space s) = trim_space s"
  by (simp add: trim_space_def)

lemma set_trim_by: "set (trim_by p s) \<subseteq> set s"
  using set_dropWhileD [of _ p s] set_dropWhileD [of _ p "rev (dropWhile p s)"]
  by (auto simp: trim_defs)

lemma dropWhile_to_lower:
  "dropWhile is_space (to_lower s) = to_lower (dropWhile is_space s)"
  by (induction s) auto

lemma rev_to_lower: "rev (to_lower s) = to_lower (rev s)"
  by (simp add: to_lower_def rev_map)

lemma trim_space_to_lower: "trim_space (to_lower s) = to_lower (trim_space s)"
  by (simp add: trim_defs dropWhile_to_lower rev_to_lower)

subsection \<open>Prefixes, suffixes, substrings\<close>

definition has_prefix :: "string \<Rightarrow> string \<Rightarrow> bool" where
  "has_prefix s p = prefix p s"

definition has_suffix :: "string \<Rightarrow> string \<Rightarrow> bool" where
  "has_suffix s p = suffix p s"

definition contains :: "string \<Rightarrow> string \<Rightarrow> bool" where
  "contains s t = sublist t s"

lemma has_prefix_code [simp, text_simps, code]:
  "has_prefix s [] = True"
  "has_prefix [] (p # ps) = False"
  "has_prefix (c # s) (p # ps) = (p = c \<and> has_prefix s ps)"
  by (simp_all add: has_prefix_def)

lemma has_suffix_code [text_simps, code]:
  "has_suffix s p = has_prefix (rev s) (rev p)"
  by (simp add: has_suffix_def has_prefix_def suffix_to_prefix)

lemma contains_code [simp, text_simps, code]:
  "contains [] t = (t = [])"
  "contains (c # s) t = (has_prefix (c # s) t \<or> contains s t)"
  by (simp_all add: contains_def has_prefix_def sublist_Cons_right)

lemma contains_append: "contains s t \<Longrightarrow> contains (u @ s @ v) t"
  unfolding contains_def by (metis sublist_append sublist_appendI sublist_order.order_trans)

lemma has_prefix_append [simp]: "has_prefix (p @ s) p"
  by (simp add: has_prefix_def)

lemma has_prefix_contains: "has_prefix s p \<Longrightarrow> contains s p"
  by (simp add: has_prefix_def contains_def prefix_imp_sublist)

definition trim_prefix :: "string \<Rightarrow> string \<Rightarrow> string" where
  "trim_prefix s p = (if has_prefix s p then drop (length p) s else s)"

definition trim_suffix :: "string \<Rightarrow> string \<Rightarrow> string" where
  "trim_suffix s p = (if has_suffix s p then take (length s - length p) s else s)"

text \<open>\<open>strings.ContainsAny(s, chars)\<close>.\<close>

definition contains_chars :: "string \<Rightarrow> string \<Rightarrow> bool" where
  "contains_chars s cs = list_ex (\<lambda>c. c \<in> set cs) s"

subsection \<open>Splitting and joining\<close>

text \<open>\<open>strings.Index\<close> and \<open>strings.LastIndex\<close> of one byte.\<close>

fun index_char :: "string \<Rightarrow> char \<Rightarrow> nat option" where
  "index_char [] x = None"
| "index_char (c # s) x = (if c = x then Some 0 else map_option Suc (index_char s x))"

fun last_index_char :: "string \<Rightarrow> char \<Rightarrow> nat option" where
  "last_index_char [] x = None"
| "last_index_char (c # s) x =
     (case last_index_char s x of
        Some i \<Rightarrow> Some (Suc i)
      | None \<Rightarrow> if c = x then Some 0 else None)"

lemma last_index_char_None: "last_index_char s x = None \<longleftrightarrow> x \<notin> set s"
  by (induction s) (auto split: option.splits)

lemma last_index_char_Some:
  "last_index_char s x = Some i \<Longrightarrow> i < length s \<and> s ! i = x \<and> x \<notin> set (drop (Suc i) s)"
proof (induction s arbitrary: i)
  case (Cons c s)
  then show ?case
    by (cases "last_index_char s x")
       (auto split: if_splits simp: last_index_char_None)
qed simp

text \<open>\<open>strings.Cut(s, sep)\<close> for a separator of one byte, without its flag.\<close>

definition cut_before :: "string \<Rightarrow> char \<Rightarrow> string" where
  "cut_before s x = takeWhile (\<lambda>c. c \<noteq> x) s"

definition cut_after :: "string \<Rightarrow> char \<Rightarrow> string" where
  "cut_after s x = drop 1 (dropWhile (\<lambda>c. c \<noteq> x) s)"

text \<open>\<open>strings.Split(s, sep)\<close> for a separator of one byte: never empty.\<close>

fun split_char :: "string \<Rightarrow> char \<Rightarrow> string list" where
  "split_char [] x = [[]]"
| "split_char (c # s) x =
     (if c = x then [] # split_char s x
      else (case split_char s x of [] \<Rightarrow> [[c]] | w # ws \<Rightarrow> (c # w) # ws))"

lemma split_char_not_Nil [simp]: "split_char s x \<noteq> []"
  by (cases s) (auto split: list.splits)

lemma split_char_no_sep: "w \<in> set (split_char s x) \<Longrightarrow> x \<notin> set w"
proof (induction s arbitrary: w)
  case (Cons c s)
  show ?case
  proof (cases "split_char s x")
    case (Cons v vs)
    with Cons.IH have "x \<notin> set v" "\<And>u. u \<in> set vs \<Longrightarrow> x \<notin> set u" by auto
    with Cons Cons.prems Cons.IH show ?thesis by (auto split: if_splits)
  qed simp
qed simp

text \<open>The maximal runs of bytes that are not separators: \<open>strings.Fields\<close> for white space.\<close>

fun words_acc :: "(char \<Rightarrow> bool) \<Rightarrow> string \<Rightarrow> string \<Rightarrow> string list" where
  "words_acc sep w [] = (if w = [] then [] else [rev w])"
| "words_acc sep w (c # s) =
     (if sep c then (if w = [] then words_acc sep [] s else rev w # words_acc sep [] s)
      else words_acc sep (c # w) s)"

definition words :: "(char \<Rightarrow> bool) \<Rightarrow> string \<Rightarrow> string list" where
  "words sep s = words_acc sep [] s"

definition str_fields :: "string \<Rightarrow> string list" where
  "str_fields s = words is_space s"

text \<open>\<open>strings.Join\<close>.\<close>

fun join :: "string list \<Rightarrow> string \<Rightarrow> string" where
  "join [] sep = []"
| "join [w] sep = w"
| "join (w # v # ws) sep = w @ sep @ join (v # ws) sep"

lemma words_acc_words:
  "list_all (\<lambda>c. \<not> sep c) w \<Longrightarrow> u \<in> set (words_acc sep w s) \<Longrightarrow>
     u \<noteq> [] \<and> list_all (\<lambda>c. \<not> sep c) u"
  by (induction sep w s rule: words_acc.induct) (auto split: if_splits)

lemma words_mem: "u \<in> set (words sep s) \<Longrightarrow> u \<noteq> [] \<and> list_all (\<lambda>c. \<not> sep c) u"
  using words_acc_words [of sep "[]" u s] by (simp add: words_def)

lemma words_acc_word: "list_all (\<lambda>c. \<not> sep c) u \<Longrightarrow>
    words_acc sep w (u @ s) = words_acc sep (rev u @ w) s"
  by (induction u arbitrary: w) auto

text \<open>Splitting a join of words gives the words back: a text is normalised once for all.\<close>

lemma words_join:
  "sep CHR '' '' \<Longrightarrow> \<forall>u \<in> set ws. u \<noteq> [] \<and> list_all (\<lambda>c. \<not> sep c) u \<Longrightarrow> words sep (join ws '' '') = ws"
proof (induction ws "'' ''" rule: join.induct)
  case (2 w)
  then show ?case using words_acc_word [of sep w "[]" "[]"] by (simp add: words_def)
next
  case (3 w v ws)
  then have "words sep (join (w # v # ws) '' '') = w # words sep (join (v # ws) '' '')"
    using words_acc_word [of sep w "[]" "'' '' @ join (v # ws) '' ''"]
    by (simp add: words_def)
  with 3 show ?case by simp
qed (simp add: words_def)

lemma fields_join_fields [simp]: "str_fields (join (str_fields s) '' '') = str_fields s"
  unfolding str_fields_def by (rule words_join) (auto dest: words_mem)

definition contains_any :: "string \<Rightarrow> string list \<Rightarrow> bool" where
  "contains_any s needles = list_ex (contains s) needles"

lemma contains_any_Nil [simp]: "contains_any s [] = False"
  by (simp add: contains_any_def)

lemma contains_any_Cons [simp]: "contains_any s (n # ns) = (contains s n \<or> contains_any s ns)"
  by (simp add: contains_any_def)

end
