(* ===== verification/GoNet.thy ===== *)
theory GoNet
  imports GoText
begin

text \<open>
  The parsers of Go's \<open>strconv\<close>, \<open>net\<close> and \<open>net/netip\<close> that the gateway uses:
  \<open>strconv.Atoi\<close>, \<open>netip.ParseAddr\<close>, \<open>netip.ParsePrefix\<close>, \<open>net.ParseIP\<close>
  with \<open>To4\<close>, and the address classes it tests.
\<close>

subsection \<open>\<open>strconv.Atoi\<close>\<close>

definition digit_val :: "char \<Rightarrow> nat" where
  "digit_val c = byte c - 48"

definition decimal :: "string \<Rightarrow> nat" where
  "decimal s = foldl (\<lambda>n c. 10 * n + digit_val c) 0 s"

definition all_digits :: "string \<Rightarrow> bool" where
  "all_digits s = (s \<noteq> [] \<and> list_all is_digit s)"

text \<open>An optional sign and decimal digits, within the range of a 64-bit \<open>int\<close>.\<close>

definition atoi :: "string \<Rightarrow> int option" where
  "atoi s =
     (let neg = has_prefix s ''-'';
          ds = (if neg \<or> has_prefix s ''+'' then drop 1 s else s);
          n = (if neg then - int (decimal ds) else int (decimal ds))
      in if all_digits ds \<and> - (2 ^ 63) \<le> n \<and> n < 2 ^ 63 then Some n else None)"

subsection \<open>Addresses\<close>

datatype addr = V4 "nat list" | V6 "nat list" string

definition v4_field :: "string \<Rightarrow> nat option" where
  "v4_field s =
     (if all_digits s \<and> length s \<le> 3 \<and> decimal s \<le> 255 \<and> (length s > 1 \<longrightarrow> hd s \<noteq> CHR ''0'')
      then Some (decimal s) else None)"

fun all_some :: "'a option list \<Rightarrow> 'a list option" where
  "all_some [] = Some []"
| "all_some (None # xs) = None"
| "all_some (Some x # xs) = map_option ((#) x) (all_some xs)"

definition parse_v4 :: "string \<Rightarrow> nat list option" where
  "parse_v4 s =
     (let fs = split_char s CHR ''.''
      in if length fs = 4 then all_some (map v4_field fs) else None)"

lemma all_some_map: "all_some (map f xs) = Some ys \<Longrightarrow> length ys = length xs \<and> list_all2 (\<lambda>x y. f x = Some y) xs ys"
proof (induction xs arbitrary: ys)
  case (Cons x xs)
  then show ?case by (cases "f x"; cases "all_some (map f xs)") auto
qed simp

lemma v4_field_le: "v4_field s = Some n \<Longrightarrow> n \<le> 255"
  by (auto simp: v4_field_def split: if_splits)

lemma all_some_mem: "all_some xs = Some ys \<Longrightarrow> y \<in> set ys \<Longrightarrow> Some y \<in> set xs"
proof (induction xs arbitrary: ys)
  case (Cons x xs)
  then show ?case by (cases x) auto
qed simp

lemma parse_v4_bytes: "parse_v4 s = Some bs \<Longrightarrow> length bs = 4 \<and> (\<forall>b \<in> set bs. b \<le> 255)"
proof -
  assume "parse_v4 s = Some bs"
  then have l: "length (split_char s CHR ''.'') = 4"
    and a: "all_some (map v4_field (split_char s CHR ''.'')) = Some bs"
    by (simp_all add: parse_v4_def Let_def split: if_splits)
  have "\<exists>t. v4_field t = Some b" if "b \<in> set bs" for b
    using all_some_mem [OF a that] by (metis imageE list.set_map)
  then show ?thesis
    using l all_some_map [OF a] by (auto dest: v4_field_le)
qed

lemma digit_val_Char [simp, code]:
  "digit_val (Char b0 b1 b2 b3 b4 b5 b6 b7) =
     of_bool b0 + 2 * of_bool b1 + 4 * of_bool b2 + 8 * of_bool b3 + 16 * of_bool b4
     + 32 * of_bool b5 + 64 * of_bool b6 + 128 * of_bool b7 - 48"
  by (simp add: digit_val_def)

definition is_hex :: "char \<Rightarrow> bool" where
  "is_hex c = (is_digit c \<or> (97 \<le> byte c \<and> byte c \<le> 102) \<or> (65 \<le> byte c \<and> byte c \<le> 70))"

definition hex_val :: "char \<Rightarrow> nat" where
  "hex_val c = (if is_digit c then byte c - 48 else byte (lower_char c) - 87)"

definition hex_number :: "string \<Rightarrow> nat" where
  "hex_number s = foldl (\<lambda>n c. 16 * n + hex_val c) 0 s"

text \<open>
  The loop of \<open>netip.parseIPv6\<close>, which runs at most eight times (two bytes a turn): the bytes
  so far, the place of the \<open>::\<close>, the rest of the text.
\<close>

fun v6_loop :: "nat \<Rightarrow> nat list \<Rightarrow> nat option \<Rightarrow> string \<Rightarrow> (nat list \<times> nat option \<times> string) option" where
  "v6_loop 0 ip ell s = Some (ip, ell, s)"
| "v6_loop (Suc n) ip ell s =
     (let hex = takeWhile is_hex s;
          rest = drop (length hex) s;
          ip' = ip @ [hex_number hex div 256, hex_number hex mod 256]
      in if hex = [] \<or> length hex > 4 then None
         else if rest = [] then Some (ip', ell, [])
         else if hd rest = CHR ''.'' then
           (if (ell = None \<and> length ip \<noteq> 12) \<or> length ip + 4 > 16 then None
            else map_option (\<lambda>b. (ip @ b, ell, [])) (parse_v4 s))
         else if hd rest \<noteq> CHR '':'' \<or> length rest = 1 then None
         else if rest ! 1 = CHR '':'' then
           (if ell \<noteq> None then None
            else if length rest = 2 then Some (ip', Some (length ip'), [])
            else v6_loop n ip' (Some (length ip')) (drop 2 rest))
         else v6_loop n ip' ell (drop 1 rest))"

definition expand_ellipsis :: "nat list \<Rightarrow> nat option \<Rightarrow> nat list option" where
  "expand_ellipsis ip ell =
     (if length ip < 16 then
        map_option (\<lambda>e. take e ip @ replicate (16 - length ip) 0 @ drop e ip) ell
      else if ell = None then Some ip else None)"

definition parse_v6 :: "string \<Rightarrow> addr option" where
  "parse_v6 s =
     (let zoned = CHR ''%'' \<in> set s; zone = cut_after s CHR ''%''; t = cut_before s CHR ''%'' in
      if zoned \<and> zone = [] then None
      else if t = ''::'' then Some (V6 (replicate 16 0) zone)
      else
        (case (if has_prefix t ''::'' then v6_loop 8 [] (Some 0) (drop 2 t) else v6_loop 8 [] None t) of
           None \<Rightarrow> None
         | Some (ip, ell, rest) \<Rightarrow>
             if rest \<noteq> [] then None else map_option (\<lambda>b. V6 b zone) (expand_ellipsis ip ell)))"

text \<open>\<open>netip.ParseAddr\<close>: the first of the bytes \<open>.\<close>, \<open>:\<close>, \<open>%\<close> decides.\<close>

definition parse_addr :: "string \<Rightarrow> addr option" where
  "parse_addr s =
     (case dropWhile (\<lambda>c. c \<notin> set ''.:%'') s of
        [] \<Rightarrow> None
      | c # _ \<Rightarrow> if c = CHR ''.'' then map_option V4 (parse_v4 s)
               else if c = CHR '':'' then parse_v6 s else None)"

text \<open>\<open>netip.ParsePrefix\<close>.\<close>

definition zoned :: "addr \<Rightarrow> bool" where
  "zoned a = (case a of V6 _ z \<Rightarrow> z \<noteq> [] | V4 _ \<Rightarrow> False)"

definition max_bits :: "addr \<Rightarrow> int" where
  "max_bits a = (case a of V4 _ \<Rightarrow> 32 | V6 _ _ \<Rightarrow> 128)"

definition parse_prefix :: "string \<Rightarrow> (addr \<times> nat) option" where
  "parse_prefix s =
     (case last_index_char s CHR ''/'' of
        None \<Rightarrow> None
      | Some i \<Rightarrow>
          (let bits = drop (Suc i) s in
           case parse_addr (take i s) of
             None \<Rightarrow> None
           | Some a \<Rightarrow>
               if zoned a \<or> (length bits > 1 \<and> (byte (hd bits) < 49 \<or> byte (hd bits) > 57)) then None
               else (case atoi bits of
                  None \<Rightarrow> None
                | Some m \<Rightarrow> if m < 0 \<or> m > max_bits a then None else Some (a, nat m))))"

text \<open>
  \<open>net.ParseIP(s).To4()\<close>: the four bytes of an IPv4 address or of an IPv4-mapped IPv6
  address; \<open>None\<close> for any other text, and for an address with a zone.
\<close>

definition to4 :: "addr \<Rightarrow> nat list option" where
  "to4 a =
     (case a of
        V4 bs \<Rightarrow> Some bs
      | V6 bs z \<Rightarrow>
          if z = [] \<and> take 10 bs = replicate 10 0 \<and> bs ! 10 = 255 \<and> bs ! 11 = 255
          then Some (drop 12 bs) else None)"

definition parse_ip4 :: "string \<Rightarrow> nat list option" where
  "parse_ip4 s = (case parse_addr s of None \<Rightarrow> None | Some a \<Rightarrow> if zoned a then None else to4 a)"

subsection \<open>Checks on concrete addresses\<close>

lemma parse_addr_v4_example: "parse_addr ''127.0.0.2'' = Some (V4 [127, 0, 0, 2])"
  by (simp add: parse_addr_def parse_v4_def v4_field_def all_digits_def decimal_def digit_val_def)

end
