(* ===== verification/Httpx.thy ===== *)
theory Httpx
  imports GoNet "HOL-Library.Product_Lexorder" "HOL-Library.List_Lexorder"
begin

text \<open>
  \<open>internal/httpapi/httpx\<close>: the paging of list endpoints and their envelope, and the
  decoded inputs of a handler. A path parameter that \<open>ParseUUID\<close> refuses is \<open>None\<close>,
  a body that \<open>DecodeJSON\<close> refuses is \<open>Inl\<close> its error.
\<close>

record page =
  Limit :: int
  Offset :: int

text \<open>\<open>strconv.Atoi\<close> with its error ignored: 0 for text that is no number (range errors saturate).\<close>

definition atoi_saturating :: "string \<Rightarrow> int" where
  "atoi_saturating s =
     (let neg = has_prefix s ''-'';
          ds = (if neg \<or> has_prefix s ''+'' then drop 1 s else s);
          n = (if neg then - int (decimal ds) else int (decimal ds))
      in if \<not> all_digits ds then 0 else max (- (2 ^ 63)) (min (2 ^ 63 - 1) n))"

definition ParsePage :: "string \<Rightarrow> string \<Rightarrow> page" where
  "ParsePage limit_arg offset_arg =
     (let limit = atoi_saturating limit_arg;
          offset = atoi_saturating offset_arg
      in \<lparr>Limit = (if limit \<le> 0 \<or> limit > 200 then 50 else limit),
          Offset = (if offset < 0 then 0 else offset)\<rparr>)"

record 'a list_envelope =
  Items :: "'a list"
  Total :: nat
  EnvLimit :: int
  EnvOffset :: int

text \<open>\<open>LIMIT $1 OFFSET $2\<close> on rows already in order.\<close>

definition page_rows :: "page \<Rightarrow> 'a list \<Rightarrow> 'a list" where
  "page_rows pg rows = take (nat (Limit pg)) (drop (nat (Offset pg)) rows)"

definition envelope :: "page \<Rightarrow> 'a list \<Rightarrow> 'a list_envelope" where
  "envelope pg rows =
     \<lparr>Items = page_rows pg rows, Total = length rows, EnvLimit = Limit pg, EnvOffset = Offset pg\<rparr>"

lemma ParsePage_bounds:
  "1 \<le> Limit (ParsePage l f) \<and> Limit (ParsePage l f) \<le> 200 \<and> 0 \<le> Offset (ParsePage l f)"
  by (simp add: ParsePage_def Let_def)

lemma page_rows_subset: "set (page_rows pg rows) \<subseteq> set rows"
  unfolding page_rows_def by (meson set_drop_subset set_take_subset subset_trans)

lemma page_rows_length: "length (page_rows pg rows) \<le> nat (Limit pg)"
  by (simp add: page_rows_def)

subsection \<open>Columns of a table\<close>

text \<open>\<open>COALESCE(NULLIF($1, ''), c)\<close> and \<open>COALESCE($1, c)\<close>.\<close>

definition coalesce_text :: "string \<Rightarrow> string \<Rightarrow> string" where
  "coalesce_text arg col = (if arg = '''' then col else arg)"

definition coalesce :: "'a option \<Rightarrow> 'a \<Rightarrow> 'a" where
  "coalesce arg col = (case arg of None \<Rightarrow> col | Some v \<Rightarrow> v)"

lemma coalesce_simps [simp]:
  "coalesce None c = c" "coalesce (Some v) c = v" "coalesce_text '''' t = t"
  by (simp_all add: coalesce_def coalesce_text_def)

text \<open>A \<open>NUMERIC(5,2)\<close> column: two decimals, halves away from zero, three digits before the point.\<close>

definition numeric_5_2 :: "rat \<Rightarrow> rat option" where
  "numeric_5_2 x =
     (let y = (if x < 0 then - of_int \<lfloor>- x * 100 + 1 / 2\<rfloor> else of_int \<lfloor>x * 100 + 1 / 2\<rfloor>) / 100
      in if \<bar>y\<bar> < 1000 then Some y else None)"

text \<open>The rows of a table that a statement's \<open>WHERE id = $1\<close> changes.\<close>

definition update_where :: "('a \<Rightarrow> bool) \<Rightarrow> ('a \<Rightarrow> 'a) \<Rightarrow> 'a list \<Rightarrow> 'a list" where
  "update_where p f rows = map (\<lambda>x. if p x then f x else x) rows"

lemma update_where_simps [simp]:
  "update_where p f [] = []"
  "update_where p f (x # xs) = (if p x then f x else x) # update_where p f xs"
  "length (update_where p f xs) = length xs"
  by (simp_all add: update_where_def)

lemma update_where_other: "x \<in> set xs \<Longrightarrow> \<not> p x \<Longrightarrow> x \<in> set (update_where p f xs)"
  by (force simp: update_where_def)

lemma update_where_key:
  "(\<And>x. p x \<Longrightarrow> k (f x) = k x) \<Longrightarrow> map k (update_where p f xs) = map k xs"
  by (induction xs) auto

lemma update_where_same_key [simp]:
  "key r' = i \<Longrightarrow> map key (update_where (\<lambda>q. key q = i) (\<lambda>_. r') rows) = map key rows"
  by (induction rows) auto

lemma filter_update_where_other:
  "(\<And>x. p x \<Longrightarrow> \<not> q x \<and> \<not> q (f x)) \<Longrightarrow> filter q (update_where p f xs) = filter q xs"
  by (induction xs) auto

end
