(* ===== verification/Tenant.thy ===== *)
theory Tenant
  imports Httpx
begin

text \<open>
  \<open>internal/tenant/scope.go\<close>: which organizations a caller sees. The recursive query is a
  breadth-first walk down \<open>parent_id\<close>; \<open>UNION ALL\<close> keeps no visited set, so the walk ends
  only because the parents form a forest. The bound on its rounds is the size of the table.
\<close>

record organization =
  org_ID :: uuid
  org_Name :: string
  org_Slug :: string
  org_ParentID :: "uuid option"
  org_IsSystem :: bool
  org_IsActive :: bool

record identity =
  id_UserID :: uuid
  id_OrganizationID :: uuid
  id_Email :: string
  id_Role :: string
  id_Impersonator :: "uuid option"
  id_ImpersonatorEmail :: string

record scope =
  IsSuperAdmin :: bool
  OrgID :: uuid
  VisibleOrgIDs :: "uuid list"

fun visible_loop :: "uuid \<Rightarrow> uuid list \<Rightarrow> bool" where
  "visible_loop i [] = False"
| "visible_loop i (v # vs) = (if v = i then True else visible_loop i vs)"

definition Allows :: "scope \<Rightarrow> uuid \<Rightarrow> bool" where
  "Allows s i =
     (if IsSuperAdmin s then True
      else if visible_loop i (VisibleOrgIDs s) then True
      else i = OrgID s)"

definition CanAdmin :: "scope \<Rightarrow> string \<Rightarrow> uuid \<Rightarrow> bool" where
  "CanAdmin s role i =
     (if IsSuperAdmin s then True
      else if \<not> Allows s i then False
      else role = ''super_admin'' \<or> role = ''msp_admin'' \<or> role = ''org_admin'')"

text \<open>One round of the recursive query: the organizations whose parent is in the last round's rows.\<close>

definition children :: "organization list \<Rightarrow> uuid list \<Rightarrow> uuid list" where
  "children orgs front =
     concat (map (\<lambda>t. map org_ID (filter (\<lambda>o'. org_ParentID o' = Some t) orgs)) front)"

fun tree_walk :: "nat \<Rightarrow> organization list \<Rightarrow> uuid list \<Rightarrow> uuid list option" where
  "tree_walk n orgs [] = Some []"
| "tree_walk 0 orgs (x # xs) = None"
| "tree_walk (Suc n) orgs (x # xs) =
     map_option ((@) (x # xs)) (tree_walk n orgs (children orgs (x # xs)))"

definition tree_query :: "organization list \<Rightarrow> uuid \<Rightarrow> uuid list option" where
  "tree_query orgs caller =
     tree_walk (Suc (length orgs)) orgs (filter (\<lambda>i. i = caller) (map org_ID orgs))"

text \<open>The outer option is \<open>None\<close> when the query does not end.\<close>

definition ScopeForIdentity :: "faults \<Rightarrow> organization list \<Rightarrow> identity \<Rightarrow> scope result option" where
  "ScopeForIdentity err orgs ident =
     (let scope = \<lparr>IsSuperAdmin = (id_Role ident = ''super_admin''),
                   OrgID = id_OrganizationID ident, VisibleOrgIDs = []\<rparr>
      in if IsSuperAdmin scope then Some (Inr scope)
         else if err ''scope tree'' then Some (Inl ''scope tree'')
         else map_option (\<lambda>ids. Inr (scope\<lparr>VisibleOrgIDs := ids\<rparr>))
                (tree_query orgs (id_OrganizationID ident)))"

definition FromContext ::
  "faults \<Rightarrow> organization list \<Rightarrow> identity option \<Rightarrow> (scope \<times> identity) result option" where
  "FromContext err orgs ctx =
     (case ctx of
        None \<Rightarrow> Some (Inl ''no identity in context'')
      | Some ident \<Rightarrow>
          map_option (\<lambda>r. case r of Inl e \<Rightarrow> Inl e | Inr s \<Rightarrow> Inr (s, ident))
            (ScopeForIdentity err orgs ident))"

subsection \<open>Membership\<close>

lemma visible_loop_iff [simp]: "visible_loop i vs \<longleftrightarrow> i \<in> set vs"
  by (induction vs) auto

lemma Allows_iff: "Allows s i \<longleftrightarrow> IsSuperAdmin s \<or> i \<in> set (VisibleOrgIDs s) \<or> i = OrgID s"
  by (simp add: Allows_def)

lemma CanAdmin_Allows: "CanAdmin s role i \<Longrightarrow> Allows s i"
  by (auto simp: CanAdmin_def Allows_iff split: if_splits)

lemma CanAdmin_role:
  "CanAdmin s role i \<Longrightarrow> \<not> IsSuperAdmin s \<Longrightarrow> role \<in> {''super_admin'', ''msp_admin'', ''org_admin''}"
  by (auto simp: CanAdmin_def split: if_splits)

subsection \<open>The forest of organizations\<close>

text \<open>
  An organization is inserted under a parent that exists and no operation changes
  \<open>parent_id\<close> later: in the order of insertion every parent comes before its children.
\<close>

fun orgs_from :: "uuid list \<Rightarrow> organization list \<Rightarrow> bool" where
  "orgs_from seen [] = True"
| "orgs_from seen (r # rs) =
     (org_ID r \<notin> set seen \<and>
      (case org_ParentID r of None \<Rightarrow> True | Some p \<Rightarrow> p \<in> set seen) \<and>
      orgs_from (org_ID r # seen) rs)"

definition wf_orgs :: "organization list \<Rightarrow> bool" where
  "wf_orgs orgs = orgs_from [] orgs"

definition parent_rel :: "organization list \<Rightarrow> (uuid \<times> uuid) set" where
  "parent_rel orgs = {(p, c). \<exists>r \<in> set orgs. org_ID r = c \<and> org_ParentID r = Some p}"

lemma set_children: "set (children orgs front) = {c. \<exists>p \<in> set front. (p, c) \<in> parent_rel orgs}"
  by (auto simp: children_def parent_rel_def)

lemma orgs_from_ids:
  "orgs_from seen orgs \<Longrightarrow> distinct (map org_ID orgs) \<and> set (map org_ID orgs) \<inter> set seen = {}"
  by (induction seen orgs rule: orgs_from.induct) auto

text \<open>A rank below the size of the table that grows from parent to child.\<close>

lemma orgs_from_rank:
  assumes "orgs_from seen orgs"
  shows "\<exists>rk :: uuid \<Rightarrow> nat. \<forall>r \<in> set orgs. rk (org_ID r) \<ge> length seen \<and>
           rk (org_ID r) < length seen + length orgs \<and>
           (\<forall>p. org_ParentID r = Some p \<longrightarrow> p \<in> set seen \<or> (p \<in> org_ID ` set orgs \<and> rk p < rk (org_ID r)))"
  using assms
proof (induction seen orgs rule: orgs_from.induct)
  case (2 seen r rs)
  then obtain rk where rk: "\<forall>x \<in> set rs. rk (org_ID x) \<ge> length (org_ID r # seen) \<and>
           rk (org_ID x) < length (org_ID r # seen) + length rs \<and>
           (\<forall>p. org_ParentID x = Some p \<longrightarrow>
              p \<in> set (org_ID r # seen) \<or> (p \<in> org_ID ` set rs \<and> rk p < rk (org_ID x)))"
    by auto
  have new: "org_ID r \<notin> org_ID ` set rs"
    using orgs_from_ids [of "org_ID r # seen" rs] 2 by auto
  have rest: "\<forall>x \<in> set rs. (rk(org_ID r := length seen)) (org_ID x) = rk (org_ID x)"
    using new by (auto simp: image_iff)
  show ?case
    using 2 rk rest new
    by (intro exI [of _ "rk(org_ID r := length seen)"]) (auto split: option.splits simp: image_iff; force)
qed simp

lemma wf_orgs_rank:
  assumes "wf_orgs orgs"
  obtains rk :: "uuid \<Rightarrow> nat" where
    "\<And>r. r \<in> set orgs \<Longrightarrow> rk (org_ID r) < length orgs"
    "\<And>p c. (p, c) \<in> parent_rel orgs \<Longrightarrow> rk p < rk c"
    "\<And>p c. (p, c) \<in> parent_rel orgs \<Longrightarrow> c \<in> org_ID ` set orgs"
  using orgs_from_rank [of "[]" orgs] assms unfolding wf_orgs_def parent_rel_def by fastforce

lemma wf_orgs_parents:
  assumes "wf_orgs orgs" "(p, c) \<in> parent_rel orgs"
  shows "p \<in> org_ID ` set orgs"
  using orgs_from_rank [of "[]" orgs] assms unfolding wf_orgs_def parent_rel_def by fastforce

text \<open>Enough rounds end the walk; what it returns is the reachable part of the forest.\<close>

lemma tree_walk_ends:
  assumes rk: "\<And>r. r \<in> set orgs \<Longrightarrow> rk (org_ID r) < length orgs"
    "\<And>p c. (p, c) \<in> parent_rel orgs \<Longrightarrow> (rk p :: nat) < rk c"
    "\<And>p c. (p, c) \<in> parent_rel orgs \<Longrightarrow> c \<in> org_ID ` set orgs"
    and "\<And>x. x \<in> set front \<Longrightarrow> x \<in> org_ID ` set orgs \<and> rk x + n \<ge> length orgs"
  shows "\<exists>ids. tree_walk n orgs front = Some ids"
  using assms(4)
proof (induction n arbitrary: front)
  case 0
  then have "front = []"
    using rk(1) by (cases front) fastforce+
  then show ?case by simp
next
  case (Suc n)
  have "\<exists>ids. tree_walk n orgs (children orgs front) = Some ids"
  proof (rule Suc.IH)
    fix x
    assume "x \<in> set (children orgs front)"
    then obtain p where p: "p \<in> set front" "(p, x) \<in> parent_rel orgs"
      by (auto simp: set_children)
    then show "x \<in> org_ID ` set orgs \<and> length orgs \<le> rk x + n"
      using rk(2,3) [OF p(2)] Suc.prems [OF p(1)] by auto
  qed
  then show ?case by (cases front) auto
qed

lemma tree_walk_reaches:
  "tree_walk n orgs front = Some ids \<Longrightarrow>
     d \<in> set ids \<longleftrightarrow> (\<exists>f \<in> set front. (f, d) \<in> (parent_rel orgs)\<^sup>*)"
proof (induction n arbitrary: front ids)
  case 0
  then show ?case by (cases front) auto
next
  case (Suc n)
  show ?case
  proof (cases front)
    case (Cons x xs)
    with Suc.prems obtain more where more: "tree_walk n orgs (children orgs front) = Some more"
      and ids: "ids = front @ more" by auto
    have "d \<in> set more \<longleftrightarrow> (\<exists>f \<in> set front. (f, d) \<in> (parent_rel orgs)\<^sup>+)"
      unfolding Suc.IH [OF more] set_children
      by (auto intro: rtrancl_into_trancl2) (blast dest: tranclD)
    then show ?thesis unfolding ids by (auto simp: rtrancl_eq_or_trancl)
  qed (use Suc.prems in simp)
qed

lemma tree_query_descendants:
  assumes "wf_orgs orgs" "caller \<in> org_ID ` set orgs"
  shows "\<exists>ids. tree_query orgs caller = Some ids \<and> set ids = {d. (caller, d) \<in> (parent_rel orgs)\<^sup>*}"
proof -
  obtain rk :: "uuid \<Rightarrow> nat" where rk: "\<And>r. r \<in> set orgs \<Longrightarrow> rk (org_ID r) < length orgs"
    "\<And>p c. (p, c) \<in> parent_rel orgs \<Longrightarrow> rk p < rk c"
    "\<And>p c. (p, c) \<in> parent_rel orgs \<Longrightarrow> c \<in> org_ID ` set orgs"
    using wf_orgs_rank [OF assms(1)] by blast
  have "\<exists>ids. tree_query orgs caller = Some ids"
    unfolding tree_query_def by (rule tree_walk_ends [where rk = rk]) (auto simp: rk)
  then obtain ids where ids: "tree_query orgs caller = Some ids" by blast
  then have "d \<in> set ids \<longleftrightarrow> (caller, d) \<in> (parent_rel orgs)\<^sup>*" for d
    using tree_walk_reaches [OF ids [unfolded tree_query_def]] assms(2) by auto
  with ids show ?thesis by blast
qed

subsection \<open>Tables guarded by the caller's scope\<close>

text \<open>What \<open>CanAdmin\<close> grants the caller that \<open>FromContext\<close> found; a failed lookup grants nothing.\<close>

definition may_admin :: "(scope \<times> identity) result \<Rightarrow> uuid \<Rightarrow> bool" where
  "may_admin sc i = (case sc of Inl _ \<Rightarrow> False | Inr (s, ident) \<Rightarrow> CanAdmin s (id_Role ident) i)"

text \<open>What an optional owner leaves open: a row without one is anybody's.\<close>

definition may_admin_row :: "('row \<Rightarrow> uuid option) \<Rightarrow> (scope \<times> identity) result \<Rightarrow> 'row \<Rightarrow> bool" where
  "may_admin_row owner sc r = (case owner r of None \<Rightarrow> True | Some i \<Rightarrow> may_admin sc i)"

text \<open>
  What one request may do to a table with a primary key: nothing, insert a row under a new key,
  or update or delete the row of a key that the caller may change.
\<close>

inductive table_change :: "('row \<Rightarrow> uuid) \<Rightarrow> ('row \<Rightarrow> bool) \<Rightarrow> 'row list \<Rightarrow> 'row list \<Rightarrow> bool"
  for key may where
  keep: "table_change key may rows rows"
| insert: "key r \<notin> key ` set rows \<Longrightarrow> table_change key may rows (rows @ [r])"
| update: "r \<in> set rows \<Longrightarrow> key r' = key r \<Longrightarrow> may r \<Longrightarrow>
    table_change key may rows (update_where (\<lambda>q. key q = key r) (\<lambda>_. r') rows)"
| delete: "r \<in> set rows \<Longrightarrow> may r \<Longrightarrow> table_change key may rows (filter (\<lambda>q. key q \<noteq> key r) rows)"

lemma table_change_distinct:
  "table_change key may rows rows' \<Longrightarrow> distinct (map key rows) \<Longrightarrow> distinct (map key rows')"
  by (induction rule: table_change.induct) (auto simp: distinct_map_filter)

lemma table_change_foreign:
  "table_change key may rows rows' \<Longrightarrow> distinct (map key rows) \<Longrightarrow> r \<in> set rows \<Longrightarrow> \<not> may r \<Longrightarrow> r \<in> set rows'"
proof (induction rule: table_change.induct)
  case (update r1 rows r2)
  then have "key r \<noteq> key r1" by (metis distinct_map inj_onD)
  with update show ?case by (simp add: update_where_other)
next
  case (delete r1 rows)
  then have "key r \<noteq> key r1" by (metis distinct_map inj_onD)
  with delete show ?case by simp
qed auto

lemma table_change_update:
  assumes "r \<in> set rows" "may r" "key (f r) = key r" "distinct (map key rows)"
  shows "table_change key may rows (update_where (\<lambda>q. key q = key r) f rows)"
proof -
  have "update_where (\<lambda>q. key q = key r) f rows = update_where (\<lambda>q. key q = key r) (\<lambda>_. f r) rows"
    using assms(1,4) by (auto simp: update_where_def distinct_map inj_on_def)
  with table_change.update [of r rows key "f r" may] assms show ?thesis by simp
qed

text \<open>
  The contract of a resource whose rows only some callers may change: each request is such a change.
  Any series of requests from callers that may not change a row keeps it.
\<close>

locale tenant_state =
  fixes step :: "'cmd \<Rightarrow> (scope \<times> identity) result \<Rightarrow> 'st \<Rightarrow> 'st"
    and table :: "'st \<Rightarrow> 'row list"
    and key :: "'row \<Rightarrow> uuid"
    and may :: "(scope \<times> identity) result \<Rightarrow> 'row \<Rightarrow> bool"
  assumes step_change: "distinct (map key (table s)) \<Longrightarrow> table_change key (may sc) (table s) (table (step cmd sc s))"
begin

lemma requests_distinct:
  "distinct (map key (table s)) \<Longrightarrow> distinct (map key (table (foldl (\<lambda>s (cmd, sc). step cmd sc s) s reqs)))"
  by (induction reqs arbitrary: s) (auto intro: table_change_distinct [OF step_change])

lemma requests_foreign:
  "distinct (map key (table s)) \<Longrightarrow> r \<in> set (table s) \<Longrightarrow> list_all (\<lambda>(_, sc). \<not> may sc r) reqs \<Longrightarrow>
     r \<in> set (table (foldl (\<lambda>s (cmd, sc). step cmd sc s) s reqs))"
  by (induction reqs arbitrary: s)
     (auto intro: table_change_distinct [OF step_change] table_change_foreign [OF step_change])

end

text \<open>The special case of a state that is the table.\<close>

locale tenant_table =
  fixes step :: "'cmd \<Rightarrow> (scope \<times> identity) result \<Rightarrow> 'row list \<Rightarrow> 'row list"
    and key :: "'row \<Rightarrow> uuid"
    and may :: "(scope \<times> identity) result \<Rightarrow> 'row \<Rightarrow> bool"
  assumes row_step_change: "distinct (map key rows) \<Longrightarrow> table_change key (may sc) rows (step cmd sc rows)"

sublocale tenant_table \<subseteq> tenant_state step "\<lambda>rows. rows" key may
  by unfold_locales (rule row_step_change)

text \<open>In a forest the caller administers exactly an organization and its descendants.\<close>

lemma FromContext_admin:
  assumes "wf_orgs orgs" "id_OrganizationID ident \<in> org_ID ` set orgs" "id_Role ident \<noteq> ''super_admin''"
    "FromContext err orgs (Some ident) = Some sc" "may_admin sc i"
  shows "(id_OrganizationID ident, i) \<in> (parent_rel orgs)\<^sup>*"
proof -
  obtain ids where ids: "tree_query orgs (id_OrganizationID ident) = Some ids"
    "set ids = {d. (id_OrganizationID ident, d) \<in> (parent_rel orgs)\<^sup>*}"
    using tree_query_descendants [OF assms(1,2)] by blast
  then have "sc = Inl ''scope tree'' \<or>
      sc = Inr (\<lparr>IsSuperAdmin = False, OrgID = id_OrganizationID ident, VisibleOrgIDs = ids\<rparr>, ident)"
    using assms(3,4) by (simp add: FromContext_def ScopeForIdentity_def Let_def split: if_splits)
  then have "i \<in> set ids \<or> i = id_OrganizationID ident"
    using assms(5) CanAdmin_Allows by (fastforce simp: may_admin_def Allows_iff)
  then show ?thesis using ids(2) by blast
qed

text \<open>Two organizations without parents and an administrator of the first, for concrete instances.\<close>

definition sample_org :: "uuid \<Rightarrow> uuid option \<Rightarrow> organization" where
  "sample_org i parent = \<lparr>org_ID = i, org_Name = ''o'', org_Slug = ''o'', org_ParentID = parent,
     org_IsSystem = False, org_IsActive = True\<rparr>"

definition sample_caller :: "uuid \<Rightarrow> string \<Rightarrow> scope \<times> identity" where
  "sample_caller i role =
     (\<lparr>IsSuperAdmin = False, OrgID = i, VisibleOrgIDs = [i]\<rparr>,
      \<lparr>id_UserID = 1, id_OrganizationID = i, id_Email = ''a@b.c'', id_Role = role, id_Impersonator = None, id_ImpersonatorEmail = []\<rparr>)"

lemmas sample_simps = sample_org_def sample_caller_def may_admin_def CanAdmin_def Allows_def

text \<open>C30 (tenant scope): over any forest of organizations the recursive query ends, and the scope of a
  caller who is not a super administrator allows exactly the caller's organization and its
  descendants.\<close>

theorem scope_is_subtree:
  assumes "wf_orgs orgs" "id_OrganizationID ident \<in> org_ID ` set orgs" "id_Role ident \<noteq> ''super_admin''"
  shows "\<exists>s. FromContext no_faults orgs (Some ident) = Some (Inr (s, ident)) \<and>
           {i. Allows s i} = {i. (id_OrganizationID ident, i) \<in> (parent_rel orgs)\<^sup>*}"
proof -
  obtain ids where ids: "tree_query orgs (id_OrganizationID ident) = Some ids"
    "set ids = {d. (id_OrganizationID ident, d) \<in> (parent_rel orgs)\<^sup>*}"
    using tree_query_descendants [OF assms(1,2)] by blast
  then have "FromContext no_faults orgs (Some ident) =
      Some (Inr (\<lparr>IsSuperAdmin = False, OrgID = id_OrganizationID ident, VisibleOrgIDs = ids\<rparr>, ident))"
    using assms(3) by (simp add: FromContext_def ScopeForIdentity_def Let_def)
  moreover have "{i. Allows \<lparr>IsSuperAdmin = False, OrgID = id_OrganizationID ident, VisibleOrgIDs = ids\<rparr> i} =
      {i. (id_OrganizationID ident, i) \<in> (parent_rel orgs)\<^sup>*}"
    using ids(2) by (auto simp: Allows_iff)
  ultimately show ?thesis by blast
qed

lemma scope_is_subtree_witness:
  "\<exists>s. FromContext no_faults [sample_org 1 None, sample_org 2 (Some 1)] (Some (snd (sample_caller 1 ''org_admin'')))
         = Some (Inr (s, snd (sample_caller 1 ''org_admin'')))"
  using scope_is_subtree [of "[sample_org 1 None, sample_org 2 (Some 1)]" "snd (sample_caller 1 ''org_admin'')"]
  by (auto simp: sample_org_def sample_caller_def wf_orgs_def)

end
