(* ===== verification/Policies.thy ===== *)
theory Policies
  imports Tenant
begin

text \<open>
  \<open>internal/policies\<close>: the policy row with its settings, the CRUD handlers of
  \<open>policies.go\<close> and the resolution order of \<open>resolve.go\<close>. The text that a Postgres error
  adds to a message after its colon is not modelled.
\<close>

subsection \<open>Policies and their settings\<close>

record Policy =
  p_ID :: uuid
  p_OrganizationID :: "uuid option"
  p_DomainID :: "uuid option"
  p_Name :: string
  p_SpamThreshold :: rat
  p_QuarantineThreshold :: rat
  p_RejectThreshold :: rat
  p_DMARCEnforce :: bool
  p_EnableGreylist :: bool
  p_QuarantineAction :: string
  p_Settings :: json_map
  p_IsDefault :: bool
  p_CreatedAt :: nat
  p_UpdatedAt :: nat

text \<open>A \<open>*Policy\<close> that may be nil is an option; a nil map reads like an empty one.\<close>

definition setting :: "Policy option \<Rightarrow> string \<Rightarrow> json option" where
  "setting p key = (case p of None \<Rightarrow> None | Some q \<Rightarrow> map_of (p_Settings q) key)"

definition boolSetting :: "Policy option \<Rightarrow> string \<Rightarrow> bool \<Rightarrow> bool" where
  "boolSetting p key fallback =
     (case setting p key of
        None \<Rightarrow> fallback
      | Some (JBool b) \<Rightarrow> b
      | Some (JStr s) \<Rightarrow>
          if s \<in> {''false'', ''0'', ''off''} then False
          else if s \<in> {''true'', ''1'', ''on''} then True
          else fallback
      | Some _ \<Rightarrow> fallback)"

definition SenderBlacklistEnabled :: "Policy option \<Rightarrow> bool" where
  "SenderBlacklistEnabled p = boolSetting p ''sender_blacklist_enabled'' True"

definition ChallengeResponseEnabled :: "Policy option \<Rightarrow> bool" where
  "ChallengeResponseEnabled p = boolSetting p ''challenge_response_enabled'' False"

definition ChallengeResponseRequireVerifiedSource :: "Policy option \<Rightarrow> bool" where
  "ChallengeResponseRequireVerifiedSource p = boolSetting p ''challenge_response_require_verified_source'' True"

definition BrandImpersonationEnabled :: "Policy option \<Rightarrow> bool" where
  "BrandImpersonationEnabled p = boolSetting p ''brand_impersonation_enabled'' True"

definition BrandImpersonationDisplayNameEnabled :: "Policy option \<Rightarrow> bool" where
  "BrandImpersonationDisplayNameEnabled p = boolSetting p ''brand_impersonation_display_name_enabled'' True"

definition BrandImpersonationSubjectEnabled :: "Policy option \<Rightarrow> bool" where
  "BrandImpersonationSubjectEnabled p = boolSetting p ''brand_impersonation_subject_enabled'' True"

definition BrandImpersonationLinkMismatchEnabled :: "Policy option \<Rightarrow> bool" where
  "BrandImpersonationLinkMismatchEnabled p = boolSetting p ''brand_impersonation_link_mismatch_enabled'' True"

definition BrandImpersonationThirdPartyReceiptsEnabled :: "Policy option \<Rightarrow> bool" where
  "BrandImpersonationThirdPartyReceiptsEnabled p =
     boolSetting p ''brand_impersonation_third_party_receipts_enabled'' True"

definition CommonScamDetectionEnabled :: "Policy option \<Rightarrow> bool" where
  "CommonScamDetectionEnabled p = boolSetting p ''common_scam_detection_enabled'' True"

definition CommonScamCategoryEnabled :: "Policy option \<Rightarrow> string \<Rightarrow> bool" where
  "CommonScamCategoryEnabled p slug = boolSetting p (''common_scam_'' @ slug @ ''_enabled'') True"

definition truncate_rat :: "rat \<Rightarrow> int" where
  "truncate_rat x = (if x < 0 then - \<lfloor>- x\<rfloor> else \<lfloor>x\<rfloor>)"

definition CampaignThreshold :: "Policy option \<Rightarrow> int" where
  "CampaignThreshold p =
     (case setting p ''campaign_threshold'' of
        None \<Rightarrow> 25
      | Some raw \<Rightarrow>
          (let value = (case raw of
                 JNum x \<Rightarrow> truncate_rat x
               | JStr s \<Rightarrow> atoi_saturating (trim_space s)
               | _ \<Rightarrow> 0)
           in if value < 2 \<or> value > 10000 then 25 else value))"

definition CampaignAction :: "Policy option \<Rightarrow> string" where
  "CampaignAction p =
     (let value = (case setting p ''campaign_action'' of Some (JStr s) \<Rightarrow> s | _ \<Rightarrow> []);
          v = to_lower (trim_space value)
      in if v \<in> {''aggregate'', ''reject'', ''discard''} then v else ''aggregate'')"

lemma CampaignThreshold_bounds: "2 \<le> CampaignThreshold p \<and> CampaignThreshold p \<le> 10000"
  by (auto simp: CampaignThreshold_def Let_def split: option.splits)

lemma CampaignAction_range: "CampaignAction p \<in> {''aggregate'', ''reject'', ''discard''}"
  by (auto simp: CampaignAction_def Let_def)

subsection \<open>\<open>Resolve\<close>\<close>

definition hardcodedDefault :: Policy where
  "hardcodedDefault =
     \<lparr>p_ID = 0, p_OrganizationID = None, p_DomainID = None, p_Name = ''fallback-default'',
      p_SpamThreshold = 5, p_QuarantineThreshold = 10, p_RejectThreshold = 15,
      p_DMARCEnforce = False, p_EnableGreylist = True, p_QuarantineAction = ''quarantine'',
      p_Settings =
        [(''source'', JStr ''hardcoded''),
         (''sender_blacklist_enabled'', JBool True),
         (''challenge_response_enabled'', JBool False),
         (''challenge_response_require_verified_source'', JBool True),
         (''brand_impersonation_enabled'', JBool True),
         (''brand_impersonation_display_name_enabled'', JBool True),
         (''brand_impersonation_subject_enabled'', JBool True),
         (''brand_impersonation_link_mismatch_enabled'', JBool True),
         (''brand_impersonation_third_party_receipts_enabled'', JBool True),
         (''common_scam_detection_enabled'', JBool True),
         (''common_scam_credential_phishing_enabled'', JBool True),
         (''common_scam_payment_support_enabled'', JBool True),
         (''common_scam_tax_document_enabled'', JBool True),
         (''common_scam_malware_lure_enabled'', JBool True),
         (''common_scam_health_miracle_enabled'', JBool True),
         (''common_scam_home_services_enabled'', JBool True)],
      p_IsDefault = True, p_CreatedAt = 0, p_UpdatedAt = 0\<rparr>"

text \<open>
  The query's walk up \<open>parent_id\<close>: the organization and its ancestors with their distance.
  \<open>org_by_id\<close> is the row of a primary key. The walk has as many rounds as rows at most.
\<close>

definition org_by_id :: "organization list \<Rightarrow> uuid \<Rightarrow> organization option" where
  "org_by_id orgs i = find (\<lambda>r. org_ID r = i) orgs"

fun ancestors :: "nat \<Rightarrow> organization list \<Rightarrow> nat \<Rightarrow> uuid \<Rightarrow> (uuid \<times> nat) list" where
  "ancestors 0 orgs depth i = []"
| "ancestors (Suc n) orgs depth i =
     (case org_by_id orgs i of
        None \<Rightarrow> []
      | Some r \<Rightarrow>
          (i, depth) #
          (case org_ParentID r of None \<Rightarrow> [] | Some p \<Rightarrow> ancestors n orgs (Suc depth) p))"

definition resolve_domain :: "Policy list \<Rightarrow> uuid \<Rightarrow> Policy option" where
  "resolve_domain pols d =
     first_by (\<lambda>p. - int (p_UpdatedAt p)) (filter (\<lambda>p. p_DomainID p = Some d) pols)"

definition resolve_org :: "organization list \<Rightarrow> Policy list \<Rightarrow> uuid \<Rightarrow> Policy option" where
  "resolve_org orgs pols i =
     map_option fst
       (first_by (\<lambda>(p, depth). (depth, - int (p_UpdatedAt p)))
          (concat (map (\<lambda>(a, depth).
             map (\<lambda>p. (p, depth))
               (filter (\<lambda>p. p_OrganizationID p = Some a \<and> p_DomainID p = None) pols))
             (ancestors (length orgs) orgs 0 i))))"

definition resolve_default :: "Policy list \<Rightarrow> Policy option" where
  "resolve_default pols = first_by (\<lambda>p. - int (p_UpdatedAt p)) (filter p_IsDefault pols)"

definition Resolve ::
  "faults \<Rightarrow> organization list \<Rightarrow> Policy list \<Rightarrow> uuid option \<Rightarrow> uuid option \<Rightarrow> Policy result" where
  "Resolve err orgs pols domainID orgID =
     (let step3 =
        (if err ''policy default'' then Inl ''policy default''
         else case resolve_default pols of Some p \<Rightarrow> Inr p | None \<Rightarrow> Inr hardcodedDefault);
        step2 =
        (case orgID of
           None \<Rightarrow> step3
         | Some i \<Rightarrow>
             if err ''policy org'' then Inl ''policy org''
             else case resolve_org orgs pols i of Some p \<Rightarrow> Inr p | None \<Rightarrow> step3)
      in case domainID of
           None \<Rightarrow> step2
         | Some d \<Rightarrow>
             if err ''policy domain'' then Inl ''policy domain''
             else case resolve_domain pols d of Some p \<Rightarrow> Inr p | None \<Rightarrow> step2)"

subsection \<open>The handlers of \<open>/api/v1/policies\<close>\<close>

record policyWriteReq =
  pw_OrganizationID :: "uuid option"
  pw_DomainID :: "uuid option"
  pw_Name :: string
  pw_SpamThreshold :: "rat option"
  pw_QuarantineThreshold :: "rat option"
  pw_RejectThreshold :: "rat option"
  pw_DMARCEnforce :: "bool option"
  pw_EnableGreylist :: "bool option"
  pw_QuarantineAction :: string
  pw_Settings :: "json_map option"

text \<open>The labels of the enum \<open>policy_action\<close>; a cast of any other text fails.\<close>

definition policy_action :: "string \<Rightarrow> string option" where
  "policy_action s = (if s \<in> {''deliver'', ''tag'', ''quarantine'', ''reject''} then Some s else None)"

text \<open>
  The statement's row, \<open>None\<close> when a cast, a numeric range or a foreign key refuses it. A domain
  is the pair of its id and the id of its organization.
\<close>

definition insert_policy_row ::
  "organization list \<Rightarrow> (uuid \<times> uuid) list \<Rightarrow> uuid \<Rightarrow> nat \<Rightarrow> uuid \<Rightarrow> policyWriteReq \<Rightarrow> Policy option" where
  "insert_policy_row orgs doms new_id now orgID req =
     (case (numeric_5_2 (coalesce (pw_SpamThreshold req) 5),
            numeric_5_2 (coalesce (pw_QuarantineThreshold req) 10),
            numeric_5_2 (coalesce (pw_RejectThreshold req) 15),
            if pw_QuarantineAction req = '''' then Some ''quarantine'' else policy_action (pw_QuarantineAction req)) of
        (Some spam, Some quar, Some rej, Some act) \<Rightarrow>
          if org_by_id orgs orgID = None \<or>
             (case pw_DomainID req of None \<Rightarrow> False | Some d \<Rightarrow> d \<notin> fst ` set doms) then None
          else Some
            \<lparr>p_ID = new_id, p_OrganizationID = Some orgID, p_DomainID = pw_DomainID req, p_Name = pw_Name req,
             p_SpamThreshold = spam, p_QuarantineThreshold = quar, p_RejectThreshold = rej,
             p_DMARCEnforce = coalesce (pw_DMARCEnforce req) False,
             p_EnableGreylist = coalesce (pw_EnableGreylist req) True,
             p_QuarantineAction = act, p_Settings = coalesce (pw_Settings req) [],
             p_IsDefault = False, p_CreatedAt = now, p_UpdatedAt = now\<rparr>
      | _ \<Rightarrow> None)"

definition policy_defaults :: "policyWriteReq \<Rightarrow> policyWriteReq" where
  "policy_defaults req =
     (let req1 = (if pw_QuarantineAction req = '''' then req\<lparr>pw_QuarantineAction := ''tag''\<rparr> else req)
      in if pw_Settings req1 = None then req1\<lparr>pw_Settings := Some []\<rparr> else req1)"

lemma policy_defaults_simps [simp]:
  "pw_DomainID (policy_defaults req) = pw_DomainID req"
  "pw_Name (policy_defaults req) = pw_Name req"
  by (simp_all add: policy_defaults_def Let_def)

definition create_policy ::
  "faults \<Rightarrow> organization list \<Rightarrow> (uuid \<times> uuid) list \<Rightarrow> uuid \<Rightarrow> nat \<Rightarrow> (scope \<times> identity) result \<Rightarrow>
     policyWriteReq result \<Rightarrow> Policy list \<Rightarrow> Policy response \<times> Policy list" where
  "create_policy err orgs doms new_id now sc body pols =
     (case sc of
        Inl e \<Rightarrow> (WriteError 500 ''scope'', pols)
      | Inr (scope, ident) \<Rightarrow>
          case body of
            Inl e \<Rightarrow> (WriteError 400 e, pols)
          | Inr req \<Rightarrow>
              if pw_Name req = '''' then (WriteError 400 ''name required'', pols)
              else
                (let orgID = coalesce (pw_OrganizationID req) (id_OrganizationID ident) in
                 if \<not> CanAdmin scope (id_Role ident) orgID then
                   (WriteError 403 ''forbidden for that organization'', pols)
                 else
                   (case (if err ''insert policies'' \<or> new_id \<in> p_ID ` set pols then None
                          else insert_policy_row orgs doms new_id now orgID (policy_defaults req)) of
                      None \<Rightarrow> (WriteError 500 ''create failed: '', pols)
                    | Some p \<Rightarrow> (WriteJSON 201 p, pols @ [p]))))"

definition policy_by_id :: "faults \<Rightarrow> Policy list \<Rightarrow> uuid \<Rightarrow> Policy option" where
  "policy_by_id err pols i = (if err ''select policies'' then None else find (\<lambda>p. p_ID p = i) pols)"

definition read_policy ::
  "faults \<Rightarrow> uuid option \<Rightarrow> (scope \<times> identity) result \<Rightarrow> Policy list \<Rightarrow> Policy response" where
  "read_policy err param sc pols =
     (case param of
        None \<Rightarrow> WriteError 400 ''invalid id''
      | Some i \<Rightarrow>
          case sc of
            Inl e \<Rightarrow> WriteError 500 ''scope''
          | Inr (scope, _) \<Rightarrow>
              case policy_by_id err pols i of
                None \<Rightarrow> WriteError 404 ''not found''
              | Some p \<Rightarrow>
                  if \<not> p_IsDefault p \<and>
                     (case p_OrganizationID p of None \<Rightarrow> False | Some org \<Rightarrow> \<not> Allows scope org)
                  then WriteError 404 ''not found''
                  else WriteJSON 200 p)"

definition update_policy_row :: "nat \<Rightarrow> policyWriteReq \<Rightarrow> Policy \<Rightarrow> Policy option" where
  "update_policy_row now req p =
     (case (numeric_5_2 (coalesce (pw_SpamThreshold req) (p_SpamThreshold p)),
            numeric_5_2 (coalesce (pw_QuarantineThreshold req) (p_QuarantineThreshold p)),
            numeric_5_2 (coalesce (pw_RejectThreshold req) (p_RejectThreshold p)),
            if pw_QuarantineAction req = '''' then Some (p_QuarantineAction p)
            else policy_action (pw_QuarantineAction req)) of
        (Some spam, Some quar, Some rej, Some act) \<Rightarrow>
          Some (p\<lparr>p_Name := coalesce_text (pw_Name req) (p_Name p),
                 p_SpamThreshold := spam, p_QuarantineThreshold := quar, p_RejectThreshold := rej,
                 p_DMARCEnforce := coalesce (pw_DMARCEnforce req) (p_DMARCEnforce p),
                 p_EnableGreylist := coalesce (pw_EnableGreylist req) (p_EnableGreylist p),
                 p_QuarantineAction := act,
                 p_Settings := coalesce (pw_Settings req) (p_Settings p),
                 p_UpdatedAt := now\<rparr>)
      | _ \<Rightarrow> None)"

definition update_policy ::
  "faults \<Rightarrow> nat \<Rightarrow> uuid option \<Rightarrow> (scope \<times> identity) result \<Rightarrow> policyWriteReq result \<Rightarrow> Policy list \<Rightarrow>
     Policy response \<times> Policy list" where
  "update_policy err now param sc body pols =
     (case param of
        None \<Rightarrow> (WriteError 400 ''invalid id'', pols)
      | Some i \<Rightarrow>
          case sc of
            Inl e \<Rightarrow> (WriteError 500 ''scope'', pols)
          | Inr (scope, ident) \<Rightarrow>
              case policy_by_id err pols i of
                None \<Rightarrow> (WriteError 404 ''not found'', pols)
              | Some p \<Rightarrow>
                  if p_IsDefault p \<and> id_Role ident \<noteq> ''super_admin'' then
                    (WriteError 403 ''default policies require super_admin'', pols)
                  else if (case p_OrganizationID p of None \<Rightarrow> False
                           | Some org \<Rightarrow> \<not> CanAdmin scope (id_Role ident) org) then
                    (WriteError 403 ''forbidden'', pols)
                  else
                    case body of
                      Inl e \<Rightarrow> (WriteError 400 e, pols)
                    | Inr req \<Rightarrow>
                        case (if err ''update policies'' then None else update_policy_row now req p) of
                          None \<Rightarrow> (WriteError 500 ''update failed: '', pols)
                        | Some p' \<Rightarrow>
                            (let pols' = update_where (\<lambda>q. p_ID q = i) (\<lambda>_. p') pols
                             in (read_policy err param sc pols', pols')))"

definition delete_policy ::
  "faults \<Rightarrow> uuid option \<Rightarrow> (scope \<times> identity) result \<Rightarrow> Policy list \<Rightarrow> unit response \<times> Policy list" where
  "delete_policy err param sc pols =
     (case param of
        None \<Rightarrow> (WriteError 400 ''invalid id'', pols)
      | Some i \<Rightarrow>
          case sc of
            Inl e \<Rightarrow> (WriteError 500 ''scope'', pols)
          | Inr (scope, ident) \<Rightarrow>
              case policy_by_id err pols i of
                None \<Rightarrow> (WriteError 404 ''not found'', pols)
              | Some p \<Rightarrow>
                  if p_IsDefault p then (WriteError 403 ''cannot delete default policy'', pols)
                  else if (case p_OrganizationID p of None \<Rightarrow> False
                           | Some org \<Rightarrow> \<not> CanAdmin scope (id_Role ident) org) then
                    (WriteError 403 ''forbidden'', pols)
                  else if err ''delete policies'' then (WriteError 500 ''delete failed'', pols)
                  else (WriteHeader 204, filter (\<lambda>q. p_ID q \<noteq> i) pols))"

text \<open>Postgres sorts \<open>is_default DESC, name\<close>; the sort of equal keys keeps the table's order here.\<close>

definition list_policies ::
  "faults \<Rightarrow> (scope \<times> identity) result \<Rightarrow> page \<Rightarrow> Policy list \<Rightarrow> Policy list_envelope response" where
  "list_policies err sc pg pols =
     (case sc of
        Inl e \<Rightarrow> WriteError 500 ''scope''
      | Inr (scope, _) \<Rightarrow>
          (let rows = (if IsSuperAdmin scope then pols
                       else filter (\<lambda>p. (case p_OrganizationID p of None \<Rightarrow> False
                                         | Some org \<Rightarrow> org \<in> set (VisibleOrgIDs scope)) \<or> p_IsDefault p) pols)
           in if err ''count policies'' then WriteError 500 ''db''
              else if err ''select policies'' then WriteError 500 ''select policies''
              else WriteJSON 200 (envelope pg
                     (sort_key (\<lambda>p. (\<not> p_IsDefault p, map byte (p_Name p))) rows))))"

record policyResolveReq =
  pr_DomainID :: "uuid option"
  pr_OrganizationID :: "uuid option"

definition resolve_policy ::
  "faults \<Rightarrow> organization list \<Rightarrow> (uuid \<times> uuid) list \<Rightarrow> (scope \<times> identity) result \<Rightarrow>
     policyResolveReq result \<Rightarrow> Policy list \<Rightarrow> Policy response" where
  "resolve_policy err orgs doms sc body pols =
     (case sc of
        Inl e \<Rightarrow> WriteError 500 ''scope''
      | Inr (scope, ident) \<Rightarrow>
          case body of
            Inl e \<Rightarrow> WriteError 400 e
          | Inr req \<Rightarrow>
              (let org1 = coalesce (pr_OrganizationID req) (id_OrganizationID ident);
                   org2 = (case pr_DomainID req of
                             None \<Rightarrow> Some org1
                           | Some d \<Rightarrow> if err ''select domains'' then None else map_of doms d)
               in case org2 of
                    None \<Rightarrow> WriteError 400 ''domain not found''
                  | Some orgID \<Rightarrow>
                      if \<not> Allows scope orgID then WriteError 403 ''forbidden''
                      else case Resolve err orgs pols (pr_DomainID req) (Some orgID) of
                             Inl e \<Rightarrow> WriteError 500 (''resolve failed: '' @ e)
                           | Inr p \<Rightarrow> WriteJSON 200 p))"

subsection \<open>One order for the four steps of \<open>Resolve\<close>\<close>

text \<open>
  The precedence as one key: domain-scoped rows before organization-scoped rows, those of the
  nearest ancestor first, before default rows; the row updated last first within a class.
\<close>

definition scoped_depth :: "organization list \<Rightarrow> uuid option \<Rightarrow> Policy \<Rightarrow> nat option" where
  "scoped_depth orgs orgID p =
     (case (orgID, p_OrganizationID p, p_DomainID p) of
        (Some i, Some a, None) \<Rightarrow> map_of (ancestors (length orgs) orgs 0 i) a
      | _ \<Rightarrow> None)"

definition policy_rank ::
  "organization list \<Rightarrow> uuid option \<Rightarrow> uuid option \<Rightarrow> Policy \<Rightarrow> (nat \<times> nat \<times> int) option" where
  "policy_rank orgs domainID orgID p =
     (if domainID \<noteq> None \<and> p_DomainID p = domainID then Some (0, 0, - int (p_UpdatedAt p))
      else (case scoped_depth orgs orgID p of
              Some k \<Rightarrow> Some (1, k, - int (p_UpdatedAt p))
            | None \<Rightarrow> if p_IsDefault p then Some (2, 0, - int (p_UpdatedAt p)) else None))"

lemma ancestors_depth: "(a, k) \<in> set (ancestors n orgs d i) \<Longrightarrow> d \<le> k"
  by (induction n orgs d i rule: ancestors.induct) (force split: option.splits)+

lemma ancestors_nearest:
  "(a, k) \<in> set (ancestors n orgs d i) \<Longrightarrow> \<exists>k'. map_of (ancestors n orgs d i) a = Some k' \<and> k' \<le> k"
proof (induction n orgs d i rule: ancestors.induct)
  case (2 n orgs d i)
  then obtain r where r: "org_by_id orgs i = Some r" by (cases "org_by_id orgs i") auto
  show ?case
  proof (cases "org_ParentID r")
    case None
    with 2 r show ?thesis by auto
  next
    case (Some p)
    with 2 r show ?thesis by (auto dest: ancestors_depth)
  qed
qed simp

lemma scoped_depth_mem:
  "scoped_depth orgs (Some i) p = Some k \<Longrightarrow> p_DomainID p = None \<and>
     (\<exists>a. p_OrganizationID p = Some a \<and> (a, k) \<in> set (ancestors (length orgs) orgs 0 i))"
  unfolding scoped_depth_def by (auto split: option.splits dest: map_of_SomeD)

lemma scoped_depth_nearest:
  "p_DomainID p = None \<Longrightarrow> p_OrganizationID p = Some a \<Longrightarrow>
   (a, k) \<in> set (ancestors (length orgs) orgs 0 i) \<Longrightarrow>
     \<exists>k'. scoped_depth orgs (Some i) p = Some k' \<and> k' \<le> k"
  unfolding scoped_depth_def by (auto dest: ancestors_nearest)

text \<open>The rows of the query's join.\<close>

lemma resolve_org_rows:
  "(q, m) \<in> set (concat (map (\<lambda>(a, depth). map (\<lambda>p. (p, depth))
      (filter (\<lambda>p. p_OrganizationID p = Some a \<and> p_DomainID p = None) pols)) anc)) \<longleftrightarrow>
   q \<in> set pols \<and> p_DomainID q = None \<and> (\<exists>b. p_OrganizationID q = Some b \<and> (b, m) \<in> set anc)"
  by auto

lemma resolve_org_Some:
  assumes "resolve_org orgs pols i = Some p"
  shows "\<exists>k. p \<in> set pols \<and> scoped_depth orgs (Some i) p = Some k \<and>
           (\<forall>q \<in> set pols. \<forall>m. scoped_depth orgs (Some i) q = Some m \<longrightarrow>
              (k, - int (p_UpdatedAt p)) \<le> (m, - int (p_UpdatedAt q)))"
proof -
  define key :: "Policy \<times> nat \<Rightarrow> nat \<times> int" where "key = (\<lambda>(p, depth). (depth, - int (p_UpdatedAt p)))"
  define rows where "rows = concat (map (\<lambda>(a, depth). map (\<lambda>p. (p, depth))
        (filter (\<lambda>p. p_OrganizationID p = Some a \<and> p_DomainID p = None) pols))
        (ancestors (length orgs) orgs 0 i))"
  note mem = resolve_org_rows [of _ _ pols "ancestors (length orgs) orgs 0 i", folded rows_def]
  from assms obtain k where k: "first_by key rows = Some (p, k)"
    unfolding resolve_org_def key_def rows_def by auto
  have least: "(k, - int (p_UpdatedAt p)) \<le> (m, - int (p_UpdatedAt q))"
    if "q \<in> set pols" "scoped_depth orgs (Some i) q = Some m" for q m
  proof -
    have "(q, m) \<in> set rows"
      unfolding mem using that(1) scoped_depth_mem [OF that(2)] by blast
    from first_by_least [OF k this] show ?thesis by (simp add: key_def)
  qed
  from first_by_mem [OF k] have p: "p \<in> set pols" "p_DomainID p = None"
    and a: "\<exists>a. p_OrganizationID p = Some a \<and> (a, k) \<in> set (ancestors (length orgs) orgs 0 i)"
    unfolding mem by blast+
  from a scoped_depth_nearest [OF p(2)] obtain k' where k': "scoped_depth orgs (Some i) p = Some k'" "k' \<le> k"
    by blast
  with least [OF p(1)] have "k' = k" by (simp add: less_eq_prod_def)
  with k' least p show ?thesis by blast
qed

lemma resolve_org_None:
  assumes "resolve_org orgs pols i = None" "q \<in> set pols"
  shows "scoped_depth orgs (Some i) q = None"
proof (rule ccontr)
  assume "scoped_depth orgs (Some i) q \<noteq> None"
  then obtain m where m: "scoped_depth orgs (Some i) q = Some m" by blast
  define rows where "rows = concat (map (\<lambda>(a, depth). map (\<lambda>p. (p, depth))
        (filter (\<lambda>p. p_OrganizationID p = Some a \<and> p_DomainID p = None) pols))
        (ancestors (length orgs) orgs 0 i))"
  note mem = resolve_org_rows [of _ _ pols "ancestors (length orgs) orgs 0 i", folded rows_def]
  from assms(1) have "rows = []"
    unfolding resolve_org_def rows_def [symmetric] by (simp only: option.map_disc_iff first_by_None)
  moreover have "(q, m) \<in> set rows"
    unfolding mem using assms(2) scoped_depth_mem [OF m] by blast
  ultimately show False by simp
qed

lemma resolve_domain_Some:
  "resolve_domain pols d = Some p \<Longrightarrow> p \<in> set pols \<and> p_DomainID p = Some d \<and>
     (\<forall>q \<in> set pols. p_DomainID q = Some d \<longrightarrow> p_UpdatedAt q \<le> p_UpdatedAt p)"
  unfolding resolve_domain_def by (auto dest!: first_by_filter_Some)

lemma resolve_domain_None:
  "resolve_domain pols d = None \<Longrightarrow> q \<in> set pols \<Longrightarrow> p_DomainID q \<noteq> Some d"
  unfolding resolve_domain_def by (auto simp: filter_empty_conv)

lemma resolve_default_Some:
  "resolve_default pols = Some p \<Longrightarrow> p \<in> set pols \<and> p_IsDefault p \<and>
     (\<forall>q \<in> set pols. p_IsDefault q \<longrightarrow> p_UpdatedAt q \<le> p_UpdatedAt p)"
  unfolding resolve_default_def by (auto dest!: first_by_filter_Some)

lemma resolve_default_None: "resolve_default pols = None \<Longrightarrow> q \<in> set pols \<Longrightarrow> \<not> p_IsDefault q"
  unfolding resolve_default_def by (auto simp: filter_empty_conv)

text \<open>C29 (policy precedence): without statement errors \<open>Resolve\<close> returns a row that comes first in
  the order domain, nearest ancestor organization, default, or the hard-coded policy when no row
  applies at all.\<close>

theorem Resolve_most_specific:
  assumes "Resolve no_faults orgs pols domainID orgID = Inr p"
  shows "(p \<in> set pols \<and>
            (\<exists>r. policy_rank orgs domainID orgID p = Some r \<and>
               (\<forall>q \<in> set pols. \<forall>r'. policy_rank orgs domainID orgID q = Some r' \<longrightarrow> r \<le> r'))) \<or>
         (p = hardcodedDefault \<and> (\<forall>q \<in> set pols. policy_rank orgs domainID orgID q = None))"
proof -
  let ?step3 = "p \<in> set pols \<and> p_IsDefault p \<and> (\<forall>q \<in> set pols. p_IsDefault q \<longrightarrow> p_UpdatedAt q \<le> p_UpdatedAt p)
      \<or> p = hardcodedDefault \<and> (\<forall>q \<in> set pols. \<not> p_IsDefault q)"
  from assms consider
      (domain) d where "domainID = Some d" "resolve_domain pols d = Some p"
    | (org) i where "orgID = Some i" "resolve_org orgs pols i = Some p"
        "\<And>d. domainID = Some d \<Longrightarrow> resolve_domain pols d = None"
    | (rest) "?step3" "\<And>i. orgID = Some i \<Longrightarrow> resolve_org orgs pols i = None"
        "\<And>d. domainID = Some d \<Longrightarrow> resolve_domain pols d = None"
    by (fastforce simp: Resolve_def Let_def split: option.splits
          dest: resolve_default_Some resolve_default_None)
  then show ?thesis
  proof cases
    case domain
    then have "policy_rank orgs domainID orgID p = Some (0, 0, - int (p_UpdatedAt p))"
      and p: "p \<in> set pols" and latest: "\<forall>q \<in> set pols. p_DomainID q = Some d \<longrightarrow> p_UpdatedAt q \<le> p_UpdatedAt p"
      by (auto dest: resolve_domain_Some simp: policy_rank_def)
    then show ?thesis using domain(1)
      by (auto simp: policy_rank_def split: option.splits if_splits)
  next
    case org
    then have dom: "\<And>q. q \<in> set pols \<Longrightarrow> domainID = None \<or> p_DomainID q \<noteq> domainID"
      by (auto dest: resolve_domain_None)
    from org(2) resolve_org_Some obtain k where "p \<in> set pols" "scoped_depth orgs orgID p = Some k"
      "\<forall>q \<in> set pols. \<forall>m. scoped_depth orgs orgID q = Some m \<longrightarrow>
         (k, - int (p_UpdatedAt p)) \<le> (m, - int (p_UpdatedAt q))"
      unfolding org(1) by blast
    with dom show ?thesis
      by (auto simp: policy_rank_def split: option.splits if_splits)
  next
    case rest
    then have "\<And>q. q \<in> set pols \<Longrightarrow> domainID = None \<or> p_DomainID q \<noteq> domainID"
      by (auto dest: resolve_domain_None)
    moreover have "\<And>q. q \<in> set pols \<Longrightarrow> scoped_depth orgs orgID q = None"
      using rest(2) by (cases orgID) (auto dest: resolve_org_None simp: scoped_depth_def)
    ultimately show ?thesis using rest(1)
      by (auto simp: policy_rank_def split: if_splits)
  qed
qed

lemma Resolve_most_specific_witness:
  "\<exists>p. Resolve no_faults [] [] None None = Inr p \<and>
     (p \<in> set [] \<or> p = hardcodedDefault)"
  using Resolve_most_specific [of "[]" "[]" None None hardcodedDefault]
  by (simp add: Resolve_def resolve_default_def)

text \<open>In a forest the bound on the walk cuts nothing off: all ancestors are found.\<close>

lemma org_by_id_Some: "org_by_id orgs i = Some r \<Longrightarrow> r \<in> set orgs \<and> org_ID r = i"
  by (auto simp: org_by_id_def find_Some_iff)

lemma org_by_id_mem: "distinct (map org_ID orgs) \<Longrightarrow> r \<in> set orgs \<Longrightarrow> org_by_id orgs (org_ID r) = Some r"
  by (induction orgs) (auto simp: org_by_id_def image_iff)

lemma ancestors_complete:
  assumes rk: "\<And>r. r \<in> set orgs \<Longrightarrow> (rk (org_ID r) :: nat) < length orgs"
    "\<And>p c. (p, c) \<in> parent_rel orgs \<Longrightarrow> rk p < rk c"
    and "distinct (map org_ID orgs)" "\<And>p c. (p, c) \<in> parent_rel orgs \<Longrightarrow> p \<in> org_ID ` set orgs"
    and "i \<in> org_ID ` set orgs" "rk i < n"
  shows "fst ` set (ancestors n orgs d i) = {a. (a, i) \<in> (parent_rel orgs)\<^sup>*}"
  using assms(5,6)
proof (induction n arbitrary: i d)
  case (Suc n)
  then obtain r where r: "r \<in> set orgs" "org_ID r = i" "org_by_id orgs i = Some r"
    using org_by_id_mem [OF assms(3)] by blast
  have up: "(p, i) \<in> parent_rel orgs \<longleftrightarrow> org_ParentID r = Some p" for p
    using org_by_id_mem [OF assms(3)] r by (auto simp: parent_rel_def) (metis option.inject)
  show ?case
  proof (cases "org_ParentID r")
    case None
    then have "\<And>a. (a, i) \<in> (parent_rel orgs)\<^sup>* \<Longrightarrow> a = i"
      using up by (metis option.distinct(1) rtranclE)
    with None r show ?thesis by auto
  next
    case (Some p)
    then have pi: "(p, i) \<in> parent_rel orgs" using up by simp
    then have "rk p < n" "p \<in> org_ID ` set orgs"
      using rk(2) [OF pi] Suc.prems assms(4) by auto
    from Suc.IH [OF this(2,1)] have IH: "fst ` set (ancestors n orgs (Suc d) p) = {a. (a, p) \<in> (parent_rel orgs)\<^sup>*}" .
    have "(a, i) \<in> (parent_rel orgs)\<^sup>* \<longleftrightarrow> a = i \<or> (a, p) \<in> (parent_rel orgs)\<^sup>*" for a
      using pi up Some by (metis option.inject rtrancl.simps)
    with IH Some r show ?thesis by auto
  qed
qed simp

lemma ancestors_forest:
  assumes "wf_orgs orgs" "i \<in> org_ID ` set orgs"
  shows "fst ` set (ancestors (length orgs) orgs d i) = {a. (a, i) \<in> (parent_rel orgs)\<^sup>*}"
proof -
  obtain rk :: "uuid \<Rightarrow> nat" where rk: "\<And>r. r \<in> set orgs \<Longrightarrow> rk (org_ID r) < length orgs"
    "\<And>p c. (p, c) \<in> parent_rel orgs \<Longrightarrow> rk p < rk c"
    "\<And>p c. (p, c) \<in> parent_rel orgs \<Longrightarrow> c \<in> org_ID ` set orgs"
    using wf_orgs_rank [OF assms(1)] by blast
  have d: "distinct (map org_ID orgs)"
    using orgs_from_ids [of "[]" orgs] assms(1) by (simp add: wf_orgs_def)
  have i: "rk i < length orgs"
    using rk(1) assms(2) by blast
  show ?thesis
    by (rule ancestors_complete [where rk = rk])
       (use rk d i assms(2) wf_orgs_parents [OF assms(1)] in blast)+
qed

subsection \<open>What the handlers keep\<close>

datatype policy_cmd =
    CreatePolicy uuid nat "policyWriteReq result"
  | UpdatePolicy nat "uuid option" "policyWriteReq result"
  | DeletePolicy "uuid option"

fun policy_step ::
  "faults \<Rightarrow> organization list \<Rightarrow> (uuid \<times> uuid) list \<Rightarrow> policy_cmd \<Rightarrow> (scope \<times> identity) result \<Rightarrow>
     Policy list \<Rightarrow> Policy list" where
  "policy_step err orgs doms (CreatePolicy i now body) sc pols = snd (create_policy err orgs doms i now sc body pols)"
| "policy_step err orgs doms (UpdatePolicy now i body) sc pols = snd (update_policy err now i sc body pols)"
| "policy_step err orgs doms (DeletePolicy i) sc pols = snd (delete_policy err i sc pols)"

lemma policy_by_id_Some:
  "policy_by_id err pols i = Some p \<Longrightarrow> p \<in> set pols \<and> p_ID p = i"
  by (auto simp: policy_by_id_def find_Some_iff split: if_splits)

lemma insert_policy_row_fields:
  "insert_policy_row orgs doms i now org req = Some p \<Longrightarrow>
     p_ID p = i \<and> p_OrganizationID p = Some org \<and> p_DomainID p = pw_DomainID req \<and>
     p_UpdatedAt p = now \<and> \<not> p_IsDefault p"
  by (auto simp: insert_policy_row_def split: option.splits if_splits)

lemma update_policy_row_fields:
  "update_policy_row now req p = Some p' \<Longrightarrow>
     p_ID p' = p_ID p \<and> p_OrganizationID p' = p_OrganizationID p \<and> p_DomainID p' = p_DomainID p \<and>
     p_IsDefault p' = p_IsDefault p"
  by (auto simp: update_policy_row_def split: option.splits if_splits)

lemma policy_step_change:
  "table_change p_ID (may_admin_row p_OrganizationID sc) pols (policy_step err orgs doms cmd sc pols)"
proof (cases cmd)
  case (CreatePolicy i now body)
  then show ?thesis
    by (auto simp: create_policy_def Let_def split: sum.splits option.splits if_splits
        intro!: table_change.intros dest: insert_policy_row_fields)
next
  case (UpdatePolicy now param body)
  then show ?thesis
    by (auto simp: update_policy_def Let_def may_admin_def may_admin_row_def split: sum.splits option.splits if_splits
        intro: table_change.intros dest!: update_policy_row_fields policy_by_id_Some)
next
  case (DeletePolicy param)
  then show ?thesis
    by (auto simp: delete_policy_def Let_def may_admin_def may_admin_row_def split: sum.splits option.splits if_splits
        intro: table_change.intros dest!: policy_by_id_Some)
qed

interpretation policy_table: tenant_table "policy_step err orgs doms" p_ID "may_admin_row p_OrganizationID"
  for err orgs doms
  by unfold_locales (rule policy_step_change)

text \<open>C28 (tenant isolation of policies): whatever series of create, update and delete requests arrives
  from callers that may not administer an organization, every policy of that organization keeps
  its row unchanged.\<close>

theorem policies_isolated:
  assumes "distinct (map p_ID pols)" "r \<in> set pols" "p_OrganizationID r = Some i"
    and "list_all (\<lambda>(_, sc). \<not> may_admin sc i) reqs"
  shows "r \<in> set (foldl (\<lambda>rs (cmd, sc). policy_step err orgs doms cmd sc rs) pols reqs)"
  using policy_table.requests_foreign [OF assms(1,2), of reqs err orgs doms] assms(3,4) by (simp add: may_admin_row_def)

text \<open>A domain's policy takes effect: the policy that \<open>create\<close> stores for a domain is the one
  \<open>Resolve\<close> answers for that domain. The only guard is on the policy's organization: the
  witness is an administrator of organization 1 who sets the policy of a domain of organization 2.\<close>

theorem create_policy_governs_domain:
  assumes "create_policy err orgs doms new_id now sc (Inr req) pols = (WriteJSON 201 p, pols')"
    and "pw_DomainID req = Some d" "list_all (\<lambda>q. p_UpdatedAt q < now) pols"
  shows "Resolve no_faults orgs pols' (Some d) orgID = Inr p"
proof -
  from assms(1,2) have p: "pols' = pols @ [p]" "p_DomainID p = Some d" "p_UpdatedAt p = now"
    by (auto simp: create_policy_def Let_def split: sum.splits option.splits if_splits
        dest!: insert_policy_row_fields)
  then have "resolve_domain pols' d \<noteq> None"
    by (auto simp: resolve_domain_def)
  then obtain q where q: "resolve_domain pols' d = Some q" by blast
  from resolve_domain_Some [OF q] p assms(3) have "q = p"
    by (fastforce simp: list_all_iff)
  with q show ?thesis by (simp add: Resolve_def)
qed

definition sample_request :: "uuid option \<Rightarrow> policyWriteReq" where
  "sample_request d = \<lparr>pw_OrganizationID = None, pw_DomainID = d, pw_Name = ''n'', pw_SpamThreshold = None,
     pw_QuarantineThreshold = None, pw_RejectThreshold = Some 999, pw_DMARCEnforce = None,
     pw_EnableGreylist = None, pw_QuarantineAction = ''deliver'', pw_Settings = None\<rparr>"

lemma create_policy_governs_domain_witness:
  "\<exists>p pols'. create_policy no_faults [sample_org 1 None, sample_org 2 None] [(20, 2)] 7 5
       (Inr (sample_caller 1 ''org_admin'')) (Inr (sample_request (Some 20))) [] = (WriteJSON 201 p, pols') \<and>
     \<not> Allows (fst (sample_caller 1 ''org_admin'')) 2 \<and> p_QuarantineAction p = ''deliver'' \<and>
     Resolve no_faults [sample_org 1 None, sample_org 2 None] pols' (Some 20) (Some 2) = Inr p"
proof -
  have c: "\<exists>p pols'. create_policy no_faults [sample_org 1 None, sample_org 2 None] [(20, 2)] 7 5
       (Inr (sample_caller 1 ''org_admin'')) (Inr (sample_request (Some 20))) [] = (WriteJSON 201 p, pols')
       \<and> p_QuarantineAction p = ''deliver''"
    by (simp add: create_policy_def insert_policy_row_def sample_simps sample_request_def policy_action_def
        org_by_id_def policy_defaults_def numeric_5_2_def Let_def)
  have "\<not> Allows (fst (sample_caller 1 ''org_admin'')) 2"
    by (simp add: sample_simps)
  moreover have "Resolve no_faults [sample_org 1 None, sample_org 2 None] pols' (Some 20) (Some 2) = Inr p"
    if "create_policy no_faults [sample_org 1 None, sample_org 2 None] [(20, 2)] 7 5
       (Inr (sample_caller 1 ''org_admin'')) (Inr (sample_request (Some 20))) [] = (WriteJSON 201 p, pols')" for p pols'
    by (rule create_policy_governs_domain [OF that]) (simp_all add: sample_request_def)
  ultimately show ?thesis using c by blast
qed

definition sample_policy :: "uuid \<Rightarrow> uuid option \<Rightarrow> Policy" where
  "sample_policy i org = hardcodedDefault\<lparr>p_ID := i, p_OrganizationID := org, p_IsDefault := False\<rparr>"

lemma policies_isolated_witness:
  "sample_policy 9 (Some 2) \<in> set (policy_step no_faults [] [] (DeletePolicy (Some 9))
     (Inr (sample_caller 1 ''org_admin'')) [sample_policy 9 (Some 2)])"
  using policies_isolated [of "[sample_policy 9 (Some 2)]" "sample_policy 9 (Some 2)" 2
      "[(DeletePolicy (Some 9), Inr (sample_caller 1 ''org_admin''))]" no_faults "[]" "[]"]
  by (simp add: sample_policy_def sample_simps)

end
