(* ===== verification/Upsert.thy ===== *)
theory Upsert
  imports Tenant
begin

text \<open>
  \<open>INSERT ... ON CONFLICT (key) DO UPDATE\<close>, which most components store their state with, and
  the contract of a table that is only written this way.
\<close>

fun upsert_row :: "('row \<Rightarrow> 'k) \<Rightarrow> ('row \<Rightarrow> 'row \<Rightarrow> 'row) \<Rightarrow> 'row \<Rightarrow> 'row list \<Rightarrow> 'row list" where
  "upsert_row key merge new [] = [new]"
| "upsert_row key merge new (r # rs) =
     (if key r = key new then merge r new # rs else r # upsert_row key merge new rs)"

text \<open>The row of a key.\<close>

definition row_of :: "('row \<Rightarrow> 'k) \<Rightarrow> 'k \<Rightarrow> 'row list \<Rightarrow> 'row option" where
  "row_of key k rows = find (\<lambda>r. key r = k) rows"

lemma row_of_simps [simp]:
  "row_of key k [] = None"
  "row_of key k (r # rs) = (if key r = k then Some r else row_of key k rs)"
  by (simp_all add: row_of_def)

lemma row_of_Some: "row_of key k rows = Some r \<Longrightarrow> r \<in> set rows \<and> key r = k"
  by (auto simp: row_of_def find_Some_iff)

lemma row_of_None: "row_of key k rows = None \<longleftrightarrow> k \<notin> key ` set rows"
  by (auto simp: row_of_def find_None_iff)

lemma row_of_unique: "distinct (map key rows) \<Longrightarrow> r \<in> set rows \<Longrightarrow> row_of key (key r) rows = Some r"
  by (induction rows) (auto simp: image_iff)

lemma row_of_append: "row_of key k (xs @ ys) = (case row_of key k xs of None \<Rightarrow> row_of key k ys | Some r \<Rightarrow> Some r)"
  by (induction xs) auto

lemma row_of_filter:
  "distinct (map key rows) \<Longrightarrow>
     row_of key k (filter p rows) = (case row_of key k rows of None \<Rightarrow> None | Some r \<Rightarrow> if p r then Some r else None)"
proof (induction rows)
  case (Cons a rows)
  have "key a = k \<Longrightarrow> row_of key k (filter p rows) = None"
    using Cons.prems by (auto simp: row_of_None)
  with Cons show ?case by (auto split: option.splits)
qed simp

text \<open>The first row of a query that fixes the key: the row of that key.\<close>

lemma first_by_row_of:
  assumes "distinct (map key rows)"
  shows "first_by f (filter (\<lambda>r. key r = k \<and> p r) rows) =
     (case row_of key k rows of None \<Rightarrow> None | Some r \<Rightarrow> if p r then Some r else None)"
  using assms
proof (induction rows)
  case (Cons a rows)
  have none: "key a = k \<Longrightarrow> filter (\<lambda>r. key r = k \<and> p r) rows = []"
    using Cons.prems by (force simp: filter_empty_conv image_iff)
  show ?case
  proof (cases "key a = k")
    case True
    with none [OF True] show ?thesis by simp
  next
    case False
    with Cons show ?thesis by (auto split: option.splits)
  qed
qed simp

locale keyed_table =
  fixes key :: "'row \<Rightarrow> 'k"
    and merge :: "'row \<Rightarrow> 'row \<Rightarrow> 'row"
  assumes merge_key: "key r = key new \<Longrightarrow> key (merge r new) = key new"
begin

lemma upsert_keys: "set (map key (upsert_row key merge new rows)) = insert (key new) (set (map key rows))"
  by (induction rows) (auto simp: merge_key)

lemma upsert_distinct: "distinct (map key rows) \<Longrightarrow> distinct (map key (upsert_row key merge new rows))"
proof (induction rows)
  case (Cons r rs)
  with upsert_keys [of new rs] show ?case by (auto simp: merge_key)
qed simp

lemma upsert_same:
  "row_of key (key new) (upsert_row key merge new rows) =
     Some (case row_of key (key new) rows of None \<Rightarrow> new | Some r \<Rightarrow> merge r new)"
  by (induction rows) (auto simp: merge_key)

lemma upsert_other:
  "k \<noteq> key new \<Longrightarrow> row_of key k (upsert_row key merge new rows) = row_of key k rows"
  by (induction rows) (auto simp: merge_key)

end

end
