(* ===== verification/Classifier.thy ===== *)
theory Classifier
  imports Upsert
begin

text \<open>
  \<open>internal/classifier/classifier.go\<close>: the table of learned sender and subject verdicts, and
  the keyword analysis of common scams. Text is a byte string: a rune of the homoglyph table is its
  UTF-8 sequence.
\<close>

subsection \<open>Common scams\<close>

record Link =
  Label :: string
  URL :: string

record Analysis =
  EmailType :: string
  Warning :: string
  Signals :: "string list"
  Links :: "Link list"

fun any_of :: "string \<Rightarrow> string list \<Rightarrow> bool" where
  "any_of text [] = False"
| "any_of text (term # terms) = (if contains text term then True else any_of text terms)"

fun links :: "string list \<Rightarrow> Link list" where
  "links (l # u # values) = \<lparr>Label = l, URL = u\<rparr> # links values"
| "links _ = []"

definition warn :: "string \<Rightarrow> string \<Rightarrow> Link list \<Rightarrow> string list \<Rightarrow> Analysis" where
  "warn kind warning related signals =
     \<lparr>EmailType = kind, Warning = warning, Signals = signals, Links = related\<rparr>"

text \<open>The UTF-8 sequences of the look-alike runes and the letters they stand for.\<close>

definition homoglyphs :: "(string \<times> char) list" where
  "homoglyphs =
    [([CHR 0xCE, CHR 0x91], CHR ''A''), ([CHR 0xD0, CHR 0x90], CHR ''A''),
     ([CHR 0xE1, CHR 0x8E, CHR 0xAA], CHR ''A''), ([CHR 0xCE, CHR 0x92], CHR ''B''),
     ([CHR 0xD0, CHR 0x92], CHR ''B''), ([CHR 0xD0, CHR 0xA1], CHR ''C''),
     ([CHR 0xCF, CHR 0xB9], CHR ''C''), ([CHR 0xD0, CHR 0x95], CHR ''E''),
     ([CHR 0xCE, CHR 0x95], CHR ''E''), ([CHR 0xCE, CHR 0x97], CHR ''H''),
     ([CHR 0xD0, CHR 0x9D], CHR ''H''), ([CHR 0xCE, CHR 0x99], CHR ''I''),
     ([CHR 0xD0, CHR 0x86], CHR ''I''), ([CHR 0xCE, CHR 0x9A], CHR ''K''),
     ([CHR 0xD0, CHR 0x9A], CHR ''K''), ([CHR 0xCE, CHR 0x9C], CHR ''M''),
     ([CHR 0xD0, CHR 0x9C], CHR ''M''), ([CHR 0xCE, CHR 0x9D], CHR ''N''),
     ([CHR 0xCE, CHR 0x9F], CHR ''O''), ([CHR 0xD0, CHR 0x9E], CHR ''O''),
     ([CHR 0xCE, CHR 0xA1], CHR ''P''), ([CHR 0xD0, CHR 0xA0], CHR ''P''),
     ([CHR 0xCE, CHR 0xA4], CHR ''T''), ([CHR 0xD0, CHR 0xA2], CHR ''T''),
     ([CHR 0xCE, CHR 0xA7], CHR ''X''), ([CHR 0xD0, CHR 0xA5], CHR ''X''),
     ([CHR 0xCE, CHR 0xA5], CHR ''Y''), ([CHR 0xD0, CHR 0xA3], CHR ''Y''),
     ([CHR 0xCE, CHR 0x96], CHR ''Z''), ([CHR 0xE1, CHR 0x8F, CHR 0x83], CHR ''Z''),
     ([CHR 0xD4, CHR 0x9C], CHR ''W''), ([CHR 0xD0, CHR 0xB0], CHR ''a''),
     ([CHR 0xCE, CHR 0xB1], CHR ''a''), ([CHR 0xD1, CHR 0x81], CHR ''c''),
     ([CHR 0xCF, CHR 0xB2], CHR ''c''), ([CHR 0xD4, CHR 0x81], CHR ''d''),
     ([CHR 0xD0, CHR 0xB5], CHR ''e''), ([CHR 0xD2, CHR 0xBB], CHR ''h''),
     ([CHR 0xD1, CHR 0x96], CHR ''i''), ([CHR 0xCE, CHR 0xB9], CHR ''i''),
     ([CHR 0xD1, CHR 0x98], CHR ''j''), ([CHR 0xCE, CHR 0xBA], CHR ''k''),
     ([CHR 0xD3, CHR 0x8F], CHR ''l''), ([CHR 0xD0, CHR 0xBC], CHR ''m''),
     ([CHR 0xD5, CHR 0xB8], CHR ''n''), ([CHR 0xD0, CHR 0xBE], CHR ''o''),
     ([CHR 0xCE, CHR 0xBF], CHR ''o''), ([CHR 0xD1, CHR 0x80], CHR ''p''),
     ([CHR 0xD1, CHR 0x95], CHR ''s''), ([CHR 0xCF, CHR 0x84], CHR ''t''),
     ([CHR 0xCF, CHR 0x85], CHR ''u''), ([CHR 0xD1, CHR 0xB5], CHR ''v''),
     ([CHR 0xD4, CHR 0x9D], CHR ''w''), ([CHR 0xD1, CHR 0x85], CHR ''x''),
     ([CHR 0xD1, CHR 0x83], CHR ''y'')]"

fun find_homoglyph :: "(string \<times> char) list \<Rightarrow> string \<Rightarrow> (string \<times> char) option" where
  "find_homoglyph [] s = None"
| "find_homoglyph ((b, c) # hs) s = (if has_prefix s b then Some (b, c) else find_homoglyph hs s)"

text \<open>\<open>strings.Map\<close>, one rune at a time; \<open>skip\<close> counts the bytes of the rune already mapped.\<close>

fun map_homoglyphs :: "nat \<Rightarrow> string \<Rightarrow> string" where
  "map_homoglyphs skip [] = []"
| "map_homoglyphs (Suc skip) (c # s) = map_homoglyphs skip s"
| "map_homoglyphs 0 (c # s) =
     (case find_homoglyph homoglyphs (c # s) of
        Some (b, a) \<Rightarrow> a # map_homoglyphs (length b - 1) s
      | None \<Rightarrow> c # map_homoglyphs 0 s)"

definition normalizeSuspiciousText :: "string \<Rightarrow> string" where
  "normalizeSuspiciousText v = to_lower (map_homoglyphs 0 v)"

text \<open>The regular expression \<open>\blocked\b\<close>: the flag says whether a word byte comes before.\<close>

definition word_char :: "char \<Rightarrow> bool" where
  "word_char c = (is_letter c \<or> is_digit c \<or> c = CHR ''_'')"

fun locked_after :: "bool \<Rightarrow> string \<Rightarrow> bool" where
  "locked_after w [] = False"
| "locked_after w (c # s) =
     ((\<not> w \<and> has_prefix (c # s) ''locked'' \<and> (case drop 5 s of [] \<Rightarrow> True | d # _ \<Rightarrow> \<not> word_char d))
      \<or> locked_after (word_char c) s)"

definition locked_word :: "string \<Rightarrow> bool" where
  "locked_word s = locked_after False s"

definition healthLeadGenerationSpam :: "string \<Rightarrow> bool" where
  "healthLeadGenerationSpam text =
     (if \<not> any_of text
          [''pancreas'', ''blood sugar'', ''brain health'', ''memory'', ''sleep problem'',
           ''wake-up'', ''wake up'', ''3am'', ''3 am'', ''nail fungus'', ''toenail fungus'',
           ''joint pain'', ''nerve pain'', ''back pain'', ''weight loss'', ''prostate'',
           ''tinnitus'', ''hearing loss'', ''vision loss'', ''neuropathy''] then False
      else if \<not> any_of text
          [''what if your'', ''what happens after'', ''could your'', ''starts with'',
           ''this way'', ''explore practical'', ''you won't believe'', ''the real cause''] then False
      else
        (let score = 1
           + (if any_of text
                [''miracle'', ''secret'', ''breakthrough'', ''shocking'', ''astonishing'',
                 ''cure'', ''reverse'', ''erase'', ''reset'', ''discovery'', ''simple trick''] then 2 else 0)
           + (if any_of text
                [''scientists'', ''doctors reveal'', ''doctor reveals'', ''researchers found'',
                 ''experts reveal'', ''university study''] then 1 else 0)
           + (if any_of text
                [''click here'', ''watch the video'', ''watch this'', ''video presentation'',
                 ''find out'', ''learn more'', ''see how'', ''discover how''] then 1 else 0)
           + (if any_of text
                [''buy now'', ''order now'', ''limited offer'', ''special offer'', ''risk free'',
                 ''supplement'', ''free bottle'', ''claim yours''] then 1 else (0::nat))
         in score \<ge> 3))"

definition AnalyzeCommonScam :: "string \<Rightarrow> string \<Rightarrow> Analysis" where
  "AnalyzeCommonScam subject body =
     (let text = normalizeSuspiciousText (subject @ [CHR 0x0A] @ body) in
      if any_of text [''password'', ''verify your account'', ''confirm your account'', ''login'',
        ''sign in''] \<and> (any_of text [''urgent'', ''suspended'', ''unusual activity'',
        ''security alert''] \<or> locked_word text) then
        warn ''Credential phishing''
          ''Similar to common credential phishing: urgent account/security language asks the user to verify or sign in.''
          (links [''CISA: Recognize and report phishing'',
           ''https://www.cisa.gov/secure-our-world/recognize-and-report-phishing'',
           ''FTC: Phishing scams'',
           ''https://consumer.ftc.gov/articles/how-recognize-and-avoid-phishing-scams''])
          [''account verification'', ''urgency'', ''credential request'']
      else if any_of text [''wallet'', ''digital wallet'',
        ''crypto wallet''] \<and> any_of text [''restore access'', ''restore full'', ''sync now'',
        ''sync wallet'', ''verify wallet'', ''recover wallet'', ''unlock wallet'',
        ''connect wallet''] then
        warn ''Wallet access phishing''
          ''Similar to crypto-wallet phishing: restore, sync, verification, recovery, unlock, or connection language pushes the user toward surrendering wallet access.''
          (links [''FTC: Cryptocurrency scams'',
           ''https://consumer.ftc.gov/articles/what-know-about-cryptocurrency-and-scams'',
           ''CISA: Recognize and report phishing'',
           ''https://www.cisa.gov/secure-our-world/recognize-and-report-phishing''])
          [''wallet access lure'', ''account recovery request'']
      else if any_of text [''package'', ''delivery'', ''shipment'', ''courier'',
        ''tracking number''] \<and> any_of text [''missed'', ''unpaid postage'', ''reschedule'',
        ''shipping preferences'', ''tracking''] then
        warn ''Package delivery scam''
          ''Similar to common delivery scams: shipment or postage problem language pushes the user toward a link or payment.''
          (links [''FTC: How to recognize phishing'',
           ''https://consumer.ftc.gov/articles/how-recognize-and-avoid-phishing-scams'',
           ''FTC: Report fraud'', ''https://reportfraud.ftc.gov/''])
          [''delivery issue'', ''payment or update request'']
      else if any_of text [''invoice'', ''payment due'', ''wire transfer'', ''ach'', ''bank details'',
        ''payroll'', ''direct deposit''] \<and> any_of text [''urgent'', ''overdue'',
        ''new account'', ''change'', ''update'', ''attached''] then
        warn ''Business email compromise''
          ''Similar to common BEC scams: invoice, payment, bank-detail, payroll, or wire-transfer wording with urgency or change requests.''
          (links [''FBI: Business email compromise'',
           ''https://www.fbi.gov/how-we-can-help-you/scams-and-safety/common-frauds-and-scams/business-email-compromise'',
           ''IC3: Business email compromise PSA'', ''https://www.ic3.gov/PSA/2024/PSA240911''])
          [''payment request'', ''urgency or change request'']
      else if any_of text [''gift card'', ''prepaid card'', ''crypto'', ''cryptocurrency'',
        ''digital wallet'', ''wire transfer''] \<and> any_of text [''buy'', ''send'', ''payment'',
        ''refund'', ''fee'', ''tax'', ''utility''] then
        warn ''Payment scam''
          ''Similar to common payment scams: gift card, prepaid, peer-to-peer, or crypto payment language.''
          (links [''FTC: Gift cards and payment scams'',
           ''https://consumer.ftc.gov/articles/gift-card-scams'',
           ''FTC: Utility payment scam'', ''https://www.ftc.gov/node/45978''])
          [''unusual payment method'']
      else if any_of text [''bank'', ''account'', ''payment'', ''transaction'', ''invoice'',
        ''merchant''] \<and> any_of text [''deducted'', ''charged'', ''transaction'', ''invoice'',
        ''pending'', ''awaiting verification''] \<and> any_of text [''did not authorize'',
        ''unauthorized'', ''cancel'', ''secure your account'',
        ''dispute''] \<and> any_of text [''call support'', ''call our support'', ''support team'',
        ''helpline'', ''customer support''] then
        warn ''Payment support scam''
          ''Similar to common refund and payment-support scams: a claimed charge or transaction pushes the user to call a fake support number.''
          (links [''FTC: Impersonation scams'',
           ''https://consumer.ftc.gov/features/impersonation-scams'',
           ''FTC: How to recognize phishing'',
           ''https://consumer.ftc.gov/articles/how-recognize-and-avoid-phishing-scams''])
          [''unauthorized transaction lure'', ''phone support call-to-action'']
      else if any_of text [''tax refund'', ''refund'', ''rebate'', ''prize'', ''reward'',
        ''points expiring'', ''free gift''] \<and> any_of text [''claim'', ''expires'',
        ''limited time'', ''click'', ''confirm''] then
        warn ''Reward/refund scam''
          ''Similar to common reward, refund, and expiring-points scams that ask users to claim or confirm personal details.''
          (links [''FTC: Phishing scams'',
           ''https://consumer.ftc.gov/articles/how-recognize-and-avoid-phishing-scams'',
           ''FTC: Report fraud'', ''https://reportfraud.ftc.gov/''])
          [''reward/refund lure'', ''time pressure'']
      else if any_of text [''tax document'', ''tax documents'', ''tax return'', ''tax forms'',
        ''tax statement'', ''tax refund''] \<and> any_of text [''ready'', ''available'', ''view'',
        ''open'', ''download'', ''confirm'', ''verify''] then
        warn ''Tax document phishing''
          ''Similar to common tax-document phishing: tax forms or statements are presented as ready or available to push the user toward a link.''
          (links [''IRS: Tax scams/consumer alerts'',
           ''https://www.irs.gov/newsroom/tax-scams-consumer-alerts'',
           ''CISA: Recognize and report phishing'',
           ''https://www.cisa.gov/secure-our-world/recognize-and-report-phishing''])
          [''tax document lure'', ''link or download prompt'']
      else if any_of text [''investment'', ''trading'', ''profit'', ''returns'', ''wallet'', ''crypto'',
        ''cryptocurrency''] \<and> any_of text [''guaranteed'', ''exclusive'', ''limited'',
        ''mentor'', ''opportunity''] then
        warn ''Investment scam''
          ''Similar to common investment scams: guaranteed returns, crypto/trading language, or exclusive opportunity wording.''
          (links [''FTC: Investment scams'', ''https://consumer.ftc.gov/articles/investment-scams'',
           ''IC3: File a complaint'', ''https://www.ic3.gov/''])
          [''investment lure'', ''unrealistic returns'']
      else if any_of text [''vertigo'', ''dizziness'', ''brain damage'', ''blood sugar'', ''diabetes'',
        ''joint pain'', ''memory loss'', ''tinnitus'',
        ''hearing loss''] \<and> any_of text [''miracle'', ''shocking cause'', ''secret'',
        ''breakthrough'', ''stop'', ''erase'', ''reverse'', ''cure'', ''ucla'', ''harvard'',
        ''scientists''] \<and> any_of text [''watch the video'', ''video presentation'',
        ''click here'', ''find out'', ''research report'', ''essential nutrient'',
        ''crucial nutrient''] then
        warn ''Medical miracle scam''
          ''Similar to common health scams: exaggerated cure or reversal claims use scientific-sounding authority and push the user toward a sales/video link.''
          (links [''FTC: Common health scams'',
           ''https://consumer.ftc.gov/articles/common-health-scams'', ''FDA: Health fraud'',
           ''https://www.fda.gov/drugs/bioterrorism-and-drug-preparedness/how-spot-health-fraud''])
          [''health cure claim'', ''scientific authority lure'', ''video click-through'']
      else if (any_of text [''scientists reveal'', ''doctors reveal'', ''astonishing'', ''secret'',
        ''miracle''] \<or> (any_of text [''breakthrough'',
        ''discovery''] \<and> any_of text [''click here'', ''watch the video'',
        ''video presentation'', ''buy now'', ''order now'',
        ''limited offer''])) \<and> any_of text [''back pain'', ''joint pain'', ''nerve pain'',
        ''blood sugar'', ''weight loss'', ''prostate'', ''tinnitus'', ''hearing'', ''vision'',
        ''neuropathy''] then
        warn ''Health miracle spam''
          ''Similar to common health-product spam: miracle, secret, or discovery wording tied to pain, weight, or chronic-health claims.''
          (links [''FTC: Health products compliance guidance'',
           ''https://www.ftc.gov/business-guidance/resources/health-products-compliance-guidance'',
           ''FTC: Report fraud'', ''https://reportfraud.ftc.gov/''])
          [''health miracle claim'', ''spam lead-generation wording'']
      else if healthLeadGenerationSpam text then
        warn ''Health lead-generation spam''
          ''Similar to health lead-generation spam: a medical or wellness topic is combined with several curiosity, exaggerated-claim, authority, or click-through signals.''
          (links [''FTC: Common health scams'',
           ''https://consumer.ftc.gov/articles/common-health-scams'', ''FDA: Health fraud'',
           ''https://www.fda.gov/drugs/bioterrorism-and-drug-preparedness/how-spot-health-fraud''])
          [''health or wellness topic'', ''multiple lead-generation signals'']
      else if any_of text [''septic system'', ''roof'', ''windows'', ''gutter'', ''gutters'', ''hvac'',
        ''solar'', ''water heater'', ''foundation''] \<and> any_of text [''working properly'',
        ''repair'', ''replacement'', ''inspection'', ''estimate'', ''quote'', ''contractor'',
        ''service'', ''homeowner''] then
        warn ''Home services lead-gen spam''
          ''Similar to common home-services lead-generation spam: household repair or inspection wording sent without prior context.''
          (links [''FTC: Report fraud'', ''https://reportfraud.ftc.gov/''])
          [''home service solicitation'', ''lead-generation wording'']
      else if any_of text [''remote job'', ''mystery shopper'', ''car wrap'', ''work from home'',
        ''training'', ''equipment''] \<and> any_of text [''check'', ''deposit'', ''bank account'',
        ''payment'', ''upfront''] then
        warn ''Job scam''
          ''Similar to common job scams: remote-work offer with checks, equipment, training, or banking/payment requests.''
          (links [''FTC: Job scams'', ''https://consumer.ftc.gov/articles/job-scams'',
           ''FTC: Report fraud'', ''https://reportfraud.ftc.gov/''])
          [''job lure'', ''payment setup'']
      else if any_of text [''virus'', ''infected'', ''tech support'', ''computer locked'',
        ''call support'', ''renew antivirus''] then
        warn ''Tech support scam''
          ''Similar to common tech-support scams: infection or locked-device language designed to trigger a support call or payment.''
          (links [''FTC: Tech support scams'',
           ''https://consumer.ftc.gov/articles/how-spot-avoid-and-report-tech-support-scams''])
          [''device warning'']
      else if any_of text [''.exe'', ''.scr'', ''.js'', ''.vbs'', ''enable macros'',
        ''protected document'', ''password protected attachment''] then
        warn ''Malware lure''
          ''Similar to common malware delivery emails: executable, script, macro, or protected attachment language.''
          (links [''CISA: Avoiding social engineering and phishing'',
           ''https://www.cisa.gov/news-events/news/avoiding-social-engineering-and-phishing-attacks''])
          [''risky attachment language'']
      else \<lparr>EmailType = ''Clean or uncategorized'', Warning = [], Signals = [], Links = []\<rparr>)"

subsection \<open>Keys of a learned verdict\<close>

definition normalizeEmail :: "string \<Rightarrow> string" where
  "normalizeEmail v = to_lower (trim_space v)"

text \<open>\<open>subjectTokenRE\<close> matches the maximal runs of \<open>[a-z0-9]\<close>.\<close>

definition token_sep :: "char \<Rightarrow> bool" where
  "token_sep c = (\<not> is_lower c \<and> \<not> is_digit c)"

definition SubjectFingerprint :: "string \<Rightarrow> string" where
  "SubjectFingerprint subject =
     join (take 8 (filter (\<lambda>token. \<not> length token \<le> 2) (words token_sep (to_lower subject)))) '' ''"

definition senderDomainKey :: "string \<Rightarrow> string" where
  "senderDomainKey v =
     (let value = normalizeEmail v in
      case last_index_char value CHR ''@'' of
        None \<Rightarrow> []
      | Some i \<Rightarrow>
          if i < 1 \<or> i = length value - 1 then []
          else
            (let domain = trim_suffix (drop (Suc i) value) ''.''
             in if domain = [] \<or> \<not> contains domain ''.'' then [] else ''*@'' @ domain))"

definition shouldLearnSenderLevel :: "string \<Rightarrow> string \<Rightarrow> string \<Rightarrow> bool" where
  "shouldLearnSenderLevel verdict fingerprint fromAddr =
     (if fingerprint = [] \<or> normalizeEmail fromAddr = [] then False
      else verdict \<in> {''spam'', ''phishing'', ''malware''})"

subsection \<open>The table \<open>user_mail_classifications\<close>\<close>

record Observation =
  ob_OrganizationID :: uuid
  ob_DomainID :: "uuid option"
  ob_UserEmail :: string
  ob_FromAddr :: string
  ob_Subject :: string
  ob_Verdict :: string
  ob_MailboxMessageID :: uuid
  ob_MailLogID :: uuid
  ob_BodyText :: string
  ob_UserID :: uuid

record Match =
  m_Verdict :: string
  m_SampleCount :: nat

record classification =
  cl_OrganizationID :: uuid
  cl_DomainID :: "uuid option"
  cl_UserEmail :: string
  cl_FromAddr :: string
  cl_SubjectFingerprint :: string
  cl_Verdict :: string
  cl_SampleCount :: nat
  cl_LastMailboxMessageID :: "uuid option"
  cl_LastMailLogID :: "uuid option"
  cl_LastBodyExcerpt :: string
  cl_CreatedBy :: uuid
  cl_UpdatedBy :: uuid
  cl_UpdatedAt :: nat

text \<open>The columns of the unique index that the upsert names.\<close>

definition classification_key :: "classification \<Rightarrow> uuid \<times> string \<times> string \<times> string" where
  "classification_key r =
     (cl_OrganizationID r, to_lower (cl_UserEmail r), to_lower (cl_FromAddr r), cl_SubjectFingerprint r)"

definition merge_classification :: "classification \<Rightarrow> classification \<Rightarrow> classification" where
  "merge_classification r new =
     r\<lparr>cl_DomainID := cl_DomainID new, cl_Verdict := cl_Verdict new,
       cl_SampleCount := cl_SampleCount r + 1,
       cl_LastMailboxMessageID := cl_LastMailboxMessageID new,
       cl_LastMailLogID := cl_LastMailLogID new,
       cl_LastBodyExcerpt := cl_LastBodyExcerpt new,
       cl_UpdatedBy := cl_UpdatedBy new, cl_UpdatedAt := cl_UpdatedAt new\<rparr>"

definition upsert_classification ::
  "faults \<Rightarrow> nat \<Rightarrow> Observation \<Rightarrow> string \<Rightarrow> string \<Rightarrow> string \<Rightarrow> classification list \<Rightarrow>
     string option \<times> classification list" where
  "upsert_classification err now obs verdict fingerprint body tbl =
     (if err ''upsert classification'' then (Some ''upsert classification'', tbl)
      else
        (None, upsert_row classification_key merge_classification
           \<lparr>cl_OrganizationID = ob_OrganizationID obs, cl_DomainID = ob_DomainID obs,
            cl_UserEmail = normalizeEmail (ob_UserEmail obs), cl_FromAddr = normalizeEmail (ob_FromAddr obs),
            cl_SubjectFingerprint = fingerprint, cl_Verdict = verdict, cl_SampleCount = 1,
            cl_LastMailboxMessageID = Some (ob_MailboxMessageID obs), cl_LastMailLogID = Some (ob_MailLogID obs),
            cl_LastBodyExcerpt = body, cl_CreatedBy = ob_UserID obs, cl_UpdatedBy = ob_UserID obs,
            cl_UpdatedAt = now\<rparr> tbl))"

definition forget_sender :: "Observation \<Rightarrow> classification list \<Rightarrow> classification list" where
  "forget_sender obs tbl =
     filter (\<lambda>r. \<not> (cl_OrganizationID r = ob_OrganizationID obs
        \<and> to_lower (cl_UserEmail r) = normalizeEmail (ob_UserEmail obs)
        \<and> to_lower (cl_FromAddr r) \<in> {normalizeEmail (ob_FromAddr obs), senderDomainKey (ob_FromAddr obs)}
        \<and> cl_SubjectFingerprint r = [])) tbl"

definition learn_sender ::
  "faults \<Rightarrow> nat \<Rightarrow> Observation \<Rightarrow> string \<Rightarrow> string \<Rightarrow> classification list \<Rightarrow>
     string option \<times> classification list" where
  "learn_sender err now obs verdict body tbl =
     (let (e, tbl2) = upsert_classification err now obs verdict [] body tbl
      in if e \<noteq> None then (e, tbl2)
         else
           (let domainKey = senderDomainKey (ob_FromAddr obs)
            in if domainKey \<noteq> [] then
                 upsert_classification err now (obs\<lparr>ob_FromAddr := domainKey\<rparr>) verdict [] body tbl2
               else (None, tbl2)))"

definition Learn ::
  "faults \<Rightarrow> nat \<Rightarrow> Observation \<Rightarrow> classification list \<Rightarrow> string option \<times> classification list" where
  "Learn err now obs tbl =
     (let verdict = to_lower (trim_space (ob_Verdict obs)) in
      if verdict = [] \<or> verdict = ''unreviewed'' then (None, tbl)
      else
        (let body = (if length (ob_BodyText obs) > 512 then take 512 (ob_BodyText obs) else ob_BodyText obs);
             fingerprint = SubjectFingerprint (ob_Subject obs);
             (e1, tbl1) = upsert_classification err now obs verdict fingerprint body tbl
         in if e1 \<noteq> None then (e1, tbl1)
            else if verdict = ''not_spam'' then
              (if err ''delete classifications'' then (Some ''delete classifications'', tbl1)
               else (None, forget_sender obs tbl1))
            else if shouldLearnSenderLevel verdict fingerprint (ob_FromAddr obs) then
              learn_sender err now obs verdict body tbl1
            else (None, tbl1)))"

definition threat_verdict :: "string \<Rightarrow> bool" where
  "threat_verdict v = (v \<in> {''spam'', ''phishing'', ''malware''})"

definition lookup_classification ::
  "faults \<Rightarrow> classification list \<Rightarrow> uuid \<Rightarrow> string \<Rightarrow> string \<Rightarrow> string \<Rightarrow> bool \<Rightarrow> Match option result" where
  "lookup_classification err tbl orgID userEmail fromAddr fingerprint threatOnly =
     (if err ''lookup classification'' then Inl ''lookup classification''
      else Inr (map_option (\<lambda>r. \<lparr>m_Verdict = cl_Verdict r, m_SampleCount = cl_SampleCount r\<rparr>)
        (first_by (\<lambda>r. - int (cl_UpdatedAt r))
          (filter (\<lambda>r. cl_OrganizationID r = orgID
              \<and> to_lower (cl_UserEmail r) = normalizeEmail userEmail
              \<and> to_lower (cl_FromAddr r) = normalizeEmail fromAddr
              \<and> cl_SubjectFingerprint r = fingerprint
              \<and> (\<not> threatOnly \<or> threat_verdict (cl_Verdict r))) tbl))))"

definition lookupDomain ::
  "faults \<Rightarrow> classification list \<Rightarrow> uuid \<Rightarrow> string \<Rightarrow> string \<Rightarrow> Match option result" where
  "lookupDomain err tbl orgID userEmail domainKey =
     (if err ''lookup domain classification'' then Inl ''lookup domain classification''
      else Inr (map_option (\<lambda>r. \<lparr>m_Verdict = cl_Verdict r, m_SampleCount = cl_SampleCount r\<rparr>)
        (first_by (\<lambda>r. - int (cl_UpdatedAt r))
          (filter (\<lambda>r. cl_OrganizationID r = orgID
              \<and> to_lower (cl_UserEmail r) = normalizeEmail userEmail
              \<and> to_lower (cl_FromAddr r) = domainKey
              \<and> cl_SubjectFingerprint r = []
              \<and> threat_verdict (cl_Verdict r)
              \<and> cl_SampleCount r \<ge> 2) tbl))))"

definition Lookup ::
  "faults \<Rightarrow> classification list \<Rightarrow> uuid \<Rightarrow> string \<Rightarrow> string \<Rightarrow> string \<Rightarrow> Match option result" where
  "Lookup err tbl orgID userEmail fromAddr subject =
     (let fingerprint = SubjectFingerprint subject;
          domain = (let domainKey = senderDomainKey fromAddr
                    in if domainKey \<noteq> [] then lookupDomain err tbl orgID userEmail domainKey else Inr None)
      in case lookup_classification err tbl orgID userEmail fromAddr fingerprint False of
           Inl e \<Rightarrow> Inl e
         | Inr (Some m) \<Rightarrow> Inr (Some m)
         | Inr None \<Rightarrow>
             if fingerprint \<noteq> [] then
               (case lookup_classification err tbl orgID userEmail fromAddr [] True of
                  Inl e \<Rightarrow> Inl e
                | Inr (Some m) \<Rightarrow> Inr (Some m)
                | Inr None \<Rightarrow> domain)
             else domain)"

subsection \<open>Fingerprints\<close>

lemma to_lower_join: "to_lower (join ws '' '') = join (map to_lower ws) '' ''"
  by (induction ws "'' ''" rule: join.induct) auto

lemma to_lower_lower: "list_all (\<lambda>c. \<not> is_upper c) s \<Longrightarrow> to_lower s = s"
  by (induction s) (auto simp: lower_char_cases)

lemma token_not_upper: "\<not> token_sep c \<Longrightarrow> \<not> is_upper c"
  by (auto simp: token_sep_def is_upper_def is_lower_def is_digit_def)

lemma fingerprint_tokens:
  fixes subject
  defines "ws \<equiv> take 8 (filter (\<lambda>token. \<not> length token \<le> 2) (words token_sep (to_lower subject)))"
  shows "u \<in> set ws \<Longrightarrow> list_all (\<lambda>c. \<not> token_sep c) u \<and> length u > 2" and "length ws \<le> 8"
  unfolding ws_def by (auto dest!: in_set_takeD dest: words_mem)

text \<open>Fingerprints are canonical: a subject's fingerprint has at most eight words of at least three
  letters or digits, and is its own fingerprint.\<close>

theorem SubjectFingerprint_canonical:
  "SubjectFingerprint (SubjectFingerprint subject) = SubjectFingerprint subject \<and>
   length (words token_sep (SubjectFingerprint subject)) \<le> 8 \<and>
   list_all (\<lambda>w. length w > 2 \<and> list_all (\<lambda>c. \<not> token_sep c) w) (words token_sep (SubjectFingerprint subject))"
proof -
  let ?ws = "take 8 (filter (\<lambda>token. \<not> length token \<le> 2) (words token_sep (to_lower subject)))"
  have tok: "\<forall>u \<in> set ?ws. u \<noteq> [] \<and> list_all (\<lambda>c. \<not> token_sep c) u" and len: "\<forall>u \<in> set ?ws. length u > 2"
    using fingerprint_tokens(1) by fastforce+
  have low: "map to_lower ?ws = ?ws"
    using tok by (intro map_idI to_lower_lower) (auto simp: list_all_iff dest: token_not_upper)
  have w: "words token_sep (to_lower (join ?ws '' '')) = ?ws"
    unfolding to_lower_join low by (rule words_join [OF _ tok]) (simp add: token_sep_def)
  have "filter (\<lambda>token. \<not> length token \<le> 2) ?ws = ?ws"
    using len by (auto simp: filter_id_conv)
  then have "SubjectFingerprint (SubjectFingerprint subject) = SubjectFingerprint subject"
    unfolding SubjectFingerprint_def w by simp
  moreover have "words token_sep (SubjectFingerprint subject) = ?ws"
    using w unfolding SubjectFingerprint_def to_lower_join low .
  ultimately show ?thesis
    using tok len fingerprint_tokens(2) [of subject] by (auto simp: list_all_iff)
qed

lemma SubjectFingerprint_upper [simp]: "SubjectFingerprint (to_upper s) = SubjectFingerprint s"
  by (simp add: SubjectFingerprint_def)

subsection \<open>Learning and looking up\<close>

interpretation classifications: keyed_table classification_key merge_classification
  by unfold_locales (simp add: classification_key_def merge_classification_def)

lemma normalizeEmail_idem [simp]:
  "normalizeEmail (normalizeEmail s) = normalizeEmail s" "to_lower (normalizeEmail s) = normalizeEmail s"
  by (simp_all add: normalizeEmail_def trim_space_to_lower)

abbreviation class_key :: "uuid \<Rightarrow> string \<Rightarrow> string \<Rightarrow> string \<Rightarrow> uuid \<times> string \<times> string \<times> string" where
  "class_key orgID userEmail fromAddr fp \<equiv> (orgID, normalizeEmail userEmail, fromAddr, fp)"

text \<open>With distinct keys a query is the lookup of one row.\<close>

definition match_of :: "classification \<Rightarrow> Match" where
  "match_of r = \<lparr>m_Verdict = cl_Verdict r, m_SampleCount = cl_SampleCount r\<rparr>"

lemma lookup_classification_row:
  assumes "distinct (map classification_key tbl)"
  shows "lookup_classification no_faults tbl o' u f fp t =
     Inr (case row_of classification_key (class_key o' u (normalizeEmail f) fp) tbl of
            None \<Rightarrow> None
          | Some r \<Rightarrow> if \<not> t \<or> threat_verdict (cl_Verdict r) then Some (match_of r) else None)"
proof -
  have f: "filter (\<lambda>r. cl_OrganizationID r = o' \<and> to_lower (cl_UserEmail r) = normalizeEmail u
              \<and> to_lower (cl_FromAddr r) = normalizeEmail f \<and> cl_SubjectFingerprint r = fp
              \<and> (\<not> t \<or> threat_verdict (cl_Verdict r))) tbl =
        filter (\<lambda>r. classification_key r = class_key o' u (normalizeEmail f) fp \<and>
              (\<not> t \<or> threat_verdict (cl_Verdict r))) tbl"
    by (intro filter_cong) (auto simp: classification_key_def)
  show ?thesis
    unfolding lookup_classification_def f first_by_row_of [OF assms]
    by (simp add: match_of_def split: option.split)
qed

lemma lookupDomain_row:
  assumes "distinct (map classification_key tbl)"
  shows "lookupDomain no_faults tbl o' u d =
     Inr (case row_of classification_key (class_key o' u d []) tbl of
            None \<Rightarrow> None
          | Some r \<Rightarrow> if threat_verdict (cl_Verdict r) \<and> cl_SampleCount r \<ge> 2 then Some (match_of r) else None)"
proof -
  have f: "filter (\<lambda>r. cl_OrganizationID r = o' \<and> to_lower (cl_UserEmail r) = normalizeEmail u
              \<and> to_lower (cl_FromAddr r) = d \<and> cl_SubjectFingerprint r = []
              \<and> threat_verdict (cl_Verdict r) \<and> cl_SampleCount r \<ge> 2) tbl =
        filter (\<lambda>r. classification_key r = class_key o' u d [] \<and>
              (threat_verdict (cl_Verdict r) \<and> cl_SampleCount r \<ge> 2)) tbl"
    by (intro filter_cong) (auto simp: classification_key_def)
  show ?thesis
    unfolding lookupDomain_def f first_by_row_of [OF assms]
    by (simp add: match_of_def split: option.split)
qed

lemma upsert_classification_rows:
  assumes "upsert_classification err now obs v fp body tbl = (None, tbl')"
  shows "distinct (map classification_key tbl) \<Longrightarrow> distinct (map classification_key tbl')"
    and "k \<noteq> class_key (ob_OrganizationID obs) (ob_UserEmail obs) (normalizeEmail (ob_FromAddr obs)) fp \<Longrightarrow>
           row_of classification_key k tbl' = row_of classification_key k tbl"
    and "\<exists>r. row_of classification_key
           (class_key (ob_OrganizationID obs) (ob_UserEmail obs) (normalizeEmail (ob_FromAddr obs)) fp) tbl' = Some r
           \<and> cl_Verdict r = v"
proof -
  let ?new = "\<lparr>cl_OrganizationID = ob_OrganizationID obs, cl_DomainID = ob_DomainID obs,
            cl_UserEmail = normalizeEmail (ob_UserEmail obs), cl_FromAddr = normalizeEmail (ob_FromAddr obs),
            cl_SubjectFingerprint = fp, cl_Verdict = v, cl_SampleCount = 1,
            cl_LastMailboxMessageID = Some (ob_MailboxMessageID obs), cl_LastMailLogID = Some (ob_MailLogID obs),
            cl_LastBodyExcerpt = body, cl_CreatedBy = ob_UserID obs, cl_UpdatedBy = ob_UserID obs,
            cl_UpdatedAt = now\<rparr>"
  have t: "tbl' = upsert_row classification_key merge_classification ?new tbl"
    using assms by (simp add: upsert_classification_def split: if_splits)
  have k: "classification_key ?new =
      class_key (ob_OrganizationID obs) (ob_UserEmail obs) (normalizeEmail (ob_FromAddr obs)) fp"
    by (simp add: classification_key_def)
  show "distinct (map classification_key tbl) \<Longrightarrow> distinct (map classification_key tbl')"
    unfolding t by (rule classifications.upsert_distinct)
  show "k \<noteq> class_key (ob_OrganizationID obs) (ob_UserEmail obs) (normalizeEmail (ob_FromAddr obs)) fp \<Longrightarrow>
           row_of classification_key k tbl' = row_of classification_key k tbl"
    unfolding t k [symmetric] by (rule classifications.upsert_other)
  show "\<exists>r. row_of classification_key
           (class_key (ob_OrganizationID obs) (ob_UserEmail obs) (normalizeEmail (ob_FromAddr obs)) fp) tbl' = Some r
           \<and> cl_Verdict r = v"
    unfolding t k [symmetric] classifications.upsert_same
    by (simp add: merge_classification_def split: option.splits)
qed

lemma learn_sender_keeps:
  assumes "learn_sender err now obs v body tbl = (None, tbl')" "k = (o', u, f, fp)" "fp \<noteq> []"
  shows "row_of classification_key k tbl' = row_of classification_key k tbl"
  using assms upsert_classification_rows(2) [of err now obs v "[]" body tbl _ k]
    upsert_classification_rows(2) [of err now "obs\<lparr>ob_FromAddr := senderDomainKey (ob_FromAddr obs)\<rparr>" v "[]" body _ tbl' k]
  by (auto simp: learn_sender_def Let_def split: prod.splits if_splits)

lemma learn_sender_distinct:
  assumes "learn_sender err now obs v body tbl = (None, tbl')" "distinct (map classification_key tbl)"
  shows "distinct (map classification_key tbl')"
  using assms upsert_classification_rows(1) [of err now obs v "[]" body tbl]
    upsert_classification_rows(1) [of err now "obs\<lparr>ob_FromAddr := senderDomainKey (ob_FromAddr obs)\<rparr>" v "[]" body _ tbl']
  by (auto simp: learn_sender_def Let_def split: prod.splits if_splits)

lemma forget_sender_distinct:
  "distinct (map classification_key tbl) \<Longrightarrow> distinct (map classification_key (forget_sender obs tbl))"
  by (simp add: forget_sender_def distinct_map_filter)

lemma forget_sender_row:
  assumes "distinct (map classification_key tbl)"
  shows "row_of classification_key (class_key (ob_OrganizationID obs) (ob_UserEmail obs) f fp) (forget_sender obs tbl) =
     (if fp = [] \<and> f \<in> {normalizeEmail (ob_FromAddr obs), senderDomainKey (ob_FromAddr obs)} then None
      else row_of classification_key (class_key (ob_OrganizationID obs) (ob_UserEmail obs) f fp) tbl)"
  unfolding forget_sender_def row_of_filter [OF assms]
  by (auto split: option.split dest!: row_of_Some simp: classification_key_def)

text \<open>The steps of a call that changes the table and succeeds.\<close>

lemma Learn_steps:
  assumes "Learn err now obs tbl = (None, tbl')" "v = to_lower (trim_space (ob_Verdict obs))"
    "v \<notin> {'''', ''unreviewed''}"
  obtains body tbl1 where
    "upsert_classification err now obs v (SubjectFingerprint (ob_Subject obs)) body tbl = (None, tbl1)"
    "v = ''not_spam'' \<Longrightarrow> tbl' = forget_sender obs tbl1"
    "v \<noteq> ''not_spam'' \<Longrightarrow> SubjectFingerprint (ob_Subject obs) \<noteq> [] \<and> learn_sender err now obs v body tbl1 = (None, tbl')
       \<or> tbl' = tbl1"
  using assms by (auto simp: Learn_def Let_def shouldLearnSenderLevel_def split: prod.splits if_splits)

text \<open>Feedback is remembered: after \<open>Learn\<close> of a reviewed message the lookup of a message from the
  same sender with the same subject fingerprint gives the verdict. A \<open>not_spam\<close> review of a subject
  without a fingerprint is the exception, see the next property.\<close>

theorem Learn_then_Lookup:
  assumes "distinct (map classification_key tbl)"
    and "Learn err now obs tbl = (None, tbl')"
    and "v = to_lower (trim_space (ob_Verdict obs))" "v \<notin> {'''', ''unreviewed''}"
    and "v \<noteq> ''not_spam'' \<or> SubjectFingerprint (ob_Subject obs) \<noteq> []"
    and "SubjectFingerprint subject = SubjectFingerprint (ob_Subject obs)"
  shows "\<exists>m. Lookup no_faults tbl' (ob_OrganizationID obs) (ob_UserEmail obs) (ob_FromAddr obs) subject = Inr (Some m)
           \<and> m_Verdict m = v"
proof -
  let ?fp = "SubjectFingerprint (ob_Subject obs)"
  let ?k = "class_key (ob_OrganizationID obs) (ob_UserEmail obs) (normalizeEmail (ob_FromAddr obs)) ?fp"
  obtain body tbl1 where up: "upsert_classification err now obs v ?fp body tbl = (None, tbl1)"
    and ns: "v = ''not_spam'' \<Longrightarrow> tbl' = forget_sender obs tbl1"
    and ls: "v \<noteq> ''not_spam'' \<Longrightarrow> ?fp \<noteq> [] \<and> learn_sender err now obs v body tbl1 = (None, tbl') \<or> tbl' = tbl1"
    using Learn_steps [OF assms(2,3,4)] by blast
  from upsert_classification_rows [OF up] assms(1) obtain r where d: "distinct (map classification_key tbl1)"
    and r: "row_of classification_key ?k tbl1 = Some r" "cl_Verdict r = v" by blast
  have "distinct (map classification_key tbl') \<and> row_of classification_key ?k tbl' = Some r"
  proof (cases "v = ''not_spam''")
    case True
    with assms(5) ns d r show ?thesis by (simp add: forget_sender_distinct forget_sender_row)
  next
    case False
    then show ?thesis
      using ls d r learn_sender_keeps [of err now obs v body tbl1 tbl' ?k]
        learn_sender_distinct [of err now obs v body tbl1 tbl'] by auto
  qed
  with r(2) show ?thesis
    by (simp add: Lookup_def assms(6) Let_def lookup_classification_row match_of_def)
qed

text \<open>A \<open>not_spam\<close> review clears the sender: afterwards only a row of the very subject can match. For
  a subject without a fingerprint, such as a greeting of two letters, the review's own row is
  deleted too and nothing is remembered.\<close>

theorem not_spam_clears_sender:
  assumes "distinct (map classification_key tbl)"
    and "Learn err now obs tbl = (None, tbl')" "to_lower (trim_space (ob_Verdict obs)) = ''not_spam''"
  shows "Lookup no_faults tbl' (ob_OrganizationID obs) (ob_UserEmail obs) (ob_FromAddr obs) subject =
     (if SubjectFingerprint subject = [] then Inr None
      else lookup_classification no_faults tbl' (ob_OrganizationID obs) (ob_UserEmail obs) (ob_FromAddr obs)
             (SubjectFingerprint subject) False)"
proof -
  have n: "''not_spam'' \<notin> {'''', ''unreviewed''}" by simp
  obtain body tbl1 where up: "upsert_classification err now obs ''not_spam'' (SubjectFingerprint (ob_Subject obs)) body tbl = (None, tbl1)"
    and t: "tbl' = forget_sender obs tbl1"
    using Learn_steps [OF assms(2) assms(3) [symmetric] n] by blast
  have d: "distinct (map classification_key tbl1)"
    using upsert_classification_rows(1) [OF up] assms(1) by blast
  have d': "distinct (map classification_key (forget_sender obs tbl1))"
    using d by (simp add: forget_sender_distinct)
  show ?thesis
    unfolding t Lookup_def Let_def lookup_classification_row [OF d'] lookupDomain_row [OF d'] forget_sender_row [OF d]
    by (simp split: option.split)
qed

lemma Learn_no_faults: "fst (Learn no_faults now obs tbl) = None"
  by (simp add: Learn_def learn_sender_def upsert_classification_def Let_def)

lemma Learn_then_Lookup_witness:
  "\<exists>tbl' m. Lookup no_faults tbl' 1 ''u@x.io'' ''A@b.io'' ''RE: win'' = Inr (Some m) \<and> m_Verdict m = ''spam''"
proof -
  let ?obs = "\<lparr>ob_OrganizationID = 1, ob_DomainID = None, ob_UserEmail = ''u@x.io'', ob_FromAddr = ''A@b.io'',
    ob_Subject = ''Win'', ob_Verdict = ''Spam'', ob_MailboxMessageID = 1, ob_MailLogID = 1, ob_BodyText = [],
    ob_UserID = 1\<rparr>"
  obtain tbl' where "Learn no_faults 5 ?obs [] = (None, tbl')"
    using Learn_no_faults [of 5 ?obs "[]"] by (metis prod.collapse)
  then show ?thesis
    using Learn_then_Lookup [of "[]" no_faults 5 ?obs tbl' "''spam''" "''RE: win''"]
    by (auto simp: trim_defs SubjectFingerprint_def words_def token_sep_def)
qed

lemma not_spam_clears_sender_witness:
  "\<exists>tbl'. Lookup no_faults tbl' 1 ''u@x.io'' ''A@b.io'' ''Hi'' = Inr None"
proof -
  let ?obs = "\<lparr>ob_OrganizationID = 1, ob_DomainID = None, ob_UserEmail = ''u@x.io'', ob_FromAddr = ''A@b.io'',
    ob_Subject = ''Hi'', ob_Verdict = ''not_spam'', ob_MailboxMessageID = 1, ob_MailLogID = 1, ob_BodyText = [],
    ob_UserID = 1\<rparr>"
  obtain tbl' where "Learn no_faults 5 ?obs [] = (None, tbl')"
    using Learn_no_faults [of 5 ?obs "[]"] by (metis prod.collapse)
  then show ?thesis
    using not_spam_clears_sender [of "[]" no_faults 5 ?obs tbl' "''Hi''"]
    by (auto simp: trim_defs SubjectFingerprint_def words_def token_sep_def)
qed

subsection \<open>The keyword analysis\<close>

lemma is_letter_upper_char [simp]: "is_letter (upper_char c) = is_letter c"
  by (cases c) (auto simp: is_letter_def)

lemma upper_char_not_letter: "\<not> is_letter c \<Longrightarrow> upper_char c = c"
  by (simp add: upper_char_def is_letter_def)

lemma upper_char_eq: "\<not> is_letter d \<Longrightarrow> d = upper_char c \<longleftrightarrow> d = c"
  by (metis is_letter_upper_char upper_char_not_letter)

lemma has_prefix_to_upper:
  "list_all (\<lambda>d. \<not> is_letter d) b \<Longrightarrow> has_prefix (to_upper s) b = has_prefix s b"
proof (induction b arbitrary: s)
  case (Cons d b)
  then show ?case by (cases s) (auto simp: upper_char_eq)
qed simp

lemma homoglyphs_not_letters: "list_all (\<lambda>(b, _). list_all (\<lambda>d. \<not> is_letter d) b) homoglyphs"
  by (simp add: homoglyphs_def is_letter_def)

lemma find_homoglyph_to_upper:
  "list_all (\<lambda>(b, _). list_all (\<lambda>d. \<not> is_letter d) b) hs \<Longrightarrow> find_homoglyph hs (to_upper s) = find_homoglyph hs s"
  by (induction hs s rule: find_homoglyph.induct) (auto simp: has_prefix_to_upper)

lemma map_homoglyphs_to_upper:
  "to_lower (map_homoglyphs skip (to_upper s)) = to_lower (map_homoglyphs skip s)"
proof (induction skip s rule: map_homoglyphs.induct)
  case (3 c s)
  then show ?case
    using find_homoglyph_to_upper [OF homoglyphs_not_letters, of "c # s"] by (auto split: option.splits)
qed auto

text \<open>Case does not hide a scam: writing subject or body in capitals changes nothing in the analysis.\<close>

theorem AnalyzeCommonScam_to_upper:
  "AnalyzeCommonScam (to_upper subject) (to_upper body) = AnalyzeCommonScam subject body"
proof -
  have "normalizeSuspiciousText (to_upper subject @ [CHR 0x0A] @ to_upper body) =
      normalizeSuspiciousText (subject @ [CHR 0x0A] @ body)"
    using map_homoglyphs_to_upper [of 0 "subject @ [CHR 0x0A] @ body"]
    by (simp add: normalizeSuspiciousText_def)
  then show ?thesis unfolding AnalyzeCommonScam_def by (simp only:)
qed

lemma contains_sub: "contains s t \<Longrightarrow> contains t u \<Longrightarrow> contains s u"
  unfolding contains_def by (rule sublist_order.order_trans)

lemma fourth_case:
  "p a \<Longrightarrow> p b \<Longrightarrow> p c \<Longrightarrow> p d \<Longrightarrow> c4 \<Longrightarrow>
     p (if c1 then a else if c2 then b else if c3 then c else if c4 then d else e)"
  by simp

text \<open>Every mention of an attachment is suspicious: the term \<open>ach\<close> of the payment case occurs within
  \<open>attached\<close>, which is also one of the case's urgency terms: any text with that word is filed as a
  scam, at the latest as business email compromise.\<close>

theorem attached_is_scam:
  assumes "contains (normalizeSuspiciousText (subject @ [CHR 0x0A] @ body)) ''attached''"
  shows "EmailType (AnalyzeCommonScam subject body) \<in>
     {''Credential phishing'', ''Wallet access phishing'', ''Package delivery scam'', ''Business email compromise''}"
proof -
  have "contains (normalizeSuspiciousText (subject @ [CHR 0x0A] @ body)) ''ach''"
    by (rule contains_sub [OF assms]) simp
  with assms show ?thesis
    unfolding AnalyzeCommonScam_def Let_def
    by (intro fourth_case [where p = "\<lambda>a. EmailType a \<in> _"]) (simp_all add: warn_def)
qed

lemma attached_is_scam_witness:
  "EmailType (AnalyzeCommonScam ''Minutes'' ''See attached'') \<in>
     {''Credential phishing'', ''Wallet access phishing'', ''Package delivery scam'', ''Business email compromise''}"
  by (rule attached_is_scam) (simp add: normalizeSuspiciousText_def homoglyphs_def)

end
