(* ===== verification/GoUrl.thy ===== *)
theory GoUrl
  imports GoNet
begin

text \<open>
  Go's \<open>net/url\<close> as far as the gateway uses it: \<open>url.Parse\<close>, \<open>Hostname\<close>,
  \<open>EscapedPath\<close> and \<open>String\<close>. Bracketed IP literals with a zone are refused here.
\<close>

datatype mode = EncodePath | EncodeHost | EncodeFragment | EncodeUserinfo

definition alnum :: "char \<Rightarrow> bool" where
  "alnum c = (is_letter c \<or> is_digit c)"

definition unreserved :: "char \<Rightarrow> bool" where
  "unreserved c = (alnum c \<or> c \<in> set ''-_.~'')"

definition should_escape :: "char \<Rightarrow> mode \<Rightarrow> bool" where
  "should_escape c m =
     (if unreserved c then False
      else case m of
        EncodeHost \<Rightarrow> c \<notin> set (CHR 0x27 # ''!$&()*+,;=:[]<>\"'')
      | EncodePath \<Rightarrow> c \<notin> set ''$&+,/:;=@''
      | EncodeFragment \<Rightarrow> c \<notin> set ''$&+,/:;=?@!()*''
      | EncodeUserinfo \<Rightarrow> c \<notin> set ''$&+,;='')"

definition byte_char :: "nat \<Rightarrow> char" where
  "byte_char n = char_of n"

text \<open>Percent decoding. In a host only bytes of 128 or more may be encoded, and \<open>%25\<close>.\<close>

fun unescape :: "mode \<Rightarrow> string \<Rightarrow> string option" where
  "unescape m [] = Some []"
| "unescape m (c # s) =
     (if c = CHR ''%'' then
        (case s of
           h # l # rest \<Rightarrow>
             if is_hex h \<and> is_hex l \<and> (m = EncodeHost \<longrightarrow> hex_val h \<ge> 8 \<or> (h = CHR ''2'' \<and> l = CHR ''5'')) then
               map_option ((#) (byte_char (16 * hex_val h + hex_val l))) (unescape m rest)
             else None
         | _ \<Rightarrow> None)
      else if m = EncodeHost \<and> byte c < 128 \<and> should_escape c m then None
      else map_option ((#) c) (unescape m s))"

definition hex_digit :: "nat \<Rightarrow> char" where
  "hex_digit n = ''0123456789ABCDEF'' ! n"

fun escape :: "mode \<Rightarrow> string \<Rightarrow> string" where
  "escape m [] = []"
| "escape m (c # s) =
     (if should_escape c m then CHR ''%'' # hex_digit (byte c div 16) # hex_digit (byte c mod 16) # escape m s
      else c # escape m s)"

definition valid_encoded :: "mode \<Rightarrow> string \<Rightarrow> bool" where
  "valid_encoded m s =
     list_all (\<lambda>c. c \<in> set (CHR 0x27 # ''!$&()*+,;=:@[]%'') \<or> \<not> should_escape c m) s"

text \<open>\<open>User\<close> tells whether the authority has user information.\<close>

record url =
  url_Scheme :: string
  url_Opaque :: string
  url_HasUser :: bool
  url_Host :: string
  url_EscapedPath :: string
  url_ForceQuery :: bool
  url_RawQuery :: string
  url_EscapedFragment :: string

text \<open>The scheme and the rest; \<open>None\<close> for a URL that begins with its colon.\<close>

fun get_scheme :: "string \<Rightarrow> string \<Rightarrow> (string \<times> string) option" where
  "get_scheme seen [] = Some ([], rev seen)"
| "get_scheme seen (c # s) =
     (if is_letter c \<or> (seen \<noteq> [] \<and> (is_digit c \<or> c \<in> set ''+-.'')) then get_scheme (c # seen) s
      else if c = CHR '':'' then (if seen = [] then None else Some (rev seen, s))
      else Some ([], rev seen @ c # s))"

definition valid_optional_port :: "string \<Rightarrow> bool" where
  "valid_optional_port p = (case p of [] \<Rightarrow> True | c # ds \<Rightarrow> c = CHR '':'' \<and> list_all is_digit ds)"

definition parse_host :: "string \<Rightarrow> string option" where
  "parse_host h =
     (if CHR ''['' \<in> set h then
        (let lit = cut_before (drop 1 h) CHR '']''; port = cut_after (drop 1 h) CHR '']'' in
         if hd h = CHR ''['' \<and> CHR '']'' \<in> set h \<and> valid_optional_port port \<and>
            CHR ''%'' \<notin> set lit \<and> parse_v6 lit \<noteq> None
         then Some h else None)
      else if CHR '':'' \<in> set h \<and>
              (length (filter (\<lambda>c. c = CHR '':'') h) > 1 \<or>
               \<not> valid_optional_port (dropWhile (\<lambda>c. c \<noteq> CHR '':'') h)) then None
      else unescape EncodeHost h)"

definition valid_userinfo :: "string \<Rightarrow> bool" where
  "valid_userinfo s = list_all (\<lambda>c. alnum c \<or> c \<in> set (CHR 0x27 # ''-._:~!$&()*+,;=%@'')) s"

text \<open>Whether there is user information, and the host.\<close>

definition parse_authority :: "string \<Rightarrow> (bool \<times> string) option" where
  "parse_authority a =
     (case last_index_char a CHR ''@'' of
        None \<Rightarrow> map_option (Pair False) (parse_host a)
      | Some i \<Rightarrow>
          (case parse_host (drop (Suc i) a) of
             None \<Rightarrow> None
           | Some h \<Rightarrow>
               if valid_userinfo (take i a) \<and> unescape EncodeUserinfo (take i a) \<noteq> None
               then Some (True, h) else None))"

definition encoded_as :: "mode \<Rightarrow> string \<Rightarrow> string option" where
  "encoded_as m s =
     (case unescape m s of
        None \<Rightarrow> None
      | Some d \<Rightarrow> Some (if valid_encoded m s then s else escape m d))"

definition ctl_byte :: "char \<Rightarrow> bool" where
  "ctl_byte c = (byte c < 32 \<or> byte c = 127)"

definition url_parse :: "string \<Rightarrow> url option" where
  "url_parse raw =
     (let u = cut_before raw CHR ''#''; frag = cut_after raw CHR ''#'' in
      if list_ex ctl_byte u then None
      else case (get_scheme [] u, encoded_as EncodeFragment frag) of
        (Some (scheme, rest0), Some fragment) \<Rightarrow>
          (let forced = (has_suffix rest0 ''?'' \<and> length (filter (\<lambda>c. c = CHR ''?'') rest0) = 1);
               rest = cut_before rest0 CHR ''?'';
               query = cut_after rest0 CHR ''?'';
               base = \<lparr>url_Scheme = to_lower scheme, url_Opaque = [], url_HasUser = False, url_Host = [],
                 url_EscapedPath = [], url_ForceQuery = forced, url_RawQuery = query,
                 url_EscapedFragment = fragment\<rparr>
           in if u = ''*'' then Some (base\<lparr>url_EscapedPath := ''*''\<rparr>)
              else if \<not> has_prefix rest ''/'' \<and> scheme \<noteq> [] then Some (base\<lparr>url_Opaque := rest\<rparr>)
              else if \<not> has_prefix rest ''/'' \<and> CHR '':'' \<in> set (cut_before rest CHR ''/'') then None
              else if has_prefix rest ''//'' \<and> (scheme \<noteq> [] \<or> \<not> has_prefix rest ''///'') then
                (let authority = cut_before (drop 2 rest) CHR ''/'';
                     path = dropWhile (\<lambda>c. c \<noteq> CHR ''/'') (drop 2 rest)
                 in case (parse_authority authority, encoded_as EncodePath path) of
                      (Some (user, host), Some p) \<Rightarrow>
                        Some (base\<lparr>url_HasUser := user, url_Host := host, url_EscapedPath := p\<rparr>)
                    | _ \<Rightarrow> None)
              else map_option (\<lambda>p. base\<lparr>url_EscapedPath := p\<rparr>) (encoded_as EncodePath rest))
      | _ \<Rightarrow> None)"

definition hostname :: "url \<Rightarrow> string" where
  "hostname u =
     (let h = url_Host u;
          h1 = (case last_index_char h CHR '':'' of
                  None \<Rightarrow> h
                | Some i \<Rightarrow> if valid_optional_port (drop i h) then take i h else h)
      in if has_prefix h1 ''['' \<and> has_suffix h1 '']'' then drop 1 (take (length h1 - 1) h1) else h1)"

text \<open>\<open>u.String()\<close> of a URL with a scheme and a host and without user information.\<close>

definition url_string :: "url \<Rightarrow> string" where
  "url_string u =
     url_Scheme u @ ''://'' @ escape EncodeHost (url_Host u) @ url_EscapedPath u
     @ (if url_ForceQuery u \<or> url_RawQuery u \<noteq> [] then ''?'' @ url_RawQuery u else [])
     @ (if url_EscapedFragment u \<noteq> [] then ''#'' @ url_EscapedFragment u else [])"

lemmas url_defs = url_parse_def parse_authority_def parse_host_def encoded_as_def valid_optional_port_def
  hostname_def should_escape_def unreserved_def alnum_def valid_encoded_def cut_before_def cut_after_def
  ctl_byte_def

end
