(* ===== verification/GoCodec.thy ===== *)
theory GoCodec
  imports GoUrl
begin

text \<open>\<open>encoding/hex\<close> and the decoder of \<open>encoding/base64.StdEncoding\<close>.\<close>

definition lower_hex_digit :: "nat \<Rightarrow> char" where
  "lower_hex_digit n = ''0123456789abcdef'' ! n"

fun hex_encode :: "string \<Rightarrow> string" where
  "hex_encode [] = []"
| "hex_encode (c # s) = lower_hex_digit (byte c div 16) # lower_hex_digit (byte c mod 16) # hex_encode s"

fun hex_decode :: "string \<Rightarrow> string option" where
  "hex_decode [] = Some []"
| "hex_decode [c] = None"
| "hex_decode (h # l # s) =
     (if is_hex h \<and> is_hex l then map_option ((#) (byte_char (16 * hex_val h + hex_val l))) (hex_decode s)
      else None)"

lemma lower_hex_digit_val:
  assumes "n < 16"
  shows "is_hex (lower_hex_digit n) \<and> hex_val (lower_hex_digit n) = n"
proof -
  have "list_all (\<lambda>m. is_hex (lower_hex_digit m) \<and> hex_val (lower_hex_digit m) = m) [0..<16]"
    by code_simp
  then show ?thesis using assms by (simp add: list_all_iff)
qed

lemma hex_decode_encode [simp]: "hex_decode (hex_encode s) = Some s"
proof (induction s)
  case (Cons c s)
  have "byte c < 256" by simp
  then have "byte c div 16 < 16" by (simp add: less_mult_imp_div_less)
  then show ?case
    using Cons lower_hex_digit_val [of "byte c div 16"] lower_hex_digit_val [of "byte c mod 16"]
    by (simp add: byte_char_def)
qed simp

lemma hex_encode_inject: "hex_encode s = hex_encode t \<longleftrightarrow> s = t"
  by (metis hex_decode_encode option.inject)

definition base64_val :: "char \<Rightarrow> nat option" where
  "base64_val c =
     (if is_upper c then Some (byte c - 65)
      else if is_lower c then Some (byte c - 71)
      else if is_digit c then Some (byte c + 4)
      else if c = CHR ''+'' then Some 62
      else if c = CHR ''/'' then Some 63
      else None)"

text \<open>Groups of four characters; \<open>=\<close> pads the last one.\<close>

fun base64_groups :: "string \<Rightarrow> string option" where
  "base64_groups [] = Some []"
| "base64_groups (a # b # c # d # s) =
     (case (base64_val a, base64_val b) of
        (Some x, Some y) \<Rightarrow>
          (let b1 = byte_char (4 * x + y div 16) in
           if s = [] \<and> c = CHR ''='' \<and> d = CHR ''='' then Some [b1]
           else (case base64_val c of
             None \<Rightarrow> None
           | Some z \<Rightarrow>
               (let b2 = byte_char ((16 * y + z div 4) mod 256) in
                if s = [] \<and> d = CHR ''='' then Some [b1, b2]
                else (case base64_val d of
                  None \<Rightarrow> None
                | Some w \<Rightarrow>
                    map_option (\<lambda>t. b1 # b2 # byte_char ((64 * z + w) mod 256) # t) (base64_groups s)))))
      | _ \<Rightarrow> None)"
| "base64_groups _ = None"

definition base64_decode :: "string \<Rightarrow> string option" where
  "base64_decode s = base64_groups (filter (\<lambda>c. c \<noteq> CHR 0x0D \<and> c \<noteq> CHR 0x0A) s)"

subsection \<open>The unpadded encodings\<close>

text \<open>\<open>base64.RawStdEncoding\<close> and \<open>base64.RawURLEncoding\<close> differ in the last two digits.\<close>

definition base64_digit :: "bool \<Rightarrow> nat \<Rightarrow> char" where
  "base64_digit url n =
     (if n < 26 then byte_char (n + 65)
      else if n < 52 then byte_char (n + 71)
      else if n < 62 then byte_char (n - 4)
      else if n = 62 then (if url then CHR ''-'' else CHR ''+'')
      else (if url then CHR ''_'' else CHR ''/''))"

definition raw64_val :: "bool \<Rightarrow> char \<Rightarrow> nat option" where
  "raw64_val url c =
     (if is_upper c then Some (byte c - 65)
      else if is_lower c then Some (byte c - 71)
      else if is_digit c then Some (byte c + 4)
      else if c = (if url then CHR ''-'' else CHR ''+'') then Some 62
      else if c = (if url then CHR ''_'' else CHR ''/'') then Some 63
      else None)"

fun raw64_encode :: "bool \<Rightarrow> string \<Rightarrow> string" where
  "raw64_encode url [] = []"
| "raw64_encode url [a] = [base64_digit url (byte a div 4), base64_digit url (16 * (byte a mod 4))]"
| "raw64_encode url [a, b] =
     [base64_digit url (byte a div 4), base64_digit url (16 * (byte a mod 4) + byte b div 16),
      base64_digit url (4 * (byte b mod 16))]"
| "raw64_encode url (a # b # c # s) =
     base64_digit url (byte a div 4) # base64_digit url (16 * (byte a mod 4) + byte b div 16) #
     base64_digit url (4 * (byte b mod 16) + byte c div 64) # base64_digit url (byte c mod 64) #
     raw64_encode url s"

fun raw64_groups :: "bool \<Rightarrow> string \<Rightarrow> string option" where
  "raw64_groups url [] = Some []"
| "raw64_groups url [a] = None"
| "raw64_groups url [a, b] =
     (case (raw64_val url a, raw64_val url b) of
        (Some x, Some y) \<Rightarrow> Some [byte_char (4 * x + y div 16)]
      | _ \<Rightarrow> None)"
| "raw64_groups url [a, b, c] =
     (case (raw64_val url a, raw64_val url b, raw64_val url c) of
        (Some x, Some y, Some z) \<Rightarrow> Some [byte_char (4 * x + y div 16), byte_char ((16 * y + z div 4) mod 256)]
      | _ \<Rightarrow> None)"
| "raw64_groups url (a # b # c # d # s) =
     (case (raw64_val url a, raw64_val url b, raw64_val url c, raw64_val url d) of
        (Some x, Some y, Some z, Some w) \<Rightarrow>
          map_option (\<lambda>t. byte_char (4 * x + y div 16) # byte_char ((16 * y + z div 4) mod 256) #
            byte_char ((64 * z + w) mod 256) # t) (raw64_groups url s)
      | _ \<Rightarrow> None)"

definition raw64_decode :: "bool \<Rightarrow> string \<Rightarrow> string option" where
  "raw64_decode url s = raw64_groups url (filter (\<lambda>c. c \<noteq> CHR 0x0D \<and> c \<noteq> CHR 0x0A) s)"

lemma byte_byte_char: "k < 256 \<Longrightarrow> byte (byte_char k) = k"
  by (simp add: byte_char_def)

lemma byte_char_neq: "k < 256 \<Longrightarrow> k \<noteq> byte c \<Longrightarrow> byte_char k \<noteq> c"
  by (metis byte_byte_char)

lemma base64_digit_val:
  assumes "n < 64"
  shows "raw64_val url (base64_digit url n) = Some n \<and> base64_digit url n \<noteq> CHR 0x0D \<and> base64_digit url n \<noteq> CHR 0x0A"
proof -
  have sep: "65 \<le> k \<and> k \<le> 90 \<or> 97 \<le> k \<and> k \<le> 122 \<or> 48 \<le> k \<and> k \<le> 57 \<Longrightarrow>
      byte_char k \<noteq> CHR 0x0D \<and> byte_char k \<noteq> CHR 0x0A" for k
    by (auto simp: byte_char_neq)
  consider "n < 26" | "26 \<le> n" "n < 52" | "52 \<le> n" "n < 62" | "n = 62" | "n = 63" using assms by linarith
  moreover have "52 \<le> n \<Longrightarrow> n < 62 \<Longrightarrow> 48 \<le> n - 4 \<and> n - 4 \<le> 57" by linarith
  ultimately show ?thesis
    using sep [of "n + 65"] sep [of "n + 71"] sep [of "n - 4"]
    by cases (simp_all add: base64_digit_def raw64_val_def char_class_defs byte_byte_char)
qed

lemma sextets:
  "byte a div 4 < 64" "16 * (byte a mod 4) + byte b div 16 < 64" "4 * (byte b mod 16) + byte c div 64 < 64"
  "byte c mod 64 < 64" "16 * (byte a mod 4) < 64" "4 * (byte b mod 16) < 64"
proof -
  have "byte a < 256" "byte b < 256" "byte c < 256" by simp_all
  then have "byte a div 4 < 64" "byte b div 16 < 16" "byte c div 64 < 4" "byte a mod 4 < 4" "byte b mod 16 < 16"
    by (simp_all add: less_mult_imp_div_less)
  then show "byte a div 4 < 64" "16 * (byte a mod 4) + byte b div 16 < 64" "4 * (byte b mod 16) + byte c div 64 < 64"
    "byte c mod 64 < 64" "16 * (byte a mod 4) < 64" "4 * (byte b mod 16) < 64"
    by simp_all
qed

lemma raw64_filter: "filter (\<lambda>c. c \<noteq> CHR 0x0D \<and> c \<noteq> CHR 0x0A) (raw64_encode url s) = raw64_encode url s"
  by (induction url s rule: raw64_encode.induct) (simp_all add: base64_digit_val sextets)

lemma base64_arith:
  fixes a b c :: nat
  shows "4 * (a div 4) + (16 * (a mod 4) + b div 16) div 16 = a + b div 256"
    "16 * (16 * (a mod 4) + b div 16) + (4 * (b mod 16) + c div 64) div 4 = 256 * (a mod 4) + b + c div 256"
    "64 * (4 * (b mod 16) + c div 64) + c mod 64 = 256 * (b mod 16) + c"
  by (simp_all add: div_add1_eq div_mult2_eq [symmetric])

text \<open>What is encoded is decoded again, with either alphabet.\<close>

lemma raw64_roundtrip [simp]: "raw64_decode url (raw64_encode url s) = Some s"
proof -
  have b: "byte x < 256" "byte x div 256 = 0" for x by simp_all
  have "raw64_groups url (raw64_encode url s) = Some s"
  proof (induction url s rule: raw64_encode.induct)
    case (2 url a)
    then show ?case
      using base64_arith(1) [of "byte a" 0] by (simp add: base64_digit_val sextets byte_char_def)
  next
    case (3 url a b)
    then show ?case
      using base64_arith(1) [of "byte a" "byte b"] base64_arith(2) [of "byte a" "byte b" 0]
      by (simp add: base64_digit_val sextets byte_char_def b)
  next
    case (4 url a b c s)
    then show ?case
      using base64_arith(1) [of "byte a" "byte b"] base64_arith(2) [of "byte a" "byte b" "byte c"]
        base64_arith(3) [of "byte b" "byte c"]
      by (simp add: base64_digit_val sextets byte_char_def b)
  qed simp
  then show ?thesis by (simp add: raw64_decode_def raw64_filter)
qed

end
