(* ===== verification/ThreatFeed.thy ===== *)
theory ThreatFeed
  imports GoCodec Upsert
begin

text \<open>
  \<open>internal/threatfeed\<close>: the answer codes of DNS lists, the feeds, and the registry that asks
  them and caches the answer. The DNS resolver, SHA-256 and the HTTP client are arguments. Times and
  intervals are in seconds. Timers and goroutines are not modelled: \<open>runFeed\<close> repeats
  \<open>Refresh\<close>. When there is a redis client, its reads and writes of the cache succeed.
\<close>

subsection \<open>Answer codes\<close>

definition dnsblListed :: "string \<Rightarrow> bool \<times> string option" where
  "dnsblListed addr =
     (case parse_ip4 addr of
        None \<Rightarrow> (False, Some (''non IPv4 answer '' @ addr))
      | Some v4 \<Rightarrow>
          if v4 ! 0 \<noteq> 127 then (False, Some (''answer outside 127.0.0.0/8: '' @ addr))
          else if v4 ! 1 = 255 \<and> v4 ! 2 = 255 then (False, Some (''list error code '' @ addr))
          else if v4 ! 1 = 0 \<and> v4 ! 2 = 0 \<and> v4 ! 3 \<ge> 2 \<and> v4 ! 3 \<le> 11 then (True, None)
          else (False, Some (''unrecognized return code '' @ addr)))"

definition domainblListed :: "string \<Rightarrow> bool \<times> string option" where
  "domainblListed addr =
     (case parse_ip4 addr of
        None \<Rightarrow> (False, Some (''non IPv4 answer '' @ addr))
      | Some v4 \<Rightarrow>
          if v4 ! 0 \<noteq> 127 then (False, Some (''answer outside 127.0.0.0/8: '' @ addr))
          else if v4 ! 1 = 255 \<and> v4 ! 2 = 255 then (False, Some (''list error code '' @ addr))
          else if v4 ! 1 = 0 \<and> v4 ! 2 = 1 \<and> v4 ! 3 \<noteq> 255 \<and> v4 ! 3 \<ge> 2 then (True, None)
          else (False, Some (''unrecognized return code '' @ addr)))"

fun listed_loop :: "(string \<Rightarrow> bool \<times> string option) \<Rightarrow> string option \<Rightarrow> string list \<Rightarrow> bool \<times> string option" where
  "listed_loop classify firstErr [] = (False, firstErr)"
| "listed_loop classify firstErr (addr # addrs) =
     (let (listed, err) = classify addr in
      if listed then (True, None)
      else listed_loop classify (if err \<noteq> None \<and> firstErr = None then err else firstErr) addrs)"

definition firstListed :: "string list \<Rightarrow> (string \<Rightarrow> bool \<times> string option) \<Rightarrow> bool \<times> string option" where
  "firstListed addrs classify = listed_loop classify None addrs"

subsection \<open>Feeds\<close>

datatype Kind = KindIP | KindDomain | KindURL | KindHash | KindBrand

definition kind_string :: "Kind \<Rightarrow> string" where
  "kind_string k = (case k of KindIP \<Rightarrow> ''ip'' | KindDomain \<Rightarrow> ''domain'' | KindURL \<Rightarrow> ''url''
     | KindHash \<Rightarrow> ''hash'' | KindBrand \<Rightarrow> ''brand'')"

record Result =
  Hit :: bool
  Source :: string
  Responses :: "string list"

definition miss :: Result where
  "miss = \<lparr>Hit = False, Source = [], Responses = []\<rparr>"

text \<open>\<open>LookupHost\<close> answers addresses, an NXDOMAIN, or another error.\<close>

datatype dns = Addrs "string list" | NotFound | DnsError string

definition decimal_string :: "nat \<Rightarrow> string" where
  "decimal_string n = (let d = (\<lambda>k. byte_char (48 + k)) in
     if n < 10 then [d n] else if n < 100 then [d (n div 10), d (n mod 10)]
     else [d (n div 100), d (n div 10 mod 10), d (n mod 10)])"

definition reverseIPv4 :: "nat list \<Rightarrow> string" where
  "reverseIPv4 ip = join (map decimal_string (rev ip)) ''.''"

definition listing_result ::
  "string \<Rightarrow> (string \<Rightarrow> bool \<times> string option) \<Rightarrow> dns \<Rightarrow> Result result" where
  "listing_result feedName classify answer =
     (case answer of
        NotFound \<Rightarrow> Inr miss
      | DnsError e \<Rightarrow> Inl e
      | Addrs addrs \<Rightarrow>
          (case firstListed addrs classify of
             (True, _) \<Rightarrow> Inr \<lparr>Hit = True, Source = feedName, Responses = addrs\<rparr>
           | (False, Some e) \<Rightarrow> Inl e
           | (False, None) \<Rightarrow> Inr miss))"

definition DNSBL_Lookup :: "(string \<Rightarrow> dns) \<Rightarrow> string \<Rightarrow> string \<Rightarrow> string \<Rightarrow> Result result" where
  "DNSBL_Lookup resolver feedName zone v =
     (case parse_ip4 v of
        None \<Rightarrow> Inl ''dnsbl: invalid IPv4''
      | Some ip \<Rightarrow> listing_result feedName dnsblListed (resolver (reverseIPv4 ip @ ''.'' @ zone)))"

definition DomainBL_Lookup :: "(string \<Rightarrow> dns) \<Rightarrow> string \<Rightarrow> string \<Rightarrow> string \<Rightarrow> Result result" where
  "DomainBL_Lookup resolver feedName zone v =
     (let domain = trim_suffix (to_lower (trim_space v)) ''.'' in
      if domain = [] \<or> contains_chars domain '' /:@'' \<or> \<not> contains domain ''.'' then
        Inl ''domainbl: invalid domain''
      else listing_result feedName domainblListed (resolver (domain @ ''.'' @ zone)))"

text \<open>URLhaus keeps the set of listed URLs; \<open>http\<close> is the response: a transport error, or a status and a body.\<close>

fun line_split :: "string \<Rightarrow> string list" where
  "line_split s = (let ls = split_char s CHR 0x0A in if last ls = [] then butlast ls else ls)"

definition URLhaus_lines :: "string \<Rightarrow> string list" where
  "URLhaus_lines body =
     map to_lower (filter (\<lambda>l. l \<noteq> [] \<and> \<not> has_prefix l ''#'') (map trim_space (line_split body)))"

definition URLhaus_Refresh ::
  "(string + nat \<times> string) \<Rightarrow> string list \<Rightarrow> string option \<times> string list" where
  "URLhaus_Refresh http old =
     (case http of
        Inl e \<Rightarrow> (Some e, old)
      | Inr (code, body) \<Rightarrow>
          if code \<noteq> 200 then (Some ''urlhaus: status'', old)
          else if list_ex (\<lambda>l. length l \<ge> 1024 * 1024) (line_split body) then (Some ''bufio.Scanner: token too long'', old)
          else if URLhaus_lines body = [] then (Some ''urlhaus: empty payload'', old)
          else (None, URLhaus_lines body))"

definition URLhaus_Lookup :: "string list \<Rightarrow> string \<Rightarrow> Result result" where
  "URLhaus_Lookup urls v =
     (if to_lower v \<in> set urls then Inr \<lparr>Hit = True, Source = ''urlhaus'', Responses = []\<rparr> else Inr miss)"

subsection \<open>The registry\<close>

record feed =
  f_Name :: string
  f_Kind :: Kind
  f_Lookup :: "string \<Rightarrow> Result result"

text \<open>A Redis key holds a value until its time to live is over.\<close>

type_synonym redis = "(string \<times> string \<times> nat) list"

definition redis_get :: "nat \<Rightarrow> redis \<Rightarrow> string \<Rightarrow> string option" where
  "redis_get now r key =
     (case map_of r key of Some (v, expiry) \<Rightarrow> if now < expiry then Some v else None | None \<Rightarrow> None)"

definition redis_set :: "string \<Rightarrow> string \<Rightarrow> nat \<Rightarrow> redis \<Rightarrow> redis" where
  "redis_set key v expiry r = (key, v, expiry) # filter (\<lambda>(k, _). k \<noteq> key) r"

lemma redis_get_set [simp]:
  "redis_get now (redis_set key v expiry r) key = (if now < expiry then Some v else None)"
  by (simp add: redis_get_def redis_set_def)

lemma redis_get_other [simp]:
  "k \<noteq> key \<Longrightarrow> redis_get now (redis_set key v expiry r) k = redis_get now r k"
proof -
  assume k: "k \<noteq> key"
  have "map_of (filter (\<lambda>(k', _). k' \<noteq> key) r) k = map_of r k"
    using k by (induction r) auto
  with k show ?thesis by (simp add: redis_get_def redis_set_def)
qed

definition normalizeLookupValue :: "Kind \<Rightarrow> string \<Rightarrow> string" where
  "normalizeLookupValue kind v =
     (if kind = KindDomain then trim_suffix (to_lower (trim_space v)) ''.'' else trim_space v)"

definition threatCacheKey :: "(string \<Rightarrow> string) \<Rightarrow> Kind \<Rightarrow> string \<Rightarrow> string" where
  "threatCacheKey sha256 kind v =
     ''smg:tf:'' @ kind_string kind @ '':'' @ hex_encode (sha256 (kind_string kind @ [CHR 0x00] @ v))"

text \<open>\<open>None\<close> stands for a nil Redis client.\<close>

definition cacheLookup :: "nat \<Rightarrow> redis option \<Rightarrow> string \<Rightarrow> Result option" where
  "cacheLookup now rdb key =
     (case rdb of
        None \<Rightarrow> None
      | Some r \<Rightarrow>
          (case redis_get now r key of
             None \<Rightarrow> None
           | Some v \<Rightarrow>
               if v = [] then None
               else if v = ''miss'' then Some miss
               else if \<not> has_prefix v ''hit:'' then None
               else Some \<lparr>Hit = True, Source = drop 4 v, Responses = []\<rparr>))"

definition cacheStore :: "nat \<Rightarrow> redis option \<Rightarrow> string \<Rightarrow> Result \<Rightarrow> nat \<Rightarrow> redis option" where
  "cacheStore now rdb key res ttl =
     map_option (redis_set key (if Hit res then ''hit:'' @ Source res else ''miss'') (now + ttl)) rdb"

definition refreshInterval :: "Kind \<Rightarrow> int" where
  "refreshInterval k = (case k of
     KindURL \<Rightarrow> 15 * 60 | KindHash \<Rightarrow> 15 * 60 | KindDomain \<Rightarrow> 30 * 60 | KindIP \<Rightarrow> 6 * 3600 | KindBrand \<Rightarrow> 3600)"

text \<open>\<open>config\<close> gives the row of a feed, or \<open>None\<close> without a row or without a database.\<close>

definition intervalFor :: "(string \<Rightarrow> (bool \<times> int) option) \<Rightarrow> feed \<Rightarrow> int \<times> bool" where
  "intervalFor config f =
     (case config (f_Name f) of
        None \<Rightarrow> (refreshInterval (f_Kind f), True)
      | Some (enabled, secs) \<Rightarrow> (if secs \<le> 0 then refreshInterval (f_Kind f) else secs, enabled))"

text \<open>The loop over the feeds: the first hit, an error counts like a miss.\<close>

fun first_hit :: "(string \<Rightarrow> (bool \<times> int) option) \<Rightarrow> Kind \<Rightarrow> string \<Rightarrow> feed list \<Rightarrow> Result option" where
  "first_hit config kind v [] = None"
| "first_hit config kind v (f # fs) =
     (if f_Kind f \<noteq> kind then first_hit config kind v fs
      else if \<not> snd (intervalFor config f) then first_hit config kind v fs
      else case f_Lookup f v of
        Inl _ \<Rightarrow> first_hit config kind v fs
      | Inr res \<Rightarrow> if Hit res then Some res else first_hit config kind v fs)"

definition Registry_Lookup ::
  "(string \<Rightarrow> string) \<Rightarrow> (string \<Rightarrow> (bool \<times> int) option) \<Rightarrow> feed list \<Rightarrow> nat \<Rightarrow> redis option \<Rightarrow> Kind \<Rightarrow> string \<Rightarrow>
     Result result \<times> redis option" where
  "Registry_Lookup sha256 config feeds now rdb kind raw =
     (let v = normalizeLookupValue kind raw in
      if v = [] then (Inl ''empty value'', rdb)
      else
        (let key = threatCacheKey sha256 kind v in
         case cacheLookup now rdb key of
           Some hit \<Rightarrow> (Inr hit, rdb)
         | None \<Rightarrow>
             (case first_hit config kind v feeds of
                Some res \<Rightarrow> (Inr res, cacheStore now rdb key res (6 * 3600))
              | None \<Rightarrow> (Inr miss, cacheStore now rdb key miss (15 * 60)))))"

definition LookupCached ::
  "(string \<Rightarrow> string) \<Rightarrow> nat \<Rightarrow> redis option \<Rightarrow> Kind \<Rightarrow> string \<Rightarrow> Result option" where
  "LookupCached sha256 now rdb kind raw =
     (let v = normalizeLookupValue kind raw in
      if v = [] then None else cacheLookup now rdb (threatCacheKey sha256 kind v))"

definition Warm ::
  "(string \<Rightarrow> string) \<Rightarrow> (string \<Rightarrow> (bool \<times> int) option) \<Rightarrow> feed list \<Rightarrow> nat \<Rightarrow> redis option \<Rightarrow> Kind \<Rightarrow> string \<Rightarrow>
     redis option" where
  "Warm sha256 config feeds now rdb kind raw = snd (Registry_Lookup sha256 config feeds now rdb kind raw)"

subsection \<open>Feed configuration\<close>

record FeedConfig =
  fc_Feed :: string
  fc_Kind :: string
  fc_Enabled :: bool
  fc_RefreshInterval :: int
  fc_SourceURL :: "string option"
  fc_APIKey :: "string option"
  fc_LastRefreshAt :: "nat option"
  fc_LastRefreshOK :: "bool option"
  fc_LastRefreshErr :: "string option"

definition LoadConfigs :: "faults \<Rightarrow> FeedConfig list \<Rightarrow> FeedConfig list result" where
  "LoadConfigs err rows =
     (if err ''select threat_feed_config'' then Inl ''select threat_feed_config''
      else Inr (sort_key (\<lambda>c. map byte (fc_Feed c)) rows))"

definition recordRefreshStatus :: "nat \<Rightarrow> string \<Rightarrow> bool \<Rightarrow> string \<Rightarrow> FeedConfig list \<Rightarrow> FeedConfig list" where
  "recordRefreshStatus now name ok errStr rows =
     update_where (\<lambda>c. fc_Feed c = name)
       (\<lambda>c. c\<lparr>fc_LastRefreshAt := Some now, fc_LastRefreshOK := Some ok,
               fc_LastRefreshErr := (if ok then None else Some errStr)\<rparr>) rows"

text \<open>The row that \<open>intervalFor\<close> reads.\<close>

definition config_row :: "FeedConfig list \<Rightarrow> string \<Rightarrow> (bool \<times> int) option" where
  "config_row rows name =
     map_option (\<lambda>c. (fc_Enabled c, fc_RefreshInterval c)) (row_of fc_Feed name rows)"

text \<open>One turn of \<open>runFeed\<close>: the new feed state, the configuration and the seconds until the next turn.\<close>

definition runFeed_turn ::
  "('st \<Rightarrow> string option \<times> 'st) \<Rightarrow> nat \<Rightarrow> feed \<Rightarrow> FeedConfig list \<Rightarrow> 'st \<Rightarrow> int \<times> FeedConfig list \<times> 'st" where
  "runFeed_turn refresh now f rows st =
     (let (interval, enabled) = intervalFor (config_row rows) f in
      if \<not> enabled then (60, rows, st)
      else (case refresh st of
          (Some e, st') \<Rightarrow> (interval, recordRefreshStatus now (f_Name f) False e rows, st')
        | (None, st') \<Rightarrow> (interval, recordRefreshStatus now (f_Name f) True [] rows, st')))"

record configDTO =
  dto_Feed :: string
  dto_Kind :: string
  dto_Enabled :: bool
  dto_RefreshSeconds :: int
  dto_SourceURL :: "string option"
  dto_HasAPIKey :: bool
  dto_LastRefreshAt :: "nat option"
  dto_LastRefreshOK :: "bool option"
  dto_LastRefreshErr :: "string option"

definition config_dto :: "FeedConfig \<Rightarrow> configDTO" where
  "config_dto c =
     \<lparr>dto_Feed = fc_Feed c, dto_Kind = fc_Kind c, dto_Enabled = fc_Enabled c,
      dto_RefreshSeconds = fc_RefreshInterval c, dto_SourceURL = fc_SourceURL c,
      dto_HasAPIKey = (case fc_APIKey c of None \<Rightarrow> False | Some k \<Rightarrow> k \<noteq> []),
      dto_LastRefreshAt = fc_LastRefreshAt c, dto_LastRefreshOK = fc_LastRefreshOK c,
      dto_LastRefreshErr = fc_LastRefreshErr c\<rparr>"

definition feeds_list :: "faults \<Rightarrow> identity option \<Rightarrow> FeedConfig list \<Rightarrow> configDTO list response" where
  "feeds_list err ctx rows =
     (if (case ctx of None \<Rightarrow> True | Some i \<Rightarrow> id_Role i \<noteq> ''super_admin'' \<and> id_Role i \<noteq> ''msp_admin'') then
        WriteError 403 ''admin required''
      else case LoadConfigs err rows of
        Inl e \<Rightarrow> WriteError 500 (''db: '' @ e)
      | Inr configs \<Rightarrow> WriteJSON 200 (map config_dto configs))"

record feedUpdateReq =
  fu_Enabled :: "bool option"
  fu_RefreshSeconds :: "int option"
  fu_SourceURL :: "string option"
  fu_APIKey :: "string option"

definition feeds_update ::
  "faults \<Rightarrow> identity option \<Rightarrow> string \<Rightarrow> feedUpdateReq result \<Rightarrow> FeedConfig list \<Rightarrow>
     configDTO list response \<times> FeedConfig list" where
  "feeds_update err ctx feed body rows =
     (if (case ctx of None \<Rightarrow> True | Some i \<Rightarrow> id_Role i \<noteq> ''super_admin'') then
        (WriteError 403 ''super_admin required'', rows)
      else if feed = [] then (WriteError 400 ''feed required'', rows)
      else case body of
        Inl e \<Rightarrow> (WriteError 400 e, rows)
      | Inr req \<Rightarrow>
          if (case fu_RefreshSeconds req of None \<Rightarrow> False | Some s \<Rightarrow> s < 30 \<or> s > 86400) then
            (WriteError 400 ''refresh_seconds out of range [30, 86400]'', rows)
          else if err ''update threat_feed_config'' then (WriteError 500 ''update: '', rows)
          else
            (let rows' = update_where (\<lambda>c. fc_Feed c = feed)
               (\<lambda>c. c\<lparr>fc_Enabled := coalesce (fu_Enabled req) (fc_Enabled c),
                       fc_RefreshInterval := coalesce (fu_RefreshSeconds req) (fc_RefreshInterval c),
                       fc_SourceURL := (case fu_SourceURL req of None \<Rightarrow> fc_SourceURL c | s \<Rightarrow> s),
                       fc_APIKey := (case fu_APIKey req of
                           None \<Rightarrow> fc_APIKey c | Some k \<Rightarrow> if k = [] then fc_APIKey c else Some k)\<rparr>) rows
             in (feeds_list err ctx rows', rows')))"

subsection \<open>Which answers are listings\<close>

lemma dnsblListed_cases:
  "fst (dnsblListed a) \<longleftrightarrow> (\<exists>v4. parse_ip4 a = Some v4 \<and> v4 ! 0 = 127 \<and> v4 ! 1 = 0 \<and> v4 ! 2 = 0 \<and>
      2 \<le> v4 ! 3 \<and> v4 ! 3 \<le> 11)"
  "fst (dnsblListed a) \<longleftrightarrow> snd (dnsblListed a) = None"
  by (auto simp: dnsblListed_def split: option.splits)

lemma domainblListed_cases:
  "fst (domainblListed a) \<longleftrightarrow> (\<exists>v4. parse_ip4 a = Some v4 \<and> v4 ! 0 = 127 \<and> v4 ! 1 = 0 \<and> v4 ! 2 = 1 \<and>
      2 \<le> v4 ! 3 \<and> v4 ! 3 \<noteq> 255)"
  "fst (domainblListed a) \<longleftrightarrow> snd (domainblListed a) = None"
  by (auto simp: domainblListed_def split: option.splits)

lemma listed_loop_fst: "fst (listed_loop classify e addrs) \<longleftrightarrow> (\<exists>a \<in> set addrs. fst (classify a))"
  by (induction classify e addrs rule: listed_loop.induct) (auto split: prod.splits)

lemma listed_loop_error:
  "\<not> fst (listed_loop classify e addrs) \<Longrightarrow>
     snd (listed_loop classify e addrs) = None \<longleftrightarrow> e = None \<and> (\<forall>a \<in> set addrs. snd (classify a) = None)"
  by (induction classify e addrs rule: listed_loop.induct) (auto split: prod.splits if_splits)

lemma listing_result_hit:
  "(\<exists>r. listing_result name classify answer = Inr r \<and> Hit r) \<longleftrightarrow>
     (\<exists>addrs. answer = Addrs addrs \<and> (\<exists>a \<in> set addrs. fst (classify a)))"
proof (cases answer)
  case (Addrs addrs)
  obtain b e where l: "listed_loop classify None addrs = (b, e)" by fastforce
  then have "b \<longleftrightarrow> (\<exists>a \<in> set addrs. fst (classify a))"
    using listed_loop_fst [of classify None addrs] by simp
  then show ?thesis
    using Addrs l by (cases b; cases e) (auto simp: listing_result_def firstListed_def miss_def)
qed (auto simp: listing_result_def miss_def)

text \<open>Only documented codes are listings: a Spamhaus-style IP list reports a hit exactly when the
  resolver answers, and one of its answers is an IPv4 address 127.0.0.2 to 127.0.0.11. Resolver error
  codes and intercepted answers are never hits.\<close>

theorem DNSBL_hit_iff:
  "(\<exists>r. DNSBL_Lookup resolver name zone v = Inr r \<and> Hit r) \<longleftrightarrow>
     (\<exists>ip addrs. parse_ip4 v = Some ip \<and> resolver (reverseIPv4 ip @ ''.'' @ zone) = Addrs addrs \<and>
        (\<exists>a v4. a \<in> set addrs \<and> parse_ip4 a = Some v4 \<and> v4 ! 0 = 127 \<and> v4 ! 1 = 0 \<and> v4 ! 2 = 0 \<and>
           2 \<le> v4 ! 3 \<and> v4 ! 3 \<le> 11))"
  unfolding DNSBL_Lookup_def
  by (cases "parse_ip4 v") (auto simp: listing_result_hit dnsblListed_cases(1))

subsection \<open>The contract of a feed\<close>

text \<open>A feed's hits carry its name, and a feed that cannot reach its source does not hit.\<close>

locale threat_feed =
  fixes lookup :: "string \<Rightarrow> Result result"
    and name :: string
  assumes hit_source: "lookup v = Inr r \<Longrightarrow> Hit r \<Longrightarrow> Source r = name"

lemma listing_result_source:
  "listing_result name classify answer = Inr r \<Longrightarrow> Hit r \<Longrightarrow> Source r = name"
  by (auto simp: listing_result_def miss_def split: dns.splits prod.splits bool.splits option.splits)

interpretation dnsbl: threat_feed "DNSBL_Lookup resolver feedName zone" feedName
  for resolver feedName zone
  by unfold_locales (auto simp: DNSBL_Lookup_def dest: listing_result_source split: option.splits)

interpretation domainbl: threat_feed "DomainBL_Lookup resolver feedName zone" feedName
  for resolver feedName zone
  by unfold_locales (auto simp: DomainBL_Lookup_def Let_def dest: listing_result_source split: if_splits)

interpretation urlhaus: threat_feed "URLhaus_Lookup urls" "''urlhaus''"
  for urls
  by unfold_locales (auto simp: URLhaus_Lookup_def miss_def split: if_splits)

text \<open>The registry's contract: every registered feed meets its own.\<close>

locale feed_registry =
  fixes feeds :: "feed list"
  assumes feeds_ok: "f \<in> set feeds \<Longrightarrow> threat_feed (f_Lookup f) (f_Name f)"
begin

lemma first_hit_source:
  assumes "first_hit config kind v fs = Some r" "set fs \<subseteq> set feeds"
  shows "Hit r \<and> (\<exists>f \<in> set fs. f_Kind f = kind \<and> snd (intervalFor config f) \<and> Source r = f_Name f \<and> f_Lookup f v = Inr r)"
  using assms
proof (induction fs)
  case (Cons f fs)
  then have "threat_feed (f_Lookup f) (f_Name f)" using feeds_ok by simp
  with Cons show ?case
    by (auto split: if_splits sum.splits dest: threat_feed.hit_source)
qed simp

end

lemma first_hit_outage:
  "list_all (\<lambda>f. f_Kind f = kind \<longrightarrow> snd (intervalFor config f) \<longrightarrow>
      (case f_Lookup f v of Inl _ \<Rightarrow> True | Inr r \<Rightarrow> \<not> Hit r)) feeds \<Longrightarrow>
     first_hit config kind v feeds = None"
  by (induction feeds) (auto split: sum.splits)

text \<open>The feeds that \<open>cmd/api/main.go\<close> registers, in its order.\<close>

definition standard_feeds :: "(string \<Rightarrow> dns) \<Rightarrow> string list \<Rightarrow> feed list" where
  "standard_feeds resolver urls =
     [\<lparr>f_Name = ''spamhaus_zen'', f_Kind = KindIP,
       f_Lookup = DNSBL_Lookup resolver ''spamhaus_zen'' ''zen.spamhaus.org''\<rparr>,
      \<lparr>f_Name = ''spamhaus_dbl'', f_Kind = KindDomain,
       f_Lookup = DomainBL_Lookup resolver ''spamhaus_dbl'' ''dbl.spamhaus.org''\<rparr>,
      \<lparr>f_Name = ''spamcop'', f_Kind = KindIP, f_Lookup = DNSBL_Lookup resolver ''spamcop'' ''bl.spamcop.net''\<rparr>,
      \<lparr>f_Name = ''urlhaus'', f_Kind = KindURL, f_Lookup = URLhaus_Lookup urls\<rparr>]"

interpretation gateway_feeds: feed_registry "standard_feeds resolver urls"
  for resolver urls
  by unfold_locales
     (auto simp: standard_feeds_def dest: dnsbl.hit_source domainbl.hit_source urlhaus.hit_source)

text \<open>A hit has a source: without a cached answer, a hit of the gateway's registry names an enabled
  feed of the requested kind whose own lookup of the normalized value hit.\<close>

theorem Registry_hit_source:
  assumes "Registry_Lookup sha256 config (standard_feeds resolver urls) now rdb kind raw = (Inr r, rdb')"
    and "LookupCached sha256 now rdb kind raw = None" "Hit r"
  shows "\<exists>f \<in> set (standard_feeds resolver urls). f_Kind f = kind \<and> snd (intervalFor config f) \<and>
           Source r = f_Name f \<and> f_Lookup f (normalizeLookupValue kind raw) = Inr r"
proof -
  from assms have "first_hit config kind (normalizeLookupValue kind raw) (standard_feeds resolver urls) = Some r"
    by (auto simp: Registry_Lookup_def LookupCached_def Let_def miss_def split: if_splits option.splits)
  from gateway_feeds.first_hit_source [OF this] show ?thesis by auto
qed

lemma first_hit_iff:
  "first_hit config kind v feeds = None \<longleftrightarrow>
     \<not> (\<exists>f \<in> set feeds. f_Kind f = kind \<and> snd (intervalFor config f) \<and> (\<exists>x. f_Lookup f v = Inr x \<and> Hit x))"
  "first_hit config kind v feeds = Some res \<Longrightarrow> Hit res"
  by (induction feeds) (auto split: sum.splits if_splits)

text \<open>C32 (a failing feed is downgraded to a miss): a lookup of a value that is not cached never fails, whatever errors the
  feeds return, and it is a hit exactly when some enabled feed of the kind hits: the failure of one feed neither makes
  a hit nor hides the hit of another.\<close>

theorem Registry_failures_are_misses:
  assumes "normalizeLookupValue kind raw \<noteq> []" "LookupCached sha256 now rdb kind raw = None"
  shows "\<exists>res. fst (Registry_Lookup sha256 config feeds now rdb kind raw) = Inr res \<and>
    (Hit res \<longleftrightarrow> (\<exists>f \<in> set feeds. f_Kind f = kind \<and> snd (intervalFor config f) \<and>
                  (\<exists>x. f_Lookup f (normalizeLookupValue kind raw) = Inr x \<and> Hit x)))"
proof -
  have *: "fst (Registry_Lookup sha256 config feeds now rdb kind raw) =
      Inr (case first_hit config kind (normalizeLookupValue kind raw) feeds of None \<Rightarrow> miss | Some res \<Rightarrow> res)"
    using assms by (auto simp: Registry_Lookup_def LookupCached_def Let_def miss_def split: option.splits)
  show ?thesis
  proof (cases "first_hit config kind (normalizeLookupValue kind raw) feeds")
    case None
    with * first_hit_iff(1) [of config kind "normalizeLookupValue kind raw" feeds] show ?thesis by (auto simp: miss_def)
  next
    case (Some res)
    then show ?thesis
      using * first_hit_iff(1) [of config kind "normalizeLookupValue kind raw" feeds] first_hit_iff(2) [OF Some] by auto
  qed
qed

text \<open>The miss of an outage is stored for 15 minutes like a real one, so until then no feed is asked again about the
  value.\<close>

lemma Registry_outage_is_miss:
  assumes "list_all (\<lambda>f. f_Kind f = kind \<longrightarrow> (\<exists>e. f_Lookup f (normalizeLookupValue kind raw) = Inl e)) feeds"
    and "normalizeLookupValue kind raw \<noteq> []" "LookupCached sha256 now (Some r) kind raw = None"
  shows "\<exists>r'. Registry_Lookup sha256 config feeds now (Some r) kind raw = (Inr miss, Some r') \<and>
     (\<forall>later feeds'. later < now + 900 \<longrightarrow>
        Registry_Lookup sha256 config feeds' later (Some r') kind raw = (Inr miss, Some r'))"
proof -
  have "first_hit config kind (normalizeLookupValue kind raw) feeds = None"
    using assms(1) by (intro first_hit_outage) (auto simp: list_all_iff split: sum.splits)
  with assms(2,3) show ?thesis
    by (auto simp: Registry_Lookup_def LookupCached_def Let_def cacheStore_def cacheLookup_def miss_def
        split: if_splits option.splits)
qed

text \<open>C33 (warming the cache): within the time to live the SMTP path reads what the last \<open>Warm\<close> of the value
  found, its verdict and its source, without asking a feed.\<close>

theorem Warm_then_LookupCached:
  assumes "Registry_Lookup sha256 config feeds now (Some r) kind raw = (Inr res, rdb')"
    and "LookupCached sha256 now (Some r) kind raw = None" "normalizeLookupValue kind raw \<noteq> []"
    and "later < now + (if Hit res then 21600 else 900)"
  shows "\<exists>c. LookupCached sha256 later (Warm sha256 config feeds now (Some r) kind raw) kind raw = Some c \<and>
           Hit c = Hit res \<and> (Hit res \<longrightarrow> Source c = Source res)"
proof -
  have "first_hit config kind v fs = Some x \<Longrightarrow> Hit x" for v fs x
    by (induction fs) (auto split: if_splits sum.splits)
  with assms show ?thesis
    by (auto simp: Registry_Lookup_def LookupCached_def Warm_def Let_def cacheStore_def cacheLookup_def miss_def
        split: if_splits option.splits)
qed

subsection \<open>Concrete lookups\<close>

lemma parse_ip4_examples:
  "parse_ip4 ''127.0.0.2'' = Some [127, 0, 0, 2]"
  "parse_ip4 ''1.2.3.4'' = Some [1, 2, 3, 4]"
  by (simp_all add: parse_ip4_def parse_addr_def parse_v4_def v4_field_def all_digits_def decimal_def
      to4_def zoned_def)

lemma normalize_example: "normalizeLookupValue KindIP ''1.2.3.4'' = ''1.2.3.4''"
  by (simp add: normalizeLookupValue_def trim_defs)

lemma Registry_hit_source_witness:
  "\<exists>r f. Registry_Lookup (\<lambda>s. s) (\<lambda>_. None) (standard_feeds (\<lambda>_. Addrs [''127.0.0.2'']) []) 0 None KindIP ''1.2.3.4''
       = (Inr r, None) \<and> f \<in> set (standard_feeds (\<lambda>_. Addrs [''127.0.0.2'']) []) \<and> Source r = f_Name f"
proof -
  let ?r = "\<lparr>Hit = True, Source = ''spamhaus_zen'', Responses = [''127.0.0.2'']\<rparr>"
  have l: "Registry_Lookup (\<lambda>s. s) (\<lambda>_. None) (standard_feeds (\<lambda>_. Addrs [''127.0.0.2'']) []) 0 None KindIP ''1.2.3.4''
       = (Inr ?r, None)"
    by (simp add: Registry_Lookup_def normalize_example cacheLookup_def cacheStore_def standard_feeds_def
        intervalFor_def DNSBL_Lookup_def listing_result_def firstListed_def dnsblListed_def parse_ip4_examples)
  have "LookupCached (\<lambda>s. s) 0 None KindIP ''1.2.3.4'' = None"
    by (simp add: LookupCached_def cacheLookup_def Let_def)
  from Registry_hit_source [OF l this] l show ?thesis by auto
qed

text \<open>The first feed times out, the second one lists the address.\<close>

definition half_outage :: "feed list" where
  "half_outage =
     [\<lparr>f_Name = ''spamhaus_zen'', f_Kind = KindIP, f_Lookup = DNSBL_Lookup (\<lambda>_. DnsError ''timeout'') ''spamhaus_zen'' ''zen.spamhaus.org''\<rparr>,
      \<lparr>f_Name = ''spamcop'', f_Kind = KindIP, f_Lookup = DNSBL_Lookup (\<lambda>_. Addrs [''127.0.0.2'']) ''spamcop'' ''bl.spamcop.net''\<rparr>]"

lemma Registry_failures_are_misses_witness:
  "\<exists>res. fst (Registry_Lookup (\<lambda>s. s) (\<lambda>_. None) half_outage 0 (Some []) KindIP ''1.2.3.4'') = Inr res \<and> Hit res"
proof -
  have hit: "\<exists>f \<in> set half_outage. f_Kind f = KindIP \<and> snd (intervalFor (\<lambda>_. None) f) \<and>
      (\<exists>x. f_Lookup f (normalizeLookupValue KindIP ''1.2.3.4'') = Inr x \<and> Hit x)"
    by (simp add: half_outage_def normalize_example intervalFor_def DNSBL_Lookup_def listing_result_def firstListed_def dnsblListed_def
        parse_ip4_examples)
  have "normalizeLookupValue KindIP ''1.2.3.4'' \<noteq> []" "LookupCached (\<lambda>s. s) 0 (Some []) KindIP ''1.2.3.4'' = None"
    by (simp_all add: normalize_example LookupCached_def cacheLookup_def redis_get_def Let_def)
  from Registry_failures_are_misses [OF this, of "\<lambda>_. None" half_outage] hit show ?thesis by blast
qed

lemma Warm_then_LookupCached_witness:
  "\<exists>c. LookupCached (\<lambda>s. s) 100 (Warm (\<lambda>s. s) (\<lambda>_. None) [] 0 (Some []) KindIP ''1.2.3.4'') KindIP ''1.2.3.4'' = Some c
     \<and> Hit c = False"
proof -
  have "Registry_Lookup (\<lambda>s. s) (\<lambda>_. None) [] 0 (Some []) KindIP ''1.2.3.4'' =
      (Inr miss, cacheStore 0 (Some []) (threatCacheKey (\<lambda>s. s) KindIP ''1.2.3.4'') miss 900)"
    by (simp add: Registry_Lookup_def normalize_example cacheLookup_def redis_get_def)
  from Warm_then_LookupCached [OF this, of 100] show ?thesis
    by (simp add: normalize_example LookupCached_def cacheLookup_def redis_get_def miss_def)
qed

end
