(* ===== verification/Signals.thy ===== *)
theory Signals
  imports Policies Classifier ThreatFeed
begin

text \<open>
  The mail event of \<open>internal/mail/ingest.go\<close> and the questions the pipeline asks of it: its
  Rspamd symbols, the authentication results, reputation hits, delivery status notifications and
  the sender's domain. The handlers never pass a nil \<open>*Event\<close>; a nil symbol map reads like an
  empty one.
\<close>

record Attachment =
  att_ContentType :: string
  att_Filename :: string
  att_DataB64 :: string
  att_SizeBytes :: int

record Event =
  ev_Direction :: string
  ev_QueueID :: string
  ev_MessageID :: string
  ev_From :: string
  ev_FromName :: string
  ev_ReplyTo :: string
  ev_To :: "string list"
  ev_ClientIP :: string
  ev_ClientHostname :: string
  ev_Helo :: string
  ev_Subject :: string
  ev_SizeBytes :: int
  ev_Score :: rat
  ev_Action :: string
  ev_Symbols :: json_map
  ev_StorageKey :: string
  ev_BodyText :: string
  ev_RawMessageB64 :: string
  ev_ListUnsubscribe :: string
  ev_ListUnsubscribePost :: string
  ev_URLs :: "string list"
  ev_Attachments :: "Attachment list"

subsection \<open>Domains\<close>

definition emailDomain :: "string \<Rightarrow> string" where
  "emailDomain address =
     (let addr = trim (to_lower (trim_space address)) ''<>'' in
      case last_index_char addr CHR ''@'' of
        None \<Rightarrow> []
      | Some i \<Rightarrow> if i = length addr - 1 then [] else trim (drop (Suc i) addr) ''.'')"

definition primaryDomain :: "string \<Rightarrow> string" where
  "primaryDomain addr =
     (case last_index_char addr CHR ''@'' of
        None \<Rightarrow> []
      | Some i \<Rightarrow> to_lower (trim_space (drop (Suc i) addr)))"

definition domainsRelated :: "string \<Rightarrow> string \<Rightarrow> bool" where
  "domainsRelated a0 b0 =
     (let a = trim (to_lower a0) ''.''; b = trim (to_lower b0) ''.''
      in a \<noteq> [] \<and> b \<noteq> [] \<and> (a = b \<or> has_suffix a (''.'' @ b) \<or> has_suffix b (''.'' @ a)))"

fun domain_loop :: "string \<Rightarrow> string list \<Rightarrow> bool" where
  "domain_loop domain [] = False"
| "domain_loop domain (cand # cands) =
     (let c = trim (to_lower cand) ''.''
      in if domain = c \<or> has_suffix domain (''.'' @ c) then True else domain_loop domain cands)"

definition domainMatchesAny :: "string \<Rightarrow> string list \<Rightarrow> bool" where
  "domainMatchesAny domain allowed = domain_loop (trim (to_lower domain) ''.'') allowed"

definition suspiciousText :: "string \<Rightarrow> string" where
  "suspiciousText v = to_lower (join (str_fields v) '' '')"

definition firstNonEmpty :: "string list \<Rightarrow> string" where
  "firstNonEmpty vs = (case filter (\<lambda>v. trim_space v \<noteq> []) vs of [] \<Rightarrow> [] | v # _ \<Rightarrow> v)"

subsection \<open>Symbols\<close>

text \<open>The \<open>range\<close> loops over the symbol map return at the first symbol that satisfies a test.\<close>

fun any_symbol :: "(string \<Rightarrow> json \<Rightarrow> bool) \<Rightarrow> json_map \<Rightarrow> bool" where
  "any_symbol p [] = False"
| "any_symbol p ((k, v) # m) = (if p k v then True else any_symbol p m)"

definition hasSymbol :: "Event \<Rightarrow> string \<Rightarrow> bool" where
  "hasSymbol ev name = any_symbol (\<lambda>key _. equal_fold key name) (ev_Symbols ev)"

definition hasAnySymbol :: "Event \<Rightarrow> string list \<Rightarrow> bool" where
  "hasAnySymbol ev names = list_ex (hasSymbol ev) names"

definition hasSymbolContaining :: "Event \<Rightarrow> string \<Rightarrow> string list \<Rightarrow> bool" where
  "hasSymbolContaining ev required alternatives =
     any_symbol (\<lambda>key _. contains (to_upper key) (to_upper required)
         \<and> list_ex (\<lambda>alt. contains (to_upper key) (to_upper alt)) alternatives) (ev_Symbols ev)"

definition json_field :: "json \<Rightarrow> string \<Rightarrow> json option" where
  "json_field v key = (case v of JObj m \<Rightarrow> map_of m key | _ \<Rightarrow> None)"

definition symbolScore :: "json \<Rightarrow> rat" where
  "symbolScore v = (case json_field v ''score'' of Some (JNum x) \<Rightarrow> x | _ \<Rightarrow> 0)"

definition symbolOptions :: "json \<Rightarrow> string list" where
  "symbolOptions v =
     (case json_field v ''options'' of
        Some (JArr vs) \<Rightarrow> concat (map (\<lambda>x. case x of JStr s \<Rightarrow> [s] | _ \<Rightarrow> []) vs)
      | _ \<Rightarrow> [])"

text \<open>\<open>m[k] = v\<close> on a map.\<close>

fun map_set :: "json_map \<Rightarrow> string \<Rightarrow> json \<Rightarrow> json_map" where
  "map_set [] k v = [(k, v)]"
| "map_set ((k', v') # m) k v = (if k' = k then (k, v) # m else (k', v') # map_set m k v)"

subsection \<open>Authentication\<close>

record AuthSignals =
  SPFPass :: bool
  DKIMPass :: bool
  DMARCPass :: bool
  SPFFail :: bool
  DKIMFail :: bool
  DMARCFail :: bool

definition authSignals :: "Event \<Rightarrow> AuthSignals" where
  "authSignals ev =
     \<lparr>SPFPass = hasSymbolContaining ev ''SPF'' [''ALLOW'', ''PASS''],
      DKIMPass = hasSymbolContaining ev ''DKIM'' [''ALLOW'', ''PASS''],
      DMARCPass = hasSymbolContaining ev ''DMARC'' [''ALLOW'', ''PASS''],
      SPFFail = hasAnySymbol ev [''R_SPF_FAIL'', ''R_SPF_PERMFAIL''],
      DKIMFail = hasSymbolContaining ev ''DKIM'' [''FAIL'', ''REJECT''],
      DMARCFail = hasAnySymbol ev [''DMARC_POLICY_REJECT'', ''DMARC_POLICY_QUARANTINE'']\<rparr>"

definition hasAuthSignal :: "Event \<Rightarrow> bool" where
  "hasAuthSignal ev =
     any_symbol (\<lambda>key _. contains (to_upper key) ''SPF'' \<or> contains (to_upper key) ''DKIM''
        \<or> contains (to_upper key) ''DMARC'') (ev_Symbols ev)"

subsection \<open>Reputation\<close>

definition isReputationLookupFailureSymbol :: "string \<Rightarrow> bool" where
  "isReputationLookupFailureSymbol symbol =
     (has_suffix symbol ''_BLOCKED'' \<or> contains symbol ''_DNSFAIL'' \<or> contains symbol ''DNS_ERROR''
      \<or> contains symbol ''TIMEOUT'')"

definition isReputationAllowSymbol :: "string \<Rightarrow> bool" where
  "isReputationAllowSymbol symbol =
     (contains symbol ''WHITELIST'' \<or> contains symbol ''MAILCOW_WHITE'' \<or> contains symbol ''DNSWL''
      \<or> contains symbol ''RWL_'' \<or> contains symbol ''ALLOWLIST'' \<or> contains symbol ''MAILSPIKE_GOOD''
      \<or> contains symbol ''MAILSPIKE_NEUTRAL'' \<or> contains symbol ''MAILSPIKE_POSSIBLE'')"

definition isReputationBlockSymbol :: "string \<Rightarrow> bool" where
  "isReputationBlockSymbol symbol =
     (if isReputationLookupFailureSymbol symbol then False
      else contains symbol ''SPAMHAUS'' \<or> contains symbol ''SPAMCOP'' \<or> contains symbol ''SURBL''
        \<or> contains symbol ''URIBL'' \<or> contains symbol ''URLHAUS'' \<or> contains symbol ''RSPAMD_EMAILBL''
        \<or> contains symbol ''DBL_'' \<or> contains symbol ''SCBL'' \<or> contains symbol ''MSBL''
        \<or> contains symbol ''BLACKLIST'' \<or> contains symbol ''BLOCKLIST'' \<or> contains symbol ''RBL_''
        \<or> contains symbol ''SEM_URIBL'' \<or> contains symbol ''VIRUSFREE'' \<or> contains symbol ''BOTNET''
        \<or> contains symbol ''OPENPHISH'')"

text \<open>The loop of \<open>isAuthenticatedFirstPartyURLReputationHit\<close> with its flag \<open>matched\<close>.\<close>

fun first_party_loop :: "string \<Rightarrow> bool \<Rightarrow> string list \<Rightarrow> bool" where
  "first_party_loop senderDomain matched [] = matched"
| "first_party_loop senderDomain matched (opt # opts) =
     (let domain = trim (cut_before (to_lower (trim_space opt)) CHR '':'') ''.''
      in if domain = [] then first_party_loop senderDomain matched opts
         else if \<not> domainsRelated senderDomain domain then False
         else first_party_loop senderDomain True opts)"

definition isAuthenticatedFirstPartyURLReputationHit :: "string \<Rightarrow> json \<Rightarrow> Event \<Rightarrow> bool" where
  "isAuthenticatedFirstPartyURLReputationHit symbol v ev =
     (if \<not> equal_fold symbol ''RSPAMD_URIBL'' \<or> \<not> DMARCPass (authSignals ev) then False
      else if emailDomain (ev_From ev) = [] then False
      else if symbolOptions v = [] then False
      else first_party_loop (emailDomain (ev_From ev)) False (symbolOptions v))"

definition hasReputationAllowlistHit :: "Event \<Rightarrow> bool" where
  "hasReputationAllowlistHit ev =
     any_symbol (\<lambda>key _. \<not> isReputationLookupFailureSymbol (to_upper key)
        \<and> isReputationAllowSymbol (to_upper key)) (ev_Symbols ev)"

text \<open>A symbol that both the reputation stage and the threat label count as a listing.\<close>

definition reputation_listing :: "Event \<Rightarrow> string \<Rightarrow> json \<Rightarrow> bool" where
  "reputation_listing ev s v =
     (isReputationBlockSymbol s \<and> symbolScore v > 0 \<and> \<not> isAuthenticatedFirstPartyURLReputationHit s v ev)"

definition hasReputationBlocklistHit :: "Event \<Rightarrow> bool" where
  "hasReputationBlocklistHit ev =
     (if hasReputationAllowlistHit ev then False
      else any_symbol (\<lambda>key v. reputation_listing ev (to_upper key) v) (ev_Symbols ev))"

subsection \<open>Delivery status notifications\<close>

text \<open>The option test inside the loop has no effect: both branches answer true.\<close>

definition hasDeliveryStatusNotificationSymbol :: "Event \<Rightarrow> bool" where
  "hasDeliveryStatusNotificationSymbol ev = any_symbol (\<lambda>key _. equal_fold key ''BOUNCE'') (ev_Symbols ev)"

definition looksLikeDSNSubject :: "string \<Rightarrow> bool" where
  "looksLikeDSNSubject s =
     (let subject = to_lower (trim_space s)
      in contains subject ''delivery status notification'' \<or> contains subject ''undelivered mail returned''
         \<or> contains subject ''undeliverable:'' \<or> contains subject ''mail delivery failed''
         \<or> contains subject ''returned mail'' \<or> contains subject ''failure notice'')"

definition rawMessageLooksDSN :: "string \<Rightarrow> bool" where
  "rawMessageLooksDSN raw64 =
     (let b64 = trim_space raw64 in
      if b64 = [] then False
      else case base64_decode b64 of
        None \<Rightarrow> False
      | Some raw \<Rightarrow>
          if raw = [] then False
          else
            (let s = to_lower (take (64 * 1024) raw)
             in contains s ''report-type=delivery-status'' \<or> contains s ''message/delivery-status''
                \<or> contains s ''auto-submitted: auto-generated'' \<or> contains s ''auto-submitted: auto-replied''))"

definition isDeliveryStatusNotification :: "Event \<Rightarrow> bool" where
  "isDeliveryStatusNotification ev =
     (if equal_fold (ev_Direction ev) ''outbound'' then False
      else
        (let from = to_lower (trim_space (ev_From ev));
             hasNullEnvelope = (from = [] \<or> from = ''<>'');
             fromLooksSystem = (has_prefix from ''mailer-daemon@'' \<or> has_prefix from ''postmaster@'');
             subjectLooksDSN = looksLikeDSNSubject (ev_Subject ev);
             symbolLooksDSN = hasDeliveryStatusNotificationSymbol ev;
             rawLooksDSN = rawMessageLooksDSN (ev_RawMessageB64 ev)
         in if symbolLooksDSN \<and> (hasNullEnvelope \<or> fromLooksSystem \<or> subjectLooksDSN) then True
            else if rawLooksDSN \<and> (hasNullEnvelope \<or> fromLooksSystem \<or> subjectLooksDSN) then True
            else hasNullEnvelope \<and> subjectLooksDSN))"

subsection \<open>Facts about the symbol tests\<close>

lemma any_symbol_iff: "any_symbol p m \<longleftrightarrow> (\<exists>(k, v) \<in> set m. p k v)"
  by (induction p m rule: any_symbol.induct) auto

text \<open>A test over the symbol map has the same answer for every order of iteration.\<close>

lemma any_symbol_order: "mset m = mset m' \<Longrightarrow> any_symbol p m = any_symbol p m'"
  by (metis any_symbol_iff mset_eq_setD)

lemma any_symbol_mono: "set m \<subseteq> set m' \<Longrightarrow> any_symbol p m \<Longrightarrow> any_symbol p m'"
  by (auto simp: any_symbol_iff)

definition same_but_order :: "Event \<Rightarrow> Event \<Rightarrow> bool" where
  "same_but_order ev ev' = (mset (ev_Symbols ev) = mset (ev_Symbols ev') \<and> ev' = ev\<lparr>ev_Symbols := ev_Symbols ev'\<rparr>)"

lemma same_but_order_fields:
  assumes "same_but_order ev ev'"
  shows "ev_Direction ev' = ev_Direction ev" "ev_From ev' = ev_From ev" "ev_Subject ev' = ev_Subject ev"
    "ev_RawMessageB64 ev' = ev_RawMessageB64 ev" "ev_BodyText ev' = ev_BodyText ev" "ev_Score ev' = ev_Score ev"
    "any_symbol p (ev_Symbols ev') = any_symbol p (ev_Symbols ev)"
proof -
  have e: "ev' = ev\<lparr>ev_Symbols := ev_Symbols ev'\<rparr>" and m: "mset (ev_Symbols ev) = mset (ev_Symbols ev')"
    using assms by (simp_all add: same_but_order_def)
  show "any_symbol p (ev_Symbols ev') = any_symbol p (ev_Symbols ev)"
    using any_symbol_order [OF m] by simp
  show "ev_Direction ev' = ev_Direction ev" "ev_From ev' = ev_From ev" "ev_Subject ev' = ev_Subject ev"
    "ev_RawMessageB64 ev' = ev_RawMessageB64 ev" "ev_BodyText ev' = ev_BodyText ev" "ev_Score ev' = ev_Score ev"
    by (subst e, simp)+
qed

lemma signals_order:
  assumes "same_but_order ev ev'"
  shows "hasSymbol ev' name = hasSymbol ev name" "hasAnySymbol ev' names = hasAnySymbol ev names"
    "hasSymbolContaining ev' r alts = hasSymbolContaining ev r alts"
    "authSignals ev' = authSignals ev" "hasAuthSignal ev' = hasAuthSignal ev"
    "hasReputationBlocklistHit ev' = hasReputationBlocklistHit ev"
    "isDeliveryStatusNotification ev' = isDeliveryStatusNotification ev"
proof -
  note f = same_but_order_fields [OF assms]
  show s: "hasSymbol ev' n = hasSymbol ev n" for n
    unfolding hasSymbol_def by (rule f(7))
  show "hasAnySymbol ev' names = hasAnySymbol ev names"
    unfolding hasAnySymbol_def s ..
  have c: "hasSymbolContaining ev' r alts = hasSymbolContaining ev r alts" for r alts
    unfolding hasSymbolContaining_def by (rule f(7))
  then show "hasSymbolContaining ev' r alts = hasSymbolContaining ev r alts" .
  show a: "authSignals ev' = authSignals ev"
    unfolding authSignals_def c hasAnySymbol_def s ..
  show "hasAuthSignal ev' = hasAuthSignal ev"
    unfolding hasAuthSignal_def by (rule f(7))
  have "reputation_listing ev' = reputation_listing ev"
    by (intro ext) (simp add: reputation_listing_def isAuthenticatedFirstPartyURLReputationHit_def a f(2))
  then show "hasReputationBlocklistHit ev' = hasReputationBlocklistHit ev"
    by (simp add: hasReputationBlocklistHit_def hasReputationAllowlistHit_def f(7))
  have "hasDeliveryStatusNotificationSymbol ev' = hasDeliveryStatusNotificationSymbol ev"
    unfolding hasDeliveryStatusNotificationSymbol_def by (rule f(7))
  then show "isDeliveryStatusNotification ev' = isDeliveryStatusNotification ev"
    unfolding isDeliveryStatusNotification_def f(1-4) by (simp only:)
qed

text \<open>An inbound message with nothing in it, for concrete instances.\<close>

definition sample_event :: Event where
  "sample_event = \<lparr>ev_Direction = ''inbound'', ev_QueueID = [], ev_MessageID = [], ev_From = ''a@b.io'',
     ev_FromName = [], ev_ReplyTo = [], ev_To = [''u@x.io''], ev_ClientIP = [], ev_ClientHostname = [],
     ev_Helo = [], ev_Subject = [], ev_SizeBytes = 0, ev_Score = 0, ev_Action = [], ev_Symbols = [],
     ev_StorageKey = [], ev_BodyText = [], ev_RawMessageB64 = [], ev_ListUnsubscribe = [],
     ev_ListUnsubscribePost = [], ev_URLs = [], ev_Attachments = []\<rparr>"

end
