(* ===== verification/MailUrls.thy ===== *)
theory MailUrls
  imports Signals
begin

text \<open>
  The URLs of a message in \<open>internal/mail/ingest.go\<close>: which of them are opened in the browser
  sandbox (\<open>prioritizedSandboxURLs\<close>) and which values are asked of the threat feeds
  (\<open>threatCandidates\<close>).
\<close>

definition maxURLScans :: nat where "maxURLScans = 3"

definition isHTTPURL :: "string \<Rightarrow> bool" where
  "isHTTPURL v =
     (let u = to_lower (trim_space v) in has_prefix u ''http://'' \<or> has_prefix u ''https://'')"

definition sandboxURLPriority :: "url \<Rightarrow> Event \<Rightarrow> int" where
  "sandboxURLPriority parsed ev =
     (let v = to_lower (hostname parsed @ '' '' @ url_EscapedPath parsed @ '' '' @ url_RawQuery parsed);
          path = to_lower (url_EscapedPath parsed)
      in 10
         + (if contains_any v
              [''login'', ''log-in'', ''signin'', ''sign-in'', ''account'', ''verify'', ''verification'',
               ''secure'', ''security'', ''auth'', ''password'', ''billing'', ''payment'', ''update'',
               ''confirm'', ''reactivate'', ''restore'', ''reset'', ''checkout''] then 100 else 0)
         + (if contains_any v [''click'', ''redirect'', ''link'', ''/ls/'', ''/r/''] then 35 else 0)
         - (if contains_any path
              [''.png'', ''.jpg'', ''.jpeg'', ''.gif'', ''.webp'', ''.svg'', ''.ico'', ''.css'', ''.js'',
               ''.woff'', ''.woff2'', ''.ttf'', ''.mp4'', ''.pdf''] then 200 else 0)
         - (if contains_any v [''pixel'', ''tracking'', ''track/open'', ''open.gif'', ''beacon'', ''spacer'']
            then 150 else 0)
         - (if contains_any v [''unsubscribe'', ''optout'', ''opt-out'', ''preferences'']
               \<or> contains (to_lower (ev_ListUnsubscribe ev)) (hostname parsed) then 250 else 0))"

record sandboxURLCandidate =
  cand_raw :: string
  cand_score :: int
  cand_order :: nat

definition normalizedURL :: "url \<Rightarrow> string" where
  "normalizedURL parsed =
     to_lower (url_Scheme parsed @ ''://'' @ url_Host parsed @ url_EscapedPath parsed)"

text \<open>The loop over \<open>ev.URLs\<close> with its set of URLs already seen.\<close>

fun sandbox_candidates :: "Event \<Rightarrow> nat \<Rightarrow> string list \<Rightarrow> string list \<Rightarrow> sandboxURLCandidate list" where
  "sandbox_candidates ev order seen [] = []"
| "sandbox_candidates ev order seen (u # urls) =
     (let raw = trim_space u in
      if \<not> isHTTPURL raw then sandbox_candidates ev (Suc order) seen urls
      else case url_parse raw of
        None \<Rightarrow> sandbox_candidates ev (Suc order) seen urls
      | Some parsed \<Rightarrow>
          (let normalized = normalizedURL parsed in
           if normalized \<in> set seen then sandbox_candidates ev (Suc order) seen urls
           else \<lparr>cand_raw = raw, cand_score = sandboxURLPriority parsed ev, cand_order = order\<rparr>
                # sandbox_candidates ev (Suc order) (normalized # seen) urls))"

definition candidate_rank :: "sandboxURLCandidate \<Rightarrow> int \<times> nat" where
  "candidate_rank c = (- cand_score c, cand_order c)"

definition prioritizedSandboxURLs :: "Event \<Rightarrow> string list" where
  "prioritizedSandboxURLs ev =
     map cand_raw (take maxURLScans
       (filter (\<lambda>c. cand_score c > 0)
         (sort_key candidate_rank (sandbox_candidates ev 0 [] (ev_URLs ev)))))"

subsection \<open>Values for the threat feeds\<close>

definition threatFeedSymbol :: "string \<Rightarrow> string" where
  "threatFeedSymbol source =
     trim_right (\<lambda>c. c = CHR ''_'')
       (''SMG_TF_'' @ map (\<lambda>c. if is_upper c \<or> is_digit c then c else CHR ''_'') (to_upper source))"

type_synonym threatCandidate = "Kind \<times> string"

definition candidate_key :: "threatCandidate \<Rightarrow> Kind \<times> string" where
  "candidate_key c = (fst c, to_lower (snd c))"

text \<open>The closure \<open>add\<close> on the list collected so far.\<close>

definition add_candidate :: "Kind \<Rightarrow> string \<Rightarrow> threatCandidate list \<Rightarrow> threatCandidate list" where
  "add_candidate kind v0 out =
     (let v = trim_space v0 in
      if v = [] \<or> candidate_key (kind, v) \<in> set (map candidate_key out) \<or> length out \<ge> 8 then out
      else out @ [(kind, v)])"

fun add_url_candidates :: "string list \<Rightarrow> threatCandidate list \<Rightarrow> threatCandidate list" where
  "add_url_candidates [] out = out"
| "add_url_candidates (raw # urls) out =
     (if length out \<ge> 8 then out
      else case url_parse (trim_space raw) of
        None \<Rightarrow> add_url_candidates urls out
      | Some u \<Rightarrow>
          if (url_Scheme u \<noteq> ''http'' \<and> url_Scheme u \<noteq> ''https'') \<or> hostname u = [] \<or> url_HasUser u
          then add_url_candidates urls out
          else add_url_candidates urls
                 (add_candidate KindURL (url_string u) (add_candidate KindDomain (hostname u) out)))"

definition threatCandidates :: "Event \<Rightarrow> threatCandidate list" where
  "threatCandidates ev =
     add_url_candidates (ev_URLs ev)
       (add_candidate KindDomain (emailDomain (ev_From ev)) (add_candidate KindIP (ev_ClientIP ev) []))"

lemma add_candidate_bounds:
  assumes "length out \<le> 8" "distinct (map candidate_key out)"
  shows "length (add_candidate kind v out) \<le> 8 \<and> distinct (map candidate_key (add_candidate kind v out))"
  using assms by (auto simp: add_candidate_def Let_def)

lemma add_url_candidates_bounds:
  "length out \<le> 8 \<Longrightarrow> distinct (map candidate_key out) \<Longrightarrow>
     length (add_url_candidates urls out) \<le> 8 \<and> distinct (map candidate_key (add_url_candidates urls out))"
  by (induction urls out rule: add_url_candidates.induct)
     (auto split: option.splits dest: add_candidate_bounds simp: add_candidate_bounds)

text \<open>Few questions per message: at most eight values of a message are asked of the threat feeds, and
  no value of a kind twice.\<close>

theorem threatCandidates_bounded:
  "length (threatCandidates ev) \<le> 8 \<and> distinct (map candidate_key (threatCandidates ev))"
  unfolding threatCandidates_def
  by (intro add_url_candidates_bounds) (simp_all add: add_candidate_bounds)

subsection \<open>What the sandbox opens\<close>

definition raw_key :: "string \<Rightarrow> string" where
  "raw_key raw = (case url_parse raw of None \<Rightarrow> [] | Some parsed \<Rightarrow> normalizedURL parsed)"

lemma sandbox_candidates_skip:
  "\<not> isHTTPURL (trim_space u) \<or> url_parse (trim_space u) = None \<or> raw_key (trim_space u) \<in> set seen \<Longrightarrow>
     sandbox_candidates ev order seen (u # urls) = sandbox_candidates ev (Suc order) seen urls"
  by (auto simp: Let_def raw_key_def split: option.splits)

lemma sandbox_candidates_take:
  "isHTTPURL (trim_space u) \<Longrightarrow> url_parse (trim_space u) = Some parsed \<Longrightarrow> normalizedURL parsed \<notin> set seen \<Longrightarrow>
     sandbox_candidates ev order seen (u # urls) =
       \<lparr>cand_raw = trim_space u, cand_score = sandboxURLPriority parsed ev, cand_order = order\<rparr>
       # sandbox_candidates ev (Suc order) (normalizedURL parsed # seen) urls"
  by (simp add: Let_def)

text \<open>The two ways through the loop body.\<close>

lemma sandbox_step:
  obtains (skip) "\<not> isHTTPURL (trim_space u) \<or> url_parse (trim_space u) = None \<or> raw_key (trim_space u) \<in> set seen"
  | (accept) parsed where "isHTTPURL (trim_space u)" "url_parse (trim_space u) = Some parsed"
      "raw_key (trim_space u) = normalizedURL parsed" "normalizedURL parsed \<notin> set seen"
  by (cases "url_parse (trim_space u)") (auto simp: raw_key_def)

text \<open>A candidate stems from a URL of the event.\<close>

lemma sandbox_candidates_sound:
  "c \<in> set (sandbox_candidates ev order seen urls) \<Longrightarrow>
     cand_raw c \<in> trim_space ` set urls \<and> isHTTPURL (cand_raw c) \<and>
     (\<exists>parsed. url_parse (cand_raw c) = Some parsed \<and> cand_score c = sandboxURLPriority parsed ev)"
proof (induction urls arbitrary: order seen)
  case (Cons u urls)
  show ?case
  proof (cases rule: sandbox_step [of u seen])
    case skip
    with Cons show ?thesis by (auto simp del: sandbox_candidates.simps simp: sandbox_candidates_skip)
  next
    case (accept parsed)
    with Cons show ?thesis
      by (auto simp del: sandbox_candidates.simps simp: sandbox_candidates_take)
  qed
qed simp

lemma sandbox_candidates_distinct:
  "distinct (map (raw_key \<circ> cand_raw) (sandbox_candidates ev order seen urls)) \<and>
   (raw_key \<circ> cand_raw) ` set (sandbox_candidates ev order seen urls) \<inter> set seen = {}"
proof (induction urls arbitrary: order seen)
  case (Cons u urls)
  show ?case
  proof (cases rule: sandbox_step [of u seen])
    case skip
    with Cons show ?thesis by (simp del: sandbox_candidates.simps add: sandbox_candidates_skip)
  next
    case (accept parsed)
    with Cons [of "Suc order" "normalizedURL parsed # seen"] show ?thesis
      by (auto simp del: sandbox_candidates.simps simp: sandbox_candidates_take)
  qed
qed simp

text \<open>Every accepted URL of the event is a candidate, unless an earlier one has the same key.\<close>

lemma sandbox_candidates_complete:
  "u \<in> set urls \<Longrightarrow> isHTTPURL (trim_space u) \<Longrightarrow> url_parse (trim_space u) \<noteq> None \<Longrightarrow>
     raw_key (trim_space u) \<in> set seen \<or>
     raw_key (trim_space u) \<in> (raw_key \<circ> cand_raw) ` set (sandbox_candidates ev order seen urls)"
proof (induction urls arbitrary: order seen)
  case (Cons v urls)
  show ?case
  proof (cases rule: sandbox_step [of v seen])
    case skip
    with Cons show ?thesis by (auto simp del: sandbox_candidates.simps simp: sandbox_candidates_skip)
  next
    case (accept parsed)
    show ?thesis
    proof (cases "u = v")
      case False
      with Cons.prems Cons.IH [of "normalizedURL parsed # seen" "Suc order"] accept show ?thesis
        by (auto simp del: sandbox_candidates.simps simp: sandbox_candidates_take)
    qed (use accept in \<open>simp del: sandbox_candidates.simps add: sandbox_candidates_take\<close>)
  qed
qed simp

lemma take_sorted_best:
  assumes "sorted (map f xs)" "x \<in> set xs" "x \<notin> set (take n xs)" "y \<in> set (take n xs)"
  shows "f y \<le> f x"
proof -
  have "x \<in> set (drop n xs)"
    using assms(2,3) by (metis Un_iff append_take_drop_id set_append)
  moreover have "sorted (map f (take n xs) @ map f (drop n xs))"
    using assms(1) by (metis append_take_drop_id map_append)
  ultimately show ?thesis using assms(4) by (auto simp: sorted_append)
qed

definition chosen_candidates :: "Event \<Rightarrow> sandboxURLCandidate list" where
  "chosen_candidates ev = take maxURLScans (filter (\<lambda>c. cand_score c > 0)
     (sort_key candidate_rank (sandbox_candidates ev 0 [] (ev_URLs ev))))"

lemma prioritized_chosen: "prioritizedSandboxURLs ev = map cand_raw (chosen_candidates ev)"
  by (simp add: prioritizedSandboxURLs_def chosen_candidates_def)

lemma chosen_mem:
  "c \<in> set (chosen_candidates ev) \<Longrightarrow> c \<in> set (sandbox_candidates ev 0 [] (ev_URLs ev)) \<and> cand_score c > 0"
  by (auto simp: chosen_candidates_def dest: in_set_takeD)

lemma distinct_map_sub:
  "distinct (map f xs) \<Longrightarrow> distinct (map f (take n (filter p (sort_key k xs))))"
proof -
  assume "distinct (map f xs)"
  then have "inj_on f (set xs)" "distinct xs" by (auto simp: distinct_map)
  then show ?thesis
    by (auto simp: distinct_map dest!: in_set_takeD intro: inj_on_subset)
qed

lemma chosen_score:
  assumes "c \<in> set (chosen_candidates ev)"
  shows "\<exists>q. url_parse (cand_raw c) = Some q \<and> sandboxURLPriority q ev = cand_score c"
  using sandbox_candidates_sound [OF conjunct1 [OF chosen_mem [OF assms]]] by metis

text \<open>What the browser sandbox opens: at most three URLs of the message, each an HTTP URL that parses and
  has a positive priority, no two with the same scheme, host and path.\<close>

theorem prioritizedSandboxURLs_sound:
  "length (prioritizedSandboxURLs ev) \<le> 3 \<and> distinct (map raw_key (prioritizedSandboxURLs ev)) \<and>
   list_all (\<lambda>raw. raw \<in> trim_space ` set (ev_URLs ev) \<and> isHTTPURL raw \<and>
     (\<exists>parsed. url_parse raw = Some parsed \<and> sandboxURLPriority parsed ev > 0)) (prioritizedSandboxURLs ev)"
proof -
  have "distinct (map (raw_key \<circ> cand_raw) (chosen_candidates ev))"
    unfolding chosen_candidates_def
    using sandbox_candidates_distinct [of ev 0 "[]" "ev_URLs ev"] by (intro distinct_map_sub) blast
  moreover have "length (chosen_candidates ev) \<le> 3"
    by (simp add: chosen_candidates_def maxURLScans_def)
  moreover have "raw \<in> trim_space ` set (ev_URLs ev) \<and> isHTTPURL raw \<and>
      (\<exists>parsed. url_parse raw = Some parsed \<and> sandboxURLPriority parsed ev > 0)"
    if "raw \<in> cand_raw ` set (chosen_candidates ev)" for raw
  proof -
    from that obtain c where c: "raw = cand_raw c" "c \<in> set (chosen_candidates ev)" by blast
    from chosen_mem [OF c(2)] have m: "c \<in> set (sandbox_candidates ev 0 [] (ev_URLs ev))" "cand_score c > 0"
      by blast+
    from sandbox_candidates_sound [OF m(1)] m(2) c(1) show ?thesis by metis
  qed
  ultimately show ?thesis
    unfolding prioritized_chosen by (simp add: list_all_iff)
qed

text \<open>The most suspicious links win: a URL of positive priority is left out only if the sandbox already
  opens three others of at least its priority, or an earlier URL has the same scheme, host and path.\<close>

theorem prioritizedSandboxURLs_best:
  assumes "u \<in> set (ev_URLs ev)" "isHTTPURL (trim_space u)" "url_parse (trim_space u) \<noteq> None"
  shows "\<exists>v parsed. v \<in> trim_space ` set (ev_URLs ev) \<and> url_parse v = Some parsed \<and> raw_key v = raw_key (trim_space u) \<and>
     (sandboxURLPriority parsed ev > 0 \<longrightarrow> v \<in> set (prioritizedSandboxURLs ev) \<or>
        length (prioritizedSandboxURLs ev) = 3 \<and>
        list_all (\<lambda>w. \<exists>q. url_parse w = Some q \<and> sandboxURLPriority q ev \<ge> sandboxURLPriority parsed ev)
          (prioritizedSandboxURLs ev))"
proof -
  let ?cs = "sandbox_candidates ev 0 [] (ev_URLs ev)"
  let ?pos = "filter (\<lambda>c. cand_score c > 0) (sort_key candidate_rank ?cs)"
  obtain c where c: "c \<in> set ?cs" "raw_key (cand_raw c) = raw_key (trim_space u)"
    using sandbox_candidates_complete [OF assms, of "[]" ev 0] by auto
  obtain parsed where p: "url_parse (cand_raw c) = Some parsed" "cand_score c = sandboxURLPriority parsed ev"
    "cand_raw c \<in> trim_space ` set (ev_URLs ev)"
    using sandbox_candidates_sound [OF c(1)] by blast
  have "length (chosen_candidates ev) = 3 \<and> (\<forall>d \<in> set (chosen_candidates ev). cand_score c \<le> cand_score d)"
    if "cand_score c > 0" "cand_raw c \<notin> set (prioritizedSandboxURLs ev)"
  proof -
    have out: "c \<in> set ?pos" "c \<notin> set (take maxURLScans ?pos)"
      using that c(1) by (auto simp: prioritized_chosen chosen_candidates_def)
    have len: "length ?pos > 3"
    proof (rule ccontr)
      assume "\<not> length ?pos > 3"
      then have "take maxURLScans ?pos = ?pos" by (simp add: maxURLScans_def)
      with out show False by simp
    qed
    have "sorted (map candidate_rank (sort_key candidate_rank ?cs))" by (rule sorted_sort_key)
    then have "sorted (map candidate_rank ?pos)" by (rule sorted_filter)
    then have "\<forall>d \<in> set (chosen_candidates ev). candidate_rank d \<le> candidate_rank c"
      unfolding chosen_candidates_def using take_sorted_best [OF _ out] by blast
    then have "\<forall>d \<in> set (chosen_candidates ev). cand_score c \<le> cand_score d"
      by (auto simp: candidate_rank_def less_eq_prod_def)
    moreover have "length (chosen_candidates ev) = 3"
      using len by (simp add: chosen_candidates_def maxURLScans_def)
    ultimately show ?thesis by blast
  qed
  note best = this
  have "length (prioritizedSandboxURLs ev) = 3 \<and>
      list_all (\<lambda>w. \<exists>q. url_parse w = Some q \<and> sandboxURLPriority q ev \<ge> sandboxURLPriority parsed ev)
        (prioritizedSandboxURLs ev)"
    if out: "cand_score c > 0" "cand_raw c \<notin> set (prioritizedSandboxURLs ev)"
  proof -
    have "\<exists>q. url_parse (cand_raw d) = Some q \<and> sandboxURLPriority q ev \<ge> sandboxURLPriority parsed ev"
      if "d \<in> set (chosen_candidates ev)" for d
      using chosen_score [OF that] best [OF out] that p(2) by auto
    with best [OF out] show ?thesis
      by (simp add: prioritized_chosen list_all_iff)
  qed
  then have "sandboxURLPriority parsed ev > 0 \<longrightarrow> cand_raw c \<in> set (prioritizedSandboxURLs ev) \<or>
      length (prioritizedSandboxURLs ev) = 3 \<and>
      list_all (\<lambda>w. \<exists>q. url_parse w = Some q \<and> sandboxURLPriority q ev \<ge> sandboxURLPriority parsed ev)
        (prioritizedSandboxURLs ev)"
    using p(2) by argo
  then show ?thesis using p(1,3) c(2) by blast
qed

lemma url_parse_example:
  "url_parse ''http://a.io/login'' = Some \<lparr>url_Scheme = ''http'', url_Opaque = [], url_HasUser = False,
     url_Host = ''a.io'', url_EscapedPath = ''/login'', url_ForceQuery = False, url_RawQuery = [],
     url_EscapedFragment = []\<rparr>"
  by (simp add: url_defs Let_def has_suffix_code)

lemma prioritizedSandboxURLs_best_witness:
  "\<exists>v parsed. v \<in> {''http://a.io/login''} \<and> url_parse v = Some parsed"
  using prioritizedSandboxURLs_best [of "''http://a.io/login''" "sample_event\<lparr>ev_URLs := [''http://a.io/login'']\<rparr>"]
  by (auto simp: trim_defs isHTTPURL_def url_parse_example)

end
