(* ===== verification/MailBrand.thy ===== *)
theory MailBrand
  imports MailUrls
begin

text \<open>
  Brand impersonation in \<open>internal/mail/ingest.go\<close>: the protected brands, the score of a claim and
  the best-scoring claim.
\<close>

record protectedBrandProfile =
  bp_name :: string
  bp_terms :: "string list"
  bp_senderDomains :: "string list"
  bp_cues :: "string list"

definition protectedBrandProfiles :: "protectedBrandProfile list" where
  "protectedBrandProfiles =
    [\<lparr>bp_name = ''microsoft'',
      bp_terms =
        [''microsoft'', ''office 365'', ''microsoft 365'', ''onedrive'', ''sharepoint''],
      bp_senderDomains =
        [''microsoft.com'', ''microsoftonline.com'', ''microsoftsupport.com'',
          ''office.com'', ''office365.com'', ''office365support.com'', ''outlook.com'',
          ''live.com'', ''mail.support.microsoft.com'', ''techsupport.microsoft.com''],
      bp_cues =
        [''account'', ''password'', ''security'', ''verify'', ''verification'', ''sign in'',
          ''login'', ''document'', ''shared'', ''subscription'', ''invoice'', ''billing'',
          ''storage'']\<rparr>,
     \<lparr>bp_name = ''google'',
      bp_terms =
        [''google'', ''gmail'', ''google workspace'', ''google drive''],
      bp_senderDomains =
        [''google.com'', ''accounts.google.com'', ''mail.google.com'', ''googlemail.com''],
      bp_cues =
        [''account'', ''password'', ''security'', ''verify'', ''verification'', ''sign in'',
          ''login'', ''drive'', ''document'', ''shared'', ''storage'']\<rparr>,
     \<lparr>bp_name = ''docusign'',
      bp_terms =
        [''docusign'', ''docu sign''],
      bp_senderDomains =
        [''docusign.net'', ''docusign.com''],
      bp_cues =
        [''document'', ''documents'', ''envelope'', ''signature'', ''sign'', ''signed'',
          ''complete'', ''review'', ''view'', ''agreement'']\<rparr>,
     \<lparr>bp_name = ''adobe'',
      bp_terms =
        [''adobe'', ''acrobat'', ''adobe sign''],
      bp_senderDomains =
        [''adobe.com'', ''email.adobe.com'', ''mail.adobe.com''],
      bp_cues =
        [''document'', ''documents'', ''signature'', ''sign'', ''signed'', ''agreement'',
          ''review'', ''shared'', ''invoice'', ''subscription'', ''account'']\<rparr>,
     \<lparr>bp_name = ''dropbox'',
      bp_terms =
        [''dropbox'', ''dropbox paper''],
      bp_senderDomains =
        [''dropbox.com'', ''dropboxmail.com'', ''docsend.com'', ''em-s.dropbox.com'',
          ''em.dropbox.com'', ''dropbox.zendesk.com'', ''dropboxpartners.com'',
          ''dropboxteam.com''],
      bp_cues =
        [''file'', ''files'', ''folder'', ''shared'', ''document'', ''documents'', ''view'',
          ''download'', ''sign in'', ''login'', ''storage'']\<rparr>,
     \<lparr>bp_name = ''paypal'',
      bp_terms =
        [''paypal'', ''pay pal''],
      bp_senderDomains =
        [''paypal.com'', ''mail.paypal.com''],
      bp_cues =
        [''account'', ''payment'', ''invoice'', ''transaction'', ''receipt'', ''refund'',
          ''charged'', ''charge'', ''billing'', ''verify'', ''verification'', ''limited'',
          ''dispute'', ''support'']\<rparr>,
     \<lparr>bp_name = ''intuit'',
      bp_terms =
        [''intuit'', ''quickbooks'', ''quick books'', ''turbotax'', ''turbo tax''],
      bp_senderDomains =
        [''intuit.com'', ''quickbooks.intuit.com'', ''notification.intuit.com'',
          ''selfemployed.intuit.com'', ''workforce.intuit.com'', ''tsheets.com'',
          ''macpayroll.com''],
      bp_cues =
        [''invoice'', ''payment'', ''payroll'', ''tax'', ''refund'', ''account'',
          ''billing'', ''statement'', ''verify'', ''verification'', ''document'']\<rparr>,
     \<lparr>bp_name = ''amazon'',
      bp_terms =
        [''amazon'', ''amazon business'', ''amazon prime''],
      bp_senderDomains =
        [''amazon.com'', ''amazonbusiness.com''],
      bp_cues =
        [''order'', ''shipment'', ''delivery'', ''payment'', ''invoice'', ''receipt'',
          ''refund'', ''account'', ''password'', ''billing'', ''prime'', ''subscription'']\<rparr>,
     \<lparr>bp_name = ''apple'',
      bp_terms =
        [''apple'', ''apple id'', ''apple account'', ''icloud'', ''itunes'', ''app store''],
      bp_senderDomains =
        [''apple.com'', ''email.apple.com'', ''icloud.com'', ''itunes.com''],
      bp_cues =
        [''account'', ''password'', ''security'', ''verify'', ''verification'', ''receipt'',
          ''purchase'', ''invoice'', ''icloud'', ''billing'', ''payment'', ''subscription'']\<rparr>,
     \<lparr>bp_name = ''netflix'',
      bp_terms =
        [''netflix''],
      bp_senderDomains =
        [''netflix.com''],
      bp_cues =
        [''account'', ''password'', ''billing'', ''payment'', ''subscription'', ''update'',
          ''verify'', ''verification'', ''sign in'', ''login'', ''membership'']\<rparr>]"

definition accountLossPressurePhrases :: "string list" where
  "accountLossPressurePhrases =
        [''payment failed'', ''can't process your payment'',
          ''cannot process your payment'', ''payment declined'', ''billing issue'',
          ''account suspended'', ''account locked'', ''account restricted'',
          ''account will be closed'', ''lose access'', ''loss of access'',
          ''subscription will end'', ''subscription expired'', ''final reminder'',
          ''action required'', ''pending verification'', ''permanent loss'']"

definition updateDetailsCTAPhrases :: "string list" where
  "updateDetailsCTAPhrases =
        [''update details'', ''update your details'', ''update payment'',
          ''update billing'', ''verify account'', ''verify your account'',
          ''confirm account'', ''confirm your information'', ''restore access'',
          ''reactivate'', ''sign in'', ''log in'', ''login'', ''click below'']"

record brandAnalysisOptions =
  bo_Enabled :: bool
  bo_DisplayNameEnabled :: bool
  bo_SubjectEnabled :: bool
  bo_LinkMismatchEnabled :: bool
  bo_ThirdPartyReceiptsSafe :: bool

definition defaultBrandAnalysisOptions :: brandAnalysisOptions where
  "defaultBrandAnalysisOptions =
     \<lparr>bo_Enabled = True, bo_DisplayNameEnabled = True, bo_SubjectEnabled = True,
      bo_LinkMismatchEnabled = True, bo_ThirdPartyReceiptsSafe = True\<rparr>"

definition brandAnalysisOptionsFromPolicy :: "Policy option \<Rightarrow> brandAnalysisOptions" where
  "brandAnalysisOptionsFromPolicy pol =
     (if pol = None then defaultBrandAnalysisOptions
      else \<lparr>bo_Enabled = BrandImpersonationEnabled pol,
            bo_DisplayNameEnabled = BrandImpersonationDisplayNameEnabled pol,
            bo_SubjectEnabled = BrandImpersonationSubjectEnabled pol,
            bo_LinkMismatchEnabled = BrandImpersonationLinkMismatchEnabled pol,
            bo_ThirdPartyReceiptsSafe = BrandImpersonationThirdPartyReceiptsEnabled pol\<rparr>)"

record brandAnalysis =
  ba_Brand :: string
  ba_Score :: int
  ba_Signals :: "string list"
  ba_Quarantine :: bool

definition no_brand :: brandAnalysis where
  "no_brand = \<lparr>ba_Brand = [], ba_Score = 0, ba_Signals = [], ba_Quarantine = False\<rparr>"

definition brand_Reason :: "brandAnalysis \<Rightarrow> string" where
  "brand_Reason a =
     (if ba_Brand a = [] then []
      else if ba_Signals a = [] then ''brand impersonation: '' @ ba_Brand a
      else ''brand impersonation: '' @ ba_Brand a @ ''; '' @ join (ba_Signals a) ''; '')"

definition isAuthenticatedProtectedBrandSenderWithProfiles :: "Event \<Rightarrow> protectedBrandProfile list \<Rightarrow> bool" where
  "isAuthenticatedProtectedBrandSenderWithProfiles ev profiles =
     (if \<not> DMARCPass (authSignals ev) then False
      else if emailDomain (ev_From ev) = [] then False
      else list_ex (\<lambda>p. domainMatchesAny (emailDomain (ev_From ev)) (bp_senderDomains p)) profiles)"

definition isAuthenticatedProtectedBrandSender :: "Event \<Rightarrow> bool" where
  "isAuthenticatedProtectedBrandSender ev =
     isAuthenticatedProtectedBrandSenderWithProfiles ev protectedBrandProfiles"

definition isAuthenticatedThirdPartyReceipt :: "Event \<Rightarrow> string \<Rightarrow> bool" where
  "isAuthenticatedThirdPartyReceipt ev fromDomain =
     (if \<not> isAuthenticatedProtectedBrandSender ev then False
      else if \<not> domainMatchesAny fromDomain [''paypal.com'', ''mail.paypal.com''] then False
      else
        (let text = suspiciousText (ev_Subject ev @ '' '' @ ev_BodyText ev)
         in if contains_any text
              [''verify'', ''verification'', ''password'', ''sign in'', ''login'', ''account suspended'',
               ''security alert''] then False
            else contains_any text
              [''receipt'', ''transaction id'', ''you sent a payment'', ''payment sent'', ''paid to'',
               ''purchase details'', ''automatic payment'', ''preapproved payment'']))"

text \<open>The first of the prioritized URLs that leads neither to the brand nor to the sender.\<close>

fun mismatched_loop :: "string \<Rightarrow> protectedBrandProfile \<Rightarrow> string list \<Rightarrow> string" where
  "mismatched_loop fromDomain profile [] = []"
| "mismatched_loop fromDomain profile (raw # raws) =
     (case url_parse (trim_space raw) of
        None \<Rightarrow> mismatched_loop fromDomain profile raws
      | Some parsed \<Rightarrow>
          if url_Scheme parsed = [] \<or> hostname parsed = [] then mismatched_loop fromDomain profile raws
          else if url_Scheme parsed \<noteq> ''http'' \<and> url_Scheme parsed \<noteq> ''https'' then
            mismatched_loop fromDomain profile raws
          else
            (let host = to_lower (trim (hostname parsed) ''.'') in
             if domainMatchesAny host (bp_senderDomains profile) \<or> domainMatchesAny host [fromDomain] then
               mismatched_loop fromDomain profile raws
             else host))"

definition firstMismatchedURLHost :: "Event \<Rightarrow> string \<Rightarrow> protectedBrandProfile \<Rightarrow> string" where
  "firstMismatchedURLHost ev fromDomain profile =
     mismatched_loop fromDomain profile (prioritizedSandboxURLs ev)"

definition firstMismatchedDirectURLHost :: "Event \<Rightarrow> string \<Rightarrow> protectedBrandProfile \<Rightarrow> string" where
  "firstMismatchedDirectURLHost ev fromDomain profile =
     firstMismatchedURLHost
       (ev\<lparr>ev_URLs := filter (\<lambda>raw. case url_parse (trim_space raw) of
              None \<Rightarrow> False
            | Some parsed \<Rightarrow> \<not> has_prefix (to_lower (hostname parsed)) ''click.'') (ev_URLs ev)\<rparr>)
       fromDomain profile"

definition scoreBrandClaim ::
  "Event \<Rightarrow> string \<Rightarrow> protectedBrandProfile \<Rightarrow> brandAnalysisOptions \<Rightarrow> brandAnalysis" where
  "scoreBrandClaim ev fromDomain profile opts =
     (let fromName = suspiciousText (ev_FromName ev);
          subject = suspiciousText (ev_Subject ev);
          body = suspiciousText (ev_BodyText ev);
          combined = trim_space (subject @ '' '' @ body);
          displayNameClaim = contains_any fromName (bp_terms profile);
          subjectClaim = contains_any subject (bp_terms profile);
          bodyClaim = contains_any body (bp_terms profile);
          pressureClaim = ((subjectClaim \<or> bodyClaim) \<and> contains_any combined accountLossPressurePhrases
             \<and> contains_any combined updateDetailsCTAPhrases);
          authenticatedNewsletter = (DMARCPass (authSignals ev) \<and> trim_space (ev_ListUnsubscribe ev) \<noteq> []
             \<and> \<not> displayNameClaim \<and> \<not> pressureClaim);
          directHost =
            (if bo_LinkMismatchEnabled opts \<and> bodyClaim \<and> \<not> displayNameClaim \<and> \<not> subjectClaim
                \<and> contains_any body [''review & sign'', ''review and sign'', ''sign the document'', ''electronic approval'']
                \<and> contains_any body [''signature pending'', ''electronic signature'', ''signature platform'', ''envelope'']
             then firstMismatchedDirectURLHost ev fromDomain profile else []);
          linkHost =
            (if bo_LinkMismatchEnabled opts \<and> (displayNameClaim \<or> subjectClaim \<or> pressureClaim)
                \<and> \<not> authenticatedNewsletter
             then firstMismatchedURLHost ev fromDomain profile else []);
          steps =
            [(bo_DisplayNameEnabled opts \<and> displayNameClaim, 80, ''display name claims '' @ bp_name profile),
             (bo_SubjectEnabled opts \<and> subjectClaim \<and> contains_any combined (bp_cues profile), 45,
              ''message claims '' @ bp_name profile @ '' with sensitive context''),
             (directHost \<noteq> [], 80,
              ''body claims '' @ bp_name profile @ '' signature workflow with link to unrelated domain '' @ directHost),
             (pressureClaim, 80, ''account or payment pressure asks the recipient to update details''),
             (linkHost \<noteq> [], 45, ''link points to unrelated domain '' @ linkHost),
             (bo_ThirdPartyReceiptsSafe opts \<and> isAuthenticatedThirdPartyReceipt ev fromDomain, - 80,
              ''authenticated third-party receipt context'')];
          taken = filter fst steps;
          score = max 0 (sum_list (map (fst \<circ> snd) taken))
      in if score = 0 then no_brand
         else \<lparr>ba_Brand = bp_name profile, ba_Score = score, ba_Signals = map (snd \<circ> snd) taken,
               ba_Quarantine = False\<rparr>)"

text \<open>The loop that keeps the best claim; a brand's own domain is no claim.\<close>

fun best_claim ::
  "Event \<Rightarrow> string \<Rightarrow> brandAnalysisOptions \<Rightarrow> brandAnalysis \<Rightarrow> protectedBrandProfile list \<Rightarrow> brandAnalysis" where
  "best_claim ev fromDomain opts best [] = best"
| "best_claim ev fromDomain opts best (profile # profiles) =
     (if domainMatchesAny fromDomain (bp_senderDomains profile) then best_claim ev fromDomain opts best profiles
      else
        (let current = scoreBrandClaim ev fromDomain profile opts
         in best_claim ev fromDomain opts (if ba_Score current > ba_Score best then current else best) profiles))"

definition analyzeBrandImpersonationWithProfiles ::
  "Event \<Rightarrow> brandAnalysisOptions \<Rightarrow> protectedBrandProfile list \<Rightarrow> brandAnalysis" where
  "analyzeBrandImpersonationWithProfiles ev opts profiles =
     (if \<not> bo_Enabled opts then no_brand
      else if emailDomain (ev_From ev) = [] then no_brand
      else
        (let best = best_claim ev (emailDomain (ev_From ev)) opts no_brand profiles
         in if ba_Score best \<ge> 70 then best\<lparr>ba_Quarantine := True\<rparr> else best))"

definition analyzeBrandImpersonation :: "Event \<Rightarrow> brandAnalysisOptions \<Rightarrow> brandAnalysis" where
  "analyzeBrandImpersonation ev opts = analyzeBrandImpersonationWithProfiles ev opts protectedBrandProfiles"

definition brandImpersonationHit :: "Event \<Rightarrow> string" where
  "brandImpersonationHit ev = ba_Brand (analyzeBrandImpersonation ev defaultBrandAnalysisOptions)"

subsection \<open>The best claim\<close>

definition foreign_profile :: "string \<Rightarrow> protectedBrandProfile \<Rightarrow> bool" where
  "foreign_profile fromDomain p = (\<not> domainMatchesAny fromDomain (bp_senderDomains p))"

lemma not_Let: "(\<And>x. \<not> q (f x)) \<Longrightarrow> \<not> q (Let s f)"
  by (simp add: Let_def)

lemma not_if: "\<not> q a \<Longrightarrow> \<not> q b \<Longrightarrow> \<not> q (if c then a else b)"
  by simp

lemma scoreBrandClaim_quarantine [simp]: "\<not> ba_Quarantine (scoreBrandClaim ev d p opts)"
  unfolding scoreBrandClaim_def
  by (intro not_Let [where q = ba_Quarantine] not_if [where q = ba_Quarantine])
     (simp_all only: no_brand_def brandAnalysis.select_convs not_False_eq_True)

lemma best_claim_ge: "ba_Score best \<le> ba_Score (best_claim ev d opts best profiles)"
proof (induction profiles arbitrary: best)
  case (Cons q qs)
  let ?s = "scoreBrandClaim ev d q opts"
  have "ba_Score ?s \<le> ba_Score (best_claim ev d opts ?s qs)" by (rule Cons)
  moreover have "ba_Score best \<le> ba_Score (best_claim ev d opts best qs)" by (rule Cons)
  ultimately show ?case
    by (cases "domainMatchesAny d (bp_senderDomains q)"; cases "ba_Score ?s > ba_Score best")
       (simp_all add: Let_def)
qed simp

lemma best_claim_score:
  "p \<in> set profiles \<Longrightarrow> foreign_profile d p \<Longrightarrow>
     ba_Score (scoreBrandClaim ev d p opts) \<le> ba_Score (best_claim ev d opts best profiles)"
proof (induction profiles arbitrary: best)
  case (Cons q qs)
  let ?s = "scoreBrandClaim ev d q opts"
  let ?next = "if ba_Score ?s > ba_Score best then ?s else best"
  show ?case
  proof (cases "p = q")
    case True
    have "ba_Score ?s \<le> ba_Score ?next" by simp
    also have "\<dots> \<le> ba_Score (best_claim ev d opts ?next qs)" by (rule best_claim_ge)
    finally show ?thesis using True Cons.prems(2) by (simp add: foreign_profile_def Let_def)
  next
    case False
    with Cons.prems have "p \<in> set qs" by simp
    then show ?thesis using Cons.IH Cons.prems(2) by (simp add: Let_def)
  qed
qed simp

lemma best_claim_mem:
  "best_claim ev d opts best profiles = best \<or>
   (\<exists>p \<in> set profiles. foreign_profile d p \<and> best_claim ev d opts best profiles = scoreBrandClaim ev d p opts)"
proof (induction profiles arbitrary: best)
  case (Cons q qs)
  let ?s = "scoreBrandClaim ev d q opts"
  show ?case
  proof (cases "foreign_profile d q \<and> ba_Score ?s > ba_Score best")
    case True
    then have "best_claim ev d opts best (q # qs) = best_claim ev d opts ?s qs"
      by (simp add: foreign_profile_def Let_def)
    with Cons [of ?s] True show ?thesis by auto
  next
    case False
    then have "best_claim ev d opts best (q # qs) = best_claim ev d opts best qs"
      by (auto simp: foreign_profile_def Let_def)
    with Cons [of best] show ?thesis by auto
  qed
qed simp

text \<open>C31 (brand impersonation): a message is quarantined for impersonation exactly when the analysis is
  enabled, the sender has a domain, and some protected brand whose own domains do not cover the
  sender's domain is claimed with a score of 70 or more. A brand's own mail is never accused of
  impersonating that brand, and the order of the brands does not matter.\<close>

theorem brand_quarantine_iff:
  "ba_Quarantine (analyzeBrandImpersonationWithProfiles ev opts profiles) \<longleftrightarrow>
     bo_Enabled opts \<and> emailDomain (ev_From ev) \<noteq> [] \<and>
     (\<exists>p \<in> set profiles. \<not> domainMatchesAny (emailDomain (ev_From ev)) (bp_senderDomains p) \<and>
        ba_Score (scoreBrandClaim ev (emailDomain (ev_From ev)) p opts) \<ge> 70)"
proof -
  let ?d = "emailDomain (ev_From ev)"
  let ?b = "best_claim ev ?d opts no_brand profiles"
  have "\<not> ba_Quarantine ?b"
    using best_claim_mem [of ev ?d opts no_brand profiles] by (auto simp: no_brand_def)
  moreover have "ba_Score ?b \<ge> 70 \<longleftrightarrow> (\<exists>p \<in> set profiles. foreign_profile ?d p \<and>
        ba_Score (scoreBrandClaim ev ?d p opts) \<ge> 70)"
    using best_claim_mem [of ev ?d opts no_brand profiles] best_claim_score [of _ profiles ?d ev opts no_brand]
    by (fastforce simp: no_brand_def)
  ultimately show ?thesis
    by (simp add: analyzeBrandImpersonationWithProfiles_def Let_def foreign_profile_def no_brand_def)
qed

end
