(* ===== verification/MailStages.thy ===== *)
theory MailStages
  imports MailBrand
begin

text \<open>
  The disposition of a message in \<open>internal/mail/ingest.go\<close>: the threat label and the stages
  that \<open>handle\<close> runs one after the other on a disposition and its reason.
\<close>

subsection \<open>Dispositions\<close>

text \<open>The enum \<open>mail_disposition\<close>, ordered by severity.\<close>

datatype disposition = Delivered | Tagged | Quarantined | Rejected

fun severity :: "disposition \<Rightarrow> nat" where
  "severity Delivered = 0"
| "severity Tagged = 1"
| "severity Quarantined = 2"
| "severity Rejected = 3"

lemma severity_inject [simp]: "severity a = severity b \<longleftrightarrow> a = b"
  by (cases a; cases b) auto

instantiation disposition :: linorder
begin

definition less_eq_disposition :: "disposition \<Rightarrow> disposition \<Rightarrow> bool" where
  "less_eq_disposition a b = (severity a \<le> severity b)"

definition less_disposition :: "disposition \<Rightarrow> disposition \<Rightarrow> bool" where
  "less_disposition a b = (severity a < severity b)"

instance
  by standard (auto simp: less_eq_disposition_def less_disposition_def dest: le_antisym)

end

lemma disposition_order [simp]:
  "Delivered \<le> d" "d \<le> Rejected" "Tagged \<le> Quarantined" "\<not> Quarantined \<le> Tagged" "\<not> Tagged \<le> Delivered"
  "\<not> Quarantined \<le> Delivered" "\<not> Rejected \<le> Quarantined" "\<not> Rejected \<le> Tagged" "\<not> Rejected \<le> Delivered"
  by (cases d; simp add: less_eq_disposition_def)+

type_synonym verdict = "disposition \<times> string"

definition reason_pending :: string where
  "reason_pending = ''pending recipient challenge-response approval''"

definition IsPendingReason :: "string \<Rightarrow> bool" where
  "IsPendingReason reason = (reason = reason_pending)"

subsection \<open>Threat labels\<close>

definition isGenericPhishingHeuristicSymbol :: "string \<Rightarrow> bool" where
  "isGenericPhishingHeuristicSymbol symbol =
     (to_upper (trim_space symbol) \<in> {''PHISHING'', ''PHISHING_CHECK''})"

definition commonScamCategorySlug :: "string \<Rightarrow> string" where
  "commonScamCategorySlug emailType =
     (if emailType = ''Credential phishing'' then ''credential_phishing''
      else if emailType = ''Wallet access phishing'' then ''credential_phishing''
      else if emailType = ''Payment support scam'' then ''payment_support''
      else if emailType = ''Tax document phishing'' then ''tax_document''
      else if emailType = ''Malware lure'' then ''malware_lure''
      else if emailType = ''Medical miracle scam'' then ''health_miracle''
      else if emailType = ''Health miracle spam'' \<or> emailType = ''Health lead-generation spam'' then ''health_miracle''
      else if emailType = ''Home services lead-gen spam'' then ''home_services''
      else [])"

definition commonScamDetectionAllows :: "Policy option \<Rightarrow> string \<Rightarrow> bool" where
  "commonScamDetectionAllows pol emailType =
     (if pol \<noteq> None \<and> \<not> CommonScamDetectionEnabled pol then False
      else if commonScamCategorySlug emailType = [] then False
      else pol = None \<or> CommonScamCategoryEnabled pol (commonScamCategorySlug emailType))"

text \<open>The loop over the symbol map: the label of the first symbol that names a threat.\<close>

fun classify_symbols :: "Event \<Rightarrow> protectedBrandProfile list \<Rightarrow> json_map \<Rightarrow> string option" where
  "classify_symbols ev profiles [] = None"
| "classify_symbols ev profiles ((key, v) # m) =
     (let s = to_upper key in
      if contains s ''PHISH'' \<and> symbolScore v > 0 then
        (if isAuthenticatedProtectedBrandSenderWithProfiles ev profiles \<and> isGenericPhishingHeuristicSymbol s
         then classify_symbols ev profiles m
         else Some ''PHISHING'')
      else if (contains s ''VIRUS'' \<or> contains s ''CLAM'') \<and> symbolScore v > 0 then Some ''VIRUS''
      else if reputation_listing ev s v then Some ''REPUTATION''
      else classify_symbols ev profiles m)"

definition phishing_types :: "string list" where
  "phishing_types = [''Wallet access phishing'', ''Payment support scam'', ''Tax document phishing'', ''Medical miracle scam'']"

definition health_types :: "string list" where
  "health_types = [''Health miracle spam'', ''Health lead-generation spam'', ''Home services lead-gen spam'']"

definition classify_scam :: "Event \<Rightarrow> Policy option \<Rightarrow> protectedBrandProfile list \<Rightarrow> string option" where
  "classify_scam ev pol profiles =
     (let emailType = EmailType (AnalyzeCommonScam (ev_Subject ev) (ev_BodyText ev)) in
      if commonScamDetectionAllows pol emailType then
        (if emailType = ''Credential phishing'' then
           (if isAuthenticatedProtectedBrandSenderWithProfiles ev profiles then None else Some ''PHISHING'')
         else if emailType \<in> set phishing_types then Some ''PHISHING''
         else if emailType = ''Malware lure'' then Some ''MALWARE''
         else if emailType \<in> set health_types then Some ''SPAM''
         else None)
      else None)"

definition classifyThreatWithProfiles ::
  "Event \<Rightarrow> brandAnalysisOptions \<Rightarrow> Policy option \<Rightarrow> protectedBrandProfile list \<Rightarrow> string" where
  "classifyThreatWithProfiles ev opts pol profiles =
     (case classify_symbols ev profiles (ev_Symbols ev) of
        Some t \<Rightarrow> t
      | None \<Rightarrow>
          (case classify_scam ev pol profiles of
             Some t \<Rightarrow> t
           | None \<Rightarrow>
               if ba_Quarantine (analyzeBrandImpersonationWithProfiles ev opts profiles) then ''PHISHING''
               else if ev_Score ev \<ge> 10 then ''SPAM''
               else []))"

definition classifyThreatWithOptions :: "Event \<Rightarrow> brandAnalysisOptions \<Rightarrow> Policy option \<Rightarrow> string" where
  "classifyThreatWithOptions ev opts pol = classifyThreatWithProfiles ev opts pol protectedBrandProfiles"

definition classifyThreatWithBrandOptions :: "Event \<Rightarrow> brandAnalysisOptions \<Rightarrow> string" where
  "classifyThreatWithBrandOptions ev opts = classifyThreatWithOptions ev opts None"

definition classifyThreat :: "Event \<Rightarrow> string" where
  "classifyThreat ev = classifyThreatWithBrandOptions ev defaultBrandAnalysisOptions"

subsection \<open>The stages\<close>

definition dispositionForPolicyAction :: "string \<Rightarrow> disposition" where
  "dispositionForPolicyAction action =
     (let a = to_lower (trim_space action) in
      if a = ''deliver'' then Delivered
      else if a = ''tag'' then Tagged
      else if a = ''reject'' then Rejected
      else Quarantined)"

definition decide :: "Policy option \<Rightarrow> Event \<Rightarrow> verdict" where
  "decide pol ev =
     (case pol of
        None \<Rightarrow> (Delivered, [])
      | Some p \<Rightarrow>
          if ev_Score ev \<ge> p_RejectThreshold p then (Rejected, ''score >= reject_threshold'')
          else if ev_Score ev \<ge> p_QuarantineThreshold p then
            (dispositionForPolicyAction (p_QuarantineAction p), ''score >= quarantine_threshold'')
          else if ev_Score ev \<ge> p_SpamThreshold p then (Tagged, ''score >= spam_threshold'')
          else (Delivered, []))"

definition applyDeliveryStatusNotificationDisposition :: "Event \<Rightarrow> verdict \<Rightarrow> verdict" where
  "applyDeliveryStatusNotificationDisposition ev v =
     (let (d, reason) = v in
      if \<not> isDeliveryStatusNotification ev then (d, reason)
      else if reason = [] \<or> has_prefix reason ''score >='' then (Delivered, ''delivery status notification'')
      else (d, reason))"

definition applyAuthEnforcement :: "Event \<Rightarrow> verdict \<Rightarrow> verdict" where
  "applyAuthEnforcement ev v =
     (let (d, reason) = v in
      if d = Rejected \<or> d = Quarantined then (d, reason)
      else if equal_fold (ev_Direction ev) ''outbound'' then (d, reason)
      else if isDeliveryStatusNotification ev then (d, reason)
      else if \<not> hasAuthSignal ev then (Quarantined, ''sender authentication results missing'')
      else if hasSymbol ev ''DMARC_POLICY_REJECT'' then (Quarantined, ''sender failed DMARC reject policy'')
      else if hasSymbol ev ''DMARC_POLICY_QUARANTINE'' then (Quarantined, ''sender failed DMARC quarantine policy'')
      else
        (let auth = authSignals ev in
         if DMARCPass auth \<or> SPFPass auth \<or> DKIMPass auth then (d, reason)
         else if SPFFail auth \<or> DKIMFail auth \<or> DMARCFail auth \<or> hasSymbol ev ''R_SPF_SOFTFAIL'' then
           (Quarantined, ''sender failed SPF/DKIM/DMARC authentication'')
         else (Quarantined, ''sender authentication results missing'')))"

definition hard_reason_prefixes :: "string list" where
  "hard_reason_prefixes =
     [''sender authentication'', ''score >= quarantine_threshold'', ''score >= reject_threshold'',
      ''cached threat intelligence hit:'', ''sender failed DMARC'', ''sender failed SPF/DKIM'',
      ''malware signal hit'']"

definition hard_reasons :: "string list" where
  "hard_reasons =
     [''sender authentication results missing'', ''sender matched blacklist'', ''reputation blocklist hit'',
      reason_pending]"

definition isHardGateReason :: "string \<Rightarrow> bool" where
  "isHardGateReason reason =
     (list_ex (has_prefix reason) hard_reason_prefixes \<or> reason \<in> set hard_reasons)"

definition isAllowlistOverrideBlockedReason :: "string \<Rightarrow> bool" where
  "isAllowlistOverrideBlockedReason reason =
     (list_ex (has_prefix reason)
        (hard_reason_prefixes @
         [''user classified similar mail as spam'', ''user classified similar mail as phishing'',
          ''user classified similar mail as malware''])
      \<or> reason \<in> set hard_reasons)"

text \<open>The action of a sender list: \<open>allow\<close>, \<open>block\<close> or the empty text.\<close>

definition applySenderListAction :: "string \<Rightarrow> bool \<Rightarrow> verdict \<Rightarrow> verdict" where
  "applySenderListAction action blacklistEnabled v =
     (let (d, reason) = v in
      if action = ''block'' \<and> blacklistEnabled then (Rejected, ''sender matched blacklist'')
      else if action = ''allow'' \<and> \<not> isAllowlistOverrideBlockedReason reason \<and> (d = Tagged \<or> d = Quarantined) then
        (Delivered, ''sender matched allowlist'')
      else (d, reason))"

definition effectiveSenderListAction :: "string \<Rightarrow> bool \<Rightarrow> string" where
  "effectiveSenderListAction action blacklistEnabled =
     (if action = ''allow'' \<or> (action = ''block'' \<and> blacklistEnabled) then action else [])"

definition recordSenderListSymbol :: "string \<Rightarrow> Event \<Rightarrow> Event" where
  "recordSenderListSymbol action ev =
     (if action \<noteq> ''allow'' \<and> action \<noteq> ''block'' then ev
      else
        (let (name, score) = (if action = ''block'' then (''SMG_SENDER_BLACKLIST'', 20)
                              else (''SMG_SENDER_ALLOWLIST'', - 20))
         in ev\<lparr>ev_Symbols := map_set (ev_Symbols ev) name
              (JObj [(''score'', JNum score), (''group'', JStr ''sentinelmail''), (''options'', JArr [])])\<rparr>))"

definition applyRspamdSenderBlocklist :: "Event \<Rightarrow> verdict \<Rightarrow> verdict" where
  "applyRspamdSenderBlocklist ev v =
     (if hasSymbol ev ''SMG_SENDER_BLACKLIST'' then (Rejected, ''sender matched blacklist'') else v)"

definition applyReputationBlocklist :: "Event \<Rightarrow> verdict \<Rightarrow> verdict" where
  "applyReputationBlocklist ev v =
     (let (d, reason) = v in
      if d = Rejected \<or> d = Quarantined then (d, reason)
      else if hasReputationBlocklistHit ev then (Quarantined, ''reputation blocklist hit'')
      else (d, reason))"

text \<open>
  The first cached hit. \<open>cached\<close> is the registry's \<open>LookupCached\<close> (none without a registry),
  \<open>enabled\<close> the setting \<open>threat_intel.cached_enforcement\<close>. A hit adds a symbol to the event.
\<close>

fun first_cached_hit :: "(Kind \<Rightarrow> string \<Rightarrow> Result option) \<Rightarrow> threatCandidate list \<Rightarrow> Result option" where
  "first_cached_hit cached [] = None"
| "first_cached_hit cached ((kind, v) # cs) =
     (case cached kind v of
        None \<Rightarrow> first_cached_hit cached cs
      | Some r \<Rightarrow> if Hit r then Some r else first_cached_hit cached cs)"

definition applyCachedThreatIntelligence ::
  "(Kind \<Rightarrow> string \<Rightarrow> Result option) option \<Rightarrow> bool \<Rightarrow> Event \<Rightarrow> verdict \<Rightarrow> verdict \<times> Event" where
  "applyCachedThreatIntelligence feeds enabled ev v =
     (let (d, reason) = v in
      case feeds of
        None \<Rightarrow> ((d, reason), ev)
      | Some cached \<Rightarrow>
          if d = Rejected \<or> d = Quarantined \<or> \<not> enabled then ((d, reason), ev)
          else
            (case first_cached_hit cached (threatCandidates ev) of
               None \<Rightarrow> ((d, reason), ev)
             | Some r \<Rightarrow>
                 ((Quarantined, ''cached threat intelligence hit: '' @ Source r),
                  ev\<lparr>ev_Symbols := map_set (ev_Symbols ev) (threatFeedSymbol (Source r))
                     (JObj [(''score'', JNum 10), (''group'', JStr ''sentinelmail_threat_intel'')])\<rparr>)))"

definition applyCommonScamDetectionWithPolicy :: "Policy option \<Rightarrow> Event \<Rightarrow> verdict \<Rightarrow> verdict" where
  "applyCommonScamDetectionWithPolicy pol ev v =
     (let (d, reason) = v in
      if d = Rejected \<or> d = Quarantined then (d, reason)
      else
        (let emailType = EmailType (AnalyzeCommonScam (ev_Subject ev) (ev_BodyText ev)) in
         if \<not> commonScamDetectionAllows pol emailType then (d, reason)
         else if emailType = ''Credential phishing'' then
           (if isAuthenticatedProtectedBrandSender ev then (d, reason)
            else (Quarantined, ''detected '' @ to_lower emailType))
         else if emailType \<in> set phishing_types \<or> emailType = ''Malware lure'' \<or> emailType \<in> set health_types then
           (Quarantined, ''detected '' @ to_lower emailType)
         else (d, reason)))"

definition applyBrandImpersonationDetectionWithProfiles ::
  "string \<Rightarrow> Policy option \<Rightarrow> protectedBrandProfile list \<Rightarrow> Event \<Rightarrow> verdict \<Rightarrow> verdict" where
  "applyBrandImpersonationDetectionWithProfiles senderAction pol profiles ev v =
     (let (d, reason) = v in
      if d = Rejected \<or> d = Quarantined then (d, reason)
      else if pol \<noteq> None \<and> \<not> BrandImpersonationEnabled pol then (d, reason)
      else if senderAction = ''allow'' then (d, reason)
      else if equal_fold (ev_Direction ev) ''outbound'' then (d, reason)
      else
        (let analysis = analyzeBrandImpersonationWithProfiles ev (brandAnalysisOptionsFromPolicy pol) profiles
         in if ba_Quarantine analysis then (Quarantined, brand_Reason analysis) else (d, reason)))"

definition applyThreatSignalDispositionWithOptionsAndPolicy ::
  "brandAnalysisOptions \<Rightarrow> Policy option \<Rightarrow> Event \<Rightarrow> verdict \<Rightarrow> verdict" where
  "applyThreatSignalDispositionWithOptionsAndPolicy opts pol ev v =
     (let (d, reason) = v in
      if d = Rejected \<or> d = Quarantined then (d, reason)
      else
        (let threat = classifyThreatWithOptions ev opts pol in
         if threat = ''PHISHING'' then
           (if d = Delivered then (Tagged, ''phishing signal hit'')
            else (d, firstNonEmpty [reason, ''phishing signal hit'']))
         else if threat = ''VIRUS'' \<or> threat = ''MALWARE'' then (Quarantined, ''malware signal hit'')
         else (d, reason)))"

definition applyThreatSignalDispositionWithPolicy :: "Policy option \<Rightarrow> Event \<Rightarrow> verdict \<Rightarrow> verdict" where
  "applyThreatSignalDispositionWithPolicy pol ev v =
     applyThreatSignalDispositionWithOptionsAndPolicy (brandAnalysisOptionsFromPolicy pol) pol ev v"

definition challengeSourceVerified :: "Event \<Rightarrow> bool" where
  "challengeSourceVerified ev =
     (let auth = authSignals ev in
      if \<not> DMARCPass auth \<or> (\<not> SPFPass auth \<and> \<not> DKIMPass auth) then False
      else
        (let host = to_lower (trim (trim_space (ev_ClientHostname ev)) ''.'') in
         if host = [] \<or> host = ''unknown'' \<or> host = ''localhost'' \<or> has_prefix host ''['' then False
         else if parse_addr host \<noteq> None then False
         else contains host ''.''))"

definition challengeCanRequestApproval :: "string \<Rightarrow> Policy option \<Rightarrow> Event \<Rightarrow> bool" where
  "challengeCanRequestApproval reason pol ev =
     (let authQuarantine = (reason = ''sender authentication results missing''
            \<or> has_prefix reason ''sender failed DMARC'' \<or> has_prefix reason ''sender failed SPF/DKIM''
            \<or> has_prefix reason ''sender authentication'')
      in if \<not> authQuarantine then False
         else if classifyThreat ev \<in> {''PHISHING'', ''VIRUS'', ''MALWARE''} then False
         else
           (let emailType = EmailType (AnalyzeCommonScam (ev_Subject ev) (ev_BodyText ev))
            in emailType = [] \<or> \<not> commonScamDetectionAllows pol emailType))"

definition applyChallengeResponseHoldEnabled ::
  "Policy option \<Rightarrow> string \<Rightarrow> bool \<Rightarrow> Event \<Rightarrow> verdict \<Rightarrow> verdict" where
  "applyChallengeResponseHoldEnabled pol senderAction enabled ev v =
     (let (d, reason) = v in
      if d = Rejected \<or> pol = None \<or> \<not> enabled then (d, reason)
      else if \<not> equal_fold (ev_Direction ev) ''inbound'' then (d, reason)
      else if isDeliveryStatusNotification ev then (d, reason)
      else if d = Quarantined \<and> \<not> challengeCanRequestApproval reason pol ev then (d, reason)
      else if senderAction = ''allow'' \<and>
              (\<not> ChallengeResponseRequireVerifiedSource pol \<or> challengeSourceVerified ev) then (d, reason)
      else (Quarantined, reason_pending))"

definition challengeResponseModeEnabled :: "bool \<Rightarrow> string \<Rightarrow> bool \<Rightarrow> bool" where
  "challengeResponseModeEnabled policyEnabled mode active =
     (if \<not> active then policyEnabled
      else if mode = ''enabled'' then True
      else if mode = ''disabled'' then False
      else policyEnabled)"

definition applyLearnedClassification :: "Match \<Rightarrow> verdict \<Rightarrow> verdict" where
  "applyLearnedClassification learned v =
     (let (d, reason) = v; lv = m_Verdict learned in
      if lv = ''not_spam'' then
        (if isHardGateReason reason then (d, reason)
         else if d = Quarantined \<or> d = Tagged then (Delivered, ''user classified similar mail as not spam'')
         else (d, reason))
      else if lv = ''spam'' then
        (if d = Delivered \<or> d = Tagged then (Quarantined, ''user classified similar mail as spam'') else (d, reason))
      else if lv = ''phishing'' \<or> lv = ''malware'' then
        (if d = Delivered \<or> d = Tagged \<or> d = Quarantined then
           (Quarantined, ''user classified similar mail as '' @ lv)
         else (d, reason))
      else (d, reason))"

definition applyQuarantineFirst :: "Event \<Rightarrow> verdict \<Rightarrow> verdict" where
  "applyQuarantineFirst ev v =
     (let (d, reason) = v in
      if d \<noteq> Rejected then (d, reason)
      else if reason = ''sender matched blacklist'' then (d, reason)
      else if equal_fold (ev_Direction ev) ''inbound'' \<or> ev_Direction ev = [] then (Quarantined, reason)
      else (d, reason))"

end
