(* ===== verification/MailPipeline.thy ===== *)
theory MailPipeline
  imports MailStages
begin

text \<open>
  The order in which \<open>IngestHandler.handle\<close> applies the stages, and what the whole sequence
  guarantees. A stage that can only raise the severity meets the contract \<open>escalating_stage\<close>; a
  verdict that is \<open>held\<close> stays held through every stage.
\<close>

subsection \<open>The pipeline\<close>

text \<open>
  What \<open>handle\<close> has looked up before and while it runs the stages: the policy, the sender list
  action, the registry's cache, the setting \<open>threat_intel.cached_enforcement\<close>, the brand profiles
  and the learned verdict.
\<close>

record ingest_context =
  cx_Policy :: Policy
  cx_ChallengeEnabled :: bool
  cx_SenderAction :: string
  cx_Feeds :: "(Kind \<Rightarrow> string \<Rightarrow> Result option) option"
  cx_CachedEnforcement :: bool
  cx_BrandProfiles :: "protectedBrandProfile list"
  cx_Learned :: "Match option"

definition blacklist_on :: "ingest_context \<Rightarrow> bool" where
  "blacklist_on cx = (SenderBlacklistEnabled (Some (cx_Policy cx)) \<or> cx_ChallengeEnabled cx)"

text \<open>Score, bounce and authentication, the sender list, and the two block lists of Rspamd's symbols.\<close>

definition early_stages :: "ingest_context \<Rightarrow> Event \<Rightarrow> verdict" where
  "early_stages cx ev =
     (let v1 = decide (Some (cx_Policy cx)) ev;
          v2 = applyDeliveryStatusNotificationDisposition ev v1;
          v3 = applyAuthEnforcement ev v2;
          v4 = applySenderListAction (cx_SenderAction cx) (blacklist_on cx) v3;
          v5 = applyRspamdSenderBlocklist ev v4
      in applyReputationBlocklist ev v5)"

text \<open>The content stages, on the event to which a cached hit may have added a symbol.\<close>

definition content_stages :: "ingest_context \<Rightarrow> Event \<Rightarrow> verdict \<Rightarrow> verdict" where
  "content_stages cx ev v =
     (let pol = Some (cx_Policy cx);
          v1 = applyCommonScamDetectionWithPolicy pol ev v;
          v2 = applyBrandImpersonationDetectionWithProfiles (cx_SenderAction cx) pol (cx_BrandProfiles cx) ev v1
      in applyThreatSignalDispositionWithPolicy pol ev v2)"

text \<open>The sender list again, the challenge hold, the learned verdict, the sender list a third time, and
  the rule that inbound mail is quarantined rather than rejected.\<close>

definition late_stages :: "ingest_context \<Rightarrow> Event \<Rightarrow> verdict \<Rightarrow> verdict" where
  "late_stages cx ev v =
     (let v1 = applySenderListAction (cx_SenderAction cx) (blacklist_on cx) v;
          v2 = applyChallengeResponseHoldEnabled (Some (cx_Policy cx)) (cx_SenderAction cx)
                 (cx_ChallengeEnabled cx) ev v1;
          v3 = (case cx_Learned cx of None \<Rightarrow> v2 | Some learned \<Rightarrow> applyLearnedClassification learned v2);
          v4 = applySenderListAction (cx_SenderAction cx) (blacklist_on cx) v3
      in applyQuarantineFirst ev v4)"

definition run_stages :: "ingest_context \<Rightarrow> Event \<Rightarrow> verdict \<times> Event" where
  "run_stages cx ev =
     (let (v, ev') = applyCachedThreatIntelligence (cx_Feeds cx) (cx_CachedEnforcement cx) ev (early_stages cx ev)
      in (late_stages cx ev' (content_stages cx ev' v), ev'))"

subsection \<open>Stages that escalate\<close>

locale escalating_stage =
  fixes stage :: "verdict \<Rightarrow> verdict"
  assumes settled: "Quarantined \<le> fst v \<Longrightarrow> stage v = v"
    and raises: "fst v \<le> fst (stage v)"
    and no_reject: "fst (stage v) = Rejected \<Longrightarrow> fst v = Rejected"
begin

lemma stage_idem: "Quarantined \<le> fst (stage v) \<Longrightarrow> stage (stage v) = stage v"
  by (rule settled)

lemma iterate_raises: "fst v \<le> fst ((stage ^^ n) v)"
  by (induction n) (auto intro: order_trans raises)

end

lemma escalating_comp:
  assumes f: "escalating_stage f" and g: "escalating_stage g"
  shows "escalating_stage (\<lambda>v. g (f v))"
proof (rule escalating_stage.intro)
  fix v
  show "Quarantined \<le> fst v \<Longrightarrow> g (f v) = v"
    by (simp add: escalating_stage.settled [OF f] escalating_stage.settled [OF g])
  show "fst v \<le> fst (g (f v))"
    by (rule order_trans [OF escalating_stage.raises [OF f] escalating_stage.raises [OF g]])
  show "fst (g (f v)) = Rejected \<Longrightarrow> fst v = Rejected"
    by (rule escalating_stage.no_reject [OF f escalating_stage.no_reject [OF g]])
qed

text \<open>A stage that leaves the verdict alone or takes an open one to a higher, not rejecting severity.\<close>

lemma escalatingI:
  assumes "\<And>d r. stage (d, r) = (d, r) \<or>
     (\<exists>d' r'. stage (d, r) = (d', r') \<and> (d = Delivered \<and> d' = Tagged \<or> d = Tagged \<and> d' = Tagged \<or>
        (d = Delivered \<or> d = Tagged) \<and> d' = Quarantined))"
  shows "escalating_stage stage"
proof (rule escalating_stage.intro)
  fix v :: verdict
  obtain d r where v: "v = (d, r)" by fastforce
  show "Quarantined \<le> fst v \<Longrightarrow> stage v = v"
    using assms [of d r] v by auto
  show "fst v \<le> fst (stage v)"
    using assms [of d r] v by (auto simp: less_eq_disposition_def)
  show "fst (stage v) = Rejected \<Longrightarrow> fst v = Rejected"
    using assms [of d r] v by auto
qed

lemma settled_cases: "Quarantined \<le> d \<longleftrightarrow> d = Rejected \<or> d = Quarantined"
  by (cases d) auto

lemma applyAuthEnforcement_cases:
  "applyAuthEnforcement ev (d, r) = (d, r) \<or>
     (d = Delivered \<or> d = Tagged) \<and> fst (applyAuthEnforcement ev (d, r)) = Quarantined"
  by (cases d) (simp_all add: applyAuthEnforcement_def Let_def)

interpretation auth_stage: escalating_stage "applyAuthEnforcement ev" for ev
  by (rule escalatingI) (metis applyAuthEnforcement_cases prod.collapse)

interpretation reputation_stage: escalating_stage "applyReputationBlocklist ev" for ev
  by (rule escalatingI) (case_tac d; simp add: applyReputationBlocklist_def)

interpretation cached_stage: escalating_stage "\<lambda>v. fst (applyCachedThreatIntelligence feeds on ev v)" for feeds on ev
  by (rule escalatingI) (case_tac d; simp add: applyCachedThreatIntelligence_def split: option.split)

interpretation scam_stage: escalating_stage "applyCommonScamDetectionWithPolicy pol ev" for pol ev
  by (rule escalatingI) (case_tac d; simp add: applyCommonScamDetectionWithPolicy_def Let_def)

interpretation brand_stage: escalating_stage "applyBrandImpersonationDetectionWithProfiles action pol profiles ev"
  for action pol profiles ev
  by (rule escalatingI) (case_tac d; simp add: applyBrandImpersonationDetectionWithProfiles_def Let_def)

interpretation threat_stage: escalating_stage "applyThreatSignalDispositionWithPolicy pol ev" for pol ev
  by (rule escalatingI) (case_tac d; simp add: applyThreatSignalDispositionWithPolicy_def
      applyThreatSignalDispositionWithOptionsAndPolicy_def Let_def)

lemma content_stages_escalate: "escalating_stage (content_stages cx ev)"
  using escalating_comp [OF escalating_comp [OF
      scam_stage.escalating_stage_axioms [of "Some (cx_Policy cx)" ev]
      brand_stage.escalating_stage_axioms [of "cx_SenderAction cx" "Some (cx_Policy cx)" "cx_BrandProfiles cx" ev]]
      threat_stage.escalating_stage_axioms [of "Some (cx_Policy cx)" ev]]
  unfolding content_stages_def Let_def .

interpretation content: escalating_stage "content_stages cx ev" for cx ev
  by (rule content_stages_escalate)

subsection \<open>Held verdicts\<close>

text \<open>
  A verdict is held when the message is withheld for a reason that neither an allow list entry nor a
  learned \<open>not_spam\<close> overrides.
\<close>

definition held :: "verdict \<Rightarrow> bool" where
  "held v = (Quarantined \<le> fst v \<and> isHardGateReason (snd v))"

definition withheld :: "verdict \<Rightarrow> bool" where
  "withheld v = (Quarantined \<le> fst v \<and> isAllowlistOverrideBlockedReason (snd v))"

lemma hard_blocked: "isHardGateReason r \<Longrightarrow> isAllowlistOverrideBlockedReason r"
  by (auto simp: isHardGateReason_def isAllowlistOverrideBlockedReason_def)

lemma held_withheld: "held v \<Longrightarrow> withheld v"
  by (simp add: held_def withheld_def hard_blocked)

lemma hard_reason_facts [simp]:
  "isHardGateReason ''sender matched blacklist''" "isHardGateReason ''reputation blocklist hit''"
  "isHardGateReason reason_pending" "isHardGateReason ''sender authentication results missing''"
  "isHardGateReason ''sender failed DMARC reject policy''"
  "isHardGateReason ''sender failed DMARC quarantine policy''"
  "isHardGateReason ''sender failed SPF/DKIM/DMARC authentication''"
  "isHardGateReason ''malware signal hit''" "isHardGateReason ''score >= quarantine_threshold''"
  "isHardGateReason ''score >= reject_threshold''"
  by (simp_all add: isHardGateReason_def hard_reasons_def hard_reason_prefixes_def)

lemma cached_hit_hard: "isHardGateReason (''cached threat intelligence hit: '' @ s)"
  by (simp add: isHardGateReason_def hard_reasons_def hard_reason_prefixes_def)

lemmas cached_hit_hard_chars [simp] = cached_hit_hard [simplified]

lemma blocked_reason_facts [simp]:
  "isAllowlistOverrideBlockedReason ''user classified similar mail as spam''"
  "isAllowlistOverrideBlockedReason ''user classified similar mail as phishing''"
  "isAllowlistOverrideBlockedReason ''user classified similar mail as malware''"
  by (simp_all add: isAllowlistOverrideBlockedReason_def hard_reason_prefixes_def)

lemma escalating_held: "escalating_stage f \<Longrightarrow> held v \<Longrightarrow> f v = v"
  by (simp add: held_def escalating_stage.settled)

lemma held_SenderListAction: "held v \<Longrightarrow> held (applySenderListAction action on v)"
  by (auto simp: held_def applySenderListAction_def hard_blocked split: prod.splits)

lemma held_RspamdSenderBlocklist: "held v \<Longrightarrow> held (applyRspamdSenderBlocklist ev v)"
  by (simp add: held_def applyRspamdSenderBlocklist_def)

lemma held_ChallengeResponseHold: "held v \<Longrightarrow> held (applyChallengeResponseHoldEnabled pol action on ev v)"
  by (auto simp: held_def applyChallengeResponseHoldEnabled_def split: prod.splits)

lemma held_LearnedClassification: "held v \<Longrightarrow> withheld (applyLearnedClassification learned v)"
  by (auto simp: held_def withheld_def applyLearnedClassification_def Let_def hard_blocked settled_cases
      split: prod.splits)

lemma withheld_SenderListAction: "withheld v \<Longrightarrow> withheld (applySenderListAction action on v)"
  by (auto simp: withheld_def applySenderListAction_def hard_blocked split: prod.splits)

lemma QuarantineFirst_withheld: "Quarantined \<le> fst v \<Longrightarrow> Quarantined \<le> fst (applyQuarantineFirst ev v)"
  by (auto simp: applyQuarantineFirst_def split: prod.splits)

lemma late_stages_held:
  assumes "held v"
  shows "Quarantined \<le> fst (late_stages cx ev v)"
proof -
  let ?v2 = "applyChallengeResponseHoldEnabled (Some (cx_Policy cx)) (cx_SenderAction cx) (cx_ChallengeEnabled cx) ev
      (applySenderListAction (cx_SenderAction cx) (blacklist_on cx) v)"
  have "held ?v2"
    by (intro held_ChallengeResponseHold held_SenderListAction assms)
  then have "withheld (case cx_Learned cx of None \<Rightarrow> ?v2 | Some learned \<Rightarrow> applyLearnedClassification learned ?v2)"
    by (auto intro: held_withheld held_LearnedClassification split: option.split)
  from withheld_SenderListAction [OF this] show ?thesis
    unfolding late_stages_def Let_def by (intro QuarantineFirst_withheld) (simp add: withheld_def)
qed

lemma run_stages_fst:
  "fst (run_stages cx ev) =
     late_stages cx (snd (run_stages cx ev)) (content_stages cx (snd (run_stages cx ev))
       (fst (applyCachedThreatIntelligence (cx_Feeds cx) (cx_CachedEnforcement cx) ev (early_stages cx ev))))"
  "snd (run_stages cx ev) =
     snd (applyCachedThreatIntelligence (cx_Feeds cx) (cx_CachedEnforcement cx) ev (early_stages cx ev))"
  by (simp_all add: run_stages_def Let_def split: prod.splits)

lemma run_stages_held:
  assumes "held (early_stages cx ev)"
  shows "Quarantined \<le> fst (fst (run_stages cx ev))"
  unfolding run_stages_fst(1)
  using assms escalating_held [OF content_stages_escalate] escalating_held [OF cached_stage.escalating_stage_axioms]
  by (simp add: late_stages_held)

text \<open>What the stages after authentication keep of an early hold.\<close>

lemma early_stages_held:
  assumes "held (applyAuthEnforcement ev (applyDeliveryStatusNotificationDisposition ev (decide (Some (cx_Policy cx)) ev)))"
  shows "held (early_stages cx ev)"
  unfolding early_stages_def Let_def
  using held_RspamdSenderBlocklist [OF held_SenderListAction [OF assms]]
    escalating_held [OF reputation_stage.escalating_stage_axioms] by simp

lemma settled_before_auth:
  assumes "Quarantined \<le> fst (applyDeliveryStatusNotificationDisposition ev (decide (Some p) ev))"
  shows "held (applyDeliveryStatusNotificationDisposition ev (decide (Some p) ev))"
  using assms
  by (auto simp: held_def decide_def applyDeliveryStatusNotificationDisposition_def dispositionForPolicyAction_def
      Let_def split: if_splits)

definition unauthenticated :: "Event \<Rightarrow> bool" where
  "unauthenticated ev =
     (hasSymbol ev ''DMARC_POLICY_REJECT'' \<or> hasSymbol ev ''DMARC_POLICY_QUARANTINE'' \<or>
      \<not> (DMARCPass (authSignals ev) \<or> SPFPass (authSignals ev) \<or> DKIMPass (authSignals ev)))"

lemma auth_holds:
  assumes "\<not> equal_fold (ev_Direction ev) ''outbound''" "\<not> isDeliveryStatusNotification ev" "unauthenticated ev"
    and "Quarantined \<le> fst v \<Longrightarrow> held v"
  shows "held (applyAuthEnforcement ev v)"
proof -
  obtain d r where v: "v = (d, r)" by fastforce
  show ?thesis
    using assms unfolding v held_def unauthenticated_def
    by (cases d) (auto simp: applyAuthEnforcement_def Let_def)
qed

text \<open>No delivery without authentication: an inbound message that is not a delivery status
  notification and whose symbols show a DMARC reject or quarantine result, or no pass of SPF, DKIM or
  DMARC, is quarantined or rejected, whatever the policy, the sender lists, the challenge setting and
  the learned verdicts say.\<close>

theorem unauthenticated_withheld:
  assumes "\<not> equal_fold (ev_Direction ev) ''outbound''" "\<not> isDeliveryStatusNotification ev" "unauthenticated ev"
  shows "fst (fst (run_stages cx ev)) \<in> {Quarantined, Rejected}"
proof -
  have "Quarantined \<le> fst (fst (run_stages cx ev))"
    by (intro run_stages_held early_stages_held auth_holds assms settled_before_auth)
  then show ?thesis by (auto simp: settled_cases)
qed

lemma unauthenticated_withheld_witness:
  "\<exists>cx. fst (fst (run_stages cx (sample_event\<lparr>ev_Symbols := [(''R_SPF_FAIL'', JObj [])]\<rparr>))) \<in> {Quarantined, Rejected}
     \<and> cx_SenderAction cx = ''allow''"
proof -
  let ?ev = "sample_event\<lparr>ev_Symbols := [(''R_SPF_FAIL'', JObj [])]\<rparr>"
  have "fst (fst (run_stages cx ?ev)) \<in> {Quarantined, Rejected}" for cx
    by (rule unauthenticated_withheld)
       (simp_all add: sample_event_def equal_fold_def isDeliveryStatusNotification_def trim_defs Let_def
          looksLikeDSNSubject_def hasDeliveryStatusNotificationSymbol_def rawMessageLooksDSN_def
          unauthenticated_def authSignals_def hasSymbolContaining_def hasSymbol_def)
  then show ?thesis
    by (intro exI [of _ "\<lparr>cx_Policy = hardcodedDefault, cx_ChallengeEnabled = False, cx_SenderAction = ''allow'',
        cx_Feeds = None, cx_CachedEnforcement = False, cx_BrandProfiles = [], cx_Learned = None\<rparr>"]) simp
qed

subsection \<open>Blocked senders\<close>

lemma applyLearnedClassification_blacklist [simp]:
  "applyLearnedClassification m (Rejected, ''sender matched blacklist'') = (Rejected, ''sender matched blacklist'')"
  by (simp add: applyLearnedClassification_def Let_def)

lemma applyChallenge_rejected [simp]:
  "applyChallengeResponseHoldEnabled pol action on ev (Rejected, r) = (Rejected, r)"
  by (simp add: applyChallengeResponseHoldEnabled_def)

lemma applySenderListAction_blacklist [simp]:
  "applySenderListAction action on (Rejected, ''sender matched blacklist'') = (Rejected, ''sender matched blacklist'')"
  by (simp add: applySenderListAction_def)

text \<open>Blocked senders are rejected: a sender that the tenant's lists block, while the block list is
  enabled or challenge-response is on, or that Rspamd marked as blacklisted, is rejected as such; no
  other stage changes that.\<close>

theorem blocked_sender_rejected:
  assumes "cx_SenderAction cx = ''block'' \<and> blacklist_on cx \<or> hasSymbol ev ''SMG_SENDER_BLACKLIST''"
  shows "fst (run_stages cx ev) = (Rejected, ''sender matched blacklist'')"
proof -
  let ?b = "(Rejected, ''sender matched blacklist'')"
  have early: "early_stages cx ev = ?b"
    using assms
    by (auto simp: early_stages_def Let_def applyRspamdSenderBlocklist_def applyReputationBlocklist_def
        applySenderListAction_def split: prod.splits)
  have cached: "fst (applyCachedThreatIntelligence (cx_Feeds cx) (cx_CachedEnforcement cx) ev ?b) = ?b"
    by (rule cached_stage.settled) simp
  have content: "content_stages cx ev' ?b = ?b" for ev'
    by (rule content.settled) simp
  show ?thesis
    unfolding run_stages_fst(1) early cached content
    by (simp add: late_stages_def Let_def applyQuarantineFirst_def split: option.split)
qed

lemma blocked_sender_rejected_witness:
  "fst (run_stages \<lparr>cx_Policy = hardcodedDefault, cx_ChallengeEnabled = False, cx_SenderAction = ''block'',
      cx_Feeds = None, cx_CachedEnforcement = False, cx_BrandProfiles = [], cx_Learned = None\<rparr> sample_event)
    = (Rejected, ''sender matched blacklist'')"
  by (rule blocked_sender_rejected)
     (simp add: blacklist_on_def SenderBlacklistEnabled_def boolSetting_def setting_def hardcodedDefault_def)

text \<open>Quarantine first: an inbound message is only rejected when its sender is blocked; whatever else
  would reject it puts it in quarantine, where it can be reviewed.\<close>

theorem inbound_rejected_only_if_blocked:
  assumes "equal_fold (ev_Direction ev) ''inbound'' \<or> ev_Direction ev = []"
    and "fst (fst (run_stages cx ev)) = Rejected"
  shows "fst (run_stages cx ev) = (Rejected, ''sender matched blacklist'')"
proof -
  have dir: "ev_Direction (snd (run_stages cx ev)) = ev_Direction ev"
    unfolding run_stages_fst(2)
    by (simp add: applyCachedThreatIntelligence_def split: option.split prod.split)
  have first: "applyQuarantineFirst ev' v = (d, r) \<Longrightarrow> d = Rejected \<Longrightarrow> ev_Direction ev' = ev_Direction ev \<Longrightarrow>
      r = ''sender matched blacklist''" for ev' v d r
    using assms(1) by (auto simp: applyQuarantineFirst_def split: prod.splits if_splits)
  obtain d r where dr: "fst (run_stages cx ev) = (d, r)" by fastforce
  with assms(2) have d: "d = Rejected" by simp
  have "r = ''sender matched blacklist''"
    using dr unfolding run_stages_fst(1) late_stages_def Let_def by (rule first) (rule d, rule dir)
  with dr d show ?thesis by simp
qed

lemma inbound_rejected_only_if_blocked_witness:
  "snd (fst (run_stages \<lparr>cx_Policy = hardcodedDefault, cx_ChallengeEnabled = False, cx_SenderAction = [],
      cx_Feeds = None, cx_CachedEnforcement = False, cx_BrandProfiles = [], cx_Learned = None\<rparr>
      (sample_event\<lparr>ev_Symbols := [(''SMG_SENDER_BLACKLIST'', JObj [])]\<rparr>))) = ''sender matched blacklist''"
proof -
  let ?cx = "\<lparr>cx_Policy = hardcodedDefault, cx_ChallengeEnabled = False, cx_SenderAction = [],
      cx_Feeds = None, cx_CachedEnforcement = False, cx_BrandProfiles = [], cx_Learned = None\<rparr>"
  let ?ev = "sample_event\<lparr>ev_Symbols := [(''SMG_SENDER_BLACKLIST'', JObj [])]\<rparr>"
  have b: "applyRspamdSenderBlocklist ?ev v = (Rejected, ''sender matched blacklist'')" for v
    by (simp add: applyRspamdSenderBlocklist_def hasSymbol_def sample_event_def)
  have "fst (fst (run_stages ?cx ?ev)) = Rejected"
    unfolding run_stages_fst(1)
    by (simp add: early_stages_def b Let_def applyReputationBlocklist_def cached_stage.settled content.settled
        applyCachedThreatIntelligence_def late_stages_def applyQuarantineFirst_def)
  from inbound_rejected_only_if_blocked [OF _ this] show ?thesis
    by (simp add: sample_event_def)
qed

subsection \<open>Threat intelligence and feedback\<close>

lemma early_settled_held:
  assumes "Quarantined \<le> fst (early_stages cx ev)"
  shows "held (early_stages cx ev)"
proof -
  let ?v2 = "applyDeliveryStatusNotificationDisposition ev (decide (Some (cx_Policy cx)) ev)"
  have auth: "held (applyAuthEnforcement ev ?v2)" if "Quarantined \<le> fst (applyAuthEnforcement ev ?v2)"
  proof (cases "Quarantined \<le> fst ?v2")
    case True
    then show ?thesis by (simp add: settled_before_auth auth_stage.settled)
  next
    case False
    obtain d r where v: "?v2 = (d, r)" by fastforce
    show ?thesis
      using that False unfolding v held_def by (auto simp: applyAuthEnforcement_def Let_def split: if_splits)
  qed
  have list: "held (applySenderListAction action on v)"
    if "Quarantined \<le> fst (applySenderListAction action on v)" "Quarantined \<le> fst v \<Longrightarrow> held v" for action on v
    using that by (auto simp: applySenderListAction_def held_def split: prod.splits if_splits)
  have rspamd: "held (applyRspamdSenderBlocklist ev v)"
    if "Quarantined \<le> fst (applyRspamdSenderBlocklist ev v)" "Quarantined \<le> fst v \<Longrightarrow> held v" for v
    using that by (auto simp: applyRspamdSenderBlocklist_def held_def split: if_splits)
  have rep: "held (applyReputationBlocklist ev v)"
    if "Quarantined \<le> fst (applyReputationBlocklist ev v)" "Quarantined \<le> fst v \<Longrightarrow> held v" for v
    using that by (auto simp: applyReputationBlocklist_def held_def settled_cases split: prod.splits if_splits)
  show ?thesis
    using assms unfolding early_stages_def Let_def
    by (rule rep) (erule rspamd, erule list, erule auth)
qed

text \<open>C27 (a cached threat feed hit is enforced): when enforcement is on and one of the message's values has
  a cached hit, the message is quarantined or rejected, whatever the sender lists and the learned
  verdicts say.\<close>

theorem cached_threat_withheld:
  assumes "cx_Feeds cx = Some cached" "cx_CachedEnforcement cx"
    and "first_cached_hit cached (threatCandidates ev) = Some r"
  shows "fst (fst (run_stages cx ev)) \<in> {Quarantined, Rejected}"
proof -
  let ?v = "fst (applyCachedThreatIntelligence (cx_Feeds cx) (cx_CachedEnforcement cx) ev (early_stages cx ev))"
  have "held ?v"
  proof (cases "Quarantined \<le> fst (early_stages cx ev)")
    case True
    then show ?thesis
      by (simp add: cached_stage.settled early_settled_held)
  next
    case False
    then show ?thesis
      using assms by (auto simp: applyCachedThreatIntelligence_def held_def settled_cases split: prod.splits)
  qed
  then have "held (content_stages cx ev' ?v)" for ev'
    using escalating_held [OF content_stages_escalate] by simp
  then have "Quarantined \<le> fst (fst (run_stages cx ev))"
    unfolding run_stages_fst(1) by (rule late_stages_held)
  then show ?thesis by (auto simp: settled_cases)
qed

lemma list_action_allow_blocked:
  "fst (applySenderListAction ''allow'' on v) = Quarantined \<Longrightarrow>
     isAllowlistOverrideBlockedReason (snd (applySenderListAction ''allow'' on v))"
  by (auto simp: applySenderListAction_def split: prod.splits if_splits)

text \<open>Nothing releases a message whose verdict is withheld when the sender is not on an allow list.\<close>

lemma list_action_keeps:
  "action \<noteq> ''allow'' \<Longrightarrow> Quarantined \<le> fst v \<Longrightarrow> Quarantined \<le> fst (applySenderListAction action on v)"
  by (auto simp: applySenderListAction_def split: prod.splits)

lemma list_action_rejected: "fst v = Rejected \<Longrightarrow> fst (applySenderListAction action on v) = Rejected"
  by (auto simp: applySenderListAction_def split: prod.splits)

lemma challenge_allow_blocked:
  assumes "fst (applyChallengeResponseHoldEnabled pol ''allow'' on' ev (applySenderListAction ''allow'' on v)) = Quarantined"
  shows "isAllowlistOverrideBlockedReason (snd (applyChallengeResponseHoldEnabled pol ''allow'' on' ev
           (applySenderListAction ''allow'' on v)))"
proof -
  obtain d r where w: "applySenderListAction ''allow'' on v = (d, r)" by fastforce
  then have "d = Quarantined \<Longrightarrow> isAllowlistOverrideBlockedReason r"
    using list_action_allow_blocked [of on v] by simp
  then show ?thesis
    using assms unfolding w by (auto simp: applyChallengeResponseHoldEnabled_def hard_blocked split: if_splits)
qed

lemma learned_threat_withholds:
  assumes "threat_verdict (m_Verdict m)" "fst v = Quarantined \<Longrightarrow> action = ''allow'' \<Longrightarrow> isAllowlistOverrideBlockedReason (snd v)"
  shows "Quarantined \<le> fst (applySenderListAction action on (applyLearnedClassification m v))"
proof -
  obtain d r where v: "v = (d, r)" by fastforce
  show ?thesis
    using assms unfolding v
    by (cases d) (auto simp: applyLearnedClassification_def applySenderListAction_def threat_verdict_def
        Let_def settled_cases)
qed

text \<open>A learned threat is never delivered: when the recipient's feedback classifies similar mail as spam,
  phishing or malware, the message is quarantined or rejected, also when its sender is on an allow
  list.\<close>

theorem learned_threat_withheld:
  assumes "cx_Learned cx = Some m" "threat_verdict (m_Verdict m)"
  shows "fst (fst (run_stages cx ev)) \<in> {Quarantined, Rejected}"
proof -
  let ?ev = "snd (run_stages cx ev)"
  obtain v where v: "fst (run_stages cx ev) = late_stages cx ?ev v"
    using run_stages_fst(1) by blast
  have "Quarantined \<le> fst (late_stages cx ?ev v)"
    unfolding late_stages_def Let_def assms(1) option.case
    by (intro QuarantineFirst_withheld learned_threat_withholds assms(2)) (auto intro: challenge_allow_blocked)
  with v show ?thesis by (auto simp: settled_cases)
qed

lemma learned_threat_withheld_witness:
  "fst (fst (run_stages \<lparr>cx_Policy = hardcodedDefault, cx_ChallengeEnabled = False, cx_SenderAction = ''allow'',
      cx_Feeds = None, cx_CachedEnforcement = False, cx_BrandProfiles = [],
      cx_Learned = Some \<lparr>m_Verdict = ''spam'', m_SampleCount = 1\<rparr>\<rparr> sample_event)) \<in> {Quarantined, Rejected}"
  by (rule learned_threat_withheld [where m = "\<lparr>m_Verdict = ''spam'', m_SampleCount = 1\<rparr>"])
     (simp_all add: threat_verdict_def)

lemma cached_threat_withheld_witness:
  "fst (fst (run_stages \<lparr>cx_Policy = hardcodedDefault, cx_ChallengeEnabled = False, cx_SenderAction = ''allow'',
      cx_Feeds = Some (\<lambda>_ _. Some \<lparr>Hit = True, Source = ''urlhaus'', Responses = []\<rparr>), cx_CachedEnforcement = True,
      cx_BrandProfiles = [], cx_Learned = None\<rparr> sample_event)) \<in> {Quarantined, Rejected}"
proof -
  have "threatCandidates sample_event = [(KindDomain, ''b.io'')]"
    by (simp add: threatCandidates_def sample_event_def add_candidate_def emailDomain_def trim_defs)
  then show ?thesis
    by (intro cached_threat_withheld [where r = "\<lparr>Hit = True, Source = ''urlhaus'', Responses = []\<rparr>" and
          cached = "\<lambda>_ _. Some \<lparr>Hit = True, Source = ''urlhaus'', Responses = []\<rparr>"]) simp_all
qed

subsection \<open>Two surprises\<close>

lemma detected_not_blocked: "\<not> isAllowlistOverrideBlockedReason (''detected '' @ s)"
  by (simp add: isAllowlistOverrideBlockedReason_def hard_reason_prefixes_def hard_reasons_def reason_pending_def)

text \<open>Wording hides a virus from the allow list's limit: the reason \<open>malware signal hit\<close> is one that an
  allow list entry does not override. When the same message also matches a common scam text, that
  stage comes first and its reason is overridden: the message is delivered. The witness carries a
  positive antivirus symbol.\<close>

theorem allowlist_releases_detected_scam:
  assumes "cx_SenderAction cx = ''allow''" "\<not> cx_ChallengeEnabled cx" "cx_Learned cx = None"
    and "applyCommonScamDetectionWithPolicy (Some (cx_Policy cx)) (snd (run_stages cx ev))
           (fst (applyCachedThreatIntelligence (cx_Feeds cx) (cx_CachedEnforcement cx) ev (early_stages cx ev)))
         = (Quarantined, ''detected '' @ s)"
  shows "fst (run_stages cx ev) = (Delivered, ''sender matched allowlist'')"
proof -
  let ?q = "(Quarantined, ''detected '' @ s)"
  have content: "content_stages cx (snd (run_stages cx ev))
      (fst (applyCachedThreatIntelligence (cx_Feeds cx) (cx_CachedEnforcement cx) ev (early_stages cx ev))) = ?q"
    unfolding content_stages_def Let_def assms(4) by (simp add: brand_stage.settled threat_stage.settled)
  have allow: "applySenderListAction ''allow'' on ?q = (Delivered, ''sender matched allowlist'')" for on
    using detected_not_blocked [of s] unfolding applySenderListAction_def Let_def by simp
  show ?thesis
    unfolding run_stages_fst(1) content late_stages_def Let_def assms(1,3) allow
    using assms(2) by (simp add: applyChallengeResponseHoldEnabled_def applySenderListAction_def applyQuarantineFirst_def)
qed

definition infected_event :: Event where
  "infected_event = sample_event\<lparr>ev_BodyText := ''x.exe'',
     ev_Symbols := [(''R_SPF_ALLOW'', JObj []), (''CLAM_VIRUS'', JObj [(''score'', JNum 20)])]\<rparr>"

definition trusting_context :: ingest_context where
  "trusting_context = \<lparr>cx_Policy = hardcodedDefault, cx_ChallengeEnabled = False, cx_SenderAction = ''allow'',
     cx_Feeds = None, cx_CachedEnforcement = False, cx_BrandProfiles = [], cx_Learned = None\<rparr>"

lemma infected_scam: "EmailType (AnalyzeCommonScam [] ''x.exe'') = ''Malware lure''"
  by (simp add: AnalyzeCommonScam_def normalizeSuspiciousText_def homoglyphs_def locked_word_def warn_def
      healthLeadGenerationSpam_def)

lemma infected_early: "early_stages trusting_context infected_event = (Delivered, [])"
  by (simp add: early_stages_def trusting_context_def infected_event_def sample_event_def hardcodedDefault_def
      decide_def applyDeliveryStatusNotificationDisposition_def isDeliveryStatusNotification_def equal_fold_def
      looksLikeDSNSubject_def hasDeliveryStatusNotificationSymbol_def rawMessageLooksDSN_def trim_defs
      applyAuthEnforcement_def hasAuthSignal_def hasSymbol_def authSignals_def hasSymbolContaining_def
      hasAnySymbol_def applySenderListAction_def applyRspamdSenderBlocklist_def applyReputationBlocklist_def
      hasReputationBlocklistHit_def hasReputationAllowlistHit_def isReputationLookupFailureSymbol_def
      isReputationAllowSymbol_def reputation_listing_def isReputationBlockSymbol_def has_suffix_code Let_def)

lemma infected_virus: "classifyThreat infected_event = ''VIRUS''"
  by (simp add: classifyThreat_def classifyThreatWithBrandOptions_def classifyThreatWithOptions_def
      classifyThreatWithProfiles_def infected_event_def sample_event_def symbolScore_def json_field_def
      reputation_listing_def isReputationBlockSymbol_def isReputationLookupFailureSymbol_def has_suffix_code Let_def)

lemma allowlist_releases_detected_scam_witness:
  "classifyThreat infected_event = ''VIRUS'' \<and>
   fst (run_stages trusting_context infected_event) = (Delivered, ''sender matched allowlist'')"
proof -
  have ev: "snd (run_stages trusting_context infected_event) = infected_event"
    unfolding run_stages_fst(2) by (simp add: applyCachedThreatIntelligence_def trusting_context_def split: prod.split)
  have cached: "fst (applyCachedThreatIntelligence (cx_Feeds trusting_context) (cx_CachedEnforcement trusting_context)
      infected_event (Delivered, [])) = (Delivered, [])"
    by (simp add: applyCachedThreatIntelligence_def trusting_context_def)
  have "applyCommonScamDetectionWithPolicy (Some (cx_Policy trusting_context)) infected_event (Delivered, [])
      = (Quarantined, ''detected '' @ ''malware lure'')"
    by (simp add: applyCommonScamDetectionWithPolicy_def infected_event_def sample_event_def infected_scam
        commonScamDetectionAllows_def commonScamCategorySlug_def trusting_context_def CommonScamDetectionEnabled_def
        CommonScamCategoryEnabled_def boolSetting_def setting_def hardcodedDefault_def phishing_types_def Let_def)
  then have "fst (run_stages trusting_context infected_event) = (Delivered, ''sender matched allowlist'')"
    by (intro allowlist_releases_detected_scam [where s = "''malware lure''"])
       (simp_all only: ev infected_early cached, simp_all add: trusting_context_def)
  with infected_virus show ?thesis by simp
qed

text \<open>The threat label depends on map order: two events that differ only in the order of their symbols
  can get different labels, and with them different dispositions. Go iterates over a map in an
  unspecified order, so the same message is tagged on one run and quarantined on another.\<close>

theorem threat_label_depends_on_order:
  "\<exists>ev ev'. same_but_order ev ev' \<and>
     applyThreatSignalDispositionWithPolicy None ev (Delivered, []) = (Tagged, ''phishing signal hit'') \<and>
     applyThreatSignalDispositionWithPolicy None ev' (Delivered, []) = (Quarantined, ''malware signal hit'')"
proof -
  let ?p = "(''R_PHISH'', JObj [(''score'', JNum 5)])"
  let ?v = "(''CLAM_VIRUS'', JObj [(''score'', JNum 20)])"
  let ?ev = "sample_event\<lparr>ev_Symbols := [?p, ?v]\<rparr>"
  let ?ev' = "sample_event\<lparr>ev_Symbols := [?v, ?p]\<rparr>"
  note defs = applyThreatSignalDispositionWithPolicy_def applyThreatSignalDispositionWithOptionsAndPolicy_def
    classifyThreatWithOptions_def classifyThreatWithProfiles_def sample_event_def symbolScore_def json_field_def
    isAuthenticatedProtectedBrandSenderWithProfiles_def authSignals_def hasSymbolContaining_def Let_def
  have "same_but_order ?ev ?ev'"
    by (simp add: same_but_order_def sample_event_def add_mset_commute)
  moreover have "applyThreatSignalDispositionWithPolicy None ?ev (Delivered, []) = (Tagged, ''phishing signal hit'')"
    by (simp add: defs)
  moreover have "applyThreatSignalDispositionWithPolicy None ?ev' (Delivered, []) = (Quarantined, ''malware signal hit'')"
    by (simp add: defs)
  ultimately show ?thesis by blast
qed

end
