(* ===== verification/Campaign.thy ===== *)
theory Campaign
  imports MailStages Upsert GoCodec GoNet
begin

text \<open>
  Campaign grouping of \<open>internal/mail/campaign.go\<close>: the fingerprint of a message, the daily campaign
  row and its source addresses. SHA-256 is the parameter \<open>sha256\<close>, the cast of a text to
  PostgreSQL's \<open>inet\<close> the parameter \<open>inet\<close> (\<open>None\<close> is the cast's error).
\<close>

section \<open>The fingerprint\<close>

definition campaign_char :: "char \<Rightarrow> char" where
  "campaign_char r =
     (if is_letter r then r
      else if is_digit r then CHR ''#''
      else if r = CHR ''@'' \<or> r = CHR ''.'' \<or> r = CHR ''-'' \<or> r = CHR ''_'' then r
      else CHR '' '')"

text \<open>The inner loop over the characters of a field: the text built so far, the characters counted so
  far, and whether the limit made the function return.\<close>

fun campaign_field :: "nat \<Rightarrow> string \<Rightarrow> nat \<Rightarrow> string \<Rightarrow> string \<times> nat \<times> bool" where
  "campaign_field maxRunes b runes [] = (b, runes, False)"
| "campaign_field maxRunes b runes (r # rs) =
     (if runes \<ge> maxRunes then (b, runes, True)
      else campaign_field maxRunes (b @ [campaign_char r]) (runes + 1) rs)"

definition link_field :: "string \<Rightarrow> bool" where
  "link_field field =
     (has_prefix field ''http://'' \<or> has_prefix field ''https://'' \<or> has_prefix field ''www.'')"

fun campaign_fields :: "nat \<Rightarrow> string \<Rightarrow> nat \<Rightarrow> string list \<Rightarrow> string" where
  "campaign_fields maxRunes b runes [] = join (str_fields b) '' ''"
| "campaign_fields maxRunes b runes (field # rest) =
     (let field' = (if link_field field then ''<url>'' else field);
          (b', runes', full) = campaign_field maxRunes b runes field'
      in if full then trim_space b' else campaign_fields maxRunes (b' @ '' '') runes' rest)"

definition normalizeCampaignText :: "string \<Rightarrow> nat \<Rightarrow> string" where
  "normalizeCampaignText value maxRunes = campaign_fields maxRunes [] 0 (str_fields (to_lower value))"

record campaign_key =
  ck_Fingerprint :: string
  ck_SenderKey :: string
  ck_RecipientKey :: string
  ck_SubjectKey :: string
  ck_ContentHash :: string

definition campaignFingerprint :: "(string \<Rightarrow> string) \<Rightarrow> Event \<Rightarrow> campaign_key" where
  "campaignFingerprint sha256 ev =
     (let from' = to_lower (trim_space (ev_From ev));
          senderKey = from' @ ''|'' @ emailDomain from';
          recipientKey = (case ev_To ev of [] \<Rightarrow> [] | to # _ \<Rightarrow> to_lower (trim_space to));
          subjectKey = normalizeCampaignText (ev_Subject ev) 512;
          contentHash = hex_encode (sha256 (normalizeCampaignText (ev_BodyText ev) 8192))
      in \<lparr>ck_Fingerprint = hex_encode (sha256 (join [senderKey, recipientKey, subjectKey, contentHash] [CHR 0x00])),
          ck_SenderKey = senderKey, ck_RecipientKey = recipientKey, ck_SubjectKey = subjectKey,
          ck_ContentHash = contentHash\<rparr>)"

definition validCampaignIP :: "string \<Rightarrow> bool" where
  "validCampaignIP value =
     (let value = trim_space value
      in if value = [] then False
         else if parse_addr value \<noteq> None then True
         else parse_prefix value \<noteq> None)"

definition highConfidenceCampaign :: "disposition \<Rightarrow> string \<Rightarrow> string \<Rightarrow> bool" where
  "highConfidenceCampaign d reason threatClass =
     (if d \<noteq> Quarantined \<or> threatClass = ''CHALLENGE_RESPONSE'' then False
      else
        (let reason = to_lower reason
         in if contains reason ''failed spf/dkim/dmarc'' \<or> contains reason ''authentication unavailable''
            then False else True))"

section \<open>The campaign row\<close>

record campaign =
  cp_ID :: uuid
  cp_OrganizationID :: uuid
  cp_DomainID :: "uuid option"
  cp_Fingerprint :: string
  cp_BucketDate :: nat
  cp_SenderKey :: string
  cp_RecipientKey :: string
  cp_NormalizedSubject :: string
  cp_ContentHash :: string
  cp_ThreatClass :: "string option"
  cp_LatestDisposition :: disposition
  cp_MessageCount :: nat
  cp_UniqueSourceIPs :: nat
  cp_SuppressedCount :: nat
  cp_FirstSeen :: nat
  cp_LastSeen :: nat
  cp_LastAlertAt :: "nat option"
  cp_RepresentativeMailLogID :: "uuid option"
  cp_RepresentativeQuarantineID :: "uuid option"
  cp_UpdatedAt :: nat

record campaign_source =
  cs_CampaignID :: uuid
  cs_ClientIP :: string
  cs_LastSeen :: nat
  cs_HitCount :: nat

record campaignRecord =
  cr_ID :: uuid
  cr_MessageCount :: nat
  cr_UniqueSourceIPs :: nat
  cr_Fingerprint :: string
  cr_HasRepresentative :: bool

definition no_campaign :: campaignRecord where
  "no_campaign = \<lparr>cr_ID = 0, cr_MessageCount = 0, cr_UniqueSourceIPs = 0, cr_Fingerprint = [],
     cr_HasRepresentative = False\<rparr>"

definition campaign_row_key :: "campaign \<Rightarrow> uuid \<times> string \<times> nat" where
  "campaign_row_key c = (cp_OrganizationID c, cp_Fingerprint c, cp_BucketDate c)"

text \<open>The dates of buckets are days since the epoch, times are seconds.\<close>

definition bucket_date :: "nat \<Rightarrow> nat" where
  "bucket_date now = now div 86400"

definition new_campaign ::
  "(string \<Rightarrow> string) \<Rightarrow> uuid \<Rightarrow> nat \<Rightarrow> uuid \<Rightarrow> uuid option \<Rightarrow> disposition \<Rightarrow> string \<Rightarrow> Event \<Rightarrow> campaign" where
  "new_campaign sha256 new_id now orgID domainID d threatClass ev =
     (let k = campaignFingerprint sha256 ev
      in \<lparr>cp_ID = new_id, cp_OrganizationID = orgID, cp_DomainID = domainID,
          cp_Fingerprint = ck_Fingerprint k, cp_BucketDate = bucket_date now,
          cp_SenderKey = ck_SenderKey k, cp_RecipientKey = ck_RecipientKey k,
          cp_NormalizedSubject = ck_SubjectKey k, cp_ContentHash = ck_ContentHash k,
          cp_ThreatClass = (if threatClass = [] then None else Some threatClass),
          cp_LatestDisposition = d, cp_MessageCount = 1, cp_UniqueSourceIPs = 0, cp_SuppressedCount = 0,
          cp_FirstSeen = now, cp_LastSeen = now, cp_LastAlertAt = None,
          cp_RepresentativeMailLogID = None, cp_RepresentativeQuarantineID = None, cp_UpdatedAt = now\<rparr>)"

definition merge_campaign :: "campaign \<Rightarrow> campaign \<Rightarrow> campaign" where
  "merge_campaign old new = old\<lparr>
     cp_DomainID := (case cp_DomainID old of None \<Rightarrow> cp_DomainID new | d \<Rightarrow> d),
     cp_ThreatClass := (case cp_ThreatClass new of None \<Rightarrow> cp_ThreatClass old | t \<Rightarrow> t),
     cp_LatestDisposition := cp_LatestDisposition new,
     cp_MessageCount := cp_MessageCount old + 1,
     cp_LastSeen := cp_LastSeen new,
     cp_UpdatedAt := cp_UpdatedAt new\<rparr>"

definition source_key :: "campaign_source \<Rightarrow> uuid \<times> string" where
  "source_key s = (cs_CampaignID s, cs_ClientIP s)"

definition merge_source :: "campaign_source \<Rightarrow> campaign_source \<Rightarrow> campaign_source" where
  "merge_source old new = old\<lparr>cs_LastSeen := cs_LastSeen new, cs_HitCount := cs_HitCount old + 1\<rparr>"

definition source_count :: "campaign_source list \<Rightarrow> uuid \<Rightarrow> nat" where
  "source_count sources i = length (filter (\<lambda>s. cs_CampaignID s = i) sources)"

type_synonym campaign_tables = "campaign list \<times> campaign_source list"

text \<open>The two statements for the address of a message, after its campaign row is written.\<close>

definition record_source ::
  "faults \<Rightarrow> (string \<Rightarrow> string option) \<Rightarrow> nat \<Rightarrow> string \<Rightarrow> campaignRecord \<Rightarrow> campaign_tables \<Rightarrow>
     campaignRecord result \<times> campaign_tables" where
  "record_source err inet now clientIP rec tables =
     (let (camps, sources) = tables
      in case (if err ''insert mail_campaign_sources'' then None else inet clientIP) of
           None \<Rightarrow> (Inl ''campaign source'', tables)
         | Some ip \<Rightarrow>
             (let sources' = upsert_row source_key merge_source
                    \<lparr>cs_CampaignID = cr_ID rec, cs_ClientIP = ip, cs_LastSeen = now, cs_HitCount = 1\<rparr> sources
              in if err ''update mail_campaigns sources'' then (Inl ''campaign sources'', (camps, sources'))
                 else
                   (let n = source_count sources' (cr_ID rec)
                    in (Inr (rec\<lparr>cr_UniqueSourceIPs := n\<rparr>),
                        (update_where (\<lambda>c. cp_ID c = cr_ID rec) (\<lambda>c. c\<lparr>cp_UniqueSourceIPs := n, cp_UpdatedAt := now\<rparr>) camps,
                         sources')))))"

definition recordCampaign ::
  "faults \<Rightarrow> (string \<Rightarrow> string) \<Rightarrow> (string \<Rightarrow> string option) \<Rightarrow> uuid \<Rightarrow> nat \<Rightarrow> uuid option \<Rightarrow> uuid option \<Rightarrow>
     disposition \<Rightarrow> string \<Rightarrow> Event \<Rightarrow> campaign_tables \<Rightarrow> campaignRecord result \<times> campaign_tables" where
  "recordCampaign err sha256 inet new_id now orgID domainID d threatClass ev tables =
     (case orgID of
        None \<Rightarrow> (Inr no_campaign, tables)
      | Some org \<Rightarrow>
          if err ''upsert mail_campaigns'' then (Inl ''campaign'', tables)
          else
            (let (camps, sources) = tables;
                 new = new_campaign sha256 new_id now org domainID d threatClass ev;
                 camps' = upsert_row campaign_row_key merge_campaign new camps
             in case row_of campaign_row_key (campaign_row_key new) camps' of
                  None \<Rightarrow> (Inl ''campaign'', tables)
                | Some c \<Rightarrow>
                    (let rec = \<lparr>cr_ID = cp_ID c, cr_MessageCount = cp_MessageCount c,
                           cr_UniqueSourceIPs = cp_UniqueSourceIPs c, cr_Fingerprint = cp_Fingerprint c,
                           cr_HasRepresentative = (cp_RepresentativeQuarantineID c \<noteq> None)\<rparr>
                     in if validCampaignIP (ev_ClientIP ev)
                        then record_source err inet now (ev_ClientIP ev) rec (camps', sources)
                        else (Inr rec, (camps', sources)))))"

section \<open>What the fingerprint ignores\<close>

definition mask_digit :: "char \<Rightarrow> char" where
  "mask_digit c = (if is_digit c then CHR ''0'' else c)"

text \<open>Two fields that differ in their digits only, or are both links.\<close>

definition same_field :: "string \<Rightarrow> string \<Rightarrow> bool" where
  "same_field f g = (link_field f \<and> link_field g \<or> map mask_digit f = map mask_digit g)"

definition same_text :: "string \<Rightarrow> string \<Rightarrow> bool" where
  "same_text s t = list_all2 same_field (str_fields (to_lower s)) (str_fields (to_lower t))"

lemma has_prefix_mask: "list_all (\<lambda>c. \<not> is_digit c) p \<Longrightarrow> has_prefix (map mask_digit s) p = has_prefix s p"
proof (induction p arbitrary: s)
  case (Cons c p)
  then show ?case by (cases s) (auto simp: mask_digit_def)
qed simp

lemma link_field_mask: "link_field (map mask_digit s) = link_field s"
  by (simp add: link_field_def has_prefix_mask del: has_prefix_code)

lemma digit_not_letter: "is_digit c \<Longrightarrow> \<not> is_letter c"
  by (auto simp: char_class_defs)

lemma campaign_char_mask: "mask_digit c = mask_digit d \<Longrightarrow> campaign_char c = campaign_char d"
proof (cases "is_digit c")
  case True
  moreover assume "mask_digit c = mask_digit d"
  ultimately have "is_digit d" by (cases "is_digit d") (auto simp: mask_digit_def)
  with True show ?thesis by (simp add: campaign_char_def digit_not_letter)
next
  case False
  moreover assume "mask_digit c = mask_digit d"
  ultimately have "d = c" by (cases "is_digit d") (auto simp: mask_digit_def)
  then show ?thesis by simp
qed

lemma campaign_field_mask:
  "map mask_digit f = map mask_digit g \<Longrightarrow> campaign_field n b k f = campaign_field n b k g"
proof (induction n b k f arbitrary: g rule: campaign_field.induct)
  case (2 n b k r rs)
  then obtain d ds where g: "g = d # ds" "mask_digit r = mask_digit d" "map mask_digit rs = map mask_digit ds"
    by (cases g) auto
  with 2 campaign_char_mask [of r d] show ?case by simp
qed simp

lemma campaign_fields_same:
  "list_all2 same_field fs gs \<Longrightarrow> campaign_fields n b k fs = campaign_fields n b k gs"
proof (induction n b k fs arbitrary: gs rule: campaign_fields.induct)
  case (2 n b k f fs)
  then obtain g gs' where gs: "gs = g # gs'" "same_field f g" "list_all2 same_field fs gs'"
    by (cases gs) auto
  have "link_field f = link_field g \<and> (\<not> link_field f \<longrightarrow> campaign_field n b k f = campaign_field n b k g)"
    using gs(2) campaign_field_mask [of f g n b k] link_field_mask [of f] link_field_mask [of g]
    by (auto simp: same_field_def)
  with 2 gs show ?case by (auto simp: Let_def split: prod.splits)
qed simp

lemma normalizeCampaignText_same: "same_text s t \<Longrightarrow> normalizeCampaignText s n = normalizeCampaignText t n"
  by (simp add: same_text_def normalizeCampaignText_def campaign_fields_same)

section \<open>What the rows count\<close>

interpretation campaigns: keyed_table campaign_row_key merge_campaign
  by unfold_locales (simp add: campaign_row_key_def merge_campaign_def split: option.splits)

interpretation sources: keyed_table source_key merge_source
  by unfold_locales (simp add: source_key_def merge_source_def)

text \<open>One call of \<open>recordCampaign\<close> for mail of a known organization, with the id the database draws.\<close>

record campaign_request =
  rq_NewID :: uuid
  rq_Now :: nat
  rq_OrganizationID :: uuid
  rq_DomainID :: "uuid option"
  rq_Disposition :: disposition
  rq_ThreatClass :: string
  rq_Event :: Event

definition record_request ::
  "(string \<Rightarrow> string) \<Rightarrow> (string \<Rightarrow> string option) \<Rightarrow> campaign_request \<Rightarrow> campaign_tables \<Rightarrow> campaign_tables" where
  "record_request sha256 inet r tables =
     snd (recordCampaign no_faults sha256 inet (rq_NewID r) (rq_Now r) (Some (rq_OrganizationID r)) (rq_DomainID r)
            (rq_Disposition r) (rq_ThreatClass r) (rq_Event r) tables)"

definition request_key :: "(string \<Rightarrow> string) \<Rightarrow> campaign_request \<Rightarrow> uuid \<times> string \<times> nat" where
  "request_key sha256 r = (rq_OrganizationID r, ck_Fingerprint (campaignFingerprint sha256 (rq_Event r)), bucket_date (rq_Now r))"

definition request_ip :: "(string \<Rightarrow> string option) \<Rightarrow> campaign_request \<Rightarrow> string option" where
  "request_ip inet r = (if validCampaignIP (ev_ClientIP (rq_Event r)) then inet (ev_ClientIP (rq_Event r)) else None)"

text \<open>The address of a request is not one that PostgreSQL refuses.\<close>

definition storable_ip :: "(string \<Rightarrow> string option) \<Rightarrow> campaign_request \<Rightarrow> bool" where
  "storable_ip inet r = (validCampaignIP (ev_ClientIP (rq_Event r)) \<longrightarrow> inet (ev_ClientIP (rq_Event r)) \<noteq> None)"

definition same_campaign :: "(string \<Rightarrow> string) \<Rightarrow> uuid \<times> string \<times> nat \<Rightarrow> campaign_request list \<Rightarrow> campaign_request list" where
  "same_campaign sha256 k reqs = filter (\<lambda>r. request_key sha256 r = k) reqs"

definition request_ips ::
  "(string \<Rightarrow> string) \<Rightarrow> (string \<Rightarrow> string option) \<Rightarrow> uuid \<times> string \<times> nat \<Rightarrow> campaign_request list \<Rightarrow> string set" where
  "request_ips sha256 inet k reqs = {ip. \<exists>r \<in> set (same_campaign sha256 k reqs). request_ip inet r = Some ip}"

definition campaign_ips :: "campaign_source list \<Rightarrow> uuid \<Rightarrow> string set" where
  "campaign_ips sources i = {ip. (i, ip) \<in> source_key ` set sources}"

definition counted ::
  "(string \<Rightarrow> string) \<Rightarrow> (string \<Rightarrow> string option) \<Rightarrow> campaign_request list \<Rightarrow> campaign_tables \<Rightarrow> bool" where
  "counted sha256 inet reqs tables =
     (let (camps, sources) = tables
      in distinct (map campaign_row_key camps) \<and> distinct (map cp_ID camps) \<and>
         cp_ID ` set camps \<subseteq> rq_NewID ` set reqs \<and>
         campaign_row_key ` set camps = request_key sha256 ` set reqs \<and>
         distinct (map source_key sources) \<and> cs_CampaignID ` set sources \<subseteq> cp_ID ` set camps \<and>
         (\<forall>c \<in> set camps.
            cp_MessageCount c = length (same_campaign sha256 (campaign_row_key c) reqs) \<and>
            campaign_ips sources (cp_ID c) = request_ips sha256 inet (campaign_row_key c) reqs \<and>
            cp_UniqueSourceIPs c = card (campaign_ips sources (cp_ID c))))"

lemma source_count_card:
  "distinct (map source_key sources) \<Longrightarrow> source_count sources i = card (campaign_ips sources i)"
proof -
  assume d: "distinct (map source_key sources)"
  have "campaign_ips sources i = cs_ClientIP ` set (filter (\<lambda>s. cs_CampaignID s = i) sources)"
    by (auto simp: campaign_ips_def source_key_def image_iff)
  moreover have "distinct (map cs_ClientIP (filter (\<lambda>s. cs_CampaignID s = i) sources))"
    using d by (induction sources) (auto simp: source_key_def image_iff)
  ultimately show ?thesis
    by (metis distinct_card length_map set_map source_count_def)
qed

lemma set_upsert_row:
  "distinct (map key rows) \<Longrightarrow>
     set (upsert_row key merge new rows) =
       insert (case row_of key (key new) rows of None \<Rightarrow> new | Some r \<Rightarrow> merge r new)
         {r \<in> set rows. key r \<noteq> key new}"
  by (induction rows) (auto simp: row_of_None image_iff split: option.splits dest: row_of_Some)

lemma upsert_ids:
  "(\<And>r. k (merge r new) = k r) \<Longrightarrow>
     map k (upsert_row key merge new rows) = map k rows @ (if key new \<in> key ` set rows then [] else [k new])"
  by (induction rows) auto

definition campaign_new :: "(string \<Rightarrow> string) \<Rightarrow> campaign_request \<Rightarrow> campaign" where
  "campaign_new sha256 r = new_campaign sha256 (rq_NewID r) (rq_Now r) (rq_OrganizationID r) (rq_DomainID r)
     (rq_Disposition r) (rq_ThreatClass r) (rq_Event r)"

definition campaign_hit :: "(string \<Rightarrow> string) \<Rightarrow> campaign_request \<Rightarrow> campaign list \<Rightarrow> campaign" where
  "campaign_hit sha256 r camps =
     (case row_of campaign_row_key (request_key sha256 r) camps of
        None \<Rightarrow> campaign_new sha256 r | Some old \<Rightarrow> merge_campaign old (campaign_new sha256 r))"

definition request_source :: "uuid \<Rightarrow> string \<Rightarrow> campaign_request \<Rightarrow> campaign_source" where
  "request_source i ip r = \<lparr>cs_CampaignID = i, cs_ClientIP = ip, cs_LastSeen = rq_Now r, cs_HitCount = 1\<rparr>"

lemma campaign_new_simps [simp]:
  "campaign_row_key (campaign_new sha256 r) = request_key sha256 r" "cp_ID (campaign_new sha256 r) = rq_NewID r"
  "cp_MessageCount (campaign_new sha256 r) = 1" "cp_UniqueSourceIPs (campaign_new sha256 r) = 0"
  by (simp_all add: campaign_new_def new_campaign_def campaign_row_key_def request_key_def Let_def)

lemma merge_campaign_simps [simp]:
  "cp_ID (merge_campaign old new) = cp_ID old" "campaign_row_key (merge_campaign old new) = campaign_row_key old"
  "cp_MessageCount (merge_campaign old new) = cp_MessageCount old + 1"
  "cp_UniqueSourceIPs (merge_campaign old new) = cp_UniqueSourceIPs old"
  by (simp_all add: merge_campaign_def campaign_row_key_def)

lemma request_source_key [simp]: "source_key (request_source i ip r) = (i, ip)"
  by (simp add: request_source_def source_key_def)

lemma record_request_eq:
  assumes "storable_ip inet r"
  shows "record_request sha256 inet r (camps, sources) =
    (let camps' = upsert_row campaign_row_key merge_campaign (campaign_new sha256 r) camps;
         i = cp_ID (campaign_hit sha256 r camps)
     in case request_ip inet r of
          None \<Rightarrow> (camps', sources)
        | Some ip \<Rightarrow>
            (let sources' = upsert_row source_key merge_source (request_source i ip r) sources
             in (update_where (\<lambda>c. cp_ID c = i)
                   (\<lambda>c. c\<lparr>cp_UniqueSourceIPs := source_count sources' i, cp_UpdatedAt := rq_Now r\<rparr>) camps', sources')))"
  using assms campaigns.upsert_same [of "campaign_new sha256 r" camps]
  by (auto simp: record_request_def recordCampaign_def record_source_def Let_def campaign_hit_def request_ip_def
      request_source_def storable_ip_def simp flip: campaign_new_def split: option.splits)

lemma campaign_ips_upsert:
  "campaign_ips (upsert_row source_key merge_source (request_source i ip r) sources) j =
     (if j = i then insert ip (campaign_ips sources j) else campaign_ips sources j)"
  using sources.upsert_keys [of "request_source i ip r" sources] by (auto simp: campaign_ips_def)

lemma same_campaign_Cons [simp]:
  "same_campaign sha256 k (r # reqs) = (if request_key sha256 r = k then [r] else []) @ same_campaign sha256 k reqs"
  by (simp add: same_campaign_def)

lemma request_ips_Cons [simp]:
  "request_ips sha256 inet k (r # reqs) =
     (if request_key sha256 r = k then set_option (request_ip inet r) else {}) \<union> request_ips sha256 inet k reqs"
  by (auto simp: request_ips_def)

lemma countedD:
  assumes "counted sha256 inet reqs (camps, sources)"
  shows "distinct (map campaign_row_key camps)" "distinct (map cp_ID camps)"
    "cp_ID ` set camps \<subseteq> rq_NewID ` set reqs" "campaign_row_key ` set camps = request_key sha256 ` set reqs"
    "distinct (map source_key sources)" "cs_CampaignID ` set sources \<subseteq> cp_ID ` set camps"
    "c \<in> set camps \<Longrightarrow> cp_MessageCount c = length (same_campaign sha256 (campaign_row_key c) reqs)"
    "c \<in> set camps \<Longrightarrow> campaign_ips sources (cp_ID c) = request_ips sha256 inet (campaign_row_key c) reqs"
    "c \<in> set camps \<Longrightarrow> cp_UniqueSourceIPs c = card (campaign_ips sources (cp_ID c))"
  using assms by (simp_all add: counted_def)

text \<open>The campaign of the new message, before its address is counted.\<close>

lemma hit_counted:
  assumes inv: "counted sha256 inet reqs (camps, sources)" and fresh: "rq_NewID r \<notin> rq_NewID ` set reqs"
  defines "h \<equiv> campaign_hit sha256 r camps" and "k \<equiv> request_key sha256 r"
  shows "campaign_row_key h = k" "cp_MessageCount h = Suc (length (same_campaign sha256 k reqs))"
    "campaign_ips sources (cp_ID h) = request_ips sha256 inet k reqs"
    "cp_UniqueSourceIPs h = card (campaign_ips sources (cp_ID h))"
    "c \<in> set camps \<Longrightarrow> campaign_row_key c \<noteq> k \<Longrightarrow> cp_ID c \<noteq> cp_ID h"
    "cp_ID h \<in> insert (rq_NewID r) (cp_ID ` set camps)"
proof -
  note D = countedD [OF inv]
  consider (new) "row_of campaign_row_key k camps = None" "h = campaign_new sha256 r"
    | (old) old where "row_of campaign_row_key k camps = Some old" "h = merge_campaign old (campaign_new sha256 r)"
    by (cases "row_of campaign_row_key k camps") (auto simp: h_def k_def campaign_hit_def)
  then have *: "campaign_row_key h = k \<and> cp_MessageCount h = Suc (length (same_campaign sha256 k reqs)) \<and>
     campaign_ips sources (cp_ID h) = request_ips sha256 inet k reqs \<and>
     cp_UniqueSourceIPs h = card (campaign_ips sources (cp_ID h)) \<and>
     (c \<in> set camps \<longrightarrow> campaign_row_key c \<noteq> k \<longrightarrow> cp_ID c \<noteq> cp_ID h) \<and>
     cp_ID h \<in> insert (rq_NewID r) (cp_ID ` set camps)"
  proof cases
    case new
    then have "k \<notin> request_key sha256 ` set reqs" using D(4) by (simp add: row_of_None)
    then have "same_campaign sha256 k reqs = []" by (auto simp: same_campaign_def filter_empty_conv)
    moreover have "rq_NewID r \<notin> cp_ID ` set camps" "rq_NewID r \<notin> cs_CampaignID ` set sources"
      using fresh D(3,6) by blast+
    then have "campaign_ips sources (rq_NewID r) = {}" "\<forall>c \<in> set camps. cp_ID c \<noteq> rq_NewID r"
      by (auto simp: campaign_ips_def source_key_def) (metis image_eqI)+
    ultimately show ?thesis
      using new by (auto simp: k_def request_ips_def)
  next
    case old
    then have m: "old \<in> set camps" "campaign_row_key old = k" by (auto dest: row_of_Some)
    with old D(2,7,8,9) show ?thesis
      by (auto simp: distinct_map dest: inj_onD)
  qed
  then show "campaign_row_key h = k" "cp_MessageCount h = Suc (length (same_campaign sha256 k reqs))"
    "campaign_ips sources (cp_ID h) = request_ips sha256 inet k reqs"
    "cp_UniqueSourceIPs h = card (campaign_ips sources (cp_ID h))"
    "c \<in> set camps \<Longrightarrow> campaign_row_key c \<noteq> k \<Longrightarrow> cp_ID c \<noteq> cp_ID h"
    "cp_ID h \<in> insert (rq_NewID r) (cp_ID ` set camps)"
    by simp_all
qed

lemma upserted_campaigns:
  assumes inv: "counted sha256 inet reqs (camps, sources)" and fresh: "rq_NewID r \<notin> rq_NewID ` set reqs"
  defines "camps' \<equiv> upsert_row campaign_row_key merge_campaign (campaign_new sha256 r) camps"
  shows "distinct (map campaign_row_key camps')" "distinct (map cp_ID camps')"
    "cp_ID ` set camps' \<subseteq> rq_NewID ` set (r # reqs)"
    "campaign_row_key ` set camps' = request_key sha256 ` set (r # reqs)"
    "set camps' = insert (campaign_hit sha256 r camps) {c \<in> set camps. campaign_row_key c \<noteq> request_key sha256 r}"
    "cp_ID ` set camps \<subseteq> cp_ID ` set camps'"
proof -
  note D = countedD [OF inv]
  show set: "set camps' = insert (campaign_hit sha256 r camps) {c \<in> set camps. campaign_row_key c \<noteq> request_key sha256 r}"
    using set_upsert_row [OF D(1), of merge_campaign "campaign_new sha256 r"] by (simp add: camps'_def campaign_hit_def)
  have ids: "map cp_ID camps' = map cp_ID camps @
      (if request_key sha256 r \<in> campaign_row_key ` set camps then [] else [rq_NewID r])"
    using upsert_ids [of cp_ID merge_campaign, where key = campaign_row_key and new = "campaign_new sha256 r" and rows = camps]
    by (simp add: camps'_def)
  have set_ids: "cp_ID ` set camps' = cp_ID ` set camps \<union>
      (if request_key sha256 r \<in> campaign_row_key ` set camps then {} else {rq_NewID r})"
    using arg_cong [OF ids, of set] by (simp split: if_splits)
  show "distinct (map campaign_row_key camps')" using D(1) by (simp add: camps'_def campaigns.upsert_distinct)
  have "rq_NewID r \<notin> set (map cp_ID camps)" unfolding set_map using D(3) fresh by blast
  then show "distinct (map cp_ID camps')" using D(2) by (simp add: ids)
  show "cp_ID ` set camps' \<subseteq> rq_NewID ` set (r # reqs)" "cp_ID ` set camps \<subseteq> cp_ID ` set camps'"
    using set_ids D(3) by auto
  show "campaign_row_key ` set camps' = request_key sha256 ` set (r # reqs)"
    using campaigns.upsert_keys [of "campaign_new sha256 r" camps] D(4) by (simp add: camps'_def)
qed

lemma counted_step:
  assumes inv: "counted sha256 inet reqs tables" and fresh: "rq_NewID r \<notin> rq_NewID ` set reqs"
    and ip: "storable_ip inet r"
  shows "counted sha256 inet (r # reqs) (record_request sha256 inet r tables)"
proof -
  obtain camps sources where t: "tables = (camps, sources)" by (cases tables)
  note D = countedD [OF inv [unfolded t]] and H = hit_counted [OF inv [unfolded t] fresh]
    and U = upserted_campaigns [OF inv [unfolded t] fresh]
  define camps' where "camps' = upsert_row campaign_row_key merge_campaign (campaign_new sha256 r) camps"
  define i where "i = cp_ID (campaign_hit sha256 r camps)"
  note U' = U [folded camps'_def]
  show ?thesis
  proof (cases "request_ip inet r")
    case None
    then have eq: "record_request sha256 inet r tables = (camps', sources)"
      by (simp add: t record_request_eq [OF ip] camps'_def)
    have "\<forall>c \<in> set camps'. cp_MessageCount c = length (same_campaign sha256 (campaign_row_key c) (r # reqs)) \<and>
        campaign_ips sources (cp_ID c) = request_ips sha256 inet (campaign_row_key c) (r # reqs) \<and>
        cp_UniqueSourceIPs c = card (campaign_ips sources (cp_ID c))"
      using H(1-4) D(7-9) None by (auto simp: U'(5))
    with U'(1-4,6) D(5,6) show ?thesis by (auto simp: eq counted_def)
  next
    case (Some ip)
    define sources' where "sources' = upsert_row source_key merge_source (request_source i ip r) sources"
    define camps'' where "camps'' = update_where (\<lambda>c. cp_ID c = i)
        (\<lambda>c. c\<lparr>cp_UniqueSourceIPs := source_count sources' i, cp_UpdatedAt := rq_Now r\<rparr>) camps'"
    have eq: "record_request sha256 inet r tables = (camps'', sources')"
      by (simp add: t record_request_eq [OF ip] camps'_def camps''_def sources'_def i_def Some Let_def)
    have src: "distinct (map source_key sources')" using D(5) by (simp add: sources'_def sources.upsert_distinct)
    have ids: "map cp_ID camps'' = map cp_ID camps'" "map campaign_row_key camps'' = map campaign_row_key camps'"
      unfolding camps''_def by (rule update_where_key; simp add: campaign_row_key_def)+
    have campaign_ids: "\<And>xs. cs_CampaignID ` set xs = fst ` set (map source_key xs)"
      by (simp add: source_key_def image_image)
    have sids: "cs_CampaignID ` set sources' \<subseteq> insert i (cs_CampaignID ` set sources)"
      unfolding campaign_ids sources'_def sources.upsert_keys by simp
    have "i \<in> cp_ID ` set camps'" by (simp add: U'(5) i_def)
    with sids D(6) U'(6) have sids': "cs_CampaignID ` set sources' \<subseteq> cp_ID ` set camps'" by blast
    have cips: "\<And>j. campaign_ips sources' j = (if j = i then insert ip (campaign_ips sources j) else campaign_ips sources j)"
      by (simp add: sources'_def campaign_ips_upsert)
    have "\<forall>c \<in> set camps''. cp_MessageCount c = length (same_campaign sha256 (campaign_row_key c) (r # reqs)) \<and>
        campaign_ips sources' (cp_ID c) = request_ips sha256 inet (campaign_row_key c) (r # reqs) \<and>
        cp_UniqueSourceIPs c = card (campaign_ips sources' (cp_ID c))"
    proof
      fix c assume "c \<in> set camps''"
      then obtain b where b: "b \<in> set camps'" "c = (if cp_ID b = i then
          b\<lparr>cp_UniqueSourceIPs := source_count sources' i, cp_UpdatedAt := rq_Now r\<rparr> else b)"
        by (auto simp: camps''_def update_where_def)
      consider (hit) "b = campaign_hit sha256 r camps" | (other) "b \<in> set camps" "campaign_row_key b \<noteq> request_key sha256 r"
        using b(1) by (auto simp: U'(5))
      then show "cp_MessageCount c = length (same_campaign sha256 (campaign_row_key c) (r # reqs)) \<and>
        campaign_ips sources' (cp_ID c) = request_ips sha256 inet (campaign_row_key c) (r # reqs) \<and>
        cp_UniqueSourceIPs c = card (campaign_ips sources' (cp_ID c))"
      proof cases
        case hit
        with b(2) H(1-3) Some show ?thesis
          by (simp add: i_def [symmetric] cips source_count_card [OF src] campaign_row_key_def)
      next
        case other
        with H(5) [OF other] b(2) D(7-9) show ?thesis by (simp add: i_def cips)
      qed
    qed
    moreover have "cp_ID ` set camps'' = cp_ID ` set camps'"
      "campaign_row_key ` set camps'' = campaign_row_key ` set camps'"
      using arg_cong [OF ids(1), of set] arg_cong [OF ids(2), of set] by simp_all
    ultimately show ?thesis
      using U'(1-4) ids src sids' by (simp add: eq counted_def)
  qed
qed

text \<open>C34 (what a campaign counts): over any series of messages, with no database error, the row of a
  campaign counts the messages of its organization, fingerprint and day, and its unique sources are the
  different client addresses among them.\<close>

theorem campaign_totals:
  assumes "distinct (map rq_NewID reqs)" "list_all (storable_ip inet) reqs" "r \<in> set reqs"
  shows "\<exists>c \<in> set (fst (fold (record_request sha256 inet) reqs ([], []))).
     campaign_row_key c = request_key sha256 r \<and>
     cp_MessageCount c = length (same_campaign sha256 (request_key sha256 r) reqs) \<and>
     cp_UniqueSourceIPs c = card (request_ips sha256 inet (request_key sha256 r) reqs)"
proof -
  have "counted sha256 inet (rev reqs) (fold (record_request sha256 inet) reqs ([], []))"
    using assms(1,2)
  proof (induction reqs rule: rev_induct)
    case Nil
    then show ?case by (simp add: counted_def)
  next
    case (snoc x xs)
    then show ?case by (auto intro!: counted_step)
  qed
  then obtain camps sources where tables: "fold (record_request sha256 inet) reqs ([], []) = (camps, sources)"
    and inv: "counted sha256 inet (rev reqs) (camps, sources)"
    by (cases "fold (record_request sha256 inet) reqs ([], [])") auto
  have "request_key sha256 r \<in> campaign_row_key ` set camps"
    using countedD(4) [OF inv] assms(3) by simp
  then obtain c where c: "c \<in> set camps" "campaign_row_key c = request_key sha256 r" by auto
  show ?thesis
    using countedD(7-9) [OF inv c(1)] c tables
    by (intro bexI [of _ c]) (auto simp: same_campaign_def request_ips_def rev_filter [symmetric])
qed

text \<open>What does not split a campaign: two messages from the same sender to the same first recipient
  have the same fingerprint, whatever their ids, addresses and symbols are, when the fields of
  their subjects and texts differ in case, in digits or in the target of links only.\<close>

theorem campaign_ignores_links_and_numbers:
  assumes "same_text (ev_Subject ev) (ev_Subject ev')" "same_text (ev_BodyText ev) (ev_BodyText ev')"
    and "equal_fold (trim_space (ev_From ev)) (trim_space (ev_From ev'))" "ev_To ev = ev_To ev'"
  shows "campaignFingerprint sha256 ev = campaignFingerprint sha256 ev'"
  using assms by (simp add: campaignFingerprint_def equal_fold_def normalizeCampaignText_same [of "ev_Subject ev"]
      normalizeCampaignText_same [of "ev_BodyText ev"])

text \<open>Authentication holds are mostly high confidence: of the reasons that the authentication stage
  gives, only one is excluded from flood suppression. Messages without authentication results and
  those that fail a DMARC policy take part, although the documentation excludes them.\<close>

theorem auth_hold_confidence:
  assumes "applyAuthEnforcement ev v = (Quarantined, reason)" "fst v \<in> {Delivered, Tagged}"
    and "threatClass \<noteq> ''CHALLENGE_RESPONSE''"
  shows "highConfidenceCampaign Quarantined reason threatClass \<longleftrightarrow>
     reason \<noteq> ''sender failed SPF/DKIM/DMARC authentication''"
proof -
  have "reason \<in> {''sender authentication results missing'', ''sender failed DMARC reject policy'',
     ''sender failed DMARC quarantine policy'', ''sender failed SPF/DKIM/DMARC authentication''}"
    using assms(1,2) by (cases v) (auto simp: applyAuthEnforcement_def Let_def split: if_splits)
  moreover have "highConfidenceCampaign Quarantined ''sender authentication results missing'' threatClass"
    "highConfidenceCampaign Quarantined ''sender failed DMARC reject policy'' threatClass"
    "highConfidenceCampaign Quarantined ''sender failed DMARC quarantine policy'' threatClass"
    "\<not> highConfidenceCampaign Quarantined ''sender failed SPF/DKIM/DMARC authentication'' threatClass"
    using assms(3) by (simp_all add: highConfidenceCampaign_def)
  ultimately show ?thesis
    by (elim insertE emptyE) simp_all
qed

definition sample_copy :: "uuid \<Rightarrow> string \<Rightarrow> campaign_request" where
  "sample_copy i ip = \<lparr>rq_NewID = i, rq_Now = 100, rq_OrganizationID = 7, rq_DomainID = None,
     rq_Disposition = Quarantined, rq_ThreatClass = ''SPAM'', rq_Event = sample_event\<lparr>ev_ClientIP := ip\<rparr>\<rparr>"

lemma sample_copy_key: "request_key sha256 (sample_copy i ip) = request_key sha256 (sample_copy 1 [])"
  by (simp add: request_key_def sample_copy_def campaignFingerprint_def Let_def)

lemma sample_addresses: "validCampaignIP ''10.0.0.1''" "validCampaignIP ''10.0.0.2''"
  by (simp_all add: validCampaignIP_def Let_def trim_defs parse_addr_def parse_v4_def v4_field_def all_digits_def
      decimal_def digit_val_def)

lemma campaign_totals_witness:
  "\<exists>c \<in> set (fst (fold (record_request hex_encode Some)
       [sample_copy 1 ''10.0.0.1'', sample_copy 2 ''10.0.0.2'', sample_copy 3 ''10.0.0.1''] ([], []))).
     cp_MessageCount c = 3 \<and> cp_UniqueSourceIPs c = 2"
proof -
  let ?reqs = "[sample_copy 1 ''10.0.0.1'', sample_copy 2 ''10.0.0.2'', sample_copy 3 ''10.0.0.1'']"
  let ?k = "request_key hex_encode (sample_copy 1 [])"
  have ips: "request_ips hex_encode Some ?k ?reqs = {''10.0.0.1'', ''10.0.0.2''}"
    by (auto simp: request_ips_def same_campaign_def sample_copy_key [of _ _ "''10.0.0.1''"]
        sample_copy_key [of _ _ "''10.0.0.2''"] request_ip_def)
      (simp_all add: sample_copy_def sample_addresses)
  have len: "length (same_campaign hex_encode ?k ?reqs) = 3"
    by (simp add: same_campaign_def sample_copy_key [of _ _ "''10.0.0.1''"] sample_copy_key [of _ _ "''10.0.0.2''"])
  show ?thesis
    using campaign_totals [of ?reqs Some "sample_copy 1 ''10.0.0.1''" hex_encode] len ips
    by (simp add: sample_copy_key [of _ _ "''10.0.0.1''"] storable_ip_def) (force simp: sample_copy_def)
qed

lemma campaign_ignores_links_and_numbers_witness:
  "campaignFingerprint hex_encode (sample_event\<lparr>ev_Subject := ''Invoice 1234 http://a.io'', ev_QueueID := ''q''\<rparr>) =
   campaignFingerprint hex_encode (sample_event\<lparr>ev_Subject := ''INVOICE 9876 https://b.io/x''\<rparr>)"
proof (rule campaign_ignores_links_and_numbers)
  show "same_text (ev_Subject (sample_event\<lparr>ev_Subject := ''Invoice 1234 http://a.io'', ev_QueueID := ''q''\<rparr>))
     (ev_Subject (sample_event\<lparr>ev_Subject := ''INVOICE 9876 https://b.io/x''\<rparr>))"
    by (simp add: same_text_def str_fields_def words_def same_field_def link_field_def mask_digit_def)
qed (simp_all add: sample_event_def same_text_def str_fields_def words_def)

lemma auth_hold_confidence_witness:
  "highConfidenceCampaign Quarantined ''sender authentication results missing'' ''SPAM''"
proof -
  have "applyAuthEnforcement (sample_event\<lparr>ev_Symbols := []\<rparr>) (Delivered, []) =
      (Quarantined, ''sender authentication results missing'')"
    by (simp add: applyAuthEnforcement_def sample_event_def hasAuthSignal_def hasAnySymbol_def hasSymbol_def
        isDeliveryStatusNotification_def equal_fold_def trim_defs looksLikeDSNSubject_def
        hasDeliveryStatusNotificationSymbol_def rawMessageLooksDSN_def hasSymbolContaining_def Let_def)
  from auth_hold_confidence [OF this, of "''SPAM''"] show ?thesis by simp
qed

end
