(* ===== verification/Tables.thy ===== *)
theory Tables
  imports Httpx Tenant
begin

text \<open>
  Rows of the tables that several components read: \<open>domains\<close>, \<open>users\<close> and
  \<open>sessions\<close>, as the migrations declare them. Times are seconds, \<open>CITEXT\<close> columns compare
  with \<open>equal_fold\<close>.
\<close>

record domain_row =
  dm_ID :: uuid
  dm_OrganizationID :: uuid
  dm_Name :: string
  dm_IsActive :: bool
  dm_RetentionDays :: "int option"
  dm_CreatedAt :: nat
  dm_UpdatedAt :: nat

record user_row =
  u_ID :: uuid
  u_OrganizationID :: uuid
  u_Email :: string
  u_PasswordHash :: string
  u_Role :: string
  u_DisplayName :: "string option"
  u_IsActive :: bool
  u_MFASecret :: "string option"
  u_MFAEnrolledAt :: "nat option"
  u_LastLoginAt :: "nat option"
  u_FailedLoginCount :: nat
  u_PhishingAlertFrequency :: string
  u_BulkCompletionNotify :: string
  u_ChallengeResponseMode :: string
  u_ChallengeAlertFrequency :: string
  u_CreatedAt :: nat
  u_UpdatedAt :: nat

record session_row =
  ss_TokenHash :: string
  ss_UserID :: uuid
  ss_OrganizationID :: uuid
  ss_UserAgent :: "string option"
  ss_IPAddr :: "string option"
  ss_ExpiresAt :: nat
  ss_RevokedAt :: "nat option"
  ss_ImpersonatorUserID :: "uuid option"

definition user_by_id :: "user_row list \<Rightarrow> uuid \<Rightarrow> user_row option" where
  "user_by_id users i = find (\<lambda>u. u_ID u = i) users"

definition domain_by_id :: "domain_row list \<Rightarrow> uuid \<Rightarrow> domain_row option" where
  "domain_by_id doms i = find (\<lambda>d. dm_ID d = i) doms"

lemma user_by_id_Some: "user_by_id users i = Some u \<Longrightarrow> u \<in> set users \<and> u_ID u = i"
  by (auto simp: user_by_id_def find_Some_iff)

lemma user_by_id_unique: "distinct (map u_ID users) \<Longrightarrow> u \<in> set users \<Longrightarrow> user_by_id users (u_ID u) = Some u"
  by (induction users) (auto simp: user_by_id_def image_iff)

lemma domain_by_id_Some: "domain_by_id doms i = Some d \<Longrightarrow> d \<in> set doms \<and> dm_ID d = i"
  by (auto simp: domain_by_id_def find_Some_iff)

definition sample_user :: "uuid \<Rightarrow> uuid \<Rightarrow> string \<Rightarrow> user_row" where
  "sample_user i org role = \<lparr>u_ID = i, u_OrganizationID = org, u_Email = ''u@x.io'', u_PasswordHash = [],
     u_Role = role, u_DisplayName = None, u_IsActive = True, u_MFASecret = None, u_MFAEnrolledAt = None,
     u_LastLoginAt = None, u_FailedLoginCount = 0, u_PhishingAlertFrequency = ''weekly'',
     u_BulkCompletionNotify = ''email'', u_ChallengeResponseMode = ''inherit'',
     u_ChallengeAlertFrequency = ''immediate'', u_CreatedAt = 0, u_UpdatedAt = 0\<rparr>"

definition sample_domain :: "uuid \<Rightarrow> uuid \<Rightarrow> string \<Rightarrow> domain_row" where
  "sample_domain i org name = \<lparr>dm_ID = i, dm_OrganizationID = org, dm_Name = name, dm_IsActive = True,
     dm_RetentionDays = None, dm_CreatedAt = 0, dm_UpdatedAt = 0\<rparr>"

end
