(* ===== verification/Settings.thy ===== *)
theory Settings
  imports Upsert GoCodec Policies Tables
begin

text \<open>
  \<open>internal/settings\<close>: the catalogue of keys, the handlers of system and organization settings,
  the encryption of secret values, and the lookups other components use. AES-GCM is the parameter
  \<open>gcm_seal key nonce plaintext\<close> and \<open>gcm_open key nonce ciphertext\<close>; the environment's
  \<open>SMG_SETTINGS_ENCRYPTION_KEY\<close> is the parameter \<open>env\<close>. The display texts of the
  catalogue are left out.
\<close>

section \<open>The catalogue\<close>

datatype SettingKind = KindString | KindInt | KindBool | KindEnum | KindSecret

record SettingMeta =
  sm_Key :: string
  sm_Kind :: SettingKind
  sm_Options :: "string list"
  sm_Min :: "int option"
  sm_Max :: "int option"

definition meta_of :: "string \<Rightarrow> SettingKind \<Rightarrow> SettingMeta" where
  "meta_of k kind = \<lparr>sm_Key = k, sm_Kind = kind, sm_Options = [], sm_Min = None, sm_Max = None\<rparr>"

definition meta_enum :: "string \<Rightarrow> string list \<Rightarrow> SettingMeta" where
  "meta_enum k opts = (meta_of k KindEnum)\<lparr>sm_Options := opts\<rparr>"

definition meta_range :: "string \<Rightarrow> int \<Rightarrow> int \<Rightarrow> SettingMeta" where
  "meta_range k lo hi = (meta_of k KindInt)\<lparr>sm_Min := Some lo, sm_Max := Some hi\<rparr>"

definition retentionMinDays :: int where "retentionMinDays = 1"
definition retentionMaxDays :: int where "retentionMaxDays = 365"

definition DefaultKeys :: "SettingMeta list" where
  "DefaultKeys =
     [meta_of ''ui.brand_name'' KindString,
      meta_of ''mail.hostname'' KindString,
      meta_of ''mail.mynetworks'' KindString,
      meta_of ''mail.system_from_address'' KindString,
      meta_of ''mail.outbound_relay_host'' KindString,
      meta_of ''mail.outbound_relay_port'' KindInt,
      meta_range ''message.retention_days'' retentionMinDays retentionMaxDays,
      meta_enum ''quarantine.default_action'' [''deliver'', ''tag'', ''quarantine'', ''reject''],
      meta_enum ''ai.mode'' [''disabled'', ''suspicious'', ''all''],
      meta_enum ''ai.provider'' [''anthropic'', ''openai''],
      meta_of ''ai.model'' KindString,
      meta_of ''ai.anthropic_api_key'' KindSecret,
      meta_of ''ai.openai_api_key'' KindSecret,
      meta_of ''deep_analysis.enabled'' KindBool,
      meta_range ''deep_analysis.min_score'' 0 30,
      meta_range ''deep_analysis.timeout_minutes'' 1 120,
      meta_of ''threat_intel.cached_enforcement'' KindBool,
      meta_enum ''tls.mode'' [''off'', ''self_signed'', ''lets_encrypt''],
      meta_of ''tls.hostname'' KindString,
      meta_of ''tls.acme_email'' KindString,
      meta_of ''link_rewrite.public_base_url'' KindString,
      meta_of ''billing.webhooks_enabled'' KindBool,
      meta_of ''cluster.node_id'' KindString]"

definition DefaultOrgKeys :: "SettingMeta list" where
  "DefaultOrgKeys =
     [meta_of ''brand.name'' KindString,
      meta_of ''brand.support_email'' KindString,
      meta_of ''alerts.admin_email'' KindString,
      meta_range ''message.retention_days'' retentionMinDays retentionMaxDays,
      meta_enum ''digest.frequency'' [''off'', ''daily'', ''weekly''],
      meta_of ''billing.customer_ref'' KindString]"

definition meta_in :: "SettingMeta list \<Rightarrow> string \<Rightarrow> SettingMeta option" where
  "meta_in keys key = find (\<lambda>m. sm_Key m = key) keys"

definition settingMeta :: "string \<Rightarrow> SettingMeta option" where
  "settingMeta = meta_in DefaultKeys"

subsection \<open>Validation\<close>

text \<open>\<open>json.Unmarshal\<close> into a string, an integer or a bool: \<open>null\<close> leaves the zero value.\<close>

definition unmarshal_string :: "json \<Rightarrow> string option" where
  "unmarshal_string raw = (case raw of JStr s \<Rightarrow> Some s | JNull \<Rightarrow> Some [] | _ \<Rightarrow> None)"

definition unmarshal_int :: "json \<Rightarrow> int option" where
  "unmarshal_int raw =
     (case raw of
        JNum q \<Rightarrow> if of_int \<lfloor>q\<rfloor> = q \<and> - (2 ^ 63) \<le> q \<and> q < 2 ^ 63 then Some \<lfloor>q\<rfloor> else None
      | JNull \<Rightarrow> Some 0
      | _ \<Rightarrow> None)"

definition unmarshal_bool :: "json \<Rightarrow> bool option" where
  "unmarshal_bool raw = (case raw of JBool b \<Rightarrow> Some b | JNull \<Rightarrow> Some False | _ \<Rightarrow> None)"

definition check_int :: "SettingMeta \<Rightarrow> json \<Rightarrow> string option" where
  "check_int meta raw =
     (case unmarshal_int raw of
        None \<Rightarrow> Some ''expected integer''
      | Some n \<Rightarrow>
          if (case sm_Min meta of None \<Rightarrow> False | Some lo \<Rightarrow> n < lo) then Some ''below minimum''
          else if (case sm_Max meta of None \<Rightarrow> False | Some hi \<Rightarrow> n > hi) then Some ''above maximum''
          else None)"

definition check_enum :: "SettingMeta \<Rightarrow> json \<Rightarrow> string option" where
  "check_enum meta raw =
     (case unmarshal_string raw of
        None \<Rightarrow> Some ''expected string''
      | Some s \<Rightarrow> if s \<in> set (sm_Options meta) then None else Some ''not in allowed options'')"

text \<open>\<open>None\<close> is no error.\<close>

definition validateValue :: "string \<Rightarrow> json \<Rightarrow> string option" where
  "validateValue key raw =
     (case settingMeta key of
        None \<Rightarrow> None
      | Some meta \<Rightarrow>
          case sm_Kind meta of
            KindString \<Rightarrow> if unmarshal_string raw = None then Some ''expected string'' else None
          | KindSecret \<Rightarrow>
              (case unmarshal_string raw of
                 None \<Rightarrow> Some ''expected string''
               | Some s \<Rightarrow> if length s > 16384 then Some ''secret is too long'' else None)
          | KindInt \<Rightarrow> check_int meta raw
          | KindBool \<Rightarrow> if unmarshal_bool raw = None then Some ''expected bool'' else None
          | KindEnum \<Rightarrow> check_enum meta raw)"

definition validateOrgValue :: "string \<Rightarrow> json \<Rightarrow> string option" where
  "validateOrgValue key raw =
     (case meta_in DefaultOrgKeys key of
        None \<Rightarrow> None
      | Some meta \<Rightarrow>
          case sm_Kind meta of
            KindString \<Rightarrow> if unmarshal_string raw = None then Some ''expected string'' else None
          | KindSecret \<Rightarrow> None
          | KindInt \<Rightarrow> check_int meta raw
          | KindBool \<Rightarrow> if unmarshal_bool raw = None then Some ''expected bool'' else None
          | KindEnum \<Rightarrow> check_enum meta raw)"

section \<open>Secrets\<close>

definition encryptedPrefix :: string where "encryptedPrefix = ''enc:v1:''"

definition nonce_size :: nat where "nonce_size = 12"

definition settingsEncryptionKey :: "string \<Rightarrow> string result" where
  "settingsEncryptionKey env =
     (let raw = trim_space env
      in if raw = [] then Inl ''SMG_SETTINGS_ENCRYPTION_KEY is not configured''
         else (case filter (\<lambda>k. case k of None \<Rightarrow> False | Some key \<Rightarrow> length key = 32)
                      [hex_decode raw, base64_decode raw, raw64_decode False raw] of
                 Some key # _ \<Rightarrow> Inr key
               | _ \<Rightarrow> Inl ''SMG_SETTINGS_ENCRYPTION_KEY must encode exactly 32 bytes''))"

definition encryptSecret :: "(string \<Rightarrow> string \<Rightarrow> string \<Rightarrow> string) \<Rightarrow> string \<Rightarrow> string \<Rightarrow> string \<Rightarrow> string result" where
  "encryptSecret gcm_seal env nonce plaintext =
     (if plaintext = [] then Inr []
      else case settingsEncryptionKey env of
             Inl e \<Rightarrow> Inl e
           | Inr key \<Rightarrow> Inr (encryptedPrefix @ raw64_encode False (nonce @ gcm_seal key nonce plaintext)))"

definition decryptSecret :: "(string \<Rightarrow> string \<Rightarrow> string \<Rightarrow> string option) \<Rightarrow> string \<Rightarrow> string \<Rightarrow> string result" where
  "decryptSecret gcm_open env value =
     (if value = [] then Inr []
      else if \<not> has_prefix value encryptedPrefix then Inl ''secret is not encrypted''
      else case settingsEncryptionKey env of
             Inl e \<Rightarrow> Inl e
           | Inr key \<Rightarrow>
               (case raw64_decode False (trim_prefix value encryptedPrefix) of
                  None \<Rightarrow> Inl ''secret ciphertext is invalid''
                | Some sealed \<Rightarrow>
                    if length sealed < nonce_size then Inl ''secret ciphertext is truncated''
                    else (case gcm_open key (take nonce_size sealed) (drop nonce_size sealed) of
                            None \<Rightarrow> Inl ''secret ciphertext authentication failed''
                          | Some plaintext \<Rightarrow> Inr plaintext)))"

section \<open>The table and its handlers\<close>

record setting_row =
  st_OrganizationID :: "uuid option"
  st_Key :: string
  st_Value :: json
  st_UpdatedBy :: "uuid option"
  st_UpdatedAt :: nat

definition setting_key :: "setting_row \<Rightarrow> uuid option \<times> string" where
  "setting_key r = (st_OrganizationID r, st_Key r)"

definition merge_setting :: "setting_row \<Rightarrow> setting_row \<Rightarrow> setting_row" where
  "merge_setting old new = old\<lparr>st_Value := st_Value new, st_UpdatedBy := st_UpdatedBy new, st_UpdatedAt := st_UpdatedAt new\<rparr>"

definition put_setting :: "nat \<Rightarrow> uuid \<Rightarrow> uuid option \<Rightarrow> string \<Rightarrow> json \<Rightarrow> setting_row list \<Rightarrow> setting_row list" where
  "put_setting now user org k v = upsert_row setting_key merge_setting
     \<lparr>st_OrganizationID = org, st_Key = k, st_Value = v, st_UpdatedBy = Some user, st_UpdatedAt = now\<rparr>"

record Setting =
  se_Key :: string
  se_Value :: json
  se_Inherited :: bool
  se_UpdatedBy :: "uuid option"
  se_UpdatedAt :: nat
  se_Configured :: bool

definition scan_setting :: "setting_row \<Rightarrow> Setting" where
  "scan_setting r = \<lparr>se_Key = st_Key r, se_Value = st_Value r, se_Inherited = False, se_UpdatedBy = st_UpdatedBy r,
     se_UpdatedAt = st_UpdatedAt r, se_Configured = False\<rparr>"

definition maskSecretSetting :: "Setting \<Rightarrow> Setting" where
  "maskSecretSetting s =
     (case settingMeta (se_Key s) of
        None \<Rightarrow> s
      | Some meta \<Rightarrow>
          if sm_Kind meta \<noteq> KindSecret then s
          else s\<lparr>se_Configured := (case unmarshal_string (se_Value s) of None \<Rightarrow> False | Some t \<Rightarrow> t \<noteq> []),
                 se_Value := JStr []\<rparr>)"

definition settings_isAdmin :: "string \<Rightarrow> bool" where
  "settings_isAdmin role = (role = ''super_admin'' \<or> role = ''msp_admin'' \<or> role = ''org_admin'')"

definition settings_list :: "faults \<Rightarrow> identity option \<Rightarrow> setting_row list \<Rightarrow> Setting list response" where
  "settings_list err ctx rows =
     (case ctx of
        None \<Rightarrow> WriteError 401 ''auth''
      | Some ident \<Rightarrow>
          if \<not> settings_isAdmin (id_Role ident) then WriteError 403 ''admin required''
          else if err ''select system_settings'' then WriteError 500 ''db: ''
          else WriteJSON 200 (map (maskSecretSetting \<circ> scan_setting)
                 (sort_key (\<lambda>r. map byte (st_Key r)) (filter (\<lambda>r. st_OrganizationID r = None) rows))))"

text \<open>The value that a key's row holds: secrets are encrypted, everything else is stored as it came.\<close>

definition stored_value :: "(string \<Rightarrow> string result) \<Rightarrow> string \<Rightarrow> json \<Rightarrow> (nat \<times> string) + json" where
  "stored_value encrypt k v =
     (case settingMeta k of
        None \<Rightarrow> Inr v
      | Some meta \<Rightarrow>
          if sm_Kind meta \<noteq> KindSecret then Inr v
          else case unmarshal_string v of
                 None \<Rightarrow> Inl (400, k @ '': expected string'')
               | Some plaintext \<Rightarrow>
                   (case encrypt plaintext of
                      Inl e \<Rightarrow> Inl (503, ''secret encryption is not configured'')
                    | Inr c \<Rightarrow> Inr (JStr c)))"

fun save_settings ::
  "faults \<Rightarrow> (string \<Rightarrow> string \<Rightarrow> string result) \<Rightarrow> nat \<Rightarrow> uuid \<Rightarrow> json_map \<Rightarrow> setting_row list \<Rightarrow>
     (nat \<times> string) + setting_row list" where
  "save_settings err encrypt now user [] rows = Inr rows"
| "save_settings err encrypt now user ((k, v) # body) rows =
     (case validateValue k v of
        Some e \<Rightarrow> Inl (400, k @ '': '' @ e)
      | None \<Rightarrow>
          case stored_value (encrypt k) k v of
            Inl e \<Rightarrow> Inl e
          | Inr s \<Rightarrow>
              if err (''save '' @ k) then Inl (500, ''save '' @ k @ '': '')
              else save_settings err encrypt now user body (put_setting now user None k s rows))"

definition settings_patch ::
  "faults \<Rightarrow> (string \<Rightarrow> string \<Rightarrow> string result) \<Rightarrow> nat \<Rightarrow> identity option \<Rightarrow> json_map result \<Rightarrow> setting_row list \<Rightarrow>
     Setting list response \<times> setting_row list" where
  "settings_patch err encrypt now ctx body rows =
     (case ctx of
        None \<Rightarrow> (WriteError 401 ''auth'', rows)
      | Some ident \<Rightarrow>
          if id_Role ident \<noteq> ''super_admin'' then (WriteError 403 ''super_admin required'', rows)
          else case body of
            Inl e \<Rightarrow> (WriteError 400 e, rows)
          | Inr b \<Rightarrow>
              if b = [] then (WriteError 400 ''empty body'', rows)
              else if err ''begin'' then (WriteError 500 ''tx'', rows)
              else case save_settings err encrypt now (id_UserID ident) b rows of
                Inl (code, e) \<Rightarrow> (WriteError code e, rows)
              | Inr rows' \<Rightarrow>
                  if err ''commit'' then (WriteError 500 ''commit'', rows)
                  else (settings_list err ctx rows', rows'))"

subsection \<open>Organization settings\<close>

definition hasSetting :: "Setting list \<Rightarrow> string \<Rightarrow> bool" where
  "hasSetting items key = list_ex (\<lambda>i. se_Key i = key) items"

definition retention_rank :: "setting_row \<Rightarrow> nat" where
  "retention_rank r = (if st_Key r = ''message.retention_days'' then 0 else 1)"

definition is_retention :: "setting_row \<Rightarrow> bool" where
  "is_retention r = (st_Key r = ''message.retention_days'' \<or> st_Key r = ''quarantine.retention_days'')"

definition org_settings_list :: "faults \<Rightarrow> identity option \<Rightarrow> setting_row list \<Rightarrow> Setting list response" where
  "org_settings_list err ctx rows =
     (case ctx of
        None \<Rightarrow> WriteError 401 ''auth''
      | Some ident \<Rightarrow>
          if \<not> settings_isAdmin (id_Role ident) then WriteError 403 ''admin required''
          else if err ''select system_settings'' then WriteError 500 ''db: ''
          else
            (let out = map scan_setting (sort_key (\<lambda>r. map byte (st_Key r))
                   (filter (\<lambda>r. st_OrganizationID r = Some (id_OrganizationID ident)) rows))
             in if hasSetting out ''message.retention_days'' then WriteJSON 200 out
                else WriteJSON 200 (out @
                  [case (if err ''select inherited'' then None else first_by retention_rank
                          (filter (\<lambda>r. st_OrganizationID r = None \<and> is_retention r) rows)) of
                     Some r \<Rightarrow> \<lparr>se_Key = ''message.retention_days'', se_Value = st_Value r, se_Inherited = True,
                                 se_UpdatedBy = None, se_UpdatedAt = st_UpdatedAt r, se_Configured = False\<rparr>
                   | None \<Rightarrow> \<lparr>se_Key = ''message.retention_days'', se_Value = JNum 90, se_Inherited = True,
                                 se_UpdatedBy = None, se_UpdatedAt = 0, se_Configured = False\<rparr>])))"

fun save_org_settings ::
  "faults \<Rightarrow> nat \<Rightarrow> uuid \<Rightarrow> uuid \<Rightarrow> json_map \<Rightarrow> setting_row list \<Rightarrow> (nat \<times> string) + setting_row list" where
  "save_org_settings err now user org [] rows = Inr rows"
| "save_org_settings err now user org ((k, v) # body) rows =
     (case validateOrgValue k v of
        Some e \<Rightarrow> Inl (400, k @ '': '' @ e)
      | None \<Rightarrow>
          if err (''save '' @ k) then Inl (500, ''save '' @ k @ '': '')
          else save_org_settings err now user org body (put_setting now user (Some org) k v rows))"

definition org_settings_patch ::
  "faults \<Rightarrow> nat \<Rightarrow> identity option \<Rightarrow> json_map result \<Rightarrow> setting_row list \<Rightarrow> Setting list response \<times> setting_row list" where
  "org_settings_patch err now ctx body rows =
     (case ctx of
        None \<Rightarrow> (WriteError 401 ''auth'', rows)
      | Some ident \<Rightarrow>
          if \<not> settings_isAdmin (id_Role ident) then (WriteError 403 ''admin required'', rows)
          else case body of
            Inl e \<Rightarrow> (WriteError 400 e, rows)
          | Inr b \<Rightarrow>
              if b = [] then (WriteError 400 ''empty body'', rows)
              else if err ''begin'' then (WriteError 500 ''tx'', rows)
              else case save_org_settings err now (id_UserID ident) (id_OrganizationID ident) b rows of
                Inl (code, e) \<Rightarrow> (WriteError code e, rows)
              | Inr rows' \<Rightarrow>
                  if err ''commit'' then (WriteError 500 ''commit'', rows)
                  else (org_settings_list err ctx rows', rows'))"

section \<open>Lookups of other components\<close>

text \<open>
  \<open>value #>> '{}'\<close> and its casts. \<open>render\<close> is PostgreSQL's text of a number, an array or an
  object, \<open>pg_float\<close> its cast of a text to \<open>double precision\<close>; \<open>None\<close> is NULL or an error.
\<close>

definition setting_text :: "(json \<Rightarrow> string) \<Rightarrow> json \<Rightarrow> string option" where
  "setting_text render v =
     (case v of
        JNull \<Rightarrow> None
      | JBool b \<Rightarrow> Some (if b then ''true'' else ''false'')
      | JStr s \<Rightarrow> Some s
      | _ \<Rightarrow> Some (render v))"

definition pg_int :: "json \<Rightarrow> int option" where
  "pg_int v =
     (case (case v of
              JNum q \<Rightarrow> if of_int \<lfloor>q\<rfloor> = q then Some \<lfloor>q\<rfloor> else None
            | JStr s \<Rightarrow> atoi (trim_space s)
            | _ \<Rightarrow> None) of
        None \<Rightarrow> None
      | Some n \<Rightarrow> if - (2 ^ 31) \<le> n \<and> n < 2 ^ 31 then Some n else None)"

definition pg_bool :: "json \<Rightarrow> bool option" where
  "pg_bool v =
     (case v of
        JBool b \<Rightarrow> Some b
      | JNum q \<Rightarrow> if q = 1 then Some True else if q = 0 then Some False else None
      | JStr s \<Rightarrow>
          (let t = to_lower (trim_space s)
           in if t \<in> {''t'', ''tr'', ''tru'', ''true'', ''y'', ''ye'', ''yes'', ''on'', ''1''} then Some True
              else if t \<in> {''f'', ''fa'', ''fal'', ''fals'', ''false'', ''n'', ''no'', ''of'', ''off'', ''0''} then Some False
              else None)
      | _ \<Rightarrow> None)"

definition pg_double :: "(string \<Rightarrow> rat option) \<Rightarrow> json \<Rightarrow> rat option" where
  "pg_double pg_float v = (case v of JNum q \<Rightarrow> Some q | JStr s \<Rightarrow> pg_float s | _ \<Rightarrow> None)"

definition system_value :: "faults \<Rightarrow> setting_row list \<Rightarrow> string \<Rightarrow> json option" where
  "system_value err rows key =
     (if err (''select '' @ key) then None else map_option st_Value (row_of setting_key (None, key) rows))"

text \<open>\<open>Lookup\<close>: an error on the left, an absent row is \<open>None\<close>.\<close>

definition settings_Lookup :: "faults \<Rightarrow> setting_row list \<Rightarrow> string \<Rightarrow> json option result" where
  "settings_Lookup err rows key =
     (if err (''select '' @ key) then Inl ''db''
      else Inr (map_option st_Value (row_of setting_key (None, key) rows)))"

record AIConfig =
  ai_Mode :: string
  ai_Provider :: string
  ai_Model :: string
  ai_APIKey :: string
  ai_Available :: bool
  ai_AvailabilityReason :: string

definition normalizeAIMode :: "string \<Rightarrow> string" where
  "normalizeAIMode value =
     (let v = to_lower (trim_space value)
      in if v = ''suspicious'' \<or> v = ''all'' then v else ''disabled'')"

definition ai_value :: "faults \<Rightarrow> (json \<Rightarrow> string) \<Rightarrow> setting_row list \<Rightarrow> string \<Rightarrow> string" where
  "ai_value err render rows key =
     (case system_value err rows key of
        None \<Rightarrow> []
      | Some v \<Rightarrow> (case setting_text render v of None \<Rightarrow> [] | Some t \<Rightarrow> t))"

definition LookupAIConfig ::
  "faults \<Rightarrow> (json \<Rightarrow> string) \<Rightarrow> (string \<Rightarrow> string result) \<Rightarrow> setting_row list \<Rightarrow> AIConfig" where
  "LookupAIConfig err render decrypt rows =
     (let get = ai_value err render rows;
          provider = (if get ''ai.provider'' = [] then ''anthropic'' else get ''ai.provider'');
          defaults = [(''anthropic'', ''claude-haiku-4-5-20251001''), (''openai'', ''gpt-5-mini'')];
          supported = (map_of defaults provider \<noteq> None);
          model = (if get ''ai.model'' \<noteq> [] then get ''ai.model''
                   else case map_of defaults provider of None \<Rightarrow> [] | Some m \<Rightarrow> m);
          mode = normalizeAIMode (get ''ai.mode'');
          config = \<lparr>ai_Mode = mode, ai_Provider = provider, ai_Model = model, ai_APIKey = [],
                    ai_Available = False, ai_AvailabilityReason = []\<rparr>
      in if mode = ''disabled'' then config\<lparr>ai_AvailabilityReason := ''AI analysis is disabled''\<rparr>
         else if \<not> supported then config\<lparr>ai_AvailabilityReason := ''unsupported AI provider''\<rparr>
         else
           (let encrypted = get (''ai.'' @ provider @ ''_api_key'')
            in if encrypted = [] then config\<lparr>ai_AvailabilityReason := provider @ '' API key is not configured''\<rparr>
               else case decrypt encrypted of
                      Inl e \<Rightarrow> config\<lparr>ai_AvailabilityReason := ''stored AI key is unavailable''\<rparr>
                    | Inr apiKey \<Rightarrow> config\<lparr>ai_APIKey := apiKey, ai_Available := True\<rparr>))"

text \<open>The argument is the configuration that \<open>LookupAIConfig\<close> finds.\<close>

definition ShouldQueueAI :: "AIConfig \<Rightarrow> string \<Rightarrow> bool" where
  "ShouldQueueAI config d =
     (if \<not> ai_Available config then False
      else if ai_Mode config = ''all'' then True
      else if ai_Mode config = ''suspicious'' then d = ''tagged'' \<or> d = ''quarantined''
      else False)"

record DeepAnalysisConfig =
  da_Enabled :: bool
  da_MinScore :: rat
  da_TimeoutMinutes :: int

definition LookupDeepAnalysisConfig :: "faults \<Rightarrow> (string \<Rightarrow> rat option) \<Rightarrow> setting_row list \<Rightarrow> DeepAnalysisConfig" where
  "LookupDeepAnalysisConfig err pg_float rows =
     (let enabled = (case system_value err rows ''deep_analysis.enabled'' of
                       None \<Rightarrow> False | Some v \<Rightarrow> (case pg_bool v of None \<Rightarrow> False | Some b \<Rightarrow> b));
          score = (case system_value err rows ''deep_analysis.min_score'' of
                     None \<Rightarrow> 4 | Some v \<Rightarrow> (case pg_double pg_float v of None \<Rightarrow> 4 | Some q \<Rightarrow> q));
          minutes = (case system_value err rows ''deep_analysis.timeout_minutes'' of
                       None \<Rightarrow> 15 | Some v \<Rightarrow> (case pg_int v of None \<Rightarrow> 15 | Some n \<Rightarrow> n))
      in \<lparr>da_Enabled = enabled,
          da_MinScore = (if score < 0 \<or> score > 30 then 4 else score),
          da_TimeoutMinutes = (if minutes < 1 \<or> minutes > 120 then 15 else minutes)\<rparr>)"

definition clampRetentionDays :: "int \<Rightarrow> int" where
  "clampRetentionDays days =
     (if days < retentionMinDays then retentionMinDays
      else if days > retentionMaxDays then retentionMaxDays
      else days)"

text \<open>The row that wins: the organization's before the system's, the new key before the legacy one.\<close>

definition retention_row :: "setting_row list \<Rightarrow> uuid \<Rightarrow> setting_row option" where
  "retention_row rows org = first_by (\<lambda>r. (st_OrganizationID r = None, retention_rank r))
     (filter (\<lambda>r. is_retention r \<and> (st_OrganizationID r = Some org \<or> st_OrganizationID r = None)) rows)"

definition MessageRetentionDays :: "faults \<Rightarrow> setting_row list \<Rightarrow> uuid \<Rightarrow> int" where
  "MessageRetentionDays err rows org =
     clampRetentionDays
       (case (if err ''select retention'' then None else retention_row rows org) of
          None \<Rightarrow> 90
        | Some r \<Rightarrow> (case pg_int (st_Value r) of None \<Rightarrow> 90 | Some v \<Rightarrow> v))"

definition MessageRetentionDaysForDomain ::
  "faults \<Rightarrow> setting_row list \<Rightarrow> domain_row list \<Rightarrow> uuid \<Rightarrow> uuid \<Rightarrow> int" where
  "MessageRetentionDaysForDomain err rows doms org domain =
     (case (if err ''select domain retention'' then None
            else find (\<lambda>d. dm_ID d = domain \<and> dm_OrganizationID d = org \<and> dm_RetentionDays d \<noteq> None) doms) of
        Some d \<Rightarrow> (case dm_RetentionDays d of None \<Rightarrow> MessageRetentionDays err rows org
                    | Some v \<Rightarrow> clampRetentionDays v)
      | None \<Rightarrow> MessageRetentionDays err rows org)"

definition QuarantineRetentionDays :: "faults \<Rightarrow> setting_row list \<Rightarrow> uuid \<Rightarrow> int" where
  "QuarantineRetentionDays = MessageRetentionDays"

section \<open>Properties\<close>

interpretation settings: keyed_table setting_key merge_setting
  by unfold_locales (simp add: setting_key_def merge_setting_def)

lemma trim_prefix_append [simp]: "trim_prefix (p @ s) p = s"
  by (simp add: trim_prefix_def)

text \<open>Secrets come back: with AES-GCM's promise that opening undoes sealing, a secret that was
  encrypted is decrypted to itself, and what is stored of a non-empty secret carries the version
  prefix.\<close>

theorem secret_roundtrip:
  assumes "\<forall>key nonce p. length nonce = nonce_size \<longrightarrow> gcm_open key nonce (gcm_seal key nonce p) = Some p"
    and "settingsEncryptionKey env = Inr key" "length nonce = nonce_size"
  shows "\<exists>c. encryptSecret gcm_seal env nonce p = Inr c \<and> decryptSecret gcm_open env c = Inr p \<and>
     (p \<noteq> [] \<longrightarrow> has_prefix c encryptedPrefix)"
proof (cases "p = []")
  case False
  then have "decryptSecret gcm_open env (encryptedPrefix @ raw64_encode False (nonce @ gcm_seal key nonce p)) = Inr p"
    using assms by (simp add: decryptSecret_def) (simp add: encryptedPrefix_def)
  with False assms(2) show ?thesis by (simp add: encryptSecret_def)
qed (simp add: encryptSecret_def decryptSecret_def)

text \<open>A value that a secret key's row may hold: what \<open>encryptSecret\<close> makes of some text under the configured key.\<close>

definition secret_key :: "string \<Rightarrow> bool" where
  "secret_key k = (case settingMeta k of None \<Rightarrow> False | Some m \<Rightarrow> sm_Kind m = KindSecret)"

definition sealed :: "(string \<Rightarrow> string \<Rightarrow> string \<Rightarrow> string) \<Rightarrow> string \<Rightarrow> json \<Rightarrow> bool" where
  "sealed seal env v = (\<exists>nonce plaintext c. v = JStr c \<and> encryptSecret seal env nonce plaintext = Inr c)"

definition setting_row_ok :: "(string \<Rightarrow> string \<Rightarrow> string \<Rightarrow> string) \<Rightarrow> string \<Rightarrow> setting_row \<Rightarrow> bool" where
  "setting_row_ok seal env r =
     (case st_OrganizationID r of
        Some _ \<Rightarrow> validateOrgValue (st_Key r) (st_Value r) = None
      | None \<Rightarrow> if secret_key (st_Key r) then sealed seal env (st_Value r) else validateValue (st_Key r) (st_Value r) = None)"

definition settings_ok :: "(string \<Rightarrow> string \<Rightarrow> string \<Rightarrow> string) \<Rightarrow> string \<Rightarrow> setting_row list \<Rightarrow> bool" where
  "settings_ok seal env rows = (distinct (map setting_key rows) \<and> list_all (setting_row_ok seal env) rows)"

datatype settings_cmd = SystemPatch "json_map result" | OrgPatch "json_map result"

fun settings_step ::
  "faults \<Rightarrow> (string \<Rightarrow> string \<Rightarrow> string result) \<Rightarrow> nat \<Rightarrow> settings_cmd \<times> identity option \<Rightarrow> setting_row list \<Rightarrow> setting_row list" where
  "settings_step err encrypt now (SystemPatch body, ctx) rows = snd (settings_patch err encrypt now ctx body rows)"
| "settings_step err encrypt now (OrgPatch body, ctx) rows = snd (org_settings_patch err now ctx body rows)"

lemma put_setting_ok:
  assumes "settings_ok seal env rows"
    "setting_row_ok seal env \<lparr>st_OrganizationID = org, st_Key = k, st_Value = v, st_UpdatedBy = Some u, st_UpdatedAt = now\<rparr>"
  shows "settings_ok seal env (put_setting now u org k v rows)"
proof -
  have "list_all (setting_row_ok seal env) (put_setting now u org k v rows)"
    using assms unfolding settings_ok_def put_setting_def
    by (induction rows) (auto simp: merge_setting_def setting_key_def setting_row_ok_def split: option.splits)
  with assms(1) show ?thesis by (simp add: settings_ok_def put_setting_def settings.upsert_distinct)
qed

lemma stored_value_ok:
  assumes "stored_value (encryptSecret seal env nonce) k v = Inr s" "validateValue k v = None"
  shows "if secret_key k then sealed seal env s else validateValue k s = None"
  using assms
  by (fastforce simp: stored_value_def secret_key_def sealed_def split: option.splits sum.splits if_splits)

lemma save_settings_ok:
  "save_settings err (\<lambda>k. encryptSecret seal env (nonce k)) now u body rows = Inr rows' \<Longrightarrow>
     settings_ok seal env rows \<Longrightarrow> settings_ok seal env rows'"
proof (induction err "\<lambda>k. encryptSecret seal env (nonce k)" now u body rows rule: save_settings.induct)
  case (2 err now u k v body rows)
  then obtain s where s: "validateValue k v = None" "stored_value (encryptSecret seal env (nonce k)) k v = Inr s"
    "\<not> err (''save '' @ k)"
    by (auto split: option.splits sum.splits if_splits)
  then have "settings_ok seal env (put_setting now u None k s rows)"
    using 2(3) stored_value_ok [OF s(2,1)] by (intro put_setting_ok) (simp_all add: setting_row_ok_def)
  with 2 s show ?case by simp
qed simp

lemma save_org_settings_ok:
  "save_org_settings err now u org body rows = Inr rows' \<Longrightarrow> settings_ok seal env rows \<Longrightarrow> settings_ok seal env rows'"
proof (induction err now u org body rows rule: save_org_settings.induct)
  case (2 err now u org k v body rows)
  from 2(2) have valid: "validateOrgValue k v = None" by (simp split: option.splits)
  with 2(3) have "settings_ok seal env (put_setting now u (Some org) k v rows)"
    by (intro put_setting_ok) (simp_all add: setting_row_ok_def)
  with 2 show ?case by (auto split: option.splits if_splits)
qed simp

text \<open>C35 (settings stay valid and secrets encrypted): whatever patches of system and organization settings
  arrive, each system row of the catalogue holds a value of its kind and range, the row of a secret holds what
  \<open>encryptSecret\<close> makes of some text (nothing for the empty one), each row of an organization holds a value that the
  catalogue of organization settings accepts, and no key has two rows.\<close>

theorem settings_stay_ok:
  assumes "settings_ok seal env rows"
  shows "settings_ok seal env (foldl (\<lambda>rs req. settings_step err (\<lambda>k. encryptSecret seal env (nonce k)) now req rs) rows reqs)"
  using assms
proof (induction reqs arbitrary: rows)
  case (Cons req reqs)
  have "settings_ok seal env (settings_step err (\<lambda>k. encryptSecret seal env (nonce k)) now req rows)"
  proof (cases req)
    case (Pair cmd ctx)
    with Cons.prems show ?thesis
      by (cases cmd) (auto simp: settings_patch_def org_settings_patch_def
          split: option.splits sum.splits if_splits dest: save_settings_ok save_org_settings_ok)
  qed
  with Cons.IH show ?case by simp
qed simp

text \<open>Secrets are masked: no response of the system settings endpoint carries a secret's value, not
  even its ciphertext.\<close>

theorem settings_list_masks:
  assumes "settings_list err ctx rows = WriteJSON code items"
  shows "list_all (\<lambda>s. \<not> secret_key (se_Key s) \<or> se_Value s = JStr []) items"
  using assms
  by (auto simp: settings_list_def list_all_iff secret_key_def maskSecretSetting_def scan_setting_def
      split: option.splits if_splits)

text \<open>Retention is bounded: every message is kept between one day and a year, whatever the settings
  and domain tables hold.\<close>

theorem retention_bounds:
  "1 \<le> MessageRetentionDaysForDomain err rows doms org domain \<and>
   MessageRetentionDaysForDomain err rows doms org domain \<le> 365"
proof -
  have "1 \<le> clampRetentionDays d \<and> clampRetentionDays d \<le> 365" for d
    by (simp add: clampRetentionDays_def retentionMinDays_def retentionMaxDays_def)
  then show ?thesis
    by (auto simp: MessageRetentionDaysForDomain_def MessageRetentionDays_def split: option.split)
qed

text \<open>A toy cipher: sealing keeps the text, opening returns it.\<close>

definition sample_env :: string where "sample_env = concat (replicate 32 ''00'')"

lemma sample_key: "settingsEncryptionKey sample_env = Inr (replicate 32 (char_of (0::nat)))"
proof -
  have "hex_decode (concat (replicate n ''00'')) = Some (replicate n (char_of (0::nat)))" for n
    by (induction n) (simp_all add: is_hex_def hex_val_def byte_char_def)
  moreover have "trim_space sample_env = sample_env" "sample_env \<noteq> []"
    by (simp_all add: sample_env_def trim_defs numeral_eq_Suc)
  ultimately show ?thesis by (simp add: settingsEncryptionKey_def sample_env_def)
qed

lemma secret_roundtrip_witness:
  "\<exists>c. encryptSecret (\<lambda>k n p. p) sample_env (replicate 12 CHR ''n'') ''s3cret'' = Inr c \<and>
     decryptSecret (\<lambda>k n c. Some c) sample_env c = Inr ''s3cret''"
  using secret_roundtrip [of "\<lambda>k n c. Some c" "\<lambda>k n p. p" _ _ "replicate 12 CHR ''n''" "''s3cret''", OF _ sample_key]
  by (auto simp: nonce_size_def)

lemma settings_stay_ok_witness:
  "settings_ok (\<lambda>k n p. p) sample_env
     (foldl (\<lambda>rs req. settings_step no_faults (\<lambda>k. encryptSecret (\<lambda>k n p. p) sample_env (replicate 12 CHR ''n'')) 5 req rs)
       [] [(SystemPatch (Inr [(''ai.openai_api_key'', JStr ''s3cret'')]), Some (snd (sample_caller 1 ''super_admin''))),
           (OrgPatch (Inr [(''message.retention_days'', JNum 400)]), Some (snd (sample_caller 1 ''org_admin'')))])"
  by (rule settings_stay_ok) (simp add: settings_ok_def)

lemma settings_list_masks_witness:
  "list_all (\<lambda>s. \<not> secret_key (se_Key s) \<or> se_Value s = JStr [])
     [\<lparr>se_Key = ''ai.openai_api_key'', se_Value = JStr [], se_Inherited = False, se_UpdatedBy = None,
       se_UpdatedAt = 3, se_Configured = True\<rparr>]"
  by (rule settings_list_masks [where err = no_faults and ctx = "Some (snd (sample_caller 1 ''super_admin''))" and code = 200
        and rows = "[\<lparr>st_OrganizationID = None, st_Key = ''ai.openai_api_key'', st_Value = JStr ''enc:v1:x'',
                      st_UpdatedBy = None, st_UpdatedAt = 3\<rparr>]"])
     (simp add: settings_list_def sample_caller_def settings_isAdmin_def maskSecretSetting_def scan_setting_def
        settingMeta_def meta_in_def DefaultKeys_def meta_of_def meta_enum_def meta_range_def unmarshal_string_def)

end
