(* ===== verification/GoScan.thy ===== *)
theory GoScan
  imports GoCodec
begin

text \<open>\<open>strconv.Itoa\<close> and the scanning of decimal numbers by \<open>fmt.Sscanf\<close>.\<close>

fun itoa :: "nat \<Rightarrow> string" where
  "itoa n = (if n < 10 then [byte_char (48 + n)] else itoa (n div 10) @ [byte_char (48 + n mod 10)])"

declare itoa.simps [simp del]

lemma digit_char: "d < 10 \<Longrightarrow> is_digit (byte_char (48 + d)) \<and> digit_val (byte_char (48 + d)) = d"
  by (simp add: is_digit_def digit_val_def byte_byte_char)

lemma itoa_digits: "itoa n \<noteq> [] \<and> list_all is_digit (itoa n)"
proof (induction n rule: itoa.induct)
  case (1 n)
  then show ?case using digit_char [of n] digit_char [of "n mod 10"] by (simp add: itoa.simps [of n])
qed

lemma decimal_snoc: "decimal (s @ [c]) = 10 * decimal s + digit_val c"
  by (simp add: decimal_def)

lemma decimal_itoa [simp]: "decimal (itoa n) = n"
proof (induction n rule: itoa.induct)
  case (1 n)
  have small: "n < 10 \<Longrightarrow> itoa n = [byte_char (48 + n)]" by (simp add: itoa.simps [of n])
  have large: "\<not> n < 10 \<Longrightarrow> itoa n = itoa (n div 10) @ [byte_char (48 + n mod 10)]" by (simp add: itoa.simps [of n])
  show ?case
    using 1 small large digit_char [of n] digit_char [of "n mod 10"]
    by (cases "n < 10") (simp_all add: decimal_snoc, simp add: decimal_def)
qed

text \<open>White space before a number, but no line break.\<close>

definition scan_blank :: "char \<Rightarrow> bool" where
  "scan_blank c = (is_space c \<and> c \<noteq> CHR 0x0A)"

text \<open>An unsigned and a signed number at the start of the input, with the rest of it.\<close>

definition scan_uint :: "string \<Rightarrow> (nat \<times> string) option" where
  "scan_uint s =
     (let t = dropWhile scan_blank s;
          ds = takeWhile is_digit t
      in if ds = [] then None else Some (decimal ds, drop (length ds) t))"

definition scan_int :: "string \<Rightarrow> (int \<times> string) option" where
  "scan_int s =
     (let t = dropWhile scan_blank s;
          neg = has_prefix t ''-'';
          u = (if neg \<or> has_prefix t ''+'' then drop 1 t else t);
          ds = takeWhile is_digit u;
          n = (if neg then - int (decimal ds) else int (decimal ds))
      in if ds = [] \<or> n < - (2 ^ 63) \<or> n \<ge> 2 ^ 63 then None else Some (n, drop (length ds) u))"

text \<open>A literal part of the format.\<close>

definition scan_lit :: "string \<Rightarrow> string \<Rightarrow> string option" where
  "scan_lit lit s = (if has_prefix s lit then Some (drop (length lit) s) else None)"

lemma scan_lit_append [simp]: "scan_lit lit (lit @ s) = Some s"
  by (simp add: scan_lit_def)

lemma takeWhile_itoa:
  assumes "case rest of [] \<Rightarrow> True | c # _ \<Rightarrow> \<not> is_digit c"
  shows "takeWhile is_digit (itoa n @ rest) = itoa n"
proof -
  have "takeWhile is_digit rest = []" using assms by (cases rest) auto
  then show ?thesis using itoa_digits [of n] by (simp add: takeWhile_append2 list_all_iff)
qed

lemma itoa_start: "dropWhile scan_blank (itoa n @ rest) = itoa n @ rest \<and>
    \<not> has_prefix (itoa n @ rest) ''-'' \<and> \<not> has_prefix (itoa n @ rest) ''+''"
proof -
  obtain c cs where c: "itoa n = c # cs" "is_digit c" using itoa_digits [of n] by (cases "itoa n") auto
  then have "c \<noteq> CHR ''-''" "c \<noteq> CHR ''+''" "\<not> scan_blank c"
    by (auto simp: scan_blank_def is_digit_def is_space_def)
  with c show ?thesis by simp
qed

lemma scan_uint_itoa:
  "(case rest of [] \<Rightarrow> True | c # _ \<Rightarrow> \<not> is_digit c) \<Longrightarrow> scan_uint (itoa n @ rest) = Some (n, rest)"
  using takeWhile_itoa [of rest n] itoa_start [of n rest] itoa_digits [of n] by (simp add: scan_uint_def)

lemma scan_int_itoa:
  "(case rest of [] \<Rightarrow> True | c # _ \<Rightarrow> \<not> is_digit c) \<Longrightarrow> n < 2 ^ 63 \<Longrightarrow>
     scan_int (itoa n @ rest) = Some (int n, rest)"
  using takeWhile_itoa [of rest n] itoa_start [of n rest] itoa_digits [of n] by (simp add: scan_int_def)

end
