(* ===== verification/AuthStore.thy ===== *)
theory AuthStore
  imports GoScan Tables
begin

text \<open>
  \<open>internal/auth\<close>: password hashes (\<open>password.go\<close>), the session store (\<open>session.go\<close>), the
  middleware and TOTP enrollment with its signed login challenge (\<open>mfa.go\<close>). Parameters are
  Argon2id (\<open>argon2 pw salt time memory threads keyLen\<close>), SHA-256, the TOTP check and the text
  form of UUIDs; random bytes are arguments.
\<close>

section \<open>Passwords\<close>

definition argonTime :: nat where "argonTime = 3"
definition argonMemory :: nat where "argonMemory = 65536"
definition argonThreads :: nat where "argonThreads = 2"
definition argonKeyLen :: nat where "argonKeyLen = 32"

type_synonym argon = "string \<Rightarrow> string \<Rightarrow> nat \<Rightarrow> nat \<Rightarrow> nat \<Rightarrow> nat \<Rightarrow> string"

text \<open>\<open>argon2.Version\<close> is 0x13.\<close>

definition HashPassword :: "argon \<Rightarrow> string \<Rightarrow> string \<Rightarrow> string result" where
  "HashPassword argon2 salt pw =
     (if pw = [] then Inl ''empty password''
      else Inr (''$argon2id$v='' @ itoa 19 @ ''$m='' @ itoa argonMemory @ '',t='' @ itoa argonTime @ '',p='' @
             itoa argonThreads @ ''$'' @ raw64_encode False salt @ ''$'' @
             raw64_encode False (argon2 pw salt argonTime argonMemory argonThreads argonKeyLen)))"

definition parse_version :: "string \<Rightarrow> int option" where
  "parse_version s =
     (case scan_lit ''v='' s of None \<Rightarrow> None | Some r \<Rightarrow> map_option fst (scan_int r))"

text \<open>The parameters are a \<open>uint32\<close>, a \<open>uint32\<close> and a \<open>uint8\<close>.\<close>

definition parse_params :: "string \<Rightarrow> (nat \<times> nat \<times> nat) option" where
  "parse_params s =
     Option.bind (scan_lit ''m='' s) (\<lambda>r1.
     Option.bind (scan_uint r1) (\<lambda>(m, r2).
     Option.bind (scan_lit '',t='' r2) (\<lambda>r3.
     Option.bind (scan_uint r3) (\<lambda>(t, r4).
     Option.bind (scan_lit '',p='' r4) (\<lambda>r5.
     Option.bind (scan_uint r5) (\<lambda>(p, _).
       if m < 2 ^ 32 \<and> t < 2 ^ 32 \<and> p < 2 ^ 8 then Some (m, t, p) else None))))))"

text \<open>\<open>None\<close> is success. \<open>argon2.IDKey\<close> panics on zero passes or threads.\<close>

definition VerifyPassword :: "argon \<Rightarrow> string \<Rightarrow> string \<Rightarrow> string option" where
  "VerifyPassword argon2 pw encoded =
     (let parts = split_char encoded CHR ''$''
      in if length parts \<noteq> 6 \<or> parts ! 1 \<noteq> ''argon2id'' then Some ''invalid hash format''
         else if parse_version (parts ! 2) \<noteq> Some 19 then Some ''unsupported argon2 version''
         else case parse_params (parts ! 3) of
           None \<Rightarrow> Some ''invalid hash params''
         | Some (m, t, p) \<Rightarrow>
             case raw64_decode False (parts ! 4) of
               None \<Rightarrow> Some ''invalid salt''
             | Some salt \<Rightarrow>
                 case raw64_decode False (parts ! 5) of
                   None \<Rightarrow> Some ''invalid hash''
                 | Some want \<Rightarrow>
                     if t = 0 \<or> p = 0 then Some ''panic''
                     else if argon2 pw salt t m p (length want) \<noteq> want then Some ''password mismatch''
                     else None)"

section \<open>Sessions\<close>

definition SessionTTL :: nat where "SessionTTL = 12 * 60 * 60"

record Session =
  sn_Token :: string
  sn_UserID :: uuid
  sn_OrganizationID :: uuid
  sn_ExpiresAt :: nat

definition nullableString :: "string \<Rightarrow> string option" where
  "nullableString s = (if s = [] then None else Some s)"

definition nullableIP :: "string option \<Rightarrow> string option" where
  "nullableIP ip = ip"

definition createWithImpersonator ::
  "faults \<Rightarrow> (string \<Rightarrow> string) \<Rightarrow> string \<Rightarrow> nat \<Rightarrow> uuid \<Rightarrow> uuid \<Rightarrow> uuid option \<Rightarrow> string \<Rightarrow> string option \<Rightarrow>
     session_row list \<Rightarrow> Session result \<times> session_row list" where
  "createWithImpersonator err sha256 raw now userID orgID impersonator ua ip rows =
     (if err ''rand'' then (Inl ''rand'', rows)
      else
        (let token = raw64_encode True raw;
             expires = now + SessionTTL
         in if err ''insert sessions'' then (Inl ''insert sessions'', rows)
            else (Inr \<lparr>sn_Token = token, sn_UserID = userID, sn_OrganizationID = orgID, sn_ExpiresAt = expires\<rparr>,
                  rows @ [\<lparr>ss_TokenHash = sha256 token, ss_UserID = userID, ss_OrganizationID = orgID,
                           ss_UserAgent = nullableString ua, ss_IPAddr = nullableIP ip, ss_ExpiresAt = expires,
                           ss_RevokedAt = None, ss_ImpersonatorUserID = impersonator\<rparr>])))"

definition session_Create where
  "session_Create err sha256 raw now userID orgID ua ip rows =
     createWithImpersonator err sha256 raw now userID orgID None ua ip rows"

definition CreateImpersonated where
  "CreateImpersonated err sha256 raw now targetUserID targetOrgID impersonatorID ua ip rows =
     createWithImpersonator err sha256 raw now targetUserID targetOrgID (Some impersonatorID) ua ip rows"

text \<open>\<open>None\<close> is any error of \<open>Lookup\<close>: an empty token, a failed query, or no matching session.\<close>

definition session_Lookup ::
  "faults \<Rightarrow> (string \<Rightarrow> string) \<Rightarrow> nat \<Rightarrow> user_row list \<Rightarrow> session_row list \<Rightarrow> string \<Rightarrow> identity option" where
  "session_Lookup err sha256 now users rows token =
     (if token = [] then None
      else if err ''select sessions'' then None
      else
        (case find (\<lambda>s. ss_TokenHash s = sha256 token \<and> ss_RevokedAt s = None \<and> ss_ExpiresAt s > now \<and>
                (case user_by_id users (ss_UserID s) of None \<Rightarrow> False | Some u \<Rightarrow> u_IsActive u)) rows of
           None \<Rightarrow> None
         | Some s \<Rightarrow>
             map_option (\<lambda>u. \<lparr>id_UserID = u_ID u, id_OrganizationID = u_OrganizationID u, id_Email = u_Email u,
               id_Role = u_Role u, id_Impersonator = ss_ImpersonatorUserID s,
               id_ImpersonatorEmail = (case ss_ImpersonatorUserID s of None \<Rightarrow> []
                 | Some i \<Rightarrow> (case user_by_id users i of None \<Rightarrow> [] | Some a \<Rightarrow> u_Email a))\<rparr>)
               (user_by_id users (ss_UserID s))))"

definition session_Revoke :: "faults \<Rightarrow> (string \<Rightarrow> string) \<Rightarrow> nat \<Rightarrow> string \<Rightarrow> session_row list \<Rightarrow> session_row list" where
  "session_Revoke err sha256 now token rows =
     (if err ''revoke session'' then rows
      else update_where (\<lambda>s. ss_TokenHash s = sha256 token \<and> ss_RevokedAt s = None)
             (\<lambda>s. s\<lparr>ss_RevokedAt := Some now\<rparr>) rows)"

text \<open>All sessions of a user, as the user administration revokes them.\<close>

definition revoke_user_sessions :: "faults \<Rightarrow> nat \<Rightarrow> uuid \<Rightarrow> session_row list \<Rightarrow> session_row list" where
  "revoke_user_sessions err now user rows =
     (if err ''revoke sessions'' then rows
      else update_where (\<lambda>s. ss_UserID s = user \<and> ss_RevokedAt s = None) (\<lambda>s. s\<lparr>ss_RevokedAt := Some now\<rparr>) rows)"

subsection \<open>The middleware\<close>

text \<open>
  \<open>Middleware\<close> answers 401 or runs the handler with the identity; \<open>RequireRole\<close> answers 401,
  403 or runs it. \<open>http.Error\<close> is written like \<open>WriteError\<close>.
\<close>

definition Middleware ::
  "faults \<Rightarrow> (string \<Rightarrow> string) \<Rightarrow> nat \<Rightarrow> user_row list \<Rightarrow> session_row list \<Rightarrow> string option \<Rightarrow>
     (identity option \<Rightarrow> 'a response) \<Rightarrow> 'a response" where
  "Middleware err sha256 now users rows cookie handler =
     (case cookie of
        None \<Rightarrow> WriteError 401 ''unauthenticated''
      | Some value \<Rightarrow>
          if value = [] then WriteError 401 ''unauthenticated''
          else case session_Lookup err sha256 now users rows value of
                 None \<Rightarrow> WriteError 401 ''unauthenticated''
               | Some ident \<Rightarrow> handler (Some ident))"

definition RequireRole :: "string list \<Rightarrow> identity option \<Rightarrow> (identity option \<Rightarrow> 'a response) \<Rightarrow> 'a response" where
  "RequireRole roles ctx handler =
     (case ctx of
        None \<Rightarrow> WriteError 401 ''unauthenticated''
      | Some ident \<Rightarrow> if id_Role ident \<notin> set roles then WriteError 403 ''forbidden'' else handler ctx)"

section \<open>Second factor\<close>

definition MFAPendingTTL :: nat where "MFAPendingTTL = 5 * 60"

text \<open>The secret (empty when none is stored) and whether the user is enrolled.\<close>

definition loadMFA :: "faults \<Rightarrow> user_row list \<Rightarrow> uuid \<Rightarrow> (string \<times> bool) result" where
  "loadMFA err users user =
     (if err ''select mfa'' then Inl ''db''
      else case user_by_id users user of
             None \<Rightarrow> Inl ''user not found''
           | Some u \<Rightarrow> Inr (case u_MFASecret u of None \<Rightarrow> [] | Some s \<Rightarrow> s, u_MFAEnrolledAt u \<noteq> None))"

definition set_mfa :: "nat \<Rightarrow> string option \<Rightarrow> nat option \<Rightarrow> uuid \<Rightarrow> user_row list \<Rightarrow> user_row list" where
  "set_mfa now secret enrolled user users =
     update_where (\<lambda>u. u_ID u = user) (\<lambda>u. u\<lparr>u_MFASecret := secret, u_MFAEnrolledAt := enrolled, u_UpdatedAt := now\<rparr>) users"

definition MFASetup :: "faults \<Rightarrow> string \<Rightarrow> nat \<Rightarrow> uuid \<Rightarrow> user_row list \<Rightarrow> string result \<times> user_row list" where
  "MFASetup err new_secret now user users =
     (if err ''generate'' then (Inl ''generate'', users)
      else if err ''update mfa'' then (Inl ''update mfa'', users)
      else (Inr new_secret, set_mfa now (Some new_secret) None user users))"

definition MFAConfirm ::
  "faults \<Rightarrow> (string \<Rightarrow> string \<Rightarrow> nat \<Rightarrow> bool) \<Rightarrow> nat \<Rightarrow> uuid \<Rightarrow> string \<Rightarrow> user_row list \<Rightarrow> string option \<times> user_row list" where
  "MFAConfirm err totp now user code users =
     (case loadMFA err users user of
        Inl e \<Rightarrow> (Some e, users)
      | Inr (secret, _) \<Rightarrow>
          if secret = [] then (Some ''no pending MFA secret; call setup first'', users)
          else if \<not> totp code secret now then (Some ''invalid code'', users)
          else if err ''update mfa'' then (Some ''update mfa'', users)
          else (None, update_where (\<lambda>u. u_ID u = user) (\<lambda>u. u\<lparr>u_MFAEnrolledAt := Some now, u_UpdatedAt := now\<rparr>) users))"

definition MFADisable ::
  "faults \<Rightarrow> (string \<Rightarrow> string \<Rightarrow> nat \<Rightarrow> bool) \<Rightarrow> nat \<Rightarrow> uuid \<Rightarrow> string \<Rightarrow> user_row list \<Rightarrow> string option \<times> user_row list" where
  "MFADisable err totp now user code users =
     (case loadMFA err users user of
        Inl e \<Rightarrow> (Some e, users)
      | Inr (secret, enrolled) \<Rightarrow>
          if \<not> enrolled \<or> secret = [] then (Some ''MFA not enrolled'', users)
          else if \<not> totp code secret now then (Some ''invalid code'', users)
          else if err ''update mfa'' then (Some ''update mfa'', users)
          else (None, set_mfa now None None user users))"

definition MFAVerify :: "faults \<Rightarrow> (string \<Rightarrow> string \<Rightarrow> nat \<Rightarrow> bool) \<Rightarrow> nat \<Rightarrow> uuid \<Rightarrow> string \<Rightarrow> user_row list \<Rightarrow> string option" where
  "MFAVerify err totp now user code users =
     (case loadMFA err users user of
        Inl e \<Rightarrow> Some e
      | Inr (secret, enrolled) \<Rightarrow>
          if \<not> enrolled \<or> secret = [] then Some ''MFA not enrolled''
          else if \<not> totp code secret now then Some ''invalid code''
          else None)"

subsection \<open>The login challenge\<close>

definition signChallenge :: "(string \<Rightarrow> string) \<Rightarrow> string \<Rightarrow> string \<Rightarrow> string" where
  "signChallenge sha256 secret body = sha256 (secret @ ''|mfa|'' @ body)"

record MFAPendingChallenge =
  mc_Challenge :: string
  mc_ExpiresAt :: nat

definition IssueMFAChallenge :: "(string \<Rightarrow> string) \<Rightarrow> (uuid \<Rightarrow> string) \<Rightarrow> string \<Rightarrow> nat \<Rightarrow> uuid \<Rightarrow> MFAPendingChallenge" where
  "IssueMFAChallenge sha256 uuid_text secret now user =
     (let expiry = now + MFAPendingTTL;
          body = uuid_text user @ '':'' @ itoa expiry;
          mac = signChallenge sha256 secret body
      in \<lparr>mc_Challenge = raw64_encode True body @ ''.'' @ raw64_encode True mac, mc_ExpiresAt = expiry\<rparr>)"

text \<open>\<open>Sscanf(body, "%36s:%d")\<close>: at most 36 characters up to white space, a colon, a number.\<close>

definition scan_challenge :: "string \<Rightarrow> (string \<times> int) option" where
  "scan_challenge body =
     (let t = dropWhile scan_blank body;
          uid = takeWhile (\<lambda>c. \<not> is_space c) (take 36 t)
      in if uid = [] then None
         else Option.bind (scan_lit '':'' (drop (length uid) t)) (\<lambda>r. map_option (\<lambda>(expiry, _). (uid, expiry)) (scan_int r)))"

definition ParseMFAChallenge ::
  "(string \<Rightarrow> string) \<Rightarrow> (string \<Rightarrow> uuid option) \<Rightarrow> string \<Rightarrow> nat \<Rightarrow> string \<Rightarrow> uuid result" where
  "ParseMFAChallenge sha256 parse_uuid secret now token =
     (if CHR ''.'' \<notin> set token then Inl ''malformed challenge''
      else case raw64_decode True (cut_before token CHR ''.'') of
        None \<Rightarrow> Inl ''bad challenge body''
      | Some body \<Rightarrow>
          case raw64_decode True (cut_after token CHR ''.'') of
            None \<Rightarrow> Inl ''bad challenge mac''
          | Some mac \<Rightarrow>
              if signChallenge sha256 secret body \<noteq> mac then Inl ''challenge signature mismatch''
              else case scan_challenge body of
                None \<Rightarrow> Inl ''malformed challenge payload''
              | Some (uid, expiry) \<Rightarrow>
                  if int now \<ge> expiry then Inl ''challenge expired''
                  else (case parse_uuid uid of None \<Rightarrow> Inl ''invalid UUID'' | Some i \<Rightarrow> Inr i))"

section \<open>Properties\<close>

lemma raw64_encode_chars: "c \<in> set (raw64_encode url s) \<Longrightarrow> raw64_val url c \<noteq> None"
  by (induction url s rule: raw64_encode.induct) (auto simp: base64_digit_val sextets)

lemma raw64_encode_no_sep: "CHR ''$'' \<notin> set (raw64_encode url s)" "CHR ''.'' \<notin> set (raw64_encode url s)"
  using raw64_encode_chars [of "CHR ''$''" url s] raw64_encode_chars [of "CHR ''.''" url s]
  by (cases url; auto simp: raw64_val_def)+

lemma split_char_prefix: "x \<notin> set w \<Longrightarrow> split_char (w @ x # s) x = w # split_char s x"
  by (induction w) auto

lemma split_char_single: "x \<notin> set w \<Longrightarrow> split_char w x = [w]"
  by (induction w) auto

lemma itoa_no_sep: "c \<in> set (itoa n) \<Longrightarrow> is_digit c"
  using itoa_digits [of n] by (auto simp: list_all_iff)

lemma itoa_no_dollar: "CHR ''$'' \<notin> set (itoa n)"
  using itoa_no_sep [of "CHR ''$''" n] by auto

lemma parse_version_itoa [simp]: "n < 2 ^ 63 \<Longrightarrow> parse_version (''v='' @ itoa n) = Some (int n)"
  using scan_int_itoa [of "[]" n] by (simp only: parse_version_def scan_lit_append) simp

lemma parse_params_itoa [simp]:
  assumes "m < 2 ^ 32" "t < 2 ^ 32" "p < 2 ^ 8"
  shows "parse_params (''m='' @ itoa m @ '',t='' @ itoa t @ '',p='' @ itoa p) = Some (m, t, p)"
proof -
  have s: "scan_uint (itoa m @ '',t='' @ itoa t @ '',p='' @ itoa p) = Some (m, '',t='' @ itoa t @ '',p='' @ itoa p)"
    "scan_uint (itoa t @ '',p='' @ itoa p) = Some (t, '',p='' @ itoa p)" "scan_uint (itoa p) = Some (p, [])"
    using scan_uint_itoa [of "'',t='' @ itoa t @ '',p='' @ itoa p" m] scan_uint_itoa [of "'',p='' @ itoa p" t]
      scan_uint_itoa [of "[]" p] by simp_all
  show ?thesis
    unfolding parse_params_def
    by (simp only: scan_lit_append s Option.bind.bind_lunit prod.case assms simp_thms if_True)
qed

lemma HashPassword_parts:
  assumes "HashPassword argon2 salt pw = Inr h"
  shows "split_char h CHR ''$'' = [[], ''argon2id'', ''v='' @ itoa 19,
     ''m='' @ itoa argonMemory @ '',t='' @ itoa argonTime @ '',p='' @ itoa argonThreads,
     raw64_encode False salt, raw64_encode False (argon2 pw salt argonTime argonMemory argonThreads argonKeyLen)]"
proof -
  let ?key = "raw64_encode False (argon2 pw salt argonTime argonMemory argonThreads argonKeyLen)"
  let ?ps = "''m='' @ itoa argonMemory @ '',t='' @ itoa argonTime @ '',p='' @ itoa argonThreads"
  have h: "h = [] @ CHR ''$'' # ''argon2id'' @ CHR ''$'' # (''v='' @ itoa 19) @ CHR ''$'' # ?ps @ CHR ''$'' #
      raw64_encode False salt @ CHR ''$'' # ?key"
    using assms by (simp add: HashPassword_def split: if_splits)
  show ?thesis
    unfolding h
    using split_char_prefix [of "CHR ''$''" ?ps] itoa_no_dollar raw64_encode_no_sep(1)
    by (subst split_char_prefix; simp add: split_char_prefix split_char_single)+
qed

lemma verify_hashed:
  assumes "\<And>n. length (argon2 pw salt argonTime argonMemory argonThreads n) = n" and "HashPassword argon2 salt pw = Inr h"
  shows "VerifyPassword argon2 pw h = None"
  using HashPassword_parts [OF assms(2)] assms(1)
  by (simp add: VerifyPassword_def Let_def argonTime_def argonMemory_def argonThreads_def del: append_Cons)

text \<open>Passwords: a hash that \<open>HashPassword\<close> made accepts exactly the passwords with the same
  Argon2id key; the parameters, the salt and the key all survive the text form.\<close>

theorem password_accepts:
  assumes "\<forall>pw salt t m p n. length (argon2 pw salt t m p n) = n" and "HashPassword argon2 salt pw = Inr h"
  shows "VerifyPassword argon2 attempt h = None \<longleftrightarrow>
     argon2 attempt salt argonTime argonMemory argonThreads argonKeyLen =
     argon2 pw salt argonTime argonMemory argonThreads argonKeyLen"
  using HashPassword_parts [OF assms(2)] assms(1)
  by (simp add: VerifyPassword_def Let_def argonTime_def argonMemory_def argonThreads_def del: append_Cons)

lemma password_accepts_witness:
  "\<exists>h. HashPassword (\<lambda>pw salt t m p n. take n (pw @ replicate n CHR ''0'')) ''salt'' ''secret'' = Inr h \<and>
     VerifyPassword (\<lambda>pw salt t m p n. take n (pw @ replicate n CHR ''0'')) ''secret'' h = None"
proof -
  let ?argon = "\<lambda>pw salt t m p n. take n (pw @ replicate n CHR ''0'')"
  have "\<forall>pw salt t m p n. length (?argon pw salt t m p n) = n" by (simp add: min_def)
  moreover obtain h where "HashPassword ?argon ''salt'' ''secret'' = Inr h" by (simp add: HashPassword_def)
  ultimately show ?thesis
    using password_accepts [of ?argon "''salt''" "''secret''" h "''secret''"] by auto
qed

lemma scan_challenge_body:
  assumes "length uid = 36" "list_all (\<lambda>c. \<not> is_space c) uid" "n < 2 ^ 63"
  shows "scan_challenge (uid @ '':'' @ itoa n) = Some (uid, int n)"
proof -
  obtain c cs where c: "uid = c # cs" using assms(1) by (cases uid) auto
  then have "dropWhile scan_blank (uid @ '':'' @ itoa n) = uid @ '':'' @ itoa n"
    using assms(2) by (simp add: scan_blank_def)
  moreover have "takeWhile (\<lambda>c. \<not> is_space c) (take 36 (uid @ '':'' @ itoa n)) = uid"
    using assms(1,2) by (simp add: takeWhile_eq_all_conv list_all_iff)
  ultimately show ?thesis
    using scan_int_itoa [of "[]" n] assms(1,3) c
    by (simp add: scan_challenge_def Let_def del: append_Cons)
qed

lemma cut_at:
  assumes "x \<notin> set a"
  shows "cut_before (a @ [x] @ s) x = a" "cut_after (a @ [x] @ s) x = s"
proof -
  show "cut_before (a @ [x] @ s) x = a" using assms by (induction a) (auto simp: cut_before_def)
  show "cut_after (a @ [x] @ s) x = s" using assms by (induction a) (auto simp: cut_after_def)
qed

text \<open>Login challenges: the challenge of a user is accepted as that user until five minutes have passed,
  and as nobody afterwards.\<close>

theorem challenge_roundtrip:
  assumes "parse_uuid (uuid_text user) = Some user" "length (uuid_text user) = 36"
    and "list_all (\<lambda>c. \<not> is_space c) (uuid_text user)" "now + MFAPendingTTL < 2 ^ 63"
  shows "ParseMFAChallenge sha256 parse_uuid secret later (mc_Challenge (IssueMFAChallenge sha256 uuid_text secret now user)) =
     (if later < now + MFAPendingTTL then Inr user else Inl ''challenge expired'')"
proof -
  let ?body = "uuid_text user @ '':'' @ itoa (now + MFAPendingTTL)"
  let ?token = "raw64_encode True ?body @ ''.'' @ raw64_encode True (signChallenge sha256 secret ?body)"
  have "cut_before ?token CHR ''.'' = raw64_encode True ?body"
    "cut_after ?token CHR ''.'' = raw64_encode True (signChallenge sha256 secret ?body)"
    by (simp_all only: cut_at raw64_encode_no_sep not_False_eq_True)
  then show ?thesis
    using scan_challenge_body [OF assms(2,3,4)] assms(1)
    by (simp add: ParseMFAChallenge_def IssueMFAChallenge_def Let_def)
qed

lemma challenge_roundtrip_witness:
  "ParseMFAChallenge (\<lambda>s. s) (\<lambda>_. Some 7) ''key'' 1299
     (mc_Challenge (IssueMFAChallenge (\<lambda>s. s) (\<lambda>_. replicate 36 CHR ''a'') ''key'' 1000 7)) = Inr 7"
  using challenge_roundtrip [of "\<lambda>_. Some 7" "\<lambda>_. replicate 36 CHR ''a''" 7 1000 "\<lambda>s. s" "''key''" 1299]
  by (simp add: MFAPendingTTL_def list_all_iff)

text \<open>A token is accepted only when it carries the signature of its own body under the server's secret.\<close>

lemma challenge_signed:
  assumes "ParseMFAChallenge sha256 parse_uuid secret now token = Inr user"
  shows "\<exists>body expiry. raw64_decode True (cut_before token CHR ''.'') = Some body \<and>
     raw64_decode True (cut_after token CHR ''.'') = Some (sha256 (secret @ ''|mfa|'' @ body)) \<and>
     (\<exists>uid. scan_challenge body = Some (uid, expiry) \<and> parse_uuid uid = Some user) \<and> int now < expiry"
  using assms
  by (auto simp: ParseMFAChallenge_def signChallenge_def split: if_splits option.splits prod.splits)

end
