(* ===== verification/AuthHandlers.thy ===== *)
theory AuthHandlers
  imports AuthStore
begin

text \<open>
  The handlers of \<open>internal/auth/handlers.go\<close> and the MFA handlers of \<open>mfa.go\<close>. Their state is
  the user and session tables and the session cookie that the client holds. What a request brings
  besides its body (time, random bytes, address, keys) and the parameters of the store are fields of
  one record. Audit records and the address parsing of \<open>clientIP\<close> are left out.
\<close>

record auth_env =
  ae_Err :: faults
  ae_SHA256 :: "string \<Rightarrow> string"
  ae_Argon2 :: argon
  ae_TOTP :: "string \<Rightarrow> string \<Rightarrow> nat \<Rightarrow> bool"
  ae_UUIDText :: "uuid \<Rightarrow> string"
  ae_ParseUUID :: "string \<Rightarrow> uuid option"
  ae_ChallengeKey :: string
  ae_Now :: nat
  ae_Random :: string
  ae_NewSecret :: string
  ae_UserAgent :: string
  ae_ClientIP :: "string option"

record auth_state =
  as_Users :: "user_row list"
  as_Sessions :: "session_row list"
  as_Cookie :: "string option"

record meResp =
  me_UserID :: uuid
  me_OrganizationID :: uuid
  me_Email :: string
  me_Role :: string
  me_Impersonating :: bool
  me_ImpersonatorEmail :: string

datatype auth_reply =
    StatusOK
  | MFARequired MFAPendingChallenge
  | Me_reply meResp
  | SetupReply string

definition session_identity :: "auth_env \<Rightarrow> auth_state \<Rightarrow> identity option" where
  "session_identity env st =
     (case as_Cookie st of None \<Rightarrow> None
      | Some t \<Rightarrow> session_Lookup (ae_Err env) (ae_SHA256 env) (ae_Now env) (as_Users st) (as_Sessions st) t)"

text \<open>A successful \<open>Create\<close> and the cookie it sets; an error answers 500 with the given text.\<close>

definition start_session ::
  "auth_env \<Rightarrow> uuid \<Rightarrow> uuid \<Rightarrow> uuid option \<Rightarrow> string \<Rightarrow> auth_reply response \<Rightarrow> auth_state \<Rightarrow> auth_reply response \<times> auth_state" where
  "start_session env user org impersonator failure success st =
     (let (r, sessions) = createWithImpersonator (ae_Err env) (ae_SHA256 env) (ae_Random env) (ae_Now env)
            user org impersonator (ae_UserAgent env) (ae_ClientIP env) (as_Sessions st)
      in case r of
           Inl e \<Rightarrow> (WriteError 500 failure, st)
         | Inr sess \<Rightarrow> (success, st\<lparr>as_Sessions := sessions, as_Cookie := Some (sn_Token sess)\<rparr>))"

definition record_login :: "auth_env \<Rightarrow> uuid \<Rightarrow> auth_state \<Rightarrow> auth_state" where
  "record_login env user st =
     (if ae_Err env ''update last_login'' then st
      else st\<lparr>as_Users := update_where (\<lambda>u. u_ID u = user)
                (\<lambda>u. u\<lparr>u_LastLoginAt := Some (ae_Now env), u_FailedLoginCount := 0\<rparr>) (as_Users st)\<rparr>)"

text \<open>\<open>record_login\<close> only after a session was started.\<close>

definition finish_login :: "auth_env \<Rightarrow> uuid \<Rightarrow> uuid \<Rightarrow> string \<Rightarrow> auth_state \<Rightarrow> auth_reply response \<times> auth_state" where
  "finish_login env user org failure st =
     (case start_session env user org None failure (WriteJSON 200 StatusOK) st of
        (WriteJSON n r, st') \<Rightarrow> (WriteJSON n r, record_login env user st')
      | (r, st') \<Rightarrow> (r, st'))"

definition Login :: "auth_env \<Rightarrow> (string \<times> string) result \<Rightarrow> auth_state \<Rightarrow> auth_reply response \<times> auth_state" where
  "Login env body st =
     (case body of
        Inl e \<Rightarrow> (WriteError 400 ''bad request'', st)
      | Inr (email0, password) \<Rightarrow>
          (let email = trim_space (to_lower email0)
           in if email = [] \<or> password = [] then (WriteError 401 ''invalid credentials'', st)
              else if ae_Err env ''select users'' then (WriteError 500 ''internal'', st)
              else case find (\<lambda>u. equal_fold (u_Email u) email) (as_Users st) of
                None \<Rightarrow> (WriteError 401 ''invalid credentials'', st)
              | Some u \<Rightarrow>
                  if \<not> u_IsActive u then (WriteError 401 ''invalid credentials'', st)
                  else if VerifyPassword (ae_Argon2 env) password (u_PasswordHash u) \<noteq> None then
                    (WriteError 401 ''invalid credentials'', st)
                  else if u_MFAEnrolledAt u \<noteq> None \<and> length (ae_ChallengeKey env) \<ge> 32 then
                    (WriteJSON 200 (MFARequired (IssueMFAChallenge (ae_SHA256 env) (ae_UUIDText env)
                       (ae_ChallengeKey env) (ae_Now env) (u_ID u))), st)
                  else finish_login env (u_ID u) (u_OrganizationID u) ''internal'' st))"

definition MFAVerifyLogin :: "auth_env \<Rightarrow> (string \<times> string) result \<Rightarrow> auth_state \<Rightarrow> auth_reply response \<times> auth_state" where
  "MFAVerifyLogin env body st =
     (case body of
        Inl e \<Rightarrow> (WriteError 400 ''bad request'', st)
      | Inr (challenge, code) \<Rightarrow>
          case ParseMFAChallenge (ae_SHA256 env) (ae_ParseUUID env) (ae_ChallengeKey env) (ae_Now env) challenge of
            Inl e \<Rightarrow> (WriteError 401 (''invalid challenge: '' @ e), st)
          | Inr user \<Rightarrow>
              if MFAVerify (ae_Err env) (ae_TOTP env) (ae_Now env) user code (as_Users st) \<noteq> None then
                (WriteError 401 ''invalid code'', st)
              else case (if ae_Err env ''select organization'' then None else user_by_id (as_Users st) user) of
                None \<Rightarrow> (WriteError 500 ''user lookup failed'', st)
              | Some u \<Rightarrow> finish_login env user (u_OrganizationID u) ''session create failed'' st)"

definition revoke_cookie :: "auth_env \<Rightarrow> auth_state \<Rightarrow> auth_state" where
  "revoke_cookie env st =
     (case as_Cookie st of
        None \<Rightarrow> st
      | Some t \<Rightarrow> st\<lparr>as_Sessions := session_Revoke (ae_Err env) (ae_SHA256 env) (ae_Now env) t (as_Sessions st)\<rparr>)"

text \<open>\<open>ctx\<close> is the identity that the middleware found; \<open>target\<close> is the parsed body, \<open>None\<close> for a bad id.\<close>

definition StartImpersonating ::
  "auth_env \<Rightarrow> identity option \<Rightarrow> uuid option result \<Rightarrow> auth_state \<Rightarrow> auth_reply response \<times> auth_state" where
  "StartImpersonating env ctx body st =
     (case ctx of
        None \<Rightarrow> (WriteError 401 ''unauthenticated'', st)
      | Some ident \<Rightarrow>
          if id_Role ident \<noteq> ''super_admin'' then (WriteError 403 ''forbidden'', st)
          else if id_Impersonator ident \<noteq> None then (WriteError 409 ''already impersonating; stop first'', st)
          else case body of
            Inl e \<Rightarrow> (WriteError 400 ''bad request'', st)
          | Inr None \<Rightarrow> (WriteError 400 ''invalid target_user_id'', st)
          | Inr (Some target) \<Rightarrow>
              if target = id_UserID ident then (WriteError 400 ''cannot impersonate yourself'', st)
              else case (if ae_Err env ''select target'' then None
                         else find (\<lambda>u. u_ID u = target \<and> u_IsActive u) (as_Users st)) of
                None \<Rightarrow> (WriteError 404 ''target not found or inactive'', st)
              | Some u \<Rightarrow>
                  start_session env target (u_OrganizationID u) (Some (id_UserID ident)) ''internal''
                    (WriteHeader 204) (revoke_cookie env st))"

definition StopImpersonating :: "auth_env \<Rightarrow> identity option \<Rightarrow> auth_state \<Rightarrow> auth_reply response \<times> auth_state" where
  "StopImpersonating env ctx st =
     (case ctx of
        None \<Rightarrow> (WriteError 401 ''unauthenticated'', st)
      | Some ident \<Rightarrow>
          case id_Impersonator ident of
            None \<Rightarrow> (WriteError 409 ''not impersonating'', st)
          | Some admin \<Rightarrow>
              case (if ae_Err env ''select impersonator'' then None
                    else find (\<lambda>u. u_ID u = admin \<and> u_IsActive u) (as_Users st)) of
                None \<Rightarrow> (WriteError 410 ''impersonator no longer active'', st)
              | Some u \<Rightarrow>
                  start_session env admin (u_OrganizationID u) None ''internal'' (WriteHeader 204) (revoke_cookie env st))"

definition Logout :: "auth_env \<Rightarrow> auth_state \<Rightarrow> auth_reply response \<times> auth_state" where
  "Logout env st = (WriteHeader 204, (revoke_cookie env st)\<lparr>as_Cookie := None\<rparr>)"

definition Me :: "identity option \<Rightarrow> auth_reply response" where
  "Me ctx =
     (case ctx of
        None \<Rightarrow> WriteError 401 ''unauthenticated''
      | Some ident \<Rightarrow> WriteJSON 200 (Me_reply \<lparr>me_UserID = id_UserID ident, me_OrganizationID = id_OrganizationID ident,
          me_Email = id_Email ident, me_Role = id_Role ident, me_Impersonating = (id_Impersonator ident \<noteq> None),
          me_ImpersonatorEmail = id_ImpersonatorEmail ident\<rparr>))"

section \<open>MFA handlers\<close>

definition MFA_Setup_handler :: "auth_env \<Rightarrow> identity option \<Rightarrow> auth_state \<Rightarrow> auth_reply response \<times> auth_state" where
  "MFA_Setup_handler env ctx st =
     (case ctx of
        None \<Rightarrow> (WriteError 401 ''unauthenticated'', st)
      | Some ident \<Rightarrow>
          (let (r, users) = MFASetup (ae_Err env) (ae_NewSecret env) (ae_Now env) (id_UserID ident) (as_Users st)
           in case r of
                Inl e \<Rightarrow> (WriteError 500 (''setup failed: '' @ e), st)
              | Inr secret \<Rightarrow> (WriteJSON 200 (SetupReply secret), st\<lparr>as_Users := users\<rparr>)))"

definition MFA_Confirm_handler :: "auth_env \<Rightarrow> identity option \<Rightarrow> string result \<Rightarrow> auth_state \<Rightarrow> auth_reply response \<times> auth_state" where
  "MFA_Confirm_handler env ctx body st =
     (case ctx of
        None \<Rightarrow> (WriteError 401 ''unauthenticated'', st)
      | Some ident \<Rightarrow>
          case body of
            Inl e \<Rightarrow> (WriteError 400 ''bad request'', st)
          | Inr code \<Rightarrow>
              (let (e, users) = MFAConfirm (ae_Err env) (ae_TOTP env) (ae_Now env) (id_UserID ident) code (as_Users st)
               in case e of Some m \<Rightarrow> (WriteError 400 m, st)
                          | None \<Rightarrow> (WriteHeader 204, st\<lparr>as_Users := users\<rparr>)))"

definition MFA_Disable_handler :: "auth_env \<Rightarrow> identity option \<Rightarrow> string result \<Rightarrow> auth_state \<Rightarrow> auth_reply response \<times> auth_state" where
  "MFA_Disable_handler env ctx body st =
     (case ctx of
        None \<Rightarrow> (WriteError 401 ''unauthenticated'', st)
      | Some ident \<Rightarrow>
          case body of
            Inl e \<Rightarrow> (WriteError 400 ''bad request'', st)
          | Inr code \<Rightarrow>
              (let (e, users) = MFADisable (ae_Err env) (ae_TOTP env) (ae_Now env) (id_UserID ident) code (as_Users st)
               in case e of Some m \<Rightarrow> (WriteError 400 m, st)
                          | None \<Rightarrow> (WriteHeader 204, st\<lparr>as_Users := users\<rparr>)))"

section \<open>Requests\<close>

text \<open>One request of a client: login and its second step are open, the rest is behind the middleware, which
  resolves the client's cookie.\<close>

datatype auth_cmd =
    LoginCmd "(string \<times> string) result"
  | VerifyCmd "(string \<times> string) result"
  | ImpersonateCmd "uuid option result"
  | StopCmd
  | LogoutCmd
  | SetupCmd
  | ConfirmCmd "string result"
  | DisableCmd "string result"

fun auth_step :: "auth_env \<Rightarrow> auth_cmd \<Rightarrow> auth_state \<Rightarrow> auth_reply response \<times> auth_state" where
  "auth_step env (LoginCmd body) st = Login env body st"
| "auth_step env (VerifyCmd body) st = MFAVerifyLogin env body st"
| "auth_step env (ImpersonateCmd body) st = StartImpersonating env (session_identity env st) body st"
| "auth_step env StopCmd st = StopImpersonating env (session_identity env st) st"
| "auth_step env LogoutCmd st = Logout env st"
| "auth_step env SetupCmd st = MFA_Setup_handler env (session_identity env st) st"
| "auth_step env (ConfirmCmd body) st = MFA_Confirm_handler env (session_identity env st) body st"
| "auth_step env (DisableCmd body) st = MFA_Disable_handler env (session_identity env st) body st"

text \<open>What entitles a client to a new session of a user.\<close>

definition entitled :: "auth_env \<Rightarrow> auth_cmd \<Rightarrow> auth_state \<Rightarrow> user_row \<Rightarrow> session_row \<Rightarrow> bool" where
  "entitled env cmd st u s =
     (case cmd of
        LoginCmd (Inr (email, password)) \<Rightarrow>
          u_IsActive u \<and> VerifyPassword (ae_Argon2 env) password (u_PasswordHash u) = None \<and>
          (u_MFAEnrolledAt u = None \<or> length (ae_ChallengeKey env) < 32) \<and> ss_ImpersonatorUserID s = None
      | VerifyCmd (Inr (challenge, code)) \<Rightarrow>
          u_MFAEnrolledAt u \<noteq> None \<and> ae_TOTP env code (case u_MFASecret u of None \<Rightarrow> [] | Some k \<Rightarrow> k) (ae_Now env) \<and>
          ss_ImpersonatorUserID s = None
      | ImpersonateCmd _ \<Rightarrow>
          u_IsActive u \<and> (case session_identity env st of None \<Rightarrow> False
            | Some i \<Rightarrow> id_Role i = ''super_admin'' \<and> id_Impersonator i = None \<and> id_UserID i \<noteq> u_ID u \<and>
                ss_ImpersonatorUserID s = Some (id_UserID i))
      | StopCmd \<Rightarrow>
          u_IsActive u \<and> (case session_identity env st of None \<Rightarrow> False
            | Some i \<Rightarrow> id_Impersonator i = Some (u_ID u) \<and> ss_ImpersonatorUserID s = None)
      | _ \<Rightarrow> False)"

lemma start_session_new:
  assumes "s \<in> set (as_Sessions (snd (start_session env user org imp f ok st)))" "s \<notin> set (as_Sessions st)"
  shows "ss_UserID s = user \<and> ss_ImpersonatorUserID s = imp \<and> ss_ExpiresAt s = ae_Now env + SessionTTL"
  using assms
  by (auto simp: start_session_def createWithImpersonator_def Let_def split: if_splits)

lemma finish_login_new:
  assumes "s \<in> set (as_Sessions (snd (finish_login env user org f st)))" "s \<notin> set (as_Sessions st)"
  shows "ss_UserID s = user \<and> ss_ImpersonatorUserID s = None \<and> ss_ExpiresAt s = ae_Now env + SessionTTL"
proof -
  have "as_Sessions (snd (finish_login env user org f st)) =
      as_Sessions (snd (start_session env user org None f (WriteJSON 200 StatusOK) st))"
    by (auto simp: finish_login_def record_login_def split: response.splits prod.splits)
  with assms start_session_new show ?thesis by metis
qed

lemma revoke_cookie_open:
  "s \<in> set (as_Sessions (revoke_cookie env st)) \<Longrightarrow> ss_RevokedAt s = None \<Longrightarrow> s \<in> set (as_Sessions st)"
  by (auto simp: revoke_cookie_def session_Revoke_def update_where_def split: option.splits if_splits)

lemma MFAVerify_code:
  "MFAVerify err totp now user code users = None \<Longrightarrow>
     \<exists>u \<in> set users. u_ID u = user \<and> u_MFAEnrolledAt u \<noteq> None \<and>
       totp code (case u_MFASecret u of None \<Rightarrow> [] | Some k \<Rightarrow> k) now"
  by (auto simp: MFAVerify_def loadMFA_def split: sum.splits option.splits if_splits dest!: user_by_id_Some)

lemma Login_session:
  assumes "snd (Login env body st) \<noteq> st \<or> fst (Login env body st) = WriteJSON 200 StatusOK"
  shows "\<exists>email pw u. body = Inr (email, pw) \<and> u \<in> set (as_Users st) \<and> u_IsActive u \<and>
     VerifyPassword (ae_Argon2 env) pw (u_PasswordHash u) = None \<and>
     (u_MFAEnrolledAt u = None \<or> length (ae_ChallengeKey env) < 32) \<and>
     Login env body st = finish_login env (u_ID u) (u_OrganizationID u) ''internal'' st"
proof (cases body)
  case (Inr b)
  then obtain email pw where b: "body = Inr (email, pw)" by (cases b) auto
  let ?find = "find (\<lambda>u. equal_fold (u_Email u) (trim_space (to_lower email))) (as_Users st)"
  show ?thesis
  proof (cases ?find)
    case None
    then show ?thesis using assms by (simp add: Login_def b Let_def split: if_splits)
  next
    case (Some u)
    then have "u \<in> set (as_Users st)" by (auto simp: find_Some_iff)
    moreover have "u_IsActive u" "VerifyPassword (ae_Argon2 env) pw (u_PasswordHash u) = None"
      "u_MFAEnrolledAt u = None \<or> length (ae_ChallengeKey env) < 32"
      "Login env body st = finish_login env (u_ID u) (u_OrganizationID u) ''internal'' st"
      using assms Some by (auto simp: Login_def b Let_def split: if_splits)
    ultimately show ?thesis using b by blast
  qed
qed (use assms in \<open>simp add: Login_def\<close>)

lemma MFAVerifyLogin_session:
  assumes "snd (MFAVerifyLogin env body st) \<noteq> st"
  shows "\<exists>ch code user org. body = Inr (ch, code) \<and>
     MFAVerify (ae_Err env) (ae_TOTP env) (ae_Now env) user code (as_Users st) = None \<and>
     MFAVerifyLogin env body st = finish_login env user org ''session create failed'' st"
proof (cases body)
  case (Inr b)
  then obtain ch code where b: "body = Inr (ch, code)" by (cases b) auto
  let ?parse = "ParseMFAChallenge (ae_SHA256 env) (ae_ParseUUID env) (ae_ChallengeKey env) (ae_Now env) ch"
  from assms obtain user where user: "?parse = Inr user" by (cases ?parse) (auto simp: MFAVerifyLogin_def b)
  with assms have v: "MFAVerify (ae_Err env) (ae_TOTP env) (ae_Now env) user code (as_Users st) = None"
    by (simp add: MFAVerifyLogin_def b split: if_splits)
  with assms user obtain u where u: "user_by_id (as_Users st) user = Some u" "\<not> ae_Err env ''select organization''"
    by (cases "user_by_id (as_Users st) user") (auto simp: MFAVerifyLogin_def b split: if_splits)
  with user v have eq: "MFAVerifyLogin env body st = finish_login env user (u_OrganizationID u) ''session create failed'' st"
    by (simp add: MFAVerifyLogin_def b)
  from b v eq show ?thesis by auto
qed (use assms in \<open>simp add: MFAVerifyLogin_def\<close>)

lemma StartImpersonating_session:
  assumes "snd (StartImpersonating env ctx body st) \<noteq> st"
  shows "\<exists>ident u. ctx = Some ident \<and> id_Role ident = ''super_admin'' \<and> id_Impersonator ident = None \<and>
     u \<in> set (as_Users st) \<and> u_IsActive u \<and> id_UserID ident \<noteq> u_ID u \<and>
     StartImpersonating env ctx body st =
       start_session env (u_ID u) (u_OrganizationID u) (Some (id_UserID ident)) ''internal'' (WriteHeader 204) (revoke_cookie env st)"
proof -
  obtain ident where i: "ctx = Some ident" using assms by (cases ctx) (auto simp: StartImpersonating_def)
  obtain t where b: "body = Inr (Some t)"
    using assms by (cases body; cases "projr body") (auto simp: StartImpersonating_def i)
  have r: "id_Role ident = ''super_admin''" "id_Impersonator ident = None" "t \<noteq> id_UserID ident"
    using assms by (auto simp: StartImpersonating_def i b split: if_splits)
  obtain u where u: "find (\<lambda>u. u_ID u = t \<and> u_IsActive u) (as_Users st) = Some u" "\<not> ae_Err env ''select target''"
    using assms r by (cases "find (\<lambda>u. u_ID u = t \<and> u_IsActive u) (as_Users st)")
      (auto simp: StartImpersonating_def i b split: if_splits)
  then have "u \<in> set (as_Users st)" "u_ID u = t" "u_IsActive u" by (auto simp: find_Some_iff)
  moreover have "StartImpersonating env ctx body st =
       start_session env t (u_OrganizationID u) (Some (id_UserID ident)) ''internal'' (WriteHeader 204) (revoke_cookie env st)"
    using u r by (simp add: StartImpersonating_def i b)
  ultimately show ?thesis using i r by (intro exI [of _ ident] exI [of _ u]) simp
qed

lemma StopImpersonating_session:
  assumes "snd (StopImpersonating env ctx st) \<noteq> st"
  shows "\<exists>ident u. ctx = Some ident \<and> id_Impersonator ident = Some (u_ID u) \<and> u \<in> set (as_Users st) \<and> u_IsActive u \<and>
     StopImpersonating env ctx st =
       start_session env (u_ID u) (u_OrganizationID u) None ''internal'' (WriteHeader 204) (revoke_cookie env st)"
proof -
  obtain ident where i: "ctx = Some ident" using assms by (cases ctx) (auto simp: StopImpersonating_def)
  obtain a where a: "id_Impersonator ident = Some a"
    using assms by (cases "id_Impersonator ident") (auto simp: StopImpersonating_def i)
  obtain u where u: "find (\<lambda>u. u_ID u = a \<and> u_IsActive u) (as_Users st) = Some u" "\<not> ae_Err env ''select impersonator''"
    using assms by (cases "find (\<lambda>u. u_ID u = a \<and> u_IsActive u) (as_Users st)")
      (auto simp: StopImpersonating_def i a split: if_splits)
  then have "u \<in> set (as_Users st)" "u_ID u = a" "u_IsActive u" by (auto simp: find_Some_iff)
  moreover have "StopImpersonating env ctx st =
       start_session env a (u_OrganizationID u) None ''internal'' (WriteHeader 204) (revoke_cookie env st)"
    using u by (simp add: StopImpersonating_def i a)
  ultimately show ?thesis using i a by (intro exI [of _ ident] exI [of _ u]) simp
qed

text \<open>C36 (no session without credentials): a request that opens a session for a user either showed that
  active user's password, with no second factor enrolled (or a challenge key too short to use it), or a
  valid code of the user's second factor, or is the impersonation of the user by a super administrator
  who is not impersonating already, or the return of an impersonator to their own account.\<close>

theorem new_session_entitled:
  assumes "s \<in> set (as_Sessions (snd (auth_step env cmd st)))" "s \<notin> set (as_Sessions st)" "ss_RevokedAt s = None"
  shows "\<exists>u \<in> set (as_Users st). u_ID u = ss_UserID s \<and> entitled env cmd st u s"
proof (cases cmd)
  case (LoginCmd body)
  show ?thesis
  proof (cases "snd (Login env body st) = st")
    case False
    from Login_session [OF disjI1 [OF False]] obtain email pw u where u: "body = Inr (email, pw)" "u \<in> set (as_Users st)"
      "u_IsActive u" "VerifyPassword (ae_Argon2 env) pw (u_PasswordHash u) = None"
      "u_MFAEnrolledAt u = None \<or> length (ae_ChallengeKey env) < 32"
      "Login env body st = finish_login env (u_ID u) (u_OrganizationID u) ''internal'' st" by blast
    with assms LoginCmd finish_login_new [of s env "u_ID u" "u_OrganizationID u" "''internal''" st]
    show ?thesis by (auto simp: entitled_def)
  qed (use assms LoginCmd in auto)
next
  case (VerifyCmd body)
  show ?thesis
  proof (cases "snd (MFAVerifyLogin env body st) = st")
    case False
    from MFAVerifyLogin_session [OF False] obtain ch code user org where u: "body = Inr (ch, code)"
      "MFAVerify (ae_Err env) (ae_TOTP env) (ae_Now env) user code (as_Users st) = None"
      "MFAVerifyLogin env body st = finish_login env user org ''session create failed'' st" by blast
    with assms VerifyCmd finish_login_new [of s env user org "''session create failed''" st] MFAVerify_code [OF u(2)]
    show ?thesis by (auto simp: entitled_def)
  qed (use assms VerifyCmd in auto)
next
  case (ImpersonateCmd body)
  show ?thesis
  proof (cases "snd (auth_step env cmd st) = st")
    case False
    from StartImpersonating_session [OF False [unfolded ImpersonateCmd auth_step.simps]] obtain ident u where
      u: "session_identity env st = Some ident" "id_Role ident = ''super_admin''" "id_Impersonator ident = None"
        "u \<in> set (as_Users st)" "u_IsActive u" "id_UserID ident \<noteq> u_ID u"
        "StartImpersonating env (session_identity env st) body st =
         start_session env (u_ID u) (u_OrganizationID u) (Some (id_UserID ident)) ''internal'' (WriteHeader 204) (revoke_cookie env st)"
      by blast
    have "s \<notin> set (as_Sessions (revoke_cookie env st))" using assms(2,3) revoke_cookie_open by blast
    then show ?thesis
      using u assms(1) start_session_new [of s env "u_ID u" "u_OrganizationID u" _ _ _ "revoke_cookie env st"] ImpersonateCmd
      by (auto simp: entitled_def)
  qed (use assms in simp)
next
  case StopCmd
  show ?thesis
  proof (cases "snd (auth_step env cmd st) = st")
    case False
    from StopImpersonating_session [OF False [unfolded StopCmd auth_step.simps]] obtain ident u where
      u: "session_identity env st = Some ident" "id_Impersonator ident = Some (u_ID u)"
        "u \<in> set (as_Users st)" "u_IsActive u"
        "StopImpersonating env (session_identity env st) st =
         start_session env (u_ID u) (u_OrganizationID u) None ''internal'' (WriteHeader 204) (revoke_cookie env st)"
      by blast
    have "s \<notin> set (as_Sessions (revoke_cookie env st))" using assms(2,3) revoke_cookie_open by blast
    then show ?thesis
      using u assms(1) start_session_new [of s env "u_ID u" "u_OrganizationID u" _ _ _ "revoke_cookie env st"] StopCmd
      by (auto simp: entitled_def)
  qed (use assms in simp)
next
  case LogoutCmd
  then show ?thesis using assms revoke_cookie_open by (auto simp: Logout_def)
next
  case SetupCmd
  then show ?thesis using assms by (auto simp: MFA_Setup_handler_def MFASetup_def split: option.splits if_splits)
next
  case (ConfirmCmd body)
  then show ?thesis
    using assms by (auto simp: MFA_Confirm_handler_def split: option.splits sum.splits prod.splits)
next
  case (DisableCmd body)
  then show ?thesis
    using assms by (auto simp: MFA_Disable_handler_def split: option.splits sum.splits prod.splits)
qed

text \<open>Logging out: afterwards the token opens nothing, at any time and whatever happens to the users.\<close>

theorem logout_revokes:
  assumes "as_Cookie st = Some token" "\<not> ae_Err env ''revoke session''"
  shows "session_Lookup err (ae_SHA256 env) later users (as_Sessions (snd (Logout env st))) token = None"
proof -
  have "find (\<lambda>s. ss_TokenHash s = ae_SHA256 env token \<and> ss_RevokedAt s = None \<and> later < ss_ExpiresAt s \<and>
      (case user_by_id users (ss_UserID s) of None \<Rightarrow> False | Some u \<Rightarrow> u_IsActive u))
      (as_Sessions (snd (Logout env st))) = None"
    using assms by (auto simp: Logout_def revoke_cookie_def session_Revoke_def update_where_def find_None_iff)
  then show ?thesis by (simp add: session_Lookup_def)
qed

lemma find_update_where:
  "(\<And>x. p (f x) = p x) \<Longrightarrow> find p (update_where q f xs) = map_option (\<lambda>x. if q x then f x else x) (find p xs)"
  by (induction xs) auto

lemma user_by_id_update:
  "(\<And>u. u_ID (f u) = u_ID u) \<Longrightarrow>
     user_by_id (update_where q f users) i = map_option (\<lambda>u. if q u then f u else u) (user_by_id users i)"
  unfolding user_by_id_def by (rule find_update_where) simp

lemma raw64_encode_Nil: "raw64_encode url s = [] \<longleftrightarrow> s = []"
  by (cases "(url, s)" rule: raw64_encode.cases) auto

lemma find_last: "(\<And>x. x \<in> set xs \<Longrightarrow> \<not> p x) \<Longrightarrow> find p (xs @ [y]) = (if p y then Some y else None)"
  by (induction xs) auto

definition login_session :: "auth_env \<Rightarrow> uuid \<Rightarrow> uuid \<Rightarrow> session_row" where
  "login_session env user org =
     \<lparr>ss_TokenHash = ae_SHA256 env (raw64_encode True (ae_Random env)), ss_UserID = user, ss_OrganizationID = org,
      ss_UserAgent = nullableString (ae_UserAgent env), ss_IPAddr = nullableIP (ae_ClientIP env),
      ss_ExpiresAt = ae_Now env + SessionTTL, ss_RevokedAt = None, ss_ImpersonatorUserID = None\<rparr>"

lemma login_session_fields [simp]:
  "ss_UserID (login_session env user org) = user" "ss_ImpersonatorUserID (login_session env user org) = None"
  by (simp_all add: login_session_def)

lemma finish_login_ok:
  assumes "finish_login env user org f st = (WriteJSON n r, st')"
  shows "as_Sessions st' = as_Sessions st @ [login_session env user org]"
    "as_Cookie st' = Some (raw64_encode True (ae_Random env))"
    "as_Users st' = (if ae_Err env ''update last_login'' then as_Users st
       else update_where (\<lambda>u. u_ID u = user) (\<lambda>u. u\<lparr>u_LastLoginAt := Some (ae_Now env), u_FailedLoginCount := 0\<rparr>) (as_Users st))"
  using assms
  by (auto simp: finish_login_def start_session_def createWithImpersonator_def record_login_def Let_def
      login_session_def split: if_splits response.splits prod.splits)

text \<open>Logging in: after a password login without a second factor, and until twelve hours have passed,
  the middleware resolves the cookie to the user who logged in.\<close>

theorem login_identifies:
  assumes "Login env body st = (WriteJSON 200 StatusOK, st')"
    and "ae_Random env \<noteq> []" "\<forall>s \<in> set (as_Sessions st). ss_TokenHash s \<noteq> ae_SHA256 env (raw64_encode True (ae_Random env))"
    and "distinct (map u_ID (as_Users st))" "later < ae_Now env + SessionTTL"
  shows "\<exists>u \<in> set (as_Users st). u_IsActive u \<and>
     map_option id_UserID (session_identity (env\<lparr>ae_Now := later, ae_Err := no_faults\<rparr>) st') = Some (u_ID u)"
proof -
  from Login_session [of env body st] assms(1) obtain u where u: "u \<in> set (as_Users st)" "u_IsActive u"
    "finish_login env (u_ID u) (u_OrganizationID u) ''internal'' st = (WriteJSON 200 StatusOK, st')"
    by fastforce
  define tok where "tok = raw64_encode True (ae_Random env)"
  note ok = finish_login_ok [OF u(3), folded tok_def]
  have by_id: "user_by_id (as_Users st) (u_ID u) = Some u"
    using assms(4) u(1) by (rule user_by_id_unique)
  with by_id u(2) obtain v where v: "user_by_id (as_Users st') (u_ID u) = Some v" "u_ID v = u_ID u" "u_IsActive v"
    by (cases "ae_Err env ''update last_login''") (auto simp: ok(3) user_by_id_update)
  have "find (\<lambda>s. ss_TokenHash s = ae_SHA256 env tok \<and> ss_RevokedAt s = None \<and> later < ss_ExpiresAt s \<and>
      (case user_by_id (as_Users st') (ss_UserID s) of None \<Rightarrow> False | Some u \<Rightarrow> u_IsActive u))
      (as_Sessions st @ [login_session env (u_ID u) (u_OrganizationID u)]) = Some (login_session env (u_ID u) (u_OrganizationID u))"
    using assms(3,5) v by (subst find_last) (auto simp: tok_def login_session_def)
  moreover have "tok \<noteq> []" using assms(2) by (simp add: tok_def raw64_encode_Nil)
  ultimately show ?thesis
    using u v ok(1,2) by (intro bexI [of _ u]) (simp_all add: session_identity_def session_Lookup_def)
qed

text \<open>Setup drops the second factor: calling \<open>Setup\<close> needs only a session, no code. It stores a new secret
  and clears the enrollment, so afterwards the password alone logs the user in, although
  \<open>Disable\<close> asks for a code.\<close>

theorem setup_drops_second_factor:
  assumes "session_identity env st = Some ident" "id_UserID ident = u_ID u" "\<forall>l. \<not> ae_Err env l"
    and "find (\<lambda>v. equal_fold (u_Email v) (trim_space (to_lower email))) (as_Users st) = Some u"
    and "trim_space (to_lower email) \<noteq> []" "password \<noteq> []" "u_IsActive u"
    and "VerifyPassword (ae_Argon2 env) password (u_PasswordHash u) = None"
  shows "fst (Login env (Inr (email, password)) (snd (auth_step env SetupCmd st))) = WriteJSON 200 StatusOK"
proof -
  let ?st = "snd (auth_step env SetupCmd st)"
  have "find (\<lambda>v. equal_fold (u_Email v) (trim_space (to_lower email))) (as_Users ?st) =
      Some (u\<lparr>u_MFASecret := Some (ae_NewSecret env), u_MFAEnrolledAt := None, u_UpdatedAt := ae_Now env\<rparr>)"
    using assms by (simp add: MFA_Setup_handler_def MFASetup_def set_mfa_def find_update_where)
  then show ?thesis
    using assms by (simp add: Login_def Let_def finish_login_def start_session_def createWithImpersonator_def)
qed

section \<open>Concrete instances\<close>

definition sample_argon :: argon where
  "sample_argon pw salt t m p n = take n (pw @ replicate n CHR ''0'')"

definition sample_auth_env :: auth_env where
  "sample_auth_env = \<lparr>ae_Err = no_faults, ae_SHA256 = (\<lambda>s. s), ae_Argon2 = sample_argon, ae_TOTP = (\<lambda>_ _ _. False),
     ae_UUIDText = (\<lambda>_. replicate 36 CHR ''0''), ae_ParseUUID = (\<lambda>_. Some 0), ae_ChallengeKey = replicate 32 CHR ''k'',
     ae_Now = 1000, ae_Random = ''r'', ae_NewSecret = ''n'', ae_UserAgent = [], ae_ClientIP = None\<rparr>"

definition sample_auth_state :: "string \<Rightarrow> nat option \<Rightarrow> auth_state" where
  "sample_auth_state h mfa = \<lparr>as_Users = [(sample_user 1 1 ''org_user'')\<lparr>u_PasswordHash := h, u_MFAEnrolledAt := mfa\<rparr>],
     as_Sessions = [(login_session sample_auth_env 1 1)\<lparr>ss_TokenHash := ''t''\<rparr>], as_Cookie = Some ''t''\<rparr>"

lemma sample_hash:
  obtains h where "VerifyPassword sample_argon ''secret'' h = None"
proof -
  have "HashPassword sample_argon ''salt'' ''secret'' = Inr h \<Longrightarrow> VerifyPassword sample_argon ''secret'' h = None" for h
    by (rule verify_hashed) (simp_all add: sample_argon_def min_def)
  moreover have "\<exists>h. HashPassword sample_argon ''salt'' ''secret'' = Inr h" by (simp add: HashPassword_def)
  ultimately show ?thesis using that by blast
qed

lemmas sample_auth_simps = sample_auth_env_def sample_auth_state_def sample_user_def Login_def Let_def finish_login_def
  start_session_def createWithImpersonator_def record_login_def equal_fold_def trim_defs session_identity_def
  session_Lookup_def user_by_id_def login_session_def SessionTTL_def

lemma new_session_entitled_witness:
  "\<exists>h s. s \<in> set (as_Sessions (snd (auth_step sample_auth_env (LoginCmd (Inr (''u@x.io'', ''secret''))) (sample_auth_state h None)))) \<and>
     (\<exists>u \<in> set (as_Users (sample_auth_state h None)). u_ID u = ss_UserID s \<and>
       entitled sample_auth_env (LoginCmd (Inr (''u@x.io'', ''secret''))) (sample_auth_state h None) u s)"
proof -
  obtain h where h: "VerifyPassword sample_argon ''secret'' h = None" by (rule sample_hash)
  let ?st = "sample_auth_state h None"
  have new: "login_session sample_auth_env 1 1 \<in>
      set (as_Sessions (snd (auth_step sample_auth_env (LoginCmd (Inr (''u@x.io'', ''secret''))) ?st)))"
    using h by (simp add: sample_auth_simps)
  have "login_session sample_auth_env 1 1 \<notin> set (as_Sessions ?st)" "ss_RevokedAt (login_session sample_auth_env 1 1) = None"
    by (simp_all add: sample_auth_simps)
  from new_session_entitled [OF new this] new show ?thesis by blast
qed

lemma logout_revokes_witness:
  "session_Lookup no_faults (\<lambda>s. s) 1001 (as_Users (sample_auth_state [] None))
     (as_Sessions (snd (Logout sample_auth_env (sample_auth_state [] None)))) ''t'' = None"
  using logout_revokes [of "sample_auth_state [] None" "''t''" sample_auth_env no_faults 1001 "as_Users (sample_auth_state [] None)"]
  by (simp add: sample_auth_env_def sample_auth_state_def)

lemma login_identifies_witness:
  "\<exists>h st'. Login sample_auth_env (Inr (''u@x.io'', ''secret'')) (sample_auth_state h None) = (WriteJSON 200 StatusOK, st') \<and>
     map_option id_UserID (session_identity (sample_auth_env\<lparr>ae_Now := 2000, ae_Err := no_faults\<rparr>) st') = Some 1"
proof -
  obtain h where h: "VerifyPassword sample_argon ''secret'' h = None" by (rule sample_hash)
  then have ok: "fst (Login sample_auth_env (Inr (''u@x.io'', ''secret'')) (sample_auth_state h None)) = WriteJSON 200 StatusOK"
    by (simp add: sample_auth_simps)
  then obtain st' where st': "Login sample_auth_env (Inr (''u@x.io'', ''secret'')) (sample_auth_state h None) = (WriteJSON 200 StatusOK, st')"
    by (cases "Login sample_auth_env (Inr (''u@x.io'', ''secret'')) (sample_auth_state h None)") auto
  have "\<exists>u \<in> set (as_Users (sample_auth_state h None)). u_IsActive u \<and>
     map_option id_UserID (session_identity (sample_auth_env\<lparr>ae_Now := 2000, ae_Err := no_faults\<rparr>) st') = Some (u_ID u)"
    by (rule login_identifies [OF st']) (simp_all add: sample_auth_env_def sample_auth_state_def SessionTTL_def login_session_def)
  then show ?thesis using st' by (auto simp: sample_auth_state_def sample_user_def)
qed

lemma setup_drops_second_factor_witness:
  "\<exists>h. fst (Login sample_auth_env (Inr (''u@x.io'', ''secret'')) (sample_auth_state h (Some 5))) \<noteq> WriteJSON 200 StatusOK \<and>
     fst (Login sample_auth_env (Inr (''u@x.io'', ''secret''))
       (snd (auth_step sample_auth_env SetupCmd (sample_auth_state h (Some 5))))) = WriteJSON 200 StatusOK"
proof -
  obtain h where h: "VerifyPassword sample_argon ''secret'' h = None" by (rule sample_hash)
  let ?u = "(sample_user 1 1 ''org_user'')\<lparr>u_PasswordHash := h, u_MFAEnrolledAt := Some 5\<rparr>"
  obtain ident where "session_identity sample_auth_env (sample_auth_state h (Some 5)) = Some ident" "id_UserID ident = 1"
    by (simp add: sample_auth_simps)
  from setup_drops_second_factor [OF this(1), of ?u "''u@x.io''" "''secret''"] this(2) h
  show ?thesis by (intro exI [of _ h]) (simp add: sample_auth_simps)
qed

end
