(* ===== verification/Users.thy ===== *)
theory Users
  imports AuthStore
begin

text \<open>
  \<open>internal/users\<close>: user administration. The state is the user and the session table; password
  hashing is a parameter.
\<close>

record User =
  us_ID :: uuid
  us_OrganizationID :: uuid
  us_Email :: string
  us_Role :: string
  us_DisplayName :: "string option"
  us_IsActive :: bool
  us_MFAEnrolled :: bool
  us_PhishingAlertFrequency :: string
  us_BulkCompletionNotify :: string
  us_ChallengeResponseMode :: string
  us_ChallengeAlertFrequency :: string
  us_LastLoginAt :: "nat option"
  us_CreatedAt :: nat
  us_UpdatedAt :: nat

definition scan_user :: "user_row \<Rightarrow> User" where
  "scan_user u =
     \<lparr>us_ID = u_ID u, us_OrganizationID = u_OrganizationID u, us_Email = u_Email u, us_Role = u_Role u,
      us_DisplayName = u_DisplayName u, us_IsActive = u_IsActive u, us_MFAEnrolled = (u_MFAEnrolledAt u \<noteq> None),
      us_PhishingAlertFrequency = u_PhishingAlertFrequency u, us_BulkCompletionNotify = u_BulkCompletionNotify u,
      us_ChallengeResponseMode = u_ChallengeResponseMode u, us_ChallengeAlertFrequency = u_ChallengeAlertFrequency u,
      us_LastLoginAt = u_LastLoginAt u, us_CreatedAt = u_CreatedAt u, us_UpdatedAt = u_UpdatedAt u\<rparr>"

record userWriteReq =
  uw_OrganizationID :: "uuid option"
  uw_Email :: string
  uw_Role :: string
  uw_DisplayName :: "string option"
  uw_IsActive :: "bool option"
  uw_Password :: string
  uw_PhishingAlertFrequency :: string
  uw_BulkCompletionNotify :: string
  uw_ChallengeResponseMode :: string
  uw_ChallengeAlertFrequency :: string

definition validRoles :: "string list" where
  "validRoles = [''super_admin'', ''msp_admin'', ''org_admin'', ''org_user'']"

definition role_tier :: "string \<Rightarrow> nat" where
  "role_tier role =
     (case map_of [(''org_user'', 1), (''org_admin'', 2), (''msp_admin'', 3), (''super_admin'', 4)] role of
        None \<Rightarrow> 0 | Some n \<Rightarrow> n)"

definition canAssignRole :: "string \<Rightarrow> string \<Rightarrow> bool" where
  "canAssignRole actorRole targetRole = (role_tier actorRole \<ge> role_tier targetRole)"

definition validPhishingAlertFrequency :: "string \<Rightarrow> bool" where
  "validPhishingAlertFrequency v = (v \<in> {''off'', ''immediate'', ''daily'', ''weekly''})"

definition validBulkCompletionNotification :: "string \<Rightarrow> bool" where
  "validBulkCompletionNotification v = (v \<in> {''email'', ''in_app'', ''both'', ''off''})"

definition validChallengeResponseMode :: "string \<Rightarrow> bool" where
  "validChallengeResponseMode v = (v \<in> {''inherit'', ''enabled'', ''disabled''})"

definition validChallengeAlertFrequency :: "string \<Rightarrow> bool" where
  "validChallengeAlertFrequency v = (v \<in> {''immediate'', ''hourly'', ''daily''})"

definition list_users ::
  "faults \<Rightarrow> (scope \<times> identity) result \<Rightarrow> page \<Rightarrow> uuid option \<Rightarrow> user_row list \<Rightarrow> User list_envelope response" where
  "list_users err sc pg oid users =
     (case sc of
        Inl e \<Rightarrow> WriteError 500 ''scope''
      | Inr (scope, ident) \<Rightarrow>
          if id_Role ident = ''org_user'' then WriteError 403 ''admin required''
          else
            (let rows = filter (\<lambda>u. (IsSuperAdmin scope \<or> u_OrganizationID u \<in> set (VisibleOrgIDs scope)) \<and>
                          (case oid of None \<Rightarrow> True | Some i \<Rightarrow> u_OrganizationID u = i)) users
             in if err ''count users'' then WriteError 500 ''db''
                else if err ''select users'' then WriteError 500 ''select users''
                else WriteJSON 200 (envelope pg (map scan_user (sort_key (\<lambda>u. map byte (to_lower (u_Email u))) rows)))))"

text \<open>The \<open>INSERT\<close>: \<open>Inl True\<close> is a violated unique key, \<open>Inl False\<close> any other error.\<close>

definition insert_user ::
  "organization list \<Rightarrow> uuid \<Rightarrow> nat \<Rightarrow> uuid \<Rightarrow> string \<Rightarrow> userWriteReq \<Rightarrow> user_row list \<Rightarrow> bool + user_row" where
  "insert_user orgs new_id now org hash req users =
     (if list_ex (\<lambda>u. u_ID u = new_id \<or> u_OrganizationID u = org \<and> equal_fold (u_Email u) (uw_Email req)) users
      then Inl True
      else if org \<notin> org_ID ` set orgs then Inl False
      else Inr \<lparr>u_ID = new_id, u_OrganizationID = org, u_Email = uw_Email req, u_PasswordHash = hash,
                u_Role = uw_Role req, u_DisplayName = uw_DisplayName req, u_IsActive = coalesce (uw_IsActive req) True,
                u_MFASecret = None, u_MFAEnrolledAt = None, u_LastLoginAt = None, u_FailedLoginCount = 0,
                u_PhishingAlertFrequency = ''weekly'', u_BulkCompletionNotify = ''email'',
                u_ChallengeResponseMode = coalesce_text (uw_ChallengeResponseMode req) ''inherit'',
                u_ChallengeAlertFrequency = coalesce_text (uw_ChallengeAlertFrequency req) ''immediate'',
                u_CreatedAt = now, u_UpdatedAt = now\<rparr>)"

definition create_user ::
  "faults \<Rightarrow> (string \<Rightarrow> string result) \<Rightarrow> organization list \<Rightarrow> uuid \<Rightarrow> nat \<Rightarrow> (scope \<times> identity) result \<Rightarrow>
     userWriteReq result \<Rightarrow> user_row list \<Rightarrow> User response \<times> user_row list" where
  "create_user err hash orgs new_id now sc body users =
     (case sc of
        Inl e \<Rightarrow> (WriteError 500 ''scope'', users)
      | Inr (scope, ident) \<Rightarrow>
          case body of
            Inl e \<Rightarrow> (WriteError 400 e, users)
          | Inr req0 \<Rightarrow>
              (let req1 = req0\<lparr>uw_Email := trim_space (to_lower (uw_Email req0))\<rparr>
               in if uw_Email req1 = [] \<or> CHR ''@'' \<notin> set (uw_Email req1) then (WriteError 400 ''valid email required'', users)
                  else if length (uw_Password req1) < 12 then
                    (WriteError 400 ''password must be at least 12 characters'', users)
                  else
                    (let req = (if uw_Role req1 = [] then req1\<lparr>uw_Role := ''org_user''\<rparr> else req1);
                         org = coalesce (uw_OrganizationID req) (id_OrganizationID ident)
                     in if uw_Role req \<notin> set validRoles then (WriteError 400 ''invalid role'', users)
                        else if \<not> CanAdmin scope (id_Role ident) org then
                          (WriteError 403 ''forbidden for that organization'', users)
                        else if \<not> canAssignRole (id_Role ident) (uw_Role req) then
                          (WriteError 403 ''cannot assign that role'', users)
                        else if uw_ChallengeResponseMode req \<noteq> [] \<and> \<not> validChallengeResponseMode (uw_ChallengeResponseMode req) then
                          (WriteError 400 ''invalid challenge-response mode'', users)
                        else if uw_ChallengeAlertFrequency req \<noteq> [] \<and> \<not> validChallengeAlertFrequency (uw_ChallengeAlertFrequency req) then
                          (WriteError 400 ''invalid challenge-response alert frequency'', users)
                        else case hash (uw_Password req) of
                          Inl e \<Rightarrow> (WriteError 500 ''hash error'', users)
                        | Inr h \<Rightarrow>
                            case (if err ''insert users'' then Inl False else insert_user orgs new_id now org h req users) of
                              Inl dup \<Rightarrow>
                                (if dup then (WriteError 409 ''user already exists for that organization'', users)
                                 else (WriteError 500 ''create failed: '', users))
                            | Inr u \<Rightarrow> (WriteJSON 201 (scan_user u), users @ [u]))))"

definition select_user :: "faults \<Rightarrow> user_row list \<Rightarrow> uuid \<Rightarrow> user_row option" where
  "select_user err users i = (if err ''select user'' then None else user_by_id users i)"

definition read_user ::
  "faults \<Rightarrow> uuid option \<Rightarrow> (scope \<times> identity) result \<Rightarrow> user_row list \<Rightarrow> User response" where
  "read_user err param sc users =
     (case param of
        None \<Rightarrow> WriteError 400 ''invalid id''
      | Some i \<Rightarrow>
          case sc of
            Inl e \<Rightarrow> WriteError 500 ''scope''
          | Inr (scope, ident) \<Rightarrow>
              if id_Role ident = ''org_user'' \<and> i \<noteq> id_UserID ident then WriteError 404 ''not found''
              else case select_user err users i of
                None \<Rightarrow> WriteError 404 ''not found''
              | Some u \<Rightarrow> if \<not> Allows scope (u_OrganizationID u) then WriteError 404 ''not found''
                           else WriteJSON 200 (scan_user u))"

definition selfPreferenceUpdate :: "identity \<Rightarrow> uuid \<Rightarrow> userWriteReq \<Rightarrow> bool" where
  "selfPreferenceUpdate ident i req =
     (i = id_UserID ident \<and>
      (uw_PhishingAlertFrequency req \<noteq> [] \<or> uw_BulkCompletionNotify req \<noteq> [] \<or> uw_ChallengeAlertFrequency req \<noteq> []) \<and>
      uw_Email req = [] \<and> uw_Role req = [] \<and> uw_DisplayName req = None \<and> uw_IsActive req = None)"

definition update_user_row :: "nat \<Rightarrow> userWriteReq \<Rightarrow> user_row \<Rightarrow> user_row" where
  "update_user_row now req u = u\<lparr>
     u_Email := coalesce_text (to_lower (uw_Email req)) (u_Email u),
     u_Role := coalesce_text (uw_Role req) (u_Role u),
     u_DisplayName := (case uw_DisplayName req of None \<Rightarrow> u_DisplayName u | d \<Rightarrow> d),
     u_IsActive := coalesce (uw_IsActive req) (u_IsActive u),
     u_PhishingAlertFrequency := coalesce_text (uw_PhishingAlertFrequency req) (u_PhishingAlertFrequency u),
     u_BulkCompletionNotify := coalesce_text (uw_BulkCompletionNotify req) (u_BulkCompletionNotify u),
     u_ChallengeResponseMode := coalesce_text (uw_ChallengeResponseMode req) (u_ChallengeResponseMode u),
     u_ChallengeAlertFrequency := coalesce_text (uw_ChallengeAlertFrequency req) (u_ChallengeAlertFrequency u),
     u_UpdatedAt := now\<rparr>"

definition update_user ::
  "faults \<Rightarrow> nat \<Rightarrow> uuid option \<Rightarrow> (scope \<times> identity) result \<Rightarrow> userWriteReq result \<Rightarrow> user_row list \<Rightarrow>
     User response \<times> user_row list" where
  "update_user err now param sc body users =
     (case param of
        None \<Rightarrow> (WriteError 400 ''invalid id'', users)
      | Some i \<Rightarrow>
          case sc of
            Inl e \<Rightarrow> (WriteError 500 ''scope'', users)
          | Inr (scope, ident) \<Rightarrow>
              case select_user err users i of
                None \<Rightarrow> (WriteError 404 ''not found'', users)
              | Some u \<Rightarrow>
                  case body of
                    Inl e \<Rightarrow> (WriteError 400 e, users)
                  | Inr req \<Rightarrow>
                      if \<not> selfPreferenceUpdate ident i req \<and> \<not> CanAdmin scope (id_Role ident) (u_OrganizationID u) then
                        (WriteError 403 ''forbidden'', users)
                      else if uw_Role req \<noteq> [] \<and> uw_Role req \<notin> set validRoles then (WriteError 400 ''invalid role'', users)
                      else if uw_Role req \<noteq> [] \<and> \<not> canAssignRole (id_Role ident) (uw_Role req) then
                        (WriteError 403 ''cannot assign that role'', users)
                      else if uw_PhishingAlertFrequency req \<noteq> [] \<and> \<not> validPhishingAlertFrequency (uw_PhishingAlertFrequency req) then
                        (WriteError 400 ''invalid phishing alert frequency'', users)
                      else if uw_BulkCompletionNotify req \<noteq> [] \<and> \<not> validBulkCompletionNotification (uw_BulkCompletionNotify req) then
                        (WriteError 400 ''invalid bulk completion notification preference'', users)
                      else if uw_ChallengeResponseMode req \<noteq> [] \<and> \<not> validChallengeResponseMode (uw_ChallengeResponseMode req) then
                        (WriteError 400 ''invalid challenge-response mode'', users)
                      else if uw_ChallengeAlertFrequency req \<noteq> [] \<and> \<not> validChallengeAlertFrequency (uw_ChallengeAlertFrequency req) then
                        (WriteError 400 ''invalid challenge-response alert frequency'', users)
                      else
                        (let u' = update_user_row now req u
                         in if err ''update users'' \<or>
                               list_ex (\<lambda>v. u_ID v \<noteq> i \<and> u_OrganizationID v = u_OrganizationID u \<and>
                                            equal_fold (u_Email v) (u_Email u')) users then
                              (WriteError 500 ''update failed: '', users)
                            else
                              (let users' = update_where (\<lambda>v. u_ID v = i) (\<lambda>_. u') users
                               in (read_user err param sc users', users'))))"

text \<open>
  The foreign keys of \<open>sessions\<close>: \<open>ON DELETE CASCADE\<close> for the user, \<open>ON DELETE SET NULL\<close> for
  the impersonator.
\<close>

definition cascade_sessions :: "uuid \<Rightarrow> session_row list \<Rightarrow> session_row list" where
  "cascade_sessions i sessions =
     update_where (\<lambda>s. ss_ImpersonatorUserID s = Some i) (\<lambda>s. s\<lparr>ss_ImpersonatorUserID := None\<rparr>)
       (filter (\<lambda>s. ss_UserID s \<noteq> i) sessions)"

definition del_user ::
  "faults \<Rightarrow> uuid option \<Rightarrow> (scope \<times> identity) result \<Rightarrow> user_row list \<times> session_row list \<Rightarrow>
     User response \<times> user_row list \<times> session_row list" where
  "del_user err param sc db =
     (case param of
        None \<Rightarrow> (WriteError 400 ''invalid id'', db)
      | Some i \<Rightarrow>
          case sc of
            Inl e \<Rightarrow> (WriteError 500 ''scope'', db)
          | Inr (scope, ident) \<Rightarrow>
              if i = id_UserID ident then (WriteError 403 ''cannot delete yourself'', db)
              else case select_user err (fst db) i of
                None \<Rightarrow> (WriteError 404 ''not found'', db)
              | Some u \<Rightarrow>
                  if \<not> CanAdmin scope (id_Role ident) (u_OrganizationID u) then (WriteError 403 ''forbidden'', db)
                  else if err ''delete users'' then (WriteError 500 ''delete failed'', db)
                  else (WriteHeader 204, filter (\<lambda>v. u_ID v \<noteq> i) (fst db), cascade_sessions i (snd db)))"

definition setPassword ::
  "faults \<Rightarrow> (string \<Rightarrow> string result) \<Rightarrow> nat \<Rightarrow> uuid option \<Rightarrow> (scope \<times> identity) result \<Rightarrow> string result \<Rightarrow>
     user_row list \<times> session_row list \<Rightarrow> User response \<times> user_row list \<times> session_row list" where
  "setPassword err hash now param sc body db =
     (case param of
        None \<Rightarrow> (WriteError 400 ''invalid id'', db)
      | Some i \<Rightarrow>
          case sc of
            Inl e \<Rightarrow> (WriteError 500 ''scope'', db)
          | Inr (scope, ident) \<Rightarrow>
              case select_user err (fst db) i of
                None \<Rightarrow> (WriteError 404 ''not found'', db)
              | Some u \<Rightarrow>
                  if i \<noteq> id_UserID ident \<and> \<not> CanAdmin scope (id_Role ident) (u_OrganizationID u) then
                    (WriteError 403 ''forbidden'', db)
                  else case body of
                    Inl e \<Rightarrow> (WriteError 400 e, db)
                  | Inr password \<Rightarrow>
                      if length password < 12 then (WriteError 400 ''password must be at least 12 characters'', db)
                      else case hash password of
                        Inl e \<Rightarrow> (WriteError 500 ''hash error'', db)
                      | Inr h \<Rightarrow>
                          if err ''update users'' then (WriteError 500 ''update failed'', db)
                          else (WriteHeader 204,
                                update_where (\<lambda>v. u_ID v = i) (\<lambda>v. v\<lparr>u_PasswordHash := h, u_UpdatedAt := now\<rparr>) (fst db),
                                revoke_user_sessions err now i (snd db)))"

definition adminDisableMFA ::
  "faults \<Rightarrow> nat \<Rightarrow> uuid option \<Rightarrow> (scope \<times> identity) result \<Rightarrow> user_row list \<times> session_row list \<Rightarrow>
     User response \<times> user_row list \<times> session_row list" where
  "adminDisableMFA err now param sc db =
     (case param of
        None \<Rightarrow> (WriteError 400 ''invalid id'', db)
      | Some i \<Rightarrow>
          case sc of
            Inl e \<Rightarrow> (WriteError 500 ''scope'', db)
          | Inr (scope, ident) \<Rightarrow>
              if i = id_UserID ident then (WriteError 403 ''use Settings -> Account to manage your own MFA'', db)
              else case select_user err (fst db) i of
                None \<Rightarrow> (WriteError 404 ''not found'', db)
              | Some u \<Rightarrow>
                  if \<not> CanAdmin scope (id_Role ident) (u_OrganizationID u) then (WriteError 403 ''forbidden'', db)
                  else if \<not> canAssignRole (id_Role ident) (u_Role u) then
                    (WriteError 403 ''cannot reset MFA on a higher-tier admin'', db)
                  else if err ''update users'' then (WriteError 500 ''update failed'', db)
                  else (WriteHeader 204, set_mfa now None None i (fst db), revoke_user_sessions err now i (snd db)))"

section \<open>Tenants\<close>

datatype user_cmd =
    CreateUser uuid nat "userWriteReq result"
  | UpdateUser nat "uuid option" "userWriteReq result"
  | DeleteUser "uuid option"
  | SetPassword nat "uuid option" "string result"
  | DisableMFA nat "uuid option"

text \<open>The user table after a request; no handler reads the sessions.\<close>

fun user_step ::
  "faults \<Rightarrow> (string \<Rightarrow> string result) \<Rightarrow> organization list \<Rightarrow> user_cmd \<Rightarrow> (scope \<times> identity) result \<Rightarrow>
     user_row list \<Rightarrow> user_row list" where
  "user_step err hash orgs (CreateUser i now body) sc users = snd (create_user err hash orgs i now sc body users)"
| "user_step err hash orgs (UpdateUser now i body) sc users = snd (update_user err now i sc body users)"
| "user_step err hash orgs (DeleteUser i) sc users = fst (snd (del_user err i sc (users, [])))"
| "user_step err hash orgs (SetPassword now i body) sc users = fst (snd (setPassword err hash now i sc body (users, [])))"
| "user_step err hash orgs (DisableMFA now i) sc users = fst (snd (adminDisableMFA err now i sc (users, [])))"

definition may_change_user :: "(scope \<times> identity) result \<Rightarrow> user_row \<Rightarrow> bool" where
  "may_change_user sc u =
     (case sc of Inl _ \<Rightarrow> False
      | Inr (s, ident) \<Rightarrow> CanAdmin s (id_Role ident) (u_OrganizationID u) \<or> id_UserID ident = u_ID u)"

lemma select_user_Some: "select_user err users i = Some u \<Longrightarrow> u \<in> set users \<and> u_ID u = i"
  by (auto simp: select_user_def dest: user_by_id_Some split: if_splits)

lemma insert_user_Some:
  "insert_user orgs i now org h req users = Inr u \<Longrightarrow>
     u_ID u = i \<and> i \<notin> u_ID ` set users \<and> u_OrganizationID u = org \<and> u_Role u = uw_Role req"
  by (auto simp: insert_user_def list_ex_iff split: if_splits)

text \<open>A request keeps the tables or changes them past the guards.\<close>

lemma create_user_cases:
  assumes "P users"
    and "\<And>u scope ident org h req. sc = Inr (scope, ident) \<Longrightarrow> insert_user orgs i now org h req users = Inr u \<Longrightarrow>
      CanAdmin scope (id_Role ident) org \<Longrightarrow> canAssignRole (id_Role ident) (uw_Role req) \<Longrightarrow> uw_Role req \<in> set validRoles \<Longrightarrow>
      P (users @ [u])"
  shows "P (snd (create_user err hash orgs i now sc body users))"
  unfolding create_user_def
  by (rule ends_inI, intro handler_walk) (simp_all add: assms split: if_splits)

lemma update_user_cases:
  assumes "P users"
    and "\<And>i u req scope ident. sc = Inr (scope, ident) \<Longrightarrow> select_user err users i = Some u \<Longrightarrow>
      selfPreferenceUpdate ident i req \<or> CanAdmin scope (id_Role ident) (u_OrganizationID u) \<Longrightarrow>
      uw_Role req = [] \<or> canAssignRole (id_Role ident) (uw_Role req) \<Longrightarrow>
      P (update_where (\<lambda>v. u_ID v = i) (\<lambda>_. update_user_row now req u) users)"
  shows "P (snd (update_user err now param sc body users))"
  unfolding update_user_def
  by (rule ends_inI, intro handler_walk) (simp_all add: assms split: if_splits)

lemma del_user_cases:
  assumes "P db"
    and "\<And>i u scope ident. sc = Inr (scope, ident) \<Longrightarrow> select_user err (fst db) i = Some u \<Longrightarrow> i \<noteq> id_UserID ident \<Longrightarrow>
      CanAdmin scope (id_Role ident) (u_OrganizationID u) \<Longrightarrow>
      P (filter (\<lambda>v. u_ID v \<noteq> i) (fst db), cascade_sessions i (snd db))"
  shows "P (snd (del_user err param sc db))"
  unfolding del_user_def
  by (rule ends_inI, intro handler_walk) (simp_all add: assms split: if_splits)

lemma setPassword_cases:
  assumes "P db"
    and "\<And>i u scope ident h. sc = Inr (scope, ident) \<Longrightarrow> select_user err (fst db) i = Some u \<Longrightarrow>
      i = id_UserID ident \<or> CanAdmin scope (id_Role ident) (u_OrganizationID u) \<Longrightarrow>
      P (update_where (\<lambda>v. u_ID v = i) (\<lambda>v. v\<lparr>u_PasswordHash := h, u_UpdatedAt := now\<rparr>) (fst db),
         revoke_user_sessions err now i (snd db))"
  shows "P (snd (setPassword err hash now param sc body db))"
  unfolding setPassword_def
  by (rule ends_inI, intro handler_walk) (simp_all add: assms split: if_splits)

lemma adminDisableMFA_cases:
  assumes "P db"
    and "\<And>i u scope ident. sc = Inr (scope, ident) \<Longrightarrow> select_user err (fst db) i = Some u \<Longrightarrow>
      CanAdmin scope (id_Role ident) (u_OrganizationID u) \<Longrightarrow> canAssignRole (id_Role ident) (u_Role u) \<Longrightarrow>
      P (set_mfa now None None i (fst db), revoke_user_sessions err now i (snd db))"
  shows "P (snd (adminDisableMFA err now param sc db))"
  unfolding adminDisableMFA_def
  by (rule ends_inI, intro handler_walk) (simp_all add: assms split: if_splits)

lemma may_change_userI:
  "sc = Inr (scope, ident) \<Longrightarrow> CanAdmin scope (id_Role ident) (u_OrganizationID u) \<or> id_UserID ident = u_ID u \<Longrightarrow>
     may_change_user sc u"
  by (auto simp: may_change_user_def)

lemma user_row_update:
  assumes "select_user err users i = Some u" "may u" "distinct (map u_ID users)" "\<And>v. u_ID (f v) = u_ID v"
  shows "table_change u_ID may users (update_where (\<lambda>v. u_ID v = i) f users)"
  using table_change_update [of u users may u_ID f] assms by (auto dest: select_user_Some)

lemma user_step_change:
  assumes "distinct (map u_ID users)"
  shows "table_change u_ID (may_change_user sc) users (user_step err hash orgs cmd sc users)"
proof (cases cmd)
  case (CreateUser i now body)
  show ?thesis
    unfolding CreateUser user_step.simps
    by (rule create_user_cases [OF table_change.keep])
      (auto dest!: insert_user_Some intro: table_change.insert)
next
  case (UpdateUser now param body)
  show ?thesis
    unfolding UpdateUser user_step.simps
  proof (rule update_user_cases [OF table_change.keep])
    fix i u req scope ident
    assume "sc = Inr (scope, ident)" "select_user err users i = Some u"
      "selfPreferenceUpdate ident i req \<or> CanAdmin scope (id_Role ident) (u_OrganizationID u)"
    then show "table_change u_ID (may_change_user sc) users (update_where (\<lambda>v. u_ID v = i) (\<lambda>_. update_user_row now req u) users)"
      using table_change.update [where may = "may_change_user sc" and key = u_ID and r = u and rows = users] select_user_Some [of err users i u]
      by (auto simp: update_user_row_def may_change_user_def selfPreferenceUpdate_def)
  qed
next
  case (DeleteUser param)
  show ?thesis
    unfolding DeleteUser user_step.simps
  proof (rule del_user_cases, goal_cases)
    case (2 i u scope ident)
    then have "may_change_user sc u" by (simp add: may_change_user_def)
    with 2 table_change.delete [of u users "may_change_user sc" u_ID] show ?case
      by (auto dest: select_user_Some)
  qed (simp add: table_change.keep)
next
  case (SetPassword now param body)
  show ?thesis
    unfolding SetPassword user_step.simps
  proof (rule setPassword_cases, goal_cases)
    case (2 i u scope ident h)
    then have "may_change_user sc u" by (auto intro!: may_change_userI dest: select_user_Some)
    with 2 assms show ?case by (simp add: user_row_update)
  qed (simp add: table_change.keep)
next
  case (DisableMFA now param)
  show ?thesis
    unfolding DisableMFA user_step.simps
  proof (rule adminDisableMFA_cases, goal_cases)
    case (2 i u scope ident)
    then have "may_change_user sc u" by (auto intro!: may_change_userI)
    with 2 assms show ?case by (simp add: user_row_update set_mfa_def)
  qed (simp add: table_change.keep)
qed

interpretation user_table: tenant_table "user_step err hash orgs" u_ID may_change_user
  for err hash orgs
  by unfold_locales (rule user_step_change)

text \<open>Tenant isolation of users: requests of callers that neither administer a user's organization
  nor are the user leave the user's row as it is.\<close>

theorem users_isolated:
  assumes "distinct (map u_ID users)" "u \<in> set users" "list_all (\<lambda>(_, sc). \<not> may_change_user sc u) reqs"
  shows "u \<in> set (foldl (\<lambda>us (cmd, sc). user_step err hash orgs cmd sc us) users reqs)"
  using user_table.requests_foreign [OF assms] .

section \<open>Roles\<close>

text \<open>\<open>low k users0 users\<close>: every row above tier \<open>k\<close> had its role already in \<open>users0\<close>.\<close>

definition low :: "nat \<Rightarrow> user_row list \<Rightarrow> user_row list \<Rightarrow> bool" where
  "low k users0 users =
     list_all (\<lambda>u. role_tier (u_Role u) \<le> k \<or> list_ex (\<lambda>v. u_ID v = u_ID u \<and> u_Role v = u_Role u) users0) users"

lemma low_filter: "low k users0 users \<Longrightarrow> low k users0 (filter p users)"
  by (auto simp: low_def list_all_iff)

lemma low_update_where:
  assumes "low k users0 users"
    and "\<And>v. v \<in> set users \<Longrightarrow> p v \<Longrightarrow> u_ID (f v) = u_ID v \<and> u_Role (f v) = u_Role v \<or> role_tier (u_Role (f v)) \<le> k"
  shows "low k users0 (update_where p f users)"
  using assms unfolding low_def update_where_def list_all_iff by fastforce

definition caller_tier :: "(scope \<times> identity) result \<Rightarrow> nat" where
  "caller_tier sc = (case sc of Inl _ \<Rightarrow> 0 | Inr (_, ident) \<Rightarrow> role_tier (id_Role ident))"

lemma user_step_low:
  assumes "caller_tier sc \<le> k" "low k users0 users"
    and "distinct (map u_ID users)"
  shows "low k users0 (user_step err hash orgs cmd sc users)"
proof (cases cmd)
  case (CreateUser i now body)
  show ?thesis
    unfolding CreateUser user_step.simps
    by (rule create_user_cases [of "low k users0", OF assms(2)])
      (use assms(1,2) in \<open>auto simp: low_def canAssignRole_def caller_tier_def dest!: insert_user_Some\<close>)
next
  case (UpdateUser now param body)
  show ?thesis
    unfolding UpdateUser user_step.simps
  proof (rule update_user_cases [of "low k users0", OF assms(2)])
    fix i u and req :: userWriteReq and scope ident
    assume sc: "sc = Inr (scope, ident)" and u: "select_user err users i = Some u"
      and role: "uw_Role req = [] \<or> canAssignRole (id_Role ident) (uw_Role req)"
    have "v = u" if "v \<in> set users" "u_ID v = i" for v
      using that select_user_Some [OF u] assms(3) by (auto simp: distinct_map inj_on_def)
    then show "low k users0 (update_where (\<lambda>v. u_ID v = i) (\<lambda>_. update_user_row now req u) users)"
      by (intro low_update_where [OF assms(2)])
        (use sc role assms(1) in \<open>auto simp: update_user_row_def coalesce_text_def canAssignRole_def caller_tier_def\<close>)
  qed
next
  case (DeleteUser param)
  show ?thesis
    unfolding DeleteUser user_step.simps
    by (rule del_user_cases [of "\<lambda>db. low k users0 (fst db)"]) (simp_all add: assms(2) low_filter)
next
  case (SetPassword now param body)
  show ?thesis
    unfolding SetPassword user_step.simps
    by (rule setPassword_cases [of "\<lambda>db. low k users0 (fst db)"]) (simp_all add: assms(2) low_update_where)
next
  case (DisableMFA now param)
  show ?thesis
    unfolding DisableMFA user_step.simps
    by (rule adminDisableMFA_cases [of "\<lambda>db. low k users0 (fst db)"]) (simp_all add: assms(2) low_update_where set_mfa_def)
qed

lemma requests_low:
  "low k users0 users \<Longrightarrow> distinct (map u_ID users) \<Longrightarrow> list_all (\<lambda>(_, sc). caller_tier sc \<le> k) reqs \<Longrightarrow>
     low k users0 (foldl (\<lambda>us (cmd, sc). user_step err hash orgs cmd sc us) users reqs)"
  by (induction reqs arbitrary: users)
    (auto intro: user_step_low dest: table_change_distinct [OF user_step_change])

text \<open>C37 (no role escalation): whatever series of requests callers of tier at most \<open>k\<close> send to the
  user administration, afterwards every user above tier \<open>k\<close> is one that had this very role before.\<close>

theorem users_no_escalation:
  assumes "distinct (map u_ID users)" "list_all (\<lambda>(_, sc). caller_tier sc \<le> k) reqs"
    and "u \<in> set (foldl (\<lambda>us (cmd, sc). user_step err hash orgs cmd sc us) users reqs)" "role_tier (u_Role u) > k"
  shows "list_ex (\<lambda>v. u_ID v = u_ID u \<and> u_Role v = u_Role u) users"
proof -
  have "low k users users" by (auto simp: low_def list_all_iff list_ex_iff)
  from requests_low [OF this assms(1,2), of err hash orgs] assms(3,4) show ?thesis
    by (auto simp: low_def list_all_iff)
qed

lemma users_no_escalation_witness:
  "list_ex (\<lambda>v. u_ID v = 8 \<and> u_Role v = ''super_admin'') [sample_user 8 1 ''super_admin'', sample_user 9 1 ''org_user'']"
  using users_no_escalation [of "[sample_user 8 1 ''super_admin'', sample_user 9 1 ''org_user'']" 2
      "[(DeleteUser (Some 9), Inr (sample_caller 1 ''org_admin''))]" "sample_user 8 1 ''super_admin''" no_faults "\<lambda>p. Inr p" "[]"]
  by (simp add: sample_user_def sample_simps caller_tier_def role_tier_def del_user_def select_user_def user_by_id_def)

lemma users_isolated_witness:
  "sample_user 9 2 ''org_user'' \<in> set (user_step no_faults (\<lambda>p. Inr p) [] (DeleteUser (Some 9))
     (Inr (sample_caller 1 ''org_admin'')) [sample_user 9 2 ''org_user''])"
  using users_isolated [of "[sample_user 9 2 ''org_user'']" "sample_user 9 2 ''org_user''"
      "[(DeleteUser (Some 9), Inr (sample_caller 1 ''org_admin''))]" no_faults "\<lambda>p. Inr p" "[]"]
  by (simp add: sample_user_def sample_simps may_change_user_def)

text \<open>
  The guard of \<open>adminDisableMFA\<close> against resetting a higher-tier user is missing in \<open>setPassword\<close>:
  an administrator of the organization may set the password of a user of any role in it.
\<close>

lemma setPassword_of_higher_tier:
  assumes "user_by_id users i = Some u" "CanAdmin scope (id_Role ident) (u_OrganizationID u)" "i \<noteq> id_UserID ident"
    and "\<not> canAssignRole (id_Role ident) (u_Role u)" "12 \<le> length password" "hash password = Inr h"
  shows "adminDisableMFA no_faults now (Some i) (Inr (scope, ident)) (users, sessions) =
      (WriteError 403 ''cannot reset MFA on a higher-tier admin'', users, sessions)"
    and "fst (setPassword no_faults hash now (Some i) (Inr (scope, ident)) (Inr password) (users, sessions)) = WriteHeader 204"
  using assms by (simp_all add: adminDisableMFA_def setPassword_def select_user_def)

end
