(* ===== verification/Sql.thy ===== *)
theory Sql
  imports Httpx
begin

text \<open>
  SQL expressions that several components' queries use: \<open>LIKE\<close>, text functions, and ordering by
  several keys. Text is ASCII, so \<open>_\<close> matches one byte.
\<close>

fun sql_like :: "string \<Rightarrow> string \<Rightarrow> bool" where
  "sql_like [] s = (s = [])"
| "sql_like (c # p) [] = (c = CHR ''%'' \<and> sql_like p [])"
| "sql_like (c # p) (x # xs) =
     (if c = CHR ''%'' then sql_like p (x # xs) \<or> sql_like (c # p) xs
      else if c = CHR ''_'' then sql_like p xs
      else if c = CHR 0x5C then (case p of [] \<Rightarrow> False | d # q \<Rightarrow> x = d \<and> sql_like q xs)
      else x = c \<and> sql_like p xs)"

declare sql_like.simps(3) [simp del]

text \<open>A text without wildcards matches itself only.\<close>

definition plain_pattern :: "string \<Rightarrow> bool" where
  "plain_pattern p = list_all (\<lambda>c. c \<noteq> CHR ''%'' \<and> c \<noteq> CHR ''_'' \<and> c \<noteq> CHR 0x5C) p"

lemma plain_pattern_simps [simp]:
  "plain_pattern []"
  "plain_pattern (c # p) = ((c \<noteq> CHR ''%'' \<and> c \<noteq> CHR ''_'' \<and> c \<noteq> CHR 0x5C) \<and> plain_pattern p)"
  by (simp_all add: plain_pattern_def)

lemma sql_like_char:
  "c \<noteq> CHR ''%'' \<and> c \<noteq> CHR ''_'' \<and> c \<noteq> CHR 0x5C \<Longrightarrow>
     sql_like (c # p) s = (\<exists>t. s = c # t \<and> sql_like p t)"
  by (cases s) (auto simp: sql_like.simps(3))

lemma sql_like_plain: "plain_pattern p \<Longrightarrow> sql_like p s = (s = p)"
  by (induction p arbitrary: s) (simp_all add: sql_like_char)

lemma sql_like_any: "sql_like (CHR ''%'' # p) s = (\<exists>u v. s = u @ v \<and> sql_like p v)"
  by (induction s) (auto simp: sql_like.simps(3) Cons_eq_append_conv)

lemma sql_like_suffix: "plain_pattern p \<Longrightarrow> sql_like (CHR ''%'' # p) s = suffix p s"
  by (auto simp: sql_like_any sql_like_plain suffix_def)

lemma sql_like_prefix: "plain_pattern p \<Longrightarrow> sql_like (p @ ''%'') v = prefix p v"
proof (induction p arbitrary: v)
  case (Cons c p)
  then show ?case by (cases v) (auto simp: sql_like_char)
qed (simp add: sql_like_any)

lemma sql_like_contains: "plain_pattern p \<Longrightarrow> sql_like (CHR ''%'' # p @ ''%'') s = contains s p"
  by (auto simp: sql_like_any sql_like_prefix contains_def sublist_def prefix_def)

text \<open>\<open>NULLIF(x, '')\<close>, \<open>COALESCE(x, '')\<close>, \<open>trim(both chars from x)\<close>.\<close>

definition nullif_empty :: "string \<Rightarrow> string option" where
  "nullif_empty s = (if s = [] then None else Some s)"

definition text_or_empty :: "string option \<Rightarrow> string" where
  "text_or_empty x = (case x of None \<Rightarrow> [] | Some s \<Rightarrow> s)"

lemma text_or_empty_simps [simp]: "text_or_empty None = []" "text_or_empty (Some s) = s"
  by (simp_all add: text_or_empty_def)

text \<open>\<open>array_position\<close>, counted from 1.\<close>

fun array_position :: "'a list \<Rightarrow> 'a \<Rightarrow> nat option" where
  "array_position [] x = None"
| "array_position (y # ys) x = (if y = x then Some 1 else map_option Suc (array_position ys x))"

text \<open>A query parameter that narrows a list: absent when its trimmed text is empty.\<close>

definition optional_filter :: "string \<Rightarrow> (string \<Rightarrow> 'row \<Rightarrow> bool) \<Rightarrow> 'row \<Rightarrow> bool" where
  "optional_filter arg p r = (arg = [] \<or> p arg r)"

end
