(* ===== verification/MailTables.thy ===== *)
theory MailTables
  imports Tables Sql
begin

text \<open>
  Rows of the tables around a message: gateways, list entries, the mail log with its stored messages,
  quarantine entries, mailbox copies, scan jobs with their queue, SMTP events, phishing reports and sent emails, as the migrations
  declare them. Columns of an enumeration type hold its label.
\<close>

record gateway_row =
  gw_ID :: uuid
  gw_OrganizationID :: uuid
  gw_DomainID :: uuid
  gw_Kind :: string
  gw_Host :: string
  gw_Port :: int
  gw_UseTLS :: bool
  gw_Priority :: int
  gw_IsActive :: bool
  gw_CreatedAt :: nat
  gw_UpdatedAt :: nat

record list_entry_row =
  le_ID :: uuid
  le_OrganizationID :: "uuid option"
  le_DomainID :: "uuid option"
  le_UserID :: "uuid option"
  le_Scope :: string
  le_Action :: string
  le_Kind :: string
  le_Pattern :: string
  le_Note :: "string option"
  le_CreatedAt :: nat

record mail_log_row =
  ml_ID :: uuid
  ml_OrganizationID :: uuid
  ml_DomainID :: "uuid option"
  ml_QueueID :: "string option"
  ml_MessageID :: "string option"
  ml_Direction :: string
  ml_FromAddr :: "string option"
  ml_ToAddrs :: "string list"
  ml_ClientIP :: "string option"
  ml_ClientHostname :: "string option"
  ml_Helo :: "string option"
  ml_Subject :: "string option"
  ml_SizeBytes :: "int option"
  ml_RspamdScore :: "rat option"
  ml_RspamdAction :: "string option"
  ml_Symbols :: "json option"
  ml_Disposition :: string
  ml_Reason :: "string option"
  ml_ReceivedAt :: nat
  ml_CampaignID :: "uuid option"
  ml_CampaignCopyNumber :: "nat option"
  ml_TerminalAction :: "string option"
  ml_TerminalStatusCode :: "string option"
  ml_TerminalReason :: "string option"
  ml_TerminalRelay :: "string option"
  ml_TerminalAt :: "nat option"
  ml_DeliveryMismatch :: bool
  ml_DeepAnalysisState :: string
  ml_DeepAnalysisDeadline :: "nat option"
  ml_DeepAnalysisReleasedAt :: "nat option"
  ml_DeepAnalysisFailureReason :: "string option"

record quarantine_row =
  qe_ID :: uuid
  qe_OrganizationID :: uuid
  qe_MailLogID :: "uuid option"
  qe_DomainID :: "uuid option"
  qe_FromAddr :: "string option"
  qe_ToAddr :: string
  qe_Subject :: "string option"
  qe_RspamdScore :: "rat option"
  qe_ThreatClass :: "string option"
  qe_StorageKey :: string
  qe_SizeBytes :: "int option"
  qe_State :: string
  qe_ExpiresAt :: "nat option"
  qe_ReceivedAt :: nat
  qe_ReleasedAt :: "nat option"
  qe_ReleasedBy :: "uuid option"
  qe_CampaignID :: "uuid option"

record mailbox_row =
  mb_ID :: uuid
  mb_OrganizationID :: uuid
  mb_DomainID :: "uuid option"
  mb_MailLogID :: uuid
  mb_FromAddr :: "string option"
  mb_ToAddr :: string
  mb_Subject :: "string option"
  mb_BodyText :: string
  mb_Verdict :: string
  mb_VerdictBy :: "uuid option"
  mb_VerdictAt :: "nat option"
  mb_ReceivedAt :: nat
  mb_ExpiresAt :: "nat option"
  mb_ListUnsubscribe :: "string option"
  mb_ListUnsubscribePost :: "string option"

record scan_job_row =
  sj_ID :: uuid
  sj_OrganizationID :: uuid
  sj_MailLogID :: "uuid option"
  sj_Kind :: string
  sj_State :: string
  sj_Payload :: json
  sj_Result :: "json option"
  sj_Verdict :: "string option"
  sj_Error :: "string option"
  sj_CreatedAt :: nat
  sj_StartedAt :: "nat option"
  sj_CompletedAt :: "nat option"

record smtp_event_row =
  se_ID :: uuid
  se_OrganizationID :: "uuid option"
  se_DomainID :: "uuid option"
  se_QueueID :: "string option"
  se_EventType :: string
  se_Phase :: "string option"
  se_Direction :: string
  se_FromAddr :: "string option"
  se_ToAddr :: "string option"
  se_ClientIP :: "string option"
  se_Helo :: "string option"
  se_Relay :: "string option"
  se_StatusCode :: "string option"
  se_DSN :: "string option"
  se_Reason :: "string option"
  se_RawLog :: "string option"
  se_OccurredAt :: nat

record phishing_report_row =
  pr_OrganizationID :: uuid
  pr_DomainID :: "uuid option"
  pr_MailLogID :: "uuid option"
  pr_MailboxMessageID :: "uuid option"
  pr_QuarantineEntryID :: "uuid option"
  pr_ScanJobID :: "uuid option"
  pr_Source :: string
  pr_Status :: string
  pr_PhishingType :: string
  pr_Verdict :: string
  pr_ReporterUserID :: "uuid option"
  pr_Evidence :: json
  pr_ReportedAt :: nat
  pr_UpdatedAt :: nat

record log_blob =
  lb_MailLogID :: uuid
  lb_OrganizationID :: uuid
  lb_Bytes :: string

record quarantine_blob =
  qb_EntryID :: uuid
  qb_OrganizationID :: uuid
  qb_MailLogID :: "uuid option"
  qb_Bytes :: string

record scan_envelope =
  sv_Queue :: string
  sv_ScanID :: uuid
  sv_OrganizationID :: uuid
  sv_Kind :: string

record sent_email_row =
  sm_ID :: uuid
  sm_OrganizationID :: uuid
  sm_DomainID :: "uuid option"
  sm_MailLogID :: "uuid option"
  sm_QuarantineEntryID :: "uuid option"
  sm_Kind :: string
  sm_FromAddr :: string
  sm_ToAddrs :: "string list"
  sm_Subject :: "string option"
  sm_RelayHost :: "string option"
  sm_RelayPort :: "int option"
  sm_Status :: string
  sm_Error :: "string option"
  sm_RawMessage :: string
  sm_Metadata :: json
  sm_SentAt :: "nat option"
  sm_CreatedAt :: nat
  sm_UpdatedAt :: nat

end
