(* ===== verification/Domains.thy ===== *)
theory Domains
  imports Policies Settings MailTables GoScan
begin

text \<open>
  \<open>internal/domains/domains.go\<close>: the protected domains. The state is the table of domains and the
  tables that a domain's insertion, renaming or deletion changes: its policy, the list entries (by the
  trigger of migration 00022) and what \<open>ON DELETE CASCADE\<close> removes. The MX lookup and the time format
  are parameters.
\<close>

record Domain =
  do_ID :: uuid
  do_OrganizationID :: uuid
  do_Name :: string
  do_IsActive :: bool
  do_RetentionDays :: "int option"
  do_EffectiveRetentionDays :: int
  do_CreatedAt :: nat
  do_UpdatedAt :: nat

record domain_db =
  dd_Domains :: "domain_row list"
  dd_Policies :: "Policy list"
  dd_Entries :: "list_entry_row list"
  dd_Gateways :: "gateway_row list"

text \<open>The column \<open>effective_retention_days\<close>; \<open>None\<close> is an error of the cast to \<open>int\<close>.\<close>

definition effective_retention :: "setting_row list \<Rightarrow> domain_row \<Rightarrow> int option" where
  "effective_retention rows d =
     (case dm_RetentionDays d of
        Some v \<Rightarrow> Some v
      | None \<Rightarrow>
          case retention_row rows (dm_OrganizationID d) of
            None \<Rightarrow> Some 90
          | Some r \<Rightarrow> if st_Value r = JNull then Some 90 else pg_int (st_Value r))"

definition scan_domain :: "setting_row list \<Rightarrow> domain_row \<Rightarrow> Domain option" where
  "scan_domain rows d =
     (case effective_retention rows d of
        None \<Rightarrow> None
      | Some days \<Rightarrow>
          Some \<lparr>do_ID = dm_ID d, do_OrganizationID = dm_OrganizationID d, do_Name = dm_Name d,
                do_IsActive = dm_IsActive d, do_RetentionDays = dm_RetentionDays d, do_EffectiveRetentionDays = days,
                do_CreatedAt = dm_CreatedAt d, do_UpdatedAt = dm_UpdatedAt d\<rparr>)"

fun queryAll_domains :: "setting_row list \<Rightarrow> domain_row list \<Rightarrow> Domain list option" where
  "queryAll_domains rows [] = Some []"
| "queryAll_domains rows (d # ds) =
     (case scan_domain rows d of
        None \<Rightarrow> None
      | Some x \<Rightarrow> map_option ((#) x) (queryAll_domains rows ds))"

definition list_domains ::
  "faults \<Rightarrow> (scope \<times> identity) result \<Rightarrow> page \<Rightarrow> setting_row list \<Rightarrow> domain_row list \<Rightarrow> Domain list_envelope response" where
  "list_domains err sc pg rows doms =
     (case sc of
        Inl e \<Rightarrow> WriteError 500 ''scope error''
      | Inr (scope, ident) \<Rightarrow>
          (let visible = filter (\<lambda>d. IsSuperAdmin scope \<or> dm_OrganizationID d \<in> set (VisibleOrgIDs scope)) doms;
               items = queryAll_domains rows (page_rows pg (sort_key (\<lambda>d. map byte (to_lower (dm_Name d))) visible))
           in if err ''count domains'' then WriteError 500 ''db error''
              else if err ''select domains'' then WriteError 500 ''select domains''
              else case items of
                None \<Rightarrow> WriteError 500 ''invalid input syntax for type integer''
              | Some out \<Rightarrow> WriteJSON 200 \<lparr>Items = out, Total = length visible, EnvLimit = Limit pg, EnvOffset = Offset pg\<rparr>))"

record domainWriteReq =
  dw_OrganizationID :: "uuid option"
  dw_Name :: string
  dw_IsActive :: "bool option"
  dw_RetentionDays :: "int option"
  dw_InheritRetention :: "bool option"

definition validRetentionDays :: "int \<Rightarrow> bool" where
  "validRetentionDays days = (days \<ge> 1 \<and> days \<le> 365)"

text \<open>
  The trigger \<open>remove_blocklists_for_configured_domain\<close>: a block entry for the whole of the domain
  goes when the domain appears.
\<close>

definition whole_domain_pattern :: "string \<Rightarrow> bool" where
  "whole_domain_pattern p = (has_prefix p ''*@'' \<or> has_prefix p ''@'' \<or> CHR ''@'' \<notin> set p)"

definition pattern_domain :: "string \<Rightarrow> string" where
  "pattern_domain p = trim_suffix (trim_prefix (trim_prefix p ''*@'') ''@'') ''.''"

definition blocks_domain :: "string \<Rightarrow> list_entry_row \<Rightarrow> bool" where
  "blocks_domain name e =
     (le_Action e = ''block'' \<and> whole_domain_pattern (le_Pattern e) \<and> to_lower (pattern_domain (le_Pattern e)) = to_lower name)"

definition remove_blocklists :: "string \<Rightarrow> list_entry_row list \<Rightarrow> list_entry_row list" where
  "remove_blocklists name entries = filter (\<lambda>e. \<not> blocks_domain name e) entries"

definition insert_domain ::
  "organization list \<Rightarrow> uuid \<Rightarrow> nat \<Rightarrow> uuid \<Rightarrow> string \<Rightarrow> int option \<Rightarrow> domain_row list \<Rightarrow> domain_row option" where
  "insert_domain orgs new_id now org name days doms =
     (if list_ex (\<lambda>d. dm_ID d = new_id \<or> equal_fold (dm_Name d) name) doms \<or> org \<notin> org_ID ` set orgs then None
      else Some \<lparr>dm_ID = new_id, dm_OrganizationID = org, dm_Name = name, dm_IsActive = True, dm_RetentionDays = days,
                 dm_CreatedAt = now, dm_UpdatedAt = now\<rparr>)"

definition auto_policy :: "uuid \<Rightarrow> nat \<Rightarrow> uuid \<Rightarrow> uuid \<Rightarrow> string \<Rightarrow> Policy" where
  "auto_policy policy_id now org domain name =
     \<lparr>p_ID = policy_id, p_OrganizationID = Some org, p_DomainID = Some domain, p_Name = name @ '' balanced spam tag'',
      p_SpamThreshold = 5, p_QuarantineThreshold = 7, p_RejectThreshold = 15, p_DMARCEnforce = False,
      p_EnableGreylist = True, p_QuarantineAction = ''tag'',
      p_Settings = [(''preset'', JStr ''balanced''), (''auto_created'', JBool True)], p_IsDefault = False,
      p_CreatedAt = now, p_UpdatedAt = now\<rparr>"

definition create_domain ::
  "faults \<Rightarrow> organization list \<Rightarrow> setting_row list \<Rightarrow> uuid \<Rightarrow> uuid \<Rightarrow> nat \<Rightarrow> (scope \<times> identity) result \<Rightarrow>
     domainWriteReq result \<Rightarrow> domain_db \<Rightarrow> Domain response \<times> domain_db" where
  "create_domain err orgs rows new_id policy_id now sc body db =
     (case sc of
        Inl e \<Rightarrow> (WriteError 500 ''scope error'', db)
      | Inr (scope, ident) \<Rightarrow>
          case body of
            Inl e \<Rightarrow> (WriteError 400 e, db)
          | Inr req \<Rightarrow>
              (let name = trim_space (to_lower (dw_Name req));
                   org = coalesce (dw_OrganizationID req) (id_OrganizationID ident);
                   days = (if dw_InheritRetention req = Some True then None else dw_RetentionDays req)
               in if name = [] then (WriteError 400 ''name required'', db)
                  else if \<not> CanAdmin scope (id_Role ident) org then (WriteError 403 ''forbidden for that organization'', db)
                  else if err ''begin'' then (WriteError 500 ''tx'', db)
                  else if (case days of None \<Rightarrow> False | Some n \<Rightarrow> \<not> validRetentionDays n) then
                    (WriteError 400 ''retention_days must be between 1 and 365'', db)
                  else case (if err ''insert domains'' then None else insert_domain orgs new_id now org name days (dd_Domains db)) of
                    None \<Rightarrow> (WriteError 500 ''create failed: '', db)
                  | Some d \<Rightarrow>
                      if err ''insert policies'' \<or> policy_id \<in> p_ID ` set (dd_Policies db) then
                        (WriteError 500 ''policy create failed: '', db)
                      else if err ''commit'' then (WriteError 500 ''commit failed'', db)
                      else
                        (let db' = db\<lparr>dd_Domains := dd_Domains db @ [d],
                                      dd_Entries := remove_blocklists name (dd_Entries db),
                                      dd_Policies := dd_Policies db @ [auto_policy policy_id now org new_id name]\<rparr>
                         in case (if err ''select domain'' then None else scan_domain rows d) of
                              None \<Rightarrow> (WriteError 500 ''read failed'', db')
                            | Some x \<Rightarrow> (WriteJSON 201 x, db'))))"

definition select_domain :: "faults \<Rightarrow> setting_row list \<Rightarrow> domain_row list \<Rightarrow> uuid \<Rightarrow> (domain_row \<times> Domain) option result" where
  "select_domain err rows doms i =
     (if err ''select domain'' then Inl ''select domain''
      else case domain_by_id doms i of
        None \<Rightarrow> Inr None
      | Some d \<Rightarrow> (case scan_domain rows d of None \<Rightarrow> Inl ''scan'' | Some x \<Rightarrow> Inr (Some (d, x))))"

definition read_domain ::
  "faults \<Rightarrow> setting_row list \<Rightarrow> uuid option \<Rightarrow> (scope \<times> identity) result \<Rightarrow> domain_row list \<Rightarrow> Domain response" where
  "read_domain err rows param sc doms =
     (case param of
        None \<Rightarrow> WriteError 400 ''invalid id''
      | Some i \<Rightarrow>
          case sc of
            Inl e \<Rightarrow> WriteError 500 ''scope''
          | Inr (scope, ident) \<Rightarrow>
              case select_domain err rows doms i of
                Inl e \<Rightarrow> WriteError 500 ''db error''
              | Inr None \<Rightarrow> WriteError 404 ''not found''
              | Inr (Some (d, x)) \<Rightarrow>
                  if \<not> Allows scope (dm_OrganizationID d) then WriteError 404 ''not found'' else WriteJSON 200 x)"

text \<open>\<open>update\<close>, \<open>del\<close> and \<open>verification\<close> answer 404 to every error of the query.\<close>

definition find_domain :: "faults \<Rightarrow> setting_row list \<Rightarrow> domain_row list \<Rightarrow> uuid \<Rightarrow> (domain_row \<times> Domain) option" where
  "find_domain err rows doms i = (case select_domain err rows doms i of Inl e \<Rightarrow> None | Inr found \<Rightarrow> found)"

definition update_domain_row :: "nat \<Rightarrow> domainWriteReq \<Rightarrow> domain_row \<Rightarrow> domain_row" where
  "update_domain_row now req d = d\<lparr>
     dm_Name := coalesce_text (to_lower (dw_Name req)) (dm_Name d),
     dm_IsActive := coalesce (dw_IsActive req) (dm_IsActive d),
     dm_RetentionDays :=
       (if dw_InheritRetention req = Some True then None
        else case dw_RetentionDays req of None \<Rightarrow> dm_RetentionDays d | v \<Rightarrow> v),
     dm_UpdatedAt := now\<rparr>"

definition update_domain ::
  "faults \<Rightarrow> setting_row list \<Rightarrow> nat \<Rightarrow> uuid option \<Rightarrow> (scope \<times> identity) result \<Rightarrow> domainWriteReq result \<Rightarrow>
     domain_db \<Rightarrow> Domain response \<times> domain_db" where
  "update_domain err rows now param sc body db =
     (case param of
        None \<Rightarrow> (WriteError 400 ''invalid id'', db)
      | Some i \<Rightarrow>
          case sc of
            Inl e \<Rightarrow> (WriteError 500 ''scope'', db)
          | Inr (scope, ident) \<Rightarrow>
              case find_domain err rows (dd_Domains db) i of
                None \<Rightarrow> (WriteError 404 ''not found'', db)
              | Some (d, _) \<Rightarrow>
                  if \<not> CanAdmin scope (id_Role ident) (dm_OrganizationID d) then (WriteError 403 ''forbidden'', db)
                  else case body of
                    Inl e \<Rightarrow> (WriteError 400 e, db)
                  | Inr req \<Rightarrow>
                      if (case dw_RetentionDays req of None \<Rightarrow> False | Some n \<Rightarrow> \<not> validRetentionDays n) then
                        (WriteError 400 ''retention_days must be between 1 and 365'', db)
                      else
                        (let d' = update_domain_row now req d
                         in if err ''update domains'' \<or>
                               list_ex (\<lambda>x. dm_ID x \<noteq> i \<and> equal_fold (dm_Name x) (dm_Name d')) (dd_Domains db) then
                              (WriteError 500 ''update failed'', db)
                            else
                              (let db' = db\<lparr>dd_Domains := update_where (\<lambda>x. dm_ID x = i) (\<lambda>_. d') (dd_Domains db),
                                            dd_Entries := remove_blocklists (dm_Name d') (dd_Entries db)\<rparr>
                               in (read_domain err rows param sc (dd_Domains db'), db'))))"

text \<open>The foreign keys with \<open>ON DELETE CASCADE\<close>.\<close>

definition delete_domain_rows :: "uuid \<Rightarrow> domain_db \<Rightarrow> domain_db" where
  "delete_domain_rows i db = db\<lparr>
     dd_Domains := filter (\<lambda>x. dm_ID x \<noteq> i) (dd_Domains db),
     dd_Policies := filter (\<lambda>p. p_DomainID p \<noteq> Some i) (dd_Policies db),
     dd_Entries := filter (\<lambda>e. le_DomainID e \<noteq> Some i) (dd_Entries db),
     dd_Gateways := filter (\<lambda>g. gw_DomainID g \<noteq> i) (dd_Gateways db)\<rparr>"

definition del_domain ::
  "faults \<Rightarrow> setting_row list \<Rightarrow> uuid option \<Rightarrow> (scope \<times> identity) result \<Rightarrow> domain_db \<Rightarrow> Domain response \<times> domain_db" where
  "del_domain err rows param sc db =
     (case param of
        None \<Rightarrow> (WriteError 400 ''invalid id'', db)
      | Some i \<Rightarrow>
          case sc of
            Inl e \<Rightarrow> (WriteError 500 ''scope'', db)
          | Inr (scope, ident) \<Rightarrow>
              case find_domain err rows (dd_Domains db) i of
                None \<Rightarrow> (WriteError 404 ''not found'', db)
              | Some (d, _) \<Rightarrow>
                  if \<not> CanAdmin scope (id_Role ident) (dm_OrganizationID d) then (WriteError 403 ''forbidden'', db)
                  else if err ''delete domains'' then (WriteError 500 ''delete failed'', db)
                  else (WriteHeader 204, delete_domain_rows i db))"

section \<open>Verification\<close>

record VerificationCheck =
  vc_Key :: string
  vc_Label :: string
  vc_Status :: string
  vc_Detail :: string

record VerificationResponse =
  vr_Domain :: Domain
  vr_ExpectedMX :: string
  vr_MX :: "string list"
  vr_Matches :: bool
  vr_Error :: string
  vr_CheckedAt :: nat
  vr_Gateways :: "nat \<times> nat"
  vr_Last24h :: nat
  vr_NewestAt :: "nat option"
  vr_Disposition :: "(string \<times> nat) list"
  vr_Checks :: "VerificationCheck list"

definition trimDot :: "string \<Rightarrow> string" where
  "trimDot s = trim_suffix (trim_space s) ''.''"

definition statusBool :: "bool \<Rightarrow> string" where
  "statusBool ok = (if ok then ''pass'' else ''fail'')"

definition boolDetail :: "bool \<Rightarrow> string \<Rightarrow> string \<Rightarrow> string" where
  "boolDetail ok pass failed = (if ok then pass else failed)"

definition mxStatus :: "string \<Rightarrow> string list \<Rightarrow> bool \<Rightarrow> string \<Rightarrow> string" where
  "mxStatus expected hosts match e =
     (if expected = [] then ''warn''
      else if e \<noteq> [] then ''unknown''
      else if match then ''pass''
      else if hosts = [] then ''fail''
      else ''warn'')"

definition mxDetail :: "string \<Rightarrow> string list \<Rightarrow> string \<Rightarrow> string" where
  "mxDetail expected hosts e =
     (if expected = [] then ''mail.hostname is not configured''
      else if e \<noteq> [] then ''DNS lookup failed: '' @ e
      else if hosts = [] then ''no MX records found; expected '' @ expected
      else ''expected '' @ expected @ ''; found '' @ join hosts '', '')"

definition gatewayDetail :: "nat \<Rightarrow> nat \<Rightarrow> string" where
  "gatewayDetail active all =
     (if active > 0 then trim_space (join [itoa active, ''active of'', itoa all, ''configured''] '' '')
      else if all > 0 then ''gateways exist but all are disabled''
      else ''no downstream gateway configured'')"

definition recentMailDetail :: "(nat \<Rightarrow> string) \<Rightarrow> nat \<Rightarrow> nat option \<Rightarrow> string" where
  "recentMailDetail rfc3339 n newest =
     (if n = 0 then ''no mail log rows for this domain in the last 24 hours''
      else case newest of
        Some t \<Rightarrow> itoa n @ '' messages in the last 24 hours; newest '' @ rfc3339 t
      | None \<Rightarrow> itoa n @ '' messages in the last 24 hours'')"

definition lookupStringSetting :: "faults \<Rightarrow> setting_row list \<Rightarrow> string \<Rightarrow> string" where
  "lookupStringSetting err rows key =
     (case settings_Lookup err rows key of
        Inr (Some raw) \<Rightarrow> (case unmarshal_string raw of None \<Rightarrow> [] | Some v \<Rightarrow> trim_space v)
      | _ \<Rightarrow> [])"

definition lookupMX :: "(string \<Rightarrow> string list result) \<Rightarrow> string \<Rightarrow> string list \<times> string" where
  "lookupMX resolver domain =
     (case resolver domain of Inl e \<Rightarrow> ([], e) | Inr hosts \<Rightarrow> (map trimDot hosts, []))"

definition dispositionCounts :: "mail_log_row list \<Rightarrow> (string \<times> nat) list" where
  "dispositionCounts logs =
     map (\<lambda>k. (k, length (filter (\<lambda>m. ml_Disposition m = k) logs))) (remdups (map ml_Disposition logs))"

definition max_option :: "nat list \<Rightarrow> nat option" where
  "max_option xs = (if xs = [] then None else Some (Max (set xs)))"

definition verification ::
  "faults \<Rightarrow> (string \<Rightarrow> string list result) \<Rightarrow> (nat \<Rightarrow> string) \<Rightarrow> setting_row list \<Rightarrow> nat \<Rightarrow> uuid option \<Rightarrow>
     (scope \<times> identity) result \<Rightarrow> mail_log_row list \<Rightarrow> domain_db \<Rightarrow> VerificationResponse response" where
  "verification err resolver rfc3339 rows now param sc logs db =
     (case param of
        None \<Rightarrow> WriteError 400 ''invalid id''
      | Some i \<Rightarrow>
          case sc of
            Inl e \<Rightarrow> WriteError 500 ''scope''
          | Inr (scope, ident) \<Rightarrow>
              case find_domain err rows (dd_Domains db) i of
                None \<Rightarrow> WriteError 404 ''not found''
              | Some (d, x) \<Rightarrow>
                  if \<not> CanAdmin scope (id_Role ident) (dm_OrganizationID d) then WriteError 403 ''forbidden''
                  else
                    (let expectedMX = lookupStringSetting err rows ''mail.hostname'';
                         gws = filter (\<lambda>g. gw_OrganizationID g = dm_OrganizationID d \<and> gw_DomainID g = dm_ID d) (dd_Gateways db);
                         all = length gws;
                         active = length (filter gw_IsActive gws);
                         recent = filter (\<lambda>m. ml_OrganizationID m = dm_OrganizationID d \<and> ml_DomainID m = Some (dm_ID d) \<and>
                                    now \<le> ml_ReceivedAt m + 86400) logs;
                         newest = max_option (map ml_ReceivedAt recent);
                         (mxHosts, mxErr) = lookupMX resolver (dm_Name d);
                         mxMatches = (expectedMX \<noteq> [] \<and> list_ex (\<lambda>host. equal_fold (trimDot host) (trimDot expectedMX)) mxHosts)
                     in if err ''select gateways'' then WriteError 500 ''gateway check failed''
                        else if err ''select mail_logs'' then WriteError 500 ''mail check failed''
                        else if err ''select dispositions'' then WriteError 500 ''mail summary failed''
                        else WriteJSON 200
                          \<lparr>vr_Domain = x, vr_ExpectedMX = expectedMX, vr_MX = mxHosts, vr_Matches = mxMatches, vr_Error = mxErr,
                           vr_CheckedAt = now, vr_Gateways = (all, active), vr_Last24h = length recent, vr_NewestAt = newest,
                           vr_Disposition = dispositionCounts recent,
                           vr_Checks =
                             [\<lparr>vc_Key = ''domain_active'', vc_Label = ''Domain accepts mail'', vc_Status = statusBool (dm_IsActive d),
                               vc_Detail = boolDetail (dm_IsActive d) ''domain is active'' ''domain is disabled''\<rparr>,
                              \<lparr>vc_Key = ''mx_dns'', vc_Label = ''MX points at gateway'',
                               vc_Status = mxStatus expectedMX mxHosts mxMatches mxErr, vc_Detail = mxDetail expectedMX mxHosts mxErr\<rparr>,
                              \<lparr>vc_Key = ''delivery_gateway'', vc_Label = ''Downstream gateway configured'',
                               vc_Status = statusBool (active > 0), vc_Detail = gatewayDetail active all\<rparr>,
                              \<lparr>vc_Key = ''recent_mail'', vc_Label = ''Recent mail observed'', vc_Status = statusBool (recent \<noteq> []),
                               vc_Detail = recentMailDetail rfc3339 (length recent) newest\<rparr>]\<rparr>))"

section \<open>Properties\<close>

datatype domain_cmd =
    CreateDomain uuid uuid nat "domainWriteReq result"
  | UpdateDomain nat "uuid option" "domainWriteReq result"
  | DeleteDomain "uuid option"

fun domain_step ::
  "faults \<Rightarrow> organization list \<Rightarrow> setting_row list \<Rightarrow> domain_cmd \<Rightarrow> (scope \<times> identity) result \<Rightarrow> domain_db \<Rightarrow> domain_db" where
  "domain_step err orgs rows (CreateDomain i p now body) sc db = snd (create_domain err orgs rows i p now sc body db)"
| "domain_step err orgs rows (UpdateDomain now i body) sc db = snd (update_domain err rows now i sc body db)"
| "domain_step err orgs rows (DeleteDomain i) sc db = snd (del_domain err rows i sc db)"

lemma find_domain_Some: "find_domain err rows doms i = Some (d, x) \<Longrightarrow> d \<in> set doms \<and> dm_ID d = i"
  by (auto simp: find_domain_def select_domain_def dest: domain_by_id_Some split: if_splits option.splits)

lemma insert_domain_Some:
  "insert_domain orgs i now org name days doms = Some d \<Longrightarrow>
     dm_ID d = i \<and> i \<notin> dm_ID ` set doms \<and> dm_Name d = name \<and> dm_OrganizationID d = org"
  by (auto simp: insert_domain_def list_ex_iff split: if_splits)

lemma update_domain_row_ID [simp]: "dm_ID (update_domain_row now req d) = dm_ID d"
  by (simp add: update_domain_row_def)

text \<open>What each handler can have done.\<close>

lemma create_domain_cases:
  assumes "P db"
    and "\<And>d org name days scope ident. sc = Inr (scope, ident) \<Longrightarrow> CanAdmin scope (id_Role ident) org \<Longrightarrow>
      insert_domain orgs i now org name days (dd_Domains db) = Some d \<Longrightarrow> policy_id \<notin> p_ID ` set (dd_Policies db) \<Longrightarrow>
      P (db\<lparr>dd_Domains := dd_Domains db @ [d], dd_Entries := remove_blocklists name (dd_Entries db),
            dd_Policies := dd_Policies db @ [auto_policy policy_id now org i name]\<rparr>)"
  shows "P (snd (create_domain err orgs rows i policy_id now sc body db))"
  unfolding create_domain_def
  by (rule ends_inI, intro handler_walk) (simp_all add: assms split: if_splits)

lemma update_domain_cases:
  assumes "P db"
    and "\<And>i d x req scope ident. sc = Inr (scope, ident) \<Longrightarrow> find_domain err rows (dd_Domains db) i = Some (d, x) \<Longrightarrow>
      CanAdmin scope (id_Role ident) (dm_OrganizationID d) \<Longrightarrow>
      P (db\<lparr>dd_Domains := update_where (\<lambda>x. dm_ID x = i) (\<lambda>_. update_domain_row now req d) (dd_Domains db),
            dd_Entries := remove_blocklists (dm_Name (update_domain_row now req d)) (dd_Entries db)\<rparr>)"
  shows "P (snd (update_domain err rows now param sc body db))"
  unfolding update_domain_def
  by (rule ends_inI, intro handler_walk) (simp_all add: assms)

lemma del_domain_cases:
  assumes "P db"
    and "\<And>i d x scope ident. sc = Inr (scope, ident) \<Longrightarrow> find_domain err rows (dd_Domains db) i = Some (d, x) \<Longrightarrow>
      CanAdmin scope (id_Role ident) (dm_OrganizationID d) \<Longrightarrow> P (delete_domain_rows i db)"
  shows "P (snd (del_domain err rows param sc db))"
  unfolding del_domain_def
  by (rule ends_inI, intro handler_walk) (simp_all add: assms)

definition may_admin_domain :: "(scope \<times> identity) result \<Rightarrow> domain_row \<Rightarrow> bool" where
  "may_admin_domain sc d = may_admin sc (dm_OrganizationID d)"

lemma domain_step_change:
  "table_change dm_ID (may_admin_domain sc) (dd_Domains db) (dd_Domains (domain_step err orgs rows cmd sc db))"
proof (cases cmd)
  case (CreateDomain i p now body)
  show ?thesis
    unfolding CreateDomain domain_step.simps
    by (rule create_domain_cases [of "\<lambda>db'. table_change dm_ID (may_admin_domain sc) (dd_Domains db) (dd_Domains db')"])
      (auto intro: table_change.keep table_change.insert dest: insert_domain_Some)
next
  case (UpdateDomain now param body)
  show ?thesis
    unfolding UpdateDomain domain_step.simps
  proof (rule update_domain_cases, goal_cases)
    case (2 i d x req scope ident)
    then have "may_admin_domain sc d" by (simp add: may_admin_domain_def may_admin_def)
    with find_domain_Some [OF 2(2)] show ?case
      using table_change.update [where key = dm_ID and r = d and r' = "update_domain_row now req d" and rows = "dd_Domains db"]
      by auto
  qed (rule table_change.keep)
next
  case (DeleteDomain param)
  show ?thesis
    unfolding DeleteDomain domain_step.simps
  proof (rule del_domain_cases, goal_cases)
    case (2 i d x scope ident)
    then have "may_admin_domain sc d" by (simp add: may_admin_domain_def may_admin_def)
    with find_domain_Some [OF 2(2)] show ?case
      using table_change.delete [where key = dm_ID and r = d and rows = "dd_Domains db"]
      by (auto simp: delete_domain_rows_def)
  qed (rule table_change.keep)
qed

interpretation domain_table: tenant_state "domain_step err orgs rows" dd_Domains dm_ID may_admin_domain
  for err orgs rows
  by unfold_locales (rule domain_step_change)

text \<open>Tenant isolation of domains: requests of callers without administration rights over its
  organization leave a domain as it is.\<close>

theorem domains_isolated:
  assumes "distinct (map dm_ID (dd_Domains db))" "d \<in> set (dd_Domains db)"
    and "list_all (\<lambda>(_, sc). \<not> may_admin sc (dm_OrganizationID d)) reqs"
  shows "d \<in> set (dd_Domains (foldl (\<lambda>db (cmd, sc). domain_step err orgs rows cmd sc db) db reqs))"
  using domain_table.requests_foreign [OF assms(1,2), of reqs err orgs rows] assms(3)
  by (simp add: may_admin_domain_def)

text \<open>The trigger's promise: no block entry for the whole of a configured domain.\<close>

definition unblocked :: "domain_db \<Rightarrow> bool" where
  "unblocked db = list_all (\<lambda>d. \<not> list_ex (blocks_domain (dm_Name d)) (dd_Entries db)) (dd_Domains db)"

lemma unblockedD: "unblocked db \<Longrightarrow> d \<in> set (dd_Domains db) \<Longrightarrow> e \<in> set (dd_Entries db) \<Longrightarrow> \<not> blocks_domain (dm_Name d) e"
  by (auto simp: unblocked_def list_all_iff list_ex_iff)

lemma domain_step_unblocked:
  assumes "unblocked db"
  shows "unblocked (domain_step err orgs rows cmd sc db)"
proof (cases cmd)
  case (CreateDomain i p now body)
  show ?thesis
    unfolding CreateDomain domain_step.simps
    by (rule create_domain_cases [of unblocked, OF assms])
      (use assms in \<open>auto simp: unblocked_def remove_blocklists_def list_all_iff list_ex_iff dest!: insert_domain_Some\<close>)
next
  case (UpdateDomain now param body)
  show ?thesis
    unfolding UpdateDomain domain_step.simps
    by (rule update_domain_cases [of unblocked, OF assms])
      (use assms in \<open>auto simp: unblocked_def remove_blocklists_def list_all_iff list_ex_iff update_where_def\<close>)
next
  case (DeleteDomain param)
  show ?thesis
    unfolding DeleteDomain domain_step.simps
    by (rule del_domain_cases [of unblocked, OF assms])
      (use assms in \<open>auto simp: unblocked_def delete_domain_rows_def list_all_iff list_ex_iff\<close>)
qed

text \<open>Retention as shown and as applied: the retention that the domain API shows, when the column
  can be read, is up to the clamp the retention that the mail pipeline applies to the domain.\<close>

theorem shown_retention_applies:
  assumes "distinct (map dm_ID doms)" "d \<in> set doms" "scan_domain rows d = Some x"
  shows "MessageRetentionDaysForDomain no_faults rows doms (dm_OrganizationID d) (dm_ID d) =
    clampRetentionDays (do_EffectiveRetentionDays x)"
proof -
  from assms(3) have days: "effective_retention rows d = Some (do_EffectiveRetentionDays x)"
    by (auto simp: scan_domain_def split: option.splits)
  have only: "e = d" if "e \<in> set doms" "dm_ID e = dm_ID d" for e
    using assms(1,2) that by (auto simp: distinct_map inj_on_def)
  let ?p = "\<lambda>e. dm_ID e = dm_ID d \<and> dm_OrganizationID e = dm_OrganizationID d \<and> dm_RetentionDays e \<noteq> None"
  show ?thesis
  proof (cases "dm_RetentionDays d")
    case None
    then have "find ?p doms = None" using only by (auto simp: find_None_iff)
    with None days show ?thesis
      by (auto simp: MessageRetentionDaysForDomain_def MessageRetentionDays_def effective_retention_def pg_int_def
          split: option.splits if_splits)
  next
    case (Some v)
    then have "find ?p doms \<noteq> None" using assms(2) by (auto simp: find_None_iff)
    then obtain e where e: "find ?p doms = Some e" by blast
    then have "e = d" using only by (auto simp: find_Some_iff)
    with e Some days show ?thesis by (simp add: MessageRetentionDaysForDomain_def effective_retention_def)
  qed
qed

text \<open>A new domain has a policy: when \<open>create\<close> answers 201, the policy that \<open>Resolve\<close> gives the new
  domain is the balanced one it inserted, unless a newer policy of the domain exists, and no block
  entry for the whole domain is left.\<close>

theorem create_domain_guarded:
  assumes "create_domain err orgs rows i p now sc (Inr req) db = (WriteJSON 201 x, db')"
    and "list_all (\<lambda>q. p_UpdatedAt q < now) (dd_Policies db)"
  shows "Resolve no_faults orgs (dd_Policies db') (Some i) org = Inr (auto_policy p now (do_OrganizationID x) i (do_Name x)) \<and>
    \<not> list_ex (blocks_domain (do_Name x)) (dd_Entries db')"
proof -
  from assms(1) have db': "dd_Policies db' = dd_Policies db @ [auto_policy p now (do_OrganizationID x) i (do_Name x)]"
    "dd_Entries db' = remove_blocklists (do_Name x) (dd_Entries db)"
    by (auto simp: create_domain_def scan_domain_def Let_def split: sum.splits option.splits if_splits dest!: insert_domain_Some)
  let ?p = "auto_policy p now (do_OrganizationID x) i (do_Name x)"
  have "resolve_domain (dd_Policies db') i \<noteq> None"
    by (auto simp: db' resolve_domain_def auto_policy_def)
  then obtain q where q: "resolve_domain (dd_Policies db') i = Some q" by blast
  have "p_UpdatedAt ?p = now" "p_DomainID ?p = Some i" by (simp_all add: auto_policy_def)
  with resolve_domain_Some [OF q] db'(1) assms(2) have "q = ?p" by (fastforce simp: list_all_iff)
  with q db'(2) show ?thesis by (auto simp: Resolve_def remove_blocklists_def list_ex_iff)
qed

lemma shown_retention_applies_witness:
  "MessageRetentionDaysForDomain no_faults [] [sample_domain 5 1 ''x.io''] 1 5 = 90"
proof -
  let ?x = "\<lparr>do_ID = 5, do_OrganizationID = 1, do_Name = ''x.io'', do_IsActive = True, do_RetentionDays = None,
      do_EffectiveRetentionDays = 90, do_CreatedAt = 0, do_UpdatedAt = 0\<rparr>"
  have "scan_domain [] (sample_domain 5 1 ''x.io'') = Some ?x"
    by (simp add: scan_domain_def effective_retention_def retention_row_def sample_domain_def)
  with shown_retention_applies [of "[sample_domain 5 1 ''x.io'']" "sample_domain 5 1 ''x.io''" "[]" ?x]
  show ?thesis by (simp add: sample_domain_def clampRetentionDays_def retentionMinDays_def retentionMaxDays_def)
qed

definition sample_domain_request :: domainWriteReq where
  "sample_domain_request = \<lparr>dw_OrganizationID = None, dw_Name = '' X.io'', dw_IsActive = None, dw_RetentionDays = Some 30,
     dw_InheritRetention = None\<rparr>"

definition sample_block :: "string \<Rightarrow> list_entry_row" where
  "sample_block p = \<lparr>le_ID = 3, le_OrganizationID = Some 1, le_DomainID = None, le_UserID = None, le_Scope = ''org'',
     le_Action = ''block'', le_Kind = ''domain'', le_Pattern = p, le_Note = None, le_CreatedAt = 0\<rparr>"

lemma create_domain_guarded_witness:
  "\<exists>x db'. create_domain no_faults [sample_org 1 None] [] 5 6 7 (Inr (sample_caller 1 ''org_admin'')) (Inr sample_domain_request)
       \<lparr>dd_Domains = [], dd_Policies = [], dd_Entries = [sample_block ''*@x.io''], dd_Gateways = []\<rparr> = (WriteJSON 201 x, db') \<and>
     Resolve no_faults [sample_org 1 None] (dd_Policies db') (Some 5) (Some 1) =
       Inr (auto_policy 6 7 (do_OrganizationID x) 5 (do_Name x)) \<and>
     \<not> list_ex (blocks_domain (do_Name x)) (dd_Entries db')"
proof -
  let ?db = "\<lparr>dd_Domains = [], dd_Policies = [], dd_Entries = [sample_block ''*@x.io''], dd_Gateways = []\<rparr>"
  have name: "trim_space '' x.io'' = ''x.io''"
    by (simp add: trim_defs text_simps)
  have "\<exists>x db'. create_domain no_faults [sample_org 1 None] [] 5 6 7 (Inr (sample_caller 1 ''org_admin''))
      (Inr sample_domain_request) ?db = (WriteJSON 201 x, db')"
    by (simp add: create_domain_def sample_domain_request_def name sample_simps insert_domain_def validRetentionDays_def
        scan_domain_def effective_retention_def Let_def)
  then show ?thesis
    using create_domain_guarded [of no_faults "[sample_org 1 None]" "[]" 5 6 7 "Inr (sample_caller 1 ''org_admin'')"
        sample_domain_request ?db _ _ "Some 1"] by fastforce
qed

end
