(* ===== verification/GoAddr.thy ===== *)
theory GoAddr
  imports GoScan
begin

text \<open>The rest of \<open>net/netip\<close> that the gateway uses: \<open>Unmap\<close>, \<open>Masked\<close> and the printers.\<close>

definition is_4in6 :: "nat list \<Rightarrow> bool" where
  "is_4in6 bs = (take 12 bs = replicate 10 0 @ [255, 255])"

definition unmap :: "addr \<Rightarrow> addr" where
  "unmap a =
     (case a of
        V4 bs \<Rightarrow> V4 bs
      | V6 bs z \<Rightarrow> if is_4in6 bs then V4 (drop 12 bs) else a)"

definition bit_len :: "addr \<Rightarrow> nat" where
  "bit_len a = (case a of V4 _ \<Rightarrow> 32 | V6 _ _ \<Rightarrow> 128)"

text \<open>The ranges that \<open>IsLoopback\<close>, \<open>IsPrivate\<close>, \<open>IsLinkLocalUnicast\<close> and \<open>IsGlobalUnicast\<close> test; an
  IPv4 address in IPv6 counts as the IPv4 address.\<close>

definition is_loopback :: "addr \<Rightarrow> bool" where
  "is_loopback a = (case unmap a of V4 bs \<Rightarrow> bs ! 0 = 127 | V6 bs z \<Rightarrow> bs = replicate 15 0 @ [1])"

definition is_private :: "addr \<Rightarrow> bool" where
  "is_private a =
     (case unmap a of
        V4 bs \<Rightarrow> bs ! 0 = 10 \<or> (bs ! 0 = 172 \<and> 16 \<le> bs ! 1 \<and> bs ! 1 \<le> 31) \<or> (bs ! 0 = 192 \<and> bs ! 1 = 168)
      | V6 bs z \<Rightarrow> bs ! 0 = 252 \<or> bs ! 0 = 253)"

definition is_link_local_unicast :: "addr \<Rightarrow> bool" where
  "is_link_local_unicast a =
     (case unmap a of
        V4 bs \<Rightarrow> bs ! 0 = 169 \<and> bs ! 1 = 254
      | V6 bs z \<Rightarrow> bs ! 0 = 254 \<and> 128 \<le> bs ! 1 \<and> bs ! 1 \<le> 191)"

definition is_global_unicast :: "addr \<Rightarrow> bool" where
  "is_global_unicast a =
     (let unspecified = (case unmap a of V4 bs \<Rightarrow> bs = [0, 0, 0, 0] | V6 bs z \<Rightarrow> bs = replicate 16 0 \<and> z = []);
          broadcast = (case unmap a of V4 bs \<Rightarrow> bs = [255, 255, 255, 255] | V6 _ _ \<Rightarrow> False);
          multicast = (case unmap a of V4 bs \<Rightarrow> 224 \<le> bs ! 0 \<and> bs ! 0 \<le> 239 | V6 bs z \<Rightarrow> bs ! 0 = 255)
      in \<not> unspecified \<and> \<not> broadcast \<and> \<not> is_loopback a \<and> \<not> multicast \<and> \<not> is_link_local_unicast a)"

text \<open>The bytes with all but the first \<open>n\<close> bits cleared.\<close>

fun mask_bytes :: "nat \<Rightarrow> nat list \<Rightarrow> nat list" where
  "mask_bytes n [] = []"
| "mask_bytes n (b # bs) =
     (if n \<ge> 8 then b else b div 2 ^ (8 - n) * 2 ^ (8 - n)) # mask_bytes (n - 8) bs"

definition mask_addr :: "nat \<Rightarrow> addr \<Rightarrow> addr" where
  "mask_addr n a = (case a of V4 bs \<Rightarrow> V4 (mask_bytes n bs) | V6 bs z \<Rightarrow> V6 (mask_bytes n bs) [])"

fun hex_text :: "nat \<Rightarrow> string" where
  "hex_text n = (if n < 16 then [lower_hex_digit n] else hex_text (n div 16) @ [lower_hex_digit (n mod 16)])"

declare hex_text.simps [simp del]

fun words16 :: "nat list \<Rightarrow> nat list" where
  "words16 (a # b # bs) = (256 * a + b) # words16 bs"
| "words16 _ = []"

text \<open>The longest run of at least two zero words, the first of several: its start and its length.\<close>

fun zero_run :: "nat \<Rightarrow> nat list \<Rightarrow> nat \<times> nat \<Rightarrow> nat \<times> nat" where
  "zero_run i [] best = best"
| "zero_run i (w # ws) best =
     (let l = length (takeWhile (\<lambda>x. x = 0) (w # ws))
      in zero_run (Suc i) ws (if l \<ge> 2 \<and> l > snd best then (i, l) else best))"

definition v6_text :: "nat list \<Rightarrow> string" where
  "v6_text bs =
     (let ws = words16 bs; (start, len) = zero_run 0 ws (0, 0)
      in if len = 0 then join (map hex_text ws) '':''
         else join (map hex_text (take start ws)) '':'' @ ''::'' @ join (map hex_text (drop (start + len) ws)) '':'')"

definition v4_text :: "nat list \<Rightarrow> string" where
  "v4_text bs = join (map itoa bs) ''.''"

definition addr_text :: "addr \<Rightarrow> string" where
  "addr_text a =
     (case a of
        V4 bs \<Rightarrow> v4_text bs
      | V6 bs z \<Rightarrow>
          (if is_4in6 bs then ''::ffff:'' @ v4_text (drop 12 bs) else v6_text bs) @
          (if z = [] then [] else ''%'' @ z))"

definition prefix_text :: "addr \<times> nat \<Rightarrow> string" where
  "prefix_text pfx = addr_text (fst pfx) @ ''/'' @ itoa (snd pfx)"

section \<open>IPv4 prefixes print to what they parse from\<close>

lemma itoa_length: "n < 10 ^ Suc k \<Longrightarrow> length (itoa n) \<le> Suc k"
proof (induction k arbitrary: n)
  case (Suc k)
  then have "n div 10 < 10 ^ Suc k" by (simp add: less_mult_imp_div_less)
  with Suc.IH show ?case by (simp add: itoa.simps [of n])
qed (simp add: itoa.simps)

lemma itoa_hd: "0 < n \<Longrightarrow> hd (itoa n) \<noteq> CHR ''0''"
proof (induction n rule: itoa.induct)
  case (1 n)
  show ?case
  proof (cases "n < 10")
    case True
    with 1 digit_char [of n] show ?thesis by (auto simp: itoa.simps [of n] digit_val_def)
  next
    case False
    then have "itoa n = itoa (n div 10) @ [byte_char (48 + n mod 10)]" by (simp add: itoa.simps [of n])
    with 1 False itoa_digits [of "n div 10"] show ?thesis by simp
  qed
qed

lemma v4_field_itoa: "n \<le> 255 \<Longrightarrow> v4_field (itoa n) = Some n"
  using itoa_length [of n 2] itoa_hd [of n] itoa_digits [of n] itoa_length [of 0 0]
  by (cases "n = 0") (simp_all add: v4_field_def all_digits_def)

end
