(* ===== verification/SenderLists.thy ===== *)
theory SenderLists
  imports Domains GoAddr MailStages
begin

text \<open>
  \<open>internal/senderlists/senderlists.go\<close>: the allow and block entries for senders. The state is the
  table of entries. Parameters (\<open>addr_env\<close>) are \<open>net/mail\<close>'s address parsers (the address of
  the parsed mailbox), \<open>publicsuffix.EffectiveTLDPlusOne\<close>, the texts PostgreSQL casts to
  \<open>inet\<close>, and its containment of an \<open>inet\<close> in a \<open>cidr\<close>.
\<close>

record addr_env =
  ParseAddress :: "string \<Rightarrow> string option"
  ParseAddressList :: "string \<Rightarrow> string list option"
  EffectiveTLDPlusOne :: "string \<Rightarrow> string option"
  valid_inet :: "string \<Rightarrow> bool"
  inet_within :: "string \<Rightarrow> string \<Rightarrow> bool"

record Entry =
  en_ID :: uuid
  en_OrganizationID :: "uuid option"
  en_DomainID :: "uuid option"
  en_UserID :: "uuid option"
  en_UserEmail :: string
  en_Scope :: string
  en_Action :: string
  en_Kind :: string
  en_Pattern :: string
  en_Sender :: string
  en_SenderDomain :: string
  en_Note :: string
  en_BlockedCount :: nat
  en_CreatedAt :: nat

section \<open>Senders and patterns\<close>

definition domainPart :: "string \<Rightarrow> string" where
  "domainPart a =
     (case last_index_char a CHR ''@'' of
        None \<Rightarrow> to_lower (trim_space a)
      | Some i \<Rightarrow> to_lower (trim_space (drop (Suc i) a)))"

definition normalizeSender :: "addr_env \<Rightarrow> string \<Rightarrow> string" where
  "normalizeSender env value =
     (let v = trim_space value
      in case ParseAddress env v of
           Some a \<Rightarrow> to_lower (trim_space (if a \<noteq> [] then a else v))
         | None \<Rightarrow> to_lower (trim_space v))"

text \<open>\<open>senderDomainRE\<close>: at least two labels of lower case letters, digits and inner hyphens.\<close>

definition label_char :: "char \<Rightarrow> bool" where
  "label_char c = (is_lower c \<or> is_digit c)"

definition domain_label :: "string \<Rightarrow> bool" where
  "domain_label l =
     (l \<noteq> [] \<and> length l \<le> 63 \<and> list_all (\<lambda>c. label_char c \<or> c = CHR ''-'') l \<and> label_char (hd l) \<and> label_char (last l))"

definition senderDomainRE :: "string \<Rightarrow> bool" where
  "senderDomainRE s = (let ls = split_char s CHR ''.'' in length ls \<ge> 2 \<and> list_all domain_label ls)"

definition NormalizeSenderDomain :: "addr_env \<Rightarrow> string \<Rightarrow> string result" where
  "NormalizeSenderDomain env value =
     (let v1 = trim_prefix (trim_prefix (to_lower (trim_space value)) ''*@'') ''@'';
          v = (case ParseAddress env v1 of Some a \<Rightarrow> if a \<noteq> [] then domainPart a else v1 | None \<Rightarrow> v1)
      in if contains v ''://'' \<or> contains_chars v [CHR ''/'', CHR 0x5C] then
           Inl ''sender domain must be a domain name, not a URL or path''
         else if \<not> senderDomainRE v then Inl ''sender domain is invalid''
         else Inr v)"

definition NormalizeSenderDomainForPattern :: "addr_env \<Rightarrow> string \<Rightarrow> string result" where
  "NormalizeSenderDomainForPattern env value =
     (let v = trim_prefix (trim_prefix (to_lower (trim_space value)) ''*@'') ''@''
      in if CHR ''@'' \<in> set v then Inl ''sender domain pattern must be a domain or *@domain''
         else NormalizeSenderDomain env v)"

definition NormalizeSenderDomainPattern :: "addr_env \<Rightarrow> string \<Rightarrow> (string \<times> string) result" where
  "NormalizeSenderDomainPattern env value =
     (let v = trim_prefix (trim_prefix (to_lower (trim_space value)) ''*@'') ''@''
      in if CHR ''@'' \<in> set v then Inl ''sender domain pattern must be a domain or *@domain''
         else case NormalizeSenderDomain env v of
           Inl e \<Rightarrow> Inl e
         | Inr d \<Rightarrow> Inr (d, ''*@'' @ d))"

definition RootSenderDomain :: "addr_env \<Rightarrow> string \<Rightarrow> string result" where
  "RootSenderDomain env value =
     (case NormalizeSenderDomain env value of
        Inl e \<Rightarrow> Inl e
      | Inr domain \<Rightarrow>
          case EffectiveTLDPlusOne env domain of
            None \<Rightarrow> Inr domain
          | Some root' \<Rightarrow> Inr (to_lower root'))"

definition uniqueLowerStrings :: "string list \<Rightarrow> string list" where
  "uniqueLowerStrings values =
     dedup_on (\<lambda>v. v) [] (filter (\<lambda>v. v \<noteq> []) (map (\<lambda>v. to_lower (trim_space v)) values))"

text \<open>The loop that cuts the first label off until the registrable domain is reached.\<close>

function parent_loop :: "string \<Rightarrow> string \<Rightarrow> string list" where
  "parent_loop root' current =
     (if current = root' then []
      else case index_char current CHR ''.'' of
        None \<Rightarrow> []
      | Some dot \<Rightarrow>
          if Suc dot \<ge> length current then []
          else drop (Suc dot) current # parent_loop root' (drop (Suc dot) current))"
  by pat_completeness auto
termination
  by (relation "measure (\<lambda>(root', current). length current)") auto

declare parent_loop.simps [simp del]

definition candidateDomains :: "addr_env \<Rightarrow> string \<Rightarrow> string list" where
  "candidateDomains env value =
     (let domain = to_lower (trim value ''. '')
      in if \<not> senderDomainRE domain then []
         else (let root' = to_lower (case EffectiveTLDPlusOne env domain of None \<Rightarrow> domain | Some r \<Rightarrow> r)
               in uniqueLowerStrings (domain # parent_loop root' domain)))"

definition PatternsForAddress :: "addr_env \<Rightarrow> string \<Rightarrow> string list" where
  "PatternsForAddress env value =
     (let a = normalizeSender env value; domain = domainPart a
      in if a = [] \<or> domain = [] then []
         else uniqueLowerStrings
           (a # concat (map (\<lambda>c. [''*@'' @ c, c, ''@'' @ c]) (candidateDomains env domain))))"

definition NormalizeRule :: "addr_env \<Rightarrow> string \<Rightarrow> string \<Rightarrow> string result" where
  "NormalizeRule env kind value =
     (let k = to_lower (trim_space kind)
      in if k = ''domain'' then
           (case NormalizeSenderDomainForPattern env value of Inl e \<Rightarrow> Inl e | Inr d \<Rightarrow> Inr (''*@'' @ d))
         else if k = ''email'' then
           (case ParseAddress env (trim_space value) of
              None \<Rightarrow> Inl ''sender email is invalid''
            | Some a \<Rightarrow> if a = [] \<or> CHR ''@'' \<notin> set a then Inl ''sender email is invalid'' else Inr (to_lower a))
         else if k = ''ip'' then
           (let v = trim_space value
            in case parse_addr v of
                 Some a \<Rightarrow> Inr (prefix_text (case unmap a of V6 bs z \<Rightarrow> V6 bs [] | b \<Rightarrow> b, bit_len (unmap a)))
               | None \<Rightarrow>
                   case parse_prefix v of
                     None \<Rightarrow> Inl ''source IP or CIDR is invalid''
                   | Some (a, n) \<Rightarrow> Inr (prefix_text (mask_addr n a, n)))
         else Inl ''kind must be email, domain, or ip'')"

section \<open>Entries\<close>

text \<open>The tables the queries read besides \<open>list_entries\<close>.\<close>

record list_view =
  lv_Orgs :: "organization list"
  lv_Domains :: "domain_row list"
  lv_Users :: "user_row list"
  lv_Logs :: "mail_log_row list"
  lv_Mailbox :: "mailbox_row list"

text \<open>\<open>substring(from_addr from '@([^@>[:space:]]+)')\<close>.\<close>

fun at_host :: "string \<Rightarrow> string option" where
  "at_host [] = None"
| "at_host (c # s) =
     (let h = takeWhile (\<lambda>x. x \<noteq> CHR ''@'' \<and> x \<noteq> CHR ''>'' \<and> \<not> is_space x) s
      in if c = CHR ''@'' \<and> h \<noteq> [] then Some h else at_host s)"

definition log_domain :: "mail_log_row \<Rightarrow> string option" where
  "log_domain m = map_option (\<lambda>h. to_lower (trim h ''. '')) (at_host (text_or_empty (ml_FromAddr m)))"

definition at_or_below :: "string option \<Rightarrow> string \<Rightarrow> bool" where
  "at_or_below d name = (case d of None \<Rightarrow> False | Some h \<Rightarrow> h = name \<or> sql_like (''%.'' @ name) h)"

definition pattern_matches_log :: "list_entry_row \<Rightarrow> mail_log_row \<Rightarrow> bool" where
  "pattern_matches_log e m =
     (let p = to_lower (le_Pattern e)
      in (has_prefix p ''*@'' \<and> at_or_below (log_domain m) (drop 2 p)) \<or>
         (has_prefix p ''@'' \<and> at_or_below (log_domain m) (drop 1 p)) \<or>
         (CHR ''@'' \<notin> set p \<and> at_or_below (log_domain m) p) \<or>
         (CHR ''@'' \<in> set p \<and> to_lower (trim (text_or_empty (ml_FromAddr m)) '' '') = p))"

definition addressed_to :: "list_view \<Rightarrow> mail_log_row \<Rightarrow> user_row \<Rightarrow> bool" where
  "addressed_to view m u =
     (list_ex (\<lambda>t. equal_fold t (u_Email u)) (ml_ToAddrs m) \<or>
      list_ex (\<lambda>b. mb_MailLogID b = ml_ID m \<and> equal_fold (mb_ToAddr b) (u_Email u)) (lv_Mailbox view))"

definition blockedCountExpr :: "addr_env \<Rightarrow> list_view \<Rightarrow> list_entry_row \<Rightarrow> nat" where
  "blockedCountExpr env view e =
     length (filter (\<lambda>m.
        le_Action e = ''block'' \<and> ml_ReceivedAt m \<ge> le_CreatedAt e \<and>
        to_lower (text_or_empty (ml_Reason m)) = ''sender matched blacklist'' \<and>
        (le_OrganizationID e = None \<or> le_OrganizationID e = Some (ml_OrganizationID m)) \<and>
        (le_DomainID e = None \<or> ml_DomainID m = le_DomainID e) \<and>
        (case le_UserID e of None \<Rightarrow> True
         | Some i \<Rightarrow> list_ex (\<lambda>u. u_ID u = i \<and> addressed_to view m u) (lv_Users view)) \<and>
        (if le_Kind e = ''ip'' then
           (case ml_ClientIP m of None \<Rightarrow> False | Some ip \<Rightarrow> inet_within env ip (le_Pattern e))
         else pattern_matches_log e m)) (lv_Logs view))"

definition scanEntry :: "addr_env \<Rightarrow> list_view \<Rightarrow> list_entry_row \<Rightarrow> Entry" where
  "scanEntry env view e =
     (let d = trim_prefix (trim_prefix (to_lower (trim_space (le_Pattern e))) ''*@'') ''@''
      in \<lparr>en_ID = le_ID e, en_OrganizationID = le_OrganizationID e, en_DomainID = le_DomainID e, en_UserID = le_UserID e,
          en_UserEmail = (case le_UserID e of None \<Rightarrow> []
            | Some i \<Rightarrow> (case user_by_id (lv_Users view) i of None \<Rightarrow> [] | Some u \<Rightarrow> u_Email u)),
          en_Scope = le_Scope e, en_Action = le_Action e, en_Kind = le_Kind e, en_Pattern = le_Pattern e,
          en_Sender = (if le_Kind e = ''email'' \<or> le_Kind e = ''ip'' then le_Pattern e else d),
          en_SenderDomain = d, en_Note = text_or_empty (le_Note e), en_BlockedCount = blockedCountExpr env view e,
          en_CreatedAt = le_CreatedAt e\<rparr>)"

text \<open>The trigger \<open>prevent_configured_domain_blocklist\<close> and the foreign keys of an insertion.\<close>

definition trigger_domain :: "string \<Rightarrow> string option" where
  "trigger_domain pattern =
     (let p = to_lower (trim pattern '' '')
      in if has_prefix p ''*@'' then Some (trim_suffix (drop 2 p) ''.'')
         else if has_prefix p ''@'' then Some (trim_suffix (drop 1 p) ''.'')
         else if CHR ''@'' \<in> set p then None
         else Some (trim_suffix p ''.''))"

definition refused_block :: "domain_row list \<Rightarrow> list_entry_row \<Rightarrow> bool" where
  "refused_block doms e =
     (le_Action e = ''block'' \<and>
      (case trigger_domain (le_Pattern e) of None \<Rightarrow> False
       | Some name \<Rightarrow> list_ex (\<lambda>d. to_lower (dm_Name d) = name) doms))"

definition insert_entry :: "list_view \<Rightarrow> list_entry_row \<Rightarrow> list_entry_row list \<Rightarrow> list_entry_row list option" where
  "insert_entry view e entries =
     (if le_ID e \<in> le_ID ` set entries \<or> refused_block (lv_Domains view) e \<or>
         (case le_OrganizationID e of None \<Rightarrow> False | Some i \<Rightarrow> i \<notin> org_ID ` set (lv_Orgs view)) \<or>
         (case le_DomainID e of None \<Rightarrow> False | Some i \<Rightarrow> i \<notin> dm_ID ` set (lv_Domains view)) \<or>
         (case le_UserID e of None \<Rightarrow> False | Some i \<Rightarrow> i \<notin> u_ID ` set (lv_Users view))
      then None else Some (entries @ [e]))"

definition MailLogHasChallengeReason :: "faults \<Rightarrow> mail_log_row list \<Rightarrow> uuid \<Rightarrow> bool" where
  "MailLogHasChallengeReason err logs i =
     (if i = 0 \<or> err ''select reason'' then False
      else case find (\<lambda>m. ml_ID m = i) logs of
        None \<Rightarrow> False
      | Some m \<Rightarrow> IsPendingReason (text_or_empty (ml_Reason m)))"

definition same_rule :: "list_entry_row \<Rightarrow> list_entry_row \<Rightarrow> bool" where
  "same_rule e f =
     (le_OrganizationID f = le_OrganizationID e \<and> le_DomainID f = le_DomainID e \<and> le_UserID f = le_UserID e \<and>
      le_Scope f = le_Scope e \<and> le_Kind f = le_Kind e \<and> equal_fold (le_Pattern f) (le_Pattern e))"

text \<open>
  The two statements of a decision, outside a transaction: the rows of the same rule go, then the new
  row comes. The result is the error of the statement that failed.
\<close>

definition replace_rule :: "faults \<Rightarrow> list_view \<Rightarrow> list_entry_row \<Rightarrow> list_entry_row list \<Rightarrow> string option \<times> list_entry_row list" where
  "replace_rule err view e entries =
     (if err ''delete list_entries'' then (Some ''delete list_entries'', entries)
      else
        (let rest = filter (\<lambda>f. \<not> same_rule e f) entries
         in case (if err ''insert list_entries'' then None else insert_entry view e rest) of
              None \<Rightarrow> (Some ''insert list_entries'', rest)
            | Some entries' \<Rightarrow> (None, entries')))"

definition user_rule :: "uuid \<Rightarrow> nat \<Rightarrow> uuid \<Rightarrow> uuid option \<Rightarrow> uuid \<Rightarrow> string \<Rightarrow> string \<Rightarrow> string \<Rightarrow> list_entry_row" where
  "user_rule new_id now orgID domainID userID fromAddr action note =
     \<lparr>le_ID = new_id, le_OrganizationID = Some orgID, le_DomainID = domainID, le_UserID = Some userID,
      le_Scope = ''user'', le_Action = action, le_Kind = ''email'', le_Pattern = fromAddr, le_Note = Some note,
      le_CreatedAt = now\<rparr>"

definition UpsertUserDecision ::
  "faults \<Rightarrow> addr_env \<Rightarrow> list_view \<Rightarrow> uuid \<Rightarrow> nat \<Rightarrow> uuid \<Rightarrow> uuid option \<Rightarrow> uuid \<Rightarrow> string \<Rightarrow> string \<Rightarrow> string \<Rightarrow> string \<Rightarrow>
     list_entry_row list \<Rightarrow> string option \<times> list_entry_row list" where
  "UpsertUserDecision err env view new_id now orgID domainID userID recipient0 fromAddr0 action0 note entries =
     (let action = to_lower (trim_space action0);
          recipient = to_lower (trim_space recipient0);
          fromAddr = normalizeSender env fromAddr0
      in if action \<noteq> ''allow'' \<and> action \<noteq> ''block'' then (Some ''invalid sender decision'', entries)
         else if recipient = [] \<or> fromAddr = [] then (Some ''recipient and sender are required'', entries)
         else if err ''select user'' then (Some ''select user'', entries)
         else if \<not> list_ex (\<lambda>u. u_ID u = userID \<and> u_OrganizationID u = orgID \<and> u_IsActive u \<and> to_lower (u_Email u) = recipient)
                   (lv_Users view) then
           (Some ''recipient user was not found'', entries)
         else replace_rule err view (user_rule new_id now orgID domainID userID fromAddr action note) entries)"

definition isConfiguredProtectedDomain :: "faults \<Rightarrow> domain_row list \<Rightarrow> string \<Rightarrow> bool result" where
  "isConfiguredProtectedDomain err doms senderDomain =
     (let s = to_lower (trim_space senderDomain)
      in if s = [] then Inr False
         else if err ''select domains'' then Inl ''select domains''
         else Inr (list_ex (\<lambda>d. to_lower (dm_Name d) = s) doms))"

definition rule_row ::
  "uuid \<Rightarrow> nat \<Rightarrow> uuid option \<Rightarrow> uuid option \<Rightarrow> uuid option \<Rightarrow> string \<Rightarrow> string \<Rightarrow> string \<Rightarrow> string \<Rightarrow> string \<Rightarrow> list_entry_row" where
  "rule_row new_id now orgID domainID userID scope kind action pattern note =
     (let org = (if scope = ''system'' then None else orgID);
          domain = (if scope = ''domain'' then domainID else None);
          user = (if scope = ''user'' then userID else None)
      in \<lparr>le_ID = new_id, le_OrganizationID = org, le_DomainID = domain, le_UserID = user, le_Scope = scope,
          le_Action = action, le_Kind = kind, le_Pattern = pattern, le_Note = Some note, le_CreatedAt = now\<rparr>)"

definition UpsertDecision ::
  "faults \<Rightarrow> addr_env \<Rightarrow> list_view \<Rightarrow> uuid \<Rightarrow> nat \<Rightarrow> uuid option \<Rightarrow> uuid option \<Rightarrow> uuid option \<Rightarrow> string \<Rightarrow> string \<Rightarrow>
     string \<Rightarrow> string \<Rightarrow> string \<Rightarrow> list_entry_row list \<Rightarrow> string result \<times> list_entry_row list" where
  "UpsertDecision err env view new_id now orgID domainID userID scope0 kind0 value action0 note entries =
     (let scope = to_lower (trim_space scope0);
          kind = to_lower (trim_space kind0);
          action = to_lower (trim_space action0)
      in if scope \<noteq> ''system'' \<and> scope \<noteq> ''org'' \<and> scope \<noteq> ''domain'' \<and> scope \<noteq> ''user'' then
           (Inl ''scope must be system, org, domain, or user'', entries)
         else if kind \<noteq> ''email'' \<and> kind \<noteq> ''domain'' \<and> kind \<noteq> ''ip'' then (Inl ''kind must be email, domain, or ip'', entries)
         else if action \<noteq> ''allow'' \<and> action \<noteq> ''block'' then (Inl ''action must be allow or block'', entries)
         else if kind = ''ip'' \<and> action \<noteq> ''block'' then (Inl ''IP rules are block-only'', entries)
         else if scope \<noteq> ''system'' \<and> orgID = None then (Inl ''organization_id is required'', entries)
         else if scope = ''domain'' \<and> domainID = None then (Inl ''domain_id is required for domain scope'', entries)
         else if scope = ''user'' \<and> userID = None then (Inl ''user_id is required for user scope'', entries)
         else case NormalizeRule env kind value of
           Inl e \<Rightarrow> (Inl e, entries)
         | Inr pattern \<Rightarrow>
             case (if action = ''block'' \<and> kind = ''domain'' then
                     isConfiguredProtectedDomain err (lv_Domains view) (trim_prefix pattern ''*@'')
                   else Inr False) of
               Inl e \<Rightarrow> (Inl e, entries)
             | Inr protected \<Rightarrow>
                 if protected then (Inl (''cannot block configured protected domain '' @ trim_prefix pattern ''*@''), entries)
                 else case replace_rule err view (rule_row new_id now orgID domainID userID scope kind action pattern note) entries of
                   (None, entries') \<Rightarrow> (Inr pattern, entries')
                 | (Some e, entries') \<Rightarrow> (Inl e, entries'))"

definition UpsertDomainDecision ::
  "faults \<Rightarrow> addr_env \<Rightarrow> list_view \<Rightarrow> uuid \<Rightarrow> nat \<Rightarrow> uuid option \<Rightarrow> uuid option \<Rightarrow> uuid option \<Rightarrow> string \<Rightarrow> string \<Rightarrow>
     string \<Rightarrow> string \<Rightarrow> list_entry_row list \<Rightarrow> (bool \<times> string result) \<times> list_entry_row list" where
  "UpsertDomainDecision err env view new_id now orgID domainID userID scope senderDomain action note entries =
     (let (r, entries') = UpsertDecision err env view new_id now orgID domainID userID scope ''domain'' senderDomain action note entries
      in ((False, r), entries'))"

section \<open>The handlers of \<open>/api/v1/sender-lists\<close>\<close>

record listWriteReq =
  lw_OrganizationID :: "uuid option"
  lw_DomainID :: "uuid option"
  lw_UserID :: "uuid option"
  lw_Scope :: string
  lw_Action :: string
  lw_Kind :: string
  lw_Sender :: string
  lw_SenderDomain :: string
  lw_Note :: string

record list_query =
  lq_Action :: string
  lq_Scope :: string
  lq_UserID :: string
  lq_DomainID :: string
  lq_Q :: string

text \<open>The optional conditions of \<open>list\<close>; \<open>Inl\<close> is the 400 of a parameter that is refused.\<close>

definition uuid_filter :: "(string \<Rightarrow> uuid option) \<Rightarrow> string \<Rightarrow> string \<Rightarrow> uuid option result" where
  "uuid_filter parse_uuid message raw =
     (if trim_space raw = [] then Inr None
      else case parse_uuid (trim_space raw) of None \<Rightarrow> Inl message | Some i \<Rightarrow> Inr (Some i))"

definition entry_conditions ::
  "(string \<Rightarrow> uuid option) \<Rightarrow> list_view \<Rightarrow> scope \<Rightarrow> identity \<Rightarrow> list_query \<Rightarrow> (list_entry_row \<Rightarrow> bool) result" where
  "entry_conditions parse_uuid view scope ident q =
     (let action = to_lower (trim_space (lq_Action q)); entryScope = to_lower (trim_space (lq_Scope q));
          search = trim_space (lq_Q q); pattern = ''%'' @ to_lower search @ ''%''
      in if action \<noteq> [] \<and> action \<noteq> ''allow'' \<and> action \<noteq> ''block'' then Inl ''action must be allow or block''
         else if entryScope \<noteq> [] \<and> entryScope \<notin> {''system'', ''org'', ''domain'', ''user''} then
           Inl ''scope must be system, org, domain, or user''
         else case uuid_filter parse_uuid ''invalid user_id'' (lq_UserID q) of
           Inl e \<Rightarrow> Inl e
         | Inr userID \<Rightarrow>
             case uuid_filter parse_uuid ''invalid domain_id'' (lq_DomainID q) of
               Inl e \<Rightarrow> Inl e
             | Inr domainID \<Rightarrow>
                 Inr (\<lambda>e.
                   (IsSuperAdmin scope \<or> le_OrganizationID e = None \<or> le_OrganizationID e \<in> Some ` set (VisibleOrgIDs scope)) \<and>
                   (id_Role ident = ''org_user'' \<longrightarrow> le_UserID e = None \<or> le_UserID e = Some (id_UserID ident)) \<and>
                   (action = [] \<or> le_Action e = action) \<and>
                   (entryScope = [] \<or> le_Scope e = entryScope) \<and>
                   (case userID of None \<Rightarrow> True | Some i \<Rightarrow> le_UserID e = Some i) \<and>
                   (case domainID of None \<Rightarrow> True | Some i \<Rightarrow> le_OrganizationID e = None \<or> le_DomainID e = Some i) \<and>
                   (search = [] \<or> sql_like pattern (to_lower (le_Pattern e)) \<or>
                    sql_like pattern (to_lower (text_or_empty (le_Note e))) \<or>
                    list_ex (\<lambda>u. le_UserID e = Some (u_ID u) \<and> sql_like pattern (to_lower (u_Email u))) (lv_Users view))))"

definition list_entries ::
  "faults \<Rightarrow> addr_env \<Rightarrow> (string \<Rightarrow> uuid option) \<Rightarrow> list_view \<Rightarrow> (scope \<times> identity) result \<Rightarrow> page \<Rightarrow> list_query \<Rightarrow>
     list_entry_row list \<Rightarrow> Entry list_envelope response" where
  "list_entries err env parse_uuid view sc pg q entries =
     (case sc of
        Inl e \<Rightarrow> WriteError 500 ''scope''
      | Inr (scope, ident) \<Rightarrow>
          case entry_conditions parse_uuid view scope ident q of
            Inl e \<Rightarrow> WriteError 400 e
          | Inr cond \<Rightarrow>
              if err ''count list_entries'' then WriteError 500 ''count failed''
              else if err ''select list_entries'' then WriteError 500 ''list failed''
              else WriteJSON 200 (envelope pg (map (scanEntry env view)
                (sort_key (\<lambda>e. - int (le_CreatedAt e)) (filter cond entries)))))"

text \<open>The owner of a new entry: \<open>Inl\<close> is the error answer.\<close>

definition entry_owner ::
  "faults \<Rightarrow> list_view \<Rightarrow> identity \<Rightarrow> string \<Rightarrow> listWriteReq \<Rightarrow>
     nat \<times> string + uuid option \<times> uuid option \<times> uuid option" where
  "entry_owner err view ident scope req =
     (let orgID = Some (coalesce (lw_OrganizationID req) (id_OrganizationID ident))
      in if scope = ''system'' then
           (if id_Role ident \<noteq> ''super_admin'' then Inl (403, ''system scope requires super_admin'')
            else Inr (None, None, lw_UserID req))
         else if scope = ''domain'' then
           (case lw_DomainID req of
              None \<Rightarrow> Inl (400, ''domain_id is required for domain scope'')
            | Some d \<Rightarrow>
                case (if err ''select domain'' then None else domain_by_id (lv_Domains view) d) of
                  None \<Rightarrow> Inl (404, ''domain not found'')
                | Some dm \<Rightarrow> Inr (Some (dm_OrganizationID dm), Some d, lw_UserID req))
         else if scope = ''user'' then
           (let userID = coalesce (lw_UserID req) (id_UserID ident)
            in case (if err ''select user'' then None else user_by_id (filter u_IsActive (lv_Users view)) userID) of
                 None \<Rightarrow> Inl (404, ''user not found'')
               | Some u \<Rightarrow> Inr (Some (u_OrganizationID u), None, Some userID))
         else Inr (orgID, None, lw_UserID req))"

definition read_back ::
  "faults \<Rightarrow> uuid option \<Rightarrow> uuid option \<Rightarrow> uuid option \<Rightarrow> string \<Rightarrow> string \<Rightarrow> string \<Rightarrow> string \<Rightarrow> list_entry_row list \<Rightarrow>
     list_entry_row option" where
  "read_back err orgID domainID userID scope kind action pattern entries =
     (if err ''select entry'' \<or> kind \<notin> {''email'', ''domain'', ''ip''} then None
      else first_by (\<lambda>e. - int (le_CreatedAt e))
        (filter (\<lambda>e. le_OrganizationID e = orgID \<and> le_DomainID e = domainID \<and> le_UserID e = userID \<and> le_Scope e = scope \<and>
           le_Action e = action \<and> le_Kind e = kind \<and> equal_fold (le_Pattern e) pattern) entries))"

definition create_entry ::
  "faults \<Rightarrow> addr_env \<Rightarrow> list_view \<Rightarrow> uuid \<Rightarrow> nat \<Rightarrow> (scope \<times> identity) result \<Rightarrow> listWriteReq result \<Rightarrow>
     list_entry_row list \<Rightarrow> Entry response \<times> list_entry_row list" where
  "create_entry err env view new_id now sc body entries =
     (case sc of
        Inl e \<Rightarrow> (WriteError 500 ''scope'', entries)
      | Inr (scope, ident) \<Rightarrow>
          case body of
            Inl e \<Rightarrow> (WriteError 400 e, entries)
          | Inr req \<Rightarrow>
              (let entryScope0 = to_lower (trim_space (lw_Scope req));
                   entryScope = (if entryScope0 = [] then ''org'' else entryScope0);
                   action = to_lower (trim_space (lw_Action req));
                   kind = (if lw_Kind req = [] then ''domain'' else lw_Kind req);
                   sender = (if trim_space (lw_Sender req) = [] then lw_SenderDomain req else lw_Sender req)
               in case entry_owner err view ident entryScope req of
                    Inl (n, e) \<Rightarrow> (WriteError n e, entries)
                  | Inr (orgID, domainID, userID) \<Rightarrow>
                      if (case orgID of None \<Rightarrow> False
                          | Some o' \<Rightarrow> \<not> (entryScope = ''user'' \<and> userID = Some (id_UserID ident)) \<and>
                                     \<not> CanAdmin scope (id_Role ident) o') then
                        (WriteError 403 ''forbidden'', entries)
                      else case UpsertDecision err env view new_id now orgID domainID userID entryScope kind sender action
                                  (trim_space (lw_Note req)) entries of
                        (Inl e, entries') \<Rightarrow> (WriteError 400 e, entries')
                      | (Inr pattern, entries') \<Rightarrow>
                          case read_back err orgID domainID userID entryScope kind action pattern entries' of
                            None \<Rightarrow> (WriteError 500 ''read created entry failed'', entries')
                          | Some e \<Rightarrow> (WriteJSON 201 (scanEntry env view e), entries')))"

definition del_entry ::
  "faults \<Rightarrow> uuid option \<Rightarrow> (scope \<times> identity) result \<Rightarrow> list_entry_row list \<Rightarrow> Entry response \<times> list_entry_row list" where
  "del_entry err param sc entries =
     (case param of
        None \<Rightarrow> (WriteError 400 ''invalid id'', entries)
      | Some i \<Rightarrow>
          case sc of
            Inl e \<Rightarrow> (WriteError 500 ''scope'', entries)
          | Inr (scope, ident) \<Rightarrow>
              case (if err ''select entry'' then None else find (\<lambda>e. le_ID e = i) entries) of
                None \<Rightarrow> (WriteError 404 ''not found'', entries)
              | Some e \<Rightarrow>
                  (let selfUserRule = (le_UserID e = Some (id_UserID ident));
                       admin = (case le_OrganizationID e of None \<Rightarrow> False | Some o' \<Rightarrow> CanAdmin scope (id_Role ident) o')
                   in if le_UserID e \<noteq> None \<and> \<not> selfUserRule \<and> \<not> admin then (WriteError 403 ''forbidden'', entries)
                      else if le_OrganizationID e = None \<and> id_Role ident \<noteq> ''super_admin'' then (WriteError 403 ''forbidden'', entries)
                      else if le_OrganizationID e \<noteq> None \<and> \<not> selfUserRule \<and> \<not> admin then (WriteError 403 ''forbidden'', entries)
                      else if err ''delete list_entries'' then (WriteError 500 ''delete failed'', entries)
                      else (WriteHeader 204, filter (\<lambda>e. le_ID e \<noteq> i) entries)))"

end
