(* ===== verification/SenderPolicy.thy ===== *)
theory SenderPolicy
  imports SenderLists
begin

text \<open>
  \<open>internal/mail/sender_policy.go\<close>: what the sender lists say of a message, and the signed endpoint
  that answers it; the signature check and the lookup of the recipient's domain are those of
  \<open>ingest.go\<close>. HMAC-SHA-256 is the parameter \<open>hmac key message\<close>.
\<close>

section \<open>Addresses\<close>

definition parseAddressList :: "addr_env \<Rightarrow> string \<Rightarrow> string list" where
  "parseAddressList env value =
     (let v = trim_space value
      in if v = [] then []
         else case ParseAddressList env v of
           Some as \<Rightarrow> as
         | None \<Rightarrow> (case ParseAddress env v of Some a \<Rightarrow> [a] | None \<Rightarrow> [trim v ''<>'']))"

definition senderListLookupAddresses :: "addr_env \<Rightarrow> string list \<Rightarrow> string list" where
  "senderListLookupAddresses env values =
     dedup_on (\<lambda>a. a) []
       (filter (\<lambda>a. a \<noteq> []) (map (\<lambda>a. to_lower (trim_space a)) (concat (map (parseAddressList env) values))))"

section \<open>Lookups\<close>

definition matched_user :: "user_row list \<Rightarrow> uuid \<Rightarrow> string \<Rightarrow> uuid option" where
  "matched_user users orgID recipient =
     map_option u_ID (find (\<lambda>u. u_OrganizationID u = orgID \<and> to_lower (u_Email u) = recipient) users)"

definition matched_scope :: "list_entry_row \<Rightarrow> string" where
  "matched_scope e =
     (if le_UserID e \<noteq> None then ''user'' else if le_DomainID e \<noteq> None then ''domain''
      else if le_OrganizationID e = None then ''system'' else ''org'')"

definition user_applies :: "list_view \<Rightarrow> uuid \<Rightarrow> string \<Rightarrow> list_entry_row \<Rightarrow> bool" where
  "user_applies view orgID recipient e =
     (le_UserID e = None \<or> le_UserID e = matched_user (lv_Users view) orgID recipient)"

definition ip_rank :: "uuid option \<Rightarrow> list_entry_row \<Rightarrow> nat" where
  "ip_rank domainID e =
     (if le_UserID e \<noteq> None then 0 else if domainID \<noteq> None \<and> le_DomainID e = domainID then 1
      else if le_OrganizationID e \<noteq> None then 2 else 3)"

definition ip_applies :: "list_view \<Rightarrow> uuid \<Rightarrow> uuid option \<Rightarrow> string \<Rightarrow> list_entry_row \<Rightarrow> bool" where
  "ip_applies view orgID domainID recipient e =
     (le_Kind e = ''ip'' \<and> le_Action e = ''block'' \<and>
      (le_OrganizationID e = None \<or> le_OrganizationID e = Some orgID) \<and>
      (le_DomainID e = None \<or> le_DomainID e = domainID) \<and> user_applies view orgID recipient e)"

text \<open>A client address that does not cast to \<open>inet\<close> is an error of the query.\<close>

definition lookupSenderListIP ::
  "faults \<Rightarrow> addr_env \<Rightarrow> list_view \<Rightarrow> list_entry_row list \<Rightarrow> uuid \<Rightarrow> uuid option \<Rightarrow> string \<Rightarrow> string \<Rightarrow> (string \<times> string) result" where
  "lookupSenderListIP err env view entries orgID domainID recipient clientIP =
     (if err ''select ip rule'' \<or> \<not> valid_inet env clientIP then Inl ''select ip rule''
      else case first_by (\<lambda>e. (ip_rank domainID e, - int (le_CreatedAt e)))
             (filter (\<lambda>e. ip_applies view orgID domainID recipient e \<and> inet_within env clientIP (le_Pattern e)) entries) of
        None \<Rightarrow> Inr ([], [])
      | Some e \<Rightarrow> Inr (le_Action e, matched_scope e))"

definition address_applies ::
  "list_view \<Rightarrow> uuid \<Rightarrow> uuid option \<Rightarrow> string \<Rightarrow> string list \<Rightarrow> list_entry_row \<Rightarrow> bool" where
  "address_applies view orgID domainID recipient patterns e =
     ((le_OrganizationID e = None \<or> le_OrganizationID e = Some orgID) \<and>
      le_Kind e \<in> {''email'', ''domain''} \<and> to_lower (le_Pattern e) \<in> set patterns \<and>
      (le_OrganizationID e = None \<or> le_DomainID e = None \<or> le_DomainID e = domainID) \<and>
      user_applies view orgID recipient e)"

definition address_rank :: "uuid option \<Rightarrow> string list \<Rightarrow> list_entry_row \<Rightarrow> nat \<times> nat \<times> nat \<times> int" where
  "address_rank domainID patterns e =
     (if le_Action e = ''block'' then 0 else 1,
      if le_UserID e \<noteq> None then 0 else if domainID \<noteq> None \<and> le_DomainID e = domainID then 1
      else if le_OrganizationID e \<noteq> None then 2 else if le_DomainID e \<noteq> None then 3 else 4,
      (case array_position patterns (to_lower (le_Pattern e)) of None \<Rightarrow> 999 | Some n \<Rightarrow> n),
      - int (le_CreatedAt e))"

definition lookupSenderListAddress ::
  "faults \<Rightarrow> addr_env \<Rightarrow> list_view \<Rightarrow> list_entry_row list \<Rightarrow> uuid \<Rightarrow> uuid option \<Rightarrow> string \<Rightarrow> string \<Rightarrow> (string \<times> string) result" where
  "lookupSenderListAddress err env view entries orgID domainID recipient from =
     (let patterns = PatternsForAddress env from
      in if patterns = [] then Inr ([], [])
         else if err ''select sender rule'' then Inl ''select sender rule''
         else case first_by (address_rank domainID patterns)
                (filter (address_applies view orgID domainID recipient patterns) entries) of
           None \<Rightarrow> Inr ([], [])
         | Some e \<Rightarrow> Inr (le_Action e, matched_scope e))"

text \<open>The loop over the addresses with the scope of the first allow so far.\<close>

fun address_loop ::
  "(string \<Rightarrow> (string \<times> string) result) \<Rightarrow> string \<Rightarrow> string list \<Rightarrow> (string \<times> string) result" where
  "address_loop lookup allowedScope [] = Inr (if allowedScope \<noteq> [] then (''allow'', allowedScope) else ([], []))"
| "address_loop lookup allowedScope (a # as) =
     (case lookup a of
        Inl e \<Rightarrow> Inl e
      | Inr (action, scope) \<Rightarrow>
          if action = ''block'' then Inr (action, scope)
          else address_loop lookup (if action = ''allow'' \<and> allowedScope = [] then scope else allowedScope) as)"

definition lookupSenderListWithIP ::
  "faults \<Rightarrow> addr_env \<Rightarrow> list_view \<Rightarrow> list_entry_row list \<Rightarrow> uuid \<Rightarrow> uuid option \<Rightarrow> string \<Rightarrow> string \<Rightarrow> string list \<Rightarrow>
     (string \<times> string) result" where
  "lookupSenderListWithIP err env view entries orgID domainID recipient clientIP addresses =
     (let rest = address_loop (lookupSenderListAddress err env view entries orgID domainID recipient) []
                   (senderListLookupAddresses env addresses)
      in if trim_space clientIP \<noteq> [] then
           (case lookupSenderListIP err env view entries orgID domainID recipient clientIP of
              Inl e \<Rightarrow> Inl e
            | Inr (action, scope) \<Rightarrow> if action = ''block'' then Inr (action, scope) else rest)
         else rest)"

definition lookupSenderList ::
  "faults \<Rightarrow> addr_env \<Rightarrow> list_view \<Rightarrow> list_entry_row list \<Rightarrow> uuid \<Rightarrow> uuid option \<Rightarrow> string \<Rightarrow> string list \<Rightarrow> (string \<times> string) result" where
  "lookupSenderList err env view entries orgID domainID recipient addresses =
     lookupSenderListWithIP err env view entries orgID domainID recipient [] addresses"

section \<open>The endpoint\<close>

definition verifySig :: "(string \<Rightarrow> string \<Rightarrow> string) \<Rightarrow> string \<Rightarrow> string \<Rightarrow> string \<Rightarrow> bool" where
  "verifySig hmac secret body sigHex =
     (if secret = [] \<or> sigHex = [] then False
      else case hex_decode sigHex of None \<Rightarrow> False | Some got \<Rightarrow> hmac secret body = got)"

text \<open>A body over the limit is an error of \<open>MaxBytesReader\<close>.\<close>

definition readSignedBody ::
  "(string \<Rightarrow> string \<Rightarrow> string) \<Rightarrow> string \<Rightarrow> nat \<Rightarrow> string \<Rightarrow> string \<Rightarrow> string result" where
  "readSignedBody hmac secret limit body sigHex =
     (if length body > limit then Inl ''http: request body too large''
      else if \<not> verifySig hmac secret body sigHex then Inl ''bad signature''
      else Inr body)"

definition lookupDomainOrg :: "faults \<Rightarrow> domain_row list \<Rightarrow> string \<Rightarrow> (uuid \<times> uuid) result" where
  "lookupDomainOrg err doms domain =
     (if domain = [] then Inl ''empty domain''
      else if err ''select domain org'' then Inl ''select domain org''
      else case find (\<lambda>d. to_lower (dm_Name d) = domain \<and> dm_IsActive d) doms of
        None \<Rightarrow> Inl ''domain not configured''
      | Some d \<Rightarrow> Inr (dm_ID d, dm_OrganizationID d))"

record senderPolicyReq =
  sp_From :: string
  sp_ReplyTo :: string
  sp_To :: "string list"
  sp_ClientIP :: string

record senderPolicyResp =
  sr_Action :: string
  sr_Reason :: string
  sr_Scope :: string

definition policy_answer :: "string \<Rightarrow> string \<Rightarrow> string \<Rightarrow> senderPolicyResp response" where
  "policy_answer action reason scope = WriteJSON 200 \<lparr>sr_Action = action, sr_Reason = reason, sr_Scope = scope\<rparr>"

definition senderPolicy ::
  "faults \<Rightarrow> addr_env \<Rightarrow> (string \<Rightarrow> string \<Rightarrow> string) \<Rightarrow> string \<Rightarrow> (string \<Rightarrow> senderPolicyReq result) \<Rightarrow> Policy list \<Rightarrow>
     list_view \<Rightarrow> list_entry_row list \<Rightarrow> string \<Rightarrow> string \<Rightarrow> senderPolicyResp response" where
  "senderPolicy err env hmac secret unmarshal pols view entries raw sigHex =
     (case readSignedBody hmac secret (2 ^ 20) raw sigHex of
        Inl e \<Rightarrow> WriteError 400 e
      | Inr body \<Rightarrow>
          case unmarshal body of
            Inl e \<Rightarrow> WriteError 400 (''invalid json: '' @ e)
          | Inr req \<Rightarrow>
              (let addresses = senderListLookupAddresses env [sp_From req, sp_ReplyTo req]
               in if addresses = [] \<or> sp_To req = [] then policy_answer ''none'' [] []
                  else case lookupDomainOrg err (lv_Domains view) (primaryDomain (hd (sp_To req))) of
                    Inl _ \<Rightarrow> policy_answer ''none'' [] []
                  | Inr (domainID, orgID) \<Rightarrow>
                      case Resolve err (lv_Orgs view) pols (Some domainID) (Some orgID) of
                        Inl e \<Rightarrow> WriteError 500 (''policy resolve: '' @ e)
                      | Inr pol \<Rightarrow>
                          case lookupSenderListWithIP err env view entries orgID (Some domainID)
                                 (to_lower (trim_space (hd (sp_To req)))) (sp_ClientIP req) addresses of
                            Inl e \<Rightarrow> WriteError 500 (''sender policy lookup: '' @ e)
                          | Inr (action, scope) \<Rightarrow>
                              if action = ''allow'' then policy_answer ''allow'' ''sender matched allowlist'' scope
                              else if action = ''block'' then
                                (if \<not> SenderBlacklistEnabled (Some pol) then
                                   policy_answer ''none'' ''sender blacklist disabled for policy'' scope
                                 else policy_answer ''block'' ''sender matched blacklist'' scope)
                              else policy_answer ''none'' [] []))"

section \<open>Block before allow\<close>

text \<open>What the lists say of an address and of the client, without the order of the queries.\<close>

definition list_says ::
  "addr_env \<Rightarrow> list_view \<Rightarrow> list_entry_row list \<Rightarrow> uuid \<Rightarrow> uuid option \<Rightarrow> string \<Rightarrow> string \<Rightarrow> string \<Rightarrow> bool" where
  "list_says env view entries orgID domainID recipient action from =
     list_ex (\<lambda>e. address_applies view orgID domainID recipient (PatternsForAddress env from) e \<and> le_Action e = action) entries"

definition ip_blocked ::
  "addr_env \<Rightarrow> list_view \<Rightarrow> list_entry_row list \<Rightarrow> uuid \<Rightarrow> uuid option \<Rightarrow> string \<Rightarrow> string \<Rightarrow> bool" where
  "ip_blocked env view entries orgID domainID recipient clientIP =
     (trim_space clientIP \<noteq> [] \<and>
      list_ex (\<lambda>e. ip_applies view orgID domainID recipient e \<and> inet_within env clientIP (le_Pattern e)) entries)"

definition decision_action :: "bool \<Rightarrow> bool \<Rightarrow> string" where
  "decision_action blocked allowed = (if blocked then ''block'' else if allowed then ''allow'' else [])"

definition entry_actions :: "list_entry_row list \<Rightarrow> bool" where
  "entry_actions entries = list_all (\<lambda>e. le_Action e = ''allow'' \<or> le_Action e = ''block'') entries"

lemma matched_scope_not_Nil [simp]: "matched_scope e \<noteq> []"
  by (simp add: matched_scope_def)

lemma address_applies_Nil [simp]: "\<not> address_applies view orgID domainID recipient [] e"
  by (simp add: address_applies_def)

lemma lookupSenderListAddress_says:
  assumes "entry_actions entries"
  shows "\<exists>scope. lookupSenderListAddress no_faults env view entries orgID domainID recipient from =
      Inr (decision_action (list_says env view entries orgID domainID recipient ''block'' from)
             (list_says env view entries orgID domainID recipient ''allow'' from), scope) \<and>
    (scope = [] \<longleftrightarrow> decision_action (list_says env view entries orgID domainID recipient ''block'' from)
             (list_says env view entries orgID domainID recipient ''allow'' from) = [])"
proof -
  let ?ps = "PatternsForAddress env from"
  let ?applies = "address_applies view orgID domainID recipient ?ps"
  show ?thesis
  proof (cases "first_by (address_rank domainID ?ps) (filter ?applies entries)")
    case None
    then have none: "\<forall>e \<in> set entries. \<not> ?applies e" by (simp only: first_by_filter_None)
    then have "list_says env view entries orgID domainID recipient a from = False" for a
      by (auto simp: list_says_def list_ex_iff)
    with None show ?thesis
      by (cases "?ps = []") (simp_all add: lookupSenderListAddress_def decision_action_def)
  next
    case (Some e)
    from first_by_filter_Some [OF this] have e: "e \<in> set entries" "?applies e"
      and least: "\<forall>f \<in> set entries. ?applies f \<longrightarrow> address_rank domainID ?ps e \<le> address_rank domainID ?ps f" by auto
    have "?ps \<noteq> []" using e(2) by auto
    have act: "le_Action e = ''allow'' \<or> le_Action e = ''block''" using assms e(1) by (auto simp: entry_actions_def list_all_iff)
    have first: "le_Action e = ''block''" if "f \<in> set entries" "?applies f" "le_Action f = ''block''" for f
      using least that by (auto simp: address_rank_def less_eq_prod_def split: if_splits)
    have "decision_action (list_says env view entries orgID domainID recipient ''block'' from)
        (list_says env view entries orgID domainID recipient ''allow'' from) = le_Action e"
      using e act first by (auto simp: decision_action_def list_says_def list_ex_iff)
    with Some act \<open>?ps \<noteq> []\<close> show ?thesis
      by (auto simp: lookupSenderListAddress_def)
  qed
qed

lemma address_loop_says:
  assumes "\<And>a. \<exists>scope. lookup a = Inr (decision_action (blocks a) (allows a), scope) \<and>
      (scope = [] \<longleftrightarrow> decision_action (blocks a) (allows a) = [])"
  shows "map_sum id fst (address_loop lookup allowed as) =
    Inr (decision_action (list_ex blocks as) (allowed \<noteq> [] \<or> list_ex allows as))"
proof (induction as arbitrary: allowed)
  case (Cons a as)
  obtain scope where "lookup a = Inr (decision_action (blocks a) (allows a), scope)"
    and "scope = [] \<longleftrightarrow> decision_action (blocks a) (allows a) = []" using assms by blast
  with Cons show ?case by (auto simp: decision_action_def)
qed (simp add: decision_action_def)

text \<open>C38 (the lists' answer): whatever scopes the entries have and whatever order the queries sort them
  in, a message is blocked exactly when some applicable entry blocks its client address or one of its
  sender addresses, and otherwise allowed exactly when some applicable entry allows one of them.\<close>

theorem sender_lists_block_first:
  assumes "entry_actions entries" "trim_space clientIP = [] \<or> valid_inet env clientIP"
  shows "map_sum id fst (lookupSenderListWithIP no_faults env view entries orgID domainID recipient clientIP addresses) =
    Inr (decision_action
      (ip_blocked env view entries orgID domainID recipient clientIP \<or>
       list_ex (list_says env view entries orgID domainID recipient ''block'') (senderListLookupAddresses env addresses))
      (list_ex (list_says env view entries orgID domainID recipient ''allow'') (senderListLookupAddresses env addresses)))"
proof -
  let ?lookup = "lookupSenderListAddress no_faults env view entries orgID domainID recipient"
  have loop: "map_sum id fst (address_loop ?lookup [] as) =
      Inr (decision_action (list_ex (list_says env view entries orgID domainID recipient ''block'') as)
        (list_ex (list_says env view entries orgID domainID recipient ''allow'') as))" for as
    using address_loop_says [of ?lookup "list_says env view entries orgID domainID recipient ''block''"
        "list_says env view entries orgID domainID recipient ''allow''" "[]" as] lookupSenderListAddress_says [OF assms(1)] by simp
  show ?thesis
  proof (cases "ip_blocked env view entries orgID domainID recipient clientIP")
    case True
    let ?rows = "filter (\<lambda>e. ip_applies view orgID domainID recipient e \<and> inet_within env clientIP (le_Pattern e)) entries"
    from True have "first_by (\<lambda>e. (ip_rank domainID e, - int (le_CreatedAt e))) ?rows \<noteq> None"
      by (auto simp: ip_blocked_def list_ex_iff filter_empty_conv)
    then obtain e where e: "first_by (\<lambda>e. (ip_rank domainID e, - int (le_CreatedAt e))) ?rows = Some e" by blast
    then have "le_Action e = ''block''" by (auto dest: first_by_filter_Some simp: ip_applies_def)
    with True e assms(2) show ?thesis
      by (auto simp: lookupSenderListWithIP_def lookupSenderListIP_def ip_blocked_def decision_action_def)
  next
    case False
    show ?thesis
    proof (cases "trim_space clientIP = []")
      case True
      with False loop show ?thesis by (simp add: lookupSenderListWithIP_def Let_def)
    next
      case nonempty: False
      with False have "filter (\<lambda>e. ip_applies view orgID domainID recipient e \<and> inet_within env clientIP (le_Pattern e)) entries = []"
        by (auto simp: ip_blocked_def list_ex_iff filter_empty_conv)
      with nonempty assms(2) have "lookupSenderListIP no_faults env view entries orgID domainID recipient clientIP = Inr ([], [])"
        by (simp add: lookupSenderListIP_def)
      with nonempty False loop show ?thesis by (simp add: lookupSenderListWithIP_def Let_def)
    qed
  qed
qed

section \<open>Decisions take effect\<close>

lemma normalizeSender_fixed:
  "to_lower (trim_space (normalizeSender env v)) = normalizeSender env v"
  "to_lower (normalizeSender env v) = normalizeSender env v"
  by (auto simp: normalizeSender_def Let_def trim_space_to_lower split: option.split)

lemma PatternsForAddress_self:
  "normalizeSender env sender \<noteq> [] \<Longrightarrow> domainPart (normalizeSender env sender) \<noteq> [] \<Longrightarrow>
     normalizeSender env sender \<in> set (PatternsForAddress env sender)"
  by (simp add: PatternsForAddress_def uniqueLowerStrings_def Let_def set_dedup_on_id normalizeSender_fixed)

lemma replace_rule_None:
  "replace_rule err view e entries = (None, entries') \<Longrightarrow>
     entries' = filter (\<lambda>f. \<not> same_rule e f) entries @ [e] \<and> \<not> refused_block (lv_Domains view) e"
  by (auto simp: replace_rule_def insert_entry_def Let_def split: option.splits if_splits)

lemma user_rule_action: "le_Action (user_rule i now org domain user sender action note) = action"
  by (simp add: user_rule_def)

text \<open>C39 (the latest decision counts): after \<open>UpsertUserDecision\<close> stored a recipient's decision on a
  sender, a lookup for this recipient, domain and sender answers the decision, whatever the recipient had
  decided on the sender before; only another rule's block goes before an allow.\<close>

theorem latest_decision_counts:
  assumes "UpsertUserDecision err env view i now org domain user recipient sender action note entries = (None, entries')"
    and "matched_user (lv_Users view) org (to_lower (trim_space recipient)) = Some user"
    and "domainPart (normalizeSender env sender) \<noteq> []" "entry_actions entries"
  shows "map_sum id fst (lookupSenderListAddress no_faults env view entries' org domain (to_lower (trim_space recipient)) sender) =
    Inr (decision_action
      (to_lower (trim_space action) = ''block'' \<or>
       list_says env view (filter (\<lambda>f. \<not> same_rule (user_rule i now org domain user (normalizeSender env sender) (to_lower (trim_space action)) note) f) entries)
         org domain (to_lower (trim_space recipient)) ''block'' sender)
      True)"
proof -
  let ?a = "to_lower (trim_space action)" and ?r = "to_lower (trim_space recipient)"
  let ?e = "user_rule i now org domain user (normalizeSender env sender) ?a note"
  have act: "?a = ''allow'' \<or> ?a = ''block''" and sender: "normalizeSender env sender \<noteq> []"
    and entries': "entries' = filter (\<lambda>f. \<not> same_rule ?e f) entries @ [?e]"
    using assms(1) by (auto simp: UpsertUserDecision_def Let_def dest!: replace_rule_None split: if_splits)
  have applies: "address_applies view org domain ?r (PatternsForAddress env sender) ?e"
    using PatternsForAddress_self [OF sender assms(3)] assms(2)
    by (simp add: address_applies_def user_rule_def user_applies_def normalizeSender_fixed)
  have "entry_actions entries'"
    using assms(4) act by (auto simp: entries' entry_actions_def list_all_iff user_rule_def)
  from lookupSenderListAddress_says [OF this, of env view org domain ?r sender] obtain scope where
    look: "lookupSenderListAddress no_faults env view entries' org domain ?r sender =
      Inr (decision_action (list_says env view entries' org domain ?r ''block'' sender)
        (list_says env view entries' org domain ?r ''allow'' sender), scope)" by blast
  have "list_says env view entries' org domain ?r b sender =
      (?a = b \<or> list_says env view (filter (\<lambda>f. \<not> same_rule ?e f) entries) org domain ?r b sender)" for b
    using applies by (auto simp: list_says_def entries' user_rule_action)
  with look act show ?thesis by (auto simp: decision_action_def)
qed

section \<open>Configured domains are not blocked by name\<close>

text \<open>
  Domain and sender list requests on one database. \<open>named n e\<close>: the entry blocks the domain \<open>n\<close> in one of
  the forms that a lookup asks for. The requests take any name for a domain; \<open>bare_domain\<close> is what the trigger expects
  of one: no \<open>@\<close>, no star, no blank, and no dot at its end.
\<close>

definition bare_domain :: "string \<Rightarrow> bool" where
  "bare_domain n = (n \<noteq> [] \<and> CHR ''@'' \<notin> set n \<and> last n \<noteq> CHR ''.'' \<and> CHR '' '' \<notin> set n \<and> CHR ''*'' \<notin> set n)"

definition named :: "string \<Rightarrow> list_entry_row \<Rightarrow> bool" where
  "named n e = (le_Action e = ''block'' \<and> to_lower (le_Pattern e) \<in> {''*@'' @ n, ''@'' @ n, n})"

lemma lower_char_other: "lower_char c = d \<Longrightarrow> \<not> is_lower d \<Longrightarrow> c = d"
  by (cases c; cases d) (auto simp: lower_char_def split: if_splits)

definition protected_domains :: "domain_db \<Rightarrow> bool" where
  "protected_domains db =
     list_all (\<lambda>d. bare_domain (to_lower (dm_Name d)) \<longrightarrow> \<not> list_ex (named (to_lower (dm_Name d))) (dd_Entries db)) (dd_Domains db)"

lemma lower_char_mem: "\<not> is_lower d \<Longrightarrow> \<not> is_upper d \<Longrightarrow> d \<in> set (to_lower p) \<longleftrightarrow> d \<in> set p"
  using lower_char_other lower_char_cases by (force simp: to_lower_def image_iff)

lemma marks [simp]: "\<not> is_lower (CHR ''@'')" "\<not> is_lower (CHR ''*'')" "\<not> is_lower (CHR '' '')" "\<not> is_upper (CHR ''@'')"
  "\<not> is_upper (CHR '' '')" "\<not> is_lower (CHR ''.'')" "\<not> is_upper (CHR ''.'')"
  by simp_all

lemma bare_to_lower:
  assumes "n \<noteq> []" "CHR ''@'' \<notin> set n" "CHR ''*'' \<notin> set n" "CHR '' '' \<notin> set n" "last n \<noteq> CHR ''.''"
  shows "bare_domain (to_lower n)"
proof -
  have "last (to_lower n) \<noteq> CHR ''.''"
    using assms(1,5) lower_char_other [of "last n" "CHR ''.''"] by (auto simp: to_lower_def last_map)
  moreover have "to_lower n \<noteq> []" using assms(1) by (simp add: to_lower_def)
  moreover have "\<not> is_upper (CHR ''*'')" by simp
  ultimately show ?thesis
    using assms(2-4) by (simp add: bare_domain_def lower_char_mem)
qed

lemma trim_no_spaces: "CHR '' '' \<notin> set s \<Longrightarrow> trim s '' '' = s"
  by (cases "s = []") (auto simp: trim_def intro!: trim_by_fixed dest: hd_in_set last_in_set)

lemma trim_suffix_bare: "s \<noteq> [] \<Longrightarrow> last s \<noteq> CHR ''.'' \<Longrightarrow> trim_suffix s ''.'' = s"
  by (auto simp: trim_suffix_def has_suffix_def suffix_def)

lemma named_refused:
  assumes "named (to_lower (dm_Name d)) e" "bare_domain (to_lower (dm_Name d))" "d \<in> set doms"
  shows "refused_block doms e"
proof -
  let ?n = "to_lower (dm_Name d)"
  have "CHR '' '' \<notin> set (to_lower (le_Pattern e))" using assms(1,2) by (auto simp: named_def bare_domain_def)
  then have "trim (le_Pattern e) '' '' = le_Pattern e" by (simp add: lower_char_mem trim_no_spaces)
  moreover have "trim_suffix ?n ''.'' = ?n" using assms(2) by (simp add: trim_suffix_bare bare_domain_def)
  moreover have "?n \<noteq> [] \<Longrightarrow> hd ?n \<noteq> CHR ''*'' \<and> hd ?n \<noteq> CHR ''@''"
    using assms(2) hd_in_set [of ?n] unfolding bare_domain_def by metis
  ultimately have "trigger_domain (le_Pattern e) = Some ?n"
    using assms(1,2) by (cases ?n) (auto simp: named_def trigger_domain_def bare_domain_def Let_def)
  with assms(1,3) show ?thesis by (auto simp: refused_block_def named_def list_ex_iff)
qed

lemma to_lower_mark: "to_lower p = c # r \<Longrightarrow> \<not> is_lower c \<Longrightarrow> \<exists>q. p = c # q \<and> to_lower q = r"
  by (cases p) (auto simp: to_lower_def lower_char_other)

lemma named_blocks:
  assumes "named (to_lower name) e" "bare_domain (to_lower name)"
  shows "blocks_domain name e"
proof -
  let ?p = "le_Pattern e" and ?n = "to_lower name"
  have strip: "trim_suffix (trim_prefix q ''@'') ''.'' = q \<and> trim_prefix q ''*@'' = q"
    if "to_lower q = ?n" for q
  proof -
    have "q \<noteq> []" using that assms(2) by (auto simp: bare_domain_def to_lower_def)
    moreover have "CHR ''@'' \<notin> set q"
      using that assms(2) lower_char_mem [of "CHR ''@''" q] by (simp add: bare_domain_def)
    moreover have "last q \<noteq> CHR ''.''"
    proof
      assume "last q = CHR ''.''"
      then have "last (to_lower q) = CHR ''.''" using \<open>q \<noteq> []\<close> by (simp add: to_lower_def last_map)
      with that assms(2) show False by (simp add: bare_domain_def)
    qed
    ultimately show ?thesis
      by (auto simp: trim_prefix_def has_prefix_def prefix_def trim_suffix_bare)
  qed
  consider q where "?p = ''*@'' @ q" "to_lower q = ?n" | q where "?p = ''@'' @ q" "to_lower q = ?n" | "to_lower ?p = ?n"
  proof -
    have "to_lower ?p = ''*@'' @ ?n \<or> to_lower ?p = ''@'' @ ?n \<or> to_lower ?p = ?n" using assms(1) by (simp add: named_def)
    then show thesis
    proof (elim disjE)
      assume "to_lower ?p = ''*@'' @ ?n"
      then obtain q where "?p = CHR ''*'' # q" "to_lower q = CHR ''@'' # ?n"
        using to_lower_mark [of ?p "CHR ''*''" "CHR ''@'' # ?n"] by auto
      with to_lower_mark [of q "CHR ''@''" ?n] that(1) show thesis by auto
    next
      assume "to_lower ?p = ''@'' @ ?n"
      with to_lower_mark [of ?p "CHR ''@''" ?n] that(2) show thesis by auto
    qed (rule that(3))
  qed
  then have "whole_domain_pattern ?p \<and> to_lower (pattern_domain ?p) = ?n"
  proof cases
    case 1
    then show ?thesis using strip [of q] by (simp add: whole_domain_pattern_def pattern_domain_def trim_prefix_def)
  next
    case 2
    have "trim_prefix ?p ''*@'' = ?p" using 2(1) by (simp add: trim_prefix_def)
    moreover have "trim_prefix ?p ''@'' = q" using 2(1) by (simp add: trim_prefix_def)
    moreover have "trim_prefix q ''@'' = q" if "CHR ''@'' \<notin> set q"
      using that by (auto simp: trim_prefix_def has_prefix_def prefix_def)
    moreover have "CHR ''@'' \<notin> set q"
      using 2(2) assms(2) lower_char_mem [of "CHR ''@''" q] by (simp add: bare_domain_def)
    ultimately have "trim_suffix (trim_prefix (trim_prefix ?p ''*@'') ''@'') ''.'' = q" using strip [OF 2(2)] by simp
    then show ?thesis using 2 by (simp add: whole_domain_pattern_def pattern_domain_def)
  next
    case 3
    have "CHR ''@'' \<notin> set ?p" using 3 assms(2) lower_char_mem [of "CHR ''@''" ?p] by (simp add: bare_domain_def)
    with 3 strip [OF 3] show ?thesis by (simp add: whole_domain_pattern_def pattern_domain_def)
  qed
  with assms(1) show ?thesis by (simp add: blocks_domain_def named_def)
qed

section \<open>Domain and sender list requests together\<close>

datatype list_cmd =
    CreateEntry uuid nat "listWriteReq result"
  | DeleteEntry "uuid option"
  | UserDecision uuid nat uuid "uuid option" uuid string string string string

datatype admin_cmd = DomainCmd domain_cmd | ListCmd list_cmd

definition view_of :: "organization list \<Rightarrow> user_row list \<Rightarrow> domain_db \<Rightarrow> list_view" where
  "view_of orgs users db = \<lparr>lv_Orgs = orgs, lv_Domains = dd_Domains db, lv_Users = users, lv_Logs = [], lv_Mailbox = []\<rparr>"

fun list_step ::
  "faults \<Rightarrow> addr_env \<Rightarrow> list_view \<Rightarrow> list_cmd \<Rightarrow> (scope \<times> identity) result \<Rightarrow> list_entry_row list \<Rightarrow> list_entry_row list" where
  "list_step err env view (CreateEntry i now body) sc entries = snd (create_entry err env view i now sc body entries)"
| "list_step err env view (DeleteEntry i) sc entries = snd (del_entry err i sc entries)"
| "list_step err env view (UserDecision i now org domain user recipient sender action note) sc entries =
     snd (UpsertUserDecision err env view i now org domain user recipient sender action note entries)"

fun admin_step ::
  "faults \<Rightarrow> addr_env \<Rightarrow> organization list \<Rightarrow> user_row list \<Rightarrow> setting_row list \<Rightarrow> admin_cmd \<Rightarrow> (scope \<times> identity) result \<Rightarrow>
     domain_db \<Rightarrow> domain_db" where
  "admin_step err env orgs users rows (DomainCmd cmd) sc db = domain_step err orgs rows cmd sc db"
| "admin_step err env orgs users rows (ListCmd cmd) sc db =
     db\<lparr>dd_Entries := list_step err env (view_of orgs users db) cmd sc (dd_Entries db)\<rparr>"

text \<open>A sender list request only adds entries that the trigger lets pass.\<close>

definition only_passed :: "domain_row list \<Rightarrow> list_entry_row list \<Rightarrow> list_entry_row list \<Rightarrow> bool" where
  "only_passed doms entries entries' = (\<forall>e \<in> set entries'. e \<in> set entries \<or> \<not> refused_block doms e)"

lemma replace_rule_passed: "only_passed (lv_Domains view) entries (snd (replace_rule err view e entries))"
  by (auto simp: only_passed_def replace_rule_def insert_entry_def Let_def split: option.splits if_splits)

lemma only_passed_refl: "only_passed doms entries entries"
  by (simp add: only_passed_def)

lemma replace_rule_passedD:
  "replace_rule err view e entries = (r, entries') \<Longrightarrow> only_passed (lv_Domains view) entries entries'"
  using replace_rule_passed [of view entries err e] by simp

lemma UpsertDecision_passed:
  "UpsertDecision err env view i now org domain user scope kind v action note entries = (r, entries') \<Longrightarrow>
     only_passed (lv_Domains view) entries entries'"
proof -
  have "only_passed (lv_Domains view) entries
      (snd (UpsertDecision err env view i now org domain user scope kind v action note entries))"
    unfolding UpsertDecision_def
    by (rule ends_inI, intro handler_walk) (auto simp: only_passed_refl dest: replace_rule_passedD split: option.splits)
  then show "UpsertDecision err env view i now org domain user scope kind v action note entries = (r, entries') \<Longrightarrow>
     only_passed (lv_Domains view) entries entries'" by simp
qed

lemma list_step_passed: "only_passed (lv_Domains view) entries (list_step err env view cmd sc entries)"
proof (cases cmd)
  case (CreateEntry i now body)
  show ?thesis
    unfolding CreateEntry list_step.simps create_entry_def
    by (rule ends_inI, intro handler_walk) (auto simp: only_passed_refl dest: UpsertDecision_passed)
next
  case (DeleteEntry i)
  show ?thesis
    unfolding DeleteEntry list_step.simps del_entry_def
    by (rule ends_inI, intro handler_walk) (auto simp: only_passed_def)
next
  case (UserDecision i now org domain user recipient sender action remark)
  show ?thesis
    unfolding UserDecision list_step.simps UpsertUserDecision_def
    by (auto simp: Let_def only_passed_refl replace_rule_passed)
qed

lemma admin_step_protected: "protected_domains db \<Longrightarrow> protected_domains (admin_step err env orgs users rows cmd sc db)"
proof (cases cmd)
  case (ListCmd c)
  assume old: "protected_domains db"
  have "\<not> named (to_lower (dm_Name d)) e"
    if "d \<in> set (dd_Domains db)" "bare_domain (to_lower (dm_Name d))"
      "e \<in> set (list_step err env (view_of orgs users db) c sc (dd_Entries db))" for d e
    using that old list_step_passed [of "view_of orgs users db" "dd_Entries db" err env c sc] named_refused [of d e "dd_Domains db"]
    by (auto simp: protected_domains_def only_passed_def view_of_def list_all_iff list_ex_iff)
  then show ?thesis
    by (auto simp: ListCmd protected_domains_def list_all_iff list_ex_iff)
next
  case (DomainCmd c)
  assume old: "protected_domains db"
  have removed: "\<not> named (to_lower name) e"
    if "bare_domain (to_lower name)" "e \<in> set (remove_blocklists name entries)" for name e entries
    using that named_blocks by (auto simp: remove_blocklists_def)
  show ?thesis
  proof (cases c)
    case (CreateDomain i p now body)
    show ?thesis
      unfolding DomainCmd CreateDomain admin_step.simps domain_step.simps
      by (rule create_domain_cases [of protected_domains, OF old])
        (use old removed in \<open>auto simp: protected_domains_def remove_blocklists_def list_all_iff list_ex_iff dest!: insert_domain_Some\<close>)
  next
    case (UpdateDomain now param body)
    show ?thesis
      unfolding DomainCmd UpdateDomain admin_step.simps domain_step.simps
      by (rule update_domain_cases [of protected_domains, OF old])
        (use old removed in \<open>auto simp: protected_domains_def remove_blocklists_def list_all_iff list_ex_iff update_where_def\<close>)
  next
    case (DeleteDomain param)
    show ?thesis
      unfolding DomainCmd DeleteDomain admin_step.simps domain_step.simps
      by (rule del_domain_cases [of protected_domains, OF old])
        (use old in \<open>auto simp: protected_domains_def delete_domain_rows_def list_all_iff list_ex_iff\<close>)
  qed
qed

lemma admin_steps_protected:
  "protected_domains db \<Longrightarrow> protected_domains (foldl (\<lambda>db (cmd, sc). admin_step err env orgs users rows cmd sc db) db reqs)"
  by (induction reqs arbitrary: db) (auto intro: admin_step_protected)

text \<open>C40 (a configured domain is not blocked by name): over any series of domain and sender list requests no
  block entry names a configured domain (in the forms \<open>*@d\<close>, \<open>@d\<close>, \<open>d\<close> that a lookup asks for),
  provided none did before; not even an entry of the kind \<open>email\<close>. This is so for the domains whose name has no \<open>@\<close>,
  star or blank and does not end in a dot.\<close>

theorem configured_domain_not_named:
  assumes "protected_domains db"
    and "db' = foldl (\<lambda>db (cmd, sc). admin_step err env orgs users rows cmd sc db) db reqs"
    and "d \<in> set (dd_Domains db')" "e \<in> set (dd_Entries db')" "le_Action e = ''block''"
    and "dm_Name d \<noteq> []" "CHR ''@'' \<notin> set (dm_Name d)" "CHR ''*'' \<notin> set (dm_Name d)" "CHR '' '' \<notin> set (dm_Name d)"
      "last (dm_Name d) \<noteq> CHR ''.''"
  shows "to_lower (le_Pattern e) \<notin> {''*@'' @ to_lower (dm_Name d), ''@'' @ to_lower (dm_Name d), to_lower (dm_Name d)}"
proof -
  have "bare_domain (to_lower (dm_Name d))" by (rule bare_to_lower [OF assms(6-10)])
  with admin_steps_protected [OF assms(1), of err env orgs users rows reqs] assms(2-5) show ?thesis
    by (auto simp: protected_domains_def named_def list_all_iff list_ex_iff)
qed

text \<open>A domain that is configured with a dot at its end is not protected: its own name can be blocked.\<close>

lemma trailing_dot_not_protected:
  "\<not> refused_block [sample_domain 5 1 ''x.io.''] (sample_block ''*@x.io.'') \<and> named ''x.io.'' (sample_block ''*@x.io.'')"
  by code_simp

definition sample_addr_env :: addr_env where
  "sample_addr_env = \<lparr>ParseAddress = (\<lambda>s. if CHR ''@'' \<in> set s then Some s else None), ParseAddressList = (\<lambda>s. None),
     EffectiveTLDPlusOne = (\<lambda>_. Some ''x.io''), valid_inet = (\<lambda>_. True), inet_within = (=)\<rparr>"

definition sample_view :: list_view where
  "sample_view = \<lparr>lv_Orgs = [sample_org 1 None], lv_Domains = [sample_domain 5 1 ''m.x.io''],
     lv_Users = [sample_user 8 1 ''org_user''], lv_Logs = [], lv_Mailbox = []\<rparr>"

lemma sample_patterns: "PatternsForAddress sample_addr_env ''a@m.x.io'' =
    [''a@m.x.io'', ''*@m.x.io'', ''m.x.io'', ''@m.x.io'', ''*@x.io'', ''x.io'', ''@x.io'']"
  by code_simp

text \<open>The guard does not reach parents: an entry that blocks the parent of a configured domain is stored, and
  every sender of the configured domain is blocked.\<close>

lemma parent_block_hits_configured:
  "\<not> refused_block (lv_Domains sample_view) (sample_block ''*@x.io'') \<and>
   map_sum id fst (lookupSenderListAddress no_faults sample_addr_env sample_view [sample_block ''*@x.io''] 1 (Some 5)
     ''r@m.x.io'' ''a@m.x.io'') = Inr ''block''"
  unfolding lookupSenderListAddress_def sample_patterns
  by (simp add: sample_block_def sample_view_def sample_domain_def refused_block_def trigger_domain_def trim_defs
      address_applies_def user_applies_def trim_suffix_def has_suffix_def)

lemma sender_lists_block_first_witness:
  "map_sum id fst (lookupSenderListWithIP no_faults sample_addr_env sample_view [sample_block ''10.0.0.1/32''] 1 (Some 5)
     ''r@m.x.io'' ''10.0.0.1'' []) = Inr []"
  using sender_lists_block_first [of "[sample_block ''10.0.0.1/32'']" "''10.0.0.1''" sample_addr_env sample_view 1 "Some 5" "''r@m.x.io''" "[]"]
  by (simp add: sample_block_def entry_actions_def sample_addr_env_def ip_blocked_def ip_applies_def decision_action_def
      senderListLookupAddresses_def)

definition sample_list_request :: "string \<Rightarrow> listWriteReq" where
  "sample_list_request d = \<lparr>lw_OrganizationID = Some 1, lw_DomainID = None, lw_UserID = None, lw_Scope = ''org'', lw_Action = ''block'',
     lw_Kind = ''domain'', lw_Sender = [], lw_SenderDomain = d, lw_Note = []\<rparr>"

text \<open>An administrator blocks the configured domain, which is refused, and another one, which is stored.\<close>

abbreviation sample_blocks :: "(admin_cmd \<times> (scope \<times> identity) result) list" where
  "sample_blocks \<equiv> [(ListCmd (CreateEntry 8 9 (Inr (sample_list_request ''X.io''))), Inr (sample_caller 1 ''org_admin'')),
     (ListCmd (CreateEntry 8 9 (Inr (sample_list_request ''y.io''))), Inr (sample_caller 1 ''org_admin''))]"

definition sample_domains :: domain_db where
  "sample_domains = \<lparr>dd_Domains = [sample_domain 5 1 ''x.io''], dd_Policies = [], dd_Entries = [], dd_Gateways = []\<rparr>"

lemma sample_blocked:
  "map le_Pattern (dd_Entries (foldl (\<lambda>db (cmd, sc). admin_step no_faults sample_addr_env [sample_org 1 None] [] [] cmd sc db)
     sample_domains sample_blocks)) = [''*@y.io'']"
  "map le_Action (dd_Entries (foldl (\<lambda>db (cmd, sc). admin_step no_faults sample_addr_env [sample_org 1 None] [] [] cmd sc db)
     sample_domains sample_blocks)) = [''block'']"
  "map dm_Name (dd_Domains (foldl (\<lambda>db (cmd, sc). admin_step no_faults sample_addr_env [sample_org 1 None] [] [] cmd sc db)
     sample_domains sample_blocks)) = [''x.io'']"
  by code_simp+

lemma configured_domain_not_named_witness:
  "\<exists>d e. dd_Domains (foldl (\<lambda>db (cmd, sc). admin_step no_faults sample_addr_env [sample_org 1 None] [] [] cmd sc db)
       sample_domains sample_blocks) = [d] \<and>
     dd_Entries (foldl (\<lambda>db (cmd, sc). admin_step no_faults sample_addr_env [sample_org 1 None] [] [] cmd sc db)
       sample_domains sample_blocks) = [e] \<and>
     le_Pattern e = ''*@y.io'' \<and> to_lower (le_Pattern e) \<noteq> ''*@'' @ to_lower (dm_Name d)"
proof -
  let ?db = "foldl (\<lambda>db (cmd, sc). admin_step no_faults sample_addr_env [sample_org 1 None] [] [] cmd sc db)
       sample_domains sample_blocks"
  obtain d e where de: "dd_Domains ?db = [d]" "dm_Name d = ''x.io''" "dd_Entries ?db = [e]" "le_Pattern e = ''*@y.io''" "le_Action e = ''block''"
    using sample_blocked by (auto simp: map_eq_Cons_conv)
  have "protected_domains sample_domains" by (simp add: sample_domains_def protected_domains_def)
  from configured_domain_not_named [OF this refl, of d no_faults sample_addr_env "[sample_org 1 None]" "[]" "[]" sample_blocks e] de
  show ?thesis by simp
qed

lemma latest_decision_counts_witness:
  "\<exists>entries'. UpsertUserDecision no_faults sample_addr_env sample_view 4 9 1 (Some 5) 8 ''u@x.io'' ''a@m.x.io'' ''allow'' [] [] = (None, entries') \<and>
     map_sum id fst (lookupSenderListAddress no_faults sample_addr_env sample_view entries' 1 (Some 5) ''u@x.io'' ''a@m.x.io'') = Inr ''allow''"
proof -
  have s: "normalizeSender sample_addr_env ''a@m.x.io'' = ''a@m.x.io''" "domainPart ''a@m.x.io'' \<noteq> []"
    "trim_space ''u@x.io'' = ''u@x.io''" "trim_space ''allow'' = ''allow''" "to_lower ''u@x.io'' = ''u@x.io''" "to_lower ''allow'' = ''allow''"
    by code_simp+
  have "\<exists>entries'. UpsertUserDecision no_faults sample_addr_env sample_view 4 9 1 (Some 5) 8 ''u@x.io'' ''a@m.x.io'' ''allow'' [] [] = (None, entries')"
    by (simp add: UpsertUserDecision_def s Let_def replace_rule_def insert_entry_def refused_block_def user_rule_def sample_view_def
        sample_user_def sample_domain_def sample_org_def)
  then obtain entries' where e: "UpsertUserDecision no_faults sample_addr_env sample_view 4 9 1 (Some 5) 8 ''u@x.io'' ''a@m.x.io'' ''allow'' [] [] = (None, entries')"
    by blast
  from latest_decision_counts [OF this]
  have "map_sum id fst (lookupSenderListAddress no_faults sample_addr_env sample_view entries' 1 (Some 5) ''u@x.io'' ''a@m.x.io'') = Inr ''allow''"
    by (simp add: s matched_user_def sample_view_def sample_user_def entry_actions_def list_says_def decision_action_def)
  with e show ?thesis by blast
qed

end
