(* ===== verification/Ingest.thy ===== *)
theory Ingest
  imports MailPipeline Campaign SenderPolicy
begin

text \<open>
  \<open>IngestHandler.handle\<close> of \<open>internal/mail/ingest.go\<close> as a whole: the signed event, the lookups, the
  verdict stages of \<open>MailPipeline\<close>, the hold for deep analysis, the campaign, and everything that is
  stored: the mail log, mailbox copies, the raw message, the quarantine entry, scan jobs. Two
  notifications that \<open>handle\<close> starts in goroutines, and the warm-up of the feeds, are recorded as effects.
\<close>

definition maxAttachmentSize :: int where "maxAttachmentSize = 2 * 2 ^ 20"
definition maxAttachmentScans :: nat where "maxAttachmentScans = 5"
definition maxBodyForAI :: nat where "maxBodyForAI = 16000"
definition maxRawMessageBytes :: nat where "maxRawMessageBytes = 8 * 2 ^ 20"
definition scanQueueLight :: string where "scanQueueLight = ''smg:scan_jobs''"
definition scanQueueSandbox :: string where "scanQueueSandbox = ''smg:scan_jobs_sandbox''"

datatype ingest_effect = ChallengeAlert uuid | QuarantineAlert uuid | WarmFeeds "threatCandidate list"

record ingest_state =
  is_Campaigns :: "campaign list"
  is_Sources :: "campaign_source list"
  is_MailLogs :: "mail_log_row list"
  is_LogBlobs :: "log_blob list"
  is_Mailbox :: "mailbox_row list"
  is_Quarantine :: "quarantine_row list"
  is_QuarantineBlobs :: "quarantine_blob list"
  is_ScanJobs :: "scan_job_row list"
  is_Queue :: "scan_envelope list"
  is_Effects :: "ingest_effect list"

text \<open>
  What a request meets: failing statements, the time, fresh identifiers, the parameters of the parts
  (HMAC, SHA-256, the cast to \<open>inet\<close>, address parsers, rendering and decryption of settings), the
  registry's cache, the brand catalog, and the tables that are only read.
\<close>

record ingest_env =
  ie_Err :: faults
  ie_Now :: nat
  ie_CampaignID :: uuid
  ie_MailLogID :: uuid
  ie_QuarantineID :: uuid
  ie_MailboxID :: "nat \<Rightarrow> uuid"
  ie_ScanID :: "nat \<Rightarrow> uuid"
  ie_HMAC :: "string \<Rightarrow> string \<Rightarrow> string"
  ie_Secret :: string
  ie_Unmarshal :: "string \<Rightarrow> Event result"
  ie_SHA256 :: "string \<Rightarrow> string"
  ie_Inet :: "string \<Rightarrow> string option"
  ie_Addr :: addr_env
  ie_Render :: "json \<Rightarrow> string"
  ie_Decrypt :: "string \<Rightarrow> string result"
  ie_Float :: "string \<Rightarrow> rat option"
  ie_Feeds :: "(Kind \<Rightarrow> string \<Rightarrow> Result option) option"
  ie_Brands :: "protectedBrandProfile list result option"
  ie_Redis :: bool
  ie_View :: list_view
  ie_Policies :: "Policy list"
  ie_Entries :: "list_entry_row list"
  ie_Settings :: "setting_row list"
  ie_Classifications :: "classification list"

section \<open>Lookups before the verdict\<close>

definition challengeResponseEnabled :: "ingest_env \<Rightarrow> Policy \<Rightarrow> uuid \<Rightarrow> string \<Rightarrow> bool" where
  "challengeResponseEnabled env pol orgID recipient =
     (let enabled = ChallengeResponseEnabled (Some pol)
      in if ie_Err env ''select challenge mode'' then enabled
         else case find (\<lambda>u. u_OrganizationID u = orgID \<and> equal_fold (u_Email u) (trim_space recipient)) (lv_Users (ie_View env)) of
           None \<Rightarrow> enabled
         | Some u \<Rightarrow> challengeResponseModeEnabled enabled (u_ChallengeResponseMode u) (u_IsActive u))"

definition brand_profiles :: "ingest_env \<Rightarrow> protectedBrandProfile list" where
  "brand_profiles env =
     (case ie_Brands env of
        Some (Inr profiles) \<Rightarrow> if profiles \<noteq> [] then profiles else protectedBrandProfiles
      | _ \<Rightarrow> protectedBrandProfiles)"

definition cached_enforcement :: "ingest_env \<Rightarrow> bool" where
  "cached_enforcement env =
     (case system_value (ie_Err env) (ie_Settings env) ''threat_intel.cached_enforcement'' of
        None \<Rightarrow> False
      | Some v \<Rightarrow> (case pg_bool v of None \<Rightarrow> False | Some b \<Rightarrow> b))"

definition learned_match :: "ingest_env \<Rightarrow> uuid \<Rightarrow> Event \<Rightarrow> Match option" where
  "learned_match env orgID ev =
     (case Lookup (ie_Err env) (ie_Classifications env) orgID (hd (ev_To ev)) (ev_From ev) (ev_Subject ev) of
        Inl e \<Rightarrow> None
      | Inr m \<Rightarrow> m)"

text \<open>What the stages run on, or the error of the sender list lookup.\<close>

definition ingest_lookups :: "ingest_env \<Rightarrow> uuid \<Rightarrow> uuid \<Rightarrow> Policy \<Rightarrow> Event \<Rightarrow> ingest_context result" where
  "ingest_lookups env orgID domainID pol ev =
     (case lookupSenderListWithIP (ie_Err env) (ie_Addr env) (ie_View env) (ie_Entries env) orgID (Some domainID)
             (to_lower (trim_space (hd (ev_To ev)))) (ev_ClientIP ev) [ev_From ev, ev_ReplyTo ev] of
        Inl e \<Rightarrow> Inl e
      | Inr (action, _) \<Rightarrow>
          Inr \<lparr>cx_Policy = pol, cx_ChallengeEnabled = challengeResponseEnabled env pol orgID (hd (ev_To ev)),
               cx_SenderAction = action, cx_Feeds = ie_Feeds env, cx_CachedEnforcement = cached_enforcement env,
               cx_BrandProfiles = brand_profiles env, cx_Learned = learned_match env orgID ev\<rparr>)"

section \<open>Deep analysis and the threat class\<close>

fun disposition_text :: "disposition \<Rightarrow> string" where
  "disposition_text Delivered = ''delivered''"
| "disposition_text Tagged = ''tagged''"
| "disposition_text Quarantined = ''quarantined''"
| "disposition_text Rejected = ''rejected''"

definition deepAnalysisEligible :: "disposition \<Rightarrow> Event \<Rightarrow> DeepAnalysisConfig \<Rightarrow> AIConfig \<Rightarrow> bool" where
  "deepAnalysisEligible d ev config ai =
     (length (ev_To ev) = 1 \<and> equal_fold (ev_Direction ev) ''inbound'' \<and> d = Tagged \<and> da_Enabled config \<and>
      ev_Score ev \<ge> da_MinScore config \<and> ai_Available ai \<and> (ai_Mode ai = ''suspicious'' \<or> ai_Mode ai = ''all''))"

definition deep_config :: "ingest_env \<Rightarrow> DeepAnalysisConfig" where
  "deep_config env = LookupDeepAnalysisConfig (ie_Err env) (ie_Float env) (ie_Settings env)"

definition ai_config :: "ingest_env \<Rightarrow> AIConfig" where
  "ai_config env = LookupAIConfig (ie_Err env) (ie_Render env) (ie_Decrypt env) (ie_Settings env)"

definition shouldHoldForDeepAnalysis :: "ingest_env \<Rightarrow> disposition \<Rightarrow> Event \<Rightarrow> bool" where
  "shouldHoldForDeepAnalysis env d ev =
     (if \<not> equal_fold (ev_Direction ev) ''inbound'' \<or> d \<noteq> Tagged then False
      else deepAnalysisEligible d ev (deep_config env) (ai_config env))"

record ingest_verdict =
  iv_Disposition :: disposition
  iv_Reason :: string
  iv_DeepState :: string
  iv_Deadline :: "nat option"
  iv_ThreatClass :: string
  iv_Event :: Event

definition pending_analysis :: string where "pending_analysis = ''pending deep analysis''"

definition ingest_decide :: "ingest_env \<Rightarrow> ingest_context \<Rightarrow> Event \<Rightarrow> ingest_verdict" where
  "ingest_decide env cx ev0 =
     (let ((d0, reason0), ev) = run_stages cx ev0;
          hold = shouldHoldForDeepAnalysis env d0 ev;
          d = (if hold then Quarantined else d0);
          reason = (if hold then pending_analysis else reason0);
          threatClass =
            (if d = Quarantined then
               (if IsPendingReason reason then ''CHALLENGE_RESPONSE''
                else if hold then ''PENDING_ANALYSIS''
                else classifyThreatWithProfiles ev (brandAnalysisOptionsFromPolicy (Some (cx_Policy cx))) (Some (cx_Policy cx))
                       (cx_BrandProfiles cx))
             else [])
      in \<lparr>iv_Disposition = d, iv_Reason = reason,
          iv_DeepState = (if hold then ''pending'' else ''not_required''),
          iv_Deadline = (if hold then Some (ie_Now env + nat (da_TimeoutMinutes (deep_config env)) * 60) else None),
          iv_ThreatClass = threatClass, iv_Event = ev\<rparr>)"

text \<open>The policy's campaign action on a counted message: action, disposition, reason, suppress.\<close>

definition campaign_verdict ::
  "Policy \<Rightarrow> bool \<Rightarrow> campaignRecord \<Rightarrow> disposition \<Rightarrow> string \<Rightarrow> string \<times> disposition \<times> string \<times> bool" where
  "campaign_verdict pol highConfidence c d reason =
     (let suppress = (highConfidence \<and> cr_MessageCount c > 1 \<and> cr_HasRepresentative c)
      in if highConfidence \<and> int (cr_MessageCount c) \<ge> CampaignThreshold (Some pol) then
           (let action = CampaignAction (Some pol)
            in if action = ''reject'' then
                 (action, Rejected, ''high-confidence campaign threshold reached; rejected by tenant policy'', True)
               else if action = ''discard'' then
                 (action, d, ''high-confidence campaign threshold reached; accepted and discarded by tenant policy'',
                  cr_MessageCount c > 1)
               else (action, d, reason, suppress))
         else (''aggregate'', d, reason, suppress))"

section \<open>What is stored\<close>

text \<open>A \<open>NUMERIC(6,3)\<close> column.\<close>

definition numeric_6_3 :: "rat \<Rightarrow> rat option" where
  "numeric_6_3 x =
     (let y = (if x < 0 then - of_int \<lfloor>- x * 1000 + 1 / 2\<rfloor> else of_int \<lfloor>x * 1000 + 1 / 2\<rfloor>) / 1000
      in if \<bar>y\<bar> < 1000 then Some y else None)"

definition insert_mail_log ::
  "ingest_env \<Rightarrow> uuid \<Rightarrow> uuid \<Rightarrow> campaignRecord \<Rightarrow> disposition \<Rightarrow> string \<Rightarrow> ingest_verdict \<Rightarrow> Event \<Rightarrow> mail_log_row option" where
  "insert_mail_log env orgID domainID c d reason v ev =
     (case (if ev_ClientIP ev = [] then Some None else map_option Some (ie_Inet env (ev_ClientIP ev)), numeric_6_3 (ev_Score ev)) of
        (Some ip, Some score) \<Rightarrow>
          if ie_Err env ''insert mail_logs'' \<or> ev_SizeBytes ev < - (2 ^ 31) \<or> ev_SizeBytes ev \<ge> 2 ^ 31 then None
          else Some
            \<lparr>ml_ID = ie_MailLogID env, ml_OrganizationID = orgID, ml_DomainID = Some domainID,
             ml_QueueID = Some (ev_QueueID ev), ml_MessageID = Some (ev_MessageID ev), ml_Direction = ev_Direction ev,
             ml_FromAddr = Some (ev_From ev), ml_ToAddrs = ev_To ev, ml_ClientIP = ip,
             ml_ClientHostname = nullif_empty (ev_ClientHostname ev), ml_Helo = Some (ev_Helo ev),
             ml_Subject = Some (ev_Subject ev), ml_SizeBytes = Some (ev_SizeBytes ev), ml_RspamdScore = Some score,
             ml_RspamdAction = Some (ev_Action ev), ml_Symbols = Some (JObj (ev_Symbols ev)),
             ml_Disposition = disposition_text d, ml_Reason = Some reason, ml_ReceivedAt = ie_Now env,
             ml_CampaignID = (if cr_ID c = 0 then None else Some (cr_ID c)),
             ml_CampaignCopyNumber = (if cr_MessageCount c = 0 then None else Some (cr_MessageCount c)),
             ml_TerminalAction = None, ml_TerminalStatusCode = None, ml_TerminalReason = None, ml_TerminalRelay = None,
             ml_TerminalAt = None, ml_DeliveryMismatch = False, ml_DeepAnalysisState = iv_DeepState v,
             ml_DeepAnalysisDeadline = iv_Deadline v, ml_DeepAnalysisReleasedAt = None,
             ml_DeepAnalysisFailureReason = None\<rparr>
      | _ \<Rightarrow> None)"

definition shouldCreateMailboxCopy :: "disposition \<Rightarrow> bool" where
  "shouldCreateMailboxCopy d = (d = Delivered \<or> d = Tagged)"

definition mailbox_copy :: "ingest_env \<Rightarrow> uuid \<Rightarrow> uuid \<Rightarrow> Event \<Rightarrow> int \<Rightarrow> nat \<Rightarrow> string \<Rightarrow> mailbox_row" where
  "mailbox_copy env orgID domainID ev days k t =
     \<lparr>mb_ID = ie_MailboxID env k, mb_OrganizationID = orgID, mb_DomainID = Some domainID,
      mb_MailLogID = ie_MailLogID env, mb_FromAddr = nullif_empty (ev_From ev), mb_ToAddr = t,
      mb_Subject = nullif_empty (ev_Subject ev), mb_BodyText = take maxBodyForAI (ev_BodyText ev),
      mb_Verdict = ''unreviewed'', mb_VerdictBy = None, mb_VerdictAt = None, mb_ReceivedAt = ie_Now env,
      mb_ExpiresAt = Some (ie_Now env + nat days * 86400),
      mb_ListUnsubscribe = nullif_empty (ev_ListUnsubscribe ev),
      mb_ListUnsubscribePost = nullif_empty (ev_ListUnsubscribePost ev)\<rparr>"

lemma mailbox_copy_simps [simp]:
  "mb_MailLogID (mailbox_copy env orgID domainID ev days k t) = ie_MailLogID env"
  "mb_ToAddr (mailbox_copy env orgID domainID ev days k t) = t"
  by (simp_all add: mailbox_copy_def)

text \<open>The loop over the recipients; \<open>k\<close> numbers them.\<close>

fun mailbox_loop ::
  "ingest_env \<Rightarrow> uuid \<Rightarrow> uuid \<Rightarrow> Event \<Rightarrow> int \<Rightarrow> nat \<Rightarrow> string list \<Rightarrow> mailbox_row list \<Rightarrow> bool \<times> mailbox_row list" where
  "mailbox_loop env orgID domainID ev days k [] rows = (True, rows)"
| "mailbox_loop env orgID domainID ev days k (to # tos) rows =
     (let t = to_lower (trim_space to)
      in if t = [] then mailbox_loop env orgID domainID ev days (Suc k) tos rows
         else if ie_Err env ''insert mailbox_messages'' then (False, rows)
         else if list_ex (\<lambda>m. mb_MailLogID m = ie_MailLogID env \<and> mb_ToAddr m = t) rows then
           mailbox_loop env orgID domainID ev days (Suc k) tos rows
         else mailbox_loop env orgID domainID ev days (Suc k) tos (rows @ [mailbox_copy env orgID domainID ev days k t]))"

definition retention_days :: "ingest_env \<Rightarrow> uuid \<Rightarrow> uuid \<Rightarrow> int" where
  "retention_days env orgID domainID =
     MessageRetentionDaysForDomain (ie_Err env) (ie_Settings env) (lv_Domains (ie_View env)) orgID domainID"

definition insertMailboxCopies ::
  "ingest_env \<Rightarrow> uuid \<Rightarrow> uuid \<Rightarrow> disposition \<Rightarrow> Event \<Rightarrow> mailbox_row list \<Rightarrow> bool \<times> mailbox_row list" where
  "insertMailboxCopies env orgID domainID d ev rows =
     (if \<not> shouldCreateMailboxCopy d then (True, rows)
      else mailbox_loop env orgID domainID ev (retention_days env orgID domainID) 0 (ev_To ev) rows)"

definition raw_message :: "Event \<Rightarrow> string option" where
  "raw_message ev =
     (if ev_RawMessageB64 ev = [] then None
      else case base64_decode (ev_RawMessageB64 ev) of
        None \<Rightarrow> None
      | Some raw \<Rightarrow> if raw = [] \<or> length raw > maxRawMessageBytes then None else Some raw)"

definition insertMailLogBlob :: "ingest_env \<Rightarrow> uuid \<Rightarrow> Event \<Rightarrow> log_blob list \<Rightarrow> bool \<times> log_blob list" where
  "insertMailLogBlob env orgID ev blobs =
     (case raw_message ev of
        None \<Rightarrow> (True, blobs)
      | Some raw \<Rightarrow>
          if ie_Err env ''insert mail_log_blobs'' then (False, blobs)
          else if list_ex (\<lambda>b. lb_MailLogID b = ie_MailLogID env) blobs then (True, blobs)
          else (True, blobs @ [\<lparr>lb_MailLogID = ie_MailLogID env, lb_OrganizationID = orgID, lb_Bytes = raw\<rparr>]))"

definition insertQuarantineBlob :: "ingest_env \<Rightarrow> uuid \<Rightarrow> Event \<Rightarrow> quarantine_blob list \<Rightarrow> bool \<times> quarantine_blob list" where
  "insertQuarantineBlob env orgID ev blobs =
     (case raw_message ev of
        None \<Rightarrow> (True, blobs)
      | Some raw \<Rightarrow>
          if ie_Err env ''insert quarantine_blobs'' then (False, blobs)
          else if list_ex (\<lambda>b. qb_EntryID b = ie_QuarantineID env) blobs then (True, blobs)
          else (True, blobs @ [\<lparr>qb_EntryID = ie_QuarantineID env, qb_OrganizationID = orgID,
                 qb_MailLogID = Some (ie_MailLogID env), qb_Bytes = raw\<rparr>]))"

definition storageKey :: "Event \<Rightarrow> string" where
  "storageKey ev =
     (if trim_space (ev_StorageKey ev) \<noteq> [] then ev_StorageKey ev
      else if ev_RawMessageB64 ev \<noteq> [] then ''db''
      else [])"

text \<open>
  \<open>INSERT ... ON CONFLICT DO NOTHING\<close>: a campaign has at most one quarantine entry, its representative.
  \<open>Inr None\<close> is the conflict.
\<close>

definition insert_quarantine ::
  "ingest_env \<Rightarrow> uuid \<Rightarrow> uuid \<Rightarrow> uuid option \<Rightarrow> string \<Rightarrow> Event \<Rightarrow> quarantine_row list \<Rightarrow> quarantine_row option result" where
  "insert_quarantine env orgID domainID campaignID threatClass ev rows =
     (case numeric_6_3 (ev_Score ev) of
        None \<Rightarrow> Inl ''insert quarantine_entries''
      | Some score \<Rightarrow>
          if ie_Err env ''insert quarantine_entries'' then Inl ''insert quarantine_entries''
          else if list_ex (\<lambda>q. qe_ID q = ie_QuarantineID env \<or> (campaignID \<noteq> None \<and> qe_CampaignID q = campaignID)) rows then Inr None
          else Inr (Some
            \<lparr>qe_ID = ie_QuarantineID env, qe_OrganizationID = orgID, qe_MailLogID = Some (ie_MailLogID env),
             qe_DomainID = Some domainID, qe_FromAddr = nullif_empty (ev_From ev), qe_ToAddr = hd (ev_To ev),
             qe_Subject = nullif_empty (ev_Subject ev), qe_RspamdScore = Some score, qe_ThreatClass = Some threatClass,
             qe_StorageKey = storageKey ev, qe_SizeBytes = (if ev_SizeBytes ev = 0 then None else Some (ev_SizeBytes ev)),
             qe_State = ''held'',
             qe_ExpiresAt = Some (ie_Now env + nat (retention_days env orgID domainID) * 86400),
             qe_ReceivedAt = ie_Now env, qe_ReleasedAt = None, qe_ReleasedBy = None, qe_CampaignID = campaignID\<rparr>))"

text \<open>The updates of the campaign row whose errors are ignored.\<close>

definition touch_campaign :: "bool \<Rightarrow> uuid \<Rightarrow> (campaign \<Rightarrow> campaign) \<Rightarrow> campaign list \<Rightarrow> campaign list" where
  "touch_campaign fails i f camps = (if fails \<or> i = 0 then camps else update_where (\<lambda>c. cp_ID c = i) f camps)"

section \<open>Scan jobs\<close>

text \<open>
  A new job and its envelope on the redis queue. The row stays when the push fails. \<open>k\<close> numbers the
  jobs of the request.
\<close>

definition enqueue ::
  "ingest_env \<Rightarrow> uuid \<Rightarrow> nat \<Rightarrow> string \<Rightarrow> json_map \<Rightarrow> scan_job_row list \<times> scan_envelope list \<Rightarrow>
     string option \<times> scan_job_row list \<times> scan_envelope list" where
  "enqueue env orgID k kind payload st =
     (let (jobs, queue) = st; i = ie_ScanID env k
      in if ie_Err env (''insert scan_jobs '' @ kind) then (Some ''insert scan_jobs'', st)
         else
           (let jobs' = jobs @ [\<lparr>sj_ID = i, sj_OrganizationID = orgID, sj_MailLogID = Some (ie_MailLogID env), sj_Kind = kind,
                    sj_State = ''queued'', sj_Payload = JObj payload, sj_Result = None, sj_Verdict = None, sj_Error = None,
                    sj_CreatedAt = ie_Now env, sj_StartedAt = None, sj_CompletedAt = None\<rparr>]
            in if ie_Err env (''rpush '' @ kind) then (Some ''rpush'', jobs', queue)
               else (None, jobs', queue @ [\<lparr>sv_Queue = (if kind = ''sandbox'' then scanQueueSandbox else scanQueueLight),
                       sv_ScanID = i, sv_OrganizationID = orgID, sv_Kind = kind\<rparr>])))"

record spawn_state =
  ss_Spawned :: "string list"
  ss_FirstErr :: "string option"
  ss_Count :: nat
  ss_Jobs :: "scan_job_row list"
  ss_Queue :: "scan_envelope list"

text \<open>One \<open>enqueue\<close> with the bookkeeping around it; the else branch is also taken for a second error.\<close>

definition spawn :: "ingest_env \<Rightarrow> uuid \<Rightarrow> string \<Rightarrow> json_map \<Rightarrow> spawn_state \<Rightarrow> spawn_state" where
  "spawn env orgID kind payload s =
     (let (e, jobs, queue) = enqueue env orgID (ss_Count s) kind payload (ss_Jobs s, ss_Queue s);
          s' = s\<lparr>ss_Count := Suc (ss_Count s), ss_Jobs := jobs, ss_Queue := queue\<rparr>
      in if e \<noteq> None \<and> ss_FirstErr s = None then s'\<lparr>ss_FirstErr := e\<rparr>
         else s'\<lparr>ss_Spawned := ss_Spawned s @ [kind]\<rparr>)"

fun spawn_images :: "ingest_env \<Rightarrow> uuid \<Rightarrow> nat \<Rightarrow> Attachment list \<Rightarrow> spawn_state \<Rightarrow> spawn_state" where
  "spawn_images env orgID imageCount [] s = s"
| "spawn_images env orgID imageCount (att # atts) s =
     (if imageCount \<ge> maxAttachmentScans then s
      else if \<not> has_prefix (to_lower (att_ContentType att)) ''image/'' then spawn_images env orgID imageCount atts s
      else if att_SizeBytes att > maxAttachmentSize then spawn_images env orgID imageCount atts s
      else spawn_images env orgID (Suc imageCount) atts
             (spawn env orgID ''qr'' [(''image_b64'', JStr (att_DataB64 att)), (''filename'', JStr (att_Filename att))] s))"

definition spawnScans :: "ingest_env \<Rightarrow> uuid \<Rightarrow> disposition \<Rightarrow> Event \<Rightarrow> scan_job_row list \<Rightarrow> scan_envelope list \<Rightarrow> spawn_state" where
  "spawnScans env orgID d ev jobs queue =
     (let s0 = \<lparr>ss_Spawned = [], ss_FirstErr = None, ss_Count = 0, ss_Jobs = jobs, ss_Queue = queue\<rparr>
      in if \<not> ie_Redis env then s0
         else
           (let s1 = (if ev_Direction ev = ''inbound'' \<and> (ev_Subject ev \<noteq> [] \<or> ev_BodyText ev \<noteq> []) \<and>
                         ShouldQueueAI (ai_config env) (disposition_text d) then
                        spawn env orgID ''ai'' [(''subject'', JStr (ev_Subject ev)), (''body_text'', JStr (take maxBodyForAI (ev_BodyText ev))),
                          (''from_addr'', JStr (ev_From ev)), (''from_display_name'', JStr (ev_FromName ev))] s0
                      else s0);
                s2 = spawn_images env orgID 0 (ev_Attachments ev) s1;
                s3 = foldl (\<lambda>s u. spawn env orgID ''sandbox'' [(''url'', JStr u)] s) s2 (prioritizedSandboxURLs ev)
            in if ev_Direction ev = ''outbound'' then
                 spawn env orgID ''outbound'' [(''from_addr'', JStr (ev_From ev)), (''to_addrs'', JArr (map JStr (ev_To ev))),
                   (''subject'', JStr (ev_Subject ev)), (''client_ip'', JStr (ev_ClientIP ev))] s3
               else s3))"

section \<open>The handler\<close>

record ingest_reply =
  ir_MailLogID :: uuid
  ir_Disposition :: disposition
  ir_ScansSpawned :: "string list"
  ir_ScanError :: string
  ir_Policy :: string
  ir_CampaignID :: uuid
  ir_CampaignCount :: nat
  ir_CampaignAction :: string
  ir_CampaignSuppressed :: bool
  ir_SenderAction :: string

definition log_representative :: "ingest_env \<Rightarrow> uuid \<Rightarrow> disposition \<Rightarrow> campaign list \<Rightarrow> campaign list" where
  "log_representative env i d =
     touch_campaign (ie_Err env ''update campaign log'') i (\<lambda>c. c\<lparr>
       cp_RepresentativeMailLogID := (case cp_RepresentativeMailLogID c of None \<Rightarrow> Some (ie_MailLogID env) | r \<Rightarrow> r),
       cp_LatestDisposition := d, cp_UpdatedAt := ie_Now env\<rparr>)"

definition quarantine_representative :: "ingest_env \<Rightarrow> uuid \<Rightarrow> campaign list \<Rightarrow> campaign list" where
  "quarantine_representative env i =
     touch_campaign (ie_Err env ''update campaign quarantine'') i (\<lambda>c. c\<lparr>
       cp_RepresentativeQuarantineID := (case cp_RepresentativeQuarantineID c of None \<Rightarrow> Some (ie_QuarantineID env) | r \<Rightarrow> r),
       cp_UpdatedAt := ie_Now env\<rparr>)"

definition campaign_alerted :: "ingest_env \<Rightarrow> uuid \<Rightarrow> campaign list \<Rightarrow> campaign list" where
  "campaign_alerted env i =
     touch_campaign (ie_Err env ''update campaign alert'') i (\<lambda>c. c\<lparr>cp_LastAlertAt := Some (ie_Now env), cp_UpdatedAt := ie_Now env\<rparr>)"

definition campaign_suppressed :: "ingest_env \<Rightarrow> uuid \<Rightarrow> campaign list \<Rightarrow> campaign list" where
  "campaign_suppressed env i =
     touch_campaign (ie_Err env ''update campaign suppressed'') i (\<lambda>c. c\<lparr>
       cp_SuppressedCount := cp_SuppressedCount c + 1, cp_UpdatedAt := ie_Now env\<rparr>)"

text \<open>
  The quarantine entry of a message that is held and not suppressed: an error, or whether the message
  turned out to be a duplicate of the campaign's representative.
\<close>

definition quarantine_message ::
  "ingest_env \<Rightarrow> uuid \<Rightarrow> uuid \<Rightarrow> bool \<Rightarrow> campaignRecord \<Rightarrow> string \<Rightarrow> Event \<Rightarrow> ingest_state \<Rightarrow> bool result \<times> ingest_state" where
  "quarantine_message env orgID domainID highConfidence c threatClass ev st =
     (let campaignID = (if highConfidence \<and> cr_ID c \<noteq> 0 then Some (cr_ID c) else None)
      in case insert_quarantine env orgID domainID campaignID threatClass ev (is_Quarantine st) of
           Inl e \<Rightarrow> (Inl ''quarantine insert: '', st)
         | Inr None \<Rightarrow> (Inr True, st)
         | Inr (Some q) \<Rightarrow>
             (let st1 = st\<lparr>is_Quarantine := is_Quarantine st @ [q],
                          is_Campaigns := quarantine_representative env (cr_ID c) (is_Campaigns st)\<rparr>;
                  (ok, blobs) = insertQuarantineBlob env orgID ev (is_QuarantineBlobs st1)
              in if \<not> ok then (Inl ''quarantine blob insert: '', st1)
                 else
                   (let st2 = st1\<lparr>is_QuarantineBlobs := blobs\<rparr>
                    in if threatClass = ''CHALLENGE_RESPONSE'' then
                         (Inr False, st2\<lparr>is_Effects := is_Effects st2 @ [ChallengeAlert (ie_MailLogID env)]\<rparr>)
                       else if threatClass \<noteq> ''PENDING_ANALYSIS'' then
                         (Inr False, st2\<lparr>is_Campaigns :=
                              (if threatClass = ''PHISHING'' then campaign_alerted env (cr_ID c) (is_Campaigns st2) else is_Campaigns st2),
                            is_Effects := is_Effects st2 @ [QuarantineAlert (ie_MailLogID env)]\<rparr>)
                       else (Inr False, st2))))"

text \<open>The mail log row, the mailbox copies and the raw message.\<close>

definition store_log ::
  "ingest_env \<Rightarrow> uuid \<Rightarrow> uuid \<Rightarrow> campaignRecord \<Rightarrow> disposition \<Rightarrow> string \<Rightarrow> bool \<Rightarrow> ingest_verdict \<Rightarrow> Event \<Rightarrow> ingest_state \<Rightarrow>
     mail_log_row result \<times> ingest_state" where
  "store_log env orgID domainID c d reason suppress v ev st1 =
     (case insert_mail_log env orgID domainID c d reason v ev of
        None \<Rightarrow> (Inl ''log insert: '', st1)
      | Some m \<Rightarrow>
          (let st2 = st1\<lparr>is_MailLogs := is_MailLogs st1 @ [m],
                        is_Campaigns := log_representative env (cr_ID c) d (is_Campaigns st1)\<rparr>;
               (copied, copies) = insertMailboxCopies env orgID domainID d ev (is_Mailbox st2);
               st3 = st2\<lparr>is_Mailbox := copies\<rparr>
           in if \<not> copied then (Inl ''mailbox insert: '', st3)
              else if suppress then (Inr m, st3)
              else
                (let (kept, blobs) = insertMailLogBlob env orgID ev (is_LogBlobs st3);
                     st4 = st3\<lparr>is_LogBlobs := blobs\<rparr>
                 in if \<not> kept then (Inl ''mail log blob insert: '', st4) else (Inr m, st4))))"

text \<open>The count of suppressed copies, the scan jobs, and the warm-up.\<close>

definition finish_message ::
  "ingest_env \<Rightarrow> uuid \<Rightarrow> campaignRecord \<Rightarrow> disposition \<Rightarrow> bool \<Rightarrow> Event \<Rightarrow> ingest_state \<Rightarrow> spawn_state \<times> ingest_state" where
  "finish_message env orgID c d suppressed ev st5 =
     (let st6 = (if suppressed then st5\<lparr>is_Campaigns := campaign_suppressed env (cr_ID c) (is_Campaigns st5)\<rparr> else st5);
          s = (if suppressed then
                 \<lparr>ss_Spawned = [], ss_FirstErr = None, ss_Count = 0, ss_Jobs = is_ScanJobs st6, ss_Queue = is_Queue st6\<rparr>
               else spawnScans env orgID d ev (is_ScanJobs st6) (is_Queue st6))
      in (s, st6\<lparr>is_ScanJobs := ss_Jobs s, is_Queue := ss_Queue s,
                is_Effects := is_Effects st6 @ (if ie_Feeds env = None then [] else [WarmFeeds (threatCandidates ev)])\<rparr>))"

text \<open>After the verdict: the campaign and everything that is stored.\<close>

definition ingest_store ::
  "ingest_env \<Rightarrow> uuid \<Rightarrow> uuid \<Rightarrow> ingest_context \<Rightarrow> ingest_verdict \<Rightarrow> ingest_state \<Rightarrow> ingest_reply response \<times> ingest_state" where
  "ingest_store env orgID domainID cx v st0 =
     (let highConfidence = highConfidenceCampaign (iv_Disposition v) (iv_Reason v) (iv_ThreatClass v);
          (camp, camps, sources) = recordCampaign (ie_Err env) (ie_SHA256 env) (ie_Inet env) (ie_CampaignID env) (ie_Now env)
             (Some orgID) (Some domainID) (iv_Disposition v) (iv_ThreatClass v) (iv_Event v) (is_Campaigns st0, is_Sources st0);
          st1 = st0\<lparr>is_Campaigns := camps, is_Sources := sources\<rparr>
      in case camp of
           Inl e \<Rightarrow> (WriteError 500 (''campaign update: '' @ e), st1)
         | Inr c \<Rightarrow>
             (let (action, d, reason, suppress) = campaign_verdict (cx_Policy cx) highConfidence c (iv_Disposition v) (iv_Reason v);
                  senderAction = effectiveSenderListAction (cx_SenderAction cx) (blacklist_on cx);
                  ev = recordSenderListSymbol senderAction (iv_Event v);
                  (logged, st4) = store_log env orgID domainID c d reason suppress v ev st1
              in case logged of
                   Inl e \<Rightarrow> (WriteError 500 e, st4)
                 | Inr m \<Rightarrow>
                     (let (q, st5) =
                        (if d = Quarantined \<and> \<not> suppress then
                           quarantine_message env orgID domainID highConfidence c (iv_ThreatClass v) ev st4
                         else (Inr suppress, st4))
                      in case q of
                           Inl e \<Rightarrow> (WriteError 500 e, st5)
                         | Inr suppressed \<Rightarrow>
                             (let (s, st7) = finish_message env orgID c d suppressed ev st5
                              in (WriteJSON 202
                                    \<lparr>ir_MailLogID = ml_ID m, ir_Disposition = d, ir_ScansSpawned = ss_Spawned s,
                                     ir_ScanError = text_or_empty (ss_FirstErr s), ir_Policy = p_Name (cx_Policy cx), ir_CampaignID = cr_ID c,
                                     ir_CampaignCount = cr_MessageCount c, ir_CampaignAction = action,
                                     ir_CampaignSuppressed = suppressed, ir_SenderAction = senderAction\<rparr>, st7)))))"

text \<open>The event with the direction that an empty one stands for.\<close>

definition received :: "Event \<Rightarrow> Event" where
  "received ev = (if ev_Direction ev = [] then ev\<lparr>ev_Direction := ''inbound''\<rparr> else ev)"

lemma received_To [simp]: "ev_To (received ev) = ev_To ev"
  by (simp add: received_def)

definition handle :: "ingest_env \<Rightarrow> string \<Rightarrow> string \<Rightarrow> ingest_state \<Rightarrow> ingest_reply response \<times> ingest_state" where
  "handle env raw sigHex st =
     (case readSignedBody (ie_HMAC env) (ie_Secret env) (16 * 2 ^ 20) raw sigHex of
        Inl e \<Rightarrow> (WriteError 400 (''read body: '' @ e), st)
      | Inr body \<Rightarrow>
          case ie_Unmarshal env body of
            Inl e \<Rightarrow> (WriteError 400 (''invalid json: '' @ e), st)
          | Inr ev0 \<Rightarrow>
              if ev_To ev0 = [] then (WriteError 400 ''to required'', st)
              else
                (let ev = received ev0
                 in case lookupDomainOrg (ie_Err env) (lv_Domains (ie_View env)) (primaryDomain (hd (ev_To ev))) of
                      Inl _ \<Rightarrow> (WriteError 202 ''unknown recipient domain (logged-only)'', st)
                    | Inr (domainID, orgID) \<Rightarrow>
                        case Resolve (ie_Err env) (lv_Orgs (ie_View env)) (ie_Policies env) (Some domainID) (Some orgID) of
                          Inl e \<Rightarrow> (WriteError 500 (''policy resolve: '' @ e), st)
                        | Inr pol \<Rightarrow>
                            case ingest_lookups env orgID domainID pol ev of
                              Inl e \<Rightarrow> (WriteError 500 (''sender policy lookup: '' @ e), st)
                            | Inr cx \<Rightarrow> ingest_store env orgID domainID cx (ingest_decide env cx ev) st))"

section \<open>What an accepted message leaves behind\<close>

definition has_copy :: "ingest_env \<Rightarrow> mailbox_row list \<Rightarrow> string \<Rightarrow> bool" where
  "has_copy env rows to =
     (to_lower (trim_space to) = [] \<or>
      list_ex (\<lambda>b. mb_MailLogID b = ie_MailLogID env \<and> mb_ToAddr b = to_lower (trim_space to)) rows)"

lemma has_copy_mono: "has_copy env rows to \<Longrightarrow> set rows \<subseteq> set rows' \<Longrightarrow> has_copy env rows' to"
  by (auto simp: has_copy_def list_ex_iff)

lemma mailbox_loop_copies:
  "mailbox_loop env orgID domainID ev days k tos rows = (True, rows') \<Longrightarrow>
     set rows \<subseteq> set rows' \<and> list_all (has_copy env rows') tos"
proof (induction tos arbitrary: k rows)
  case (Cons to tos)
  let ?t = "to_lower (trim_space to)"
  obtain rows1 where rows1: "set rows \<subseteq> set rows1" "has_copy env rows1 to"
    "mailbox_loop env orgID domainID ev days (Suc k) tos rows1 = (True, rows')"
  proof (cases "has_copy env rows to")
    case True
    with Cons.prems that [of rows] show thesis by (auto simp: has_copy_def Let_def split: if_splits)
  next
    case False
    with Cons.prems that [of "rows @ [mailbox_copy env orgID domainID ev days k ?t]"] show thesis
      by (auto simp: has_copy_def Let_def split: if_splits)
  qed
  with Cons.IH [OF rows1(3)] show ?case by (auto intro: has_copy_mono)
qed simp

lemma insertMailboxCopies_held: "\<not> shouldCreateMailboxCopy d \<Longrightarrow> insertMailboxCopies env orgID domainID d ev rows = (True, rows)"
  by (simp add: insertMailboxCopies_def)

lemma quarantine_message_new:
  assumes "quarantine_message env orgID domainID hc c threatClass ev st = (Inr suppressed, st')"
  shows "is_Mailbox st' = is_Mailbox st \<and> is_MailLogs st' = is_MailLogs st \<and> is_LogBlobs st' = is_LogBlobs st \<and>
    is_ScanJobs st' = is_ScanJobs st \<and> is_Queue st' = is_Queue st \<and> (suppressed \<longrightarrow> st' = st) \<and>
    (\<not> suppressed \<longrightarrow> list_ex (\<lambda>q. qe_MailLogID q = Some (ie_MailLogID env) \<and> qe_State q = ''held'' \<and> qe_ThreatClass q = Some threatClass)
       (is_Quarantine st'))"
proof -
  let ?Q = "\<lambda>(r, st'). \<forall>suppressed. r = Inr suppressed \<longrightarrow> is_Mailbox st' = is_Mailbox st \<and> is_MailLogs st' = is_MailLogs st \<and>
    is_LogBlobs st' = is_LogBlobs st \<and> is_ScanJobs st' = is_ScanJobs st \<and> is_Queue st' = is_Queue st \<and> (suppressed \<longrightarrow> st' = st) \<and>
    (\<not> suppressed \<longrightarrow> list_ex (\<lambda>q. qe_MailLogID q = Some (ie_MailLogID env) \<and> qe_State q = ''held'' \<and> qe_ThreatClass q = Some threatClass)
       (is_Quarantine st'))"
  have "runs_to ?Q (quarantine_message env orgID domainID hc c threatClass ev st)"
    unfolding quarantine_message_def
    by (intro run_walk) (auto simp: insert_quarantine_def split: option.splits if_splits)
  with assms show ?thesis by (simp add: runs_to_def)
qed

definition stored_as_decided :: "ingest_env \<Rightarrow> string list \<Rightarrow> ingest_reply \<Rightarrow> ingest_state \<Rightarrow> ingest_state \<Rightarrow> bool" where
  "stored_as_decided env recipients r st st' =
     (list_ex (\<lambda>m. ml_ID m = ir_MailLogID r \<and> ml_Disposition m = disposition_text (ir_Disposition r)) (is_MailLogs st') \<and>
      (if shouldCreateMailboxCopy (ir_Disposition r) then
         \<not> ir_CampaignSuppressed r \<and>
         ir_MailLogID r = ie_MailLogID env \<and> list_all (has_copy env (is_Mailbox st')) recipients
       else is_Mailbox st' = is_Mailbox st) \<and>
      (ir_Disposition r = Quarantined \<and> \<not> ir_CampaignSuppressed r \<longrightarrow>
         list_ex (\<lambda>q. qe_MailLogID q = Some (ir_MailLogID r) \<and> qe_State q = ''held'') (is_Quarantine st')))"

lemma campaign_verdict_held:
  "campaign_verdict pol (highConfidenceCampaign d reason t) c d reason = (action, d', reason', suppress) \<Longrightarrow>
     shouldCreateMailboxCopy d' \<Longrightarrow> d' = d \<and> \<not> suppress"
  by (auto simp: campaign_verdict_def highConfidenceCampaign_def shouldCreateMailboxCopy_def Let_def split: if_splits)

lemma recordSenderListSymbol_To [simp]:
  "ev_To (recordSenderListSymbol action ev) = ev_To ev"
  "ev_Direction (recordSenderListSymbol action ev) = ev_Direction ev"
  by (simp_all add: recordSenderListSymbol_def Let_def)

lemma insert_mail_log_Some:
  "insert_mail_log env orgID domainID c d reason v ev = Some m \<Longrightarrow>
     ml_ID m = ie_MailLogID env \<and> ml_Disposition m = disposition_text d \<and> ml_DeepAnalysisState m = iv_DeepState v"
  by (auto simp: insert_mail_log_def split: option.splits if_splits)

lemma store_log_Inr:
  assumes "store_log env orgID domainID c d reason suppress v ev st = (Inr m, st')"
  shows "is_MailLogs st' = is_MailLogs st @ [m] \<and> ml_ID m = ie_MailLogID env \<and> ml_Disposition m = disposition_text d \<and>
    ml_DeepAnalysisState m = iv_DeepState v \<and> is_Quarantine st' = is_Quarantine st \<and> is_ScanJobs st' = is_ScanJobs st \<and>
    is_Queue st' = is_Queue st \<and> insertMailboxCopies env orgID domainID d ev (is_Mailbox st) = (True, is_Mailbox st')"
proof -
  let ?Q = "\<lambda>(a, st'). \<forall>m. a = Inr m \<longrightarrow> is_MailLogs st' = is_MailLogs st @ [m] \<and> ml_ID m = ie_MailLogID env \<and>
    ml_Disposition m = disposition_text d \<and> ml_DeepAnalysisState m = iv_DeepState v \<and> is_Quarantine st' = is_Quarantine st \<and>
    is_ScanJobs st' = is_ScanJobs st \<and> is_Queue st' = is_Queue st \<and>
    insertMailboxCopies env orgID domainID d ev (is_Mailbox st) = (True, is_Mailbox st')"
  have "runs_to ?Q (store_log env orgID domainID c d reason suppress v ev st)"
    unfolding store_log_def
    by (intro run_walk) (auto dest: insert_mail_log_Some)
  with assms show ?thesis by (simp add: runs_to_def)
qed

lemma finish_message_keeps:
  "finish_message env orgID c d suppressed ev st = (s, st') \<Longrightarrow>
     is_MailLogs st' = is_MailLogs st \<and> is_Mailbox st' = is_Mailbox st \<and> is_Quarantine st' = is_Quarantine st \<and>
     is_LogBlobs st' = is_LogBlobs st \<and>
     is_ScanJobs st' = (if suppressed then is_ScanJobs st else ss_Jobs (spawnScans env orgID d ev (is_ScanJobs st) (is_Queue st)))"
  by (auto simp: finish_message_def Let_def)

text \<open>What a run of \<open>ingest_store\<close> that answers 202 has gone through.\<close>

inductive answered ::
  "ingest_env \<Rightarrow> uuid \<Rightarrow> uuid \<Rightarrow> ingest_context \<Rightarrow> ingest_verdict \<Rightarrow> ingest_state \<Rightarrow> ingest_reply \<Rightarrow> ingest_state \<Rightarrow> bool"
  for env orgID domainID cx v st where
  answeredI:
    "recordCampaign (ie_Err env) (ie_SHA256 env) (ie_Inet env) (ie_CampaignID env) (ie_Now env)
       (Some orgID) (Some domainID) (iv_Disposition v) (iv_ThreatClass v) (iv_Event v) (is_Campaigns st, is_Sources st) =
       (Inr c, camps, sources) \<Longrightarrow>
     campaign_verdict (cx_Policy cx) (highConfidenceCampaign (iv_Disposition v) (iv_Reason v) (iv_ThreatClass v)) c
       (iv_Disposition v) (iv_Reason v) = (action, d, reason, suppress) \<Longrightarrow>
     ev = recordSenderListSymbol (effectiveSenderListAction (cx_SenderAction cx) (blacklist_on cx)) (iv_Event v) \<Longrightarrow>
     store_log env orgID domainID c d reason suppress v ev (st\<lparr>is_Campaigns := camps, is_Sources := sources\<rparr>) = (Inr m, st4) \<Longrightarrow>
     (if d = Quarantined \<and> \<not> suppress then
        quarantine_message env orgID domainID (highConfidenceCampaign (iv_Disposition v) (iv_Reason v) (iv_ThreatClass v)) c
          (iv_ThreatClass v) ev st4
      else (Inr suppress, st4)) = (Inr suppressed, st5) \<Longrightarrow>
     finish_message env orgID c d suppressed ev st5 = (s, st') \<Longrightarrow>
     ir_MailLogID r = ml_ID m \<Longrightarrow> ir_Disposition r = d \<Longrightarrow> ir_CampaignSuppressed r = suppressed \<Longrightarrow>
     ir_ScansSpawned r = ss_Spawned s \<Longrightarrow> ir_CampaignID r = cr_ID c \<Longrightarrow>
     ir_CampaignCount r = cr_MessageCount c \<Longrightarrow>
     answered env orgID domainID cx v st r st'"

lemma ingest_store_answered:
  assumes "ingest_store env orgID domainID cx v st = (WriteJSON n r, st')"
  shows "answered env orgID domainID cx v st r st'"
proof -
  let ?Q = "\<lambda>(a, st'). \<forall>n r. a = WriteJSON n r \<longrightarrow> answered env orgID domainID cx v st r st'"
  have "runs_to ?Q (ingest_store env orgID domainID cx v st)"
    unfolding ingest_store_def
    by (intro run_walk; hypsubst?)
      (simp_all, rule answeredI, assumption, assumption, rule refl, assumption, assumption, assumption, simp_all)
  with assms show ?thesis by (simp add: runs_to_def)
qed

lemma answered_decided:
  assumes "answered env orgID domainID cx v st r st'"
  shows "stored_as_decided env (ev_To (iv_Event v)) r st st'"
  using assms
proof (cases rule: answered.cases)
  case (answeredI c camps sources action d reason suppress ev m st4 suppressed st5 s)
  note cv = answeredI(2) and ev = answeredI(3) and q = answeredI(5)
  note log' = store_log_Inr [OF answeredI(4)] and fin' = finish_message_keeps [OF answeredI(6)]
  note reply = answeredI(7,8,9)
  show ?thesis
  proof (cases "d = Quarantined \<and> \<not> suppress")
    case True
    with q quarantine_message_new [of env orgID domainID _ c "iv_ThreatClass v" ev st4 suppressed st5] log' fin' reply
    show ?thesis
      by (auto simp: stored_as_decided_def insertMailboxCopies_def shouldCreateMailboxCopy_def list_ex_iff)
  next
    case False
    with q have st5: "st5 = st4" "suppressed = suppress" by auto
    show ?thesis
    proof (cases "shouldCreateMailboxCopy d")
      case True
      then have "d = iv_Disposition v \<and> \<not> suppress" using campaign_verdict_held [OF cv] by simp
      moreover have "list_all (has_copy env (is_Mailbox st4)) (ev_To (iv_Event v))"
        using log' True ev by (auto simp: insertMailboxCopies_def dest: mailbox_loop_copies)
      ultimately show ?thesis using True False log' fin' reply st5 by (auto simp: stored_as_decided_def)
    next
      case held: False
      then show ?thesis using False log' fin' reply st5 by (auto simp: stored_as_decided_def insertMailboxCopies_def)
    qed
  qed
qed

inductive handled ::
  "ingest_env \<Rightarrow> string \<Rightarrow> string \<Rightarrow> ingest_state \<Rightarrow> ingest_reply \<Rightarrow> ingest_state \<Rightarrow> bool"
  for env raw sigHex st where
  handledI:
    "verifySig (ie_HMAC env) (ie_Secret env) raw sigHex \<Longrightarrow> ie_Unmarshal env raw = Inr ev \<Longrightarrow>
     lookupDomainOrg (ie_Err env) (lv_Domains (ie_View env)) (primaryDomain (hd (ev_To (received ev)))) = Inr (domainID, orgID) \<Longrightarrow>
     ingest_lookups env orgID domainID pol (received ev) = Inr cx \<Longrightarrow>
     answered env orgID domainID cx (ingest_decide env cx (received ev)) st r st' \<Longrightarrow>
     Resolve (ie_Err env) (lv_Orgs (ie_View env)) (ie_Policies env) (Some domainID) (Some orgID) = Inr pol \<Longrightarrow>
     handled env raw sigHex st r st'"

lemma readSignedBody_Inr: "readSignedBody hmac secret limit body sigHex = Inr raw \<Longrightarrow> raw = body \<and> verifySig hmac secret body sigHex"
  by (auto simp: readSignedBody_def split: if_splits)

lemma handle_handled:
  assumes "handle env raw sigHex st = (WriteJSON n r, st')"
  shows "handled env raw sigHex st r st'"
proof -
  let ?Q = "\<lambda>(a, st'). \<forall>n r. a = WriteJSON n r \<longrightarrow> handled env raw sigHex st r st'"
  have store: "runs_to ?Q (ingest_store env orgID domainID cx (ingest_decide env cx (received ev)) st)"
    if "readSignedBody (ie_HMAC env) (ie_Secret env) (16 * 2 ^ 20) raw sigHex = Inr body" "ie_Unmarshal env body = Inr ev"
      "lookupDomainOrg (ie_Err env) (lv_Domains (ie_View env)) (primaryDomain (hd (ev_To (received ev)))) = Inr (domainID, orgID)"
      "ingest_lookups env orgID domainID pol (received ev) = Inr cx"
      "Resolve (ie_Err env) (lv_Orgs (ie_View env)) (ie_Policies env) (Some domainID) (Some orgID) = Inr pol" for body ev domainID orgID pol cx
    unfolding runs_to_def
    using that readSignedBody_Inr [OF that(1)]
    by (auto intro: handledI dest: ingest_store_answered)
  have "runs_to ?Q (handle env raw sigHex st)"
    unfolding handle_def
    by (intro run_walk; hypsubst?) (simp_all add: store)
  with assms show ?thesis by (simp add: runs_to_def)
qed

lemma ingest_decide_event [simp]: "ev_To (iv_Event (ingest_decide env cx ev)) = ev_To ev"
  by (auto simp: ingest_decide_def run_stages_def applyCachedThreatIntelligence_def Let_def split: prod.splits option.splits)

text \<open>C3 (stored as decided): a message that is accepted with a disposition is in the mail log under it;
  delivered and tagged messages are never suppressed and each recipient has a copy in the mailbox,
  other messages leave no copy; a quarantined message that is not suppressed has a held quarantine entry.\<close>

theorem handle_stores_as_decided:
  assumes "handle env raw sigHex st = (WriteJSON n r, st')" "ie_Unmarshal env raw = Inr ev"
  shows "stored_as_decided env (ev_To ev) r st st'"
  using handle_handled [OF assms(1)]
proof cases
  case (handledI ev' domainID orgID pol cx)
  then have "ev' = ev" using assms(2) by simp
  with answered_decided [OF handledI(5)] show ?thesis by simp
qed

text \<open>C1 (no delivery without authentication, end to end): whatever policy, lists, learned verdicts, deep
  analysis and campaign say, an unauthenticated inbound message that is no delivery status notification
  reaches no mailbox.\<close>

theorem unauthenticated_not_delivered:
  assumes "handle env raw sigHex st = (WriteJSON n r, st')" "ie_Unmarshal env raw = Inr ev"
    and "\<not> equal_fold (ev_Direction (received ev)) ''outbound''" "\<not> isDeliveryStatusNotification (received ev)"
    and "unauthenticated (received ev)"
  shows "is_Mailbox st' = is_Mailbox st \<and> ir_Disposition r \<in> {Quarantined, Rejected}"
  using handle_handled [OF assms(1)]
proof cases
  case (handledI ev' domainID orgID pol cx)
  then have ev: "ev' = ev" using assms(2) by simp
  have "Quarantined \<le> fst (fst (run_stages cx (received ev)))"
    by (intro run_stages_held early_stages_held auth_holds assms settled_before_auth)
  then have "fst (fst (run_stages cx (received ev))) \<in> {Quarantined, Rejected}" by (auto simp: settled_cases)
  then have decided: "iv_Disposition (ingest_decide env cx (received ev)) \<in> {Quarantined, Rejected}"
    by (auto simp: ingest_decide_def Let_def split: prod.splits)
  have "\<not> shouldCreateMailboxCopy (ir_Disposition r)"
    using handledI(5) unfolding ev
  proof (cases rule: answered.cases)
    case (answeredI c camps sources action d reason suppress ev m st4 suppressed st5 s)
    then show ?thesis using campaign_verdict_held [OF answeredI(2)] decided by (auto simp: shouldCreateMailboxCopy_def)
  qed
  with answered_decided [OF handledI(5)] show ?thesis
    by (cases "ir_Disposition r") (auto simp: stored_as_decided_def shouldCreateMailboxCopy_def)
qed

section \<open>Bounded scans\<close>

lemma spawn_jobs: "length (ss_Jobs (spawn env orgID kind payload s)) \<le> Suc (length (ss_Jobs s))"
  by (auto simp: spawn_def enqueue_def Let_def split: prod.splits if_splits)

lemma spawn_images_jobs:
  "length (ss_Jobs (spawn_images env orgID n atts s)) \<le> length (ss_Jobs s) + (maxAttachmentScans - n)"
proof (induction atts arbitrary: n s)
  case (Cons att atts)
  show ?case
  proof (cases "n \<ge> maxAttachmentScans \<or> \<not> has_prefix (to_lower (att_ContentType att)) ''image/'' \<or> att_SizeBytes att > maxAttachmentSize")
    case True
    then show ?thesis using Cons.IH [of n s] by auto
  next
    case False
    let ?s = "spawn env orgID ''qr'' [(''image_b64'', JStr (att_DataB64 att)), (''filename'', JStr (att_Filename att))] s"
    have "length (ss_Jobs (spawn_images env orgID (Suc n) atts ?s)) \<le> length (ss_Jobs ?s) + (maxAttachmentScans - Suc n)"
      by (rule Cons.IH)
    with False spawn_jobs [of env orgID "''qr''" "[(''image_b64'', JStr (att_DataB64 att)), (''filename'', JStr (att_Filename att))]" s]
    show ?thesis by auto
  qed
qed simp

lemma spawn_urls_jobs:
  "length (ss_Jobs (foldl (\<lambda>s u. spawn env orgID kind (payload u) s) s us)) \<le> length (ss_Jobs s) + length us"
proof (induction us arbitrary: s)
  case (Cons u us)
  have "length (ss_Jobs (foldl (\<lambda>s u. spawn env orgID kind (payload u) s) (spawn env orgID kind (payload u) s) us)) \<le>
      length (ss_Jobs (spawn env orgID kind (payload u) s)) + length us" by (rule Cons.IH)
  with spawn_jobs [of env orgID kind "payload u" s] show ?case by simp
qed simp

lemma spawnScans_jobs: "length (ss_Jobs (spawnScans env orgID d ev jobs queue)) \<le> length jobs + 10"
proof (cases "ie_Redis env")
  case True
  define s0 where "s0 = \<lparr>ss_Spawned = [], ss_FirstErr = None, ss_Count = 0, ss_Jobs = jobs, ss_Queue = queue\<rparr>"
  define s1 where "s1 = (if ev_Direction ev = ''inbound'' \<and> (ev_Subject ev \<noteq> [] \<or> ev_BodyText ev \<noteq> []) \<and>
      ShouldQueueAI (ai_config env) (disposition_text d) then
      spawn env orgID ''ai'' [(''subject'', JStr (ev_Subject ev)), (''body_text'', JStr (take maxBodyForAI (ev_BodyText ev))),
        (''from_addr'', JStr (ev_From ev)), (''from_display_name'', JStr (ev_FromName ev))] s0 else s0)"
  define s2 where "s2 = spawn_images env orgID 0 (ev_Attachments ev) s1"
  define s3 where "s3 = foldl (\<lambda>s u. spawn env orgID ''sandbox'' [(''url'', JStr u)] s) s2 (prioritizedSandboxURLs ev)"
  have "length (ss_Jobs s1) \<le> length jobs + 1"
    using spawn_jobs [of env orgID "''ai''" _ s0] by (auto simp: s1_def s0_def)
  moreover have "length (ss_Jobs s2) \<le> length (ss_Jobs s1) + 5"
    using spawn_images_jobs [of env orgID 0 "ev_Attachments ev" s1] by (simp add: s2_def maxAttachmentScans_def)
  moreover have "length (ss_Jobs s3) \<le> length (ss_Jobs s2) + 3"
    using spawn_urls_jobs [of env orgID "''sandbox''" "\<lambda>u. [(''url'', JStr u)]" s2 "prioritizedSandboxURLs ev"]
      prioritizedSandboxURLs_sound [of ev] by (simp add: s3_def)
  ultimately have s3: "length (ss_Jobs s3) \<le> length jobs + 9" by linarith
  have "length (ss_Jobs (spawn env orgID ''outbound'' p s3)) \<le> length jobs + 10" for p
    using spawn_jobs [of env orgID "''outbound''" p s3] s3 by linarith
  with s3 have "length (ss_Jobs (if ev_Direction ev = ''outbound'' then spawn env orgID ''outbound'' p s3 else s3)) \<le> length jobs + 10" for p
    by simp
  with True show ?thesis
    unfolding spawnScans_def Let_def s0_def [symmetric] s1_def [symmetric] s2_def [symmetric] s3_def [symmetric]
    by (simp del: spawn_images.simps)
qed (simp add: spawnScans_def)

lemma quarantine_message_jobs:
  "quarantine_message env orgID domainID hc c t ev st = (Inr suppressed, st') \<Longrightarrow>
     is_ScanJobs st' = is_ScanJobs st \<and> (suppressed \<longrightarrow> st' = st)"
  using quarantine_message_new by blast

text \<open>C5 (bounded scans): one message starts at most ten scan jobs, whatever it carries.\<close>

theorem scans_bounded:
  assumes "handle env raw sigHex st = (WriteJSON n r, st')"
  shows "length (is_ScanJobs st') \<le> length (is_ScanJobs st) + 10"
  using handle_handled [OF assms]
proof cases
  case (handledI ev domainID orgID pol cx)
  from handledI(5) show ?thesis
  proof (cases rule: answered.cases)
    case (answeredI c camps sources action d reason suppress ev m st4 suppressed st5 s)
    have "is_ScanJobs st4 = is_ScanJobs st" using store_log_Inr [OF answeredI(4)] by simp
    moreover have "is_ScanJobs st5 = is_ScanJobs st4"
      using answeredI(5) by (auto dest: quarantine_message_jobs split: if_splits)
    ultimately show ?thesis
      using finish_message_keeps [OF answeredI(6)] spawnScans_jobs [of env orgID d ev "is_ScanJobs st5" "is_Queue st5"] by simp
  qed
qed

text \<open>What suppression drops: a message that is answered as suppressed is in the mail log, but leaves no
  mailbox copy, no quarantine entry and no scan job, even when its log row waits for deep analysis: of
  two copies held for deep analysis the second can neither be scanned nor released.\<close>

theorem suppressed_leaves_only_log:
  assumes "handle env raw sigHex st = (WriteJSON n r, st')" "ir_CampaignSuppressed r"
  shows "is_Mailbox st' = is_Mailbox st \<and> is_Quarantine st' = is_Quarantine st \<and> is_ScanJobs st' = is_ScanJobs st \<and>
    list_ex (\<lambda>m. ml_ID m = ir_MailLogID r) (is_MailLogs st')"
  using handle_handled [OF assms(1)]
proof cases
  case (handledI ev domainID orgID pol cx)
  from handledI(5) show ?thesis
  proof (cases rule: answered.cases)
    case (answeredI c camps sources action d reason suppress ev m st4 suppressed st5 s)
    have sup: "suppressed" using answeredI(9) assms(2) by simp
    have st5: "st5 = st4 \<and> \<not> shouldCreateMailboxCopy d"
      using answeredI(5) sup campaign_verdict_held [OF answeredI(2)]
      by (auto dest: quarantine_message_jobs simp: shouldCreateMailboxCopy_def split: if_splits)
    with store_log_Inr [OF answeredI(4)] finish_message_keeps [OF answeredI(6)] sup answeredI(7)
    show ?thesis by (auto simp: insertMailboxCopies_def)
  qed
qed

text \<open>Only signed events count: a request without a valid signature is refused and changes nothing.\<close>

lemma unsigned_changes_nothing:
  "\<not> verifySig (ie_HMAC env) (ie_Secret env) raw sigHex \<Longrightarrow> \<exists>e. handle env raw sigHex st = (WriteError 400 e, st)"
  by (auto simp: handle_def readSignedBody_def)

section \<open>Every well-formed message is accepted\<close>

lemma address_loop_answers:
  assumes "\<And>x. \<exists>p. lookup x = Inr p"
  shows "\<exists>p. address_loop lookup allowed as = Inr p"
proof (induction as arbitrary: allowed)
  case (Cons x as)
  obtain action scope where "lookup x = Inr (action, scope)" using assms [of x] by auto
  with Cons show ?case by simp
qed simp

lemma lookupSenderListAddress_answers:
  "\<exists>p. lookupSenderListAddress no_faults env view entries orgID domainID recipient x = Inr p"
  by (auto simp: lookupSenderListAddress_def Let_def split: option.splits)

lemma lookupSenderListWithIP_answers:
  assumes "trim_space clientIP = [] \<or> valid_inet env clientIP"
  shows "\<exists>p. lookupSenderListWithIP no_faults env view entries orgID domainID recipient clientIP addresses = Inr p"
proof -
  have "\<exists>p. lookupSenderListIP no_faults env view entries orgID domainID recipient clientIP = Inr p" if "valid_inet env clientIP"
    using that by (auto simp: lookupSenderListIP_def split: option.splits)
  moreover have "\<exists>p. address_loop (lookupSenderListAddress no_faults env view entries orgID domainID recipient) [] as = Inr p" for as
    by (rule address_loop_answers) (rule lookupSenderListAddress_answers)
  ultimately show ?thesis
    using assms by (cases "trim_space clientIP = []") (fastforce simp: lookupSenderListWithIP_def Let_def)+
qed

definition storable :: "ingest_env \<Rightarrow> Event \<Rightarrow> bool" where
  "storable env ev =
     ((ev_ClientIP ev = [] \<or> ie_Inet env (ev_ClientIP ev) \<noteq> None) \<and> numeric_6_3 (ev_Score ev) \<noteq> None \<and>
      - (2 ^ 31) \<le> ev_SizeBytes ev \<and> ev_SizeBytes ev < 2 ^ 31)"

lemma recordCampaign_answers:
  assumes "ie_Err env = no_faults" "storable env ev"
  shows "\<exists>c tables'. recordCampaign no_faults (ie_SHA256 env) (ie_Inet env) i now (Some orgID) domainID d t ev tables = (Inr c, tables')"
proof -
  have ip: "validCampaignIP (ev_ClientIP ev) \<Longrightarrow> ie_Inet env (ev_ClientIP ev) \<noteq> None"
    using assms(2) by (auto simp: storable_def validCampaignIP_def trim_defs)
  let ?Q = "\<lambda>(a, s). \<exists>c. a = Inr c"
  have src: "runs_to ?Q (record_source no_faults (ie_Inet env) now (ev_ClientIP ev) c tables)"
    if "validCampaignIP (ev_ClientIP ev)" for c tables
    unfolding record_source_def by (intro run_walk) (use ip [OF that] in simp_all)
  have "runs_to ?Q (recordCampaign no_faults (ie_SHA256 env) (ie_Inet env) i now (Some orgID) domainID d t ev tables)"
    unfolding recordCampaign_def by (intro run_walk) (simp_all add: src campaigns.upsert_same)
  then show ?thesis by (cases "recordCampaign no_faults (ie_SHA256 env) (ie_Inet env) i now (Some orgID) domainID d t ev tables") (auto simp: runs_to_def)
qed

lemma mailbox_loop_answers: "ie_Err env = no_faults \<Longrightarrow> fst (mailbox_loop env orgID domainID ev days k tos rows)"
  by (induction tos arbitrary: k rows) (auto simp: Let_def)

lemma store_log_answers:
  assumes "ie_Err env = no_faults" "storable env ev"
  shows "\<exists>m st'. store_log env orgID domainID c d reason suppress v ev st = (Inr m, st')"
proof -
  have log: "insert_mail_log env orgID domainID c d reason v ev \<noteq> None"
    using assms by (auto simp: insert_mail_log_def storable_def)
  have "fst (insertMailboxCopies env orgID domainID d ev rows)" for rows
    using assms(1) by (simp add: insertMailboxCopies_def mailbox_loop_answers)
  then have copies: "(b, x) = insertMailboxCopies env orgID domainID d ev rows \<Longrightarrow> b" for rows b x
    by (metis fst_conv)
  have blob: "(b, x) = insertMailLogBlob env orgID ev blobs \<Longrightarrow> b" for blobs b x
    using assms(1) by (auto simp: insertMailLogBlob_def split: option.splits if_splits)
  let ?Q = "\<lambda>(a, s). \<exists>m. a = Inr m"
  have "runs_to ?Q (store_log env orgID domainID c d reason suppress v ev st)"
    unfolding store_log_def
    by (intro run_walk) (use log in \<open>auto dest: copies blob\<close>)
  then show ?thesis by (cases "store_log env orgID domainID c d reason suppress v ev st") (auto simp: runs_to_def)
qed

lemma quarantine_message_answers:
  assumes "ie_Err env = no_faults" "storable env ev"
  shows "\<exists>b st'. quarantine_message env orgID domainID hc c t ev st = (Inr b, st')"
proof -
  have ins: "insert_quarantine env orgID domainID campaignID t ev rows \<noteq> Inl e" for campaignID rows e
    using assms by (auto simp: insert_quarantine_def storable_def split: if_splits)
  have blob: "(b, x) = insertQuarantineBlob env orgID ev blobs \<Longrightarrow> b" for blobs b x
    using assms(1) by (auto simp: insertQuarantineBlob_def split: option.splits if_splits)
  let ?Q = "\<lambda>(a :: bool result, s). \<exists>b. a = Inr b"
  have "runs_to ?Q (quarantine_message env orgID domainID hc c t ev st)"
    unfolding quarantine_message_def
    by (intro run_walk) (use ins in \<open>auto dest: blob\<close>)
  then show ?thesis by (cases "quarantine_message env orgID domainID hc c t ev st") (auto simp: runs_to_def)
qed

lemma ingest_store_answers:
  assumes "ie_Err env = no_faults" "storable env (iv_Event v)"
  shows "\<exists>r st'. ingest_store env orgID domainID cx v st = (WriteJSON 202 r, st')"
proof -
  have sto: "storable env (recordSenderListSymbol a (iv_Event v))" for a
    using assms(2) by (simp add: storable_def recordSenderListSymbol_def Let_def)
  have camp: "(x, y) = recordCampaign (ie_Err env) (ie_SHA256 env) (ie_Inet env) i now (Some orgID) dm d t (iv_Event v) tables \<Longrightarrow>
      \<exists>c. x = Inr c" for x y i now dm d t tables
    using recordCampaign_answers [OF assms, of i now orgID dm d t tables] assms(1) by auto
  have log: "(x, y) = store_log env orgID domainID c d reason suppress v (recordSenderListSymbol a (iv_Event v)) st' \<Longrightarrow>
      \<exists>m. x = Inr m" for x y c d reason suppress a st'
    using store_log_answers [OF assms(1) sto, of orgID domainID c d reason suppress v a st'] by auto
  have quar: "(x, y) = quarantine_message env orgID domainID hc c t (recordSenderListSymbol a (iv_Event v)) st' \<Longrightarrow>
      \<exists>b. x = Inr b" for x y hc c t a st'
    using quarantine_message_answers [OF assms(1) sto, of orgID domainID hc c t a st'] by auto
  let ?Q = "\<lambda>(a, s). \<exists>r. a = WriteJSON 202 r"
  have "runs_to ?Q (ingest_store env orgID domainID cx v st)"
    unfolding ingest_store_def
    by (intro run_walk) (auto dest: camp log quar split: if_splits)
  then show ?thesis
    by (cases "ingest_store env orgID domainID cx v st") (auto simp: runs_to_def)
qed

lemma ingest_decide_storable [simp]: "storable env (iv_Event (ingest_decide env cx ev)) = storable env ev"
  by (auto simp: ingest_decide_def run_stages_def applyCachedThreatIntelligence_def storable_def Let_def
      split: prod.splits option.splits)

lemma storable_received [simp]: "storable env (received ev) = storable env ev"
  by (simp add: received_def storable_def)

lemma received_ClientIP [simp]: "ev_ClientIP (received ev) = ev_ClientIP ev"
  by (simp add: received_def)

lemma Resolve_answers: "\<exists>p. Resolve no_faults orgs pols domainID orgID = Inr p"
  by (auto simp: Resolve_def Let_def split: option.splits)

text \<open>What the handler needs of a message to take it.\<close>

definition acceptable :: "ingest_env \<Rightarrow> string \<Rightarrow> string \<Rightarrow> Event \<Rightarrow> bool" where
  "acceptable env raw sigHex ev =
     (verifySig (ie_HMAC env) (ie_Secret env) raw sigHex \<and> length raw \<le> 16 * 2 ^ 20 \<and> ie_Unmarshal env raw = Inr ev \<and>
      ev_To ev \<noteq> [] \<and> primaryDomain (hd (ev_To ev)) \<noteq> [] \<and>
      list_ex (\<lambda>d. to_lower (dm_Name d) = primaryDomain (hd (ev_To ev)) \<and> dm_IsActive d) (lv_Domains (ie_View env)) \<and>
      (trim_space (ev_ClientIP ev) = [] \<or> valid_inet (ie_Addr env) (ev_ClientIP ev)) \<and> storable env ev)"

lemma handle_answers:
  assumes "ie_Err env = no_faults" "acceptable env raw sigHex ev"
  shows "\<exists>r st'. handle env raw sigHex st = (WriteJSON 202 r, st')"
proof -
  have body: "readSignedBody (ie_HMAC env) (ie_Secret env) (16 * 2 ^ 20) raw sigHex = Inr raw"
    using assms(2) by (simp add: acceptable_def readSignedBody_def)
  obtain d where "find (\<lambda>d. to_lower (dm_Name d) = primaryDomain (hd (ev_To ev)) \<and> dm_IsActive d) (lv_Domains (ie_View env)) = Some d"
    using assms(2) by (fastforce simp: acceptable_def list_ex_iff find_None_iff
        dest: option.exhaust [of "find (\<lambda>d. to_lower (dm_Name d) = primaryDomain (hd (ev_To ev)) \<and> dm_IsActive d) (lv_Domains (ie_View env))"])
  then obtain domainID orgID where dom: "lookupDomainOrg no_faults (lv_Domains (ie_View env)) (primaryDomain (hd (ev_To ev))) = Inr (domainID, orgID)"
    using assms(2) by (auto simp: acceptable_def lookupDomainOrg_def)
  obtain pol where pol: "Resolve no_faults (lv_Orgs (ie_View env)) (ie_Policies env) (Some domainID) (Some orgID) = Inr pol"
    using Resolve_answers by blast
  obtain action scope where "lookupSenderListWithIP no_faults (ie_Addr env) (ie_View env) (ie_Entries env) orgID (Some domainID)
      (to_lower (trim_space (hd (ev_To ev)))) (ev_ClientIP ev) [ev_From (received ev), ev_ReplyTo (received ev)] = Inr (action, scope)"
    using lookupSenderListWithIP_answers assms(2) unfolding acceptable_def by (metis surj_pair)
  then obtain cx where "ingest_lookups env orgID domainID pol (received ev) = Inr cx"
    using assms(1) by (simp add: ingest_lookups_def)
  with body dom pol assms ingest_store_answers [OF assms(1), of "ingest_decide env cx (received ev)" orgID domainID cx st]
  show ?thesis by (simp add: handle_def acceptable_def)
qed

text \<open>C2 (liveness of ingest): when no statement fails, every well-signed message of at most 16 MiB with a
  recipient in a configured domain, a readable client address and a score and size that fit their
  columns is answered 202, whatever the lists, policies, caches and campaigns hold, and gets exactly one
  row in the mail log, the one named in the answer.\<close>

theorem accepted_when_no_fault:
  assumes "ie_Err env = no_faults" "acceptable env raw sigHex ev"
  shows "\<exists>r st' m. handle env raw sigHex st = (WriteJSON 202 r, st') \<and> is_MailLogs st' = is_MailLogs st @ [m] \<and>
    ml_ID m = ir_MailLogID r"
proof -
  obtain r st' where run: "handle env raw sigHex st = (WriteJSON 202 r, st')" using handle_answers [OF assms] by blast
  from handle_handled [OF run] obtain env' orgID domainID cx v where "answered env orgID domainID cx v st r st'"
    by cases blast
  then show ?thesis
  proof cases
    case (answeredI c camps sources action d reason suppress ev m st4 suppressed st5 s)
    have "is_MailLogs st5 = is_MailLogs st4"
      using answeredI(5) by (auto dest: quarantine_message_new split: if_splits)
    with run store_log_Inr [OF answeredI(4)] finish_message_keeps [OF answeredI(6)] answeredI(7) show ?thesis by auto
  qed
qed

section \<open>A concrete message\<close>

definition sample_ingest_env :: ingest_env where
  "sample_ingest_env =
     \<lparr>ie_Err = no_faults, ie_Now = 100, ie_CampaignID = 41, ie_MailLogID = 42, ie_QuarantineID = 43, ie_MailboxID = (\<lambda>k. 50 + k),
      ie_ScanID = (\<lambda>k. 60 + k), ie_HMAC = (\<lambda>k m. ''A''), ie_Secret = ''k'',
      ie_Unmarshal = (\<lambda>b. Inr (sample_event\<lparr>ev_To := [''u@m.x.io''], ev_Direction := []\<rparr>)),
      ie_SHA256 = (\<lambda>s. ''h''), ie_Inet = Some, ie_Addr = sample_addr_env, ie_Render = (\<lambda>_. []), ie_Decrypt = (\<lambda>s. Inr s),
      ie_Float = (\<lambda>_. None), ie_Feeds = None, ie_Brands = None, ie_Redis = True, ie_View = sample_view, ie_Policies = [],
      ie_Entries = [], ie_Settings = [], ie_Classifications = []\<rparr>"

definition empty_ingest_state :: ingest_state where
  "empty_ingest_state = \<lparr>is_Campaigns = [], is_Sources = [], is_MailLogs = [], is_LogBlobs = [], is_Mailbox = [], is_Quarantine = [],
     is_QuarantineBlobs = [], is_ScanJobs = [], is_Queue = [], is_Effects = []\<rparr>"

lemma sample_acceptable:
  "acceptable sample_ingest_env [] ''41'' (sample_event\<lparr>ev_To := [''u@m.x.io''], ev_Direction := []\<rparr>)"
proof -
  have "hex_decode ''41'' = Some ''A''" "primaryDomain ''u@m.x.io'' = ''m.x.io''" "to_lower ''m.x.io'' = ''m.x.io''"
    by code_simp+
  moreover have "numeric_6_3 0 = Some 0" by (simp add: numeric_6_3_def Let_def floor_eq_iff)
  ultimately show ?thesis
    by (simp add: acceptable_def verifySig_def sample_ingest_env_def sample_event_def sample_view_def sample_domain_def
        sample_addr_env_def storable_def)
qed

lemma sample_unmarshal: "ie_Unmarshal sample_ingest_env [] = Inr (sample_event\<lparr>ev_To := [''u@m.x.io''], ev_Direction := []\<rparr>)"
  by (simp add: sample_ingest_env_def)

lemma sample_Err: "ie_Err sample_ingest_env = no_faults"
  by (simp add: sample_ingest_env_def)

lemma sample_run: "\<exists>r st'. handle sample_ingest_env [] ''41'' empty_ingest_state = (WriteJSON 202 r, st')"
  by (rule handle_answers [OF sample_Err sample_acceptable])

lemma accepted_when_no_fault_witness:
  "\<exists>r st' m. handle sample_ingest_env [] ''41'' empty_ingest_state = (WriteJSON 202 r, st') \<and>
     is_MailLogs st' = is_MailLogs empty_ingest_state @ [m] \<and> ml_ID m = ir_MailLogID r"
  by (rule accepted_when_no_fault [OF sample_Err sample_acceptable])

lemma handle_stores_as_decided_witness:
  "\<exists>r st'. handle sample_ingest_env [] ''41'' empty_ingest_state = (WriteJSON 202 r, st') \<and>
     stored_as_decided sample_ingest_env [''u@m.x.io''] r empty_ingest_state st'"
  using sample_run handle_stores_as_decided [OF _ sample_unmarshal] by (fastforce simp: sample_event_def)

lemma unauthenticated_not_delivered_witness:
  "\<exists>r st'. handle sample_ingest_env [] ''41'' empty_ingest_state = (WriteJSON 202 r, st') \<and> is_Mailbox st' = [] \<and>
     ir_Disposition r \<in> {Quarantined, Rejected}"
proof -
  let ?ev = "received (sample_event\<lparr>ev_To := [''u@m.x.io''], ev_Direction := []\<rparr>)"
  have ev: "\<not> equal_fold (ev_Direction ?ev) ''outbound''" "\<not> isDeliveryStatusNotification ?ev" "unauthenticated ?ev"
    by (simp_all add: received_def sample_event_def equal_fold_def isDeliveryStatusNotification_def trim_defs Let_def
        looksLikeDSNSubject_def hasDeliveryStatusNotificationSymbol_def rawMessageLooksDSN_def
        unauthenticated_def authSignals_def hasSymbolContaining_def hasSymbol_def)
  obtain r st' where run: "handle sample_ingest_env [] ''41'' empty_ingest_state = (WriteJSON 202 r, st')"
    using sample_run by blast
  with unauthenticated_not_delivered [OF run sample_unmarshal ev] show ?thesis by (simp add: empty_ingest_state_def)
qed

lemma scans_bounded_witness:
  "\<exists>r st'. handle sample_ingest_env [] ''41'' empty_ingest_state = (WriteJSON 202 r, st') \<and> length (is_ScanJobs st') \<le> 10"
  using sample_run by (fastforce dest: scans_bounded simp: empty_ingest_state_def)

end
