(* ===== verification/Rdap.thy ===== *)
theory Rdap
  imports SenderLists GoAddr
begin

text \<open>
  The RDAP client of \<open>internal/quarantine/quarantine.go\<close>: which addresses of a registry's answer are abuse
  contacts, and the order in which the registries are asked. What an endpoint answers is a parameter: an
  error, or the status with the decoded document. Fields of the document that the code never reads are left
  out.
\<close>

datatype rdap_entity = Entity (Roles: "string list") (VCard: "json list") (Entities: "rdap_entity list")

record rdap_doc =
  rd_Handle :: string
  rd_Name :: string
  rd_Entities :: "rdap_entity list"

record rdapLookup =
  rl_Name :: string
  rl_AbuseContacts :: "string list"

type_synonym http_get = "string \<Rightarrow> (nat \<times> rdap_doc option) result"

section \<open>Abuse contacts of a document\<close>

definition hasRole :: "string list \<Rightarrow> string \<Rightarrow> bool" where
  "hasRole roles want = list_ex (\<lambda>r. equal_fold r want) roles"

text \<open>\<open>x, _ := v.(string)\<close>.\<close>

definition json_string :: "json \<Rightarrow> string" where
  "json_string v = (case v of JStr s \<Rightarrow> s | _ \<Rightarrow> [])"

definition vcard_email :: "addr_env \<Rightarrow> json \<Rightarrow> string list" where
  "vcard_email env prop =
     (case prop of
        JArr items \<Rightarrow>
          (if length items < 4 \<or> \<not> equal_fold (json_string (items ! 0)) ''email'' then []
           else case ParseAddress env (json_string (items ! 3)) of None \<Rightarrow> [] | Some a \<Rightarrow> [to_lower a])
      | _ \<Rightarrow> [])"

definition vcardEmails :: "addr_env \<Rightarrow> json list \<Rightarrow> string list" where
  "vcardEmails env vcard =
     (if length vcard < 2 then []
      else case vcard ! 1 of JArr props \<Rightarrow> concat (map (vcard_email env) props) | _ \<Rightarrow> [])"

fun entity_emails :: "addr_env \<Rightarrow> rdap_entity \<Rightarrow> bool \<Rightarrow> string list \<Rightarrow> string list" where
  "entity_emails env (Entity roles vcard es) inherited out =
     (let isAbuse = (inherited \<or> hasRole roles ''abuse'');
          out1 = (if isAbuse then out @ vcardEmails env vcard else out)
      in fold (\<lambda>child o'. entity_emails env child isAbuse o') es out1)"

declare entity_emails.simps [simp del]

definition collectAbuseEmails :: "addr_env \<Rightarrow> rdap_doc \<Rightarrow> string list \<Rightarrow> string list" where
  "collectAbuseEmails env d out = fold (\<lambda>e o'. entity_emails env e False o') (rd_Entities d) out"

definition uniqueEmails :: "string list \<Rightarrow> string list" where
  "uniqueEmails values = dedup_on (\<lambda>v. v) [] (filter (\<lambda>v. v \<noteq> []) (map (\<lambda>v. to_lower (trim_space v)) values))"

definition appendUniqueStrings :: "string list \<Rightarrow> string list \<Rightarrow> string list" where
  "appendUniqueStrings out values =
     out @ dedup_on (\<lambda>v. v) (map (\<lambda>v. to_lower (trim_space v)) out)
       (filter (\<lambda>v. v \<noteq> []) (map (\<lambda>v. to_lower (trim_space v)) values))"

text \<open>Reference: the cards of the entities that have the role, or are inside one that has it.\<close>

fun abuse_cards :: "bool \<Rightarrow> rdap_entity \<Rightarrow> json list list" where
  "abuse_cards inherited (Entity roles vcard es) =
     (let isAbuse = (inherited \<or> list_ex (\<lambda>r. to_lower r = ''abuse'') roles)
      in (if isAbuse then [vcard] else []) @ concat (map (abuse_cards isAbuse) es))"

lemma fold_append: "(\<And>x o'. x \<in> set xs \<Longrightarrow> g x o' = o' @ f x) \<Longrightarrow> fold g xs out = out @ concat (map f xs)"
  by (induction xs arbitrary: out) simp_all

lemma concat_map_concat: "concat (map f (concat xss)) = concat (map (\<lambda>xs. concat (map f xs)) xss)"
  by (induction xss) simp_all

lemma hasRole_abuse: "hasRole roles ''abuse'' = list_ex (\<lambda>r. to_lower r = ''abuse'') roles"
  by (simp add: hasRole_def equal_fold_def to_lower_def lower_char_def is_upper_def)

lemma entity_emails_reference:
  "entity_emails env e inherited out = out @ concat (map (vcardEmails env) (abuse_cards inherited e))"
proof (induction inherited e arbitrary: out rule: abuse_cards.induct)
  case (1 inherited roles vcard es)
  let ?abuse = "inherited \<or> hasRole roles ''abuse''"
  have "fold (\<lambda>child. entity_emails env child ?abuse) es out1 = out1 @ concat (map (\<lambda>c. concat (map (vcardEmails env) (abuse_cards ?abuse c))) es)"
    for out1
    by (rule fold_append) (use 1 in \<open>simp add: hasRole_abuse\<close>)
  then show ?case
    by (simp add: entity_emails.simps [of env roles] hasRole_abuse Let_def concat_map_concat comp_def)
qed

lemma collectAbuseEmails_reference:
  "collectAbuseEmails env d out = out @ concat (map (vcardEmails env) (concat (map (abuse_cards False) (rd_Entities d))))"
  unfolding collectAbuseEmails_def
  by (subst fold_append [where f = "\<lambda>e. concat (map (vcardEmails env) (abuse_cards False e))"])
    (simp_all add: entity_emails_reference concat_map_concat comp_def)

lemma uniqueEmails_distinct: "distinct (uniqueEmails values)"
  using distinct_dedup_on [of "\<lambda>v. v"] by (simp add: uniqueEmails_def)

section \<open>Asking the registries\<close>

definition lookupRDAPEndpoint :: "http_get \<Rightarrow> addr_env \<Rightarrow> string \<Rightarrow> rdapLookup result" where
  "lookupRDAPEndpoint get env endpoint =
     (case get endpoint of
        Inl e \<Rightarrow> Inl (endpoint @ '' failed: '' @ e)
      | Inr (code, doc) \<Rightarrow>
          if code < 200 \<or> code \<ge> 300 then Inl (endpoint @ '' returned HTTP '' @ itoa code)
          else case doc of
            None \<Rightarrow> Inl (endpoint @ '' response invalid'')
          | Some d \<Rightarrow>
              Inr \<lparr>rl_Name = (case find (\<lambda>v. trim_space v \<noteq> []) [rd_Name d, rd_Handle d] of None \<Rightarrow> [] | Some v \<Rightarrow> trim_space v),
                   rl_AbuseContacts = uniqueEmails (collectAbuseEmails env d [])\<rparr>)"

text \<open>\<open>validateRDAPRedirect\<close> with the number of requests before; \<open>None\<close> follows the redirect.\<close>

definition validateRDAPRedirect :: "url option \<Rightarrow> nat \<Rightarrow> string option" where
  "validateRDAPRedirect u via =
     (if via \<ge> 3 then Some ''rdap lookup redirected too many times''
      else case u of
        None \<Rightarrow> Some ''rdap lookup redirected to an untrusted endpoint''
      | Some u \<Rightarrow>
          if url_Scheme u \<noteq> ''https'' \<or> hostname u = [] \<or> url_HasUser u then Some ''rdap lookup redirected to an untrusted endpoint''
          else None)"

definition rdapEndpoints :: "string \<Rightarrow> string list" where
  "rdapEndpoints ip =
     map (\<lambda>base. base @ ip)
       [''https://rdap.db.ripe.net/ip/'', ''https://rdap.arin.net/registry/ip/'', ''https://rdap.apnic.net/ip/'',
        ''https://rdap.lacnic.net/rdap/ip/'', ''https://rdap.afrinic.net/rdap/ip/'', ''https://rdap.org/ip/'']"

definition path_escape :: "string \<Rightarrow> string" where
  "path_escape s =
     concat (map (\<lambda>c. if should_escape c EncodePath \<or> c \<in> set ''/;,''
       then [CHR ''%'', hex_digit (byte c div 16), hex_digit (byte c mod 16)] else [c]) s)"

fun rdap_loop :: "http_get \<Rightarrow> addr_env \<Rightarrow> string list \<Rightarrow> rdapLookup option \<Rightarrow> string list \<Rightarrow> rdapLookup result" where
  "rdap_loop get env [] fallback failures =
     (case fallback of
        Some l \<Rightarrow> Inr l
      | None \<Rightarrow>
          if failures = [] then Inl ''rdap lookup temporarily unavailable''
          else Inl (''rdap lookup temporarily unavailable after trying trusted registries: '' @ join failures ''; ''))"
| "rdap_loop get env (e # es) fallback failures =
     (case lookupRDAPEndpoint get env e of
        Inl msg \<Rightarrow> rdap_loop get env es fallback (failures @ [msg])
      | Inr l \<Rightarrow>
          if rl_AbuseContacts l \<noteq> [] then Inr l
          else rdap_loop get env es (if fallback = None then Some l else fallback) (failures @ [e @ '' returned no abuse contact'']))"

definition lookupRDAP :: "http_get \<Rightarrow> addr_env \<Rightarrow> string \<Rightarrow> rdapLookup result" where
  "lookupRDAP get env ip = rdap_loop get env (rdapEndpoints (path_escape ip)) None []"

lemma rdap_loop_Inr:
  "rdap_loop get env es fallback failures = Inr l \<Longrightarrow> fallback = Some l \<or> (\<exists>e \<in> set es. lookupRDAPEndpoint get env e = Inr l)"
proof (induction es arbitrary: fallback failures)
  case (Cons e es)
  then show ?case by (fastforce split: sum.splits if_splits)
qed (simp split: option.splits if_splits)

text \<open>A registry's contacts are used as soon as it names one, so an answer has none only when no registry names one.\<close>

lemma rdap_loop_contacts:
  assumes "rdap_loop get env es fallback failures = Inr l" "\<And>f. fallback = Some f \<Longrightarrow> rl_AbuseContacts f = []"
    and "rl_AbuseContacts l = []" "e \<in> set es" "lookupRDAPEndpoint get env e = Inr m"
  shows "rl_AbuseContacts m = []"
  using assms
proof (induction es arbitrary: fallback failures)
  case (Cons x es)
  show ?case
  proof (cases "lookupRDAPEndpoint get env x")
    case (Inl msg)
    with Cons show ?thesis by auto
  next
    case (Inr k)
    show ?thesis
    proof (cases "rl_AbuseContacts k = []")
      case True
      with Inr Cons(2) have "rdap_loop get env es (if fallback = None then Some k else fallback)
        (failures @ [x @ '' returned no abuse contact'']) = Inr l" by simp
      with Cons(1) [OF this] Cons(3-6) Inr True show ?thesis by (auto split: if_splits)
    next
      case False
      with Inr Cons show ?thesis by auto
    qed
  qed
qed simp

lemma lookupRDAP_distinct: "lookupRDAP get env ip = Inr l \<Longrightarrow> distinct (rl_AbuseContacts l)"
  by (auto simp: lookupRDAP_def lookupRDAPEndpoint_def uniqueEmails_distinct dest!: rdap_loop_Inr split: sum.splits option.splits if_splits)

end
