(* ===== verification/MailDb.thy ===== *)
theory MailDb
  imports MailTables SenderLists Classifier Campaign Rdap
begin

text \<open>
  The tables that the handlers around stored messages work on together, and what such a request
  meets from outside: failing statements, the time, fresh identifiers, the relay that takes mail, and the
  tables it only reads. A mail relay is a parameter: \<open>mv_Relay m = None\<close> means that it took \<open>m\<close>, which
  is then appended to \<open>md_Outbox\<close>, the messages that have left the gateway. Further parameters are
  \<open>uuid.String\<close>, \<open>mail.ReadMessage\<close> (the header in the order of one \<open>range\<close> loop, and the body),
  SHA-256, PostgreSQL's texts of an \<open>inet\<close> and of a \<open>jsonb\<close> value, \<open>Time.Format\<close> in UTC with a layout,
  \<open>mail.Address.String\<close> of a name and an address, \<open>uuid.NewString\<close>, and the answers of RDAP endpoints.
\<close>

text \<open>One SMTP transaction: the address dialled, whether TLS was left out, envelope and data.\<close>

record smtp_send =
  sn_Addr :: string
  sn_Plain :: bool
  sn_From :: string
  sn_To :: "string list"
  sn_Raw :: string

record mail_db =
  md_Logs :: "mail_log_row list"
  md_LogBlobs :: "log_blob list"
  md_Quarantine :: "quarantine_row list"
  md_QuarantineBlobs :: "quarantine_blob list"
  md_Mailbox :: "mailbox_row list"
  md_Jobs :: "scan_job_row list"
  md_Queue :: "scan_envelope list"
  md_Entries :: "list_entry_row list"
  md_Classifications :: "classification list"
  md_Campaigns :: "campaign list"
  md_Sources :: "campaign_source list"
  md_Reports :: "phishing_report_row list"
  md_Sent :: "sent_email_row list"
  md_Outbox :: "smtp_send list"
  md_Alerts :: "uuid list"

record mail_env =
  mv_Err :: faults
  mv_Now :: nat
  mv_SentID :: "nat \<Rightarrow> uuid"
  mv_EntryID :: "uuid list \<Rightarrow> uuid"
  mv_JobID :: uuid
  mv_QuarantineID :: "nat \<Rightarrow> uuid"
  mv_UUIDText :: "uuid \<Rightarrow> string"
  mv_Addr :: addr_env
  mv_Relay :: "smtp_send \<Rightarrow> string option"
  mv_View :: list_view
  mv_Gateways :: "gateway_row list"
  mv_Settings :: "setting_row list"
  mv_InetText :: "string \<Rightarrow> string"
  mv_ReadMessage :: "string \<Rightarrow> ((string \<times> string list) list \<times> string) option"
  mv_SHA256 :: "string \<Rightarrow> string"
  mv_JSONText :: "json \<Rightarrow> string"
  mv_TimeText :: "string \<Rightarrow> nat \<Rightarrow> string"
  mv_AddrText :: "string \<Rightarrow> string \<Rightarrow> string"
  mv_NewUUID :: uuid
  mv_HTTPGet :: http_get

definition smtp_attempt :: "mail_env \<Rightarrow> smtp_send \<Rightarrow> mail_db \<Rightarrow> string option \<times> mail_db" where
  "smtp_attempt env m db =
     (case mv_Relay env m of
        Some e \<Rightarrow> (Some e, db)
      | None \<Rightarrow> (None, db\<lparr>md_Outbox := md_Outbox db @ [m]\<rparr>))"

text \<open>\<open>gen_random_uuid()\<close> for a new list entry: \<open>mv_EntryID\<close> may give an identifier that is not in use.\<close>

definition new_entry_id :: "mail_env \<Rightarrow> mail_db \<Rightarrow> uuid" where
  "new_entry_id env db = mv_EntryID env (map le_ID (md_Entries db))"

text \<open>\<open>net.JoinHostPort\<close>.\<close>

definition join_host_port :: "string \<Rightarrow> string \<Rightarrow> string" where
  "join_host_port host port =
     (if CHR '':'' \<in> set host then ''['' @ host @ '']:'' @ port else host @ '':'' @ port)"

text \<open>Rows that a query by identifier finds.\<close>

definition log_by_id :: "mail_log_row list \<Rightarrow> uuid \<Rightarrow> mail_log_row option" where
  "log_by_id rows i = find (\<lambda>m. ml_ID m = i) rows"

definition entry_by_id :: "quarantine_row list \<Rightarrow> uuid \<Rightarrow> quarantine_row option" where
  "entry_by_id rows i = find (\<lambda>q. qe_ID q = i) rows"

definition job_by_id :: "scan_job_row list \<Rightarrow> uuid \<Rightarrow> scan_job_row option" where
  "job_by_id rows i = find (\<lambda>j. sj_ID j = i) rows"

lemma log_by_id_Some: "log_by_id rows i = Some m \<Longrightarrow> m \<in> set rows \<and> ml_ID m = i"
  by (auto simp: log_by_id_def find_Some_iff)

lemma entry_by_id_Some: "entry_by_id rows i = Some q \<Longrightarrow> q \<in> set rows \<and> qe_ID q = i"
  by (auto simp: entry_by_id_def find_Some_iff)

lemma job_by_id_Some: "job_by_id rows i = Some j \<Longrightarrow> j \<in> set rows \<and> sj_ID j = i"
  by (auto simp: job_by_id_def find_Some_iff)

lemma entry_by_id_unique: "distinct (map qe_ID rows) \<Longrightarrow> q \<in> set rows \<Longrightarrow> entry_by_id rows (qe_ID q) = Some q"
  by (induction rows) (auto simp: entry_by_id_def image_iff)

end
