(* ===== verification/SentEmails.thy ===== *)
theory SentEmails
  imports MailDb
begin

text \<open>
  \<open>internal/sentemails/sentemails.go\<close>: every mail the gateway itself sends goes through \<open>Send\<close>, which
  logs it as pending, tries the relay, and logs the outcome; and the handlers of the log, with
  \<open>resend\<close>. The dialogue with the relay (\<open>smtp.SendMail\<close>, \<open>sendPlainRelayMail\<close>) is the parameter
  \<open>mv_Relay\<close>.
\<close>

record sent_record =
  sr_OrganizationID :: uuid
  sr_DomainID :: "uuid option"
  sr_MailLogID :: "uuid option"
  sr_QuarantineEntryID :: "uuid option"
  sr_Kind :: string
  sr_FromAddr :: string
  sr_ToAddrs :: "string list"
  sr_Subject :: string
  sr_RelayHost :: string
  sr_RelayPort :: int
  sr_Raw :: string
  sr_Metadata :: json_map

definition maxRawExcerptBytes :: nat where "maxRawExcerptBytes = 256 * 2 ^ 10"
definition maxStoredRawBytes :: nat where "maxStoredRawBytes = 16 * 2 ^ 20"

definition normalizeAddress :: "addr_env \<Rightarrow> string \<Rightarrow> string" where
  "normalizeAddress env value =
     (let v = trim_space value
      in case ParseAddress env v of
           Some a \<Rightarrow> if a \<noteq> [] then to_lower (trim_space a) else to_lower v
         | None \<Rightarrow> to_lower v)"

definition normalizeAddresses :: "addr_env \<Rightarrow> string list \<Rightarrow> string list" where
  "normalizeAddresses env values = dedup_on (\<lambda>v. v) [] (filter (\<lambda>v. v \<noteq> []) (map (normalizeAddress env) values))"

definition one_line :: "string \<Rightarrow> string" where
  "one_line s = map (\<lambda>c. if c = CHR 0x0D \<or> c = CHR 0x0A then CHR '' '' else c) s"

definition sanitizeHeader :: "string \<Rightarrow> string" where
  "sanitizeHeader value = take 255 (one_line (trim_space value))"

definition trimError :: "string \<Rightarrow> string" where
  "trimError value = take 1000 (trim_space value)"

definition InsertPending :: "mail_env \<Rightarrow> sent_record \<Rightarrow> mail_db \<Rightarrow> uuid result \<times> mail_db" where
  "InsertPending env rec db =
     (if sr_OrganizationID rec = 0 then (Inl ''organization_id is required'', db)
      else if trim_space (sr_Kind rec) = [] then (Inl ''kind is required'', db)
      else
        (let tos = normalizeAddresses (mv_Addr env) (sr_ToAddrs rec); i = mv_SentID env (length (md_Sent db))
         in if tos = [] then (Inl ''at least one recipient is required'', db)
            else if sr_Raw rec = [] then (Inl ''raw message is required'', db)
            else if length (sr_Raw rec) > maxStoredRawBytes then (Inl ''raw message is too large'', db)
            else if mv_Err env ''insert sent_emails'' then (Inl ''insert sent_emails'', db)
            else (Inr i, db\<lparr>md_Sent := md_Sent db @
                [\<lparr>sm_ID = i, sm_OrganizationID = sr_OrganizationID rec, sm_DomainID = sr_DomainID rec,
                  sm_MailLogID = sr_MailLogID rec, sm_QuarantineEntryID = sr_QuarantineEntryID rec,
                  sm_Kind = trim_space (sr_Kind rec), sm_FromAddr = normalizeAddress (mv_Addr env) (sr_FromAddr rec),
                  sm_ToAddrs = tos, sm_Subject = nullif_empty (sanitizeHeader (sr_Subject rec)),
                  sm_RelayHost = nullif_empty (trim_space (sr_RelayHost rec)),
                  sm_RelayPort = (if sr_RelayPort rec = 0 then None else Some (sr_RelayPort rec)),
                  sm_Status = ''pending'', sm_Error = None, sm_RawMessage = sr_Raw rec,
                  sm_Metadata = JObj (sr_Metadata rec), sm_SentAt = None,
                  sm_CreatedAt = mv_Now env, sm_UpdatedAt = mv_Now env\<rparr>]\<rparr>)))"

text \<open>Its errors are ignored by every caller.\<close>

definition finish_row :: "nat \<Rightarrow> string \<Rightarrow> string \<Rightarrow> sent_email_row \<Rightarrow> sent_email_row" where
  "finish_row now s errText m =
     m\<lparr>sm_Status := s, sm_Error := nullif_empty (trimError errText),
       sm_SentAt := (if s = ''sent'' then Some now else sm_SentAt m), sm_UpdatedAt := now\<rparr>"

definition Finish :: "mail_env \<Rightarrow> uuid \<Rightarrow> string \<Rightarrow> string \<Rightarrow> mail_db \<Rightarrow> mail_db" where
  "Finish env i status0 errText db =
     (let s0 = to_lower (trim_space status0);
          s = (if s0 \<noteq> ''sent'' \<and> s0 \<noteq> ''failed'' then ''failed'' else s0)
      in if mv_Err env ''update sent_emails'' then db
         else db\<lparr>md_Sent := update_where (\<lambda>m. sm_ID m = i) (finish_row (mv_Now env) s errText) (md_Sent db)\<rparr>)"

definition Send :: "mail_env \<Rightarrow> sent_record \<Rightarrow> smtp_send \<Rightarrow> mail_db \<Rightarrow> string option \<times> mail_db" where
  "Send env rec m db =
     (let (logged, db1) = InsertPending env rec db;
          (e, db2) = smtp_attempt env m db1
      in case logged of
           Inl _ \<Rightarrow> (e, db2)
         | Inr i \<Rightarrow>
             (case e of
                None \<Rightarrow> (e, Finish env i ''sent'' [] db2)
              | Some msg \<Rightarrow> (e, Finish env i ''failed'' msg db2)))"

section \<open>The relay\<close>

definition usePlainInternalRelay :: "string \<Rightarrow> bool" where
  "usePlainInternalRelay host0 =
     (let host = trim_space (trim_suffix host0 ''.'')
      in if host = [] then False
         else if equal_fold host ''localhost'' then True
         else case parse_addr (trim host ''[]'') of
           Some ip \<Rightarrow> is_loopback ip \<or> is_private ip \<or> is_link_local_unicast ip
         | None \<Rightarrow> CHR ''.'' \<notin> set host)"

definition relay_send :: "string \<Rightarrow> string \<Rightarrow> string \<Rightarrow> string list \<Rightarrow> string \<Rightarrow> smtp_send" where
  "relay_send host port sender tos raw =
     \<lparr>sn_Addr = join_host_port host port, sn_Plain = usePlainInternalRelay host, sn_From = sender, sn_To = tos, sn_Raw = raw\<rparr>"

definition sendRelayMail :: "mail_env \<Rightarrow> string \<Rightarrow> string \<Rightarrow> string \<Rightarrow> string list \<Rightarrow> string \<Rightarrow> mail_db \<Rightarrow> string option \<times> mail_db" where
  "sendRelayMail env host0 port0 sender tos raw db =
     (let host = trim_space host0; port = trim_space port0
      in if host = [] then (Some ''relay host is required'', db)
         else smtp_attempt env (relay_send host (if port = [] then ''25'' else port) sender tos raw) db)"

section \<open>The handlers\<close>

record Email =
  em_Row :: sent_email_row
  RawSize :: nat
  RawExcerpt :: string
  RawTruncated :: bool

definition scan_sent :: "sent_email_row \<Rightarrow> Email" where
  "scan_sent m = \<lparr>em_Row = m\<lparr>sm_RawMessage := []\<rparr>, RawSize = length (sm_RawMessage m), RawExcerpt = [], RawTruncated = False\<rparr>"

definition sent_by_id :: "sent_email_row list \<Rightarrow> uuid \<Rightarrow> sent_email_row option" where
  "sent_by_id rows i = find (\<lambda>m. sm_ID m = i) rows"

definition readAllowed ::
  "mail_env \<Rightarrow> (scope \<times> identity) result \<Rightarrow> uuid \<Rightarrow> bool \<Rightarrow> mail_db \<Rightarrow> Email response + Email" where
  "readAllowed env sc i withExcerpt db =
     (case sc of
        Inl e \<Rightarrow> Inl (WriteError 500 ''scope'')
      | Inr (scope, ident) \<Rightarrow>
          if id_Role ident = ''org_user'' then Inl (WriteError 403 ''admin role required'')
          else case (if mv_Err env ''select sent_emails'' then None else sent_by_id (md_Sent db) i) of
            None \<Rightarrow> Inl (WriteError 404 ''not found'')
          | Some m \<Rightarrow>
              if \<not> Allows scope (sm_OrganizationID m) then Inl (WriteError 404 ''not found'')
              else if withExcerpt then
                (let raw = take maxRawExcerptBytes (sm_RawMessage m)
                 in Inr ((scan_sent m)\<lparr>RawExcerpt := raw, RawTruncated := length (sm_RawMessage m) > length raw\<rparr>))
              else Inr (scan_sent m))"

definition read_sent :: "mail_env \<Rightarrow> uuid option \<Rightarrow> (scope \<times> identity) result \<Rightarrow> mail_db \<Rightarrow> Email response" where
  "read_sent env param sc db =
     (case param of
        None \<Rightarrow> WriteError 400 ''invalid id''
      | Some i \<Rightarrow> (case readAllowed env sc i True db of Inl r \<Rightarrow> r | Inr item \<Rightarrow> WriteJSON 200 item))"

text \<open>The answer of \<open>raw\<close> is the stored message (or, for a range request, parts of it).\<close>

definition raw_sent :: "mail_env \<Rightarrow> uuid option \<Rightarrow> (scope \<times> identity) result \<Rightarrow> mail_db \<Rightarrow> string response" where
  "raw_sent env param sc db =
     (case param of
        None \<Rightarrow> WriteError 400 ''invalid id''
      | Some i \<Rightarrow>
          case readAllowed env sc i False db of
            Inl (WriteError n e) \<Rightarrow> WriteError n e
          | Inl (WriteJSON n _) \<Rightarrow> WriteHeader n
          | Inl (WriteHeader n) \<Rightarrow> WriteHeader n
          | Inr item \<Rightarrow>
              case (if mv_Err env ''select raw_message'' then None else sent_by_id (md_Sent db) i) of
                None \<Rightarrow> WriteError 404 ''not found''
              | Some m \<Rightarrow> WriteJSON 200 (sm_RawMessage m))"

definition resendMetadata :: "mail_env \<Rightarrow> json \<Rightarrow> uuid \<Rightarrow> json_map" where
  "resendMetadata env raw sourceID =
     (let reserved = [(''resent'', JBool True), (''resent_from_email_id'', JStr (mv_UUIDText env sourceID))]
      in reserved @ (case raw of JObj existing \<Rightarrow> filter (\<lambda>(k, _). k \<notin> fst ` set reserved) existing | _ \<Rightarrow> []))"

definition resent_record :: "mail_env \<Rightarrow> sent_email_row \<Rightarrow> string \<Rightarrow> int \<Rightarrow> string \<Rightarrow> sent_record" where
  "resent_record env m host port raw =
     \<lparr>sr_OrganizationID = sm_OrganizationID m, sr_DomainID = sm_DomainID m, sr_MailLogID = sm_MailLogID m,
      sr_QuarantineEntryID = sm_QuarantineEntryID m, sr_Kind = sm_Kind m, sr_FromAddr = sm_FromAddr m,
      sr_ToAddrs = sm_ToAddrs m, sr_Subject = text_or_empty (sm_Subject m), sr_RelayHost = host, sr_RelayPort = port,
      sr_Raw = raw, sr_Metadata = resendMetadata env (sm_Metadata m) (sm_ID m)\<rparr>"

definition resend :: "mail_env \<Rightarrow> uuid option \<Rightarrow> (scope \<times> identity) result \<Rightarrow> mail_db \<Rightarrow> Email response \<times> mail_db" where
  "resend env param sc db =
     (case param of
        None \<Rightarrow> (WriteError 400 ''invalid id'', db)
      | Some i \<Rightarrow>
          case readAllowed env sc i False db of
            Inl r \<Rightarrow> (r, db)
          | Inr item \<Rightarrow>
              if trim_space (text_or_empty (sm_RelayHost (em_Row item))) = [] then
                (WriteError 409 ''original email has no relay host recorded'', db)
              else case (if mv_Err env ''select raw_message'' then None else sent_by_id (md_Sent db) i) of
                None \<Rightarrow> (WriteError 404 ''not found'', db)
              | Some m \<Rightarrow>
                  (let row = em_Row item; host = text_or_empty (sm_RelayHost row);
                       port = (case sm_RelayPort row of Some p \<Rightarrow> if p > 0 then p else 25 | None \<Rightarrow> 25);
                       (logged, db1) = InsertPending env (resent_record env row host port (sm_RawMessage m)) db
                   in case logged of
                        Inl e \<Rightarrow> (WriteError 500 (''resend log insert failed: '' @ e), db1)
                      | Inr newID \<Rightarrow>
                          (let (e, db2) = sendRelayMail env host (itoa (nat port)) (sm_FromAddr row) (sm_ToAddrs row) (sm_RawMessage m) db1;
                               db3 = (case e of
                                        None \<Rightarrow> Finish env newID ''sent'' [] db2
                                      | Some msg \<Rightarrow> Finish env newID ''failed'' msg db2)
                           in case readAllowed env sc newID True db3 of
                                Inl r \<Rightarrow> (r, db3)
                              | Inr out \<Rightarrow> (WriteJSON 201 out, db3))))"

record sent_query =
  sq_Kind :: string
  sq_Status :: string
  sq_To :: string
  sq_From :: string
  sq_Search :: string

definition like_any :: "string \<Rightarrow> string \<Rightarrow> bool" where
  "like_any search text = sql_like (''%'' @ to_lower search @ ''%'') (to_lower text)"

definition sent_matches :: "scope \<Rightarrow> sent_query \<Rightarrow> sent_email_row \<Rightarrow> bool" where
  "sent_matches scope q m =
     ((IsSuperAdmin scope \<or> sm_OrganizationID m \<in> set (VisibleOrgIDs scope)) \<and>
      optional_filter (trim_space (sq_Kind q)) (\<lambda>v m. sm_Kind m = v) m \<and>
      optional_filter (trim_space (sq_Status q)) (\<lambda>v m. sm_Status m = v) m \<and>
      optional_filter (trim_space (sq_To q)) (\<lambda>v m. list_ex (like_any v) (sm_ToAddrs m)) m \<and>
      optional_filter (trim_space (sq_From q)) (\<lambda>v m. like_any v (sm_FromAddr m)) m \<and>
      optional_filter (trim_space (sq_Search q)) (\<lambda>v m. like_any v (sm_FromAddr m) \<or> list_ex (like_any v) (sm_ToAddrs m) \<or>
        like_any v (text_or_empty (sm_Subject m)) \<or> like_any v (sm_Kind m) \<or> like_any v (text_or_empty (sm_Error m))) m)"

text \<open>A status that is no label of the enumeration fails the count.\<close>

definition list_sent :: "mail_env \<Rightarrow> (scope \<times> identity) result \<Rightarrow> page \<Rightarrow> sent_query \<Rightarrow> mail_db \<Rightarrow> Email list_envelope response" where
  "list_sent env sc pg q db =
     (case sc of
        Inl e \<Rightarrow> WriteError 500 ''scope''
      | Inr (scope, ident) \<Rightarrow>
          if id_Role ident = ''org_user'' then WriteError 403 ''admin role required''
          else if mv_Err env ''count sent_emails'' \<or> trim_space (sq_Status q) \<notin> {[], ''pending'', ''sent'', ''failed''} then
            WriteError 500 ''count''
          else if mv_Err env ''select sent_emails'' then WriteError 500 ''select sent_emails''
          else
            (let rows = sort_key (\<lambda>m. (- int (sm_CreatedAt m), - int (sm_ID m))) (filter (sent_matches scope q) (md_Sent db))
             in WriteJSON 200 (envelope pg (map scan_sent rows))))"

section \<open>Logging and sending\<close>

lemma InsertPending_outbox [simp]: "md_Outbox (snd (InsertPending env rec db)) = md_Outbox db"
  by (simp add: InsertPending_def Let_def)

lemma InsertPending_sent:
  "InsertPending env rec db = (Inr i, db') \<Longrightarrow>
     i = mv_SentID env (length (md_Sent db)) \<and>
     (\<exists>m. md_Sent db' = md_Sent db @ [m] \<and> sm_ID m = i \<and> sm_Status m = ''pending'' \<and>
        sm_OrganizationID m = sr_OrganizationID rec \<and> sm_RawMessage m = sr_Raw rec)"
  by (auto simp: InsertPending_def Let_def split: if_splits)

lemma Finish_outbox [simp]: "md_Outbox (Finish env i s t db) = md_Outbox db"
  by (simp add: Finish_def Let_def)

lemma smtp_attempt_simps [simp]:
  "fst (smtp_attempt env m db) = mv_Relay env m"
  "md_Outbox (snd (smtp_attempt env m db)) = md_Outbox db @ (if mv_Relay env m = None then [m] else [])"
  "md_Sent (snd (smtp_attempt env m db)) = md_Sent db"
  by (simp_all add: smtp_attempt_def split: option.split)

lemma Send_cases:
  "Send env rec m db = (e, db') \<Longrightarrow> e = mv_Relay env m \<and>
     md_Outbox db' = md_Outbox db @ (if e = None then [m] else [])"
  by (auto simp: Send_def smtp_attempt_def split: prod.splits sum.splits option.splits dest: arg_cong [where f = "md_Outbox \<circ> snd"])

text \<open>Whatever the log says was sent has left the gateway.\<close>

definition sent_honest :: "mail_db \<Rightarrow> bool" where
  "sent_honest db =
     list_all (\<lambda>m. sm_Status m = ''sent'' \<longrightarrow> list_ex (\<lambda>s. sn_Raw s = sm_RawMessage m) (md_Outbox db)) (md_Sent db)"

definition fresh_sent :: "mail_env \<Rightarrow> mail_db \<Rightarrow> bool" where
  "fresh_sent env db = (mv_SentID env (length (md_Sent db)) \<notin> sm_ID ` set (md_Sent db))"

lemma InsertPending_honest: "sent_honest db \<Longrightarrow> sent_honest (snd (InsertPending env rec db))"
  by (auto simp: InsertPending_def Let_def sent_honest_def)

lemma sent_honest_outbox:
  "sent_honest db \<Longrightarrow> md_Sent db' = md_Sent db \<Longrightarrow> set (md_Outbox db) \<subseteq> set (md_Outbox db') \<Longrightarrow> sent_honest db'"
  by (fastforce simp: sent_honest_def list_all_iff list_ex_iff)

lemma smtp_attempt_honest: "sent_honest db \<Longrightarrow> sent_honest (snd (smtp_attempt env m db))"
  by (erule sent_honest_outbox) auto

lemma Finish_honest:
  assumes "sent_honest db" "s = ''sent'' \<Longrightarrow> \<forall>m \<in> set (md_Sent db). sm_ID m = i \<longrightarrow> list_ex (\<lambda>s. sn_Raw s = sm_RawMessage m) (md_Outbox db)"
    and "s \<in> {''sent'', ''failed''}"
  shows "sent_honest (Finish env i s t db)"
proof -
  have "to_lower (trim_space s) = s" using assms(3) by (auto simp: trim_defs)
  then have rows: "md_Sent (Finish env i s t db) =
      (if mv_Err env ''update sent_emails'' then md_Sent db
       else update_where (\<lambda>m. sm_ID m = i) (finish_row (mv_Now env) s t) (md_Sent db))"
    using assms(3) by (auto simp: Finish_def Let_def)
  show ?thesis
    unfolding sent_honest_def rows
    using assms(1,2) by (auto simp: sent_honest_def update_where_def list_all_iff finish_row_def)
qed

lemma InsertPending_new:
  assumes "InsertPending env rec db = (Inr i, db')" "fresh_sent env db"
  shows "\<forall>x \<in> set (md_Sent db'). sm_ID x = i \<longrightarrow> sm_RawMessage x = sr_Raw rec"
  using InsertPending_sent [OF assms(1)] assms(2) by (auto simp: fresh_sent_def image_iff; metis)

lemma Send_honest:
  assumes "sent_honest db" "fresh_sent env db" "sn_Raw m = sr_Raw rec"
  shows "sent_honest (snd (Send env rec m db))"
proof (cases "InsertPending env rec db")
  case (Pair logged db1)
  obtain e db2 where try': "smtp_attempt env m db1 = (e, db2)" by (cases "smtp_attempt env m db1")
  have db1: "sent_honest db1" using InsertPending_honest [OF assms(1), of env rec] Pair by simp
  have db2: "sent_honest db2" using smtp_attempt_honest [OF db1, of env m] try' by simp
  have same: "md_Sent db2 = md_Sent db1" using smtp_attempt_simps(3) [of env m db1] try' by simp
  have new: "\<forall>x \<in> set (md_Sent db2). sm_ID x = i \<longrightarrow> sm_RawMessage x = sn_Raw m" if "logged = Inr i" for i
    using InsertPending_new [of env rec db i db1] Pair that assms(2,3) same by simp
  have left: "e = None \<Longrightarrow> m \<in> set (md_Outbox db2)"
    using smtp_attempt_simps(1,2) [of env m db1] try' by simp
  show ?thesis
    using db2 new left
    by (auto simp: Send_def Pair try' list_ex_iff split: sum.split option.split intro!: Finish_honest)
qed

lemma sendRelayMail_sent: "md_Sent (snd (sendRelayMail env host port sender tos raw db)) = md_Sent db"
  by (simp add: sendRelayMail_def Let_def)

lemma sendRelayMail_left:
  "sendRelayMail env host port sender tos raw db = (e, db') \<Longrightarrow>
     set (md_Outbox db) \<subseteq> set (md_Outbox db') \<and> (e = None \<longrightarrow> (\<exists>s \<in> set (md_Outbox db'). sn_Raw s = raw))"
  by (auto simp: sendRelayMail_def Let_def smtp_attempt_def relay_send_def split: if_splits option.splits)

lemma readAllowed_Inr:
  "readAllowed env sc i x db = Inr item \<Longrightarrow>
     \<exists>scope ident m. sc = Inr (scope, ident) \<and> id_Role ident \<noteq> ''org_user'' \<and> sent_by_id (md_Sent db) i = Some m \<and>
       Allows scope (sm_OrganizationID m) \<and> em_Row item = m\<lparr>sm_RawMessage := []\<rparr>"
  by (auto simp: readAllowed_def scan_sent_def Let_def split: sum.splits if_splits option.splits)

lemma resend_honest:
  assumes "sent_honest db" "fresh_sent env db"
  shows "sent_honest (snd (resend env param sc db))"
proof -
  have step: "sent_honest (case e of None \<Rightarrow> Finish env i ''sent'' [] db2 | Some msg \<Rightarrow> Finish env i ''failed'' msg db2)"
    if "(Inr i, db1) = InsertPending env (resent_record env row h p raw) db" "(e, db2) = sendRelayMail env host port sender tos raw db1"
    for row h p raw i db1 host port sender tos e db2
  proof -
    define rec where "rec = resent_record env row h p raw"
    have raw: "sr_Raw rec = raw" by (simp add: rec_def resent_record_def)
    note that = that [folded rec_def, folded raw]
    have db1: "sent_honest db1" using InsertPending_honest [OF assms(1), of env rec] that(1) [symmetric] by simp
    have same: "md_Sent db2 = md_Sent db1"
      using sendRelayMail_sent [of env host port sender tos "sr_Raw rec" db1] that(2) [symmetric] by simp
    have db2: "sent_honest db2"
      by (rule sent_honest_outbox [OF db1])
        (use same sendRelayMail_left [OF that(2) [symmetric]] in auto)
    have new: "\<forall>x \<in> set (md_Sent db2). sm_ID x = i \<longrightarrow> sm_RawMessage x = sr_Raw rec"
      using InsertPending_new [OF that(1) [symmetric] assms(2)] same by simp
    have left: "e = None \<Longrightarrow> \<exists>s \<in> set (md_Outbox db2). sn_Raw s = sr_Raw rec"
      using sendRelayMail_left [OF that(2) [symmetric]] by simp
    show ?thesis
      using db2 new left by (auto simp: list_ex_iff split: option.split intro!: Finish_honest)
  qed
  have ins: "(x, db1) = InsertPending env rec db \<Longrightarrow> sent_honest db1" for x db1 rec
    using InsertPending_honest [OF assms(1), of env rec] by (metis snd_conv)
  show ?thesis
    unfolding resend_def
    by (rule ends_inI, intro handler_walk)
      (simp_all add: assms(1) step ins)
qed

end
