(* ===== verification/Spoofing.thy ===== *)
theory Spoofing
  imports Sql
begin

text \<open>
  \<open>internal/spoofing\<close>: warnings from the stored reason and the names of the stored symbols. A stored
  text that is no JSON object has no symbols.
\<close>

record spoof_result =
  sp_Status :: string
  sp_Warning :: string
  sp_Signals :: "string list"

definition symbolNames :: "json option \<Rightarrow> string list" where
  "symbolNames raw = (case raw of Some (JObj kvs) \<Rightarrow> map (\<lambda>kv. to_upper (trim_space (fst kv))) kvs | _ \<Rightarrow> [])"

definition name_in :: "string list \<Rightarrow> string \<Rightarrow> bool" where
  "name_in names want = list_ex (\<lambda>n. n = to_upper want) names"

definition name_containing :: "string list \<Rightarrow> string \<Rightarrow> string list \<Rightarrow> bool" where
  "name_containing names required alternatives =
     list_ex (\<lambda>n. contains n (to_upper required) \<and> list_ex (\<lambda>a. contains n (to_upper a)) alternatives) names"

definition containsFold :: "string \<Rightarrow> string \<Rightarrow> bool" where
  "containsFold value sub = contains (to_lower value) (to_lower sub)"

definition unique_signals :: "string list \<Rightarrow> string list" where
  "unique_signals values = dedup_on (\<lambda>v. v) [] (filter (\<lambda>v. v \<noteq> []) values)"

text \<open>The signals in the order in which they are appended.\<close>

definition spoof_signals :: "string \<Rightarrow> string list \<Rightarrow> string list" where
  "spoof_signals reason names =
     map snd (filter fst
       [(containsFold reason ''sender failed DMARC reject policy'', ''DMARC reject policy failed''),
        (containsFold reason ''sender failed DMARC quarantine policy'', ''DMARC quarantine policy failed''),
        (containsFold reason ''sender failed SPF/DKIM/DMARC authentication'', ''SPF, DKIM, or DMARC failed''),
        (containsFold reason ''sender authentication results missing'', ''Sender authentication results missing''),
        (name_in names ''DMARC_POLICY_REJECT'', ''DMARC reject policy failed''),
        (name_in names ''DMARC_POLICY_QUARANTINE'', ''DMARC quarantine policy failed''),
        (name_in names ''R_SPF_FAIL'' \<or> name_in names ''R_SPF_PERMFAIL'', ''SPF failed''),
        (name_in names ''R_SPF_SOFTFAIL'', ''SPF softfail''),
        (name_containing names ''DKIM'' [''FAIL'', ''REJECT''], ''DKIM failed'')])"

definition Analyze :: "string \<Rightarrow> json option \<Rightarrow> spoof_result" where
  "Analyze reason0 symbols =
     (let reason = trim_space reason0; names = symbolNames symbols; signals = unique_signals (spoof_signals reason names)
      in if signals \<noteq> [] then
           \<lparr>sp_Status = ''suspected_spoof'',
            sp_Warning = ''Possible spoofed email: the sender domain did not pass normal mail authentication checks.'',
            sp_Signals = signals\<rparr>
         else if list_ex (name_in names) [''DMARC_POLICY_ALLOW'', ''R_DKIM_ALLOW'', ''R_SPF_ALLOW''] then
           \<lparr>sp_Status = ''authenticated'', sp_Warning = [], sp_Signals = []\<rparr>
         else if list_ex (name_in names) [''AUTH_NA'', ''DMARC_NA'', ''R_DKIM_NA'', ''R_SPF_NA''] then
           \<lparr>sp_Status = ''missing'', sp_Warning = [], sp_Signals = []\<rparr>
         else \<lparr>sp_Status = [], sp_Warning = [], sp_Signals = []\<rparr>)"

text \<open>Only the set of names counts, so the order in which Go ranges over the decoded map does not matter.\<close>

lemma Analyze_order:
  assumes "fst ` set kvs = fst ` set kvs'"
  shows "Analyze reason (Some (JObj kvs)) = Analyze reason (Some (JObj kvs'))"
proof -
  let ?up = "\<lambda>n. to_upper (trim_space n)"
  have "set (symbolNames (Some (JObj kvs))) = set (symbolNames (Some (JObj kvs')))"
    using arg_cong [OF assms, of "image ?up"] by (simp add: symbolNames_def image_image)
  then have same: "name_in (symbolNames (Some (JObj kvs))) = name_in (symbolNames (Some (JObj kvs')))"
    "name_containing (symbolNames (Some (JObj kvs))) = name_containing (symbolNames (Some (JObj kvs')))"
    by (auto simp: fun_eq_iff name_in_def name_containing_def list_ex_iff)
  show ?thesis unfolding Analyze_def Let_def spoof_signals_def same ..
qed

end
