(* ===== verification/PhishingReports.thy ===== *)
theory PhishingReports
  imports SentEmails
begin

text \<open>
  \<open>internal/phishingreports/reports.go\<close>: the records of confirmed phishing, and what a scanner's verdict
  does to a message that was already logged. The alert that is sent after the commit is recorded in
  \<open>md_Alerts\<close>; its error is only logged.
\<close>

definition reportableScanVerdict :: "string \<Rightarrow> bool" where
  "reportableScanVerdict verdict = (verdict \<in> {''phishing'', ''malicious'', ''malware''})"

definition reportableUserVerdict :: "string \<Rightarrow> bool" where
  "reportableUserVerdict verdict = (verdict \<in> {''phishing'', ''malware''})"

definition scannerDetectionReason :: "string \<Rightarrow> string" where
  "scannerDetectionReason verdict =
     (if verdict = ''malware'' then ''scanner verified malware'' else ''scanner verified phishing'')"

text \<open>\<open>ON CONFLICT DO UPDATE\<close>: the creation time is kept; a report of a user also takes the new reporter.\<close>

definition merge_report :: "phishing_report_row \<Rightarrow> phishing_report_row \<Rightarrow> phishing_report_row" where
  "merge_report r new =
     r\<lparr>pr_DomainID := pr_DomainID new, pr_MailLogID := pr_MailLogID new, pr_Status := pr_Status new,
       pr_PhishingType := pr_PhishingType new, pr_Verdict := pr_Verdict new, pr_Evidence := pr_Evidence new,
       pr_ReportedAt := pr_ReportedAt new, pr_UpdatedAt := pr_UpdatedAt new\<rparr>"

definition merge_user_report :: "phishing_report_row \<Rightarrow> phishing_report_row \<Rightarrow> phishing_report_row" where
  "merge_user_report r new = (merge_report r new)\<lparr>pr_ReporterUserID := pr_ReporterUserID new\<rparr>"

definition scan_report :: "nat \<Rightarrow> mail_log_row list \<Rightarrow> scan_job_row \<Rightarrow> string \<Rightarrow> json \<Rightarrow> phishing_report_row" where
  "scan_report now logs j verdict evidence =
     \<lparr>pr_OrganizationID = sj_OrganizationID j,
      pr_DomainID = (case Option.bind (sj_MailLogID j) (log_by_id logs) of None \<Rightarrow> None | Some m \<Rightarrow> ml_DomainID m),
      pr_MailLogID = sj_MailLogID j, pr_MailboxMessageID = None, pr_QuarantineEntryID = None, pr_ScanJobID = Some (sj_ID j),
      pr_Source = ''scanner'', pr_Status = ''auto_verified'',
      pr_PhishingType = (if verdict = ''malware'' then ''malware'' else if sj_Kind j = ''qr'' then ''qr phishing''
        else if sj_Kind j = ''sandbox'' then ''browser phishing'' else ''phishing''),
      pr_Verdict = verdict, pr_ReporterUserID = None, pr_Evidence = evidence, pr_ReportedAt = now, pr_UpdatedAt = now\<rparr>"

text \<open>The first statement of \<open>quarantineScannerHit\<close>: the new disposition and reason of the message.\<close>

definition hit_disposition :: "string \<Rightarrow> string" where
  "hit_disposition d = (if d = ''quarantined'' then ''quarantined'' else ''tagged'')"

definition hit_reason :: "string \<Rightarrow> string option \<Rightarrow> string" where
  "hit_reason reason prev0 =
     (let prev = text_or_empty prev0
      in if list_all (\<lambda>c. c = CHR '' '') prev then reason
         else if contains (to_lower prev) (to_lower reason) then prev
         else prev @ ''; '' @ reason)"

definition scanner_target :: "scan_job_row list \<Rightarrow> mail_log_row list \<Rightarrow> uuid \<Rightarrow> mail_log_row option" where
  "scanner_target jobs logs i =
     (case job_by_id jobs i of
        None \<Rightarrow> None
      | Some j \<Rightarrow>
          (case Option.bind (sj_MailLogID j) (log_by_id logs) of
             None \<Rightarrow> None
           | Some m \<Rightarrow> if ml_Disposition m = ''rejected'' then None else Some m))"

text \<open>A held entry for a recipient of a quarantined message that has none.\<close>

definition held_copy :: "mail_env \<Rightarrow> int \<Rightarrow> string \<Rightarrow> mail_log_row \<Rightarrow> nat \<Rightarrow> string \<Rightarrow> quarantine_row" where
  "held_copy env days threatClass m k recipient =
     \<lparr>qe_ID = mv_QuarantineID env k, qe_OrganizationID = ml_OrganizationID m, qe_MailLogID = Some (ml_ID m),
      qe_DomainID = ml_DomainID m, qe_FromAddr = nullif_empty (text_or_empty (ml_FromAddr m)), qe_ToAddr = recipient,
      qe_Subject = nullif_empty (text_or_empty (ml_Subject m)), qe_RspamdScore = ml_RspamdScore m,
      qe_ThreatClass = Some threatClass, qe_StorageKey = [],
      qe_SizeBytes = (case ml_SizeBytes m of None \<Rightarrow> None | Some n \<Rightarrow> if n = 0 then None else Some n),
      qe_State = ''held'', qe_ExpiresAt = Some (mv_Now env + nat days * 86400), qe_ReceivedAt = ml_ReceivedAt m,
      qe_ReleasedAt = None, qe_ReleasedBy = None, qe_CampaignID = None\<rparr>"

definition held_for :: "uuid \<Rightarrow> string \<Rightarrow> quarantine_row \<Rightarrow> bool" where
  "held_for mailLogID recipient q =
     (qe_MailLogID q = Some mailLogID \<and> to_lower (qe_ToAddr q) = to_lower recipient \<and> qe_State q = ''held'')"

definition held_copies :: "mail_env \<Rightarrow> int \<Rightarrow> string \<Rightarrow> mail_log_row \<Rightarrow> quarantine_row list \<Rightarrow> quarantine_row list" where
  "held_copies env days threatClass m entries =
     map (\<lambda>(k, r). held_copy env days threatClass m k r)
       (enumerate 0 (filter (\<lambda>r. \<not> list_ex (held_for (ml_ID m) r) entries) (ml_ToAddrs m)))"

definition quarantineScannerHit :: "mail_env \<Rightarrow> uuid \<Rightarrow> string \<Rightarrow> mail_db \<Rightarrow> uuid option result \<times> mail_db" where
  "quarantineScannerHit env scanJobID verdict db =
     (let threatClass = (if verdict = ''malware'' then ''MALWARE'' else ''PHISHING''); reason = scannerDetectionReason verdict
      in if mv_Err env ''update scanned log'' then (Inl ''update scanned log'', db)
         else case scanner_target (md_Jobs db) (md_Logs db) scanJobID of
           None \<Rightarrow> (Inr None, db)
         | Some m \<Rightarrow>
             (let db1 = db\<lparr>md_Logs := update_where (\<lambda>l. ml_ID l = ml_ID m)
                    (\<lambda>l. l\<lparr>ml_Disposition := hit_disposition (ml_Disposition l), ml_Reason := Some (hit_reason reason (ml_Reason l))\<rparr>)
                    (md_Logs db)\<rparr>
              in if ml_Disposition m \<noteq> ''quarantined'' then (Inr None, db1)
                 else if mv_Err env ''insert held copies'' then (Inl ''insert held copies'', db1)
                 else
                   (let days = QuarantineRetentionDays (mv_Err env) (mv_Settings env) (ml_OrganizationID m);
                        entries = md_Quarantine db1 @ held_copies env days threatClass m (md_Quarantine db1);
                        db2 = db1\<lparr>md_Quarantine := entries\<rparr>
                    in if mv_Err env ''update threat class'' then (Inl ''update threat class'', db2)
                       else (Inr (Some (ml_ID m)), db2\<lparr>md_Quarantine :=
                              update_where (\<lambda>q. qe_MailLogID q = Some (ml_ID m) \<and> qe_State q = ''held'')
                                (\<lambda>q. q\<lparr>qe_ThreatClass := Some threatClass\<rparr>) entries\<rparr>))))"

text \<open>The transaction: an error takes everything back.\<close>

definition RecordFromScan :: "mail_env \<Rightarrow> uuid \<Rightarrow> string \<Rightarrow> json option \<Rightarrow> mail_db \<Rightarrow> string option \<times> mail_db" where
  "RecordFromScan env scanJobID verdict0 evidence0 db =
     (let verdict = to_lower (trim_space verdict0);
          evidence = (case evidence0 of None \<Rightarrow> JObj [] | Some e \<Rightarrow> e)
      in if \<not> reportableScanVerdict verdict then (None, db)
         else if mv_Err env ''begin'' then (Some ''begin'', db)
         else if mv_Err env ''insert scan report'' then (Some ''insert scan report'', db)
         else
           (let db1 = (case job_by_id (md_Jobs db) scanJobID of
                         None \<Rightarrow> db
                       | Some j \<Rightarrow> db\<lparr>md_Reports := upsert_row pr_ScanJobID merge_report
                           (scan_report (mv_Now env) (md_Logs db) j verdict evidence) (md_Reports db)\<rparr>);
                (r, db2) = quarantineScannerHit env scanJobID verdict db1
            in case r of
                 Inl e \<Rightarrow> (Some e, db)
               | Inr hit \<Rightarrow>
                   if mv_Err env ''commit'' then (Some ''commit'', db)
                   else case hit of
                     None \<Rightarrow> (None, db2)
                   | Some i \<Rightarrow> (None, db2\<lparr>md_Alerts := md_Alerts db2 @ [i]\<rparr>)))"

definition user_report :: "nat \<Rightarrow> uuid \<Rightarrow> string \<Rightarrow> uuid \<Rightarrow> uuid option \<Rightarrow> uuid option \<Rightarrow> uuid option \<Rightarrow> uuid option \<Rightarrow> json_map \<Rightarrow> phishing_report_row" where
  "user_report now org verdict reporter domainID mailLogID mailboxID entryID evidence =
     \<lparr>pr_OrganizationID = org, pr_DomainID = domainID, pr_MailLogID = mailLogID, pr_MailboxMessageID = mailboxID,
      pr_QuarantineEntryID = entryID, pr_ScanJobID = None, pr_Source = ''user'', pr_Status = ''user_reported'',
      pr_PhishingType = (if verdict = ''malware'' then ''malware'' else ''phishing''), pr_Verdict = verdict,
      pr_ReporterUserID = Some reporter, pr_Evidence = JObj evidence, pr_ReportedAt = now, pr_UpdatedAt = now\<rparr>"

definition RecordFromMailbox :: "mail_env \<Rightarrow> uuid \<Rightarrow> string \<Rightarrow> uuid \<Rightarrow> mail_db \<Rightarrow> string option \<times> mail_db" where
  "RecordFromMailbox env i verdict0 reporter db =
     (let verdict = to_lower (trim_space verdict0)
      in if \<not> reportableUserVerdict verdict then (None, db)
         else if mv_Err env ''insert mailbox report'' then (Some ''insert mailbox report'', db)
         else case find (\<lambda>m. mb_ID m = i) (md_Mailbox db) of
           None \<Rightarrow> (None, db)
         | Some m \<Rightarrow> (None, db\<lparr>md_Reports := upsert_row pr_MailboxMessageID merge_user_report
             (user_report (mv_Now env) (mb_OrganizationID m) verdict reporter (mb_DomainID m) (Some (mb_MailLogID m)) (Some i) None
               [(''from_addr'', JStr (text_or_empty (mb_FromAddr m))), (''to_addr'', JStr (mb_ToAddr m)),
                (''subject'', JStr (text_or_empty (mb_Subject m)))]) (md_Reports db)\<rparr>))"

definition RecordFromQuarantine :: "mail_env \<Rightarrow> uuid \<Rightarrow> string \<Rightarrow> uuid \<Rightarrow> mail_db \<Rightarrow> string option \<times> mail_db" where
  "RecordFromQuarantine env i verdict0 reporter db =
     (let verdict = to_lower (trim_space verdict0)
      in if \<not> reportableUserVerdict verdict then (None, db)
         else if mv_Err env ''insert quarantine report'' then (Some ''insert quarantine report'', db)
         else case entry_by_id (md_Quarantine db) i of
           None \<Rightarrow> (None, db)
         | Some q \<Rightarrow> (None, db\<lparr>md_Reports := upsert_row pr_QuarantineEntryID merge_user_report
             (user_report (mv_Now env) (qe_OrganizationID q) verdict reporter (qe_DomainID q) (qe_MailLogID q) None (Some i)
               [(''from_addr'', JStr (text_or_empty (qe_FromAddr q))), (''to_addr'', JStr (qe_ToAddr q)),
                (''subject'', JStr (text_or_empty (qe_Subject q))), (''quarantine_entry_id'', JStr (mv_UUIDText env i))])
             (md_Reports db)\<rparr>))"

end
