(* ===== verification/Gateways.thy ===== *)
theory Gateways
  imports Domains
begin

text \<open>
  \<open>internal/gateways/gateways.go\<close>: the downstream mail servers of a domain. The state is that of
  \<open>Domains\<close>, whose deletions cascade to gateways.
\<close>

record gatewayWriteReq =
  gr_DomainID :: "uuid option"
  gr_Kind :: string
  gr_Host :: string
  gr_Port :: int
  gr_UseTLS :: "bool option"
  gr_Priority :: "int option"
  gr_IsActive :: "bool option"

definition gateway_kinds :: "string list" where
  "gateway_kinds = [''smtp_relay'', ''mailcow'', ''postfix'', ''exchange'', ''m365'', ''gws'']"

definition int4 :: "int \<Rightarrow> bool" where
  "int4 n = (- (2 ^ 31) \<le> n \<and> n < 2 ^ 31)"

definition gateway_by_id :: "faults \<Rightarrow> gateway_row list \<Rightarrow> uuid \<Rightarrow> gateway_row option" where
  "gateway_by_id err rows i = (if err ''select gateway'' then None else find (\<lambda>g. gw_ID g = i) rows)"

definition list_gateways ::
  "faults \<Rightarrow> (string \<Rightarrow> uuid option) \<Rightarrow> (scope \<times> identity) result \<Rightarrow> page \<Rightarrow> string \<Rightarrow> gateway_row list \<Rightarrow>
     gateway_row list_envelope response" where
  "list_gateways err parse_uuid sc pg did rows =
     (case sc of
        Inl e \<Rightarrow> WriteError 500 ''scope''
      | Inr (scope, ident) \<Rightarrow>
          (let domain = (if did = [] then None else parse_uuid did);
               visible = filter (\<lambda>g. (IsSuperAdmin scope \<or> gw_OrganizationID g \<in> set (VisibleOrgIDs scope)) \<and>
                 (case domain of None \<Rightarrow> True | Some d \<Rightarrow> gw_DomainID g = d)) rows
           in if err ''count gateways'' then WriteError 500 ''db''
              else if err ''select gateways'' then WriteError 500 ''select gateways''
              else WriteJSON 200 (envelope pg (sort_key (\<lambda>g. (gw_Priority g, map byte (gw_Host g))) visible))))"

definition new_gateway :: "uuid \<Rightarrow> nat \<Rightarrow> uuid \<Rightarrow> uuid \<Rightarrow> gatewayWriteReq \<Rightarrow> gateway_row" where
  "new_gateway i now org domainID req =
     \<lparr>gw_ID = i, gw_OrganizationID = org, gw_DomainID = domainID,
      gw_Kind = (if gr_Kind req = [] then ''smtp_relay'' else gr_Kind req), gw_Host = gr_Host req,
      gw_Port = (if gr_Port req = 0 then 25 else gr_Port req), gw_UseTLS = coalesce (gr_UseTLS req) True,
      gw_Priority = coalesce (gr_Priority req) 10, gw_IsActive = True, gw_CreatedAt = now, gw_UpdatedAt = now\<rparr>"

definition storable_gateway :: "gateway_row \<Rightarrow> bool" where
  "storable_gateway g = (gw_Kind g \<in> set gateway_kinds \<and> int4 (gw_Port g) \<and> int4 (gw_Priority g))"

definition create_gateway ::
  "faults \<Rightarrow> uuid \<Rightarrow> nat \<Rightarrow> (scope \<times> identity) result \<Rightarrow> gatewayWriteReq result \<Rightarrow> domain_db \<Rightarrow> gateway_row response \<times> domain_db" where
  "create_gateway err i now sc body db =
     (case sc of
        Inl e \<Rightarrow> (WriteError 500 ''scope'', db)
      | Inr (scope, ident) \<Rightarrow>
          case body of
            Inl e \<Rightarrow> (WriteError 400 e, db)
          | Inr req \<Rightarrow>
              case (if gr_Host req = [] then None else gr_DomainID req) of
                None \<Rightarrow> (WriteError 400 ''domain_id and host required'', db)
              | Some domainID \<Rightarrow>
                  case (if err ''select domain org'' then None else domain_by_id (dd_Domains db) domainID) of
                    None \<Rightarrow> (WriteError 400 ''domain not found'', db)
                  | Some d \<Rightarrow>
                      if \<not> CanAdmin scope (id_Role ident) (dm_OrganizationID d) then
                        (WriteError 403 ''forbidden for that organization'', db)
                      else
                        (let g = new_gateway i now (dm_OrganizationID d) domainID req
                         in if err ''insert gateways'' \<or> \<not> storable_gateway g \<or> i \<in> gw_ID ` set (dd_Gateways db) then
                              (WriteError 500 ''create failed: '', db)
                            else (WriteJSON 201 g, db\<lparr>dd_Gateways := dd_Gateways db @ [g]\<rparr>)))"

definition read_gateway :: "faults \<Rightarrow> uuid option \<Rightarrow> (scope \<times> identity) result \<Rightarrow> gateway_row list \<Rightarrow> gateway_row response" where
  "read_gateway err param sc rows =
     (case param of
        None \<Rightarrow> WriteError 400 ''invalid id''
      | Some i \<Rightarrow>
          case sc of
            Inl e \<Rightarrow> WriteError 500 ''scope''
          | Inr (scope, ident) \<Rightarrow>
              case gateway_by_id err rows i of
                None \<Rightarrow> WriteError 404 ''not found''
              | Some g \<Rightarrow>
                  if \<not> Allows scope (gw_OrganizationID g) then WriteError 404 ''not found'' else WriteJSON 200 g)"

definition updated_gateway :: "nat \<Rightarrow> gatewayWriteReq \<Rightarrow> gateway_row \<Rightarrow> gateway_row" where
  "updated_gateway now req g =
     g\<lparr>gw_Kind := coalesce_text (gr_Kind req) (gw_Kind g), gw_Host := coalesce_text (gr_Host req) (gw_Host g),
       gw_Port := (if gr_Port req = 0 then gw_Port g else gr_Port req), gw_UseTLS := coalesce (gr_UseTLS req) (gw_UseTLS g),
       gw_Priority := coalesce (gr_Priority req) (gw_Priority g), gw_IsActive := coalesce (gr_IsActive req) (gw_IsActive g),
       gw_UpdatedAt := now\<rparr>"

definition update_gateway ::
  "faults \<Rightarrow> nat \<Rightarrow> uuid option \<Rightarrow> (scope \<times> identity) result \<Rightarrow> gatewayWriteReq result \<Rightarrow> domain_db \<Rightarrow>
     gateway_row response \<times> domain_db" where
  "update_gateway err now param sc body db =
     (case param of
        None \<Rightarrow> (WriteError 400 ''invalid id'', db)
      | Some i \<Rightarrow>
          case sc of
            Inl e \<Rightarrow> (WriteError 500 ''scope'', db)
          | Inr (scope, ident) \<Rightarrow>
              case gateway_by_id err (dd_Gateways db) i of
                None \<Rightarrow> (WriteError 404 ''not found'', db)
              | Some g \<Rightarrow>
                  if \<not> CanAdmin scope (id_Role ident) (gw_OrganizationID g) then (WriteError 403 ''forbidden'', db)
                  else case body of
                    Inl e \<Rightarrow> (WriteError 400 e, db)
                  | Inr req \<Rightarrow>
                      if err ''update gateways'' \<or> \<not> storable_gateway (updated_gateway now req g) then
                        (WriteError 500 ''update failed: '', db)
                      else
                        (let rows = update_where (\<lambda>g. gw_ID g = i) (updated_gateway now req) (dd_Gateways db)
                         in (read_gateway err param sc rows, db\<lparr>dd_Gateways := rows\<rparr>)))"

definition del_gateway ::
  "faults \<Rightarrow> uuid option \<Rightarrow> (scope \<times> identity) result \<Rightarrow> domain_db \<Rightarrow> unit response \<times> domain_db" where
  "del_gateway err param sc db =
     (case param of
        None \<Rightarrow> (WriteError 400 ''invalid id'', db)
      | Some i \<Rightarrow>
          case sc of
            Inl e \<Rightarrow> (WriteError 500 ''scope'', db)
          | Inr (scope, ident) \<Rightarrow>
              case gateway_by_id err (dd_Gateways db) i of
                None \<Rightarrow> (WriteError 404 ''not found'', db)
              | Some g \<Rightarrow>
                  if \<not> CanAdmin scope (id_Role ident) (gw_OrganizationID g) then (WriteError 403 ''forbidden'', db)
                  else if err ''delete gateways'' then (WriteError 500 ''delete failed'', db)
                  else (WriteHeader 204, db\<lparr>dd_Gateways := filter (\<lambda>g. gw_ID g \<noteq> i) (dd_Gateways db)\<rparr>))"

section \<open>Properties\<close>

datatype gateway_cmd =
    CreateGateway uuid nat "gatewayWriteReq result"
  | UpdateGateway nat "uuid option" "gatewayWriteReq result"
  | DeleteGateway "uuid option"

fun gateway_step :: "faults \<Rightarrow> gateway_cmd \<Rightarrow> (scope \<times> identity) result \<Rightarrow> domain_db \<Rightarrow> domain_db" where
  "gateway_step err (CreateGateway i now body) sc db = snd (create_gateway err i now sc body db)"
| "gateway_step err (UpdateGateway now i body) sc db = snd (update_gateway err now i sc body db)"
| "gateway_step err (DeleteGateway i) sc db = snd (del_gateway err i sc db)"

lemma gateway_by_id_Some: "gateway_by_id err rows i = Some g \<Longrightarrow> g \<in> set rows \<and> gw_ID g = i"
  by (auto simp: gateway_by_id_def find_Some_iff split: if_splits)

lemma updated_gateway_keys [simp]:
  "gw_ID (updated_gateway now req g) = gw_ID g"
  "gw_OrganizationID (updated_gateway now req g) = gw_OrganizationID g"
  "gw_DomainID (updated_gateway now req g) = gw_DomainID g"
  by (simp_all add: updated_gateway_def)

lemma create_gateway_cases:
  assumes "P db"
    and "\<And>d req scope ident. sc = Inr (scope, ident) \<Longrightarrow> CanAdmin scope (id_Role ident) (dm_OrganizationID d) \<Longrightarrow>
      domain_by_id (dd_Domains db) (dm_ID d) = Some d \<Longrightarrow> i \<notin> gw_ID ` set (dd_Gateways db) \<Longrightarrow>
      storable_gateway (new_gateway i now (dm_OrganizationID d) (dm_ID d) req) \<Longrightarrow>
      P (db\<lparr>dd_Gateways := dd_Gateways db @ [new_gateway i now (dm_OrganizationID d) (dm_ID d) req]\<rparr>)"
  shows "P (snd (create_gateway err i now sc body db))"
proof -
  have new: "P (db\<lparr>dd_Gateways := dd_Gateways db @ [new_gateway i now (dm_OrganizationID d) dom req]\<rparr>)"
    if "sc = Inr (scope, ident)" "CanAdmin scope (id_Role ident) (dm_OrganizationID d)"
      "domain_by_id (dd_Domains db) dom = Some d" "i \<notin> gw_ID ` set (dd_Gateways db)"
      "storable_gateway (new_gateway i now (dm_OrganizationID d) dom req)" for d dom req scope ident
    using assms(2) that domain_by_id_Some [OF that(3)] by auto
  show ?thesis
    unfolding create_gateway_def
    by (rule ends_inI, intro handler_walk) (auto simp: assms(1) split: if_splits intro!: new)
qed

lemma update_gateway_cases:
  assumes "P db"
    and "\<And>i g req scope ident. sc = Inr (scope, ident) \<Longrightarrow> gateway_by_id err (dd_Gateways db) i = Some g \<Longrightarrow>
      CanAdmin scope (id_Role ident) (gw_OrganizationID g) \<Longrightarrow> storable_gateway (updated_gateway now req g) \<Longrightarrow>
      P (db\<lparr>dd_Gateways := update_where (\<lambda>g. gw_ID g = i) (updated_gateway now req) (dd_Gateways db)\<rparr>)"
  shows "P (snd (update_gateway err now param sc body db))"
  unfolding update_gateway_def
  by (rule ends_inI, intro handler_walk) (simp_all add: assms)

lemma del_gateway_cases:
  assumes "P db"
    and "\<And>i g scope ident. sc = Inr (scope, ident) \<Longrightarrow> gateway_by_id err (dd_Gateways db) i = Some g \<Longrightarrow>
      CanAdmin scope (id_Role ident) (gw_OrganizationID g) \<Longrightarrow>
      P (db\<lparr>dd_Gateways := filter (\<lambda>g. gw_ID g \<noteq> i) (dd_Gateways db)\<rparr>)"
  shows "P (snd (del_gateway err param sc db))"
  unfolding del_gateway_def
  by (rule ends_inI, intro handler_walk) (simp_all add: assms)

definition may_admin_gateway :: "(scope \<times> identity) result \<Rightarrow> gateway_row \<Rightarrow> bool" where
  "may_admin_gateway sc g = may_admin sc (gw_OrganizationID g)"

lemma gateway_step_change:
  assumes "distinct (map gw_ID (dd_Gateways db))"
  shows "table_change gw_ID (may_admin_gateway sc) (dd_Gateways db) (dd_Gateways (gateway_step err cmd sc db))"
proof (cases cmd)
  case (CreateGateway i now body)
  show ?thesis
    unfolding CreateGateway gateway_step.simps
    by (rule create_gateway_cases [of "\<lambda>db'. table_change gw_ID (may_admin_gateway sc) (dd_Gateways db) (dd_Gateways db')"])
      (auto simp: new_gateway_def intro: table_change.keep table_change.insert)
next
  case (UpdateGateway now param body)
  show ?thesis
    unfolding UpdateGateway gateway_step.simps
  proof (rule update_gateway_cases, goal_cases)
    case (2 i g req scope ident)
    then have "may_admin_gateway sc g" by (simp add: may_admin_gateway_def may_admin_def)
    with gateway_by_id_Some [OF 2(2)] table_change_update [OF _ _ _ assms, of g "may_admin_gateway sc" "updated_gateway now req"]
    show ?case by auto
  qed (rule table_change.keep)
next
  case (DeleteGateway param)
  show ?thesis
    unfolding DeleteGateway gateway_step.simps
  proof (rule del_gateway_cases, goal_cases)
    case (2 i g scope ident)
    then have "may_admin_gateway sc g" by (simp add: may_admin_gateway_def may_admin_def)
    with gateway_by_id_Some [OF 2(2)] table_change.delete [where key = gw_ID and r = g and rows = "dd_Gateways db"]
    show ?case by auto
  qed (rule table_change.keep)
qed

interpretation gateway_table: tenant_state "gateway_step err" dd_Gateways gw_ID may_admin_gateway for err
  by unfold_locales (rule gateway_step_change)

text \<open>Tenant isolation of gateways.\<close>

theorem gateways_isolated:
  assumes "distinct (map gw_ID (dd_Gateways db))" "g \<in> set (dd_Gateways db)"
    and "list_all (\<lambda>(_, sc). \<not> may_admin sc (gw_OrganizationID g)) reqs"
  shows "g \<in> set (dd_Gateways (foldl (\<lambda>db (cmd, sc). gateway_step err cmd sc db) db reqs))"
  using gateway_table.requests_foreign [OF assms(1,2), of reqs err] assms(3)
  by (simp add: may_admin_gateway_def)

text \<open>
  Gateways and domains together: the rows that requests to either handler can build. Mail for a domain is
  only routed by its own organization, since the lookup for a release joins on both columns.
\<close>

definition gateways_ok :: "domain_db \<Rightarrow> bool" where
  "gateways_ok db =
     list_all (\<lambda>g. storable_gateway g \<and>
       list_ex (\<lambda>d. dm_ID d = gw_DomainID g \<and> dm_OrganizationID d = gw_OrganizationID g) (dd_Domains db)) (dd_Gateways db)"

fun provision_step ::
  "faults \<Rightarrow> organization list \<Rightarrow> setting_row list \<Rightarrow> gateway_cmd + domain_cmd \<Rightarrow> (scope \<times> identity) result \<Rightarrow> domain_db \<Rightarrow> domain_db" where
  "provision_step err orgs rows (Inl cmd) sc db = gateway_step err cmd sc db"
| "provision_step err orgs rows (Inr cmd) sc db = domain_step err orgs rows cmd sc db"

lemma gateway_step_ok:
  assumes "gateways_ok db"
  shows "gateways_ok (gateway_step err cmd sc db)"
proof (cases cmd)
  case (CreateGateway i now body)
  show ?thesis
    unfolding CreateGateway gateway_step.simps
    by (rule create_gateway_cases, rule assms)
      (use assms in \<open>auto simp: gateways_ok_def list_all_iff list_ex_iff new_gateway_def dest!: domain_by_id_Some\<close>)
next
  case (UpdateGateway now param body)
  show ?thesis
    unfolding UpdateGateway gateway_step.simps
  proof (rule update_gateway_cases, goal_cases)
    case (2 i g req scope ident)
    have col: "storable_gateway x \<Longrightarrow> storable_gateway (updated_gateway now req g) \<Longrightarrow> storable_gateway (updated_gateway now req x)" for x
      by (auto simp: storable_gateway_def updated_gateway_def coalesce_text_def coalesce_def split: if_splits option.splits)
    with 2(4) assms show ?case
      by (auto simp: gateways_ok_def list_all_iff update_where_def)
  qed (rule assms)
next
  case (DeleteGateway param)
  show ?thesis
    unfolding DeleteGateway gateway_step.simps
    by (rule del_gateway_cases, rule assms) (use assms in \<open>auto simp: gateways_ok_def list_all_iff\<close>)
qed

lemma update_domain_row_org [simp]: "dm_OrganizationID (update_domain_row now req d) = dm_OrganizationID d"
  by (simp add: update_domain_row_def)

lemma domain_step_ok:
  assumes "gateways_ok db" "distinct (map dm_ID (dd_Domains db))"
  shows "gateways_ok (domain_step err orgs rows cmd sc db)"
proof (cases cmd)
  case (CreateDomain i p now body)
  show ?thesis
    unfolding CreateDomain domain_step.simps
    by (rule create_domain_cases, rule assms) (use assms in \<open>auto simp: gateways_ok_def list_all_iff\<close>)
next
  case (UpdateDomain now param body)
  show ?thesis
    unfolding UpdateDomain domain_step.simps
  proof (rule update_domain_cases, goal_cases)
    case (2 i d x req scope ident)
    have d: "d \<in> set (dd_Domains db)" "dm_ID d = i" using find_domain_Some [OF 2(2)] by auto
    let ?rows = "update_where (\<lambda>x. dm_ID x = i) (\<lambda>_. update_domain_row now req d) (dd_Domains db)"
    have keys: "map (\<lambda>x. (dm_ID x, dm_OrganizationID x)) ?rows = map (\<lambda>x. (dm_ID x, dm_OrganizationID x)) (dd_Domains db)"
      using d assms(2) by (auto simp: update_where_def distinct_map inj_on_def)
    have same: "(\<lambda>x. (dm_ID x, dm_OrganizationID x)) ` set ?rows = (\<lambda>x. (dm_ID x, dm_OrganizationID x)) ` set (dd_Domains db)"
      using arg_cong [OF keys, of set] by (simp only: set_map)
    have mem: "(\<exists>x \<in> X. dm_ID x = a \<and> dm_OrganizationID x = b) = ((a, b) \<in> (\<lambda>x. (dm_ID x, dm_OrganizationID x)) ` X)"
      for a b and X :: "domain_row set" by auto
    have "(\<exists>x \<in> set ?rows. dm_ID x = a \<and> dm_OrganizationID x = b) = (\<exists>x \<in> set (dd_Domains db). dm_ID x = a \<and> dm_OrganizationID x = b)" for a b
      unfolding mem same ..
    with assms(1) show ?case by (simp add: gateways_ok_def list_all_iff list_ex_iff)
  qed (rule assms)
next
  case (DeleteDomain param)
  show ?thesis
    unfolding DeleteDomain domain_step.simps
    by (rule del_domain_cases, rule assms)
      (use assms in \<open>fastforce simp: gateways_ok_def list_all_iff list_ex_iff delete_domain_rows_def\<close>)
qed

text \<open>C9 (well-typed gateways): whatever series of gateway and domain requests arrives, every gateway has
  an existing domain of its own organization, a known kind, and a port and priority that fit their columns.\<close>

theorem gateways_well_typed:
  assumes "distinct (map dm_ID (dd_Domains db))" "gateways_ok db"
  shows "gateways_ok (foldl (\<lambda>db (cmd, sc). provision_step err orgs rows cmd sc db) db reqs)"
proof -
  have same: "dd_Domains (gateway_step err cmd sc db) = dd_Domains db" for cmd sc and db :: domain_db
    by (cases cmd; simp only: gateway_step.simps)
      ((rule create_gateway_cases update_gateway_cases del_gateway_cases; simp)+)
  have dist: "distinct (map dm_ID (dd_Domains (provision_step err orgs rows cmd sc db)))"
    if "distinct (map dm_ID (dd_Domains db))" for cmd sc and db :: domain_db
  proof (cases cmd)
    case (Inr c)
    then show ?thesis using domain_table.requests_distinct [OF that, of err orgs rows "[(c, sc)]"] by simp
  qed (simp add: same that)
  have "gateways_ok (provision_step err orgs rows cmd sc db)"
    if "gateways_ok db" "distinct (map dm_ID (dd_Domains db))" for cmd sc and db :: domain_db
    using that by (cases cmd) (simp_all add: gateway_step_ok domain_step_ok)
  with dist assms show ?thesis by (induction reqs arbitrary: db) auto
qed

lemma gateways_well_typed_witness:
  "gateways_ok (foldl (\<lambda>db (cmd, sc). provision_step no_faults [] [] cmd sc db)
     \<lparr>dd_Domains = [sample_domain 5 1 ''x.io''], dd_Policies = [], dd_Entries = [], dd_Gateways = []\<rparr>
     [(Inl (CreateGateway 7 3 (Inr \<lparr>gr_DomainID = Some 5, gr_Kind = [], gr_Host = ''mx'', gr_Port = 0, gr_UseTLS = None,
        gr_Priority = None, gr_IsActive = None\<rparr>)), Inr (sample_caller 1 ''org_admin'')),
      (Inr (DeleteDomain (Some 5)), Inr (sample_caller 1 ''org_admin''))])"
  by (rule gateways_well_typed) (simp_all add: gateways_ok_def)

end
