(* ===== verification/Quarantine.thy ===== *)
theory Quarantine
  imports PhishingReports Spoofing
begin

text \<open>
  \<open>internal/quarantine/quarantine.go\<close>, the life of an entry: what is read with it, the release to the
  downstream gateway, deletion, the purge of expired messages, and the releases that other components
  ask for.
\<close>

record q_entry =
  qn_Row :: quarantine_row
  qn_HasBlob :: bool
  qn_CanRelease :: bool
  qn_ClientIP :: "string option"
  qn_Reason :: "string option"
  qn_Symbols :: json
  qn_CampaignCopies :: nat
  qn_SuppressedCopies :: nat
  qn_UniqueSourceIPs :: nat
  qn_CampaignFirstSeen :: "nat option"
  qn_CampaignLastSeen :: "nat option"
  qn_EmailType :: string
  qn_Scam :: Analysis
  qn_Spoof :: spoof_result
  qn_Headers :: "(string \<times> string) list"
  qn_ContentText :: string
  qn_RawExcerpt :: string

text \<open>\<open>applyAnalysis\<close>: the type shown for an entry.\<close>

definition entry_type :: "Analysis \<Rightarrow> quarantine_row \<Rightarrow> string" where
  "entry_type a q =
     (if EmailType a \<noteq> ''Clean or uncategorized'' then EmailType a
      else if trim_space (text_or_empty (qe_ThreatClass q)) \<noteq> [] then text_or_empty (qe_ThreatClass q)
      else if (case qe_RspamdScore q of None \<Rightarrow> False | Some s \<Rightarrow> s \<ge> 7) then ''Likely spam''
      else ''Quarantined message'')"

definition has_blob :: "quarantine_blob list \<Rightarrow> uuid \<Rightarrow> bool" where
  "has_blob blobs i = list_ex (\<lambda>b. qb_EntryID b = i) blobs"

definition scan_entry :: "mail_env \<Rightarrow> mail_db \<Rightarrow> quarantine_row \<Rightarrow> q_entry" where
  "scan_entry env db q =
     (let blob = has_blob (md_QuarantineBlobs db) (qe_ID q);
          log' = Option.bind (qe_MailLogID q) (log_by_id (md_Logs db));
          camp = (case qe_CampaignID q of None \<Rightarrow> None | Some c \<Rightarrow> find (\<lambda>r. cp_ID r = c) (md_Campaigns db));
          analysis = AnalyzeCommonScam (text_or_empty (qe_Subject q)) [];
          reason = Option.bind log' ml_Reason;
          symbols = (case Option.bind log' ml_Symbols of None \<Rightarrow> JObj [] | Some v \<Rightarrow> v)
      in \<lparr>qn_Row = q, qn_HasBlob = blob, qn_CanRelease = (qe_State q = ''held'' \<and> blob),
          qn_ClientIP = map_option (mv_InetText env) (Option.bind log' ml_ClientIP), qn_Reason = reason, qn_Symbols = symbols,
          qn_CampaignCopies = (case camp of None \<Rightarrow> 1 | Some c \<Rightarrow> cp_MessageCount c),
          qn_SuppressedCopies = (case camp of None \<Rightarrow> 0 | Some c \<Rightarrow> cp_SuppressedCount c),
          qn_UniqueSourceIPs = (case camp of None \<Rightarrow> 0 | Some c \<Rightarrow> cp_UniqueSourceIPs c),
          qn_CampaignFirstSeen = map_option cp_FirstSeen camp, qn_CampaignLastSeen = map_option cp_LastSeen camp,
          qn_EmailType = entry_type analysis q, qn_Scam = analysis,
          qn_Spoof = Spoofing.Analyze (text_or_empty reason) (Some symbols),
          qn_Headers = [], qn_ContentText = [], qn_RawExcerpt = []\<rparr>)"

lemma scan_entry_Row [simp]: "qn_Row (scan_entry env db q) = q"
  by (simp add: scan_entry_def Let_def)

lemma scan_entry_HasBlob [simp]: "qn_HasBlob (scan_entry env db q) = has_blob (md_QuarantineBlobs db) (qe_ID q)"
  by (simp add: scan_entry_def Let_def)

definition select_entry :: "mail_env \<Rightarrow> mail_db \<Rightarrow> uuid \<Rightarrow> q_entry option" where
  "select_entry env db i =
     (if mv_Err env ''select quarantine_entries'' then None else map_option (scan_entry env db) (entry_by_id (md_Quarantine db) i))"

lemma select_entry_Some:
  "select_entry env db i = Some e \<Longrightarrow> qn_Row e \<in> set (md_Quarantine db) \<and> qe_ID (qn_Row e) = i \<and>
     qn_HasBlob e = has_blob (md_QuarantineBlobs db) i"
  by (auto simp: select_entry_def dest: entry_by_id_Some split: if_splits)

definition canEndUserAct :: "identity \<Rightarrow> quarantine_row \<Rightarrow> bool" where
  "canEndUserAct ident q =
     (if id_Role ident \<noteq> ''org_user'' then False
      else equal_fold (trim_space (qe_ToAddr q)) (trim_space (id_Email ident)))"

section \<open>Reading\<close>

definition maxDetailBytes :: nat where "maxDetailBytes = 128 * 2 ^ 10"

definition preferred_headers :: "string list" where
  "preferred_headers =
     [''From'', ''To'', ''Cc'', ''Bcc'', ''Reply-To'', ''Subject'', ''Date'', ''Message-Id'', ''Return-Path'', ''Received'',
      ''Authentication-Results'', ''DKIM-Signature'', ''Content-Type'']"

definition headerLines :: "(string \<times> string list) list \<Rightarrow> (string \<times> string) list" where
  "headerLines h =
     (let lines = (\<lambda>(name, values). map (\<lambda>v. (name, v)) values);
          values_of = (\<lambda>name. case map_of h name of None \<Rightarrow> [] | Some vs \<Rightarrow> vs);
          seen = map to_lower (filter (\<lambda>n. values_of n \<noteq> []) preferred_headers)
      in concat (map (\<lambda>n. lines (n, values_of n)) preferred_headers) @
         concat (map lines (filter (\<lambda>(n, _). to_lower n \<notin> set seen) h)))"

definition loadStoredMessageDetail :: "mail_env \<Rightarrow> mail_db \<Rightarrow> q_entry \<Rightarrow> q_entry result" where
  "loadStoredMessageDetail env db e =
     (if \<not> qn_HasBlob e then Inr e
      else if mv_Err env ''select blob'' then Inl ''select blob''
      else case find (\<lambda>b. qb_EntryID b = qe_ID (qn_Row e)) (md_QuarantineBlobs db) of
        None \<Rightarrow> Inr e
      | Some b \<Rightarrow>
          (let raw = qb_Bytes b; excerpt = take maxDetailBytes raw; e1 = e\<lparr>qn_RawExcerpt := excerpt\<rparr>
           in if raw = [] then Inr e
              else case mv_ReadMessage env raw of
                None \<Rightarrow> Inr (e1\<lparr>qn_ContentText := excerpt\<rparr>)
              | Some (h, body) \<Rightarrow> Inr (e1\<lparr>qn_Headers := headerLines h, qn_ContentText := take maxDetailBytes body\<rparr>)))"

definition read_entry :: "mail_env \<Rightarrow> uuid option \<Rightarrow> (scope \<times> identity) result \<Rightarrow> mail_db \<Rightarrow> q_entry response" where
  "read_entry env param sc db =
     (case param of
        None \<Rightarrow> WriteError 400 ''invalid id''
      | Some i \<Rightarrow>
          case sc of
            Inl e \<Rightarrow> WriteError 500 ''scope''
          | Inr (scope, ident) \<Rightarrow>
              case select_entry env db i of
                None \<Rightarrow> WriteError 404 ''not found''
              | Some e \<Rightarrow>
                  if \<not> Allows scope (qe_OrganizationID (qn_Row e)) then WriteError 404 ''not found''
                  else if id_Role ident = ''org_user'' \<and> \<not> canEndUserAct ident (qn_Row e) then WriteError 404 ''not found''
                  else case loadStoredMessageDetail env db e of
                    Inl _ \<Rightarrow> WriteError 500 ''message detail failed''
                  | Inr e' \<Rightarrow> WriteJSON 200 e')"

text \<open>\<open>encode(bytes, 'escape')\<close>.\<close>

definition escape_byte :: "char \<Rightarrow> string" where
  "escape_byte c =
     (let n = byte c
      in if n = 0 \<or> n \<ge> 128 then CHR 0x5C # map (\<lambda>d. byte_char (48 + d)) [n div 64, n div 8 mod 8, n mod 8]
         else if n = 92 then [CHR 0x5C, CHR 0x5C] else [c])"

definition firstNonEmpty :: "string list \<Rightarrow> string" where
  "firstNonEmpty values = (case find (\<lambda>v. trim_space v \<noteq> []) values of None \<Rightarrow> [] | Some v \<Rightarrow> trim_space v)"

record quarantine_query =
  qq_State :: string
  qq_To :: string
  qq_Search :: string
  qq_Q :: string

definition quarantine_states :: "string list" where
  "quarantine_states = [''held'', ''released'', ''deleted'', ''expired'']"

definition quarantine_matches :: "scope \<Rightarrow> identity \<Rightarrow> quarantine_query \<Rightarrow> quarantine_blob list \<Rightarrow> quarantine_row \<Rightarrow> bool" where
  "quarantine_matches scope ident q blobs r =
     ((IsSuperAdmin scope \<or> qe_OrganizationID r \<in> set (VisibleOrgIDs scope)) \<and>
      (id_Role ident = ''org_user'' \<longrightarrow> to_lower (qe_ToAddr r) = to_lower (trim_space (id_Email ident))) \<and>
      optional_filter (qq_State q) (\<lambda>v r. qe_State r = v) r \<and>
      optional_filter (qq_To q) (\<lambda>v r. like_any v (qe_ToAddr r)) r \<and>
      optional_filter (firstNonEmpty [qq_Search q, qq_Q q])
        (\<lambda>v r. like_any v (text_or_empty (qe_FromAddr r)) \<or> like_any v (qe_ToAddr r) \<or> like_any v (text_or_empty (qe_Subject r)) \<or>
           list_ex (\<lambda>b. qb_EntryID b = qe_ID r \<and> like_any v (concat (map escape_byte (qb_Bytes b)))) blobs) r)"

definition list_quarantine ::
  "mail_env \<Rightarrow> (scope \<times> identity) result \<Rightarrow> page \<Rightarrow> quarantine_query \<Rightarrow> mail_db \<Rightarrow> q_entry list_envelope response" where
  "list_quarantine env sc pg q db =
     (case sc of
        Inl e \<Rightarrow> WriteError 500 ''scope''
      | Inr (scope, ident) \<Rightarrow>
          if mv_Err env ''count quarantine_entries'' \<or> (qq_State q \<noteq> [] \<and> qq_State q \<notin> set quarantine_states) then WriteError 500 ''db''
          else if mv_Err env ''select quarantine_entries'' then WriteError 500 ''select quarantine_entries''
          else WriteJSON 200 (envelope pg (map (scan_entry env db)
                 (sort_key (\<lambda>r. - int (qe_ReceivedAt r)) (filter (quarantine_matches scope ident q (md_QuarantineBlobs db)) (md_Quarantine db))))))"

section \<open>Release and deletion\<close>

definition gatewayForRelease :: "mail_env \<Rightarrow> quarantine_row \<Rightarrow> (string \<times> int) result" where
  "gatewayForRelease env q =
     (case qe_DomainID q of
        None \<Rightarrow> Inl ''message has no domain for downstream gateway lookup''
      | Some d \<Rightarrow>
          if mv_Err env ''select gateway'' then Inl ''select gateway''
          else case first_by (\<lambda>g. (gw_Priority g, gw_CreatedAt g))
                 (filter (\<lambda>g. gw_DomainID g = d \<and> gw_OrganizationID g = qe_OrganizationID q \<and> gw_IsActive g) (mv_Gateways env)) of
            None \<Rightarrow> Inl ''no active downstream gateway configured''
          | Some g \<Rightarrow>
              (let host = trim_space (gw_Host g)
               in if host = [] \<or> gw_Port g \<le> 0 then Inl ''downstream gateway is invalid'' else Inr (host, gw_Port g)))"

definition stored_message :: "mail_env \<Rightarrow> mail_db \<Rightarrow> uuid \<Rightarrow> string result" where
  "stored_message env db i =
     (if mv_Err env ''select message_bytes'' then Inl ''select message_bytes''
      else case find (\<lambda>b. qb_EntryID b = i) (md_QuarantineBlobs db) of
        None \<Rightarrow> Inl ''original message is not stored for this quarantine entry''
      | Some b \<Rightarrow> if qb_Bytes b = [] then Inl ''stored message is empty'' else Inr (qb_Bytes b))"

definition release_send :: "quarantine_row \<Rightarrow> string \<Rightarrow> int \<Rightarrow> string \<Rightarrow> smtp_send" where
  "release_send q host port raw =
     \<lparr>sn_Addr = join_host_port host (itoa (nat port)), sn_Plain = False, sn_From = trim_space (text_or_empty (qe_FromAddr q)),
      sn_To = [qe_ToAddr q], sn_Raw = raw\<rparr>"

definition release_record :: "quarantine_row \<Rightarrow> string \<Rightarrow> int \<Rightarrow> string \<Rightarrow> sent_record" where
  "release_record q host port raw =
     \<lparr>sr_OrganizationID = qe_OrganizationID q, sr_DomainID = qe_DomainID q, sr_MailLogID = qe_MailLogID q,
      sr_QuarantineEntryID = Some (qe_ID q), sr_Kind = ''quarantine_release'',
      sr_FromAddr = trim_space (text_or_empty (qe_FromAddr q)), sr_ToAddrs = [qe_ToAddr q],
      sr_Subject = text_or_empty (qe_Subject q), sr_RelayHost = host, sr_RelayPort = port, sr_Raw = raw, sr_Metadata = []\<rparr>"

definition releaseMessage :: "mail_env \<Rightarrow> quarantine_row \<Rightarrow> mail_db \<Rightarrow> string option \<times> mail_db" where
  "releaseMessage env q db =
     (case stored_message env db (qe_ID q) of
        Inl e \<Rightarrow> (Some e, db)
      | Inr raw \<Rightarrow>
          case gatewayForRelease env q of
            Inl e \<Rightarrow> (Some e, db)
          | Inr (host, port) \<Rightarrow> Send env (release_record q host port raw) (release_send q host port raw) db)"

definition set_released :: "nat \<Rightarrow> uuid option \<Rightarrow> quarantine_row \<Rightarrow> quarantine_row" where
  "set_released now by' q = q\<lparr>qe_State := ''released'', qe_ReleasedAt := Some now, qe_ReleasedBy := by'\<rparr>"

definition mark_released :: "mail_env \<Rightarrow> uuid option \<Rightarrow> uuid \<Rightarrow> mail_db \<Rightarrow> mail_db" where
  "mark_released env by' i db =
     db\<lparr>md_Quarantine := update_where (\<lambda>q. qe_ID q = i) (set_released (mv_Now env) by') (md_Quarantine db)\<rparr>"

definition ReleaseHeldForRecipient :: "mail_env \<Rightarrow> uuid \<Rightarrow> string \<Rightarrow> uuid \<Rightarrow> mail_db \<Rightarrow> bool result \<times> mail_db" where
  "ReleaseHeldForRecipient env mailLogID toAddr releasedBy db =
     (if mv_Err env ''select held entry'' then (Inl ''select held entry'', db)
      else case first_by (\<lambda>q. - int (qe_ReceivedAt q)) (filter (held_for mailLogID toAddr) (md_Quarantine db)) of
        None \<Rightarrow> (Inr False, db)
      | Some q \<Rightarrow>
          (let (e, db1) = releaseMessage env q db
           in case e of
                Some msg \<Rightarrow> (Inl msg, db1)
              | None \<Rightarrow>
                  if mv_Err env ''update released'' then (Inl ''update released'', db1)
                  else (Inr True, mark_released env (Some releasedBy) (qe_ID q) db1)))"

definition deep_released :: "mail_env \<Rightarrow> uuid \<Rightarrow> mail_db \<Rightarrow> mail_db" where
  "deep_released env i db =
     db\<lparr>md_Logs := update_where (\<lambda>m. ml_ID m = i \<and> ml_DeepAnalysisState m = ''releasing'')
       (\<lambda>m. m\<lparr>ml_DeepAnalysisState := ''released'', ml_DeepAnalysisReleasedAt := Some (mv_Now env), ml_DeepAnalysisFailureReason := None\<rparr>)
       (md_Logs db)\<rparr>"

definition deep_unavailable :: "uuid \<Rightarrow> string \<Rightarrow> mail_db \<Rightarrow> mail_db" where
  "deep_unavailable i reason db =
     db\<lparr>md_Logs := update_where (\<lambda>m. ml_ID m = i \<and> ml_DeepAnalysisState m = ''releasing'')
       (\<lambda>m. m\<lparr>ml_DeepAnalysisState := ''unavailable'', ml_DeepAnalysisFailureReason := Some reason\<rparr>) (md_Logs db)\<rparr>"

text \<open>The loop over the held entries, read before it starts; the count of released ones and an error.\<close>

fun release_loop :: "mail_env \<Rightarrow> uuid \<Rightarrow> quarantine_row list \<Rightarrow> nat \<Rightarrow> mail_db \<Rightarrow> (nat \<times> string option) \<times> mail_db" where
  "release_loop env i [] n db = ((n, None), db)"
| "release_loop env i (q # qs) n db =
     (let (e, db1) = releaseMessage env q db
      in case e of
           Some msg \<Rightarrow> ((n, Some msg), if mv_Err env ''update unavailable'' then db1 else deep_unavailable i msg db1)
         | None \<Rightarrow>
             if mv_Err env ''update released'' then ((n, Some ''update released''), db1)
             else release_loop env i qs (Suc n)
               (db1\<lparr>md_Quarantine := update_where (\<lambda>x. qe_ID x = qe_ID q \<and> qe_State x = ''held'')
                  (set_released (mv_Now env) None) (md_Quarantine db1)\<rparr>))"

definition ReleaseDeepAnalysisHold :: "mail_env \<Rightarrow> uuid \<Rightarrow> mail_db \<Rightarrow> (nat \<times> string option) \<times> mail_db" where
  "ReleaseDeepAnalysisHold env i db =
     (if mv_Err env ''select held entries'' then ((0, Some ''select held entries''), db)
      else
        (let held = sort_key (\<lambda>q. (qe_ReceivedAt q, map byte (qe_ToAddr q)))
               (filter (\<lambda>q. qe_MailLogID q = Some i \<and> qe_State q = ''held'') (md_Quarantine db));
             ((n, e), db1) = release_loop env i held 0 db
         in case e of
              Some msg \<Rightarrow> ((n, Some msg), db1)
            | None \<Rightarrow>
                if mv_Err env ''update deep released'' then ((n, Some ''update deep released''), db1)
                else ((n, None), deep_released env i db1)))"

definition set_deleted :: "quarantine_row \<Rightarrow> quarantine_row" where
  "set_deleted q = q\<lparr>qe_State := ''deleted''\<rparr>"

definition DeleteHeldForRecipient :: "mail_env \<Rightarrow> uuid \<Rightarrow> string \<Rightarrow> mail_db \<Rightarrow> bool result \<times> mail_db" where
  "DeleteHeldForRecipient env mailLogID toAddr db =
     (if mv_Err env ''update deleted'' then (Inl ''update deleted'', db)
      else (Inr (list_ex (held_for mailLogID toAddr) (md_Quarantine db)),
            db\<lparr>md_Quarantine := update_where (held_for mailLogID toAddr) set_deleted (md_Quarantine db)\<rparr>))"

section \<open>Challenge approval\<close>

datatype approval = Approved | InactiveRecipient | ApprovalFailed string

definition inactive_recipient :: string where
  "inactive_recipient = ''recipient account is inactive; activate it before approving mail''"

definition recordChallengeApproval :: "mail_env \<Rightarrow> q_entry \<Rightarrow> identity \<Rightarrow> mail_db \<Rightarrow> approval \<times> mail_db" where
  "recordChallengeApproval env e ident db =
     (let q = qn_Row e;
          pending = (case qe_MailLogID q of
                       None \<Rightarrow> False
                     | Some i \<Rightarrow> \<not> mv_Err env ''select reason'' \<and>
                         (case log_by_id (md_Logs db) i of None \<Rightarrow> False | Some m \<Rightarrow> IsPendingReason (text_or_empty (ml_Reason m))));
          approve = (\<lambda>userID.
            (case UpsertUserDecision (mv_Err env) (mv_Addr env) (mv_View env) (new_entry_id env db) (mv_Now env) (qe_OrganizationID q)
                    (qe_DomainID q) userID (qe_ToAddr q) (text_or_empty (qe_FromAddr q)) ''allow''
                    ''Challenge-response approved from quarantine'' (md_Entries db) of
               (None, entries) \<Rightarrow> (Approved, db\<lparr>md_Entries := entries\<rparr>)
             | (Some err, entries) \<Rightarrow> (ApprovalFailed err, db\<lparr>md_Entries := entries\<rparr>)))
      in if \<not> pending then (Approved, db)
         else if id_Role ident = ''org_user'' then
           (if \<not> canEndUserAct ident q then (Approved, db) else approve (id_UserID ident))
         else if mv_Err env ''select recipient user'' then (ApprovalFailed ''select recipient user'', db)
         else case find (\<lambda>u. u_OrganizationID u = qe_OrganizationID q \<and> to_lower (u_Email u) = to_lower (qe_ToAddr q)) (lv_Users (mv_View env)) of
           None \<Rightarrow> (Approved, db)
         | Some u \<Rightarrow> if \<not> u_IsActive u then (InactiveRecipient, db) else approve (u_ID u))"

section \<open>The handlers release, delete and purge\<close>

definition release :: "mail_env \<Rightarrow> uuid option \<Rightarrow> (scope \<times> identity) result \<Rightarrow> mail_db \<Rightarrow> unit response \<times> mail_db" where
  "release env param sc db =
     (case param of
        None \<Rightarrow> (WriteError 400 ''invalid id'', db)
      | Some i \<Rightarrow>
          case sc of
            Inl e \<Rightarrow> (WriteError 500 ''scope'', db)
          | Inr (scope, ident) \<Rightarrow>
              case select_entry env db i of
                None \<Rightarrow> (WriteError 404 ''not found'', db)
              | Some e \<Rightarrow>
                  if \<not> CanAdmin scope (id_Role ident) (qe_OrganizationID (qn_Row e)) \<and> \<not> canEndUserAct ident (qn_Row e) then
                    (WriteError 403 ''forbidden'', db)
                  else if qe_State (qn_Row e) \<noteq> ''held'' then (WriteError 409 ''not in held state'', db)
                  else
                    (let (a, db1) = recordChallengeApproval env e ident db
                     in case a of
                          InactiveRecipient \<Rightarrow> (WriteError 409 inactive_recipient, db1)
                        | ApprovalFailed _ \<Rightarrow> (WriteError 500 ''sender approval failed'', db1)
                        | Approved \<Rightarrow>
                            (let (r, db2) = releaseMessage env (qn_Row e) db1
                             in case r of
                                  Some msg \<Rightarrow> (WriteError 409 (''release delivery failed: '' @ msg), db2)
                                | None \<Rightarrow>
                                    if mv_Err env ''update released'' then (WriteError 500 ''release failed'', db2)
                                    else (WriteHeader 204, mark_released env (Some (id_UserID ident)) i db2))))"

definition del_entry_row :: "uuid \<Rightarrow> mail_db \<Rightarrow> mail_db" where
  "del_entry_row i db = db\<lparr>md_Quarantine := update_where (\<lambda>q. qe_ID q = i) set_deleted (md_Quarantine db)\<rparr>"

definition del :: "mail_env \<Rightarrow> uuid option \<Rightarrow> (scope \<times> identity) result \<Rightarrow> mail_db \<Rightarrow> unit response \<times> mail_db" where
  "del env param sc db =
     (case param of
        None \<Rightarrow> (WriteError 400 ''invalid id'', db)
      | Some i \<Rightarrow>
          case sc of
            Inl e \<Rightarrow> (WriteError 500 ''scope'', db)
          | Inr (scope, ident) \<Rightarrow>
              case select_entry env db i of
                None \<Rightarrow> (WriteError 404 ''not found'', db)
              | Some e \<Rightarrow>
                  if \<not> CanAdmin scope (id_Role ident) (qe_OrganizationID (qn_Row e)) \<and> \<not> canEndUserAct ident (qn_Row e) then
                    (WriteError 403 ''forbidden'', db)
                  else if mv_Err env ''update deleted'' then (WriteError 500 ''delete failed'', db)
                  else (WriteHeader 204, del_entry_row i db))"

record purgeExpiredResp =
  PurgedEntries :: nat
  PurgedBlobs :: nat
  PurgedMailboxMessages :: nat

definition expired :: "nat \<Rightarrow> bool \<Rightarrow> uuid list \<Rightarrow> nat option \<Rightarrow> uuid \<Rightarrow> bool" where
  "expired now every visible expires org =
     ((case expires of None \<Rightarrow> False | Some t \<Rightarrow> t \<le> now) \<and> (every \<or> org \<in> set visible))"

text \<open>The deletions, with what the foreign keys do to rows that refer to the deleted ones.\<close>

definition purge_rows :: "(quarantine_row \<Rightarrow> bool) \<Rightarrow> (mailbox_row \<Rightarrow> bool) \<Rightarrow> mail_db \<Rightarrow> mail_db" where
  "purge_rows old oldmail db =
     (let gone = map qe_ID (filter old (md_Quarantine db)); gonemail = map mb_ID (filter oldmail (md_Mailbox db));
          drop_ref = (\<lambda>ids r. case r of None \<Rightarrow> None | Some i \<Rightarrow> if i \<in> set ids then None else Some i)
      in db\<lparr>md_Quarantine := filter (\<lambda>q. \<not> old q) (md_Quarantine db),
            md_QuarantineBlobs := filter (\<lambda>b. qb_EntryID b \<notin> set gone) (md_QuarantineBlobs db),
            md_Mailbox := filter (\<lambda>m. \<not> oldmail m) (md_Mailbox db),
            md_Reports := map (\<lambda>r. r\<lparr>pr_QuarantineEntryID := drop_ref gone (pr_QuarantineEntryID r),
                                   pr_MailboxMessageID := drop_ref gonemail (pr_MailboxMessageID r)\<rparr>) (md_Reports db),
            md_Sent := map (\<lambda>m. m\<lparr>sm_QuarantineEntryID := drop_ref gone (sm_QuarantineEntryID m)\<rparr>) (md_Sent db),
            md_Classifications := map (\<lambda>c. c\<lparr>cl_LastMailboxMessageID := drop_ref gonemail (cl_LastMailboxMessageID c)\<rparr>)
              (md_Classifications db),
            md_Campaigns := map (\<lambda>c. c\<lparr>cp_RepresentativeQuarantineID := drop_ref gone (cp_RepresentativeQuarantineID c)\<rparr>)
              (md_Campaigns db)\<rparr>)"

definition purgeExpired :: "mail_env \<Rightarrow> (scope \<times> identity) result \<Rightarrow> mail_db \<Rightarrow> purgeExpiredResp response \<times> mail_db" where
  "purgeExpired env sc db =
     (case sc of
        Inl e \<Rightarrow> (WriteError 500 ''scope'', db)
      | Inr (scope, ident) \<Rightarrow>
          if id_Role ident \<noteq> ''super_admin'' \<and> id_Role ident \<noteq> ''msp_admin'' \<and> id_Role ident \<noteq> ''org_admin'' then
            (WriteError 403 ''admin required'', db)
          else
            (let visible = (if VisibleOrgIDs scope = [] \<and> \<not> IsSuperAdmin scope then [OrgID scope] else VisibleOrgIDs scope);
                 old = (\<lambda>q. expired (mv_Now env) (IsSuperAdmin scope) visible (qe_ExpiresAt q) (qe_OrganizationID q));
                 oldmail = (\<lambda>m. expired (mv_Now env) (IsSuperAdmin scope) visible (mb_ExpiresAt m) (mb_OrganizationID m));
                 gone = map qe_ID (filter old (md_Quarantine db))
             in if mv_Err env ''purge'' then (WriteError 500 ''purge failed'', db)
                else (WriteJSON 200
                   \<lparr>PurgedEntries = length gone,
                    PurgedBlobs = length (filter (\<lambda>b. qb_EntryID b \<in> set gone) (md_QuarantineBlobs db)),
                    PurgedMailboxMessages = length (filter oldmail (md_Mailbox db))\<rparr>, purge_rows old oldmail db)))"

end
