(* ===== verification/QuarantineActions.thy ===== *)
theory QuarantineActions
  imports Quarantine
begin

text \<open>
  \<open>internal/quarantine/quarantine.go\<close>, what reviewers do to an entry besides releasing it: the verdict with the
  classification it teaches, blocking and allowing its sender, and "not spam".
\<close>

section \<open>Verdicts\<close>

definition normalizeQuarantineVerdict :: "string \<Rightarrow> string" where
  "normalizeQuarantineVerdict v = to_lower (trim_space v)"

definition validQuarantineVerdict :: "string \<Rightarrow> bool" where
  "validQuarantineVerdict v = (v \<in> set [''not_spam'', ''spam'', ''phishing'', ''malware'', ''other''])"

definition quarantineThreatClass :: "string \<Rightarrow> string" where
  "quarantineThreatClass verdict =
     (case map_of [(''not_spam'', ''NOT_SPAM''), (''phishing'', ''PHISHING''), (''malware'', ''MALWARE''), (''other'', ''OTHER'')]
             (normalizeQuarantineVerdict verdict) of
        None \<Rightarrow> ''SPAM'' | Some c \<Rightarrow> c)"

definition currentEntryVerdict :: "quarantine_row \<Rightarrow> string" where
  "currentEntryVerdict q =
     (case qe_ThreatClass q of
        None \<Rightarrow> ''spam''
      | Some c \<Rightarrow>
          (case map_of [(''NOT_SPAM'', ''not_spam''), (''MALWARE'', ''malware''), (''PHISHING'', ''phishing''), (''OTHER'', ''other'')]
                  (to_upper (trim_space c)) of
             None \<Rightarrow> ''spam'' | Some v \<Rightarrow> v))"

definition quarantineBlockNote :: "mail_env \<Rightarrow> quarantine_row \<Rightarrow> identity \<Rightarrow> string \<Rightarrow> string" where
  "quarantineBlockNote env q ident verdict0 =
     (let v = normalizeQuarantineVerdict verdict0; verdict = (if v = [] then ''spam'' else v)
      in ''Reported as '' @ verdict @ '' from quarantine entry '' @ mv_UUIDText env (qe_ID q) @ '' by '' @ id_Email ident)"

definition normalizedSenderAddress :: "addr_env \<Rightarrow> string option \<Rightarrow> string result" where
  "normalizedSenderAddress env sender =
     (let v0 = trim_space (text_or_empty sender)
      in if v0 = [] then Inl ''message has no sender address''
         else
           (let v = to_lower (trim_space (case ParseAddress env v0 of Some a \<Rightarrow> if a \<noteq> [] then a else v0 | None \<Rightarrow> v0))
            in if ParseAddress env v = None \<or> CHR ''@'' \<notin> set v then Inl ''sender address is invalid'' else Inr v))"

text \<open>\<open>domainPart\<close> of this package: the text after the last at sign, \<open>sentinelmail.local\<close> when it is empty.\<close>

definition report_domain :: "string \<Rightarrow> string" where
  "report_domain value =
     (let v = trim_space value;
          d = (case last_index_char v CHR ''@'' of None \<Rightarrow> v | Some i \<Rightarrow> drop (Suc i) v)
      in if d = [] then ''sentinelmail.local'' else d)"

definition merge_reviewed :: "classification \<Rightarrow> classification \<Rightarrow> classification" where
  "merge_reviewed r new =
     r\<lparr>cl_DomainID := cl_DomainID new, cl_Verdict := cl_Verdict new, cl_SampleCount := cl_SampleCount r + 1,
       cl_LastMailLogID := cl_LastMailLogID new, cl_UpdatedBy := cl_UpdatedBy new, cl_UpdatedAt := cl_UpdatedAt new\<rparr>"

definition reviewed_row :: "nat \<Rightarrow> quarantine_row \<Rightarrow> identity \<Rightarrow> string \<Rightarrow> string \<Rightarrow> string \<Rightarrow> classification" where
  "reviewed_row now q ident sender fingerprint verdict =
     \<lparr>cl_OrganizationID = qe_OrganizationID q, cl_DomainID = qe_DomainID q, cl_UserEmail = to_lower (trim_space (qe_ToAddr q)),
      cl_FromAddr = sender, cl_SubjectFingerprint = fingerprint, cl_Verdict = verdict, cl_SampleCount = 1,
      cl_LastMailboxMessageID = None, cl_LastMailLogID = qe_MailLogID q, cl_LastBodyExcerpt = [],
      cl_CreatedBy = id_UserID ident, cl_UpdatedBy = id_UserID ident, cl_UpdatedAt = now\<rparr>"

definition upsert_reviewed ::
  "mail_env \<Rightarrow> quarantine_row \<Rightarrow> identity \<Rightarrow> string \<Rightarrow> string \<Rightarrow> string \<Rightarrow> classification list \<Rightarrow> string option \<times> classification list" where
  "upsert_reviewed env q ident sender fingerprint verdict tbl =
     (if mv_Err env ''upsert classification'' then (Some ''upsert classification'', tbl)
      else (None, upsert_row classification_key merge_reviewed (reviewed_row (mv_Now env) q ident sender fingerprint verdict) tbl))"

text \<open>The keys that \<open>recordQuarantineClassification\<close> writes, in order.\<close>

definition reviewed_keys :: "quarantine_row \<Rightarrow> string \<Rightarrow> (string \<times> string) list" where
  "reviewed_keys q sender =
     (let fingerprint = SubjectFingerprint (text_or_empty (qe_Subject q)); domainPattern = senderDomainKey sender
      in (sender, fingerprint) # (if fingerprint \<noteq> [] then [(sender, [])] else []) @
         (if domainPattern \<noteq> [] then [(domainPattern, [])] else []))"

fun upsert_keys_loop ::
  "mail_env \<Rightarrow> quarantine_row \<Rightarrow> identity \<Rightarrow> string \<Rightarrow> (string \<times> string) list \<Rightarrow> classification list \<Rightarrow> string option \<times> classification list" where
  "upsert_keys_loop env q ident verdict [] tbl = (None, tbl)"
| "upsert_keys_loop env q ident verdict ((sender, fingerprint) # keys) tbl =
     (case upsert_reviewed env q ident sender fingerprint verdict tbl of
        (Some e, tbl') \<Rightarrow> (Some e, tbl')
      | (None, tbl') \<Rightarrow> upsert_keys_loop env q ident verdict keys tbl')"

definition recordQuarantineClassification ::
  "mail_env \<Rightarrow> quarantine_row \<Rightarrow> string \<Rightarrow> identity \<Rightarrow> string \<Rightarrow> mail_db \<Rightarrow> string option \<times> mail_db" where
  "recordQuarantineClassification env q sender ident verdict0 db =
     (let v = normalizeQuarantineVerdict verdict0; verdict = (if v = [] \<or> v = ''not_spam'' then ''spam'' else v);
          (e, tbl) = upsert_keys_loop env q ident verdict (reviewed_keys q sender) (md_Classifications db)
      in (e, db\<lparr>md_Classifications := tbl\<rparr>))"

text \<open>A verdict other than "not spam" takes a held entry out of the quarantine.\<close>

definition set_verdict :: "string \<Rightarrow> string \<Rightarrow> quarantine_row \<Rightarrow> quarantine_row" where
  "set_verdict threatClass verdict q =
     q\<lparr>qe_ThreatClass := Some threatClass,
       qe_State := (if verdict \<noteq> ''not_spam'' \<and> qe_State q = ''held'' then ''deleted'' else qe_State q)\<rparr>"

definition recordQuarantineVerdict :: "mail_env \<Rightarrow> quarantine_row \<Rightarrow> identity \<Rightarrow> string \<Rightarrow> mail_db \<Rightarrow> string option \<times> mail_db" where
  "recordQuarantineVerdict env q ident verdict0 db =
     (let verdict = normalizeQuarantineVerdict verdict0
      in if verdict = [] \<or> \<not> validQuarantineVerdict verdict then (Some ''invalid verdict'', db)
         else if mv_Err env ''update verdict'' then (Some ''update verdict'', db)
         else
           (let db1 = db\<lparr>md_Quarantine := update_where (\<lambda>x. qe_ID x = qe_ID q)
                  (set_verdict (quarantineThreatClass verdict) verdict) (md_Quarantine db)\<rparr>
            in (None, snd (RecordFromQuarantine env (qe_ID q) verdict (id_UserID ident) db1))))"

definition forget_reviewed :: "quarantine_row \<Rightarrow> string \<Rightarrow> classification list \<Rightarrow> classification list" where
  "forget_reviewed q sender tbl =
     filter (\<lambda>r. \<not> (cl_OrganizationID r = qe_OrganizationID q \<and>
        to_lower (cl_UserEmail r) = to_lower (trim_space (qe_ToAddr q)) \<and>
        to_lower (cl_FromAddr r) \<in> {to_lower (trim_space sender), senderDomainKey sender} \<and> cl_SubjectFingerprint r = [])) tbl"

definition recordQuarantineNotSpam :: "mail_env \<Rightarrow> quarantine_row \<Rightarrow> string \<Rightarrow> identity \<Rightarrow> mail_db \<Rightarrow> string option \<times> mail_db" where
  "recordQuarantineNotSpam env q sender ident db =
     (let fingerprint = SubjectFingerprint (text_or_empty (qe_Subject q));
          (e, tbl) = (if fingerprint \<noteq> [] then upsert_reviewed env q ident sender fingerprint ''not_spam'' (md_Classifications db)
                      else (None, md_Classifications db))
      in case e of
           Some msg \<Rightarrow> (Some msg, db\<lparr>md_Classifications := tbl\<rparr>)
         | None \<Rightarrow>
             if mv_Err env ''delete classifications'' then (Some ''delete classifications'', db\<lparr>md_Classifications := tbl\<rparr>)
             else recordQuarantineVerdict env q ident ''not_spam'' (db\<lparr>md_Classifications := forget_reviewed q sender tbl\<rparr>))"

section \<open>Blocking the sender\<close>

definition block_row :: "mail_env \<Rightarrow> uuid \<Rightarrow> quarantine_row \<Rightarrow> string \<Rightarrow> uuid option \<Rightarrow> string \<Rightarrow> identity \<Rightarrow> string \<Rightarrow> list_entry_row" where
  "block_row env i q entryScope userID pattern ident verdict =
     \<lparr>le_ID = i, le_OrganizationID = Some (qe_OrganizationID q), le_DomainID = None, le_UserID = userID,
      le_Scope = entryScope, le_Action = ''block'', le_Kind = ''email'', le_Pattern = to_lower pattern,
      le_Note = Some (quarantineBlockNote env q ident verdict), le_CreatedAt = mv_Now env\<rparr>"

definition same_block :: "list_entry_row \<Rightarrow> list_entry_row \<Rightarrow> bool" where
  "same_block e f =
     (le_OrganizationID f = le_OrganizationID e \<and> le_DomainID f = None \<and> le_UserID f = le_UserID e \<and> le_Scope f = le_Scope e \<and>
      le_Action f = ''block'' \<and> le_Kind f = ''email'' \<and> to_lower (le_Pattern f) = to_lower (le_Pattern e))"

text \<open>\<open>Inr True\<close>: there was such an entry already.\<close>

definition insertBlockEntry ::
  "mail_env \<Rightarrow> quarantine_row \<Rightarrow> string \<Rightarrow> uuid option \<Rightarrow> string \<Rightarrow> identity \<Rightarrow> string \<Rightarrow> mail_db \<Rightarrow> bool result \<times> mail_db" where
  "insertBlockEntry env q entryScope userID pattern ident verdict db =
     (let e = block_row env (new_entry_id env db) q entryScope userID pattern ident verdict
      in if mv_Err env ''insert block'' then (Inl ''insert block'', db)
         else if list_ex (same_block e) (md_Entries db) then (Inr True, db)
         else case insert_entry (mv_View env) e (md_Entries db) of
           None \<Rightarrow> (Inl ''insert block'', db)
         | Some entries \<Rightarrow> (Inr False, db\<lparr>md_Entries := entries\<rparr>))"

definition finishSenderBlock :: "mail_env \<Rightarrow> quarantine_row \<Rightarrow> string \<Rightarrow> identity \<Rightarrow> string \<Rightarrow> mail_db \<Rightarrow> string option \<times> mail_db" where
  "finishSenderBlock env q sender ident verdict db =
     recordQuarantineVerdict env q ident verdict (snd (recordQuarantineClassification env q sender ident verdict db))"

text \<open>\<open>senderlists.UpsertDomainDecision\<close> on the tables.\<close>

definition domain_decision ::
  "mail_env \<Rightarrow> uuid option \<Rightarrow> uuid option \<Rightarrow> uuid option \<Rightarrow> string \<Rightarrow> string \<Rightarrow> string \<Rightarrow> string \<Rightarrow> mail_db \<Rightarrow> string result \<times> mail_db" where
  "domain_decision env org domainID userID entryScope domain action remark db =
     (let ((_, r), entries) = UpsertDomainDecision (mv_Err env) (mv_Addr env) (mv_View env) (new_entry_id env db) (mv_Now env)
            org domainID userID entryScope domain action remark (md_Entries db)
      in (r, db\<lparr>md_Entries := entries\<rparr>))"

definition user_scope :: "identity \<Rightarrow> string \<times> uuid option" where
  "user_scope ident = (if id_Role ident = ''org_user'' then (''user'', Some (id_UserID ident)) else (''org'', None))"

definition blockEntrySender :: "mail_env \<Rightarrow> quarantine_row \<Rightarrow> identity \<Rightarrow> string \<Rightarrow> mail_db \<Rightarrow> string option \<times> mail_db" where
  "blockEntrySender env q ident match db =
     (case normalizedSenderAddress (mv_Addr env) (qe_FromAddr q) of
        Inl e \<Rightarrow> (Some e, db)
      | Inr sender \<Rightarrow>
          (let (entryScope, userID) = user_scope ident; verdict = currentEntryVerdict q
           in if match = ''domain'' \<or> match = ''root_domain'' then
                (let dom = report_domain sender
                 in if dom = [] \<or> dom = ''sentinelmail.local'' then (Some ''sender domain is invalid'', db)
                    else case (if match = ''root_domain'' then RootSenderDomain (mv_Addr env) dom else Inr dom) of
                      Inl e \<Rightarrow> (Some e, db)
                    | Inr domain \<Rightarrow>
                        (let (r, db1) = domain_decision env (Some (qe_OrganizationID q)) None userID entryScope domain ''block''
                               (quarantineBlockNote env q ident verdict) db
                         in case r of Inl e \<Rightarrow> (Some e, db1) | Inr _ \<Rightarrow> finishSenderBlock env q sender ident verdict db1))
              else
                (let (r, db1) = insertBlockEntry env q entryScope userID sender ident verdict db
                 in case r of Inl e \<Rightarrow> (Some e, db1) | Inr _ \<Rightarrow> finishSenderBlock env q sender ident verdict db1)))"

section \<open>The handlers\<close>

text \<open>The guards that every action on one entry starts with.\<close>

definition readAllowedEntryWithIdentity ::
  "mail_env \<Rightarrow> uuid option \<Rightarrow> (scope \<times> identity) result \<Rightarrow> mail_db \<Rightarrow> (nat \<times> string) + (q_entry \<times> scope \<times> identity)" where
  "readAllowedEntryWithIdentity env param sc db =
     (case param of
        None \<Rightarrow> Inl (400, ''invalid id'')
      | Some i \<Rightarrow>
          case sc of
            Inl e \<Rightarrow> Inl (500, ''scope'')
          | Inr (scope, ident) \<Rightarrow>
              case select_entry env db i of
                None \<Rightarrow> Inl (404, ''not found'')
              | Some e \<Rightarrow>
                  if \<not> Allows scope (qe_OrganizationID (qn_Row e)) then Inl (404, ''not found'')
                  else if id_Role ident = ''org_user'' \<and> \<not> canEndUserAct ident (qn_Row e) then Inl (404, ''not found'')
                  else Inr (e, scope, ident))"

record blockSenderReq =
  br_Match :: string
  br_Pattern :: string
  br_Scope :: string
  br_Verdict :: string

record blockSenderResp =
  bs_Pattern :: string
  bs_Scope :: string
  bs_Existing :: bool
  bs_Message :: string

text \<open>What \<open>notSpam\<close> and \<open>allowSender\<close> do once the message is out.\<close>

definition allow_and_forget ::
  "mail_env \<Rightarrow> quarantine_row \<Rightarrow> identity \<Rightarrow> string \<Rightarrow> string \<Rightarrow> string \<Rightarrow> nat \<Rightarrow> string \<Rightarrow> mail_db \<Rightarrow> blockSenderResp response \<times> mail_db" where
  "allow_and_forget env q ident sender domain remark refused message db =
     (let (entryScope, userID) = user_scope ident;
          (r, db1) = domain_decision env (Some (qe_OrganizationID q)) (qe_DomainID q) userID entryScope domain ''allow'' remark db
      in case r of
           Inl e \<Rightarrow> (WriteError refused (if refused = 500 then ''allowlist update failed'' else e), db1)
         | Inr pattern \<Rightarrow>
             (let (e, db2) = recordQuarantineNotSpam env q sender ident db1
              in if e \<noteq> None then (WriteError 500 ''not-spam update failed'', db2)
                 else (WriteJSON 200 \<lparr>bs_Pattern = pattern, bs_Scope = entryScope, bs_Existing = False, bs_Message = message\<rparr>, db2)))"

definition valid_sender_domain :: "string \<Rightarrow> bool" where
  "valid_sender_domain d = (d \<noteq> [] \<and> d \<noteq> ''sentinelmail.local'')"

definition notSpam :: "mail_env \<Rightarrow> uuid option \<Rightarrow> (scope \<times> identity) result \<Rightarrow> mail_db \<Rightarrow> blockSenderResp response \<times> mail_db" where
  "notSpam env param sc db =
     (case readAllowedEntryWithIdentity env param sc db of
        Inl (n, e) \<Rightarrow> (WriteError n e, db)
      | Inr (e, scope, ident) \<Rightarrow>
          (let q = qn_Row e
           in case normalizedSenderAddress (mv_Addr env) (qe_FromAddr q) of
                Inl msg \<Rightarrow> (WriteError 409 msg, db)
              | Inr sender \<Rightarrow>
                  if \<not> valid_sender_domain (report_domain sender) then (WriteError 409 ''sender domain is invalid'', db)
                  else
                    (let remark = ''Marked not spam from quarantine entry '' @ mv_UUIDText env (qe_ID q) @ '' by '' @ id_Email ident
                     in if qe_State q = ''held'' then
                          (if \<not> qn_HasBlob e then (WriteError 409 ''message cannot be released'', db)
                           else
                             (let (r, db1) = releaseMessage env q db
                              in case r of
                                   Some msg \<Rightarrow> (WriteError 409 (''release delivery failed: '' @ msg), db1)
                                 | None \<Rightarrow>
                                     if mv_Err env ''update released'' then (WriteError 500 ''release failed'', db1)
                                     else allow_and_forget env q ident sender (report_domain sender) remark 500
                                       ''Message released, marked not spam, and sender domain added to the allowlist.''
                                       (mark_released env (Some (id_UserID ident)) (qe_ID q) db1)))
                        else allow_and_forget env q ident sender (report_domain sender) remark 500
                          ''Message marked not spam and sender domain added to the allowlist.'' db)))"

definition allowSender ::
  "mail_env \<Rightarrow> uuid option \<Rightarrow> (scope \<times> identity) result \<Rightarrow> blockSenderReq result \<Rightarrow> mail_db \<Rightarrow> blockSenderResp response \<times> mail_db" where
  "allowSender env param sc body db =
     (case readAllowedEntryWithIdentity env param sc db of
        Inl (n, e) \<Rightarrow> (WriteError n e, db)
      | Inr (e, scope, ident) \<Rightarrow>
          case body of
            Inl msg \<Rightarrow> (WriteError 400 msg, db)
          | Inr req \<Rightarrow>
              (let q = qn_Row e; m = to_lower (trim_space (br_Match req)); match = (if m = [] then ''domain'' else m)
               in if match \<noteq> ''domain'' \<and> match \<noteq> ''root_domain'' then (WriteError 400 ''match must be domain or root_domain'', db)
                  else case normalizedSenderAddress (mv_Addr env) (qe_FromAddr q) of
                    Inl msg \<Rightarrow> (WriteError 409 msg, db)
                  | Inr sender \<Rightarrow>
                      if \<not> valid_sender_domain (report_domain sender) then (WriteError 409 ''sender domain is invalid'', db)
                      else case (if match = ''root_domain'' then RootSenderDomain (mv_Addr env) (report_domain sender)
                                 else Inr (report_domain sender)) of
                        Inl msg \<Rightarrow> (WriteError 409 msg, db)
                      | Inr domain \<Rightarrow>
                          allow_and_forget env q ident sender domain
                            (''Whitelisted from quarantine entry '' @ mv_UUIDText env (qe_ID q) @ '' by '' @ id_Email ident) 409
                            ''Sender domain whitelisted and message marked not spam.'' db))"

definition verdict ::
  "mail_env \<Rightarrow> uuid option \<Rightarrow> (scope \<times> identity) result \<Rightarrow> string result \<Rightarrow> mail_db \<Rightarrow> blockSenderResp response \<times> mail_db" where
  "verdict env param sc body db =
     (case readAllowedEntryWithIdentity env param sc db of
        Inl (n, e) \<Rightarrow> (WriteError n e, db)
      | Inr (e, scope, ident) \<Rightarrow>
          case body of
            Inl msg \<Rightarrow> (WriteError 400 msg, db)
          | Inr v0 \<Rightarrow>
              (let v = normalizeQuarantineVerdict v0
               in if \<not> validQuarantineVerdict v then (WriteError 400 ''invalid verdict'', db)
                  else if v = ''not_spam'' then
                    (WriteError 400 ''use the not-spam action to release and allow this sender'', db)
                  else
                    (let (r, db1) = recordQuarantineVerdict env (qn_Row e) ident v db
                     in if r \<noteq> None then (WriteError 500 ''verdict update failed'', db1)
                        else (WriteJSON 200 \<lparr>bs_Pattern = text_or_empty (qe_FromAddr (qn_Row e)), bs_Scope = ''quarantine'',
                                bs_Existing = False, bs_Message = ''Message marked as '' @ v @ ''.''\<rparr>, db1))))"

text \<open>The scope of the block entry; \<open>None\<close> is the owner of an entry for the whole organization.\<close>

definition resolveBlockScope ::
  "mail_env \<Rightarrow> scope \<Rightarrow> quarantine_row \<Rightarrow> identity \<Rightarrow> string \<Rightarrow> (string \<times> uuid option) result" where
  "resolveBlockScope env scope q ident requested0 =
     (let requested = (if requested0 = [] then if id_Role ident = ''org_user'' then ''user'' else ''org'' else requested0);
          admin = CanAdmin scope (id_Role ident) (qe_OrganizationID q)
      in if mv_Err env ''scope'' then Inl ''scope''
         else if requested = ''org'' then (if admin then Inr (''org'', None) else Inl ''forbidden'')
         else if requested = ''user'' then
           (if id_Role ident = ''org_user'' then
              (if canEndUserAct ident q then Inr (''user'', Some (id_UserID ident)) else Inl ''forbidden'')
            else if \<not> admin then Inl ''forbidden''
            else if mv_Err env ''select recipient user'' then Inl ''select recipient user''
            else case find (\<lambda>u. u_OrganizationID u = qe_OrganizationID q \<and> to_lower (u_Email u) = to_lower (trim_space (qe_ToAddr q)))
                   (lv_Users (mv_View env)) of
              None \<Rightarrow> Inl ''recipient user was not found''
            | Some u \<Rightarrow> Inr (''user'', Some (u_ID u)))
         else Inl ''scope must be org or user'')"

definition block_pattern :: "mail_env \<Rightarrow> string \<Rightarrow> string \<Rightarrow> string \<Rightarrow> string result" where
  "block_pattern env match sender pattern =
     (if match = ''domain'' \<or> match = ''root_domain'' then
        (let domain = report_domain sender
         in if \<not> valid_sender_domain domain then Inl ''sender domain is invalid''
            else if trim_space pattern \<noteq> [] then
              (case NormalizeSenderDomainPattern (mv_Addr env) pattern of Inl e \<Rightarrow> Inl e | Inr (d, _) \<Rightarrow> Inr (''*@'' @ d))
            else if match = ''root_domain'' then
              (case RootSenderDomain (mv_Addr env) domain of Inl e \<Rightarrow> Inl e | Inr d \<Rightarrow> Inr (''*@'' @ d))
            else Inr (''*@'' @ domain))
      else Inr sender)"

definition write_block ::
  "mail_env \<Rightarrow> quarantine_row \<Rightarrow> string \<Rightarrow> uuid option \<Rightarrow> string \<Rightarrow> string \<Rightarrow> identity \<Rightarrow> string \<Rightarrow> mail_db \<Rightarrow>
     ((nat \<times> string) + (bool \<times> string)) \<times> mail_db" where
  "write_block env q entryScope userID match pattern ident v db =
     (if match = ''domain'' \<or> match = ''root_domain'' then
        (let (r, db1) = domain_decision env (Some (qe_OrganizationID q)) None userID entryScope
               (trim_prefix pattern ''*@'') ''block'' (quarantineBlockNote env q ident v) db
         in case r of Inl msg \<Rightarrow> (Inl (409, msg), db1) | Inr p \<Rightarrow> (Inr (False, p), db1))
      else
        (let (r, db1) = insertBlockEntry env q entryScope userID pattern ident v db
         in case r of Inl _ \<Rightarrow> (Inl (500, ''block sender failed''), db1) | Inr existing \<Rightarrow> (Inr (existing, pattern), db1)))"

definition blockSender ::
  "mail_env \<Rightarrow> uuid option \<Rightarrow> (scope \<times> identity) result \<Rightarrow> blockSenderReq result \<Rightarrow> mail_db \<Rightarrow> blockSenderResp response \<times> mail_db" where
  "blockSender env param sc body db =
     (case readAllowedEntryWithIdentity env param sc db of
        Inl (n, e) \<Rightarrow> (WriteError n e, db)
      | Inr (e, scope, ident) \<Rightarrow>
          case body of
            Inl msg \<Rightarrow> (WriteError 400 msg, db)
          | Inr req \<Rightarrow>
              (let q = qn_Row e; m = to_lower (trim_space (br_Match req)); match = (if m = [] then ''sender'' else m);
                   v0 = normalizeQuarantineVerdict (br_Verdict req); v = (if v0 = [] then currentEntryVerdict q else v0)
               in if match \<noteq> ''sender'' \<and> match \<noteq> ''domain'' \<and> match \<noteq> ''root_domain'' then
                    (WriteError 400 ''match must be sender, domain, or root_domain'', db)
                  else if \<not> validQuarantineVerdict v \<or> v = ''not_spam'' then
                    (WriteError 400 ''verdict must be spam, phishing, malware, or other'', db)
                  else case normalizedSenderAddress (mv_Addr env) (qe_FromAddr q) of
                    Inl msg \<Rightarrow> (WriteError 409 msg, db)
                  | Inr sender \<Rightarrow>
                      case block_pattern env match sender (br_Pattern req) of
                        Inl msg \<Rightarrow> (WriteError 409 msg, db)
                      | Inr pattern0 \<Rightarrow>
                          case resolveBlockScope env scope q ident (to_lower (trim_space (br_Scope req))) of
                            Inl msg \<Rightarrow> (WriteError 403 msg, db)
                          | Inr (entryScope, userID) \<Rightarrow>
                              (let (blocked, db1) = write_block env q entryScope userID match pattern0 ident v db
                               in case blocked of
                                    Inl (n, msg) \<Rightarrow> (WriteError n msg, db1)
                                  | Inr (existing, pattern) \<Rightarrow>
                                      (let (r, db2) = finishSenderBlock env q sender ident v db1
                                       in if r \<noteq> None then (WriteError 500 ''spam report failed'', db2)
                                          else (WriteJSON 200 \<lparr>bs_Pattern = pattern, bs_Scope = entryScope, bs_Existing = existing,
                                                  bs_Message = ''Sender blocked and message reported as '' @ v @ ''.''\<rparr>, db2)))))"

end
