(* ===== verification/AbuseReports.thy ===== *)
theory AbuseReports
  imports QuarantineActions
begin

text \<open>
  \<open>internal/quarantine/quarantine.go\<close>, abuse reports to the network of a message's source: when one can be
  made, what it says, and its dispatch with the original message enclosed.
\<close>

section \<open>Concern and source\<close>

definition abuseReportConcern :: "q_entry \<Rightarrow> (string \<times> string) option" where
  "abuseReportConcern e =
     (let v = text_or_empty (qe_ThreatClass (qn_Row e));
          n = to_upper (trim_space (if trim_space v = [] then qn_EmailType e else v))
      in if n = ''SPAM'' \<or> contains n ''REPORTED SPAM'' then
           Some (''spam'', ''The recipient reports that this unsolicited message was not requested or consented to.'')
         else if n = ''PHISHING'' \<or> contains n ''REPORTED PHISHING'' then
           Some (''phishing'', ''The recipient reports that this message attempts to deceive them or obtain sensitive information.'')
         else if n = ''MALWARE'' \<or> n = ''VIRUS'' \<or> contains n ''REPORTED MALWARE'' then
           Some (''malware'', ''The recipient reports that this message contains or attempts to deliver malicious content.'')
         else if n = ''OTHER'' then
           Some (''suspicious'', ''The recipient reports this message as abusive and did not request or consent to it.'')
         else None)"

definition parseReportableSourceIP :: "string \<Rightarrow> addr result" where
  "parseReportableSourceIP value =
     (let v = join (str_fields (trim_space value)) [];
          ip = (case parse_addr v of Some a \<Rightarrow> Some a | None \<Rightarrow> map_option fst (parse_prefix v))
      in if v = [] then Inl ''recorded source IP is invalid''
         else case ip of
           None \<Rightarrow> Inl ''recorded source IP is invalid''
         | Some a \<Rightarrow>
             if \<not> is_global_unicast a \<or> is_private a \<or> is_loopback a \<or> is_link_local_unicast a
             then Inl ''recorded source IP is not publicly reportable'' else Inr a)"

text \<open>The rows of a campaign are in the order of \<open>first_seen\<close>.\<close>

definition campaignSourceIPs :: "mail_env \<Rightarrow> q_entry \<Rightarrow> mail_db \<Rightarrow> string list \<times> bool" where
  "campaignSourceIPs env e db =
     (case qe_CampaignID (qn_Row e) of
        None \<Rightarrow> ([], False)
      | Some c \<Rightarrow>
          if mv_Err env ''select campaign sources'' then ([], False)
          else (let values = take 101 (map (\<lambda>s. mv_InetText env (cs_ClientIP s))
                      (sort_key (\<lambda>s. - int (cs_HitCount s)) (filter (\<lambda>s. cs_CampaignID s = c) (md_Sources db))))
                in (take 100 values, length values > 100)))"

section \<open>Settings and addresses\<close>

definition lookup_setting :: "mail_env \<Rightarrow> uuid option \<Rightarrow> string \<Rightarrow> string \<Rightarrow> string" where
  "lookup_setting env org key fallback =
     (if mv_Err env (''select '' @ key) then fallback
      else case row_of setting_key (org, key) (mv_Settings env) of
        None \<Rightarrow> fallback
      | Some r \<Rightarrow> (let v = trim_space (trim (mv_JSONText env (st_Value r)) [CHR 0x22]) in if v = [] then fallback else v))"

abbreviation lookupSystemSetting :: "mail_env \<Rightarrow> string \<Rightarrow> string \<Rightarrow> string" where
  "lookupSystemSetting env \<equiv> lookup_setting env None"

abbreviation lookupOrgSetting :: "mail_env \<Rightarrow> uuid \<Rightarrow> string \<Rightarrow> string \<Rightarrow> string" where
  "lookupOrgSetting env org \<equiv> lookup_setting env (Some org)"

text \<open>An address is its name and its address part.\<close>

definition brand_name :: "mail_env \<Rightarrow> uuid \<Rightarrow> string" where
  "brand_name env org =
     (let n = lookupOrgSetting env org ''brand.name'' []
      in if n = [] then lookupSystemSetting env ''ui.brand_name'' ''SentinelMail Gateway'' else n)"

definition reportFrom :: "mail_env \<Rightarrow> uuid \<Rightarrow> string \<times> string" where
  "reportFrom env org =
     (let a1 = lookupSystemSetting env ''mail.system_from_address'' [];
          a2 = (if a1 = [] then lookupOrgSetting env org ''brand.support_email'' [] else a1);
          a3 = (if a2 = [] then ''no-reply@'' @ report_domain (lookupSystemSetting env ''mail.hostname'' ''sentinelmail.local'') else a2);
          parsed = (case ParseAddress (mv_Addr env) a3 of Some a \<Rightarrow> if a = [] then ''no-reply@sentinelmail.local'' else a
                    | None \<Rightarrow> ''no-reply@sentinelmail.local'')
      in (brand_name env org, parsed))"

definition reportContact :: "mail_env \<Rightarrow> uuid \<Rightarrow> string \<times> string" where
  "reportContact env org =
     (case ParseAddress (mv_Addr env) (lookupOrgSetting env org ''brand.support_email'' []) of
        None \<Rightarrow> reportFrom env org
      | Some a \<Rightarrow> if a = [] then reportFrom env org else (brand_name env org, a))"

section \<open>Texts\<close>

definition line_header :: "string \<Rightarrow> string" where
  "line_header value = trim_space (one_line value)"

text \<open>\<open>reportURLRE.ReplaceAllString\<close>: \<open>prev\<close> tells whether a word character comes before.\<close>

definition word_char :: "char \<Rightarrow> bool" where
  "word_char c = (alnum c \<or> c = CHR ''_'')"

definition url_char :: "char \<Rightarrow> bool" where
  "url_char c = (c \<notin> {CHR 0x09, CHR 0x0A, CHR 0x0C, CHR 0x0D, CHR '' '', CHR ''<'', CHR ''>'', CHR 0x22, CHR 0x27})"

definition url_start :: "string \<Rightarrow> string option" where
  "url_start s =
     (let l = (if to_lower (take 7 s) = ''http://'' then 7 else if to_lower (take 8 s) = ''https://'' then 8 else 0 :: nat);
          rest = drop l s
      in if l = 0 \<or> rest = [] \<or> \<not> url_char (hd rest) then None else Some (dropWhile url_char rest))"

lemma url_start_shorter: "url_start s = Some rest \<Longrightarrow> length rest < length s"
  using length_dropWhile_le [of url_char "drop 7 s"] length_dropWhile_le [of url_char "drop 8 s"]
  by (auto simp: url_start_def Let_def split: if_splits)

function redact_urls :: "bool \<Rightarrow> string \<Rightarrow> string" where
  "redact_urls prev [] = []"
| "redact_urls prev (c # cs) =
     (case (if prev then None else url_start (c # cs)) of
        Some rest \<Rightarrow> ''[redacted URL]'' @ redact_urls False rest
      | None \<Rightarrow> c # redact_urls (word_char c) cs)"
  by pat_completeness auto
termination
  by (relation "measure (\<lambda>(_, s). length s)") (auto dest: url_start_shorter split: if_splits)

declare redact_urls.simps [simp del]

definition safeReportValue :: "string \<Rightarrow> string" where
  "safeReportValue value = trim_space (redact_urls False (line_header value))"

definition em_dash :: string where "em_dash = [CHR 0xE2, CHR 0x80, CHR 0x94]"

definition safeReportSubject :: "mail_env \<Rightarrow> string \<Rightarrow> string" where
  "safeReportSubject env value =
     (let v = safeReportValue value
      in if v = [] then em_dash
         else ''[redacted; '' @ itoa (length v) @ '' characters; sha256:'' @ take 12 (hex_encode (mv_SHA256 env v)) @ '']'')"

definition emptyDash :: "string \<Rightarrow> string" where
  "emptyDash value = (let v = trim_space value in if v = [] then ''-'' else v)"

definition crlf :: string where "crlf = [CHR 0x0D, CHR 0x0A]"

record abuse_webform =
  aw_Provider :: string
  aw_URL :: string
  aw_AbuseType :: string
  aw_AbuseSubtype :: string
  aw_ReportedIP :: string
  aw_DateOfIncident :: string
  aw_AdditionalInfo :: string
  aw_AttachmentNote :: string
  aw_ContactName :: string
  aw_ContactEmail :: string
  aw_CompanyName :: string
  aw_PrivacyConfirmation :: string
  aw_AccuracyConfirmation :: string

record source_ip_report =
  si_IP :: string
  si_NetworkName :: string
  si_AbuseContacts :: "string list"
  si_ReportSubject :: string
  si_ReportBody :: string
  si_CanSend :: bool
  si_Sent :: bool
  si_SentTo :: "string list"
  si_Warning :: string
  si_OutboundServer :: string
  si_SubmissionMode :: string
  si_Webform :: "abuse_webform option"
  si_CampaignCopies :: nat
  si_UniqueSourceIPs :: nat
  si_CampaignSourceIPs :: "string list"
  si_CampaignSourcesTruncated :: bool

definition buildAbuseReportBody :: "mail_env \<Rightarrow> q_entry \<Rightarrow> string \<Rightarrow> string \<Rightarrow> string" where
  "buildAbuseReportBody env e ip network =
     (let q = qn_Row e; (label, concern) = (case abuseReportConcern e of None \<Rightarrow> ([], []) | Some c \<Rightarrow> c);
          lines =
            [''Hello,'', [], ''SentinelMail Gateway received a '' @ label @ '' email from an IP address registered to your network.'',
             ''Concern: '' @ concern, [], ''Source IP: '' @ ip, ''Network: '' @ emptyDash network,
             ''SMTP sender: '' @ emptyDash (safeReportValue (text_or_empty (qe_FromAddr q))),
             ''Recipient: '' @ emptyDash (safeReportValue (qe_ToAddr q)),
             ''Original subject: '' @ safeReportSubject env (text_or_empty (qe_Subject q)),
             ''Threat class: '' @ emptyDash (safeReportValue (text_or_empty (qe_ThreatClass q))),
             ''Received at: '' @ mv_TimeText env ''RFC3339'' (qe_ReceivedAt q),
             ''SentinelMail evidence ID: '' @ mv_UUIDText env (qe_ID q), [],
             ''The original message is attached as message/rfc822 and includes the complete headers needed to verify its Amazon SES or other provider routing.'',
             ''No URLs or message body content are repeated in this explanatory text.'',
             ''Please investigate the source host and take appropriate action.'', [], ''SentinelMail Gateway''];
          campaign =
            [''Related campaign copies: '' @ itoa (qn_CampaignCopies e), ''Unique campaign source IPs: '' @ itoa (qn_UniqueSourceIPs e),
             ''Aggregated duplicate copies: '' @ itoa (qn_SuppressedCopies e)]
      in join (if qn_CampaignCopies e > 1 then take 14 lines @ campaign @ drop 14 lines else lines) crlf)"

definition reportSubjectForThreat :: "q_entry \<Rightarrow> string \<Rightarrow> string" where
  "reportSubjectForThreat e ip =
     (let label = (case abuseReportConcern e of None \<Rightarrow> ''abusive'' | Some (l, _) \<Rightarrow> l)
      in to_upper (take 1 label) @ drop 1 label @ '' email from '' @ ip)"

definition isWorldstreamAbuseProvider :: "rdapLookup \<Rightarrow> bool" where
  "isWorldstreamAbuseProvider l =
     (contains (to_lower (rl_Name l)) ''worldstream'' \<or>
      list_ex (\<lambda>c. equal_fold (report_domain c) ''worldstream.com'') (rl_AbuseContacts l))"

definition buildWorldstreamAdditionalInfo :: "mail_env \<Rightarrow> q_entry \<Rightarrow> source_ip_report \<Rightarrow> string" where
  "buildWorldstreamAdditionalInfo env e report =
     join [''Abuse type: Spam'', ''Abuse subtype: Sending email spam'', [], si_ReportBody report, [], ''Form evidence checklist:'',
           ''- IP address of reported content: '' @ si_IP report,
           ''- Date of incident: '' @ mv_TimeText env ''RFC3339'' (qe_ReceivedAt (qn_Row e)),
           ''- Evidence attachment: the stored original-message.eml with complete headers.''] crlf"

definition worldstreamAbuseWebform :: "mail_env \<Rightarrow> q_entry \<Rightarrow> source_ip_report \<Rightarrow> abuse_webform" where
  "worldstreamAbuseWebform env e report =
     (let org = qe_OrganizationID (qn_Row e); company = trim_space (brand_name env org)
      in \<lparr>aw_Provider = ''Worldstream'', aw_URL = ''https://www.worldstream.com/en/abuse/abuse-form/'', aw_AbuseType = ''Spam'',
          aw_AbuseSubtype = ''Sending email spam'', aw_ReportedIP = si_IP report,
          aw_DateOfIncident = mv_TimeText env ''2006-01-02'' (qe_ReceivedAt (qn_Row e)),
          aw_AdditionalInfo = buildWorldstreamAdditionalInfo env e report,
          aw_AttachmentNote = ''Attach the stored original-message.eml from this quarantine entry; it contains the complete message headers.'',
          aw_ContactName = (if company = [] then ''SentinelMail Gateway'' else company), aw_ContactEmail = snd (reportContact env org),
          aw_CompanyName = company,
          aw_PrivacyConfirmation = ''Review Worldstream'' @ [CHR 0x27] @ ''s privacy policy in the browser, then tick this box if you agree.'',
          aw_AccuracyConfirmation = ''Tick this box only after reviewing that the copied SentinelMail evidence is true and accurate.''\<rparr>)"

definition buildFeedbackReport :: "mail_env \<Rightarrow> q_entry \<Rightarrow> source_ip_report \<Rightarrow> string" where
  "buildFeedbackReport env e report =
     join [''Feedback-Type: abuse'', ''User-Agent: SentinelMail Gateway'', ''Version: 1'', ''Source-IP: '' @ si_IP report,
           ''Original-Mail-From: '' @ safeReportValue (text_or_empty (qe_FromAddr (qn_Row e))),
           ''Original-Rcpt-To: '' @ safeReportValue (qe_ToAddr (qn_Row e)),
           ''Arrival-Date: '' @ mv_TimeText env ''RFC1123Z'' (qe_ReceivedAt (qn_Row e))] crlf"

definition original_part :: string where
  "original_part = ''Content-Disposition: attachment; filename='' @ [CHR 0x22] @ ''original-message.eml'' @ [CHR 0x22]"

definition report_lines ::
  "mail_env \<Rightarrow> string \<Rightarrow> string \<Rightarrow> string \<Rightarrow> string list \<Rightarrow> string \<Rightarrow> string \<Rightarrow> q_entry \<Rightarrow> source_ip_report \<Rightarrow> string list" where
  "report_lines env boundary sender replyTo tos subject body e report =
     [''From: '' @ sender, ''To: '' @ join tos '', '', ''Subject: '' @ line_header subject] @
     (if trim_space replyTo \<noteq> [] \<and> \<not> equal_fold sender replyTo then [''Reply-To: '' @ replyTo] else []) @
     [''MIME-Version: 1.0'',
      ''Content-Type: multipart/report; report-type=feedback-report; boundary='' @ [CHR 0x22] @ boundary @ [CHR 0x22],
      [], ''This is a multipart abuse report generated by SentinelMail Gateway.'', [], ''--'' @ boundary,
      ''Content-Type: text/plain; charset=UTF-8'', ''Content-Transfer-Encoding: 8bit'', [], body, [], ''--'' @ boundary,
      ''Content-Type: message/feedback-report'', ''Content-Transfer-Encoding: 7bit'', [], buildFeedbackReport env e report, [],
      ''--'' @ boundary, ''Content-Type: message/rfc822'']"

definition buildAbuseReportMessage ::
  "mail_env \<Rightarrow> string \<Rightarrow> string \<Rightarrow> string list \<Rightarrow> string \<Rightarrow> string \<Rightarrow> q_entry \<Rightarrow> source_ip_report \<Rightarrow> string \<Rightarrow> string" where
  "buildAbuseReportMessage env sender replyTo tos subject body e report evidence =
     (let boundary = ''smg-abuse-'' @ mv_UUIDText env (mv_NewUUID env)
      in join (report_lines env boundary sender replyTo tos subject body e report @ [original_part, []]) crlf @
         evidence @ crlf @ ''--'' @ boundary @ ''--'' @ crlf)"

section \<open>Evidence\<close>

text \<open>The stored original, of the entry or else of its mail log.\<close>

definition originalReportEvidence :: "mail_env \<Rightarrow> quarantine_row \<Rightarrow> mail_db \<Rightarrow> string result" where
  "originalReportEvidence env q db =
     (let missing = ''original message with full headers is not available'';
          from_log = (case qe_MailLogID q of
             None \<Rightarrow> Inl missing
           | Some i \<Rightarrow>
               if mv_Err env ''select mail_log_blobs'' then Inl ''select mail_log_blobs''
               else case find (\<lambda>b. lb_MailLogID b = i \<and> lb_OrganizationID b = qe_OrganizationID q) (md_LogBlobs db) of
                 None \<Rightarrow> Inl missing
               | Some b \<Rightarrow> if lb_Bytes b = [] then Inl missing else Inr (lb_Bytes b))
      in if qe_ID q = 0 then from_log
         else if mv_Err env ''select message_bytes'' then Inl ''select message_bytes''
         else case find (\<lambda>b. qb_EntryID b = qe_ID q \<and> qb_OrganizationID b = qe_OrganizationID q) (md_QuarantineBlobs db) of
           None \<Rightarrow> from_log
         | Some b \<Rightarrow> if qb_Bytes b = [] then from_log else Inr (qb_Bytes b))"

definition sentEmailQuarantineEntryID :: "mail_env \<Rightarrow> quarantine_row \<Rightarrow> mail_db \<Rightarrow> uuid option" where
  "sentEmailQuarantineEntryID env q db =
     (if qe_ID q = 0 \<or> mv_Err env ''select exists'' then None
      else if list_ex (\<lambda>r. qe_ID r = qe_ID q \<and> qe_OrganizationID r = qe_OrganizationID q) (md_Quarantine db) then Some (qe_ID q) else None)"

section \<open>The report\<close>

definition no_concern :: string where
  "no_concern = ''only confirmed spam, phishing, malware, or other abusive email can be reported; mark the message with an abuse verdict before reporting it''"

definition report_of ::
  "mail_env \<Rightarrow> q_entry \<Rightarrow> string \<Rightarrow> string list \<times> bool \<Rightarrow> string \<Rightarrow> string list \<Rightarrow> source_ip_report" where
  "report_of env e ip camp network contacts =
     \<lparr>si_IP = ip, si_NetworkName = network, si_AbuseContacts = contacts,
      si_ReportSubject = line_header (reportSubjectForThreat e ip), si_ReportBody = buildAbuseReportBody env e ip network,
      si_CanSend = False, si_Sent = False, si_SentTo = [], si_Warning = [], si_OutboundServer = [], si_SubmissionMode = ''email'',
      si_Webform = None, si_CampaignCopies = qn_CampaignCopies e, si_UniqueSourceIPs = qn_UniqueSourceIPs e,
      si_CampaignSourceIPs = fst camp, si_CampaignSourcesTruncated = snd camp\<rparr>"

definition buildSourceIPReport :: "mail_env \<Rightarrow> q_entry \<Rightarrow> mail_db \<Rightarrow> source_ip_report result" where
  "buildSourceIPReport env e db =
     (if abuseReportConcern e = None then Inl no_concern
      else if trim_space (text_or_empty (qn_ClientIP e)) = [] then Inl ''no source IP was recorded for this message''
      else case parseReportableSourceIP (trim_space (text_or_empty (qn_ClientIP e))) of
        Inl msg \<Rightarrow> Inl msg
      | Inr a \<Rightarrow>
          (let ip = addr_text a; camp = campaignSourceIPs env e db; evidence = originalReportEvidence env (qn_Row e) db
           in case lookupRDAP (mv_HTTPGet env) (mv_Addr env) ip of
                Inl _ \<Rightarrow> Inr ((report_of env e ip camp [] [])\<lparr>si_Warning :=
                  ''RDAP lookup is temporarily unavailable. Try again in a few minutes; the report cannot be sent until an abuse contact is found.''\<rparr>)
              | Inr rdap \<Rightarrow>
                  (let report = report_of env e ip camp (rl_Name rdap) (rl_AbuseContacts rdap);
                       host = lookupSystemSetting env ''mail.outbound_relay_host'' [];
                       port = lookupSystemSetting env ''mail.outbound_relay_port'' ''25''
                   in if isWorldstreamAbuseProvider rdap then
                        (let r1 = report\<lparr>si_SubmissionMode := ''webform''\<rparr>;
                             r2 = r1\<lparr>si_Webform := Some (worldstreamAbuseWebform env e r1)\<rparr>
                         in case evidence of
                              Inl _ \<Rightarrow> Inr (r2\<lparr>si_Warning :=
                                ''Worldstream requires the original message evidence, but the message with full headers is no longer stored.''\<rparr>)
                            | Inr _ \<Rightarrow> Inr (r2\<lparr>si_Warning :=
                                ''Worldstream requires abuse complaints through its webform; email reports to their abuse mailbox are not processed.''\<rparr>))
                      else if rl_AbuseContacts rdap = [] then Inr (report\<lparr>si_Warning := ''No abuse contact was found in RDAP.''\<rparr>)
                      else if trim_space host = [] then Inr (report\<lparr>si_Warning := ''No outbound relay is configured.''\<rparr>)
                      else case evidence of
                        Inl _ \<Rightarrow> Inr (report\<lparr>si_Warning :=
                          ''The original message with full headers is not stored, so a provider-compliant abuse report cannot be sent.''\<rparr>)
                      | Inr _ \<Rightarrow> Inr (report\<lparr>si_CanSend := True, si_OutboundServer := join_host_port host port\<rparr>))))"

definition abuse_record :: "quarantine_row \<Rightarrow> source_ip_report \<Rightarrow> uuid option \<Rightarrow> string \<Rightarrow> string \<Rightarrow> string \<Rightarrow> string \<Rightarrow> sent_record" where
  "abuse_record q report entry host port sender raw =
     \<lparr>sr_OrganizationID = qe_OrganizationID q, sr_DomainID = qe_DomainID q, sr_MailLogID = qe_MailLogID q,
      sr_QuarantineEntryID = entry, sr_Kind = ''source_ip_abuse_report'', sr_FromAddr = sender,
      sr_ToAddrs = si_AbuseContacts report, sr_Subject = si_ReportSubject report, sr_RelayHost = host,
      sr_RelayPort = atoi_saturating (trim_space port), sr_Raw = raw,
      sr_Metadata = [(''source_ip'', JStr (si_IP report)), (''network_name'', JStr (si_NetworkName report)),
        (''evidence_mode'', JStr ''original_rfc822''), (''includes_original_message'', JBool True),
        (''includes_evidence_message'', JBool True)]\<rparr>"

definition sendAbuseReport :: "mail_env \<Rightarrow> q_entry \<Rightarrow> source_ip_report \<Rightarrow> mail_db \<Rightarrow> string option \<times> mail_db" where
  "sendAbuseReport env e report db =
     (let q = qn_Row e; host = lookupSystemSetting env ''mail.outbound_relay_host'' [];
          port = lookupSystemSetting env ''mail.outbound_relay_port'' ''25'';
          (name, sender) = reportFrom env (qe_OrganizationID q); (rname, raddr) = reportContact env (qe_OrganizationID q)
      in if trim_space host = [] then (Some ''no outbound relay configured'', db)
         else case originalReportEvidence env q db of
           Inl msg \<Rightarrow> (Some msg, db)
         | Inr evidence \<Rightarrow>
             (let raw = buildAbuseReportMessage env (mv_AddrText env name sender) (mv_AddrText env rname raddr)
                    (si_AbuseContacts report) (si_ReportSubject report) (si_ReportBody report) e report evidence
              in Send env (abuse_record q report (sentEmailQuarantineEntryID env q db) host port sender raw)
                   (relay_send (trim_space host) (trim_space port) sender (si_AbuseContacts report) raw) db))"

text \<open>What the mailbox and the mail log call: the report, an error with it, and the tables after.\<close>

definition SendSourceIPReportForEntry :: "mail_env \<Rightarrow> q_entry \<Rightarrow> mail_db \<Rightarrow> (source_ip_report option \<times> string option) \<times> mail_db" where
  "SendSourceIPReportForEntry env e db =
     (case buildSourceIPReport env e db of
        Inl msg \<Rightarrow> ((None, Some msg), db)
      | Inr report \<Rightarrow>
          if \<not> si_CanSend report then ((Some report, Some (si_Warning report)), db)
          else
            (let (r, db1) = sendAbuseReport env e report db
             in case r of
                  Some msg \<Rightarrow> ((Some (report\<lparr>si_Warning := ''send failed: '' @ msg\<rparr>), Some msg), db1)
                | None \<Rightarrow> ((Some (report\<lparr>si_Sent := True, si_SentTo := si_AbuseContacts report\<rparr>), None), db1)))"

definition prepareSourceIPReport ::
  "mail_env \<Rightarrow> uuid option \<Rightarrow> (scope \<times> identity) result \<Rightarrow> mail_db \<Rightarrow> source_ip_report response" where
  "prepareSourceIPReport env param sc db =
     (case readAllowedEntryWithIdentity env param sc db of
        Inl (n, msg) \<Rightarrow> WriteError n msg
      | Inr (e, _) \<Rightarrow> (case buildSourceIPReport env e db of Inl msg \<Rightarrow> WriteError 409 msg | Inr report \<Rightarrow> WriteJSON 200 report))"

definition sendSourceIPReport ::
  "mail_env \<Rightarrow> uuid option \<Rightarrow> (scope \<times> identity) result \<Rightarrow> mail_db \<Rightarrow> source_ip_report response \<times> mail_db" where
  "sendSourceIPReport env param sc db =
     (case readAllowedEntryWithIdentity env param sc db of
        Inl (n, msg) \<Rightarrow> (WriteError n msg, db)
      | Inr (e, _) \<Rightarrow>
          (case buildSourceIPReport env e db of
             Inl msg \<Rightarrow> (WriteError 409 msg, db)
           | Inr report \<Rightarrow>
               if \<not> si_CanSend report then (WriteJSON 409 report, db)
               else
                 (let (r, db1) = sendAbuseReport env e report db
                  in case r of
                       Some msg \<Rightarrow> (WriteJSON 502 (report\<lparr>si_Warning := ''send failed: '' @ msg\<rparr>), db1)
                     | None \<Rightarrow> (WriteJSON 200 (report\<lparr>si_Sent := True, si_SentTo := si_AbuseContacts report\<rparr>), db1))))"

section \<open>What leaves the gateway\<close>

lemma Send_outbox: "Send env rec m db = (e, db') \<Longrightarrow> md_Outbox db' = md_Outbox db \<or> md_Outbox db' = md_Outbox db @ [m]"
  using Send_cases [of env rec m db e db'] by (cases "mv_Relay env m") auto

lemma report_encloses: "sublist evidence (buildAbuseReportMessage env a b tos s t e report evidence)"
  unfolding buildAbuseReportMessage_def Let_def by (rule sublist_appendI)

lemma sendAbuseReport_cases:
  assumes "sendAbuseReport env e report db = (r, db')"
  shows "md_Outbox db' = md_Outbox db \<or>
      (\<exists>m evidence. md_Outbox db' = md_Outbox db @ [m] \<and> sn_To m = si_AbuseContacts report \<and>
         originalReportEvidence env (qn_Row e) db = Inr evidence \<and> sublist evidence (sn_Raw m))"
  using assms unfolding sendAbuseReport_def Let_def
  by (auto simp: relay_send_def report_encloses split: prod.splits sum.splits if_splits dest!: Send_outbox)

text \<open>A mail that a report may be: for an abusive message from a public address, to the contacts that the registries
  name for it, while the original is stored.\<close>

definition justified_report :: "mail_env \<Rightarrow> q_entry \<Rightarrow> mail_db \<Rightarrow> smtp_send \<Rightarrow> bool" where
  "justified_report env e db m =
     (abuseReportConcern e \<noteq> None \<and>
      (case parseReportableSourceIP (trim_space (text_or_empty (qn_ClientIP e))) of
         Inl _ \<Rightarrow> False
       | Inr a \<Rightarrow> is_global_unicast a \<and> \<not> is_private a \<and>
           (case lookupRDAP (mv_HTTPGet env) (mv_Addr env) (addr_text a) of
              Inl _ \<Rightarrow> False
            | Inr l \<Rightarrow> sn_To m = rl_AbuseContacts l \<and> sn_To m \<noteq> [] \<and> \<not> isWorldstreamAbuseProvider l)) \<and>
      (case originalReportEvidence env (qn_Row e) db of Inl _ \<Rightarrow> False | Inr evidence \<Rightarrow> evidence \<noteq> []))"

lemma stored_original: "originalReportEvidence env q db = Inr evidence \<Longrightarrow> evidence \<noteq> []"
  by (auto simp: originalReportEvidence_def Let_def split: option.splits if_splits)

lemma buildSourceIPReport_CanSend:
  assumes "buildSourceIPReport env e db = Inr report" "si_CanSend report"
  obtains a l evidence where "abuseReportConcern e \<noteq> None"
    "parseReportableSourceIP (trim_space (text_or_empty (qn_ClientIP e))) = Inr a"
    "lookupRDAP (mv_HTTPGet env) (mv_Addr env) (addr_text a) = Inr l" "si_AbuseContacts report = rl_AbuseContacts l"
    "rl_AbuseContacts l \<noteq> []" "\<not> isWorldstreamAbuseProvider l" "originalReportEvidence env (qn_Row e) db = Inr evidence"
  using assms unfolding buildSourceIPReport_def Let_def
  by (auto simp: report_of_def split: if_splits sum.splits)

lemma parseReportable_public: "parseReportableSourceIP s = Inr a \<Longrightarrow> is_global_unicast a \<and> \<not> is_private a"
  by (auto simp: parseReportableSourceIP_def Let_def split: option.splits if_splits)

lemma sent_report_justified:
  assumes "buildSourceIPReport env e db = Inr report" "si_CanSend report" "sendAbuseReport env e report db = (r, db')"
  shows "list_all (justified_report env e db) (drop (length (md_Outbox db)) (md_Outbox db'))"
proof -
  obtain a l evidence where r: "abuseReportConcern e \<noteq> None"
    "parseReportableSourceIP (trim_space (text_or_empty (qn_ClientIP e))) = Inr a"
    "lookupRDAP (mv_HTTPGet env) (mv_Addr env) (addr_text a) = Inr l" "si_AbuseContacts report = rl_AbuseContacts l"
    "rl_AbuseContacts l \<noteq> []" "\<not> isWorldstreamAbuseProvider l" "originalReportEvidence env (qn_Row e) db = Inr evidence"
    by (rule buildSourceIPReport_CanSend [OF assms(1,2)])
  from sendAbuseReport_cases [OF assms(3)] r parseReportable_public [OF r(2)] stored_original [OF r(7)] show ?thesis
    by (auto simp: justified_report_def)
qed

text \<open>C10 (abuse reports): a request for an abuse report sends nothing but reports for an abusive message from a
  public address, to the contacts that the registries name for the address, and nothing at all when the original is
  no longer stored. How the original is enclosed is not part of it.\<close>

theorem abuse_report_justified:
  "(case readAllowedEntryWithIdentity env param sc db of
      Inl _ \<Rightarrow> snd (sendSourceIPReport env param sc db) = db
    | Inr (e, _) \<Rightarrow> list_all (justified_report env e db)
        (drop (length (md_Outbox db)) (md_Outbox (snd (sendSourceIPReport env param sc db)))))"
  unfolding sendSourceIPReport_def Let_def
  by (auto split: sum.splits prod.splits option.splits dest: sent_report_justified)

text \<open>The last header of the enclosing part is followed by the message at once: no blank line ends the headers.\<close>

lemma join_two: "xs \<noteq> [] \<Longrightarrow> join (xs @ [y, []]) sep = join xs sep @ sep @ y @ sep"
proof (induction xs)
  case (Cons x xs)
  then show ?case by (cases xs) simp_all
qed simp

lemma report_part_has_no_blank_line:
  "\<exists>before after. buildAbuseReportMessage env sender replyTo tos subject body e report evidence =
     before @ original_part @ crlf @ evidence @ after"
proof -
  have "report_lines env b sender replyTo tos subject body e report \<noteq> []" for b by (simp add: report_lines_def)
  then have "\<exists>before. join (report_lines env b sender replyTo tos subject body e report @ [original_part, []]) crlf =
    before @ original_part @ crlf" for b
    using join_two [where sep = crlf and y = original_part] by (metis append_assoc)
  then show ?thesis unfolding buildAbuseReportMessage_def Let_def by (metis append_assoc)
qed

end
