(* ===== verification/QuarantineBulk.thy ===== *)
theory QuarantineBulk
  imports AbuseReports
begin

text \<open>
  \<open>internal/quarantine/quarantine.go\<close>, one action on many entries: in the request, or for larger selections in
  the background with a mail to the caller at the end. The 30-minute deadline of the background run is not
  modelled.
\<close>

record bulkActionReq =
  bq_IDs :: "uuid list"
  bq_Action :: string

record bulkActionResult =
  bu_Processed :: nat
  bu_Succeeded :: nat
  bu_Failed :: nat
  bu_EmailSentTo :: "string list"

record bulkActionResp =
  bp_Action :: string
  bp_Queued :: bool
  bp_Requested :: nat
  bp_Result :: bulkActionResult
  bp_Message :: string
  bp_NotifyTo :: string
  bp_NotificationPreference :: string
  bp_StartedAt :: string
  bp_FinishedAt :: string

definition bulkBackgroundThreshold :: nat where "bulkBackgroundThreshold = 10"

definition validBulkAction :: "string \<Rightarrow> bool" where
  "validBulkAction action =
     (action \<in> set [''release'', ''delete'', ''block_sender'', ''block_domain'', ''block_root_domain'', ''report_source_ip'',
                    ''mark_spam'', ''mark_phishing'', ''mark_malware'', ''mark_other''])"

definition shouldQueueBulkAction :: "string \<Rightarrow> nat \<Rightarrow> bool" where
  "shouldQueueBulkAction action count' =
     (if action = ''report_source_ip'' then count' \<ge> 2 else count' \<ge> bulkBackgroundThreshold)"

definition loadAllowedEntry :: "mail_env \<Rightarrow> uuid \<Rightarrow> scope \<Rightarrow> identity \<Rightarrow> mail_db \<Rightarrow> q_entry result" where
  "loadAllowedEntry env i scope ident db =
     (case select_entry env db i of
        None \<Rightarrow> Inl ''no rows in result set''
      | Some e \<Rightarrow>
          if \<not> Allows scope (qe_OrganizationID (qn_Row e)) then Inl ''not found''
          else if id_Role ident = ''org_user'' \<and> \<not> canEndUserAct ident (qn_Row e) then Inl ''not found''
          else Inr e)"

definition bulk_release :: "mail_env \<Rightarrow> q_entry \<Rightarrow> identity \<Rightarrow> mail_db \<Rightarrow> string list result \<times> mail_db" where
  "bulk_release env e ident db =
     (if qe_State (qn_Row e) \<noteq> ''held'' then (Inl ''not in held state'', db)
      else
        (let (a, db1) = recordChallengeApproval env e ident db
         in case a of
              InactiveRecipient \<Rightarrow> (Inl inactive_recipient, db1)
            | ApprovalFailed msg \<Rightarrow> (Inl msg, db1)
            | Approved \<Rightarrow>
                (let (r, db2) = releaseMessage env (qn_Row e) db1
                 in case r of
                      Some msg \<Rightarrow> (Inl msg, db2)
                    | None \<Rightarrow>
                        if mv_Err env ''update released'' then (Inl ''update released'', db2)
                        else (Inr [qe_ToAddr (qn_Row e)], mark_released env (Some (id_UserID ident)) (qe_ID (qn_Row e)) db2))))"

definition bulk_report :: "mail_env \<Rightarrow> q_entry \<Rightarrow> mail_db \<Rightarrow> string list result \<times> mail_db" where
  "bulk_report env e db =
     (case buildSourceIPReport env e db of
        Inl msg \<Rightarrow> (Inl msg, db)
      | Inr report \<Rightarrow>
          if \<not> si_CanSend report then (Inl (si_Warning report), db)
          else (let (r, db1) = sendAbuseReport env e report db
                in case r of Some msg \<Rightarrow> (Inl msg, db1) | None \<Rightarrow> (Inr (si_AbuseContacts report), db1)))"

text \<open>An operation that answers with an error or nothing.\<close>

definition no_mail :: "string option \<times> mail_db \<Rightarrow> string list result \<times> mail_db" where
  "no_mail run = (case run of (None, db) \<Rightarrow> (Inr [], db) | (Some msg, db) \<Rightarrow> (Inl msg, db))"

definition applyBulkAction :: "mail_env \<Rightarrow> q_entry \<Rightarrow> string \<Rightarrow> identity \<Rightarrow> mail_db \<Rightarrow> string list result \<times> mail_db" where
  "applyBulkAction env e action ident db =
     (let q = qn_Row e
      in if action = ''release'' then bulk_release env e ident db
         else if action = ''delete'' then
           (if mv_Err env ''update deleted'' then (Inl ''update deleted'', db) else (Inr [], del_entry_row (qe_ID q) db))
         else if action = ''block_sender'' then no_mail (blockEntrySender env q ident ''sender'' db)
         else if action = ''block_domain'' then no_mail (blockEntrySender env q ident ''domain'' db)
         else if action = ''block_root_domain'' then no_mail (blockEntrySender env q ident ''root_domain'' db)
         else if action = ''mark_spam'' then no_mail (recordQuarantineVerdict env q ident ''spam'' db)
         else if action = ''mark_phishing'' then no_mail (recordQuarantineVerdict env q ident ''phishing'' db)
         else if action = ''mark_malware'' then no_mail (recordQuarantineVerdict env q ident ''malware'' db)
         else if action = ''mark_other'' then no_mail (recordQuarantineVerdict env q ident ''other'' db)
         else if action = ''report_source_ip'' then bulk_report env e db
         else (Inl ''invalid action'', db))"

definition bulk_step ::
  "mail_env \<Rightarrow> string \<Rightarrow> scope \<Rightarrow> identity \<Rightarrow> uuid \<Rightarrow> bulkActionResult \<times> mail_db \<Rightarrow> bulkActionResult \<times> mail_db" where
  "bulk_step env action scope ident i run =
     (let (res, db) = run; res1 = res\<lparr>bu_Processed := Suc (bu_Processed res)\<rparr>; failed = res1\<lparr>bu_Failed := Suc (bu_Failed res1)\<rparr>
      in case loadAllowedEntry env i scope ident db of
           Inl _ \<Rightarrow> (failed, db)
         | Inr e \<Rightarrow>
             (let (r, db1) = applyBulkAction env e action ident db
              in case r of
                   Inl _ \<Rightarrow> (failed, db1)
                 | Inr mails \<Rightarrow>
                     (res1\<lparr>bu_EmailSentTo := appendUniqueStrings (bu_EmailSentTo res1) mails, bu_Succeeded := Suc (bu_Succeeded res1)\<rparr>, db1)))"

definition no_result :: bulkActionResult where
  "no_result = \<lparr>bu_Processed = 0, bu_Succeeded = 0, bu_Failed = 0, bu_EmailSentTo = []\<rparr>"

definition runBulkAction ::
  "mail_env \<Rightarrow> uuid list \<Rightarrow> string \<Rightarrow> scope \<Rightarrow> identity \<Rightarrow> mail_db \<Rightarrow> bulkActionResult \<times> mail_db" where
  "runBulkAction env ids action scope ident db = fold (bulk_step env action scope ident) ids (no_result, db)"

section \<open>Messages and notification\<close>

definition spaced :: "string \<Rightarrow> string" where
  "spaced action = map (\<lambda>c. if c = CHR ''_'' then CHR '' '' else c) action"

definition bulkMessage :: "string \<Rightarrow> bulkActionResult \<Rightarrow> string" where
  "bulkMessage action res = spaced action @ '' complete: '' @ itoa (bu_Succeeded res) @ '' succeeded, '' @ itoa (bu_Failed res) @ '' failed.''"

definition bulkCompletionNotification :: "mail_env \<Rightarrow> uuid \<Rightarrow> string" where
  "bulkCompletionNotification env userID =
     (case (if mv_Err env ''select notification'' then None else user_by_id (lv_Users (mv_View env)) userID) of
        None \<Rightarrow> ''email''
      | Some u \<Rightarrow>
          (let v = to_lower (trim_space (u_BulkCompletionNotify u))
           in if v \<in> {''email'', ''in_app'', ''both'', ''off''} then v else ''email''))"

definition bulkCompletionSendsEmail :: "string \<Rightarrow> bool" where
  "bulkCompletionSendsEmail v = (v = ''email'' \<or> v = ''both'')"

definition bulkNotifyTo :: "string \<Rightarrow> string \<Rightarrow> string" where
  "bulkNotifyTo v email = (if bulkCompletionSendsEmail v then email else [])"

definition bulkQueuedMessage :: "string \<Rightarrow> string" where
  "bulkQueuedMessage v =
     ''Bulk action is running in the background.'' @
     (if v = ''email'' then '' SentinelMail will email you when it finishes.''
      else if v = ''both'' then '' SentinelMail will show in-app status and email you when it finishes.''
      else if v = ''in_app'' then '' SentinelMail will keep completion status in the app.''
      else if v = ''off'' then '' Completion notifications are turned off.''
      else [])"

definition gatewayForNotification :: "mail_env \<Rightarrow> uuid \<Rightarrow> string \<Rightarrow> (string \<times> int) result" where
  "gatewayForNotification env orgID recipient =
     (if mv_Err env ''select gateway'' then Inl ''select gateway''
      else
        (let name = to_lower (report_domain recipient);
             hosts = (\<lambda>d. dm_OrganizationID d = orgID \<and> to_lower (dm_Name d) = name \<and> dm_IsActive d)
         in case first_by (\<lambda>g. (gw_Priority g, gw_CreatedAt g))
              (filter (\<lambda>g. gw_IsActive g \<and> list_ex (\<lambda>d. dm_ID d = gw_DomainID g \<and> hosts d) (lv_Domains (mv_View env))) (mv_Gateways env)) of
              None \<Rightarrow> Inl ''no rows in result set''
            | Some g \<Rightarrow> Inr (trim_space (gw_Host g), gw_Port g)))"

definition completion_text ::
  "mail_env \<Rightarrow> string \<Rightarrow> identity \<Rightarrow> string \<Rightarrow> nat \<Rightarrow> bulkActionResult \<Rightarrow> string \<Rightarrow> string" where
  "completion_text env sender ident action requested res extra =
     join [''From: '' @ sender, ''To: '' @ mv_AddrText env [] (id_Email ident),
           ''Subject: '' @ line_header ''SentinelMail bulk quarantine action finished'', ''MIME-Version: 1.0'',
           ''Content-Type: text/plain; charset=UTF-8'', [],
           join ([''SentinelMail finished your bulk quarantine action.'', [], ''Action: '' @ spaced action,
               ''Requested: '' @ itoa requested, ''Processed: '' @ itoa (bu_Processed res), ''Succeeded: '' @ itoa (bu_Succeeded res),
               ''Failed: '' @ itoa (bu_Failed res), ''Finished at: '' @ mv_TimeText env ''RFC3339'' (mv_Now env)] @
             (if bu_EmailSentTo res \<noteq> [] then [[], ''Emails sent to:''] @ map (\<lambda>a. ''- '' @ a) (bu_EmailSentTo res) else []) @
             (if trim_space extra \<noteq> [] then [[], ''Note: '' @ line_header extra] else [])) crlf] crlf"

definition sendBulkCompletionEmail ::
  "mail_env \<Rightarrow> identity \<Rightarrow> string \<Rightarrow> nat \<Rightarrow> bulkActionResult \<Rightarrow> string \<Rightarrow> mail_db \<Rightarrow> string option \<times> mail_db" where
  "sendBulkCompletionEmail env ident action requested res extra db =
     (case gatewayForNotification env (id_OrganizationID ident) (id_Email ident) of
        Inl msg \<Rightarrow> (Some msg, db)
      | Inr (host, port) \<Rightarrow>
          (let (name, sender) = reportFrom env (id_OrganizationID ident);
               raw = completion_text env (mv_AddrText env name sender) ident action requested res extra
           in Send env
                \<lparr>sr_OrganizationID = id_OrganizationID ident, sr_DomainID = None, sr_MailLogID = None, sr_QuarantineEntryID = None,
                 sr_Kind = ''bulk_quarantine_completion'', sr_FromAddr = sender, sr_ToAddrs = [id_Email ident],
                 sr_Subject = line_header ''SentinelMail bulk quarantine action finished'', sr_RelayHost = host, sr_RelayPort = port,
                 sr_Raw = raw,
                 sr_Metadata = [(''action'', JStr action), (''requested'', JNum (of_nat requested)),
                   (''processed'', JNum (of_nat (bu_Processed res))), (''succeeded'', JNum (of_nat (bu_Succeeded res))),
                   (''failed'', JNum (of_nat (bu_Failed res)))]\<rparr>
                \<lparr>sn_Addr = join_host_port host (if port < 0 then CHR ''-'' # itoa (nat (- port)) else itoa (nat port)), sn_Plain = False,
                 sn_From = sender, sn_To = [id_Email ident], sn_Raw = raw\<rparr> db))"

text \<open>The goroutine of a queued action; \<open>sc\<close> is what \<open>ScopeForIdentity\<close> finds when it runs.\<close>

definition runBulkActionInBackground ::
  "mail_env \<Rightarrow> scope result \<Rightarrow> uuid list \<Rightarrow> string \<Rightarrow> identity \<Rightarrow> mail_db \<Rightarrow> mail_db" where
  "runBulkActionInBackground env sc ids action ident db =
     (let tell = (\<lambda>res extra db. if bulkCompletionSendsEmail (bulkCompletionNotification env (id_UserID ident))
            then snd (sendBulkCompletionEmail env ident action (length ids) res extra db) else db)
      in case sc of
           Inl msg \<Rightarrow> tell (no_result\<lparr>bu_Failed := length ids\<rparr>) (''scope failed: '' @ msg) db
         | Inr scope \<Rightarrow> (let (res, db1) = runBulkAction env ids action scope ident db in tell res [] db1))"

datatype bulk_task = BulkTask "uuid list" string identity

text \<open>The response, with the goroutine that the handler started.\<close>

definition bulkAction ::
  "mail_env \<Rightarrow> (scope \<times> identity) result \<Rightarrow> bulkActionReq result \<Rightarrow> mail_db \<Rightarrow> (bulkActionResp response \<times> bulk_task option) \<times> mail_db" where
  "bulkAction env sc body db =
     (case sc of
        Inl e \<Rightarrow> ((WriteError 500 ''scope'', None), db)
      | Inr (scope, ident) \<Rightarrow>
          case body of
            Inl msg \<Rightarrow> ((WriteError 400 msg, None), db)
          | Inr req \<Rightarrow>
              (let action = to_lower (trim_space (bq_Action req)); ids = bq_IDs req; now = mv_TimeText env ''RFC3339'' (mv_Now env)
               in if ids = [] then ((WriteError 400 ''no messages selected'', None), db)
                  else if length ids > 500 then ((WriteError 400 ''too many messages selected'', None), db)
                  else if \<not> validBulkAction action then ((WriteError 400 ''invalid bulk action'', None), db)
                  else if shouldQueueBulkAction action (length ids) then
                    (let n = bulkCompletionNotification env (id_UserID ident)
                     in ((WriteJSON 202 \<lparr>bp_Action = action, bp_Queued = True, bp_Requested = length ids, bp_Result = no_result,
                            bp_Message = bulkQueuedMessage n, bp_NotifyTo = bulkNotifyTo n (id_Email ident),
                            bp_NotificationPreference = n, bp_StartedAt = now, bp_FinishedAt = []\<rparr>,
                          Some (BulkTask ids action ident)), db))
                  else
                    (let (res, db1) = runBulkAction env ids action scope ident db
                     in ((WriteJSON 200 \<lparr>bp_Action = action, bp_Queued = False, bp_Requested = length ids, bp_Result = res,
                            bp_Message = bulkMessage action res, bp_NotifyTo = [], bp_NotificationPreference = [],
                            bp_StartedAt = [], bp_FinishedAt = now\<rparr>, None), db1))))"

text \<open>Every selected entry is counted once.\<close>

lemma bulk_counts:
  "bu_Processed (fst (runBulkAction env ids action scope ident db)) = length ids \<and>
   bu_Succeeded (fst (runBulkAction env ids action scope ident db)) +
     bu_Failed (fst (runBulkAction env ids action scope ident db)) = length ids"
proof -
  let ?step = "bulk_step env action scope ident"
  have step: "bu_Processed (fst (?step i run)) = Suc (bu_Processed (fst run)) \<and>
      bu_Succeeded (fst (?step i run)) + bu_Failed (fst (?step i run)) = Suc (bu_Succeeded (fst run) + bu_Failed (fst run))" for i run
    by (auto simp: bulk_step_def Let_def split: prod.split sum.split)
  have "bu_Processed (fst (fold ?step ids run)) = bu_Processed (fst run) + length ids \<and>
      bu_Succeeded (fst (fold ?step ids run)) + bu_Failed (fst (fold ?step ids run)) =
        bu_Succeeded (fst run) + bu_Failed (fst run) + length ids" for run
    by (induction ids arbitrary: run) (simp_all add: step)
  then show ?thesis by (simp add: runBulkAction_def no_result_def)
qed

end
