(* ===== verification/QuarantineMoves.thy ===== *)
theory QuarantineMoves
  imports QuarantineBulk
begin

text \<open>
  What any handler can do to the quarantine, as a step relation: \<open>q_move may\<close> is one write, to entries that
  satisfy \<open>may\<close>. An entry is only marked as released when its stored message has left the gateway. Every
  handler is a sequence of such writes, so its invariants are those of the relation.
\<close>

section \<open>The relation\<close>

text \<open>A message to the entry's recipient has left, and it is the stored one.\<close>

definition left_gateway :: "mail_db \<Rightarrow> quarantine_row \<Rightarrow> bool" where
  "left_gateway db q =
     list_ex (\<lambda>s. sn_To s = [qe_ToAddr q] \<and>
       list_all (\<lambda>b. qb_EntryID b = qe_ID q \<longrightarrow> qb_Bytes b = sn_Raw s) (md_QuarantineBlobs db)) (md_Outbox db)"

definition benign :: "(quarantine_row \<Rightarrow> quarantine_row) \<Rightarrow> bool" where
  "benign f = (\<forall>x. qe_ID (f x) = qe_ID x \<and> qe_OrganizationID (f x) = qe_OrganizationID x \<and> qe_ToAddr (f x) = qe_ToAddr x \<and>
     (qe_State (f x) = qe_State x \<or> qe_State (f x) = ''deleted''))"

text \<open>Where the state of an entry can go.\<close>

definition state_step :: "string \<Rightarrow> string \<Rightarrow> bool" where
  "state_step s t = (t = s \<or> t = ''deleted'' \<or> (s = ''held'' \<and> t = ''released''))"

lemma benign_simps:
  assumes "benign f"
  shows "qe_ID (f x) = qe_ID x" "qe_ToAddr (f x) = qe_ToAddr x" "qe_State (f x) = ''released'' \<Longrightarrow> qe_State x = ''released''"
    "state_step (qe_State x) (qe_State (f x))"
  using spec [OF assms [unfolded benign_def], of x] by (auto simp: state_step_def)

inductive q_move :: "(quarantine_row \<Rightarrow> bool) \<Rightarrow> mail_db \<Rightarrow> mail_db \<Rightarrow> bool" for may where
  q_change: "(\<And>x. x \<in> set (md_Quarantine db) \<Longrightarrow> p x \<Longrightarrow> may x) \<Longrightarrow> benign f \<Longrightarrow>
    md_Quarantine db' = update_where p f (md_Quarantine db) \<Longrightarrow>
    md_QuarantineBlobs db' = md_QuarantineBlobs db \<Longrightarrow> prefix (md_Outbox db) (md_Outbox db') \<Longrightarrow> q_move may db db'"
| q_release: "(\<And>x. x \<in> set (md_Quarantine db) \<Longrightarrow> p x \<Longrightarrow> may x \<and> qe_State x = ''held'' \<and> left_gateway db x) \<Longrightarrow>
    md_Quarantine db' = update_where p (set_released now by') (md_Quarantine db) \<Longrightarrow>
    md_QuarantineBlobs db' = md_QuarantineBlobs db \<Longrightarrow> md_Outbox db' = md_Outbox db \<Longrightarrow> q_move may db db'"
| q_remove: "(\<And>x. x \<in> set (md_Quarantine db) \<Longrightarrow> old x \<Longrightarrow> may x) \<Longrightarrow>
    md_Quarantine db' = filter (\<lambda>x. \<not> old x) (md_Quarantine db) \<Longrightarrow>
    md_QuarantineBlobs db' = filter keep (md_QuarantineBlobs db) \<Longrightarrow> md_Outbox db' = md_Outbox db \<Longrightarrow> q_move may db db'"

lemma q_keep:
  "md_Quarantine db' = md_Quarantine db \<Longrightarrow> md_QuarantineBlobs db' = md_QuarantineBlobs db \<Longrightarrow>
     prefix (md_Outbox db) (md_Outbox db') \<Longrightarrow> q_move may db db'"
  by (rule q_change [where p = "\<lambda>_. False" and f = "\<lambda>x. x"]) (simp_all add: benign_def update_where_def)

lemma q_move_mono: "q_move may db db' \<Longrightarrow> (\<And>x. may x \<Longrightarrow> may' x) \<Longrightarrow> q_move may' db db'"
  by (induction rule: q_move.induct) (auto intro: q_move.intros)

lemma left_gateway_prefix:
  "left_gateway db q \<Longrightarrow> md_QuarantineBlobs db' = md_QuarantineBlobs db \<Longrightarrow> prefix (md_Outbox db) (md_Outbox db') \<Longrightarrow> left_gateway db' q"
  by (auto simp: left_gateway_def list_ex_iff prefix_def)

section \<open>Invariants of the relation\<close>

lemma set_released_simps [simp]:
  "qe_ID (set_released now by' q) = qe_ID q" "qe_OrganizationID (set_released now by' q) = qe_OrganizationID q"
  "qe_ToAddr (set_released now by' q) = qe_ToAddr q" "qe_State (set_released now by' q) = ''released''"
  by (simp_all add: set_released_def)

lemma q_move_distinct: "q_move may db db' \<Longrightarrow> distinct (map qe_ID (md_Quarantine db)) \<Longrightarrow> distinct (map qe_ID (md_Quarantine db'))"
proof (induction rule: q_move.induct)
  case (q_change db p f db')
  then show ?case by (simp add: benign_def update_where_key)
next
  case (q_release db p db' now by')
  then show ?case by (simp add: update_where_key)
next
  case (q_remove db old db')
  then show ?case by (simp add: distinct_map_filter)
qed

lemma q_move_foreign: "q_move may db db' \<Longrightarrow> r \<in> set (md_Quarantine db) \<Longrightarrow> \<not> may r \<Longrightarrow> r \<in> set (md_Quarantine db')"
proof (induction rule: q_move.induct)
  case (q_change db p f db')
  then have "\<not> p r" by blast
  with q_change show ?case by (simp add: update_where_other)
next
  case (q_release db p db' now by')
  then have "\<not> p r" by blast
  with q_release show ?case by (simp add: update_where_other)
qed auto

text \<open>A released entry has left the gateway.\<close>

definition released_left :: "mail_db \<Rightarrow> bool" where
  "released_left db = list_all (\<lambda>q. qe_State q = ''released'' \<longrightarrow> left_gateway db q) (md_Quarantine db)"

lemma left_gateway_same:
  "left_gateway db q \<Longrightarrow> qe_ID q' = qe_ID q \<Longrightarrow> qe_ToAddr q' = qe_ToAddr q \<Longrightarrow> left_gateway db q'"
  by (simp add: left_gateway_def)

lemma q_move_left: "q_move may db db' \<Longrightarrow> released_left db \<Longrightarrow> released_left db'"
proof (induction rule: q_move.induct)
  case (q_change db p f db')
  have "left_gateway db' y" if y: "y \<in> set (md_Quarantine db')" "qe_State y = ''released''" for y
  proof -
    obtain x where x: "x \<in> set (md_Quarantine db)" "y = x \<or> y = f x"
      using y(1) q_change(3) by (auto simp: update_where_def split: if_splits)
    have "qe_State x = ''released'' \<and> qe_ID y = qe_ID x \<and> qe_ToAddr y = qe_ToAddr x"
      using x(2) y(2) by (auto simp: benign_simps [OF q_change(2)])
    with x(1) q_change(4-6) show ?thesis
      by (auto simp: released_left_def list_all_iff intro: left_gateway_prefix left_gateway_same)
  qed
  then show ?case by (simp add: released_left_def list_all_iff)
next
  case (q_release db p db' now by')
  have "left_gateway db' y" if y: "y \<in> set (md_Quarantine db')" "qe_State y = ''released''" for y
  proof -
    obtain x where x: "x \<in> set (md_Quarantine db)" "y = x \<and> \<not> p x \<or> y = set_released now by' x \<and> p x"
      using y(1) q_release(2) by (auto simp: update_where_def split: if_splits)
    have "left_gateway db x" using x y(2) q_release(1,5) by (auto simp: released_left_def list_all_iff)
    then have "left_gateway db' x" by (rule left_gateway_prefix) (simp_all add: q_release)
    with x(2) show ?thesis by (auto intro: left_gateway_same)
  qed
  then show ?case by (simp add: released_left_def list_all_iff)
next
  case (q_remove db old db')
  then show ?case by (fastforce simp: released_left_def left_gateway_def list_all_iff list_ex_iff)
qed

text \<open>Every entry was there before, in a state from which it may have got to its state.\<close>

definition states_advance :: "mail_db \<Rightarrow> mail_db \<Rightarrow> bool" where
  "states_advance db db' =
     list_all (\<lambda>q'. list_ex (\<lambda>q. qe_ID q = qe_ID q' \<and> state_step (qe_State q) (qe_State q')) (md_Quarantine db)) (md_Quarantine db')"

lemma states_advance_refl [simp]: "states_advance db db"
  by (auto simp: states_advance_def state_step_def list_all_iff list_ex_iff)

lemma states_advance_trans: "states_advance db1 db2 \<Longrightarrow> states_advance db2 db3 \<Longrightarrow> states_advance db1 db3"
  by (fastforce simp: states_advance_def state_step_def list_all_iff list_ex_iff)

lemma q_move_states: "q_move may db db' \<Longrightarrow> states_advance db db'"
proof (induction rule: q_move.induct)
  case (q_change db p f db')
  then show ?case
    by (fastforce simp: states_advance_def benign_simps state_step_def [of x x for x] update_where_def list_all_iff list_ex_iff)
next
  case (q_release db p db' now by')
  then show ?case
    by (fastforce simp: states_advance_def state_step_def update_where_def list_all_iff list_ex_iff)
next
  case (q_remove db old db')
  then show ?case by (fastforce simp: states_advance_def state_step_def list_all_iff list_ex_iff)
qed

lemma q_move_blobs: "q_move may db db' \<Longrightarrow> distinct (map qb_EntryID (md_QuarantineBlobs db)) \<Longrightarrow> distinct (map qb_EntryID (md_QuarantineBlobs db'))"
  by (induction rule: q_move.induct) (simp_all add: distinct_map_filter)

section \<open>The handlers as moves\<close>

abbreviation q_moves :: "(quarantine_row \<Rightarrow> bool) \<Rightarrow> mail_db \<Rightarrow> mail_db \<Rightarrow> bool" where
  "q_moves may \<equiv> (q_move may)\<^sup>*\<^sup>*"

lemma q_moves_distinct: "q_moves may db db' \<Longrightarrow> distinct (map qe_ID (md_Quarantine db)) \<Longrightarrow> distinct (map qe_ID (md_Quarantine db'))"
  by (induction rule: rtranclp_induct) (auto intro: q_move_distinct)

lemma q_moves_foreign: "q_moves may db db' \<Longrightarrow> r \<in> set (md_Quarantine db) \<Longrightarrow> \<not> may r \<Longrightarrow> r \<in> set (md_Quarantine db')"
  by (induction rule: rtranclp_induct) (auto intro: q_move_foreign)

lemma q_moves_left: "q_moves may db db' \<Longrightarrow> released_left db \<Longrightarrow> released_left db'"
  by (induction rule: rtranclp_induct) (auto intro: q_move_left)

lemma q_moves_blobs: "q_moves may db db' \<Longrightarrow> distinct (map qb_EntryID (md_QuarantineBlobs db)) \<Longrightarrow> distinct (map qb_EntryID (md_QuarantineBlobs db'))"
  by (induction rule: rtranclp_induct) (auto intro: q_move_blobs)

lemma q_moves_states: "q_moves may db db' \<Longrightarrow> states_advance db db'"
  by (induction rule: rtranclp_induct) (auto intro: q_move_states states_advance_trans)

lemma q_moves_mono: "q_moves may db db' \<Longrightarrow> (\<And>x. may x \<Longrightarrow> may' x) \<Longrightarrow> q_moves may' db db'"
  by (induction rule: rtranclp_induct) (auto intro: q_move_mono rtranclp.rtrancl_into_rtrancl)

text \<open>Operations on other tables.\<close>

definition q_same :: "mail_db \<Rightarrow> mail_db \<Rightarrow> bool" where
  "q_same db db' = (md_Quarantine db' = md_Quarantine db \<and> md_QuarantineBlobs db' = md_QuarantineBlobs db \<and>
     prefix (md_Outbox db) (md_Outbox db'))"

lemma q_same_refl [simp]: "q_same db db"
  by (simp add: q_same_def)

lemma q_same_trans: "q_same db db1 \<Longrightarrow> q_same db1 db2 \<Longrightarrow> q_same db db2"
  by (auto simp: q_same_def)

lemma q_same_moves: "q_moves may db db1 \<Longrightarrow> q_same db1 db2 \<Longrightarrow> q_moves may db db2"
  by (auto simp: q_same_def intro: rtranclp.rtrancl_into_rtrancl q_keep)

lemma q_same_updates [simp]:
  "q_same db (db\<lparr>md_Entries := es\<rparr>)" "q_same db (db\<lparr>md_Classifications := cs\<rparr>)" "q_same db (db\<lparr>md_Reports := rs\<rparr>)"
  "q_same db (db\<lparr>md_Logs := ls\<rparr>)" "q_same db (db\<lparr>md_Mailbox := ms\<rparr>)" "q_same db (db\<lparr>md_Jobs := js\<rparr>)"
  "q_same db (db\<lparr>md_Alerts := is\<rparr>)" "q_same db (db\<lparr>md_Queue := qs\<rparr>)" "q_same db (db\<lparr>md_Sent := ss\<rparr>)"
  by (simp_all add: q_same_def)

lemma Send_tables [simp]:
  "md_Quarantine (snd (Send env rec m db)) = md_Quarantine db"
  "md_QuarantineBlobs (snd (Send env rec m db)) = md_QuarantineBlobs db"
  by (simp_all add: Send_def InsertPending_def Finish_def smtp_attempt_def Let_def split: prod.split sum.split option.split)

lemma Send_same: "Send env rec m db = (e, db') \<Longrightarrow> q_same db db'"
  using Send_tables [of env rec m db] Send_cases [of env rec m db e db'] by (auto simp: q_same_def)

lemma releaseMessage_same:
  assumes "releaseMessage env q db = (e, db')"
  shows "q_same db db'"
  using assms by (auto simp: releaseMessage_def split: sum.splits prod.splits dest: Send_same)

lemma releaseMessage_left:
  assumes "releaseMessage env q db = (None, db')" "distinct (map qb_EntryID (md_QuarantineBlobs db))"
  shows "left_gateway db' q"
proof -
  from assms(1) obtain raw host port where r: "stored_message env db (qe_ID q) = Inr raw"
    "Send env (release_record q host port raw) (release_send q host port raw) db = (None, db')"
    by (auto simp: releaseMessage_def split: sum.splits)
  then obtain b where b: "find (\<lambda>b. qb_EntryID b = qe_ID q) (md_QuarantineBlobs db) = Some b" "raw = qb_Bytes b"
    by (auto simp: stored_message_def split: if_splits option.splits)
  then have b': "b \<in> set (md_QuarantineBlobs db)" "qb_EntryID b = qe_ID q" by (auto simp: find_Some_iff)
  have "qb_Bytes c = raw" if "c \<in> set (md_QuarantineBlobs db')" "qb_EntryID c = qe_ID q" for c
    using that b(2) b' assms(2) Send_same [OF r(2)] by (auto simp: q_same_def distinct_map inj_on_def)
  with Send_cases [OF r(2)] show ?thesis
    by (auto simp: left_gateway_def list_ex_iff list_all_iff release_send_def)
qed

lemma recordChallengeApproval_same: "recordChallengeApproval env e ident db = (a, db') \<Longrightarrow> q_same db db'"
  by (auto simp: recordChallengeApproval_def Let_def split: if_splits option.splits prod.splits)

text \<open>Primary keys of the two tables.\<close>

definition q_keys :: "mail_db \<Rightarrow> bool" where
  "q_keys db = (distinct (map qe_ID (md_Quarantine db)) \<and> distinct (map qb_EntryID (md_QuarantineBlobs db)))"

lemma q_keys_moves: "q_keys db \<Longrightarrow> q_moves may db db' \<Longrightarrow> q_keys db'"
  by (simp add: q_keys_def q_moves_distinct q_moves_blobs)

lemma q_keys_same: "q_keys db \<Longrightarrow> q_same db db' \<Longrightarrow> q_keys db'"
  by (simp add: q_keys_def q_same_def)

text \<open>The row that was read is the only one with its identifier.\<close>

lemma q_keys_only: "q_keys db \<Longrightarrow> q \<in> set (md_Quarantine db) \<Longrightarrow> x \<in> set (md_Quarantine db) \<Longrightarrow> qe_ID x = qe_ID q \<Longrightarrow> x = q"
  by (auto simp: q_keys_def distinct_map dest: inj_onD)

lemma mark_released_moves:
  assumes "q_keys db" "q \<in> set (md_Quarantine db)" "may q" "qe_State q = ''held''" "q_same db db1"
    and "releaseMessage env q db1 = (None, db2)"
  shows "q_moves may db (mark_released env by' (qe_ID q) db2)"
proof -
  note same1 = q_keys_same [OF assms(1,5)] and same2 = releaseMessage_same [OF assms(6)]
  have "left_gateway db2 q" using releaseMessage_left [OF assms(6)] same1 by (simp add: q_keys_def)
  moreover have "md_Quarantine db2 = md_Quarantine db" using assms(5) same2 by (simp add: q_same_def)
  ultimately have "q_move may db2 (mark_released env by' (qe_ID q) db2)"
    using assms(1-4) q_keys_only [OF assms(1,2)]
    by (intro q_release [where p = "\<lambda>x. qe_ID x = qe_ID q"]) (auto simp: mark_released_def)
  moreover have "q_moves may db db2" by (rule q_same_moves [OF _ q_same_trans [OF assms(5) same2]]) simp
  ultimately show ?thesis by simp
qed

text \<open>Who may change an entry: its recipient, or a caller with a larger role in whose scope it is.\<close>

definition may_act :: "(scope \<times> identity) result \<Rightarrow> quarantine_row \<Rightarrow> bool" where
  "may_act sc q =
     (case sc of Inl _ \<Rightarrow> False
      | Inr (scope, ident) \<Rightarrow> canEndUserAct ident q \<or>
          ((Allows scope (qe_OrganizationID q) \<or> qe_OrganizationID q = OrgID scope) \<and> (id_Role ident \<noteq> ''org_user'' \<or> IsSuperAdmin scope)))"

lemma may_act_stable:
  "qe_OrganizationID x = qe_OrganizationID y \<Longrightarrow> qe_ToAddr x = qe_ToAddr y \<Longrightarrow> may_act sc x = may_act sc y"
  by (simp add: may_act_def canEndUserAct_def split: sum.split)

text \<open>The rows with an identifier may be changed.\<close>

definition owns :: "(quarantine_row \<Rightarrow> bool) \<Rightarrow> uuid \<Rightarrow> mail_db \<Rightarrow> bool" where
  "owns may i db = (\<forall>x \<in> set (md_Quarantine db). qe_ID x = i \<longrightarrow> may x)"

lemma owns_same: "owns may i db \<Longrightarrow> q_same db db' \<Longrightarrow> owns may i db'"
  by (simp add: owns_def q_same_def)

lemma owns_found: "q_keys db \<Longrightarrow> q \<in> set (md_Quarantine db) \<Longrightarrow> may q \<Longrightarrow> owns may (qe_ID q) db"
  using q_keys_only [of db q] by (auto simp: owns_def)

lemma owns_mark_released: "owns (may_act sc) i db \<Longrightarrow> owns (may_act sc) i (mark_released env by' j db)"
  by (auto simp: owns_def mark_released_def update_where_def may_act_stable [of "set_released n u x" x for n u x])

lemma update_entry_moves:
  "owns may i db \<Longrightarrow> benign f \<Longrightarrow>
     q_moves may db (db\<lparr>md_Quarantine := update_where (\<lambda>x. qe_ID x = i) f (md_Quarantine db)\<rparr>)"
  by (intro r_into_rtranclp q_change [where p = "\<lambda>x. qe_ID x = i" and f = f]) (auto simp: owns_def)

lemma benign_set_deleted [simp]: "benign set_deleted"
  by (simp add: benign_def set_deleted_def)

lemma benign_set_verdict [simp]: "benign (set_verdict c v)"
  by (simp add: benign_def set_verdict_def)

section \<open>The steps of the handlers\<close>

lemma domain_decision_same: "domain_decision env org d u es name a r db = (x, db') \<Longrightarrow> q_same db db'"
  by (auto simp: domain_decision_def Let_def split: prod.splits)

lemma insertBlockEntry_same: "insertBlockEntry env q es u p ident v db = (x, db') \<Longrightarrow> q_same db db'"
  by (auto simp: insertBlockEntry_def Let_def split: if_splits option.splits)

lemma recordQuarantineClassification_same: "q_same db (snd (recordQuarantineClassification env q s ident v db))"
  by (auto simp: recordQuarantineClassification_def Let_def split: prod.split)

lemma RecordFromQuarantine_same: "q_same db (snd (RecordFromQuarantine env i v u db))"
  by (auto simp: RecordFromQuarantine_def Let_def split: option.split)

lemma recordQuarantineVerdict_moves:
  assumes "owns may (qe_ID q) db"
  shows "q_moves may db (snd (recordQuarantineVerdict env q ident v db))"
  using assms by (auto simp: recordQuarantineVerdict_def Let_def intro: q_same_moves [OF update_entry_moves RecordFromQuarantine_same])

lemma finishSenderBlock_moves:
  assumes "owns may (qe_ID q) db"
  shows "q_moves may db (snd (finishSenderBlock env q s ident v db))"
proof -
  let ?db1 = "snd (recordQuarantineClassification env q s ident v db)"
  have "owns may (qe_ID q) ?db1" by (rule owns_same [OF assms recordQuarantineClassification_same])
  then have "q_moves may ?db1 (snd (finishSenderBlock env q s ident v db))"
    unfolding finishSenderBlock_def by (rule recordQuarantineVerdict_moves)
  with q_same_moves [OF _ recordQuarantineClassification_same] show ?thesis by (meson rtranclp.rtrancl_refl rtranclp_trans)
qed

lemma recordQuarantineNotSpam_moves:
  assumes "owns may (qe_ID q) db"
  shows "q_moves may db (snd (recordQuarantineNotSpam env q s ident db))"
proof -
  have "q_moves may db (snd (recordQuarantineVerdict env q ident v (db\<lparr>md_Classifications := tbl\<rparr>)))" for v tbl
  proof -
    have "q_moves may db (db\<lparr>md_Classifications := tbl\<rparr>)" by (rule q_same_moves [OF rtranclp.rtrancl_refl]) simp
    moreover have "owns may (qe_ID q) (db\<lparr>md_Classifications := tbl\<rparr>)" by (rule owns_same [OF assms]) simp
    ultimately show ?thesis by (meson recordQuarantineVerdict_moves rtranclp_trans)
  qed
  moreover have "q_moves may db (db\<lparr>md_Classifications := tbl\<rparr>)" for tbl by (rule q_same_moves [OF rtranclp.rtrancl_refl]) simp
  ultimately show ?thesis
    unfolding recordQuarantineNotSpam_def Let_def by (auto split: prod.split option.split)
qed


lemma ends_approval:
  "(a = Approved \<Longrightarrow> ends_in P x) \<Longrightarrow> (a = InactiveRecipient \<Longrightarrow> ends_in P y) \<Longrightarrow> (\<And>e. a = ApprovalFailed e \<Longrightarrow> ends_in P (z e)) \<Longrightarrow>
     ends_in P (case a of Approved \<Rightarrow> x | InactiveRecipient \<Rightarrow> y | ApprovalFailed e \<Rightarrow> z e)"
  by (cases a) auto

lemmas q_walk = handler_walk ends_approval

lemma select_entry_owns:
  assumes "select_entry env db i = Some e" "q_keys db" "may (qn_Row e)"
  shows "owns may i db" "qn_Row e \<in> set (md_Quarantine db)" "qe_ID (qn_Row e) = i"
  using select_entry_Some [OF assms(1)] owns_found [OF assms(2), of "qn_Row e" may] assms(3) by auto

lemma act_guard0:
  assumes "\<not> (\<not> CanAdmin s (id_Role ident) (qe_OrganizationID q) \<and> \<not> canEndUserAct ident q)"
  shows "may_act (Inr (s, ident)) q"
proof (cases "canEndUserAct ident q")
  case False
  with assms have c: "CanAdmin s (id_Role ident) (qe_OrganizationID q)" by simp
  moreover have "id_Role ident \<noteq> ''org_user''" if "\<not> IsSuperAdmin s" using CanAdmin_role [OF c that] by auto
  ultimately show ?thesis by (auto simp: may_act_def dest: CanAdmin_Allows)
qed (simp add: may_act_def)

lemma readAllowed_may:
  assumes "readAllowedEntryWithIdentity env param sc db = Inr (e, scope, ident)"
  obtains i where "select_entry env db i = Some e" "may_act sc (qn_Row e)"
  using assms
  by (auto simp: readAllowedEntryWithIdentity_def may_act_def split: option.splits sum.splits prod.splits if_splits)

lemma act_guard:
  "CanAdmin s (id_Role ident) (qe_OrganizationID q) \<Longrightarrow> may_act (Inr (s, ident)) q"
  "canEndUserAct ident q \<Longrightarrow> may_act (Inr (s, ident)) q"
  by (blast intro: act_guard0)+

lemma q_same_moves0: "q_same db db' \<Longrightarrow> q_moves may db db'"
  by (rule q_same_moves [OF rtranclp.rtrancl_refl])

lemmas run_same = recordChallengeApproval_same [OF sym] releaseMessage_same [OF sym] domain_decision_same [OF sym]
  insertBlockEntry_same [OF sym]

lemma release_marks:
  assumes "q_keys db" "select_entry env db i = Some e" "may (qn_Row e)" "qe_State (qn_Row e) = ''held''"
    and "q_same db db1" "(None, db2) = releaseMessage env (qn_Row e) db1"
  shows "q_moves may db (mark_released env by' i db2)"
  using mark_released_moves [where may = may and by' = by', OF assms(1) _ assms(3,4,5) assms(6) [symmetric]] select_entry_owns [where may = may, OF assms(2,1,3)] by simp

lemma release_moves:
  assumes "q_keys db"
  shows "q_moves (may_act sc) db (snd (release env param sc db))"
  unfolding release_def
  by (rule ends_inI, intro q_walk)
    (auto intro: q_same_moves0 q_same_trans release_marks [OF assms] act_guard dest: run_same)

lemma del_moves:
  assumes "q_keys db"
  shows "q_moves (may_act sc) db (snd (del env param sc db))"
  unfolding del_def
  by (rule ends_inI, intro q_walk)
    (auto simp: del_entry_row_def intro!: update_entry_moves intro: select_entry_owns(1) [OF _ assms] act_guard)

lemma q_moves_step: "q_same db db1 \<Longrightarrow> q_moves may db1 db2 \<Longrightarrow> q_moves may db db2"
  by (meson q_same_moves0 rtranclp_trans)

text \<open>The writes of an action, after writes to other tables.\<close>

lemma NotSpam_run:
  assumes "(e, db2) = recordQuarantineNotSpam env q s ident db1" "q_same db db1" "owns may (qe_ID q) db"
  shows "q_moves may db db2"
  using recordQuarantineNotSpam_moves [OF owns_same [OF assms(3,2)], of env s ident] q_moves_step [OF assms(2)]
  by (simp flip: assms(1))

lemma Verdict_run:
  assumes "(e, db2) = recordQuarantineVerdict env q ident v db1" "q_same db db1" "owns may (qe_ID q) db"
  shows "q_moves may db db2"
  using recordQuarantineVerdict_moves [OF owns_same [OF assms(3,2)], of env ident v] q_moves_step [OF assms(2)]
  by (simp flip: assms(1))

lemma Block_run:
  assumes "(e, db2) = finishSenderBlock env q s ident v db1" "q_same db db1" "owns may (qe_ID q) db"
  shows "q_moves may db db2"
  using finishSenderBlock_moves [OF owns_same [OF assms(3,2)], of env s ident v] q_moves_step [OF assms(2)]
  by (simp flip: assms(1))

lemma allow_and_forget_moves:
  assumes "owns may (qe_ID q) db"
  shows "q_moves may db (snd (allow_and_forget env q ident s d r n msg db))"
  unfolding allow_and_forget_def
  by (rule ends_inI, intro q_walk) (auto intro: q_same_moves0 NotSpam_run [OF _ _ assms] dest: run_same)

lemma readAllowed_owns:
  assumes "readAllowedEntryWithIdentity env param sc db = Inr (e, scope, ident)" "q_keys db"
  shows "owns (may_act sc) (qe_ID (qn_Row e)) db"
proof -
  obtain i where i: "select_entry env db i = Some e" "may_act sc (qn_Row e)" by (rule readAllowed_may [OF assms(1)])
  show ?thesis using select_entry_owns [where may = "may_act sc", OF i(1) assms(2) i(2)] by simp
qed

lemma verdict_moves:
  assumes "q_keys db"
  shows "q_moves (may_act sc) db (snd (verdict env param sc body db))"
  unfolding verdict_def
  by (rule ends_inI, intro q_walk) (auto intro: Verdict_run readAllowed_owns [OF _ assms])

lemma allowSender_moves:
  assumes "q_keys db"
  shows "q_moves (may_act sc) db (snd (allowSender env param sc body db))"
  unfolding allowSender_def
  by (rule ends_inI, intro q_walk) (auto simp: ends_in_def intro: allow_and_forget_moves readAllowed_owns [OF _ assms])

lemma blockEntrySender_moves:
  assumes "owns may (qe_ID q) db"
  shows "q_moves may db (snd (blockEntrySender env q ident match db))"
proof -
  have finish: "ends_in (q_moves may db) (finishSenderBlock env q s ident v db1)" if "q_same db db1" for s v db1
    using Block_run [OF _ that assms] by (metis ends_answer surj_pair)
  show ?thesis
    unfolding blockEntrySender_def
    by (rule ends_inI, intro q_walk)
      ((hypsubst+)?, (rule rtranclp.rtrancl_refl | rule q_same_moves0 finish,
         (erule domain_decision_same | erule insertBlockEntry_same | erule run_same)))+
qed

lemma write_block_same: "write_block env q es u m p ident v db = (x, db') \<Longrightarrow> q_same db db'"
  by (auto simp: write_block_def Let_def split: if_splits sum.splits prod.splits intro: domain_decision_same insertBlockEntry_same)

lemma blockSender_moves:
  assumes "q_keys db"
  shows "q_moves (may_act sc) db (snd (blockSender env param sc body db))"
  unfolding blockSender_def
  by (rule ends_inI, intro q_walk)
    ((hypsubst+)?, (rule rtranclp.rtrancl_refl | rule q_same_moves0, (erule write_block_same | erule write_block_same [OF sym]) |
       rule Block_run, (assumption | erule sym), (erule write_block_same | erule write_block_same [OF sym]),
       erule readAllowed_owns [OF _ assms]))+

lemma notSpam_moves:
  assumes "q_keys db"
  shows "q_moves (may_act sc) db (snd (notSpam env param sc db))"
proof -
  have after: "ends_in (q_moves (may_act sc) db) (allow_and_forget env (qn_Row e) ident s d r n msg (mark_released env by' (qe_ID (qn_Row e)) db1))"
    if "readAllowedEntryWithIdentity env param sc db = Inr (e, scope, ident)" "qe_State (qn_Row e) = ''held''"
      "releaseMessage env (qn_Row e) db = (None, db1)" for e scope ident s d r n msg by' db1
  proof -
    note allowed = that(1)
    obtain i where i: "select_entry env db i = Some e" "may_act sc (qn_Row e)" by (rule readAllowed_may [OF allowed])
    note found = select_entry_owns [where may = "may_act sc", OF i(1) assms i(2)]
    have "q_moves (may_act sc) db (mark_released env by' (qe_ID (qn_Row e)) db1)"
      using release_marks [where may = "may_act sc", OF assms i that(2) q_same_refl that(3) [symmetric]] found(3) by simp
    moreover have "owns (may_act sc) (qe_ID (qn_Row e)) (mark_released env by' (qe_ID (qn_Row e)) db1)"
      using found(1,3) by (simp add: owns_mark_released owns_same [OF _ releaseMessage_same [OF that(3)]])
    ultimately show ?thesis unfolding ends_in_def by (meson allow_and_forget_moves rtranclp_trans)
  qed
  have direct: "ends_in (q_moves (may_act sc) db) (allow_and_forget env (qn_Row e) ident s d r n msg db)"
    if "readAllowedEntryWithIdentity env param sc db = Inr (e, scope, ident)" for e scope ident s d r n msg
    unfolding ends_in_def by (rule allow_and_forget_moves [OF readAllowed_owns [OF that assms]])
  show ?thesis
    unfolding notSpam_def
    by (rule ends_inI, intro q_walk)
      ((hypsubst+)?, (rule rtranclp.rtrancl_refl | rule q_same_moves0, (erule releaseMessage_same | erule releaseMessage_same [OF sym]) |
         rule direct, assumption | rule after, assumption, assumption, (assumption | erule sym)))+
qed

lemma purge_moves:
  assumes "\<And>x. old x \<Longrightarrow> may x"
  shows "q_moves may db (purge_rows old oldmail db)"
  by (intro r_into_rtranclp q_remove [where old = old]) (auto simp: purge_rows_def Let_def assms)

lemma purgeExpired_moves: "q_moves (may_act sc) db (snd (purgeExpired env sc db))"
proof -
  have "may_act (Inr (s, ident)) q"
    if "expired now (IsSuperAdmin s) (if VisibleOrgIDs s = [] \<and> \<not> IsSuperAdmin s then [OrgID s] else VisibleOrgIDs s) (qe_ExpiresAt q) (qe_OrganizationID q)"
      "id_Role ident \<noteq> ''org_user''" for s ident q now
    using that by (auto simp: may_act_def expired_def Allows_iff split: if_splits)
  note may = this
  show ?thesis
    unfolding purgeExpired_def
    by (rule ends_inI, intro q_walk) (auto intro!: purge_moves intro: may)
qed

text \<open>The operations that other components call act on the held entries of one message.\<close>

lemma ReleaseHeldForRecipient_moves:
  assumes "q_keys db"
  shows "q_moves (held_for i a) db (snd (ReleaseHeldForRecipient env i a u db))"
proof -
  have "q_moves (held_for i a) db (mark_released env u' (qe_ID q) db1)"
    if "first_by k (filter (held_for i a) (md_Quarantine db)) = Some q" "(None, db1) = releaseMessage env q db" for q k db1 u'
    using mark_released_moves [where may = "held_for i a", OF assms _ _ _ q_same_refl that(2) [symmetric]] first_by_filter_Some [OF that(1)]
    by (auto simp: held_for_def)
  note final = this
  show ?thesis
    unfolding ReleaseHeldForRecipient_def
    by (rule ends_inI, intro q_walk) (auto intro: final q_same_moves0 dest: run_same)
qed

lemma DeleteHeldForRecipient_moves: "q_moves (held_for i a) db (snd (DeleteHeldForRecipient env i a db))"
  by (auto simp: DeleteHeldForRecipient_def intro!: r_into_rtranclp q_change [where p = "held_for i a" and f = set_deleted])

lemma release_loop_moves:
  assumes "q_keys db" "distinct (map qe_ID qs)" "\<And>q. q \<in> set qs \<Longrightarrow> q \<in> set (md_Quarantine db) \<and> may q \<and> qe_State q = ''held''"
  shows "q_moves may db (snd (release_loop env i qs n db))"
  using assms
proof (induction qs arbitrary: n db)
  case (Cons q qs)
  obtain e db1 where r: "releaseMessage env q db = (e, db1)" by (cases "releaseMessage env q db")
  note same = releaseMessage_same [OF r] and moves0 = q_same_moves0 [OF releaseMessage_same [OF r]]
  show ?case
  proof (cases e)
    case (Some msg)
    have "q_same db (deep_unavailable i msg db1)" using same by (simp add: q_same_def deep_unavailable_def)
    with Some r moves0 show ?thesis by (auto intro: q_same_moves0)
  next
    case None
    let ?db2 = "db1\<lparr>md_Quarantine := update_where (\<lambda>x. qe_ID x = qe_ID q \<and> qe_State x = ''held'') (set_released (mv_Now env) None) (md_Quarantine db1)\<rparr>"
    have q: "q \<in> set (md_Quarantine db)" "may q" "qe_State q = ''held''" using Cons(4) by auto
    have left: "left_gateway db1 q" using releaseMessage_left r None Cons(2) by (auto simp: q_keys_def)
    have rows: "md_Quarantine db1 = md_Quarantine db" using same by (simp add: q_same_def)
    have "q_move may db1 ?db2"
      by (rule q_release [where p = "\<lambda>x. qe_ID x = qe_ID q \<and> qe_State x = ''held''"])
        (use q left rows q_keys_only [OF Cons(2) q(1)] in auto)
    then have first: "q_moves may db ?db2" by (rule rtranclp.rtrancl_into_rtrancl [OF moves0])
    have "q_moves may ?db2 (snd (release_loop env i qs (Suc n) ?db2))"
    proof (rule Cons(1))
      show "q_keys ?db2" using q_keys_same [OF Cons(2) same] by (simp add: q_keys_def update_where_key)
      show "x \<in> set (md_Quarantine ?db2) \<and> may x \<and> qe_State x = ''held''" if "x \<in> set qs" for x
      proof -
        have "qe_ID x \<noteq> qe_ID q" using Cons(3) that by (auto simp: image_iff)
        with Cons(4) [of x] that rows show ?thesis by (simp add: update_where_other)
      qed
    qed (use Cons(3) in simp)
    with first None r moves0 show ?thesis by auto
  qed
qed simp

lemma ReleaseDeepAnalysisHold_moves:
  assumes "q_keys db"
  shows "q_moves (\<lambda>q. qe_MailLogID q = Some i \<and> qe_State q = ''held'') db (snd (ReleaseDeepAnalysisHold env i db))"
proof -
  define held where "held = sort_key (\<lambda>q. (qe_ReceivedAt q, map byte (qe_ToAddr q)))
    (filter (\<lambda>q. qe_MailLogID q = Some i \<and> qe_State q = ''held'') (md_Quarantine db))"
  let ?may = "\<lambda>q. qe_MailLogID q = Some i \<and> qe_State q = ''held''"
  have ids: "distinct (map qe_ID held)"
    using assms by (simp add: held_def q_keys_def distinct_map inj_on_def)
  have loop: "q_moves ?may db (snd (release_loop env i held 0 db))"
    by (rule release_loop_moves [OF assms ids]) (simp add: held_def)
  have "q_same db1 (deep_released env i db1)" for db1 by (simp add: q_same_def deep_released_def)
  with loop show ?thesis
    unfolding ReleaseDeepAnalysisHold_def held_def [symmetric] Let_def
    by (auto split: prod.split option.split intro: q_same_moves)
qed

section \<open>Bulk actions and reports\<close>

lemma sendAbuseReport_same: "sendAbuseReport env e report db = (r, db') \<Longrightarrow> q_same db db'"
  unfolding sendAbuseReport_def Let_def by (auto split: prod.splits sum.splits if_splits dest: Send_same)

lemma loadAllowed_may:
  assumes "loadAllowedEntry env i scope ident db = Inr e" "q_keys db"
  shows "may_act (Inr (scope, ident)) (qn_Row e)" "select_entry env db i = Some e"
    "owns (may_act (Inr (scope, ident))) (qe_ID (qn_Row e)) db"
proof -
  show may: "may_act (Inr (scope, ident)) (qn_Row e)" and sel: "select_entry env db i = Some e"
    using assms(1) by (auto simp: loadAllowedEntry_def may_act_def split: option.splits if_splits)
  show "owns (may_act (Inr (scope, ident))) (qe_ID (qn_Row e)) db"
    using select_entry_owns [where may = "may_act (Inr (scope, ident))", OF sel assms(2) may] by simp
qed

lemma bulk_release_moves:
  assumes "q_keys db" "select_entry env db i = Some e" "may (qn_Row e)"
  shows "q_moves may db (snd (bulk_release env e ident db))"
  unfolding bulk_release_def
  by (rule ends_inI, intro q_walk)
    (auto simp: select_entry_owns(3) [where may = may, OF assms(2,1,3)]
       intro: q_same_moves0 q_same_trans release_marks [where may = may, OF assms(1,2,3)] dest: run_same)

lemma bulk_report_same: "q_same db (snd (bulk_report env e db))"
  by (auto simp: bulk_report_def Let_def split: sum.split prod.split option.split dest: sendAbuseReport_same)

lemma no_mail_snd [simp]: "snd (no_mail run) = snd run"
  by (simp add: no_mail_def split: prod.split option.split)

lemma applyBulkAction_moves:
  assumes "loadAllowedEntry env i scope ident db = Inr e" "q_keys db"
  shows "q_moves (may_act (Inr (scope, ident))) db (snd (applyBulkAction env e action ident db))"
proof -
  let ?may = "may_act (Inr (scope, ident))"
  note owns = loadAllowed_may(3) [OF assms]
  note steps = bulk_release_moves [where may = ?may, OF assms(2) loadAllowed_may(2) [OF assms] loadAllowed_may(1) [OF assms]]
    update_entry_moves [where may = ?may, OF owns benign_set_deleted]
    blockEntrySender_moves [where may = ?may, OF owns] recordQuarantineVerdict_moves [where may = ?may, OF owns]
    q_same_moves0 [OF bulk_report_same]
  then show ?thesis unfolding applyBulkAction_def Let_def by (simp add: del_entry_row_def)
qed

lemma bulk_step_moves:
  assumes "q_keys (snd run)"
  shows "q_moves (may_act (Inr (scope, ident))) (snd run) (snd (bulk_step env action scope ident i run))"
proof -
  have "snd (bulk_step env action scope ident i run) =
      (case loadAllowedEntry env i scope ident (snd run) of Inl _ \<Rightarrow> snd run | Inr e \<Rightarrow> snd (applyBulkAction env e action ident (snd run)))"
    by (simp add: bulk_step_def Let_def split: prod.split sum.split)
  then show ?thesis using applyBulkAction_moves [of env i scope ident "snd run"] assms by (simp split: sum.split)
qed

lemma runBulkAction_moves:
  assumes "q_keys db"
  shows "q_moves (may_act (Inr (scope, ident))) db (snd (runBulkAction env ids action scope ident db))"
proof -
  have "q_keys (snd run) \<Longrightarrow> q_moves (may_act (Inr (scope, ident))) (snd run) (snd (fold (bulk_step env action scope ident) ids run))" for run
  proof (induction ids arbitrary: run)
    case (Cons i ids)
    note step = bulk_step_moves [OF Cons(2), of scope ident env action i]
    show ?case using rtranclp_trans [OF step Cons(1) [OF q_keys_moves [OF Cons(2) step]]] by simp
  qed simp
  from this [of "(no_result, db)"] assms show ?thesis by (simp add: runBulkAction_def)
qed

lemma sendBulkCompletionEmail_same: "q_same db (snd (sendBulkCompletionEmail env ident action n res extra db))"
  unfolding sendBulkCompletionEmail_def Let_def by (auto split: sum.split prod.split intro: Send_same prod.collapse [symmetric])

end
