(* ===== verification/QuarantineSafety.thy ===== *)
theory QuarantineSafety
  imports QuarantineMoves SenderPolicy
begin

text \<open>
  The quarantine over any series of requests: all operations of \<open>internal/quarantine\<close> that change the tables,
  those of the other packages included, in any order and with any outcome of their statements.
\<close>

type_synonym caller = "(scope \<times> identity) result"

datatype q_request =
    Release "uuid option" caller
  | Delete "uuid option" caller
  | NotSpam "uuid option" caller
  | MarkVerdict "uuid option" caller "string result"
  | BlockSender "uuid option" caller "blockSenderReq result"
  | AllowSender "uuid option" caller "blockSenderReq result"
  | ReportSource "uuid option" caller
  | PurgeExpired caller
  | Bulk caller "bulkActionReq result"
  | BulkInBackground "scope result" "uuid list" string identity
  | ReleaseHeld uuid string uuid
  | DeleteHeld uuid string
  | ReleaseDeepHold uuid

fun q_step :: "mail_env \<Rightarrow> q_request \<Rightarrow> mail_db \<Rightarrow> mail_db" where
  "q_step env (Release i sc) db = snd (release env i sc db)"
| "q_step env (Delete i sc) db = snd (del env i sc db)"
| "q_step env (NotSpam i sc) db = snd (notSpam env i sc db)"
| "q_step env (MarkVerdict i sc body) db = snd (verdict env i sc body db)"
| "q_step env (BlockSender i sc body) db = snd (blockSender env i sc body db)"
| "q_step env (AllowSender i sc body) db = snd (allowSender env i sc body db)"
| "q_step env (ReportSource i sc) db = snd (sendSourceIPReport env i sc db)"
| "q_step env (PurgeExpired sc) db = snd (purgeExpired env sc db)"
| "q_step env (Bulk sc body) db = snd (bulkAction env sc body db)"
| "q_step env (BulkInBackground sc ids action ident) db = runBulkActionInBackground env sc ids action ident db"
| "q_step env (ReleaseHeld i a u) db = snd (ReleaseHeldForRecipient env i a u db)"
| "q_step env (DeleteHeld i a) db = snd (DeleteHeldForRecipient env i a db)"
| "q_step env (ReleaseDeepHold i) db = snd (ReleaseDeepAnalysisHold env i db)"

text \<open>The entries that a request may change.\<close>

fun request_may :: "q_request \<Rightarrow> quarantine_row \<Rightarrow> bool" where
  "request_may (Release _ sc) = may_act sc"
| "request_may (Delete _ sc) = may_act sc"
| "request_may (NotSpam _ sc) = may_act sc"
| "request_may (MarkVerdict _ sc _) = may_act sc"
| "request_may (BlockSender _ sc _) = may_act sc"
| "request_may (AllowSender _ sc _) = may_act sc"
| "request_may (ReportSource _ sc) = (\<lambda>_. False)"
| "request_may (PurgeExpired sc) = may_act sc"
| "request_may (Bulk sc _) = may_act sc"
| "request_may (BulkInBackground sc _ _ ident) = (case sc of Inl _ \<Rightarrow> (\<lambda>_. False) | Inr s \<Rightarrow> may_act (Inr (s, ident)))"
| "request_may (ReleaseHeld i a _) = held_for i a"
| "request_may (DeleteHeld i a) = held_for i a"
| "request_may (ReleaseDeepHold i) = (\<lambda>q. qe_MailLogID q = Some i \<and> qe_State q = ''held'')"

definition q_run :: "(mail_env \<times> q_request) list \<Rightarrow> mail_db \<Rightarrow> mail_db" where
  "q_run rs db = fold (\<lambda>(env, r). q_step env r) rs db"

section \<open>Every request is a sequence of moves\<close>

lemma ReportSource_same: "q_same db (snd (sendSourceIPReport env i sc db))"
  by (auto simp: sendSourceIPReport_def Let_def split: sum.split prod.split option.split dest: sendAbuseReport_same)

lemma bulkAction_moves:
  assumes "q_keys db"
  shows "q_moves (may_act sc) db (snd (bulkAction env sc body db))"
proof -
  have run: "q_moves (may_act (Inr (scope, ident))) db db1" if "(res, db1) = runBulkAction env ids action scope ident db"
    for scope ident ids action res db1
    using runBulkAction_moves [OF assms, of scope ident env ids action] by (simp flip: that)
  show ?thesis
    unfolding bulkAction_def
    by (rule ends_inI, intro q_walk) ((hypsubst+)?, (rule rtranclp.rtrancl_refl | (erule run | erule run [OF sym])))+
qed

lemma background_moves:
  assumes "q_keys db"
  shows "q_moves (request_may (BulkInBackground sc ids action ident)) db (runBulkActionInBackground env sc ids action ident db)"
proof (cases sc)
  case (Inl msg)
  then show ?thesis
    by (simp add: runBulkActionInBackground_def q_same_moves0 [OF sendBulkCompletionEmail_same])
next
  case (Inr scope)
  obtain res db1 where run: "runBulkAction env ids action scope ident db = (res, db1)"
    by (cases "runBulkAction env ids action scope ident db")
  with runBulkAction_moves [OF assms, of scope ident env ids action] have "q_moves (may_act (Inr (scope, ident))) db db1" by simp
  then show ?thesis
    by (simp add: runBulkActionInBackground_def Inr run q_same_moves [OF _ sendBulkCompletionEmail_same])
qed

lemma q_step_moves:
  assumes "q_keys db"
  shows "q_moves (request_may r) db (q_step env r db)"
proof (cases r)
  case (BulkInBackground sc ids action ident)
  with background_moves [OF assms, of sc ids action ident env] show ?thesis by simp
qed (simp_all add: release_moves [OF assms] del_moves [OF assms] notSpam_moves [OF assms] verdict_moves [OF assms]
  blockSender_moves [OF assms] allowSender_moves [OF assms] purgeExpired_moves bulkAction_moves [OF assms]
  q_same_moves0 [OF ReportSource_same] ReleaseHeldForRecipient_moves [OF assms] DeleteHeldForRecipient_moves
  ReleaseDeepAnalysisHold_moves [OF assms])

lemma q_run_moves:
  assumes "q_keys db"
  shows "q_moves (\<lambda>_. True) db (q_run rs db)"
  using assms
proof (induction rs arbitrary: db)
  case (Cons er rs)
  obtain env r where er: "er = (env, r)" by (cases er)
  have step: "q_moves (\<lambda>_. True) db (q_step env r db)"
    by (rule q_moves_mono [OF q_step_moves [OF Cons(2)]]) simp
  from rtranclp_trans [OF step Cons(1) [OF q_keys_moves [OF Cons(2) step]]] show ?case by (simp add: q_run_def er)
qed (simp add: q_run_def)

section \<open>Properties\<close>

text \<open>C6 (released mail has left): after any series of requests, every entry that is marked as released has left
  the gateway to its recipient, as the message that is stored for it.\<close>

theorem released_has_left:
  assumes "q_keys db" "released_left db"
  shows "released_left (q_run rs db)"
  by (rule q_moves_left [OF q_run_moves [OF assms(1)] assms(2)])

text \<open>C8 (quarantine states): whatever series of requests arrives, every entry of the table was there before, and its
  state has only gone from held to released or from either to deleted.\<close>

theorem quarantine_states_advance:
  assumes "q_keys db"
  shows "states_advance db (q_run rs db)"
  by (rule q_moves_states [OF q_run_moves [OF assms]])

text \<open>C7 (quarantine isolation): a request leaves an entry as it is, unless the caller is its recipient or has a larger
  role in whose scope the entry is (or the entry is the held one that another package asked for).\<close>

theorem quarantine_isolated:
  assumes "q_keys db" "q \<in> set (md_Quarantine db)" "\<not> request_may r q"
  shows "q \<in> set (md_Quarantine (q_step env r db))"
  by (rule q_moves_foreign [OF q_step_moves [OF assms(1)] assms(2,3)])

section \<open>Concrete instances\<close>

definition sample_mail_env :: mail_env where
  "sample_mail_env = \<lparr>mv_Err = no_faults, mv_Now = 5, mv_SentID = (\<lambda>n. 40 + n), mv_EntryID = (\<lambda>ids. 60 + length ids), mv_JobID = 61, mv_QuarantineID = (\<lambda>n. 70 + n),
     mv_UUIDText = itoa, mv_Addr = sample_addr_env, mv_Relay = (\<lambda>_. None), mv_View = sample_view,
     mv_Gateways = [\<lparr>gw_ID = 3, gw_OrganizationID = 1, gw_DomainID = 5, gw_Kind = ''mail'', gw_Host = ''mx'', gw_Port = 25, gw_UseTLS = False,
       gw_Priority = 1, gw_IsActive = True, gw_CreatedAt = 0, gw_UpdatedAt = 0\<rparr>],
     mv_Settings = [], mv_InetText = (\<lambda>s. s), mv_ReadMessage = (\<lambda>_. None), mv_SHA256 = (\<lambda>s. s), mv_JSONText = (\<lambda>_. []),
     mv_TimeText = (\<lambda>_ t. itoa t), mv_AddrText = (\<lambda>_ a. a), mv_NewUUID = 62, mv_HTTPGet = (\<lambda>_. Inl ''unreachable'')\<rparr>"

definition sample_entry :: "uuid \<Rightarrow> uuid \<Rightarrow> quarantine_row" where
  "sample_entry i org = \<lparr>qe_ID = i, qe_OrganizationID = org, qe_MailLogID = None, qe_DomainID = Some 5, qe_FromAddr = Some ''a@m.io'',
     qe_ToAddr = ''r@x.io'', qe_Subject = None, qe_RspamdScore = None, qe_ThreatClass = Some ''SPAM'', qe_StorageKey = ''db'', qe_SizeBytes = None,
     qe_State = ''held'', qe_ExpiresAt = None, qe_ReceivedAt = 1, qe_ReleasedAt = None, qe_ReleasedBy = None, qe_CampaignID = None\<rparr>"

definition sample_db :: mail_db where
  "sample_db = \<lparr>md_Logs = [], md_LogBlobs = [], md_Quarantine = [sample_entry 11 1, sample_entry 12 2],
     md_QuarantineBlobs = [\<lparr>qb_EntryID = 11, qb_OrganizationID = 1, qb_MailLogID = None, qb_Bytes = ''mail''\<rparr>], md_Mailbox = [], md_Jobs = [],
     md_Queue = [], md_Entries = [], md_Classifications = [], md_Campaigns = [], md_Sources = [], md_Reports = [], md_Sent = [],
     md_Outbox = [], md_Alerts = []\<rparr>"

lemma sample_db_keys: "q_keys sample_db" "released_left sample_db"
  by (simp_all add: sample_db_def q_keys_def released_left_def sample_entry_def)

abbreviation sample_release :: "(mail_env \<times> q_request) list" where
  "sample_release \<equiv> [(sample_mail_env, Release (Some 11) (Inr (sample_caller 1 ''org_admin'')))]"

lemma sample_send: "fst (releaseMessage sample_mail_env (sample_entry 11 1) sample_db) = None"
  "md_Quarantine (snd (releaseMessage sample_mail_env (sample_entry 11 1) sample_db)) = [sample_entry 11 1, sample_entry 12 2]"
proof -
  have r: "releaseMessage sample_mail_env (sample_entry 11 1) sample_db =
      Send sample_mail_env (release_record (sample_entry 11 1) ''mx'' 25 ''mail'') (release_send (sample_entry 11 1) ''mx'' 25 ''mail'') sample_db"
    by (simp add: releaseMessage_def stored_message_def gatewayForRelease_def sample_mail_env_def sample_db_def sample_entry_def trim_defs)
  show "fst (releaseMessage sample_mail_env (sample_entry 11 1) sample_db) = None"
    using Send_cases [OF prod.collapse [symmetric]] unfolding r by (simp add: sample_mail_env_def)
  show "md_Quarantine (snd (releaseMessage sample_mail_env (sample_entry 11 1) sample_db)) = [sample_entry 11 1, sample_entry 12 2]"
    unfolding r by (simp add: sample_db_def)
qed

lemma sample_released:
  "map qe_State (md_Quarantine (q_run sample_release sample_db)) = [''released'', ''held'']"
proof -
  obtain db1 where s: "releaseMessage sample_mail_env (sample_entry 11 1) sample_db = (None, db1)"
      "md_Quarantine db1 = [sample_entry 11 1, sample_entry 12 2]"
    using sample_send by (metis prod.collapse)
  have e: "\<exists>e. select_entry sample_mail_env sample_db 11 = Some e \<and> qn_Row e = sample_entry 11 1"
    by (simp add: select_entry_def entry_by_id_def sample_mail_env_def sample_db_def sample_entry_def)
  then obtain e where e: "select_entry sample_mail_env sample_db 11 = Some e" "qn_Row e = sample_entry 11 1" by blast
  have a: "recordChallengeApproval sample_mail_env e ident sample_db = (Approved, sample_db)" for ident
    by (simp add: recordChallengeApproval_def e(2)) (simp add: sample_entry_def)
  have f: "qe_State (sample_entry 11 1) = ''held''" "qe_OrganizationID (sample_entry 11 1) = 1" "mv_Err sample_mail_env = no_faults"
    by (simp_all add: sample_entry_def sample_mail_env_def)
  show ?thesis
    by (simp add: q_run_def release_def e a s f sample_simps mark_released_def del: One_nat_def)
      (simp add: sample_entry_def sample_mail_env_def update_where_def set_released_def)
qed

text \<open>One request releases the entry of its organization, which has then left.\<close>

theorem released_has_left_witness:
  "\<exists>db. db = q_run sample_release sample_db \<and>
     map qe_State (md_Quarantine db) = [''released'', ''held''] \<and> released_left db"
  by (rule exI, rule conjI [OF refl conjI [OF sample_released released_has_left [OF sample_db_keys]]])

theorem quarantine_states_advance_witness:
  "\<exists>db. db = q_run sample_release sample_db \<and>
     map qe_State (md_Quarantine db) = [''released'', ''held''] \<and> states_advance sample_db db"
  by (rule exI, rule conjI [OF refl conjI [OF sample_released quarantine_states_advance [OF sample_db_keys(1)]]])

theorem quarantine_isolated_witness:
  "sample_entry 12 2 \<in> set (md_Quarantine (q_step sample_mail_env (Delete (Some 12) (Inr (sample_caller 1 ''org_admin''))) sample_db))"
  by (rule quarantine_isolated [OF sample_db_keys(1)])
    (simp_all add: sample_db_def sample_entry_def sample_simps may_act_def canEndUserAct_def)

end
