(* ===== verification/Scan.thy ===== *)
theory Scan
  imports QuarantineMoves GoCodec SenderPolicy
begin

text \<open>
  \<open>internal/scan/scan.go\<close>: scan jobs and their results, and what the results of all jobs of a message mean
  for one that is held for deep analysis. Parameters are the keyed hash, the decoding of a result, and the decryption of settings.
\<close>

record scan_resultReq =
  wr_State :: string
  wr_Verdict :: string
  wr_Result :: "json option"
  wr_Error :: string

record scan_env =
  sc_Mail :: mail_env
  sc_Secret :: string
  sc_HMAC :: "string \<Rightarrow> string \<Rightarrow> string"
  sc_Redis :: bool
  sc_Decrypt :: "string \<Rightarrow> string result"
  sc_Unmarshal :: "string \<Rightarrow> scan_resultReq option"

definition queueFor :: "string \<Rightarrow> string" where
  "queueFor kind = (if kind = ''sandbox'' then ''smg:scan_jobs_sandbox'' else ''smg:scan_jobs'')"

definition validKinds :: "string list" where
  "validKinds = [''qr'', ''sandbox'', ''ai'', ''outbound'']"

section \<open>Endpoints of the worker\<close>

definition workerAIConfig :: "scan_env \<Rightarrow> string \<Rightarrow> AIConfig response" where
  "workerAIConfig env sigHex =
     (if \<not> verifySig (sc_HMAC env) (sc_Secret env) ''ai-config'' sigHex then WriteError 401 ''bad signature''
      else WriteJSON 200 (LookupAIConfig (mv_Err (sc_Mail env)) (mv_JSONText (sc_Mail env)) (sc_Decrypt env) (mv_Settings (sc_Mail env))))"

definition select_job :: "mail_env \<Rightarrow> mail_db \<Rightarrow> uuid \<Rightarrow> scan_job_row option" where
  "select_job env db i = (if mv_Err env ''select scan_jobs'' then None else job_by_id (md_Jobs db) i)"

definition workerPayload :: "scan_env \<Rightarrow> uuid option \<Rightarrow> string \<Rightarrow> mail_db \<Rightarrow> scan_job_row response" where
  "workerPayload env param sigHex db =
     (case param of
        None \<Rightarrow> WriteError 400 ''invalid id''
      | Some i \<Rightarrow>
          if \<not> verifySig (sc_HMAC env) (sc_Secret env) (mv_UUIDText (sc_Mail env) i) sigHex then WriteError 401 ''bad signature''
          else case select_job (sc_Mail env) db i of None \<Rightarrow> WriteError 404 ''not found'' | Some j \<Rightarrow> WriteJSON 200 j)"

section \<open>List, read, create\<close>

record scan_query =
  sq_JobKind :: string
  sq_JobState :: string

definition without_field :: "string \<Rightarrow> json \<Rightarrow> json" where
  "without_field k v = (case v of JObj kvs \<Rightarrow> JObj (filter (\<lambda>(k', _). k' \<noteq> k) kvs) | _ \<Rightarrow> v)"

definition listed_job :: "scan_job_row \<Rightarrow> scan_job_row" where
  "listed_job j = j\<lparr>sj_Payload := (if sj_Kind j = ''qr'' then without_field ''image_b64'' (sj_Payload j) else sj_Payload j),
     sj_Result := map_option (without_field ''screenshot_b64'') (sj_Result j)\<rparr>"

definition job_matches :: "scope \<Rightarrow> identity \<Rightarrow> scan_query \<Rightarrow> mail_log_row list \<Rightarrow> scan_job_row \<Rightarrow> bool" where
  "job_matches scope ident q logs j =
     ((IsSuperAdmin scope \<or> sj_OrganizationID j \<in> set (VisibleOrgIDs scope)) \<and>
      (id_Role ident = ''org_user'' \<longrightarrow>
         (case Option.bind (sj_MailLogID j) (log_by_id logs) of
            None \<Rightarrow> False
          | Some m \<Rightarrow> list_ex (\<lambda>t. to_lower t = to_lower (trim_space (id_Email ident))) (ml_ToAddrs m))) \<and>
      (sq_JobKind q \<in> set validKinds \<longrightarrow> sj_Kind j = sq_JobKind q) \<and>
      optional_filter (sq_JobState q) (\<lambda>v j. sj_State j = v) j)"

definition scan_states :: "string list" where
  "scan_states = [''queued'', ''running'', ''done'', ''failed'']"

definition list_jobs ::
  "mail_env \<Rightarrow> (scope \<times> identity) result \<Rightarrow> page \<Rightarrow> scan_query \<Rightarrow> mail_db \<Rightarrow> scan_job_row list_envelope response" where
  "list_jobs env sc pg q db =
     (case sc of
        Inl e \<Rightarrow> WriteError 500 ''scope''
      | Inr (scope, ident) \<Rightarrow>
          if mv_Err env ''count scan_jobs'' \<or> (sq_JobState q \<noteq> [] \<and> sq_JobState q \<notin> set scan_states) then WriteError 500 ''db''
          else if mv_Err env ''select scan_jobs'' then WriteError 500 ''select scan_jobs''
          else WriteJSON 200 (envelope pg (map listed_job
                 (sort_key (\<lambda>j. - int (sj_CreatedAt j)) (filter (job_matches scope ident q (md_Logs db)) (md_Jobs db))))))"

definition read_job :: "mail_env \<Rightarrow> uuid option \<Rightarrow> (scope \<times> identity) result \<Rightarrow> mail_db \<Rightarrow> scan_job_row response" where
  "read_job env param sc db =
     (case param of
        None \<Rightarrow> WriteError 400 ''invalid id''
      | Some i \<Rightarrow>
          case sc of
            Inl e \<Rightarrow> WriteError 500 ''scope''
          | Inr (scope, ident) \<Rightarrow>
              case select_job env db i of
                None \<Rightarrow> WriteError 404 ''not found''
              | Some j \<Rightarrow> if Allows scope (sj_OrganizationID j) then WriteJSON 200 j else WriteError 404 ''not found'')"

record scan_createReq =
  sr_JobKind :: string
  sr_JobMailLogID :: "uuid option"
  sr_JobPayload :: "json option"

definition new_job :: "mail_env \<Rightarrow> identity \<Rightarrow> scan_createReq \<Rightarrow> scan_job_row" where
  "new_job env ident req =
     \<lparr>sj_ID = mv_JobID env, sj_OrganizationID = id_OrganizationID ident, sj_MailLogID = sr_JobMailLogID req, sj_Kind = sr_JobKind req,
      sj_State = ''queued'', sj_Payload = (case sr_JobPayload req of None \<Rightarrow> JObj [] | Some v \<Rightarrow> v), sj_Result = None,
      sj_Verdict = None, sj_Error = None, sj_CreatedAt = mv_Now env, sj_StartedAt = None, sj_CompletedAt = None\<rparr>"

definition fail_job :: "nat \<Rightarrow> string \<Rightarrow> scan_job_row \<Rightarrow> scan_job_row" where
  "fail_job now msg j = j\<lparr>sj_State := ''failed'', sj_Error := Some msg, sj_CompletedAt := Some now\<rparr>"

text \<open>The foreign key of \<open>mail_log_id\<close> is the only thing that is checked of it.\<close>

definition create_job :: "scan_env \<Rightarrow> identity option \<Rightarrow> scan_createReq result \<Rightarrow> mail_db \<Rightarrow> scan_job_row response \<times> mail_db" where
  "create_job env0 who body db =
     (let env = sc_Mail env0
      in case who of
           None \<Rightarrow> (WriteError 401 ''auth'', db)
         | Some ident \<Rightarrow>
             case body of
               Inl e \<Rightarrow> (WriteError 400 e, db)
             | Inr req \<Rightarrow>
                 if sr_JobKind req \<notin> set validKinds then (WriteError 400 ''invalid kind'', db)
                 else if mv_Err env ''insert scan_jobs'' \<or>
                   (case sr_JobMailLogID req of None \<Rightarrow> False | Some m \<Rightarrow> log_by_id (md_Logs db) m = None) then
                   (WriteError 500 ''enqueue: '', db)
                 else
                   (let j = new_job env ident req; db1 = db\<lparr>md_Jobs := md_Jobs db @ [j]\<rparr>
                    in if \<not> sc_Redis env0 then (WriteJSON 201 j, db1)
                       else if mv_Err env ''rpush'' then
                         (WriteError 500 ''queue: '',
                          if mv_Err env ''update scan_jobs'' then db1
                          else db1\<lparr>md_Jobs := update_where (\<lambda>x. sj_ID x = sj_ID j) (fail_job (mv_Now env) ''redis enqueue: '') (md_Jobs db1)\<rparr>)
                       else (WriteJSON 201 j, db1\<lparr>md_Queue := md_Queue db1 @
                              [\<lparr>sv_Queue = queueFor (sj_Kind j), sv_ScanID = sj_ID j, sv_OrganizationID = sj_OrganizationID j,
                                sv_Kind = sj_Kind j\<rparr>]\<rparr>)))"

section \<open>Results\<close>

definition nonEmptyOrObject :: "json option \<Rightarrow> json" where
  "nonEmptyOrObject v = (case v of None \<Rightarrow> JObj [] | Some x \<Rightarrow> x)"

definition started :: "nat \<Rightarrow> scan_job_row \<Rightarrow> nat option" where
  "started now j = (case sj_StartedAt j of None \<Rightarrow> Some now | Some t \<Rightarrow> Some t)"

text \<open>The update of the job; \<open>None\<close> is a state that no result may have.\<close>

definition job_result :: "nat \<Rightarrow> scan_resultReq \<Rightarrow> (scan_job_row \<Rightarrow> scan_job_row) option" where
  "job_result now req =
     (if wr_State req = ''running'' then Some (\<lambda>j. j\<lparr>sj_State := ''running'', sj_StartedAt := started now j\<rparr>)
      else if wr_State req = ''done'' then
        Some (\<lambda>j. j\<lparr>sj_State := ''done'', sj_Verdict := nullif_empty (wr_Verdict req), sj_Result := Some (nonEmptyOrObject (wr_Result req)),
          sj_CompletedAt := Some now, sj_StartedAt := started now j\<rparr>)
      else if wr_State req = ''failed'' then
        Some (\<lambda>j. j\<lparr>sj_State := ''failed'', sj_Error := nullif_empty (wr_Error req), sj_CompletedAt := Some now, sj_StartedAt := started now j\<rparr>)
      else None)"

definition jobs_of :: "scan_job_row list \<Rightarrow> uuid \<Rightarrow> scan_job_row list" where
  "jobs_of jobs i = filter (\<lambda>j. sj_MailLogID j = Some i) jobs"

definition job_verdict :: "scan_job_row \<Rightarrow> string" where
  "job_verdict j = to_lower (text_or_empty (sj_Verdict j))"

definition job_incomplete :: "scan_job_row \<Rightarrow> bool" where
  "job_incomplete j = (sj_State j \<noteq> ''done'' \<and> sj_State j \<noteq> ''failed'')"

definition job_threat :: "scan_job_row \<Rightarrow> bool" where
  "job_threat j = (job_verdict j \<in> {''suspicious'', ''malicious'', ''phishing'', ''malware''})"

definition job_unavailable :: "scan_job_row \<Rightarrow> bool" where
  "job_unavailable j = (sj_State j = ''failed'' \<or> job_verdict j \<in> {''unavailable'', ''inconclusive'', ''failed''})"

definition deep_state :: "uuid \<Rightarrow> string \<Rightarrow> string option \<Rightarrow> mail_db \<Rightarrow> mail_db" where
  "deep_state i s reason db =
     db\<lparr>md_Logs := update_where (\<lambda>m. ml_ID m = i \<and> ml_DeepAnalysisState m = ''pending'')
       (\<lambda>m. m\<lparr>ml_DeepAnalysisState := s, ml_DeepAnalysisFailureReason := reason\<rparr>) (md_Logs db)\<rparr>"

definition deep_releasing :: "uuid \<Rightarrow> mail_db \<Rightarrow> mail_db" where
  "deep_releasing i db =
     db\<lparr>md_Logs := update_where (\<lambda>m. ml_ID m = i \<and> ml_DeepAnalysisState m = ''pending'')
       (\<lambda>m. m\<lparr>ml_DeepAnalysisState := ''releasing''\<rparr>) (md_Logs db)\<rparr>"

text \<open>The message was read as pending and no other request runs in between, so the claim affects its row.\<close>

definition reconcileDeepAnalysis :: "mail_env \<Rightarrow> uuid \<Rightarrow> mail_db \<Rightarrow> string option \<times> mail_db" where
  "reconcileDeepAnalysis env scanJobID db =
     (if mv_Err env ''select analysis'' then (Some ''select analysis'', db)
      else case Option.bind (Option.bind (job_by_id (md_Jobs db) scanJobID) sj_MailLogID) (log_by_id (md_Logs db)) of
        None \<Rightarrow> (None, db)
      | Some m \<Rightarrow>
          if ml_DeepAnalysisState m \<noteq> ''pending'' then (None, db)
          else if mv_Err env ''count analysis'' then (Some ''count analysis'', db)
          else
            (let i = ml_ID m; jobs = jobs_of (md_Jobs db) i
             in if list_ex job_threat jobs then
                  (if mv_Err env ''update threat'' then (Some ''update threat'', db) else (None, deep_state i ''threat'' None db))
                else if list_ex job_incomplete jobs then (None, db)
                else if jobs = [] \<or> \<not> list_ex (\<lambda>j. sj_Kind j = ''ai'') jobs \<or> list_ex job_unavailable jobs then
                  (if mv_Err env ''update analysis'' then (Some ''update analysis'', db)
                   else (None, deep_state i ''unavailable'' (Some ''required asynchronous analysis did not complete cleanly'') db))
                else if mv_Err env ''claim analysis'' then (Some ''claim analysis'', db)
                else (let ((n, e), db2) = ReleaseDeepAnalysisHold env i (deep_releasing i db) in (e, db2))))"

definition workerResult :: "scan_env \<Rightarrow> uuid option \<Rightarrow> string \<Rightarrow> string \<Rightarrow> mail_db \<Rightarrow> unit response \<times> mail_db" where
  "workerResult env0 param body sigHex db =
     (let env = sc_Mail env0
      in case param of
           None \<Rightarrow> (WriteError 400 ''invalid id'', db)
         | Some i \<Rightarrow>
             if length body > 8 * 2 ^ 20 then (WriteError 400 ''read: http: request body too large'', db)
             else if \<not> verifySig (sc_HMAC env0) (sc_Secret env0) body sigHex then (WriteError 401 ''bad signature'', db)
             else case sc_Unmarshal env0 body of
               None \<Rightarrow> (WriteError 400 ''invalid json'', db)
             | Some req \<Rightarrow>
                 case job_result (mv_Now env) req of
                   None \<Rightarrow> (WriteError 400 ''invalid state'', db)
                 | Some f \<Rightarrow>
                     if mv_Err env ''update scan_jobs'' then (WriteError 500 ''update: '', db)
                     else
                       (let db1 = db\<lparr>md_Jobs := update_where (\<lambda>j. sj_ID j = i) f (md_Jobs db)\<rparr>;
                            (e1, db2) = (if wr_State req = ''done''
                              then RecordFromScan env i (wr_Verdict req) (Some (nonEmptyOrObject (wr_Result req))) db1 else (None, db1))
                        in case e1 of
                             Some msg \<Rightarrow> (WriteError 500 (''phishing report: '' @ msg), db2)
                           | None \<Rightarrow>
                               (let (e2, db3) = (if wr_State req = ''running'' then (None, db2) else reconcileDeepAnalysis env i db2)
                                in case e2 of
                                     Some msg \<Rightarrow> (WriteError 500 (''deep analysis: '' @ msg), db3)
                                   | None \<Rightarrow> (WriteHeader 204, db3))))"

definition overdue :: "nat \<Rightarrow> mail_log_row \<Rightarrow> bool" where
  "overdue now m =
     (ml_DeepAnalysisState m \<in> {''pending'', ''releasing''} \<and>
      (case ml_DeepAnalysisDeadline m of None \<Rightarrow> False | Some t \<Rightarrow> t \<le> now))"

definition ResolveExpiredDeepAnalysis :: "mail_env \<Rightarrow> mail_db \<Rightarrow> nat result \<times> mail_db" where
  "ResolveExpiredDeepAnalysis env db =
     (if mv_Err env ''update overdue'' then (Inl ''update overdue'', db)
      else (Inr (length (filter (overdue (mv_Now env)) (md_Logs db))),
            db\<lparr>md_Logs := update_where (overdue (mv_Now env))
              (\<lambda>m. m\<lparr>ml_DeepAnalysisState := ''unavailable'',
                ml_DeepAnalysisFailureReason := Some ''deep analysis timed out; message remains held for manual review''\<rparr>) (md_Logs db)\<rparr>))"

end
