(* ===== verification/DeepAnalysis.thy ===== *)
theory DeepAnalysis
  imports Scan QuarantineSafety
begin

text \<open>
  Deep analysis as a whole: what results of scan jobs may let out of the quarantine, the states that a
  message's analysis goes through over any series of results, new jobs and deadlines, and that a message whose
  jobs are all clean is delivered.
\<close>

section \<open>What leaves\<close>

definition cleanly_analysed :: "scan_job_row list \<Rightarrow> uuid \<Rightarrow> bool" where
  "cleanly_analysed jobs i =
     (list_ex (\<lambda>j. sj_Kind j = ''ai'') (jobs_of jobs i) \<and>
      list_all (\<lambda>j. sj_State j = ''done'' \<and> \<not> job_threat j \<and> \<not> job_unavailable j) (jobs_of jobs i))"

lemma cleanly_analysedI:
  "\<not> list_ex job_threat (jobs_of jobs i) \<Longrightarrow> \<not> list_ex job_incomplete (jobs_of jobs i) \<Longrightarrow>
     \<not> (jobs_of jobs i = [] \<or> \<not> list_ex (\<lambda>j. sj_Kind j = ''ai'') (jobs_of jobs i) \<or> list_ex job_unavailable (jobs_of jobs i)) \<Longrightarrow>
     cleanly_analysed jobs i"
  by (auto simp: cleanly_analysed_def list_ex_iff list_all_iff job_incomplete_def job_unavailable_def)

lemma Send_jobs: "Send env rec m db = (e, db') \<Longrightarrow> md_Jobs db' = md_Jobs db \<and> md_Logs db' = md_Logs db"
  by (auto simp: Send_def InsertPending_def Finish_def smtp_attempt_def Let_def split: prod.splits sum.splits option.splits if_splits)

lemma releaseMessage_jobs: "releaseMessage env q db = (e, db') \<Longrightarrow> md_Jobs db' = md_Jobs db \<and> md_Logs db' = md_Logs db"
  by (auto simp: releaseMessage_def split: sum.splits prod.splits dest: Send_jobs)

lemma release_loop_jobs: "release_loop env i qs n db = (r, db') \<Longrightarrow> md_Jobs db' = md_Jobs db"
proof (induction env i qs n db rule: release_loop.induct)
  case (2 env i q qs n db)
  obtain e db1 where r: "releaseMessage env q db = (e, db1)" by (cases "releaseMessage env q db")
  with releaseMessage_jobs [OF r] 2 show ?case by (auto simp: deep_unavailable_def split: option.splits if_splits)
qed simp

lemma ReleaseDeep_jobs: "ReleaseDeepAnalysisHold env i db = (r, db') \<Longrightarrow> md_Jobs db' = md_Jobs db"
  unfolding ReleaseDeepAnalysisHold_def Let_def
  by (auto simp: deep_released_def split: prod.splits option.splits if_splits dest: release_loop_jobs)

lemma RecordFromScan_outbox: "RecordFromScan env i v e db = (r, db') \<Longrightarrow> md_Outbox db' = md_Outbox db \<and> md_Jobs db' = md_Jobs db"
  by (auto simp: RecordFromScan_def quarantineScannerHit_def Let_def split: if_splits option.splits sum.splits prod.splits)

lemma reconcile_outbox:
  assumes "reconcileDeepAnalysis env i db = (e, db')"
  shows "md_Jobs db' = md_Jobs db \<and>
    (md_Outbox db' = md_Outbox db \<or> (\<exists>j m. job_by_id (md_Jobs db) i = Some j \<and> sj_MailLogID j = Some m \<and> cleanly_analysed (md_Jobs db) m))"
proof (cases "Option.bind (Option.bind (job_by_id (md_Jobs db) i) sj_MailLogID) (log_by_id (md_Logs db))")
  case (Some m)
  then obtain j where j: "job_by_id (md_Jobs db) i = Some j" "sj_MailLogID j = Some (ml_ID m)"
    by (auto simp: bind_eq_Some_conv dest: log_by_id_Some)
  have rel: "ReleaseDeepAnalysisHold env (ml_ID m) (deep_releasing (ml_ID m) db) = (r, db2) \<Longrightarrow> md_Jobs db2 = md_Jobs db" for r db2
    using ReleaseDeep_jobs [of env "ml_ID m" "deep_releasing (ml_ID m) db"] by (simp add: deep_releasing_def)
  show ?thesis
    using assms Some j cleanly_analysedI [of "md_Jobs db" "ml_ID m"]
    unfolding reconcileDeepAnalysis_def Let_def
    by (auto simp: deep_state_def split: if_splits prod.splits dest: rel)
qed (use assms in \<open>auto simp: reconcileDeepAnalysis_def split: if_splits\<close>)

lemma job_result_id: "job_result now req = Some f \<Longrightarrow> sj_ID (f j) = sj_ID j \<and> sj_MailLogID (f j) = sj_MailLogID j"
  by (auto simp: job_result_def split: if_splits)

text \<open>C11 (results that let mail out): a result of a scan job lets mail out only when all jobs of its message are done,
  an AI job is among them, and no verdict names a threat or says that the analysis was not available.\<close>

theorem result_releases_only_clean:
  "(let db' = snd (workerResult env param body sigHex db)
    in md_Outbox db' = md_Outbox db \<or>
       (verifySig (sc_HMAC env) (sc_Secret env) body sigHex \<and>
        (case Option.bind param (job_by_id (md_Jobs db')) of
           None \<Rightarrow> False
         | Some j \<Rightarrow> (case sj_MailLogID j of None \<Rightarrow> False | Some m \<Rightarrow> cleanly_analysed (md_Jobs db') m))))"
proof -
  have "ends_in (\<lambda>db'. md_Outbox db' = md_Outbox db \<or>
       (verifySig (sc_HMAC env) (sc_Secret env) body sigHex \<and>
        (\<exists>i j m. param = Some i \<and> job_by_id (md_Jobs db') i = Some j \<and> sj_MailLogID j = Some m \<and> cleanly_analysed (md_Jobs db') m)))
      (workerResult env param body sigHex db)"
    unfolding workerResult_def
    by (intro handler_walk)
      (auto split: if_splits dest!: RecordFromScan_outbox [OF sym] reconcile_outbox [OF sym])
  then show ?thesis unfolding ends_in_def Let_def by (auto split: option.split)
qed

section \<open>The states of an analysis\<close>

definition deep_step :: "string \<Rightarrow> string \<Rightarrow> bool" where
  "deep_step s t =
     (t = s \<or> (s = ''pending'' \<and> t \<in> {''threat'', ''unavailable'', ''releasing'', ''released''}) \<or>
      (s = ''releasing'' \<and> t \<in> {''released'', ''unavailable''}))"

definition deep_row :: "mail_log_row \<Rightarrow> mail_log_row \<Rightarrow> bool" where
  "deep_row m m' = (ml_ID m' = ml_ID m \<and> deep_step (ml_DeepAnalysisState m) (ml_DeepAnalysisState m'))"

text \<open>The rows keep their places, and each has only taken steps.\<close>

definition deep_advance :: "mail_db \<Rightarrow> mail_db \<Rightarrow> bool" where
  "deep_advance db db' = list_all2 deep_row (md_Logs db) (md_Logs db')"

lemma deep_step_refl [simp]: "deep_step s s"
  by (simp add: deep_step_def)

lemma deep_step_trans: "deep_step s t \<Longrightarrow> deep_step t u \<Longrightarrow> deep_step s u"
  by (auto simp: deep_step_def)

lemma deep_advance_trans: "deep_advance db1 db2 \<Longrightarrow> deep_advance db2 db3 \<Longrightarrow> deep_advance db1 db3"
  unfolding deep_advance_def
  by (rule list_all2_trans [of deep_row deep_row deep_row]) (auto simp: deep_row_def intro: deep_step_trans)

lemma deep_advance_same: "md_Logs db' = md_Logs db \<Longrightarrow> deep_advance db db'"
  by (simp add: deep_advance_def deep_row_def list_all2_same)

lemma deep_advance_update:
  assumes "\<And>m. p m \<Longrightarrow> ml_ID (f m) = ml_ID m \<and> deep_step (ml_DeepAnalysisState m) (ml_DeepAnalysisState (f m))"
    and "md_Logs db' = update_where p f (md_Logs db)"
  shows "deep_advance db db'"
  unfolding deep_advance_def assms(2) update_where_def using assms(1) by (auto simp: deep_row_def list_all2_map2 list_all2_same)

lemma release_loop_advance:
  "release_loop env i qs n db = (r, db') \<Longrightarrow> deep_advance db db'"
proof (induction env i qs n db rule: release_loop.induct)
  case (2 env i q qs n db)
  obtain e db1 where r: "releaseMessage env q db = (e, db1)" by (cases "releaseMessage env q db")
  have sent: "md_Logs db1 = md_Logs db" using releaseMessage_jobs [OF r] by simp
  have "deep_advance db (deep_unavailable i msg db1)" for msg
    by (rule deep_advance_update [where p = "\<lambda>m. ml_ID m = i \<and> ml_DeepAnalysisState m = ''releasing''"])
      (auto simp: deep_unavailable_def sent deep_step_def)
  note unavailable = this
  have loop: "deep_advance db db'" if "release_loop env i qs (Suc n)
      (db1\<lparr>md_Quarantine := update_where (\<lambda>x. qe_ID x = qe_ID q \<and> qe_State x = ''held'') (set_released (mv_Now env) None) (md_Quarantine db1)\<rparr>) =
      (r, db')" "e = None" "\<not> mv_Err env ''update released''"
    using 2(1) [OF r [symmetric] refl that(2) that(3), unfolded that(1)] deep_advance_trans [OF deep_advance_same [OF sent]]
    by (simp add: deep_advance_def)
  note same = deep_advance_same [OF sent]
  from 2(2) r same unavailable loop show ?case by (auto split: option.splits if_splits)
qed (simp add: deep_advance_same)

lemma ReleaseDeep_advance: "ReleaseDeepAnalysisHold env i db = (r, db') \<Longrightarrow> deep_advance db db'"
proof -
  have rel: "deep_advance db (deep_released env i db)" for db
    by (rule deep_advance_update [where p = "\<lambda>m. ml_ID m = i \<and> ml_DeepAnalysisState m = ''releasing''"])
      (auto simp: deep_released_def deep_step_def)
  show "ReleaseDeepAnalysisHold env i db = (r, db') \<Longrightarrow> deep_advance db db'"
    unfolding ReleaseDeepAnalysisHold_def Let_def
    by (auto simp: deep_advance_same split: prod.splits option.splits if_splits
        dest: release_loop_advance intro: deep_advance_trans rel)
qed

lemma RecordFromScan_advance: "RecordFromScan env i v e db = (r, db') \<Longrightarrow> deep_advance db db'"
proof -
  have hit: "deep_advance db (db\<lparr>md_Logs := update_where p
      (\<lambda>l. l\<lparr>ml_Disposition := hit_disposition (ml_Disposition l), ml_Reason := Some (hit_reason v (ml_Reason l))\<rparr>) (md_Logs db)\<rparr>)" for p v db
    by (rule deep_advance_update [where p = p]) (auto)
  show "RecordFromScan env i v e db = (r, db') \<Longrightarrow> deep_advance db db'"
    using hit
    by (auto simp: RecordFromScan_def quarantineScannerHit_def Let_def deep_advance_def deep_row_def list_all2_same
        split: if_splits option.splits sum.splits prod.splits)
qed

lemma reconcile_advance: "reconcileDeepAnalysis env i db = (e, db') \<Longrightarrow> deep_advance db db'"
proof -
  have state: "deep_advance db (deep_state i s x db)" if "s \<in> {''threat'', ''unavailable''}" for i s x db
    by (rule deep_advance_update [where p = "\<lambda>m. ml_ID m = i \<and> ml_DeepAnalysisState m = ''pending''"])
      (use that in \<open>auto simp: deep_state_def deep_step_def\<close>)
  have claim: "deep_advance db (deep_releasing i db)" for i db
    by (rule deep_advance_update [where p = "\<lambda>m. ml_ID m = i \<and> ml_DeepAnalysisState m = ''pending''"])
      (auto simp: deep_releasing_def deep_step_def)
  show "reconcileDeepAnalysis env i db = (e, db') \<Longrightarrow> deep_advance db db'"
    unfolding reconcileDeepAnalysis_def Let_def
    by (auto simp: deep_advance_same split: if_splits option.splits prod.splits
        dest!: ReleaseDeep_advance intro: state deep_advance_trans [OF claim])
qed

datatype scan_request =
    ScanResult scan_env "uuid option" string string
  | CreateScan scan_env "identity option" "scan_createReq result"
  | ResolveExpired mail_env

fun scan_step :: "scan_request \<Rightarrow> mail_db \<Rightarrow> mail_db" where
  "scan_step (ScanResult env param body sigHex) db = snd (workerResult env param body sigHex db)"
| "scan_step (CreateScan env who body) db = snd (create_job env who body db)"
| "scan_step (ResolveExpired env) db = snd (ResolveExpiredDeepAnalysis env db)"

lemma scan_step_advance: "deep_advance db (scan_step r db)"
proof (cases r)
  case (ScanResult env param body sigHex)
  have "ends_in (deep_advance db) (workerResult env param body sigHex db)"
  proof -
    have rec: "deep_advance db db'" if "(e, db') = RecordFromScan env' i v x (db\<lparr>md_Jobs := js\<rparr>)" for e env' i v x js db'
      using RecordFromScan_advance [OF that [symmetric]] by (simp add: deep_advance_def)
    have done': "deep_advance db db''" if "(e, db'') = reconcileDeepAnalysis env' i db'" "deep_advance db db'" for e env' i db' db''
      by (rule deep_advance_trans [OF that(2) reconcile_advance [OF that(1) [symmetric]]])
    show ?thesis
      unfolding workerResult_def
      by (intro handler_walk)
        (auto simp: deep_advance_same split: if_splits dest: rec intro: done' rec)
  qed
  then show ?thesis by (simp add: ScanResult ends_in_def)
next
  case (CreateScan env who body)
  have "ends_in (\<lambda>db'. md_Logs db' = md_Logs db) (create_job env who body db)"
    unfolding create_job_def by (intro handler_walk) (auto split: if_splits)
  then show ?thesis by (simp add: CreateScan ends_in_def deep_advance_same)
next
  case (ResolveExpired env)
  have "deep_advance db (snd (ResolveExpiredDeepAnalysis env db))"
  proof (cases "mv_Err env ''update overdue''")
    case False
    show ?thesis
      by (rule deep_advance_update [where p = "overdue (mv_Now env)"])
        (auto simp: ResolveExpiredDeepAnalysis_def False overdue_def deep_step_def)
  qed (simp add: ResolveExpiredDeepAnalysis_def deep_advance_same)
  then show ?thesis by (simp add: ResolveExpired)
qed

text \<open>C12 (analysis states): over any series of results, new jobs and deadlines, the analysis of a message only goes from
  pending to a threat, to unavailable or through releasing to released; these three stay.\<close>

theorem analysis_states_advance: "deep_advance db (fold scan_step rs db)"
proof (induction rs arbitrary: db)
  case (Cons r rs)
  show ?case using deep_advance_trans [OF scan_step_advance Cons] by simp
qed (simp add: deep_advance_same)

section \<open>Clean mail is delivered\<close>

text \<open>A held entry that can be sent: its message is stored and its domain has a gateway.\<close>

definition deliverable :: "mail_env \<Rightarrow> mail_db \<Rightarrow> quarantine_row \<Rightarrow> bool" where
  "deliverable env db q =
     (case stored_message env db (qe_ID q) of
        Inl _ \<Rightarrow> False
      | Inr _ \<Rightarrow> (case gatewayForRelease env q of Inl _ \<Rightarrow> False | Inr _ \<Rightarrow> True))"

text \<open>The mail that releases an entry: the stored message, to the entry's recipient, through the gateway of its domain.\<close>

definition releases :: "mail_env \<Rightarrow> mail_db \<Rightarrow> quarantine_row \<Rightarrow> smtp_send \<Rightarrow> bool" where
  "releases env db q s =
     (case (stored_message env db (qe_ID q), gatewayForRelease env q) of
        (Inr raw, Inr (host, port)) \<Rightarrow> s = release_send q host port raw
      | _ \<Rightarrow> False)"

lemma releaseMessage_delivers:
  assumes "deliverable env db q" "mv_Relay env = (\<lambda>_. None)"
  shows "\<exists>db' s. releaseMessage env q db = (None, db') \<and> md_Outbox db' = md_Outbox db @ [s] \<and> releases env db q s"
proof -
  from assms(1) obtain raw host port where r: "stored_message env db (qe_ID q) = Inr raw" "gatewayForRelease env q = Inr (host, port)"
    by (auto simp: deliverable_def split: sum.splits)
  obtain e db' where s: "Send env (release_record q host port raw) (release_send q host port raw) db = (e, db')"
    by (cases "Send env (release_record q host port raw) (release_send q host port raw) db")
  from Send_cases [OF s] assms(2) have "e = None \<and> md_Outbox db' = md_Outbox db @ [release_send q host port raw]" by simp
  with r s show ?thesis by (simp add: releaseMessage_def releases_def)
qed

definition release_rows :: "nat \<Rightarrow> uuid set \<Rightarrow> quarantine_row list \<Rightarrow> quarantine_row list" where
  "release_rows now ids = update_where (\<lambda>x. qe_ID x \<in> ids \<and> qe_State x = ''held'') (set_released now None)"

lemma release_rows_step:
  "release_rows now ids (update_where (\<lambda>x. qe_ID x = i \<and> qe_State x = ''held'') (set_released now None) rows) =
     release_rows now (insert i ids) rows"
  by (auto simp: release_rows_def update_where_def)

lemma same_blobs:
  assumes "md_QuarantineBlobs db' = md_QuarantineBlobs db"
  shows "deliverable env db' = deliverable env db" "releases env db' = releases env db"
  by (rule ext, simp add: deliverable_def stored_message_def assms) (rule ext, rule ext, simp add: releases_def stored_message_def assms)

lemma release_loop_delivers:
  assumes "mv_Err env = no_faults" "mv_Relay env = (\<lambda>_. None)" "list_all (deliverable env db) qs"
  shows "\<exists>db' ms. release_loop env i qs n db = ((n + length qs, None), db') \<and> md_Logs db' = md_Logs db \<and>
     md_Quarantine db' = release_rows (mv_Now env) (qe_ID ` set qs) (md_Quarantine db) \<and>
     md_Outbox db' = md_Outbox db @ ms \<and> list_all2 (releases env db) qs ms"
  using assms(3)
proof (induction qs arbitrary: n db)
  case Nil
  then show ?case by (simp add: release_rows_def update_where_def)
next
  case (Cons q qs)
  obtain db1 s where r: "releaseMessage env q db = (None, db1)" "md_Outbox db1 = md_Outbox db @ [s]" "releases env db q s"
    using releaseMessage_delivers [OF _ assms(2)] Cons(2) by fastforce
  note same = releaseMessage_same [OF r(1)] and logs = releaseMessage_jobs [OF r(1)]
  let ?db2 = "db1\<lparr>md_Quarantine := update_where (\<lambda>x. qe_ID x = qe_ID q \<and> qe_State x = ''held'') (set_released (mv_Now env) None) (md_Quarantine db1)\<rparr>"
  have blobs: "md_QuarantineBlobs ?db2 = md_QuarantineBlobs db" using same by (simp add: q_same_def)
  have "\<exists>db' ms. release_loop env i qs (Suc n) ?db2 = ((Suc n + length qs, None), db') \<and> md_Logs db' = md_Logs ?db2 \<and>
     md_Quarantine db' = release_rows (mv_Now env) (qe_ID ` set qs) (md_Quarantine ?db2) \<and>
     md_Outbox db' = md_Outbox ?db2 @ ms \<and> list_all2 (releases env ?db2) qs ms"
    using Cons(2) by (intro Cons(1)) (simp add: list_all_iff same_blobs [OF blobs])
  then obtain db' ms where rest: "release_loop env i qs (Suc n) ?db2 = ((Suc n + length qs, None), db')" "md_Logs db' = md_Logs ?db2"
    "md_Quarantine db' = release_rows (mv_Now env) (qe_ID ` set qs) (md_Quarantine ?db2)"
    "md_Outbox db' = md_Outbox ?db2 @ ms" "list_all2 (releases env db) qs ms"
    by (auto simp: same_blobs [OF blobs])
  with r logs same assms(1) show ?case
    by (intro exI [of _ db'] exI [of _ "s # ms"]) (simp add: release_rows_step q_same_def)
qed

text \<open>The held copies of a message, in the order in which they are released.\<close>

definition held_copies :: "uuid \<Rightarrow> mail_db \<Rightarrow> quarantine_row list" where
  "held_copies m db = sort_key (\<lambda>q. (qe_ReceivedAt q, map byte (qe_ToAddr q)))
     (filter (\<lambda>q. qe_MailLogID q = Some m \<and> qe_State q = ''held'') (md_Quarantine db))"

lemma release_rows_held:
  assumes "distinct (map qe_ID (md_Quarantine db))"
  shows "release_rows now (qe_ID ` set (held_copies m db)) (md_Quarantine db) =
    map (\<lambda>q. if qe_MailLogID q = Some m \<and> qe_State q = ''held'' then set_released now None q else q) (md_Quarantine db)"
proof -
  have "(qe_ID q \<in> qe_ID ` set (held_copies m db) \<and> qe_State q = ''held'') = (qe_MailLogID q = Some m \<and> qe_State q = ''held'')"
    if "q \<in> set (md_Quarantine db)" for q
    using that assms by (auto simp: held_copies_def distinct_map inj_on_def image_iff)
  then show ?thesis unfolding release_rows_def update_where_def by (intro map_cong refl) simp
qed

lemma mail_log_in_update: "md_Logs (db\<lparr>md_Logs := ls\<rparr>) = ls"
  by simp

lemma update_where_mem: "x \<in> set xs \<Longrightarrow> p x \<Longrightarrow> f x \<in> set (update_where p f xs)"
  by (force simp: update_where_def)

lemma reconcile_delivers:
  assumes "mv_Err env = no_faults" "mv_Relay env = (\<lambda>_. None)" "distinct (map qe_ID (md_Quarantine db))"
    and "job_by_id (md_Jobs db) i = Some j" "sj_MailLogID j = Some m" "log_by_id (md_Logs db) m = Some l"
    and "ml_DeepAnalysisState l = ''pending''" "cleanly_analysed (md_Jobs db) m" "list_all (deliverable env db) (held_copies m db)"
  shows "\<exists>db' ms. reconcileDeepAnalysis env i db = (None, db') \<and>
    md_Quarantine db' = map (\<lambda>q. if qe_MailLogID q = Some m \<and> qe_State q = ''held'' then set_released (mv_Now env) None q else q)
      (md_Quarantine db) \<and>
    md_Outbox db' = md_Outbox db @ ms \<and> list_all2 (releases env db) (held_copies m db) ms \<and>
    list_ex (\<lambda>l'. ml_ID l' = m \<and> ml_DeepAnalysisState l' = ''released'') (md_Logs db')"
proof -
  let ?db1 = "deep_releasing m db"
  have l: "l \<in> set (md_Logs db)" "ml_ID l = m" using log_by_id_Some [OF assms(6)] by auto
  have rows: "md_Quarantine ?db1 = md_Quarantine db" "md_QuarantineBlobs ?db1 = md_QuarantineBlobs db"
    "md_Outbox ?db1 = md_Outbox db" "held_copies m ?db1 = held_copies m db" by (simp_all add: deep_releasing_def held_copies_def)
  have "list_all (deliverable env ?db1) (held_copies m db)"
    using assms(9) by (simp add: same_blobs [OF rows(2)])
  from release_loop_delivers [OF assms(1,2) this, of m 0] obtain db2 ms where loop:
    "release_loop env m (held_copies m db) 0 ?db1 = ((length (held_copies m db), None), db2)" "md_Logs db2 = md_Logs ?db1"
    "md_Quarantine db2 = release_rows (mv_Now env) (qe_ID ` set (held_copies m db)) (md_Quarantine db)"
    "md_Outbox db2 = md_Outbox db @ ms" "list_all2 (releases env db) (held_copies m db) ms"
    using rows by (auto simp: same_blobs [OF rows(2)])
  have hold: "ReleaseDeepAnalysisHold env m ?db1 = ((length (held_copies m db), None), deep_released env m db2)"
    using loop(1) rows assms(1) unfolding ReleaseDeepAnalysisHold_def held_copies_def Let_def by simp
  have jobs: "\<not> list_ex job_threat (jobs_of (md_Jobs db) m)" "\<not> list_ex job_incomplete (jobs_of (md_Jobs db) m)"
    "\<not> list_ex job_unavailable (jobs_of (md_Jobs db) m)" "list_ex (\<lambda>j. sj_Kind j = ''ai'') (jobs_of (md_Jobs db) m)" "jobs_of (md_Jobs db) m \<noteq> []"
    using assms(8) by (auto simp: cleanly_analysed_def list_all_iff list_ex_iff job_incomplete_def)
  have "reconcileDeepAnalysis env i db = (None, deep_released env m db2)"
    using assms(1,4-7) jobs hold l(2) by (simp add: reconcileDeepAnalysis_def Let_def)
  moreover have "md_Quarantine (deep_released env m db2) = md_Quarantine db2" "md_Outbox (deep_released env m db2) = md_Outbox db2"
    by (simp_all add: deep_released_def)
  moreover have "list_ex (\<lambda>l'. ml_ID l' = m \<and> ml_DeepAnalysisState l' = ''released'') (md_Logs (deep_released env m db2))"
  proof -
    let ?l1 = "l\<lparr>ml_DeepAnalysisState := ''releasing''\<rparr>"
    have "?l1 \<in> set (md_Logs db2)"
      unfolding loop(2) deep_releasing_def mail_log_in_update by (rule update_where_mem) (simp_all add: l assms(7))
    then have "?l1\<lparr>ml_DeepAnalysisState := ''released'', ml_DeepAnalysisReleasedAt := Some (mv_Now env), ml_DeepAnalysisFailureReason := None\<rparr>
        \<in> set (md_Logs (deep_released env m db2))"
      unfolding deep_released_def mail_log_in_update by (rule update_where_mem) (simp add: l)
    then show ?thesis unfolding list_ex_iff by (rule bexI [rotated]) (simp add: l)
  qed
  ultimately show ?thesis using loop(3-5) release_rows_held [OF assms(3)] by auto
qed

lemma job_by_id_result:
  "job_result now req = Some f \<Longrightarrow> job_by_id (update_where (\<lambda>j. sj_ID j = i) f jobs) i = map_option f (job_by_id jobs i)"
  using job_result_id [of now req f] by (induction jobs) (auto simp: job_by_id_def)

lemma RecordFromScan_clean: "\<not> reportableScanVerdict (to_lower (trim_space v)) \<Longrightarrow> RecordFromScan env i v e db = (None, db)"
  by (simp add: RecordFromScan_def Let_def)


definition sample_log :: "uuid \<Rightarrow> string \<Rightarrow> mail_log_row" where
  "sample_log i s = \<lparr>ml_ID = i, ml_OrganizationID = 1, ml_DomainID = Some 5, ml_QueueID = None, ml_MessageID = None, ml_Direction = ''inbound'',
     ml_FromAddr = Some ''a@m.io'', ml_ToAddrs = [''r@x.io''], ml_ClientIP = None, ml_ClientHostname = None, ml_Helo = None, ml_Subject = None,
     ml_SizeBytes = None, ml_RspamdScore = None, ml_RspamdAction = None, ml_Symbols = None, ml_Disposition = ''quarantined'', ml_Reason = None,
     ml_ReceivedAt = 1, ml_CampaignID = None, ml_CampaignCopyNumber = None, ml_TerminalAction = None, ml_TerminalStatusCode = None,
     ml_TerminalReason = None, ml_TerminalRelay = None, ml_TerminalAt = None, ml_DeliveryMismatch = False, ml_DeepAnalysisState = s,
     ml_DeepAnalysisDeadline = None, ml_DeepAnalysisReleasedAt = None, ml_DeepAnalysisFailureReason = None\<rparr>"

definition sample_job :: "uuid \<Rightarrow> uuid \<Rightarrow> scan_job_row" where
  "sample_job i m = \<lparr>sj_ID = i, sj_OrganizationID = 1, sj_MailLogID = Some m, sj_Kind = ''ai'', sj_State = ''done'', sj_Payload = JObj [],
     sj_Result = None, sj_Verdict = Some ''clean'', sj_Error = None, sj_CreatedAt = 1, sj_StartedAt = None, sj_CompletedAt = None\<rparr>"

definition sample_deep_db :: mail_db where
  "sample_deep_db = sample_db\<lparr>md_Logs := [sample_log 21 ''pending''], md_Jobs := [sample_job 31 21],
     md_Quarantine := [(sample_entry 11 1)\<lparr>qe_MailLogID := Some 21\<rparr>]\<rparr>"

definition sample_scan_env :: scan_env where
  "sample_scan_env = \<lparr>sc_Mail = sample_mail_env, sc_Secret = ''k'', sc_HMAC = (\<lambda>k m. ''A''), sc_Redis = True, sc_Decrypt = (\<lambda>s. Inr s),
     sc_Unmarshal = (\<lambda>b. Some \<lparr>wr_State = ''done'', wr_Verdict = ''clean'', wr_Result = None, wr_Error = []\<rparr>)\<rparr>"


end
