(* ===== verification/Unsubscribe.thy ===== *)
theory Unsubscribe
  imports MailDb GoUrl GoAddr AbuseReports
begin

text \<open>
  The unsubscribe feature of \<open>internal/mailbox/mailbox.go\<close>: the options that a List-Unsubscribe header
  offers, the mail of a mailto option, and the one-click request with its protection against targets
  inside the network. Parameters are the address parser with names, name resolution, and what a server
  answers to a request over a connection to an address.
\<close>

section \<open>Addresses and hosts\<close>

text \<open>\<open>IsMulticast\<close>, \<open>IsLinkLocalMulticast\<close>, \<open>IsUnspecified\<close> of \<open>net/netip\<close>.\<close>

definition is_multicast :: "addr \<Rightarrow> bool" where
  "is_multicast a = (case unmap a of V4 bs \<Rightarrow> 224 \<le> bs ! 0 \<and> bs ! 0 \<le> 239 | V6 bs z \<Rightarrow> bs ! 0 = 255)"

definition is_link_local_multicast :: "addr \<Rightarrow> bool" where
  "is_link_local_multicast a =
     (case unmap a of V4 bs \<Rightarrow> bs ! 0 = 224 \<and> bs ! 1 = 0 \<and> bs ! 2 = 0 | V6 bs z \<Rightarrow> bs ! 0 = 255 \<and> bs ! 1 mod 16 = 2)"

definition is_unspecified :: "addr \<Rightarrow> bool" where
  "is_unspecified a = (a = V4 [0, 0, 0, 0] \<or> a = V6 (replicate 16 0) [])"

definition safeOutboundIP :: "addr \<Rightarrow> bool" where
  "safeOutboundIP a =
     (is_global_unicast a \<and> \<not> is_private a \<and> \<not> is_loopback a \<and> \<not> is_link_local_unicast a \<and>
      \<not> is_link_local_multicast a \<and> \<not> is_multicast a \<and> \<not> is_unspecified a)"

definition safeExternalHost :: "string \<Rightarrow> bool" where
  "safeExternalHost host =
     (if host = [] \<or> host = ''localhost'' \<or> has_suffix host ''.localhost'' then False
      else if contains_chars host [CHR '' '', CHR 0x09, CHR 0x0D, CHR 0x0A] \<or> CHR ''.'' \<notin> set host then False
      else case parse_addr host of
        None \<Rightarrow> True
      | Some a \<Rightarrow> is_global_unicast a \<and> \<not> is_private a \<and> \<not> is_loopback a \<and> \<not> is_link_local_unicast a \<and>
          \<not> is_link_local_multicast a \<and> \<not> is_unspecified a)"

definition external_host :: "url \<Rightarrow> string" where
  "external_host u = to_lower (trim_suffix (hostname u) ''.'')"

definition safeUnsubscribeURL :: "url \<Rightarrow> bool" where
  "safeUnsubscribeURL u = (if to_lower (url_Scheme u) \<noteq> ''https'' \<or> url_HasUser u then False else safeExternalHost (external_host u))"

section \<open>Options of a message\<close>

record UnsubscribeOption =
  uo_Type :: string
  uo_Label :: string
  uo_URL :: string

record UnsubscribeInfo =
  ui_Available :: bool
  ui_OneClick :: bool
  ui_Options :: "UnsubscribeOption list"

text \<open>The texts between angle brackets.\<close>

function bracketed :: "string \<Rightarrow> string list" where
  "bracketed s =
     (case index_char s CHR ''<'' of
        None \<Rightarrow> []
      | Some i \<Rightarrow>
          (case index_char (drop (Suc i) s) CHR ''>'' of
             None \<Rightarrow> []
           | Some j \<Rightarrow>
               (let v = trim_space (take j (drop (Suc i) s))
                in (if v = [] then [] else [v]) @ bracketed (drop (Suc (Suc i) + j) s))))"
  by pat_completeness auto
termination
proof (relation "measure length", goal_cases)
  case (2 s i j)
  then show ?case by (cases s) auto
qed simp

declare bracketed.simps [simp del]

definition listUnsubscribeCandidates :: "string \<Rightarrow> string list" where
  "listUnsubscribeCandidates header0 =
     (let header = trim_space header0; out = bracketed header
      in if header = [] then []
         else if out \<noteq> [] then out
         else filter (\<lambda>v. v \<noteq> []) (map (\<lambda>p. trim_space (trim p ''<>'')) (split_char header CHR '','')))"

definition containsControl :: "string \<Rightarrow> bool" where
  "containsControl v = list_ex (\<lambda>c. byte c < 32 \<or> byte c = 127) v"

definition containsEncodedNewline :: "string \<Rightarrow> bool" where
  "containsEncodedNewline v = (contains (to_lower v) ''%0a'' \<or> contains (to_lower v) ''%0d'')"

text \<open>\<open>u.Path\<close>, and the address part of a mailto URL; \<open>None\<close> when it does not decode.\<close>

definition url_path :: "url \<Rightarrow> string" where
  "url_path u = (case unescape EncodePath (url_EscapedPath u) of None \<Rightarrow> [] | Some p \<Rightarrow> p)"

definition mailto_address :: "url \<Rightarrow> string option" where
  "mailto_address u =
     unescape EncodePath (cut_before (if url_Opaque u = [] then url_path u else url_Opaque u) CHR ''?'')"

definition validMailto :: "addr_env \<Rightarrow> url \<Rightarrow> bool" where
  "validMailto env u =
     (case mailto_address u of
        None \<Rightarrow> False
      | Some a \<Rightarrow> trim_space a \<noteq> [] \<and> ParseAddress env a \<noteq> None)"

definition sanitizeUnsubscribeTarget :: "addr_env \<Rightarrow> string \<Rightarrow> UnsubscribeOption option" where
  "sanitizeUnsubscribeTarget env raw0 =
     (let raw = trim_space (trim raw0 ''<>'')
      in if raw = [] \<or> length raw > 2048 \<or> containsControl raw then None
         else case url_parse raw of
           None \<Rightarrow> None
         | Some u \<Rightarrow>
             (let scheme = to_lower (url_Scheme u)
              in if scheme = ''https'' then
                   (if url_HasUser u \<or> \<not> safeExternalHost (external_host u) then None
                    else Some \<lparr>uo_Type = ''url'', uo_Label = ''Open unsubscribe page'', uo_URL = url_string (u\<lparr>url_EscapedFragment := []\<rparr>)\<rparr>)
                 else if scheme = ''mailto'' then
                   (if containsEncodedNewline raw \<or> \<not> validMailto env u then None
                    else Some \<lparr>uo_Type = ''mailto'', uo_Label = ''Email unsubscribe request'', uo_URL = raw\<rparr>)
                 else None))"

text \<open>The loop takes the first three different targets.\<close>

definition parseUnsubscribeInfo :: "addr_env \<Rightarrow> string \<Rightarrow> string \<Rightarrow> UnsubscribeInfo option" where
  "parseUnsubscribeInfo env header post =
     (let options = take 3 (dedup_on uo_URL [] (List.map_filter (sanitizeUnsubscribeTarget env) (listUnsubscribeCandidates header)))
      in if options = [] then None
         else Some \<lparr>ui_Available = True, ui_OneClick = contains (to_lower post) ''list-unsubscribe=one-click'', ui_Options = options\<rparr>)"

definition findUnsubscribeOption :: "UnsubscribeOption list \<Rightarrow> string \<Rightarrow> string \<Rightarrow> UnsubscribeOption option" where
  "findUnsubscribeOption options reqType0 reqURL0 =
     (let reqType = to_lower (trim_space reqType0); reqURL = trim_space reqURL0
      in if reqType = [] \<or> reqURL = [] then None else find (\<lambda>o'. uo_Type o' = reqType \<and> uo_URL o' = reqURL) options)"

definition unsubscribeAllowed :: "string \<Rightarrow> bool" where
  "unsubscribeAllowed v = (to_lower (trim_space v) \<notin> {''phishing'', ''malware''})"

section \<open>Mail to the list\<close>

text \<open>
  What the feature meets outside: \<open>mail.ParseAddressList\<close> (names and addresses), the resolver's answer to
  the \<open>k\<close>-th lookup, whether the client has an idle connection for the \<open>k\<close>-th request, and what comes
  back for it.
\<close>

datatype http_answer =
    Failed string
  | Redirect url
  | Final nat

record unsubscribe_env =
  ux_AddressList :: "string \<Rightarrow> (string \<times> string) list option"
  ux_Lookup :: "nat \<Rightarrow> string \<Rightarrow> addr list result"
  ux_Idle :: "nat \<Rightarrow> bool"
  ux_Answer :: "nat \<Rightarrow> addr \<Rightarrow> url \<Rightarrow> http_answer"

text \<open>\<open>url.QueryUnescape\<close>, and \<open>u.Query().Get(key)\<close>: pairs with a semicolon or a bad escape are skipped.\<close>

definition QueryUnescape :: "string \<Rightarrow> string option" where
  "QueryUnescape s = unescape EncodePath (map (\<lambda>c. if c = CHR ''+'' then CHR '' '' else c) s)"

definition query_pair :: "string \<Rightarrow> (string \<times> string) option" where
  "query_pair part =
     (if part = [] \<or> CHR '';'' \<in> set part then None
      else case (QueryUnescape (cut_before part CHR ''=''), QueryUnescape (cut_after part CHR ''='')) of
        (Some k, Some v) \<Rightarrow> Some (k, v)
      | _ \<Rightarrow> None)"

definition query_get :: "url \<Rightarrow> string \<Rightarrow> string" where
  "query_get u key =
     (case map_of (List.map_filter query_pair (split_char (url_RawQuery u) CHR ''&'')) key of None \<Rightarrow> [] | Some v \<Rightarrow> v)"

text \<open>Line ends become LF, and control characters other than LF and tab are removed.\<close>

fun lf_only :: "string \<Rightarrow> string" where
  "lf_only [] = []"
| "lf_only (c # s) =
     (if c = CHR 0x0D then CHR 0x0A # (case s of [] \<Rightarrow> [] | d # r \<Rightarrow> if d = CHR 0x0A then lf_only r else lf_only s)
      else c # lf_only s)"

fun crlf_lines :: "string \<Rightarrow> string" where
  "crlf_lines [] = []"
| "crlf_lines (c # s) = (if c = CHR 0x0A then crlf else [c]) @ crlf_lines s"

definition cleanUnsubscribeBody :: "string \<Rightarrow> string" where
  "cleanUnsubscribeBody value =
     crlf_lines (take 4096 (trim_space (filter (\<lambda>c. c = CHR 0x0A \<or> c = CHR 0x09 \<or> byte c \<ge> 32) (lf_only value))))"

definition parseMailtoUnsubscribe ::
  "unsubscribe_env \<Rightarrow> string \<Rightarrow> string \<Rightarrow> ((string \<times> string) list \<times> string \<times> string) result" where
  "parseMailtoUnsubscribe ux raw subscriber =
     (let bad = Inl ''unsubscribe email target is invalid''
      in case url_parse raw of
           None \<Rightarrow> bad
         | Some u \<Rightarrow>
             if to_lower (url_Scheme u) \<noteq> ''mailto'' then bad
             else case Option.bind (mailto_address u) (ux_AddressList ux) of
               None \<Rightarrow> bad
             | Some tos \<Rightarrow>
                 if tos = [] \<or> length tos > 5 then bad
                 else
                   (let subject = line_header (query_get u ''subject''); body = cleanUnsubscribeBody (query_get u ''body'')
                    in Inr (tos, if subject = [] then ''unsubscribe'' else subject,
                         if body = [] then ''Please unsubscribe '' @ to_lower (trim_space subscriber) @ '' from this mailing list.''
                         else body)))"

definition formatAddressList :: "mail_env \<Rightarrow> (string \<times> string) list \<Rightarrow> string" where
  "formatAddressList env tos = join (map (\<lambda>(name, a). mv_AddrText env name a) tos) '', ''"

definition addressStrings :: "(string \<times> string) list \<Rightarrow> string list" where
  "addressStrings tos = map (\<lambda>(name, a). to_lower (trim_space a)) tos"

record unsubscribeResp =
  ur_Message :: string
  ur_Type :: string
  ur_Sent :: bool
  ur_SentTo :: "string list"
  ur_Status :: nat
  ur_URL :: string

definition unsubscribe_lines :: "mail_env \<Rightarrow> string \<Rightarrow> (string \<times> string) list \<Rightarrow> string \<Rightarrow> string \<Rightarrow> string list" where
  "unsubscribe_lines env subscriber tos subject body =
     [''From: '' @ mv_AddrText env [] (to_lower (trim_space subscriber)), ''To: '' @ formatAddressList env tos,
      ''Subject: '' @ line_header subject, ''MIME-Version: 1.0'', ''Content-Type: text/plain; charset=UTF-8'', [], body]"

definition unsubscribe_record :: "mail_env \<Rightarrow> mailbox_row \<Rightarrow> string list \<Rightarrow> string \<Rightarrow> string \<Rightarrow> string \<Rightarrow> string \<Rightarrow> sent_record" where
  "unsubscribe_record env m tos subject host port raw =
     \<lparr>sr_OrganizationID = mb_OrganizationID m, sr_DomainID = mb_DomainID m, sr_MailLogID = Some (mb_MailLogID m),
      sr_QuarantineEntryID = None, sr_Kind = ''mailing_list_unsubscribe'', sr_FromAddr = mb_ToAddr m, sr_ToAddrs = tos,
      sr_Subject = subject, sr_RelayHost = host, sr_RelayPort = atoi_saturating (trim_space port), sr_Raw = raw,
      sr_Metadata = [(''mailbox_message_id'', JStr (mv_UUIDText env (mb_ID m))), (''unsubscribe_type'', JStr ''mailto'')]\<rparr>"

definition sendMailtoUnsubscribe ::
  "unsubscribe_env \<Rightarrow> mail_env \<Rightarrow> mailbox_row \<Rightarrow> UnsubscribeOption \<Rightarrow> mail_db \<Rightarrow> unsubscribeResp result \<times> mail_db" where
  "sendMailtoUnsubscribe ux env m option db =
     (case parseMailtoUnsubscribe ux (uo_URL option) (mb_ToAddr m) of
        Inl e \<Rightarrow> (Inl e, db)
      | Inr (tos, subject, body) \<Rightarrow>
          (let host = lookupSystemSetting env ''mail.outbound_relay_host'' [];
               port = lookupSystemSetting env ''mail.outbound_relay_port'' ''25''; addrs = addressStrings tos
           in if trim_space host = [] then (Inl ''no outbound relay configured'', db)
              else
                (let raw = join (unsubscribe_lines env (mb_ToAddr m) tos subject body) crlf;
                     (e, db1) = Send env (unsubscribe_record env m addrs subject host port raw)
                        (relay_send (trim_space host) (trim_space port) (mb_ToAddr m) addrs raw) db
                 in case e of
                      Some msg \<Rightarrow> (Inl msg, db1)
                    | None \<Rightarrow> (Inr \<lparr>ur_Message = ''Unsubscribe email sent.'', ur_Type = ''mailto'', ur_Sent = True,
                        ur_SentTo = addrs, ur_Status = 0, ur_URL = []\<rparr>, db1))))"

section \<open>One-click unsubscribe\<close>

text \<open>\<open>DialContext\<close>: every address of the host is checked, then the first is dialled. The \<open>IP\<close> of a
  resolver's answer has no zone.\<close>

definition without_zone :: "addr \<Rightarrow> addr" where
  "without_zone a = (case a of V4 bs \<Rightarrow> V4 bs | V6 bs z \<Rightarrow> V6 bs [])"

definition unsubscribe_dial :: "addr list result \<Rightarrow> addr result" where
  "unsubscribe_dial answer =
     (case answer of
        Inl e \<Rightarrow> Inl e
      | Inr [] \<Rightarrow> Inl ''unsubscribe host did not resolve''
      | Inr (ip # ips) \<Rightarrow>
          if \<not> list_all (\<lambda>a. safeOutboundIP (without_zone a)) (ip # ips) then
            Inl ''unsubscribe host resolved to a non-public address''
          else Inr (without_zone ip))"

definition validateUnsubscribeRedirect :: "url \<Rightarrow> nat \<Rightarrow> string option" where
  "validateUnsubscribeRedirect u via =
     (if via \<ge> 3 then Some ''too many unsubscribe redirects''
      else if \<not> safeUnsubscribeURL u then Some ''unsafe unsubscribe redirect'' else None)"

text \<open>
  \<open>client.Do\<close>: request \<open>k\<close> goes over an idle connection to the same host, or over a new one; the trace is
  the list of requests with the address each was sent to. The fuel bounds the requests; three are the most
  that the redirect check lets through.
\<close>

type_synonym http_trace = "(addr \<times> url) list"

fun follow :: "unsubscribe_env \<Rightarrow> nat \<Rightarrow> url \<Rightarrow> http_trace \<Rightarrow> nat result \<times> http_trace" where
  "follow ux 0 u trace = (Inl ''out of fuel'', trace)"
| "follow ux (Suc fuel) u trace =
     (let k = length trace;
          idle = (if ux_Idle ux k then find (\<lambda>(ip, v). url_Host v = url_Host u) trace else None);
          conn = (case idle of Some (ip, _) \<Rightarrow> Inr ip | None \<Rightarrow> unsubscribe_dial (ux_Lookup ux k (hostname u)))
      in case conn of
           Inl e \<Rightarrow> (Inl e, trace)
         | Inr ip \<Rightarrow>
             (let trace1 = trace @ [(ip, u)]
              in case ux_Answer ux k ip u of
                   Failed e \<Rightarrow> (Inl e, trace1)
                 | Final n \<Rightarrow> (Inr n, trace1)
                 | Redirect v \<Rightarrow>
                     (case validateUnsubscribeRedirect v (length trace1) of
                        Some e \<Rightarrow> (Inl e, trace1)
                      | None \<Rightarrow> follow ux fuel v trace1)))"

definition postOneClickUnsubscribe :: "unsubscribe_env \<Rightarrow> UnsubscribeOption \<Rightarrow> unsubscribeResp result \<times> http_trace" where
  "postOneClickUnsubscribe ux option =
     (if uo_Type option \<noteq> ''url'' then (Inl ''unsubscribe URL is invalid'', [])
      else case url_parse (uo_URL option) of
        None \<Rightarrow> (Inl ''unsubscribe URL is invalid'', [])
      | Some target \<Rightarrow>
          if \<not> safeUnsubscribeURL target then (Inl ''unsubscribe URL is invalid'', [])
          else
            (let (r, trace) = follow ux 4 target []
             in case r of
                  Inl e \<Rightarrow> (Inl e, trace)
                | Inr n \<Rightarrow>
                    if n < 200 \<or> n > 299 then (Inl (''unsubscribe endpoint returned HTTP '' @ itoa n), trace)
                    else (Inr \<lparr>ur_Message = ''One-click unsubscribe request sent.'', ur_Type = ''url'', ur_Sent = False,
                        ur_SentTo = [], ur_Status = n, ur_URL = url_string target\<rparr>, trace)))"

section \<open>Where requests go\<close>

text \<open>The networks a request must not reach, each with the length of its prefix.\<close>

definition inside_networks :: "(addr \<times> nat) list" where
  "inside_networks =
     [(V4 [0, 0, 0, 0], 32), (V4 [10, 0, 0, 0], 8), (V4 [127, 0, 0, 0], 8), (V4 [169, 254, 0, 0], 16),
      (V4 [172, 16, 0, 0], 12), (V4 [192, 168, 0, 0], 16), (V4 [224, 0, 0, 0], 4), (V4 [255, 255, 255, 255], 32),
      (V6 (replicate 16 0) [], 128), (V6 (replicate 15 0 @ [1]) [], 128),
      (V6 (252 # replicate 15 0) [], 7), (V6 (254 # 128 # replicate 14 0) [], 10), (V6 (255 # replicate 15 0) [], 8)]"

definition in_network :: "addr \<Rightarrow> addr \<times> nat \<Rightarrow> bool" where
  "in_network a n = (mask_addr (snd n) (unmap a) = fst n)"

definition outside :: "addr \<Rightarrow> bool" where
  "outside a = list_all (\<lambda>n. \<not> in_network a n) inside_networks"

lemma mask_bytes_Cons:
  "mask_bytes n bs = x # xs \<longleftrightarrow>
   (\<exists>b r. bs = b # r \<and> x = (if n \<ge> 8 then b else b div 2 ^ (8 - n) * 2 ^ (8 - n)) \<and> mask_bytes (n - 8) r = xs)"
  by (cases bs) auto

lemma mask_bytes_Nil: "mask_bytes n bs = [] \<longleftrightarrow> bs = []"
  by (cases bs) auto

lemma mask_bytes_all: "8 * length bs \<le> n \<Longrightarrow> mask_bytes n bs = bs"
  by (induction bs arbitrary: n) auto

lemma mask_bytes_length [simp]: "length (mask_bytes n bs) = length bs"
  by (induction bs arbitrary: n) auto

lemma mask_bytes_full: "length xs = k \<Longrightarrow> 8 * k \<le> n \<Longrightarrow> mask_bytes n bs = xs \<longleftrightarrow> bs = xs"
  by (metis mask_bytes_all mask_bytes_length)

lemma unmap_V6: "unmap (V6 bs z) = V6 cs y \<Longrightarrow> cs = bs \<and> y = z"
  by (auto simp: unmap_def split: if_splits)

lemma mask_bytes_hd: "mask_bytes n bs = x # xs \<Longrightarrow> x = (if n \<ge> 8 then bs ! 0 else bs ! 0 div 2 ^ (8 - n) * 2 ^ (8 - n))"
  by (auto simp: mask_bytes_Cons)

lemma mask_bytes_snd:
  "mask_bytes n bs = x # y # xs \<Longrightarrow>
   y = (if n - 8 \<ge> 8 then bs ! 1 else bs ! 1 div 2 ^ (8 - (n - 8)) * 2 ^ (8 - (n - 8)))"
  by (auto simp: mask_bytes_Cons)

lemma outside_v4:
  assumes a: "unmap a = V4 bs" and safe: "safeOutboundIP a"
  shows "outside a"
proof -
  note ranges = safeOutboundIP_def is_global_unicast_def is_private_def is_loopback_def is_link_local_unicast_def
    is_multicast_def Let_def a
  have bytes: "mask_bytes 32 bs \<noteq> [0, 0, 0, 0]" "mask_bytes 32 bs \<noteq> [255, 255, 255, 255]"
    using safe by (simp_all add: mask_bytes_full [of _ 4] ranges)
  have first: "mask_bytes 8 bs \<noteq> x # xs" if "x = 10 \<or> x = 127" for x xs
  proof
    assume "mask_bytes 8 bs = x # xs"
    from mask_bytes_hd [OF this] have "bs ! 0 = x" by simp
    with safe that show False by (auto simp: ranges)
  qed
  have second: "mask_bytes 16 bs \<noteq> x # y # xs" if "(x, y) = (169, 254) \<or> (x, y) = (192, 168)" for x y xs
  proof
    assume "mask_bytes 16 bs = x # y # xs"
    from mask_bytes_hd [OF this] mask_bytes_snd [OF this] have "bs ! 0 = x \<and> bs ! 1 = y" by simp
    with safe that show False by (auto simp: ranges)
  qed
  have "mask_bytes 12 bs \<noteq> [172, 16, 0, 0]"
  proof
    assume *: "mask_bytes 12 bs = [172, 16, 0, 0]"
    from mask_bytes_hd [OF *] have "bs ! 0 = 172" by simp
    moreover from mask_bytes_snd [OF *] have "16 = bs ! 1 div 16 * 16" by simp
    then have "16 \<le> bs ! 1 \<and> bs ! 1 \<le> 31" by linarith
    ultimately show False using safe by (simp add: ranges)
  qed
  moreover have "mask_bytes 4 bs \<noteq> [224, 0, 0, 0]"
  proof
    assume "mask_bytes 4 bs = [224, 0, 0, 0]"
    from mask_bytes_hd [OF this] have "224 = bs ! 0 div 16 * 16" by simp
    then have "224 \<le> bs ! 0 \<and> bs ! 0 \<le> 239" by linarith
    with safe show False by (simp add: ranges)
  qed
  ultimately show ?thesis
    using bytes first second by (simp add: outside_def inside_networks_def in_network_def mask_addr_def a)
qed

lemma outside_v6:
  assumes a: "unmap a = V6 bs []" and safe: "safeOutboundIP a"
  shows "outside a"
proof -
  note ranges = safeOutboundIP_def is_global_unicast_def is_private_def is_loopback_def is_link_local_unicast_def
    is_multicast_def Let_def a
  have "mask_bytes 128 bs \<noteq> replicate 16 0" using safe by (simp add: mask_bytes_full [of _ 16] ranges)
  moreover have "mask_bytes 128 bs \<noteq> replicate 15 0 @ [1]"
    using safe by (simp add: mask_bytes_full [of _ 16] ranges)
  moreover have "mask_bytes 7 bs \<noteq> 252 # replicate 15 0"
  proof
    assume "mask_bytes 7 bs = 252 # replicate 15 0"
    from mask_bytes_hd [OF this] have "bs ! 0 = 252 \<or> bs ! 0 = 253" by simp presburger
    with safe show False by (auto simp: ranges)
  qed
  moreover have "mask_bytes 10 bs \<noteq> 254 # 128 # replicate 14 0"
  proof
    assume *: "mask_bytes 10 bs = 254 # 128 # replicate 14 0"
    from mask_bytes_hd [OF *] have "bs ! 0 = 254" by simp
    moreover from mask_bytes_snd [OF *] have "128 = bs ! 1 div 64 * 64" by simp
    then have "128 \<le> bs ! 1 \<and> bs ! 1 \<le> 191" by linarith
    ultimately show False using safe by (simp add: ranges)
  qed
  moreover have "mask_bytes 8 bs \<noteq> 255 # replicate 15 0"
  proof
    assume "mask_bytes 8 bs = 255 # replicate 15 0"
    from mask_bytes_hd [OF this] have "bs ! 0 = 255" by simp
    with safe show False by (simp add: ranges)
  qed
  ultimately show ?thesis
    by (simp add: outside_def inside_networks_def in_network_def mask_addr_def a)
qed

lemma unmap_V4: "unmap (V4 bs) = V4 bs"
  by (simp add: unmap_def)

lemma safe_outside: "safeOutboundIP (without_zone a) \<Longrightarrow> outside (without_zone a)"
  by (cases a; cases "unmap (without_zone a)")
    (auto intro: outside_v4 outside_v6 simp: without_zone_def unmap_V4 dest: unmap_V6)

text \<open>What holds of every request of a run, and how many there are.\<close>

definition outbound :: "addr \<times> url \<Rightarrow> bool" where
  "outbound = (\<lambda>(ip, u). outside ip \<and> safeUnsubscribeURL u)"

lemma unsubscribe_dial_outside: "unsubscribe_dial r = Inr ip \<Longrightarrow> outside ip"
  by (auto simp: unsubscribe_dial_def safe_outside split: sum.splits list.splits if_splits)

lemma follow_outbound:
  "list_all outbound trace \<Longrightarrow> safeUnsubscribeURL u \<Longrightarrow> list_all outbound (snd (follow ux fuel u trace))"
proof (induction ux fuel u trace rule: follow.induct)
  case (2 ux fuel u trace)
  have conn: "outside ip"
    if "(case (if ux_Idle ux (length trace) then find (\<lambda>(ip, v). url_Host v = url_Host u) trace else None) of
           Some (ip, _) \<Rightarrow> Inr ip | None \<Rightarrow> unsubscribe_dial (ux_Lookup ux (length trace) (hostname u))) = Inr ip" for ip
    using that 2(2)
    by (auto simp: list_all_iff outbound_def find_Some_iff all_set_conv_all_nth dest: unsubscribe_dial_outside
        split: if_splits option.splits)
  show ?case
    using 2
    by (auto simp: Let_def outbound_def validateUnsubscribeRedirect_def conn split: sum.splits http_answer.splits if_splits)
qed simp

lemma follow_length: "length trace \<le> 2 \<Longrightarrow> length (snd (follow ux fuel u trace)) \<le> 3"
proof (induction ux fuel u trace rule: follow.induct)
  case (2 ux fuel u trace)
  then show ?case
    by (auto simp: Let_def validateUnsubscribeRedirect_def split: sum.splits http_answer.splits if_splits option.splits)
qed simp

lemma follow_fuel: "3 - length trace < fuel \<Longrightarrow> follow ux (fuel + n) u trace = follow ux fuel u trace"
proof (induction ux fuel u trace rule: follow.induct)
  case (2 ux fuel u trace)
  then show ?case
    by (auto simp: Let_def validateUnsubscribeRedirect_def split: sum.splits http_answer.splits if_splits option.splits)
qed simp

text \<open>The list is not that of all special networks: the shared address space, for one, is let through.\<close>

lemma shared_space_let_through: "safeOutboundIP (V4 [100, 64, 0, 1])"
  by (simp add: safeOutboundIP_def is_global_unicast_def is_private_def is_loopback_def is_link_local_unicast_def is_multicast_def
      is_link_local_multicast_def is_unspecified_def unmap_V4)

text \<open>C14 (unsubscribing cannot reach the inside): every request that a one-click unsubscribe sends, redirects
  included, goes over https to an address in none of the networks \<open>0.0.0.0/32\<close>, \<open>10/8\<close>, \<open>127/8\<close>, \<open>169.254/16\<close>, \<open>172.16/12\<close>,
  \<open>192.168/16\<close>, \<open>224/4\<close>, \<open>255.255.255.255/32\<close>, \<open>::/128\<close>, \<open>::1/128\<close>, \<open>fc00::/7\<close>, \<open>fe80::/10\<close> and \<open>ff00::/8\<close>, whatever the resolver answers at each lookup
  and whatever the servers answer; and there are at most three requests.\<close>

theorem one_click_stays_outside:
  "list_all outbound (snd (postOneClickUnsubscribe ux option)) \<and> length (snd (postOneClickUnsubscribe ux option)) \<le> 3"
  using follow_length [of "[]" ux 4] follow_outbound [of "[]" _ ux 4]
  by (auto simp: postOneClickUnsubscribe_def split: option.splits prod.splits sum.splits) (metis snd_conv)+

end
