(* ===== verification/Mailbox.thy ===== *)
theory Mailbox
  imports Unsubscribe Spoofing QuarantineActions
begin

text \<open>
  \<open>internal/mailbox/mailbox.go\<close>: the copies of delivered mail that a user sees, with the analysis shown
  beside them; the verdict a user gives, which corrects the other copies of a campaign, teaches the
  classifier, files a report, decides a sender challenge and releases or deletes held mail; blocking and
  allowing senders; bulk actions and deletion. Audit records are not part of the tables here.
\<close>

section \<open>What is shown of a message\<close>

record message =
  mx_Row :: mailbox_row
  mx_Reason :: "string option"
  mx_Symbols :: json
  mx_HeldCopies :: nat
  mx_EmailType :: string
  mx_Scam :: Analysis
  mx_Spoof :: spoof_result
  mx_Unsubscribe :: "UnsubscribeInfo option"

definition mailboxEmailType :: "string \<Rightarrow> string" where
  "mailboxEmailType reason0 =
     (let reason = to_lower (trim_space reason0)
      in if contains reason ''phishing signal'' then ''Possible phishing''
         else if contains reason ''phishing'' then ''Likely phishing''
         else if contains reason ''malware'' \<or> contains reason ''virus'' then ''Likely malware''
         else if contains reason ''blacklist'' \<or> contains reason ''blocklist'' then ''Blocked sender''
         else if contains reason ''authentication'' then ''Sender authentication issue''
         else if contains reason ''quarantine_threshold'' then ''Likely spam''
         else if contains reason ''spam_threshold'' then ''Possible spam''
         else ''Clean or wanted mail'')"

definition shown_type :: "string \<Rightarrow> string \<Rightarrow> string" where
  "shown_type v reason =
     (if v = ''not_spam'' then ''User confirmed clean''
      else if v = ''spam'' then ''User reported spam''
      else if v = ''phishing'' then ''User reported phishing''
      else if v = ''malware'' then ''User reported malware''
      else mailboxEmailType reason)"

definition applyAnalysis :: "addr_env \<Rightarrow> mailbox_row \<Rightarrow> string option \<Rightarrow> json \<Rightarrow> nat \<Rightarrow> message" where
  "applyAnalysis env m reason symbols held =
     \<lparr>mx_Row = m, mx_Reason = reason, mx_Symbols = symbols, mx_HeldCopies = held,
      mx_EmailType = shown_type (mb_Verdict m) (text_or_empty reason),
      mx_Scam = AnalyzeCommonScam (text_or_empty (mb_Subject m)) (mb_BodyText m),
      mx_Spoof = Spoofing.Analyze (text_or_empty reason) (Some symbols),
      mx_Unsubscribe = (if unsubscribeAllowed (mb_Verdict m)
         then parseUnsubscribeInfo env (text_or_empty (mb_ListUnsubscribe m)) (text_or_empty (mb_ListUnsubscribePost m)) else None)\<rparr>"

text \<open>The columns of a query on \<open>mailbox_messages\<close>, read from the tables at that moment.\<close>

definition held_count :: "mail_db \<Rightarrow> uuid \<Rightarrow> nat" where
  "held_count db i =
     length (filter (\<lambda>q. qe_MailLogID q = Some i \<and> qe_State q = ''held'' \<and> has_blob (md_QuarantineBlobs db) (qe_ID q))
       (md_Quarantine db))"

definition scan_message :: "mail_env \<Rightarrow> mail_db \<Rightarrow> mailbox_row \<Rightarrow> message" where
  "scan_message env db m =
     (let log' = log_by_id (md_Logs db) (mb_MailLogID m)
      in applyAnalysis (mv_Addr env) m (Option.bind log' ml_Reason)
           (case Option.bind log' ml_Symbols of None \<Rightarrow> JObj [] | Some v \<Rightarrow> v) (held_count db (mb_MailLogID m)))"

lemma scan_message_Row [simp]: "mx_Row (scan_message env db m) = m"
  by (simp add: scan_message_def applyAnalysis_def Let_def)

section \<open>Which messages a request sees\<close>

definition notHeldQuarantineClause :: "quarantine_row list \<Rightarrow> mailbox_row \<Rightarrow> bool" where
  "notHeldQuarantineClause quarantine m =
     (\<not> list_ex (\<lambda>q. qe_MailLogID q = Some (mb_MailLogID m) \<and> to_lower (qe_ToAddr q) = to_lower (mb_ToAddr m) \<and>
        qe_State q = ''held'') quarantine)"

definition notExpiredClause :: "nat \<Rightarrow> mailbox_row \<Rightarrow> bool" where
  "notExpiredClause now m = (case mb_ExpiresAt m of None \<Rightarrow> True | Some t \<Rightarrow> t > now)"

definition visibleMailboxClause :: "mail_env \<Rightarrow> mail_db \<Rightarrow> mailbox_row \<Rightarrow> bool" where
  "visibleMailboxClause env db m = (notHeldQuarantineClause (md_Quarantine db) m \<and> notExpiredClause (mv_Now env) m)"

definition message_by_id :: "mailbox_row list \<Rightarrow> uuid \<Rightarrow> mailbox_row option" where
  "message_by_id rows i = find (\<lambda>m. mb_ID m = i) rows"

definition messageForUser ::
  "mail_env \<Rightarrow> uuid option \<Rightarrow> (scope \<times> identity) result \<Rightarrow> mail_db \<Rightarrow> (nat \<times> string) + (mailbox_row \<times> identity)" where
  "messageForUser env param sc db =
     (case param of
        None \<Rightarrow> Inl (400, ''invalid id'')
      | Some i \<Rightarrow>
          case sc of
            Inl e \<Rightarrow> Inl (500, ''scope'')
          | Inr (scope, ident) \<Rightarrow>
              case (if mv_Err env ''select mailbox_messages'' then None
                    else find (\<lambda>m. mb_ID m = i \<and> visibleMailboxClause env db m) (md_Mailbox db)) of
                None \<Rightarrow> Inl (404, ''not found'')
              | Some m \<Rightarrow>
                  if \<not> Allows scope (mb_OrganizationID m) \<or> \<not> equal_fold (trim_space (mb_ToAddr m)) (trim_space (id_Email ident))
                  then Inl (404, ''not found'') else Inr (m, ident))"

definition messagesForUser ::
  "mail_env \<Rightarrow> scope \<Rightarrow> identity \<Rightarrow> uuid list \<Rightarrow> mail_db \<Rightarrow> mailbox_row list result" where
  "messagesForUser env scope ident ids db =
     (if mv_Err env ''select mailbox_messages'' then Inl ''select mailbox_messages''
      else Inr (filter (\<lambda>m. Allows scope (mb_OrganizationID m) \<and>
             to_lower (trim_space (mb_ToAddr m)) = to_lower (trim_space (id_Email ident)))
           (filter (\<lambda>m. mb_ID m \<in> set ids \<and> visibleMailboxClause env db m) (md_Mailbox db))))"

record mailbox_query =
  mq_Verdict :: string
  mq_Q :: string

definition mailbox_matches :: "mail_env \<Rightarrow> mail_db \<Rightarrow> scope \<Rightarrow> identity \<Rightarrow> mailbox_query \<Rightarrow> mailbox_row \<Rightarrow> bool" where
  "mailbox_matches env db scope ident q m =
     (let v = trim_space (mq_Verdict q); search = trim_space (mq_Q q); pat = ''%'' @ to_lower search @ ''%''
      in (IsSuperAdmin scope \<or> mb_OrganizationID m \<in> set (VisibleOrgIDs scope)) \<and>
         to_lower (mb_ToAddr m) = to_lower (trim_space (id_Email ident)) \<and>
         visibleMailboxClause env db m \<and>
         (v = [] \<or> mb_Verdict m = v) \<and>
         (search = [] \<or> list_ex (\<lambda>t. sql_like pat (to_lower t))
            [text_or_empty (mb_FromAddr m), mb_ToAddr m, text_or_empty (mb_Subject m), mb_BodyText m]))"

definition list_mailbox ::
  "mail_env \<Rightarrow> (scope \<times> identity) result \<Rightarrow> page \<Rightarrow> mailbox_query \<Rightarrow> mail_db \<Rightarrow> message list_envelope response" where
  "list_mailbox env sc pg q db =
     (case sc of
        Inl e \<Rightarrow> WriteError 500 ''scope''
      | Inr (scope, ident) \<Rightarrow>
          if mv_Err env ''count mailbox_messages'' then WriteError 500 ''count''
          else if mv_Err env ''select mailbox_messages'' then WriteError 500 ''db''
          else WriteJSON 200 (envelope pg (map (scan_message env db)
            (sort_key (\<lambda>m. - int (mb_ReceivedAt m)) (filter (mailbox_matches env db scope ident q) (md_Mailbox db))))))"

definition read_message :: "mail_env \<Rightarrow> uuid option \<Rightarrow> (scope \<times> identity) result \<Rightarrow> mail_db \<Rightarrow> message response" where
  "read_message env param sc db =
     (case messageForUser env param sc db of
        Inl (n, e) \<Rightarrow> WriteError n e
      | Inr (m, ident) \<Rightarrow>
          if \<not> equal_fold (trim_space (mb_ToAddr m)) (trim_space (id_Email ident)) then WriteError 404 ''not found''
          else WriteJSON 200 (scan_message env db m))"

section \<open>Unsubscribing\<close>

record unsubscribeReq =
  uq_Type :: string
  uq_URL :: string

text \<open>The result comes with the requests that a one-click unsubscribe sent.\<close>

definition unsubscribe ::
  "unsubscribe_env \<Rightarrow> mail_env \<Rightarrow> uuid option \<Rightarrow> (scope \<times> identity) result \<Rightarrow> unsubscribeReq result \<Rightarrow> mail_db \<Rightarrow>
     unsubscribeResp response \<times> mail_db \<times> http_trace" where
  "unsubscribe ux env param sc body db =
     (case messageForUser env param sc db of
        Inl (n, e) \<Rightarrow> (WriteError n e, db, [])
      | Inr (m, ident) \<Rightarrow>
          if \<not> equal_fold (trim_space (mb_ToAddr m)) (trim_space (id_Email ident)) then (WriteError 404 ''not found'', db, [])
          else if \<not> unsubscribeAllowed (mb_Verdict m) then
            (WriteError 409 ''unsubscribe is disabled for messages marked phishing or malware'', db, [])
          else case parseUnsubscribeInfo (mv_Addr env) (text_or_empty (mb_ListUnsubscribe m)) (text_or_empty (mb_ListUnsubscribePost m)) of
            None \<Rightarrow> (WriteError 400 ''no safe unsubscribe option is available'', db, [])
          | Some info \<Rightarrow>
              case body of
                Inl e \<Rightarrow> (WriteError 400 e, db, [])
              | Inr req \<Rightarrow>
                  case findUnsubscribeOption (ui_Options info) (uq_Type req) (uq_URL req) of
                    None \<Rightarrow> (WriteError 400 ''unsubscribe option was not found on this message'', db, [])
                  | Some option \<Rightarrow>
                      if uo_Type option = ''mailto'' then
                        (case sendMailtoUnsubscribe ux env m option db of
                           (Inl e, db1) \<Rightarrow> (WriteError 409 e, db1, [])
                         | (Inr resp, db1) \<Rightarrow> (WriteJSON 200 resp, db1, []))
                      else if uo_Type option = ''url'' then
                        (if \<not> ui_OneClick info then (WriteError 400 ''message does not advertise one-click unsubscribe'', db, [])
                         else case postOneClickUnsubscribe ux option of
                           (Inl e, trace) \<Rightarrow> (WriteError 409 e, db, trace)
                         | (Inr resp, trace) \<Rightarrow> (WriteJSON 200 resp, db, trace))
                      else (WriteError 400 ''unsupported unsubscribe option'', db, []))"

section \<open>The verdict of a user\<close>

definition validVerdict :: "string \<Rightarrow> bool" where
  "validVerdict v = (v \<in> {''unreviewed'', ''not_spam'', ''spam'', ''phishing'', ''malware'', ''other''})"

definition judge :: "nat \<Rightarrow> uuid \<Rightarrow> string \<Rightarrow> mailbox_row \<Rightarrow> mailbox_row" where
  "judge now user v m = m\<lparr>mb_Verdict := v, mb_VerdictBy := Some user, mb_VerdictAt := Some now\<rparr>"

text \<open>The rows that the second \<open>UPDATE\<close> of \<open>setVerdict\<close> changes.\<close>

definition same_campaign_log :: "mail_log_row list \<Rightarrow> uuid \<Rightarrow> uuid \<Rightarrow> bool" where
  "same_campaign_log logs i j =
     list_ex (\<lambda>reported. ml_ID reported = i \<and> ml_CampaignID reported \<noteq> None \<and>
       list_ex (\<lambda>related. ml_CampaignID related = ml_CampaignID reported \<and> ml_ID related = j) logs) logs"

definition correlated :: "mail_log_row list \<Rightarrow> mailbox_row \<Rightarrow> mailbox_row \<Rightarrow> bool" where
  "correlated logs m copy =
     (mb_ID copy \<noteq> mb_ID m \<and> mb_Verdict copy = ''unreviewed'' \<and> same_campaign_log logs (mb_MailLogID m) (mb_MailLogID copy))"

definition correlate_copies :: "mail_env \<Rightarrow> mailbox_row \<Rightarrow> uuid \<Rightarrow> string \<Rightarrow> mail_db \<Rightarrow> mail_db" where
  "correlate_copies env m user v db =
     db\<lparr>md_Mailbox := update_where (correlated (md_Logs db) m) (judge (mv_Now env) user v) (md_Mailbox db)\<rparr>"

definition verdict_observation :: "mailbox_row \<Rightarrow> identity \<Rightarrow> string \<Rightarrow> Observation" where
  "verdict_observation m ident v =
     \<lparr>ob_OrganizationID = mb_OrganizationID m, ob_DomainID = mb_DomainID m, ob_UserEmail = mb_ToAddr m,
      ob_FromAddr = text_or_empty (mb_FromAddr m), ob_Subject = text_or_empty (mb_Subject m), ob_Verdict = v,
      ob_MailboxMessageID = mb_ID m, ob_MailLogID = mb_MailLogID m, ob_BodyText = mb_BodyText m, ob_UserID = id_UserID ident\<rparr>"

text \<open>The classifier and the report: their errors are only logged.\<close>

definition learn_and_report :: "mail_env \<Rightarrow> mailbox_row \<Rightarrow> identity \<Rightarrow> string \<Rightarrow> mail_db \<Rightarrow> mail_db" where
  "learn_and_report env m ident v db =
     snd (RecordFromMailbox env (mb_ID m) v (id_UserID ident)
       (db\<lparr>md_Classifications := snd (Learn (mv_Err env) (mv_Now env) (verdict_observation m ident v) (md_Classifications db))\<rparr>))"

definition user_decision :: "mail_env \<Rightarrow> mailbox_row \<Rightarrow> uuid \<Rightarrow> string \<Rightarrow> string \<Rightarrow> string \<Rightarrow> mail_db \<Rightarrow> string option \<times> mail_db" where
  "user_decision env m userID sender action remark db =
     (let (e, entries) = UpsertUserDecision (mv_Err env) (mv_Addr env) (mv_View env) (new_entry_id env db) (mv_Now env)
            (mb_OrganizationID m) (mb_DomainID m) userID (mb_ToAddr m) sender action remark (md_Entries db)
      in (e, db\<lparr>md_Entries := entries\<rparr>))"

text \<open>A message held for a sender challenge: the verdict decides about the sender.\<close>

definition decide_challenge :: "mail_env \<Rightarrow> mailbox_row \<Rightarrow> identity \<Rightarrow> string \<Rightarrow> mail_db \<Rightarrow> string option \<times> mail_db" where
  "decide_challenge env m ident v db =
     (let sender = text_or_empty (mb_FromAddr m)
      in if \<not> MailLogHasChallengeReason (mv_Err env) (md_Logs db) (mb_MailLogID m) then (None, db)
         else if v = ''not_spam'' then
           (let (e, db1) = user_decision env m (id_UserID ident) sender ''allow'' ''Challenge-response approved from mailbox'' db
            in (if e = None then None else Some ''sender approval failed'', db1))
         else if v \<in> {''spam'', ''phishing'', ''malware''} then
           (let (e, db1) = user_decision env m (id_UserID ident) sender ''block'' ''Challenge-response denied from mailbox'' db
            in if e \<noteq> None then (Some ''sender denial failed'', db1)
               else (None, snd (DeleteHeldForRecipient env (mb_MailLogID m) (mb_ToAddr m) db1)))
         else (None, db))"

definition setVerdict :: "mail_env \<Rightarrow> uuid \<Rightarrow> identity \<Rightarrow> string \<Rightarrow> mail_db \<Rightarrow> message result \<times> mail_db" where
  "setVerdict env i ident v db =
     (let now = mv_Now env; user = id_UserID ident
      in case (if mv_Err env ''update mailbox_messages'' then None else message_by_id (md_Mailbox db) i) of
           None \<Rightarrow> (Inl ''update failed'', db)
         | Some m0 \<Rightarrow>
             (let m = judge now user v m0; threat = v \<in> {''phishing'', ''malware''};
                  rows = update_where (\<lambda>x. mb_ID x = i) (judge now user v) (md_Mailbox db);
                  db1 = db\<lparr>md_Mailbox := rows\<rparr>
              in if threat \<and> mv_Err env ''update campaign copies'' then
                   (Inl ''correlate campaign copies: update campaign copies'', db1)
                 else
                   (let db2 = (if threat then correlate_copies env m user v db1 else db1);
                        (e, db3) = decide_challenge env m ident v (learn_and_report env m ident v db2)
                    in case e of
                         Some msg \<Rightarrow> (Inl msg, db3)
                       | None \<Rightarrow>
                           (Inr (scan_message env db m),
                            if v = ''not_spam'' then snd (ReleaseHeldForRecipient env (mb_MailLogID m) (mb_ToAddr m) user db3)
                            else db3))))"

definition verdict_message ::
  "mail_env \<Rightarrow> uuid option \<Rightarrow> (scope \<times> identity) result \<Rightarrow> string result \<Rightarrow> mail_db \<Rightarrow> message response \<times> mail_db" where
  "verdict_message env param sc body db =
     (case messageForUser env param sc db of
        Inl (n, e) \<Rightarrow> (WriteError n e, db)
      | Inr (m, ident) \<Rightarrow>
          case body of
            Inl e \<Rightarrow> (WriteError 400 e, db)
          | Inr v0 \<Rightarrow>
              (let v = to_lower (trim_space v0)
               in if \<not> validVerdict v then (WriteError 400 ''invalid verdict'', db)
                  else case setVerdict env (mb_ID m) ident v db of
                    (Inl e, db1) \<Rightarrow> (WriteError 500 e, db1)
                  | (Inr msg, db1) \<Rightarrow> (WriteJSON 200 msg, db1)))"

section \<open>Blocking and allowing senders\<close>

definition message_sender :: "addr_env \<Rightarrow> string option \<Rightarrow> string result" where
  "message_sender env sender =
     (let v0 = trim_space (text_or_empty sender)
      in if v0 = [] then Inl ''message has no sender address''
         else
           (let v = to_lower (trim_space (case ParseAddress env v0 of Some a \<Rightarrow> if a \<noteq> [] then a else v0 | None \<Rightarrow> v0))
            in if CHR ''@'' \<notin> set v then Inl ''sender address is invalid'' else Inr v))"

definition sender_domain :: "string \<Rightarrow> string" where
  "sender_domain value0 =
     (let value = to_lower (trim_space value0)
      in trim (case last_index_char value CHR ''@'' of None \<Rightarrow> value | Some i \<Rightarrow> drop (Suc i) value) '' <>'')"

definition upsertOrgSenderBlock :: "mail_env \<Rightarrow> uuid \<Rightarrow> string \<Rightarrow> string \<Rightarrow> mail_db \<Rightarrow> string option \<times> mail_db" where
  "upsertOrgSenderBlock env org sender0 remark db =
     (let sender = to_lower (trim_space sender0);
          e = \<lparr>le_ID = new_entry_id env db, le_OrganizationID = Some org, le_DomainID = None, le_UserID = None, le_Scope = ''org'',
               le_Action = ''block'', le_Kind = ''email'', le_Pattern = sender, le_Note = Some remark, le_CreatedAt = mv_Now env\<rparr>;
          rest = filter (\<lambda>f. \<not> (le_OrganizationID f = Some org \<and> le_DomainID f = None \<and> le_UserID f = None \<and>
                   le_Scope f = ''org'' \<and> to_lower (le_Pattern f) = to_lower sender)) (md_Entries db)
      in if sender = [] then (Some ''sender is required'', db)
         else if mv_Err env ''delete list_entries'' then (Some ''delete list_entries'', db)
         else case (if mv_Err env ''insert list_entries'' then None else insert_entry (mv_View env) e rest) of
           None \<Rightarrow> (Some ''insert list_entries'', db\<lparr>md_Entries := rest\<rparr>)
         | Some entries \<Rightarrow> (None, db\<lparr>md_Entries := entries\<rparr>))"

text \<open>What is blocked: the pattern, or an error, and the tables after the rule is stored.\<close>

definition block_domain ::
  "mail_env \<Rightarrow> mailbox_row \<Rightarrow> identity \<Rightarrow> string \<Rightarrow> string \<Rightarrow> string \<Rightarrow> string \<Rightarrow> mail_db \<Rightarrow> string result \<times> mail_db" where
  "block_domain env m ident match override sender remark db =
     (let (entryScope, userID) = user_scope ident; domain = sender_domain sender
      in if domain = [] \<or> domain = ''sentinelmail.local'' then (Inl ''sender domain is invalid'', db)
         else case (if override \<noteq> [] then map_sum id fst (NormalizeSenderDomainPattern (mv_Addr env) override)
                    else if match = ''root_domain'' then RootSenderDomain (mv_Addr env) domain
                    else Inr domain) of
           Inl e \<Rightarrow> (Inl e, db)
         | Inr d \<Rightarrow> domain_decision env (Some (mb_OrganizationID m)) (mb_DomainID m) userID entryScope d ''block'' remark db)"

definition block_rule ::
  "mail_env \<Rightarrow> mailbox_row \<Rightarrow> identity \<Rightarrow> string \<Rightarrow> string \<Rightarrow> string \<Rightarrow> string \<Rightarrow> mail_db \<Rightarrow> string result \<times> mail_db" where
  "block_rule env m ident match override sender remark db =
     (if match = ''domain'' \<or> match = ''root_domain'' then block_domain env m ident match override sender remark db
      else
        (let (e, db1) = (if fst (user_scope ident) = ''user''
                         then user_decision env m (id_UserID ident) sender ''block'' remark db
                         else upsertOrgSenderBlock env (mb_OrganizationID m) (to_lower sender) remark db)
         in (if e \<noteq> None then Inl ''sender block failed'' else Inr (to_lower sender), db1)))"

text \<open>The scope and the pattern of the new rule; the message becomes spam.\<close>

definition blockMessageSender ::
  "mail_env \<Rightarrow> mailbox_row \<Rightarrow> identity \<Rightarrow> string \<Rightarrow> string \<Rightarrow> mail_db \<Rightarrow> (string \<times> string) result \<times> mail_db" where
  "blockMessageSender env m ident match override db =
     (case message_sender (mv_Addr env) (mb_FromAddr m) of
        Inl e \<Rightarrow> (Inl e, db)
      | Inr sender \<Rightarrow>
          if match \<notin> {''sender'', ''domain'', ''root_domain''} then (Inl ''match must be sender, domain, or root_domain'', db)
          else
            (let remark = ''Blocked from inbox message '' @ mv_UUIDText env (mb_ID m) @ '' by '' @ id_Email ident;
                 (r, db1) = block_rule env m ident match override sender remark db
             in case r of
                  Inl e \<Rightarrow> (Inl e, db1)
                | Inr pattern \<Rightarrow>
                    (case setVerdict env (mb_ID m) ident ''spam'' db1 of
                       (Inl e, db2) \<Rightarrow> (Inl e, db2)
                     | (Inr _, db2) \<Rightarrow> (Inr (fst (user_scope ident), pattern), db2))))"

definition allowMessageSender ::
  "mail_env \<Rightarrow> mailbox_row \<Rightarrow> identity \<Rightarrow> string \<Rightarrow> mail_db \<Rightarrow> (string \<times> string) result \<times> mail_db" where
  "allowMessageSender env m ident match db =
     (case message_sender (mv_Addr env) (mb_FromAddr m) of
        Inl e \<Rightarrow> (Inl e, db)
      | Inr sender \<Rightarrow>
          (let (entryScope, userID) = user_scope ident; domain = sender_domain sender
           in if match \<noteq> ''domain'' \<and> match \<noteq> ''root_domain'' then (Inl ''match must be domain or root_domain'', db)
              else if domain = [] \<or> domain = ''sentinelmail.local'' then (Inl ''sender domain is invalid'', db)
              else case (if match = ''root_domain'' then RootSenderDomain (mv_Addr env) domain else Inr domain) of
                Inl e \<Rightarrow> (Inl e, db)
              | Inr d \<Rightarrow>
                  (let (r, db1) = domain_decision env (Some (mb_OrganizationID m)) (mb_DomainID m) userID entryScope d ''allow''
                         (''Whitelisted from inbox message '' @ mv_UUIDText env (mb_ID m) @ '' by '' @ id_Email ident) db
                   in case r of
                        Inl e \<Rightarrow> (Inl e, db1)
                      | Inr pattern \<Rightarrow>
                          (case setVerdict env (mb_ID m) ident ''not_spam'' db1 of
                             (Inl e, db2) \<Rightarrow> (Inl e, db2)
                           | (Inr _, db2) \<Rightarrow> (Inr (entryScope, pattern), db2)))))"

record sender_answer =
  sa_Pattern :: string
  sa_Scope :: string
  sa_Match :: string
  sa_Message :: string

definition block_message_sender ::
  "mail_env \<Rightarrow> uuid option \<Rightarrow> (scope \<times> identity) result \<Rightarrow> (string \<times> string) result \<Rightarrow> mail_db \<Rightarrow> sender_answer response \<times> mail_db" where
  "block_message_sender env param sc body db =
     (case messageForUser env param sc db of
        Inl (n, e) \<Rightarrow> (WriteError n e, db)
      | Inr (m, ident) \<Rightarrow>
          case body of
            Inl e \<Rightarrow> (WriteError 400 e, db)
          | Inr (match0, pattern0) \<Rightarrow>
              (let match1 = to_lower (trim_space match0); match = (if match1 = [] then ''sender'' else match1)
               in if match \<notin> {''sender'', ''domain'', ''root_domain''} then
                    (WriteError 400 ''match must be sender, domain, or root_domain'', db)
                  else case blockMessageSender env m ident match (trim_space pattern0) db of
                    (Inl e, db1) \<Rightarrow> (WriteError 409 e, db1)
                  | (Inr (entryScope, pattern), db1) \<Rightarrow>
                      (WriteJSON 200 \<lparr>sa_Pattern = pattern, sa_Scope = entryScope, sa_Match = match,
                         sa_Message = ''Sender blocked and message marked as spam.''\<rparr>, db1)))"

definition allow_message_sender ::
  "mail_env \<Rightarrow> uuid option \<Rightarrow> (scope \<times> identity) result \<Rightarrow> (string \<times> string) result \<Rightarrow> mail_db \<Rightarrow> sender_answer response \<times> mail_db" where
  "allow_message_sender env param sc body db =
     (case messageForUser env param sc db of
        Inl (n, e) \<Rightarrow> (WriteError n e, db)
      | Inr (m, ident) \<Rightarrow>
          case body of
            Inl e \<Rightarrow> (WriteError 400 e, db)
          | Inr (match0, _) \<Rightarrow>
              (let match1 = to_lower (trim_space match0); match = (if match1 = [] then ''domain'' else match1)
               in if match \<notin> {''domain'', ''root_domain''} then (WriteError 400 ''match must be domain or root_domain'', db)
                  else case allowMessageSender env m ident match db of
                    (Inl e, db1) \<Rightarrow> (WriteError 409 e, db1)
                  | (Inr (entryScope, pattern), db1) \<Rightarrow>
                      (WriteJSON 200 \<lparr>sa_Pattern = pattern, sa_Scope = entryScope, sa_Match = match,
                         sa_Message = ''Sender whitelisted and message marked as not spam.''\<rparr>, db1)))"

section \<open>Deleting and bulk actions\<close>

text \<open>References to a deleted message become null.\<close>

definition delete_messages :: "uuid set \<Rightarrow> mail_db \<Rightarrow> mail_db" where
  "delete_messages ids db =
     db\<lparr>md_Mailbox := filter (\<lambda>m. mb_ID m \<notin> ids) (md_Mailbox db),
        md_Reports := map (\<lambda>r. if case pr_MailboxMessageID r of None \<Rightarrow> False | Some i \<Rightarrow> i \<in> ids
          then r\<lparr>pr_MailboxMessageID := None\<rparr> else r) (md_Reports db),
        md_Classifications := map (\<lambda>c. if case cl_LastMailboxMessageID c of None \<Rightarrow> False | Some i \<Rightarrow> i \<in> ids
          then c\<lparr>cl_LastMailboxMessageID := None\<rparr> else c) (md_Classifications db)\<rparr>"

definition delete_message :: "mail_env \<Rightarrow> uuid option \<Rightarrow> (scope \<times> identity) result \<Rightarrow> mail_db \<Rightarrow> unit response \<times> mail_db" where
  "delete_message env param sc db =
     (case messageForUser env param sc db of
        Inl (n, e) \<Rightarrow> (WriteError n e, db)
      | Inr (m, ident) \<Rightarrow>
          if mv_Err env ''delete mailbox_messages'' then (WriteError 500 ''delete failed'', db)
          else (WriteHeader 204, delete_messages {mb_ID m} db))"

record bulkReq =
  bk_IDs :: "uuid list"
  bk_Action :: string
  bk_Verdict :: string

record bulk_answer =
  ba_Updated :: nat
  ba_Deleted :: nat
  ba_Failed :: nat

text \<open>One action on each message in turn: how many succeeded, and how many failed.\<close>

fun each_message :: "(mailbox_row \<Rightarrow> mail_db \<Rightarrow> bool \<times> mail_db) \<Rightarrow> mailbox_row list \<Rightarrow> nat \<times> nat \<Rightarrow> mail_db \<Rightarrow> (nat \<times> nat) \<times> mail_db" where
  "each_message act [] counts db = (counts, db)"
| "each_message act (m # ms) (updated, failed) db =
     (let (ok, db1) = act m db
      in each_message act ms (if ok then (Suc updated, failed) else (updated, Suc failed)) db1)"

definition succeeded :: "'a result \<Rightarrow> bool" where
  "succeeded r = (case r of Inl _ \<Rightarrow> False | Inr _ \<Rightarrow> True)"

definition sender_actions :: "string list" where
  "sender_actions = [''block_sender'', ''block_domain'', ''block_root_domain'', ''allow_domain'', ''allow_root_domain'']"

definition mailbox_bulk_step :: "mail_env \<Rightarrow> identity \<Rightarrow> string \<Rightarrow> string \<Rightarrow> mailbox_row \<Rightarrow> mail_db \<Rightarrow> bool \<times> mail_db" where
  "mailbox_bulk_step env ident action v m db =
     (if action = ''verdict'' then map_prod succeeded id (setVerdict env (mb_ID m) ident v db)
      else if has_prefix action ''allow_'' then
        map_prod succeeded id (allowMessageSender env m ident (trim_prefix action ''allow_'') db)
      else map_prod succeeded id (blockMessageSender env m ident (trim_prefix action ''block_'') [] db))"

definition bulk_messages ::
  "mail_env \<Rightarrow> (scope \<times> identity) result \<Rightarrow> bulkReq result \<Rightarrow> mail_db \<Rightarrow> bulk_answer response \<times> mail_db" where
  "bulk_messages env sc body db =
     (case sc of
        Inl e \<Rightarrow> (WriteError 500 ''scope'', db)
      | Inr (scope, ident) \<Rightarrow>
          case body of
            Inl e \<Rightarrow> (WriteError 400 e, db)
          | Inr req \<Rightarrow>
              if bk_IDs req = [] then (WriteError 400 ''no messages selected'', db)
              else if length (bk_IDs req) > 200 then (WriteError 400 ''too many messages selected'', db)
              else
                (let action = to_lower (trim_space (bk_Action req)); v = to_lower (trim_space (bk_Verdict req))
                 in case messagesForUser env scope ident (bk_IDs req) db of
                      Inl e \<Rightarrow> (WriteError 500 ''load selected messages failed'', db)
                    | Inr items \<Rightarrow>
                        if length items \<noteq> length (bk_IDs req) then
                          (WriteError 403 ''one or more selected messages are not available'', db)
                        else if action = ''delete'' then
                          (if mv_Err env ''delete mailbox_messages'' then (WriteError 500 ''delete failed'', db)
                           else (WriteJSON 200 \<lparr>ba_Updated = 0, ba_Deleted = length items, ba_Failed = 0\<rparr>,
                                 delete_messages (set (bk_IDs req)) db))
                        else if action = ''verdict'' \<and> \<not> validVerdict v then (WriteError 400 ''invalid verdict'', db)
                        else if action = ''verdict'' \<or> action \<in> set sender_actions then
                          (let ((updated, failed), db1) = each_message (mailbox_bulk_step env ident action v) items (0, 0) db
                           in (WriteJSON 200 \<lparr>ba_Updated = updated, ba_Deleted = 0, ba_Failed = failed\<rparr>, db1))
                        else (WriteError 400 ''invalid bulk action'', db)))"

end
