(* ===== verification/MailboxSafety.thy ===== *)
theory MailboxSafety
  imports Mailbox QuarantineSafety
begin

text \<open>
  Whose mail a mailbox request can show or change. A request leaves every message as it is that is neither
  the caller's own nor an unreviewed copy of a campaign that one of his messages belongs to; and no message
  is shown that is held for its recipient, has expired or is somebody else's.
\<close>

section \<open>What the parts of a verdict leave alone\<close>

definition same_mail :: "mail_db \<Rightarrow> mail_db \<Rightarrow> bool" where
  "same_mail db db' = (md_Mailbox db' = md_Mailbox db \<and> md_Logs db' = md_Logs db)"

lemma same_mail_refl [simp]: "same_mail db db"
  by (simp add: same_mail_def)

lemma same_mail_trans: "same_mail db db1 \<Longrightarrow> same_mail db1 db2 \<Longrightarrow> same_mail db db2"
  by (simp add: same_mail_def)

lemma same_mail_updates [simp]:
  "same_mail db (db\<lparr>md_Entries := es\<rparr>)" "same_mail db (db\<lparr>md_Classifications := cs\<rparr>)" "same_mail db (db\<lparr>md_Reports := rs\<rparr>)"
  "same_mail db (db\<lparr>md_Quarantine := qs\<rparr>)"
  by (simp_all add: same_mail_def)

lemma Send_mail [simp]: "same_mail db (snd (Send env rec m db))"
  by (simp add: same_mail_def Send_def InsertPending_def Finish_def smtp_attempt_def Let_def
      split: prod.split sum.split option.split)

lemma release_mail [simp]: "same_mail db (snd (releaseMessage env q db))"
  by (auto simp: releaseMessage_def split: sum.split prod.split)

lemma ReleaseHeldForRecipient_mail [simp]: "same_mail db (snd (ReleaseHeldForRecipient env i a u db))"
proof -
  have "same_mail db db1 \<Longrightarrow> same_mail db (mark_released env b k db1)" for db1 b k
    by (simp add: same_mail_def mark_released_def)
  moreover have "same_mail db db1" if "(r, db1) = releaseMessage env q db" for q r db1
    using release_mail [of db env q] that by (metis snd_conv)
  ultimately have "ends_in (same_mail db) (ReleaseHeldForRecipient env i a u db)"
    unfolding ReleaseHeldForRecipient_def by (intro handler_walk) auto
  then show ?thesis by (rule ends_inI)
qed

lemma decide_challenge_mail [simp]: "same_mail db (snd (decide_challenge env m ident v db))"
  by (auto simp: decide_challenge_def user_decision_def DeleteHeldForRecipient_def same_mail_def Let_def split: prod.split)

lemma learn_and_report_mail [simp]: "same_mail db (snd (RecordFromMailbox env i v u db))" "same_mail db (learn_and_report env m ident v db)"
proof -
  show "same_mail db (snd (RecordFromMailbox env i v u db))" for db i v u
    by (simp add: RecordFromMailbox_def same_mail_def Let_def split: option.split)
  from this [of "db\<lparr>md_Classifications := cs\<rparr>" for cs] show "same_mail db (learn_and_report env m ident v db)"
    unfolding learn_and_report_def by (rule same_mail_trans [rotated]) simp
qed

lemma rules_mail [simp]:
  "same_mail db (snd (domain_decision env org d u es name act remark db))"
  "same_mail db (snd (upsertOrgSenderBlock env i sender remark db))"
  "same_mail db (snd (user_decision env m w sender act remark db))"
  by (simp_all add: domain_decision_def upsertOrgSenderBlock_def user_decision_def same_mail_def Let_def
      split: prod.split option.split)

lemma block_rule_mail [simp]: "same_mail db (snd (block_rule env m ident match override sender remark db))"
proof -
  have 1: "same_mail db (snd (block_domain env m ident match override sender remark db))"
    by (simp add: block_domain_def Let_def split: prod.split sum.split)
  have "ends_in (same_mail db) (block_rule env m ident match override sender remark db)"
    unfolding block_rule_def using 1 rules_mail
    by (intro handler_walk) (auto simp: ends_in_def split: if_splits dest!: arg_cong [where f = snd])
  then show ?thesis by (rule ends_inI)
qed

section \<open>Messages that a request leaves as they are\<close>

text \<open>Reached from \<open>db0\<close>: the messages that may not be touched are still there, and no message is new.\<close>

definition kept :: "(mailbox_row \<Rightarrow> bool) \<Rightarrow> mail_db \<Rightarrow> mail_db \<Rightarrow> bool" where
  "kept may db0 db =
     (md_Logs db = md_Logs db0 \<and> (\<forall>m \<in> set (md_Mailbox db0). \<not> may m \<longrightarrow> m \<in> set (md_Mailbox db)) \<and>
      (\<forall>m \<in> set (md_Mailbox db). \<exists>o' \<in> set (md_Mailbox db0). mb_ID o' = mb_ID m \<and> mb_MailLogID o' = mb_MailLogID m))"

lemma kept_refl [simp]: "kept may db db"
  by (auto simp: kept_def)

lemma kept_same: "kept may db0 db \<Longrightarrow> same_mail db db' \<Longrightarrow> kept may db0 db'"
  by (simp add: kept_def same_mail_def)

text \<open>A caller may touch the message \<open>m\<close>, and with it the unreviewed copies of its campaign.\<close>

definition commands :: "(mailbox_row \<Rightarrow> bool) \<Rightarrow> mail_db \<Rightarrow> mailbox_row \<Rightarrow> bool" where
  "commands may db m =
     (distinct (map mb_ID (md_Mailbox db)) \<and> m \<in> set (md_Mailbox db) \<and> may m \<and>
      (\<forall>c. mb_Verdict c = ''unreviewed'' \<and> same_campaign_log (md_Logs db) (mb_MailLogID m) (mb_MailLogID c) \<longrightarrow> may c))"

lemma judge_simps [simp]: "mb_ID (judge now u v m) = mb_ID m" "mb_MailLogID (judge now u v m) = mb_MailLogID m"
  by (simp_all add: judge_def)

lemma kept_update:
  assumes "kept may db0 db" "\<And>x. x \<in> set (md_Mailbox db0) \<Longrightarrow> p x \<Longrightarrow> may x"
  shows "kept may db0 (db\<lparr>md_Mailbox := update_where p (judge now u v) (md_Mailbox db)\<rparr>)"
  using assms by (auto simp: kept_def update_where_other) (auto simp: update_where_def)

lemma commands_id: "commands may db m \<Longrightarrow> x \<in> set (md_Mailbox db) \<Longrightarrow> mb_ID x = mb_ID m \<Longrightarrow> x = m"
  by (auto simp: commands_def distinct_map dest: inj_onD)

lemma setVerdict_kept:
  assumes k: "kept may db0 db" and c: "commands may db0 m"
  shows "kept may db0 (snd (setVerdict env (mb_ID m) ident v db))"
proof -
  let ?id = "\<lambda>x. mb_ID x = mb_ID m"
  let ?db1 = "db\<lparr>md_Mailbox := update_where ?id (judge (mv_Now env) (id_UserID ident) v) (md_Mailbox db)\<rparr>"
  have one: "kept may db0 ?db1"
    by (rule kept_update [OF k]) (use c commands_id [OF c] in \<open>auto simp: commands_def\<close>)
  have log: "mb_MailLogID m0 = mb_MailLogID m" if "message_by_id (md_Mailbox db) (mb_ID m) = Some m0" for m0
  proof -
    from that have "m0 \<in> set (md_Mailbox db)" "mb_ID m0 = mb_ID m" by (auto simp: message_by_id_def find_Some_iff)
    with k obtain o' where "o' \<in> set (md_Mailbox db0)" "mb_ID o' = mb_ID m" "mb_MailLogID o' = mb_MailLogID m0"
      unfolding kept_def by metis
    with commands_id [OF c this(1,2)] show ?thesis by simp
  qed
  have two: "kept may db0 (correlate_copies env (judge n u v m0) w v ?db1)"
    if "message_by_id (md_Mailbox db) (mb_ID m) = Some m0" for m0 n u w
    unfolding correlate_copies_def
    by (rule kept_update [OF one]) (use k c log [OF that] in \<open>auto simp: kept_def commands_def correlated_def\<close>)
  have rest: "kept may db0 (snd (decide_challenge env m' ident v (learn_and_report env m' ident v db2)))"
    if "kept may db0 db2" for m' db2
    by (rule kept_same [OF kept_same [OF that learn_and_report_mail(2)] decide_challenge_mail])
  show ?thesis
  proof (cases "if mv_Err env ''update mailbox_messages'' then None else message_by_id (md_Mailbox db) (mb_ID m)")
    case None
    with k show ?thesis by (simp add: setVerdict_def)
  next
    case (Some m0)
    then have m0: "message_by_id (md_Mailbox db) (mb_ID m) = Some m0" by (simp split: if_splits)
    define m' where "m' = judge (mv_Now env) (id_UserID ident) v m0"
    define threat where "threat = (v \<in> {''phishing'', ''malware''})"
    define db1 where "db1 = ?db1"
    define db2 where "db2 = (if threat then correlate_copies env m' (id_UserID ident) v db1 else db1)"
    obtain e db3 where run: "decide_challenge env m' ident v (learn_and_report env m' ident v db2) = (e, db3)" by (rule prod.exhaust)
    have "kept may db0 db2" unfolding db2_def m'_def db1_def using one two [OF m0] by simp
    from rest [OF this] run have three: "kept may db0 db3" by (metis snd_conv)
    have "snd (setVerdict env (mb_ID m) ident v db) =
      (if threat \<and> mv_Err env ''update campaign copies'' then db1
       else case e of Some _ \<Rightarrow> db3
         | None \<Rightarrow> if v = ''not_spam'' then snd (ReleaseHeldForRecipient env (mb_MailLogID m') (mb_ToAddr m') (id_UserID ident) db3) else db3)"
      unfolding setVerdict_def Let_def Some option.case m'_def [symmetric] threat_def [symmetric] db1_def [symmetric] db2_def [symmetric] run
      by (simp split: option.split)
    then show ?thesis using one [folded db1_def] three kept_same [OF three ReleaseHeldForRecipient_mail] by (simp split: option.split)
  qed
qed

lemma sender_actions_kept:
  assumes "kept may db0 db" "commands may db0 m"
  shows "kept may db0 (snd (blockMessageSender env m ident match override db))"
    and "kept may db0 (snd (allowMessageSender env m ident match db))"
proof -
  have verdict: "kept may db0 db2" if "setVerdict env (mb_ID m) ident v db1 = (r, db2)" "kept may db0 db1" for r db2 v db1
    using setVerdict_kept [OF that(2) assms(2), of env ident v] that(1) by simp
  have block: "kept may db0 db1" if "(r, db1) = block_rule env m ident match override s remark db" for r db1 s remark
    using kept_same [OF assms(1) block_rule_mail] that by (metis snd_conv)
  have decided: "kept may db0 db1" if "(r, db1) = domain_decision env org d u es name act remark db" for r db1 org d u es name act remark
    using kept_same [OF assms(1) rules_mail(1)] that by (metis snd_conv)
  have "ends_in (kept may db0) (blockMessageSender env m ident match override db)"
    unfolding blockMessageSender_def using assms(1) by (intro handler_walk) ((hypsubst+)?, (assumption | erule verdict | erule verdict [OF sym] | erule block | erule block [OF sym]))+
  then show "kept may db0 (snd (blockMessageSender env m ident match override db))" by (rule ends_inI)
  have "ends_in (kept may db0) (allowMessageSender env m ident match db)"
    unfolding allowMessageSender_def using assms(1) by (intro handler_walk) ((hypsubst+)?, (assumption | erule verdict | erule verdict [OF sym] | erule decided | erule decided [OF sym]))+
  then show "kept may db0 (snd (allowMessageSender env m ident match db))" by (rule ends_inI)
qed

lemma bulk_step_kept:
  "kept may db0 db \<Longrightarrow> commands may db0 m \<Longrightarrow> kept may db0 (snd (mailbox_bulk_step env ident action v m db))"
  by (simp add: mailbox_bulk_step_def setVerdict_kept sender_actions_kept)

lemma each_message_walk:
  assumes "\<And>m db. m \<in> set ms \<Longrightarrow> P db \<Longrightarrow> P (snd (act m db))" "P db"
  shows "P (snd (each_message act ms counts db))"
  using assms
proof (induction act ms counts db rule: each_message.induct)
  case (2 act m ms updated failed db)
  obtain ok db1 where act: "act m db = (ok, db1)" by (cases "act m db")
  with 2(2) [of m db] 2(3) have "P db1" by simp
  with 2(1) [OF act [symmetric] refl] 2(2) act show ?case by simp
qed simp

lemma delete_messages_kept:
  assumes "\<And>m. m \<in> set (md_Mailbox db) \<Longrightarrow> mb_ID m \<in> ids \<Longrightarrow> may m"
  shows "kept may db (delete_messages ids db)"
  using assms by (auto simp: kept_def delete_messages_def)

section \<open>Requests\<close>

datatype mailbox_request =
    GiveVerdict "uuid option" "string result"
  | BulkMessages "bulkReq result"
  | BlockSender "uuid option" "(string \<times> string) result"
  | AllowSender "uuid option" "(string \<times> string) result"
  | DeleteMessage "uuid option"
  | UnsubscribeMessage "uuid option" "unsubscribeReq result"

fun mailbox_step ::
  "unsubscribe_env \<Rightarrow> mail_env \<Rightarrow> (scope \<times> identity) result \<Rightarrow> mailbox_request \<Rightarrow> mail_db \<Rightarrow> mail_db" where
  "mailbox_step ux env sc (GiveVerdict i body) db = snd (verdict_message env i sc body db)"
| "mailbox_step ux env sc (BulkMessages body) db = snd (bulk_messages env sc body db)"
| "mailbox_step ux env sc (BlockSender i body) db = snd (block_message_sender env i sc body db)"
| "mailbox_step ux env sc (AllowSender i body) db = snd (allow_message_sender env i sc body db)"
| "mailbox_step ux env sc (DeleteMessage i) db = snd (delete_message env i sc db)"
| "mailbox_step ux env sc (UnsubscribeMessage i body) db = fst (snd (unsubscribe ux env i sc body db))"

text \<open>A message of the caller that he sees, and what he may touch.\<close>

definition own_message :: "mail_env \<Rightarrow> mail_db \<Rightarrow> scope \<Rightarrow> identity \<Rightarrow> mailbox_row \<Rightarrow> bool" where
  "own_message env db scope ident m =
     (Allows scope (mb_OrganizationID m) \<and> equal_fold (trim_space (mb_ToAddr m)) (trim_space (id_Email ident)) \<and>
      visibleMailboxClause env db m)"

definition may_touch :: "mail_env \<Rightarrow> (scope \<times> identity) result \<Rightarrow> mail_db \<Rightarrow> mailbox_row \<Rightarrow> bool" where
  "may_touch env sc db c =
     (case sc of
        Inl _ \<Rightarrow> False
      | Inr (scope, ident) \<Rightarrow>
          own_message env db scope ident c \<or>
          (mb_Verdict c = ''unreviewed'' \<and>
           list_ex (\<lambda>m. own_message env db scope ident m \<and> same_campaign_log (md_Logs db) (mb_MailLogID m) (mb_MailLogID c))
             (md_Mailbox db)))"

lemma own_commands:
  "distinct (map mb_ID (md_Mailbox db)) \<Longrightarrow> m \<in> set (md_Mailbox db) \<Longrightarrow> own_message env db scope ident m \<Longrightarrow>
     commands (may_touch env (Inr (scope, ident)) db) db m"
  by (auto simp: commands_def may_touch_def list_ex_iff)

lemma messageForUser_own:
  "messageForUser env param sc db = Inr (m, ident) \<Longrightarrow>
     \<exists>scope. sc = Inr (scope, ident) \<and> m \<in> set (md_Mailbox db) \<and> param = Some (mb_ID m) \<and> own_message env db scope ident m"
  by (auto simp: messageForUser_def own_message_def find_Some_iff split: option.splits sum.splits if_splits)

lemma messageForUser_commands:
  "Inr (m, ident) = messageForUser env param sc db \<Longrightarrow> distinct (map mb_ID (md_Mailbox db)) \<Longrightarrow>
     commands (may_touch env sc db) db m"
  using messageForUser_own [of env param sc db m ident] own_commands by (metis (no_types))

lemma messagesForUser_commands:
  "messagesForUser env scope ident ids db = Inr items \<Longrightarrow> m \<in> set items \<Longrightarrow> distinct (map mb_ID (md_Mailbox db)) \<Longrightarrow>
     mb_ID m \<in> set ids \<and> commands (may_touch env (Inr (scope, ident)) db) db m"
  by (intro conjI own_commands) (auto simp: messagesForUser_def own_message_def equal_fold_def split: if_splits)

text \<open>A selection without repetitions names exactly the messages that were found.\<close>

lemma selection_own:
  assumes "messagesForUser env scope ident ids db = Inr items" "length items = length ids" "distinct (map mb_ID (md_Mailbox db))"
    and "x \<in> set (md_Mailbox db)" "mb_ID x \<in> set ids"
  shows "may_touch env (Inr (scope, ident)) db x"
proof -
  have items: "set items \<subseteq> set (md_Mailbox db)" "mb_ID ` set items \<subseteq> set ids" "distinct (map mb_ID items)"
    using assms(1,3) by (auto simp: messagesForUser_def distinct_map_filter split: if_splits)
  have "card (mb_ID ` set items) = length ids" using distinct_card [OF items(3)] assms(2) by simp
  with items(2) have "mb_ID ` set items = set ids"
    by (metis List.finite_set card_length card_seteq)
  with assms(5) have "mb_ID x \<in> mb_ID ` set items" by simp
  then obtain m where m: "m \<in> set items" "mb_ID m = mb_ID x" by (metis imageE)
  then have "x = m" using items(1) assms(3,4) by (auto simp: distinct_map dest: inj_onD)
  with messagesForUser_commands [OF assms(1) m(1) assms(3)] show ?thesis by (simp add: commands_def)
qed

lemma bulk_kept:
  assumes "distinct (map mb_ID (md_Mailbox db))"
  shows "kept (may_touch env sc db) db (snd (bulk_messages env sc body db))"
proof (cases sc)
  case (Inr s)
  obtain scope ident where s: "s = (scope, ident)" by (cases s)
  let ?may = "may_touch env (Inr (scope, ident)) db"
  have loop: "kept ?may db db1"
    if "((updated, failed), db1) = each_message (mailbox_bulk_step env ident action v) items (0, 0) db"
      "messagesForUser env scope ident ids db = Inr items" for updated failed db1 action v items ids
  proof -
    have "kept ?may db (snd (each_message (mailbox_bulk_step env ident action v) items (0, 0) db))"
      by (rule each_message_walk) (use messagesForUser_commands that(2) assms bulk_step_kept in \<open>metis\<close>, simp)
    with that(1) show ?thesis by (metis snd_conv)
  qed
  have gone: "kept ?may db (delete_messages (set ids) db)"
    if "messagesForUser env scope ident ids db = Inr items" "length items = length ids" for items ids
    by (rule delete_messages_kept) (rule selection_own [OF that assms])
  have "ends_in (kept ?may db) (bulk_messages env (Inr (scope, ident)) body db)"
    unfolding bulk_messages_def by (simp, intro handler_walk) (auto simp: ends_in_def intro: loop gone)
  with Inr s show ?thesis by (simp add: ends_inI)
qed (simp add: bulk_messages_def)

lemma verdict_kept:
  "setVerdict env (mb_ID m) ident v db = (r, db') \<Longrightarrow> commands may db m \<Longrightarrow> kept may db db'"
  "blockMessageSender env m ident match override db = (r', db') \<Longrightarrow> commands may db m \<Longrightarrow> kept may db db'"
  "allowMessageSender env m ident match db = (r', db') \<Longrightarrow> commands may db m \<Longrightarrow> kept may db db'"
  using setVerdict_kept [OF kept_refl, of may db m env ident v] sender_actions_kept [OF kept_refl, of may db m env ident match]
  by (metis snd_conv)+

lemma mailbox_step_kept:
  assumes keys: "distinct (map mb_ID (md_Mailbox db))"
  shows "kept (may_touch env sc db) db (mailbox_step ux env sc r db)"
proof (cases r)
  case (GiveVerdict i body)
  have "ends_in (kept (may_touch env sc db) db) (verdict_message env i sc body db)"
    unfolding verdict_message_def
    by (intro handler_walk)
      (auto dest!: messageForUser_commands [OF sym keys] dest: verdict_kept)
  then show ?thesis by (simp add: GiveVerdict ends_inI)
next
  case (BulkMessages body)
  then show ?thesis by (simp add: bulk_kept [OF keys])
next
  case (BlockSender i body)
  have "ends_in (kept (may_touch env sc db) db) (block_message_sender env i sc body db)"
    unfolding block_message_sender_def
    by (intro handler_walk)
      (auto dest!: messageForUser_commands [OF sym keys] dest: verdict_kept)
  then show ?thesis by (simp add: BlockSender ends_inI)
next
  case (AllowSender i body)
  have "ends_in (kept (may_touch env sc db) db) (allow_message_sender env i sc body db)"
    unfolding allow_message_sender_def
    by (intro handler_walk)
      (auto dest!: messageForUser_commands [OF sym keys] dest: verdict_kept)
  then show ?thesis by (simp add: AllowSender ends_inI)
next
  case (DeleteMessage i)
  have "ends_in (kept (may_touch env sc db) db) (delete_message env i sc db)"
    unfolding delete_message_def
    by (intro handler_walk)
      (auto dest!: messageForUser_commands [OF sym keys] simp: commands_def distinct_map dest: inj_onD intro!: delete_messages_kept)
  then show ?thesis by (simp add: DeleteMessage ends_inI)
next
  case (UnsubscribeMessage i body)
  have sent: "same_mail db db1" if "sendMailtoUnsubscribe ux env m opt db = (r, db1)" for m opt r db1
    using that by (auto simp: sendMailtoUnsubscribe_def Let_def split: sum.splits prod.splits if_splits option.splits
        dest!: arg_cong [where f = snd] intro: Send_mail)
  have "same_mail db (fst (snd (unsubscribe ux env i sc body db)))"
    by (auto simp: unsubscribe_def split: sum.split option.split prod.split intro: sent)
  with UnsubscribeMessage show ?thesis by (simp add: kept_same [OF kept_refl])
qed

text \<open>C15 (mailboxes are isolated): whatever a mailbox request asks for, a message is still there, unchanged, unless it
  is the caller's own visible message, or a copy that nobody has reviewed of a campaign that such a message belongs to.\<close>

theorem mailbox_isolated:
  assumes "distinct (map mb_ID (md_Mailbox db))"
  shows "list_all (\<lambda>m. may_touch env sc db m \<or> m \<in> set (md_Mailbox (mailbox_step ux env sc r db))) (md_Mailbox db)"
  using mailbox_step_kept [OF assms, of env sc ux r] by (auto simp: kept_def list_all_iff)

definition sample_message :: "uuid \<Rightarrow> string \<Rightarrow> mailbox_row" where
  "sample_message i address = \<lparr>mb_ID = i, mb_OrganizationID = 1, mb_DomainID = Some 5, mb_MailLogID = 20 + i, mb_FromAddr = Some ''a@m.io'',
     mb_ToAddr = address, mb_Subject = None, mb_BodyText = [], mb_Verdict = ''unreviewed'', mb_VerdictBy = None, mb_VerdictAt = None,
     mb_ReceivedAt = 1, mb_ExpiresAt = None, mb_ListUnsubscribe = None, mb_ListUnsubscribePost = None\<rparr>"

definition sample_box :: mail_db where
  "sample_box = sample_db\<lparr>md_Mailbox := [sample_message 11 ''a@b.c'', sample_message 12 ''s@x.io'']\<rparr>"

lemma sample_foreign: "\<not> may_touch sample_mail_env (Inr (sample_caller 1 ''org_user'')) sample_box (sample_message 12 ''s@x.io'')"
  by (simp add: may_touch_def own_message_def sample_box_def sample_db_def sample_message_def sample_caller_def same_campaign_log_def
      equal_fold_def trim_defs)

theorem mailbox_isolated_witness:
  "\<forall>ux. sample_message 12 ''s@x.io'' \<in>
     set (md_Mailbox (mailbox_step ux sample_mail_env (Inr (sample_caller 1 ''org_user'')) (DeleteMessage (Some 12)) sample_box))"
proof -
  have d: "distinct (map mb_ID (md_Mailbox sample_box))" by (simp add: sample_box_def sample_message_def)
  show ?thesis
    using mailbox_isolated [OF d, of sample_mail_env "Inr (sample_caller 1 ''org_user'')" _ "DeleteMessage (Some 12)"] sample_foreign
    by (simp add: sample_box_def)
qed

section \<open>What is shown\<close>

lemma mailbox_matches_own: "mailbox_matches env db scope ident q m \<Longrightarrow> own_message env db scope ident m"
proof -
  assume "mailbox_matches env db scope ident q m"
  then have m: "IsSuperAdmin scope \<or> mb_OrganizationID m \<in> set (VisibleOrgIDs scope)"
    "to_lower (mb_ToAddr m) = to_lower (trim_space (id_Email ident))" "visibleMailboxClause env db m"
    by (auto simp: mailbox_matches_def Let_def)
  have "to_lower (trim_space (mb_ToAddr m)) = to_lower (trim_space (id_Email ident))"
    using m(2) by (metis trim_space_idem trim_space_to_lower)
  with m show ?thesis by (auto simp: own_message_def equal_fold_def Allows_def visible_loop_iff)
qed

text \<open>A copy that may be shown: to the caller's own address in an organization he may see, with no held quarantine entry of
  the same message for the same address, and before its expiry.\<close>

definition showable :: "nat \<Rightarrow> quarantine_row list \<Rightarrow> scope \<Rightarrow> identity \<Rightarrow> mailbox_row \<Rightarrow> bool" where
  "showable now quarantine scope ident m =
     (Allows scope (mb_OrganizationID m) \<and>
      to_lower (trim_space (mb_ToAddr m)) = to_lower (trim_space (id_Email ident)) \<and>
      (\<forall>q \<in> set quarantine. qe_State q = ''held'' \<and> qe_MailLogID q = Some (mb_MailLogID m) \<longrightarrow>
                            to_lower (qe_ToAddr q) \<noteq> to_lower (mb_ToAddr m)) \<and>
      (\<forall>t. mb_ExpiresAt m = Some t \<longrightarrow> now < t))"

lemma own_showable: "own_message env db scope ident m \<Longrightarrow> showable (mv_Now env) (md_Quarantine db) scope ident m"
  by (auto simp: own_message_def showable_def equal_fold_def visibleMailboxClause_def notHeldQuarantineClause_def notExpiredClause_def
      list_ex_iff split: option.splits)

text \<open>C16 (held mail is not shown): the list and the reading of messages show a caller only messages to his own address in
  an organization he may see, for which there is no held quarantine entry of the same message and address, and whose
  expiry has not come.\<close>

theorem held_mail_hidden:
  "(case list_mailbox env (Inr (scope, ident)) pg q db of
      WriteJSON _ page' \<Rightarrow>
        list_all (\<lambda>x. mx_Row x \<in> set (md_Mailbox db) \<and> showable (mv_Now env) (md_Quarantine db) scope ident (mx_Row x)) (Items page')
    | _ \<Rightarrow> True) \<and>
   (case read_message env param (Inr (scope, ident)) db of
      WriteJSON _ x \<Rightarrow> mx_Row x \<in> set (md_Mailbox db) \<and> showable (mv_Now env) (md_Quarantine db) scope ident (mx_Row x)
    | _ \<Rightarrow> True)"
proof
  let ?row = "\<lambda>x. mx_Row x \<in> set (md_Mailbox db) \<and> showable (mv_Now env) (md_Quarantine db) scope ident (mx_Row x)"
  have "?row x" if "x \<in> set (page_rows pg (map (scan_message env db) (sort_key (\<lambda>m. - int (mb_ReceivedAt m))
      (filter (mailbox_matches env db scope ident q) (md_Mailbox db)))))" for x
    using subsetD [OF page_rows_subset that] by (auto intro: own_showable [OF mailbox_matches_own])
  then show "case list_mailbox env (Inr (scope, ident)) pg q db of WriteJSON _ page' \<Rightarrow> list_all ?row (Items page') | _ \<Rightarrow> True"
    by (simp add: list_mailbox_def envelope_def list_all_iff)
  show "case read_message env param (Inr (scope, ident)) db of WriteJSON _ x \<Rightarrow> ?row x | _ \<Rightarrow> True"
    by (auto simp: read_message_def split: sum.split dest!: messageForUser_own intro: own_showable)
qed

end
