(* ===== verification/MailLogs.thy ===== *)
theory MailLogs
  imports Mailbox QuarantineSafety DeepAnalysis
begin

text \<open>
  \<open>internal/maillogs/maillogs.go\<close>: the list of logged messages with its filters, the statistics, and the
  actions on the copies of a logged message that are held. Parameters are the parser of RFC 3339 times and that of
  durations (in the unit of the times here). A stored \<open>symbols\<close> value is an object, as ingest writes it.
\<close>

record log_env =
  lx_Mail :: mail_env
  lx_ParseTime :: "string \<Rightarrow> int option"
  lx_ParseDuration :: "string \<Rightarrow> rat option"

section \<open>What is shown of an entry\<close>

record log_entry =
  lg_Row :: mail_log_row
  lg_EmailType :: string
  lg_Scam :: Analysis

text \<open>The types in the order of the cases; the argument tells whether the score reaches a bound.\<close>

definition at_least :: "rat option \<Rightarrow> rat \<Rightarrow> bool" where
  "at_least score n = (case score of None \<Rightarrow> False | Some s \<Rightarrow> s \<ge> n)"

definition log_email_type :: "mail_log_row \<Rightarrow> string" where
  "log_email_type m =
     (let reason = to_lower (text_or_empty (ml_Reason m)); d = ml_Disposition m
      in if contains reason ''phishing signal'' then ''Possible phishing''
         else if contains reason ''phishing'' then ''Likely phishing''
         else if contains reason ''malware'' \<or> contains reason ''virus'' then ''Likely malware''
         else if d = ''quarantined'' \<or> at_least (ml_RspamdScore m) 7 then ''Likely spam''
         else if d = ''tagged'' \<or> at_least (ml_RspamdScore m) 5 then ''Possible spam''
         else if d = ''rejected'' then ''Rejected''
         else if d = ''failed'' then ''Failed/deferred''
         else ''Clean or wanted mail'')"

definition scan_log :: "mail_log_row \<Rightarrow> log_entry" where
  "scan_log m =
     \<lparr>lg_Row = m, lg_EmailType = log_email_type m, lg_Scam = AnalyzeCommonScam (text_or_empty (ml_Subject m)) []\<rparr>"

lemma scan_log_Row [simp]: "lg_Row (scan_log m) = m"
  by (simp add: scan_log_def)

section \<open>Filters\<close>

text \<open>\<open>CASE\<close> expressions of the queries: symbols are compared by \<open>LIKE\<close>, in which an underscore matches any byte.\<close>

definition log_copies :: "mail_db \<Rightarrow> mail_log_row \<Rightarrow> mailbox_row list" where
  "log_copies db m = filter (\<lambda>c. mb_MailLogID c = ml_ID m) (md_Mailbox db)"

definition scan_verdict_in :: "mail_db \<Rightarrow> mail_log_row \<Rightarrow> string list \<Rightarrow> bool" where
  "scan_verdict_in db m vs =
     list_ex (\<lambda>j. sj_MailLogID j = Some (ml_ID m) \<and> (case sj_Verdict j of None \<Rightarrow> False | Some v \<Rightarrow> v \<in> set vs)) (md_Jobs db)"

definition mailLogEmailTypeCase :: "mail_db \<Rightarrow> mail_log_row \<Rightarrow> string" where
  "mailLogEmailTypeCase db m =
     (let copies = log_copies db m; reason = to_lower (text_or_empty (ml_Reason m)); d = ml_Disposition m;
          score = (case ml_RspamdScore m of None \<Rightarrow> 0 | Some s \<Rightarrow> s)
      in if list_ex (\<lambda>c. mb_Verdict c = ''not_spam'') copies then ''User confirmed clean''
         else if list_ex (\<lambda>c. mb_Verdict c \<in> {''phishing'', ''malware''}) copies then ''User reported threat''
         else if list_ex (\<lambda>c. mb_Verdict c = ''spam'') copies then ''User reported spam''
         else if scan_verdict_in db m [''malicious'', ''phishing'', ''malware''] then ''Scanner confirmed threat''
         else if sql_like ''%phishing signal%'' reason then ''Possible phishing''
         else if sql_like ''%phishing%'' reason then ''Likely phishing''
         else if sql_like ''%malware%'' reason \<or> sql_like ''%virus%'' reason then ''Likely malware''
         else if d = ''quarantined'' \<or> score \<ge> 7 then ''Likely spam''
         else if d = ''tagged'' \<or> score \<ge> 5 then ''Possible spam''
         else if d = ''rejected'' then ''Rejected''
         else if d = ''failed'' then ''Failed/deferred''
         else ''Clean or wanted mail'')"

definition symbol_score :: "json \<Rightarrow> rat" where
  "symbol_score v =
     (case v of JObj kvs \<Rightarrow> (case map_of kvs ''score'' of Some (JNum r) \<Rightarrow> r | _ \<Rightarrow> 0) | _ \<Rightarrow> 0)"

definition log_symbols :: "mail_log_row \<Rightarrow> json_map" where
  "log_symbols m = (case ml_Symbols m of Some (JObj kvs) \<Rightarrow> kvs | _ \<Rightarrow> [])"

definition phishing_symbol :: "string \<times> json \<Rightarrow> bool" where
  "phishing_symbol s =
     (let k = to_upper (fst s)
      in k \<in> {''DMARC_POLICY_REJECT'', ''DMARC_POLICY_QUARANTINE''} \<or> (sql_like ''%PHISH%'' k \<and> symbol_score (snd s) > 0))"

definition malware_symbol :: "string \<times> json \<Rightarrow> bool" where
  "malware_symbol s =
     (let k = to_upper (fst s)
      in (k \<in> {''VIRUS'', ''VIRUS_FOUND'', ''MALWARE'', ''MALWARE_FOUND''} \<or> sql_like ''CLAM_%'' k) \<and> symbol_score (snd s) > 0)"

definition blocklist_symbol :: "string \<times> json \<Rightarrow> bool" where
  "blocklist_symbol s =
     (let k = to_upper (fst s)
      in list_ex (\<lambda>p. sql_like p k) [''%RBL%'', ''%ZEN%'', ''%SPAMHAUS%'', ''%SURBL%'', ''%URIBL%''] \<and>
         \<not> sql_like ''%_BLOCKED'' k \<and> \<not> sql_like ''%DNSFAIL%'' k \<and> symbol_score (snd s) > 0)"

definition mailLogThreatCategoryCase :: "mail_log_row \<Rightarrow> string" where
  "mailLogThreatCategoryCase m =
     (let reason = to_lower (text_or_empty (ml_Reason m)); d = ml_Disposition m; symbols = log_symbols m
      in if reason = ''sender matched blacklist'' then ''Sender blocklist''
         else if reason = ''reputation blocklist hit'' then ''Reputation blocklist''
         else if list_ex phishing_symbol symbols then ''Phishing / impersonation''
         else if list_ex malware_symbol symbols then ''Malware''
         else if list_ex blocklist_symbol symbols then ''Reputation blocklist''
         else if d = ''quarantined'' \<or> d = ''tagged'' then ''Spam content''
         else if d = ''rejected'' \<or> d = ''failed'' then ''Rejected / failed''
         else ''Clean or low risk'')"

definition parseFilterTime :: "log_env \<Rightarrow> string \<Rightarrow> int option" where
  "parseFilterTime env value = (let v = trim_space value in if v = [] then None else lx_ParseTime env v)"

definition parseQueryBool :: "string \<Rightarrow> bool" where
  "parseQueryBool value = (to_lower (trim_space value) \<in> {''1'', ''true'', ''yes'', ''on''})"

definition recipientClause :: "mail_db \<Rightarrow> string \<Rightarrow> mail_log_row \<Rightarrow> bool" where
  "recipientClause db address m =
     (list_ex (\<lambda>t. to_lower t = address) (ml_ToAddrs m) \<or> list_ex (\<lambda>c. to_lower (mb_ToAddr c) = address) (log_copies db m))"

text \<open>A band that is not known is no filter; a row without a score is in no band.\<close>

definition scoreBandClause :: "string \<Rightarrow> mail_log_row \<Rightarrow> bool" where
  "scoreBandClause band m =
     (let band_of = (\<lambda>p. case ml_RspamdScore m of None \<Rightarrow> False | Some s \<Rightarrow> p s)
      in if band = ''Reject level >= 15'' then band_of (\<lambda>s. s \<ge> 15)
         else if band = ''Quarantine level 7-14.99'' then band_of (\<lambda>s. s \<ge> 7 \<and> s < 15)
         else if band = ''Tagged spam 5-6.99'' then band_of (\<lambda>s. s \<ge> 5 \<and> s < 7)
         else if band = ''Low or neutral 0-4.99'' then band_of (\<lambda>s. s \<ge> 0 \<and> s < 5)
         else if band = ''Trusted / negative score'' then band_of (\<lambda>s. s < 0)
         else True)"

definition dispositions :: "string list" where
  "dispositions = [''delivered'', ''tagged'', ''quarantined'', ''rejected'', ''deferred'', ''failed'']"

definition outcome_clause :: "string \<Rightarrow> mail_log_row \<Rightarrow> bool" where
  "outcome_clause outcome m =
     (let d = ml_Disposition m; blocked = (to_lower (text_or_empty (ml_Reason m)) = ''sender matched blacklist'')
      in if outcome = ''blocked'' then blocked
         else if outcome = ''blocked_rejected_failed'' then blocked \<or> d = ''rejected'' \<or> d = ''failed''
         else if outcome = ''quarantined'' then d = ''quarantined'' \<and> \<not> blocked
         else if outcome = ''held_review'' then (d = ''tagged'' \<or> d = ''quarantined'') \<and> \<not> blocked
         else if outcome \<in> {''delivered'', ''tagged'', ''rejected'', ''deferred'', ''failed''} then d = outcome
         else True)"

definition search_clause :: "mail_env \<Rightarrow> string \<Rightarrow> mail_log_row \<Rightarrow> bool" where
  "search_clause env search m =
     (let pat = ''%'' @ to_lower search @ ''%''
      in list_ex (\<lambda>t. sql_like pat (to_lower t))
           ([text_or_empty (ml_FromAddr m)] @ ml_ToAddrs m @
            [text_or_empty (ml_Subject m), text_or_empty (ml_QueueID m), text_or_empty (ml_MessageID m), text_or_empty (ml_Reason m),
             (case ml_Symbols m of None \<Rightarrow> [] | Some v \<Rightarrow> mv_JSONText env v), text_or_empty (ml_TerminalAction m),
             text_or_empty (ml_TerminalReason m), text_or_empty (ml_TerminalRelay m)]))"

record log_query =
  lq_Disposition :: string
  lq_Outcome :: string
  lq_Direction :: string
  lq_DeliveryMismatch :: string
  lq_Since :: string
  lq_Until :: string
  lq_From :: string
  lq_SenderDomain :: string
  lq_To :: string
  lq_Reason :: string
  lq_Search :: string
  lq_Domain :: string
  lq_Symbol :: string
  lq_ScoreBand :: string
  lq_EmailType :: string
  lq_ThreatCategory :: string

definition visible_log :: "scope \<Rightarrow> identity \<Rightarrow> mail_db \<Rightarrow> mail_log_row \<Rightarrow> bool" where
  "visible_log scope ident db m =
     ((IsSuperAdmin scope \<or> ml_OrganizationID m \<in> set (VisibleOrgIDs scope)) \<and>
      (id_Role ident = ''org_user'' \<longrightarrow> recipientClause db (to_lower (trim_space (id_Email ident))) m))"

text \<open>A filter applies when its text, trimmed for most of them, is not empty.\<close>

definition log_clauses :: "log_env \<Rightarrow> log_query \<Rightarrow> mail_db \<Rightarrow> mail_log_row \<Rightarrow> bool list" where
  "log_clauses env q db m =
     (let reason = to_lower (text_or_empty (ml_Reason m)); filt = (\<lambda>v p. v = [] \<or> p v)
      in [filt (lq_Disposition q) (\<lambda>v. ml_Disposition m = v),
          filt (to_lower (trim_space (lq_Outcome q))) (\<lambda>v. outcome_clause v m),
          filt (lq_Direction q) (\<lambda>v. ml_Direction m = v),
          parseQueryBool (lq_DeliveryMismatch q) \<longrightarrow> ml_DeliveryMismatch m,
          (case parseFilterTime env (lq_Since q) of None \<Rightarrow> True | Some t \<Rightarrow> int (ml_ReceivedAt m) \<ge> t),
          (case parseFilterTime env (lq_Until q) of None \<Rightarrow> True | Some t \<Rightarrow> int (ml_ReceivedAt m) < t),
          filt (trim_space (lq_From q)) (\<lambda>v. case ml_FromAddr m of None \<Rightarrow> False | Some a \<Rightarrow> to_lower a = to_lower v),
          filt (trim_space (lq_SenderDomain q)) (\<lambda>v. log_domain m = Some (to_lower (trim v ''. ''))),
          filt (trim_space (lq_To q)) (\<lambda>v. recipientClause db (to_lower v) m),
          filt (trim_space (lq_Reason q)) (\<lambda>v. reason = to_lower v),
          filt (trim_space (lq_Search q)) (\<lambda>v. search_clause (lx_Mail env) v m),
          filt (trim_space (lq_Domain q)) (\<lambda>v. list_ex (\<lambda>d. ml_DomainID m = Some (dm_ID d) \<and> to_lower (dm_Name d) = to_lower v)
             (lv_Domains (mv_View (lx_Mail env)))),
          filt (trim_space (lq_Symbol q)) (\<lambda>v. v \<in> fst ` set (log_symbols m)),
          filt (trim_space (lq_ScoreBand q)) (\<lambda>v. scoreBandClause v m),
          filt (trim_space (lq_EmailType q)) (\<lambda>v. mailLogEmailTypeCase db m = v),
          filt (trim_space (lq_ThreatCategory q)) (\<lambda>v. mailLogThreatCategoryCase m = v)])"

text \<open>A disposition that is no label of the enumeration makes the first query fail.\<close>

definition list_logs ::
  "log_env \<Rightarrow> (scope \<times> identity) result \<Rightarrow> page \<Rightarrow> log_query \<Rightarrow> mail_db \<Rightarrow> log_entry list_envelope response" where
  "list_logs env0 sc pg q db =
     (let env = lx_Mail env0
      in case sc of
           Inl e \<Rightarrow> WriteError 500 ''scope''
         | Inr (scope, ident) \<Rightarrow>
             if mv_Err env ''count mail_logs'' \<or> (lq_Disposition q \<noteq> [] \<and> lq_Disposition q \<notin> set dispositions) then
               WriteError 500 ''db''
             else if mv_Err env ''select mail_logs'' then WriteError 500 ''select mail_logs''
             else WriteJSON 200 (envelope pg (map scan_log (sort_key (\<lambda>m. - int (ml_ReceivedAt m))
               (filter (\<lambda>m. visible_log scope ident db m \<and> list_all id (log_clauses env0 q db m)) (md_Logs db))))))"

section \<open>Reading, and the guard of the actions\<close>

definition logHasRecipient :: "mail_log_row \<Rightarrow> string \<Rightarrow> bool" where
  "logHasRecipient m email0 =
     (let email = to_lower (trim_space email0) in list_ex (\<lambda>t. to_lower (trim_space t) = email) (ml_ToAddrs m))"

definition logForAction ::
  "mail_env \<Rightarrow> uuid option \<Rightarrow> (scope \<times> identity) result \<Rightarrow> mail_db \<Rightarrow> (nat \<times> string) + (mail_log_row \<times> identity)" where
  "logForAction env param sc db =
     (case param of
        None \<Rightarrow> Inl (400, ''invalid id'')
      | Some i \<Rightarrow>
          case sc of
            Inl e \<Rightarrow> Inl (500, ''scope'')
          | Inr (scope, ident) \<Rightarrow>
              case (if mv_Err env ''select mail_logs'' then None else log_by_id (md_Logs db) i) of
                None \<Rightarrow> Inl (404, ''not found'')
              | Some m \<Rightarrow>
                  if \<not> Allows scope (ml_OrganizationID m) then Inl (404, ''not found'')
                  else if id_Role ident = ''org_user'' \<and> \<not> logHasRecipient m (id_Email ident) then
                    (if mv_Err env ''select mailbox_messages'' then Inl (500, ''recipient check failed'')
                     else if list_ex (\<lambda>c. to_lower (mb_ToAddr c) = to_lower (trim_space (id_Email ident))) (log_copies db m)
                     then Inr (m, ident) else Inl (404, ''not found''))
                  else Inr (m, ident))"

text \<open>\<open>read\<close> has the same guard, written out.\<close>

definition read_log :: "mail_env \<Rightarrow> uuid option \<Rightarrow> (scope \<times> identity) result \<Rightarrow> mail_db \<Rightarrow> log_entry response" where
  "read_log env param sc db =
     (case param of
        None \<Rightarrow> WriteError 400 ''invalid id''
      | Some i \<Rightarrow>
          case sc of
            Inl e \<Rightarrow> WriteError 500 ''scope''
          | Inr (scope, ident) \<Rightarrow>
              case (if mv_Err env ''select mail_logs'' then None else log_by_id (md_Logs db) i) of
                None \<Rightarrow> WriteError 404 ''not found''
              | Some m \<Rightarrow>
                  if \<not> Allows scope (ml_OrganizationID m) then WriteError 404 ''not found''
                  else if id_Role ident = ''org_user'' then
                    (let me = to_lower (trim_space (id_Email ident))
                     in if list_ex (\<lambda>t. to_lower (trim_space t) = me) (ml_ToAddrs m) then WriteJSON 200 (scan_log m)
                        else if mv_Err env ''select mailbox_messages'' then WriteError 500 ''recipient check failed''
                        else if list_ex (\<lambda>c. to_lower (mb_ToAddr c) = me) (log_copies db m) then WriteJSON 200 (scan_log m)
                        else WriteError 404 ''not found'')
                  else WriteJSON 200 (scan_log m))"

section \<open>Statistics\<close>

definition thirty_days :: rat where "thirty_days = 30 * 24 * 3600"

definition stats_window :: "log_env \<Rightarrow> string \<Rightarrow> rat" where
  "stats_window env window =
     (case lx_ParseDuration env (if window = [] then ''24h'' else window) of
        None \<Rightarrow> 24 * 3600
      | Some d \<Rightarrow> if d \<le> 0 \<or> d > thirty_days then 24 * 3600 else d)"

record log_stats =
  ls_Window :: string
  ls_Since :: rat
  ls_Total :: nat
  ls_Disposition :: "(string \<times> nat) list"

text \<open>The answer's counts are a map; here they stand in the order of the enumeration.\<close>

definition stats_logs :: "log_env \<Rightarrow> (scope \<times> identity) result \<Rightarrow> string \<Rightarrow> mail_db \<Rightarrow> log_stats response" where
  "stats_logs env sc window db =
     (case sc of
        Inl e \<Rightarrow> WriteError 500 ''scope''
      | Inr (scope, ident) \<Rightarrow>
          if mv_Err (lx_Mail env) ''select stats'' then WriteError 500 ''db: ''
          else
            (let since = of_nat (mv_Now (lx_Mail env)) - stats_window env window;
                 rows = filter (\<lambda>m. of_nat (ml_ReceivedAt m) \<ge> since \<and> visible_log scope ident db m) (md_Logs db);
                 count = (\<lambda>d. length (filter (\<lambda>m. ml_Disposition m = d) rows));
                 by' = map (\<lambda>d. (d, count d)) (filter (\<lambda>d. count d > 0) dispositions)
             in WriteJSON 200 \<lparr>ls_Window = (if window = [] then ''24h'' else window), ls_Since = since,
                  ls_Total = sum_list (map snd by'), ls_Disposition = by'\<rparr>))"

section \<open>Actions on the held copies\<close>

text \<open>\<open>SELECT DISTINCT to_addr ... ORDER BY to_addr\<close>.\<close>

definition actionRecipients :: "mail_env \<Rightarrow> mail_log_row \<Rightarrow> identity \<Rightarrow> mail_db \<Rightarrow> string list result" where
  "actionRecipients env m ident db =
     (if id_Role ident = ''org_user'' then Inr [id_Email ident]
      else if mv_Err env ''select held recipients'' then Inl ''select held recipients''
      else Inr (sort_key (map byte) (remdups (map qe_ToAddr
        (filter (\<lambda>q. qe_MailLogID q = Some (ml_ID m) \<and> qe_OrganizationID q = ml_OrganizationID m \<and> qe_State q = ''held'')
          (md_Quarantine db))))))"

text \<open>One recipient after the other: how many had a copy that was handled, and how many failed.\<close>

fun each_recipient :: "(string \<Rightarrow> mail_db \<Rightarrow> bool result \<times> mail_db) \<Rightarrow> string list \<Rightarrow> nat \<times> nat \<Rightarrow> mail_db \<Rightarrow> (nat \<times> nat) \<times> mail_db" where
  "each_recipient act [] counts db = (counts, db)"
| "each_recipient act (a # rest) (handled, failed) db =
     (let (r, db1) = act a db
      in each_recipient act rest
           (case r of Inl _ \<Rightarrow> (handled, Suc failed) | Inr ok \<Rightarrow> (if ok then Suc handled else handled, failed)) db1)"

definition releaseHeldRecipients :: "mail_env \<Rightarrow> mail_log_row \<Rightarrow> identity \<Rightarrow> mail_db \<Rightarrow> (nat \<times> nat) \<times> mail_db" where
  "releaseHeldRecipients env m ident db =
     (case actionRecipients env m ident db of
        Inl _ \<Rightarrow> ((0, 1), db)
      | Inr recipients \<Rightarrow>
          each_recipient (\<lambda>a. ReleaseHeldForRecipient env (ml_ID m) a (id_UserID ident)) recipients (0, 0) db)"

definition deleteHeldRecipients :: "mail_env \<Rightarrow> mail_log_row \<Rightarrow> identity \<Rightarrow> mail_db \<Rightarrow> (nat \<times> nat) \<times> mail_db" where
  "deleteHeldRecipients env m ident db =
     (case actionRecipients env m ident db of
        Inl _ \<Rightarrow> ((0, 1), db)
      | Inr recipients \<Rightarrow> each_recipient (DeleteHeldForRecipient env (ml_ID m)) recipients (0, 0) db)"

record actionReq =
  ar_Match :: string
  ar_Verdict :: string

record actionResp =
  ap_Message :: string
  ap_Pattern :: string
  ap_Scope :: string
  ap_Released :: nat
  ap_Deleted :: nat
  ap_Failed :: nat
  ap_Sent :: bool
  ap_SentTo :: "string list"
  ap_Warning :: string
  ap_ReportIP :: string
  ap_CanSend :: bool

definition answer :: "string \<Rightarrow> actionResp" where
  "answer msg = \<lparr>ap_Message = msg, ap_Pattern = [], ap_Scope = [], ap_Released = 0, ap_Deleted = 0, ap_Failed = 0,
     ap_Sent = False, ap_SentTo = [], ap_Warning = [], ap_ReportIP = [], ap_CanSend = False\<rparr>"

definition releaseHeld :: "mail_env \<Rightarrow> uuid option \<Rightarrow> (scope \<times> identity) result \<Rightarrow> mail_db \<Rightarrow> actionResp response \<times> mail_db" where
  "releaseHeld env param sc db =
     (case logForAction env param sc db of
        Inl (n, e) \<Rightarrow> (WriteError n e, db)
      | Inr (m, ident) \<Rightarrow>
          (let ((released, failed), db1) = releaseHeldRecipients env m ident db
           in (WriteJSON 200 ((answer ''Held copies released.'')\<lparr>ap_Released := released, ap_Failed := failed\<rparr>), db1)))"

definition deleteHeld :: "mail_env \<Rightarrow> uuid option \<Rightarrow> (scope \<times> identity) result \<Rightarrow> mail_db \<Rightarrow> actionResp response \<times> mail_db" where
  "deleteHeld env param sc db =
     (case logForAction env param sc db of
        Inl (n, e) \<Rightarrow> (WriteError n e, db)
      | Inr (m, ident) \<Rightarrow>
          (let ((deleted, failed), db1) = deleteHeldRecipients env m ident db
           in (WriteJSON 200 ((answer ''Held copies deleted.'')\<lparr>ap_Deleted := deleted, ap_Failed := failed\<rparr>), db1)))"

definition log_sender_domain :: "string \<Rightarrow> string" where
  "log_sender_domain value0 =
     (let value = trim_space value0; d = (case last_index_char value CHR ''@'' of None \<Rightarrow> value | Some i \<Rightarrow> drop (Suc i) value)
      in if d = [] then ''sentinelmail.local'' else to_lower (trim d '' <>''))"

definition notSpam_log :: "mail_env \<Rightarrow> uuid option \<Rightarrow> (scope \<times> identity) result \<Rightarrow> mail_db \<Rightarrow> actionResp response \<times> mail_db" where
  "notSpam_log env param sc db =
     (case logForAction env param sc db of
        Inl (n, e) \<Rightarrow> (WriteError n e, db)
      | Inr (m, ident) \<Rightarrow>
          case normalizedSenderAddress (mv_Addr env) (ml_FromAddr m) of
            Inl e \<Rightarrow> (WriteError 409 e, db)
          | Inr sender \<Rightarrow>
              (let domain = log_sender_domain sender; (entryScope, userID) = user_scope ident
               in if domain = [] \<or> domain = ''sentinelmail.local'' then (WriteError 409 ''sender domain is invalid'', db)
                  else case domain_decision env (Some (ml_OrganizationID m)) (ml_DomainID m) userID entryScope domain ''allow''
                      (''Marked not spam from mail log '' @ mv_UUIDText env (ml_ID m) @ '' by '' @ id_Email ident) db of
                    (Inl e, db1) \<Rightarrow> (WriteError 500 ''allowlist update failed'', db1)
                  | (Inr pattern, db1) \<Rightarrow>
                      (let ((released, failed), db2) = releaseHeldRecipients env m ident db1
                       in (WriteJSON 200 ((answer ''Message marked not spam, sender domain allowlisted, and held copies released.'')
                             \<lparr>ap_Pattern := pattern, ap_Scope := entryScope, ap_Released := released, ap_Failed := failed\<rparr>), db2))))"

text \<open>The rule that \<open>blockSender\<close> stores: the pattern, or the status and message of the refusal.\<close>

definition log_block_rule ::
  "mail_env \<Rightarrow> mail_log_row \<Rightarrow> identity \<Rightarrow> string \<Rightarrow> string \<Rightarrow> mail_db \<Rightarrow> ((nat \<times> string) + string) \<times> mail_db" where
  "log_block_rule env m ident match sender db =
     (let (entryScope, userID) = user_scope ident; domain = log_sender_domain sender;
          remark = ''Blocked from mail log '' @ mv_UUIDText env (ml_ID m)
      in if match = ''domain'' \<or> match = ''root_domain'' then
           (if domain = [] \<or> domain = ''sentinelmail.local'' then (Inl (409, ''sender domain is invalid''), db)
            else case (if match = ''root_domain'' then RootSenderDomain (mv_Addr env) domain else Inr domain) of
              Inl e \<Rightarrow> (Inl (409, e), db)
            | Inr d \<Rightarrow>
                (case domain_decision env (Some (ml_OrganizationID m)) (ml_DomainID m) userID entryScope d ''block''
                        (remark @ '' by '' @ id_Email ident) db of
                   (Inl e, db1) \<Rightarrow> (Inl (if match = ''domain'' then (409, e) else (500, ''sender block failed'')), db1)
                 | (Inr pattern, db1) \<Rightarrow> (Inr pattern, db1)))
         else
           (let (e, db1) = (if entryScope = ''user''
                  then (let (e', entries) = UpsertUserDecision (mv_Err env) (mv_Addr env) (mv_View env) (new_entry_id env db) (mv_Now env)
                              (ml_OrganizationID m) (ml_DomainID m) (id_UserID ident) (id_Email ident) sender ''block'' remark (md_Entries db)
                        in (e', db\<lparr>md_Entries := entries\<rparr>))
                  else upsertOrgSenderBlock env (ml_OrganizationID m) sender (remark @ '' by '' @ id_Email ident) db)
            in (if e \<noteq> None then Inl (500, ''sender block failed'') else Inr sender, db1)))"

definition blockSender_log ::
  "mail_env \<Rightarrow> uuid option \<Rightarrow> (scope \<times> identity) result \<Rightarrow> actionReq result \<Rightarrow> mail_db \<Rightarrow> actionResp response \<times> mail_db" where
  "blockSender_log env param sc body db =
     (case logForAction env param sc db of
        Inl (n, e) \<Rightarrow> (WriteError n e, db)
      | Inr (m, ident) \<Rightarrow>
          case body of
            Inl e \<Rightarrow> (WriteError 400 e, db)
          | Inr req \<Rightarrow>
              (let match1 = to_lower (trim_space (ar_Match req)); match = (if match1 = [] then ''sender'' else match1)
               in if match \<notin> {''sender'', ''domain'', ''root_domain''} then
                    (WriteError 400 ''match must be sender, domain, or root_domain'', db)
                  else case normalizedSenderAddress (mv_Addr env) (ml_FromAddr m) of
                    Inl e \<Rightarrow> (WriteError 409 e, db)
                  | Inr sender \<Rightarrow>
                      (let (r, db1) = log_block_rule env m ident match sender db
                       in case r of
                            Inl (n, e) \<Rightarrow> (WriteError n e, db1)
                          | Inr pattern \<Rightarrow>
                              (let ((deleted, failed), db2) = deleteHeldRecipients env m ident db1
                               in (WriteJSON 200 ((answer ''Sender blocked and held copies deleted.'')
                                     \<lparr>ap_Pattern := pattern, ap_Scope := fst (user_scope ident), ap_Deleted := deleted, ap_Failed := failed\<rparr>),
                                   db2)))))"

text \<open>The entry that a report is made from, and the report.\<close>

definition quarantineEntryFromLog :: "mail_env \<Rightarrow> mail_log_row \<Rightarrow> string \<Rightarrow> string \<Rightarrow> q_entry" where
  "quarantineEntryFromLog env m recipient0 threat =
     (let recipient = (if trim_space recipient0 = [] then (case ml_ToAddrs m of [] \<Rightarrow> recipient0 | t # _ \<Rightarrow> t) else recipient0)
      in \<lparr>qn_Row = \<lparr>qe_ID = ml_ID m, qe_OrganizationID = ml_OrganizationID m, qe_MailLogID = Some (ml_ID m), qe_DomainID = ml_DomainID m,
            qe_FromAddr = ml_FromAddr m, qe_ToAddr = recipient, qe_Subject = ml_Subject m, qe_RspamdScore = None,
            qe_ThreatClass = Some threat, qe_StorageKey = [], qe_SizeBytes = None, qe_State = [], qe_ExpiresAt = None,
            qe_ReceivedAt = ml_ReceivedAt m, qe_ReleasedAt = None, qe_ReleasedBy = None, qe_CampaignID = None\<rparr>,
          qn_HasBlob = False, qn_CanRelease = False,
          qn_ClientIP = Some (case ml_ClientIP m of None \<Rightarrow> [] | Some ip \<Rightarrow> (case parse_addr ip of None \<Rightarrow> ip | Some a \<Rightarrow> addr_text a)), qn_Reason = None, qn_Symbols = JNull,
          qn_CampaignCopies = 0, qn_SuppressedCopies = 0, qn_UniqueSourceIPs = 0, qn_CampaignFirstSeen = None, qn_CampaignLastSeen = None,
          qn_EmailType = [], qn_Scam = AnalyzeCommonScam [] [], qn_Spoof = Spoofing.Analyze [] None,
          qn_Headers = [], qn_ContentText = [], qn_RawExcerpt = []\<rparr>)"

definition reportSourceIP ::
  "mail_env \<Rightarrow> uuid option \<Rightarrow> (scope \<times> identity) result \<Rightarrow> actionReq result \<Rightarrow> mail_db \<Rightarrow> actionResp response \<times> mail_db" where
  "reportSourceIP env param sc body db =
     (case logForAction env param sc db of
        Inl (n, e) \<Rightarrow> (WriteError n e, db)
      | Inr (m, ident) \<Rightarrow>
          case body of
            Inl e \<Rightarrow> (WriteError 400 e, db)
          | Inr req \<Rightarrow>
              (let v0 = to_lower (trim_space (ar_Verdict req)); v = (if v0 = [] then ''spam'' else v0)
               in if v \<notin> {''spam'', ''phishing'', ''malware'', ''other''} then
                    (WriteError 400 ''verdict must be spam, phishing, malware, or other'', db)
                  else
                    (let e = quarantineEntryFromLog env m (if id_Role ident = ''org_user'' then id_Email ident else []) (to_upper v);
                         ((report, err), db1) = SendSourceIPReportForEntry env e db
                     in case (report, err) of
                          (Some rp, None) \<Rightarrow>
                            (WriteJSON 200 ((answer ''Source IP report sent.'')\<lparr>ap_Sent := True, ap_SentTo := si_SentTo rp,
                               ap_ReportIP := si_IP rp, ap_Warning := si_Warning rp, ap_CanSend := si_CanSend rp\<rparr>), db1)
                        | (_, Some msg) \<Rightarrow> (WriteError 409 msg, db1)
                        | (None, None) \<Rightarrow> (WriteError 409 [], db1))))"

section \<open>The filter by type and the type that is shown\<close>

text \<open>C18 (type filter): what the list filters by, a SQL expression, against what an entry shows, computed in Go. The
  filter files a message under the verdict of a user, if there is one, else under the threat that a scan job found,
  if there is one; only for the other messages it is the type that the entry shows.\<close>

theorem email_type_filter_agrees:
  "mailLogEmailTypeCase db m =
     (if \<exists>c \<in> set (md_Mailbox db). mb_MailLogID c = ml_ID m \<and> mb_Verdict c = ''not_spam'' then ''User confirmed clean''
      else if \<exists>c \<in> set (md_Mailbox db). mb_MailLogID c = ml_ID m \<and> mb_Verdict c \<in> {''phishing'', ''malware''} then ''User reported threat''
      else if \<exists>c \<in> set (md_Mailbox db). mb_MailLogID c = ml_ID m \<and> mb_Verdict c = ''spam'' then ''User reported spam''
      else if \<exists>j \<in> set (md_Jobs db). sj_MailLogID j = Some (ml_ID m) \<and>
                sj_Verdict j \<in> {Some ''malicious'', Some ''phishing'', Some ''malware''} then ''Scanner confirmed threat''
      else lg_EmailType (scan_log m))"
proof -
  have judged: "list_ex p (log_copies db m) \<longleftrightarrow> (\<exists>c \<in> set (md_Mailbox db). mb_MailLogID c = ml_ID m \<and> p c)" for p
    by (auto simp: log_copies_def list_ex_iff)
  have scanned: "scan_verdict_in db m [''malicious'', ''phishing'', ''malware''] \<longleftrightarrow> (\<exists>j \<in> set (md_Jobs db). sj_MailLogID j = Some (ml_ID m) \<and>
                sj_Verdict j \<in> {Some ''malicious'', Some ''phishing'', Some ''malware''})"
    by (auto simp: scan_verdict_in_def list_ex_iff split: option.splits)
  have like: "sql_like ''%phishing signal%'' s = contains s ''phishing signal''" "sql_like ''%phishing%'' s = contains s ''phishing''"
    "sql_like ''%malware%'' s = contains s ''malware''" "sql_like ''%virus%'' s = contains s ''virus''" for s
    using sql_like_contains [of "''phishing signal''" s] sql_like_contains [of "''phishing''" s]
      sql_like_contains [of "''malware''" s] sql_like_contains [of "''virus''" s] by simp_all
  have score: "((case x of None \<Rightarrow> 0 | Some s \<Rightarrow> s) \<ge> 7) = at_least x 7" "((case x of None \<Rightarrow> 0 | Some s \<Rightarrow> s) \<ge> 5) = at_least x 5" for x :: "rat option"
    by (simp_all add: at_least_def split: option.split)
  show ?thesis
    unfolding mailLogEmailTypeCase_def scan_log_def log_entry.simps log_email_type_def Let_def
    by (simp only: judged scanned like score)
qed

section \<open>Who reads and who acts\<close>

lemma logs_by_id: "distinct (map ml_ID rows) \<Longrightarrow> m \<in> set rows \<Longrightarrow> log_by_id rows (ml_ID m) = Some m"
  by (induction rows) (auto simp: log_by_id_def image_iff)

text \<open>What is listed can be read: when no statement fails, every entry that the list may show to a caller is
  answered to him by the read request.\<close>

theorem listed_can_be_read:
  assumes "mv_Err env = no_faults" "distinct (map ml_ID (md_Logs db))" "m \<in> set (md_Logs db)" "visible_log scope ident db m"
  shows "read_log env (Some (ml_ID m)) (Inr (scope, ident)) db = WriteJSON 200 (scan_log m)"
proof -
  let ?me = "to_lower (trim_space (id_Email ident))"
  have "to_lower (trim_space t) = ?me" if "to_lower t = ?me" for t
    using that by (metis trim_space_idem trim_space_to_lower)
  moreover have "Allows scope (ml_OrganizationID m)" using assms(4) by (auto simp: visible_log_def Allows_iff)
  ultimately show ?thesis
    using assms(1,4) logs_by_id [OF assms(2,3)]
    by (auto simp: read_log_def visible_log_def recipientClause_def list_ex_iff Let_def)
qed

datatype log_request =
    ReleaseLog
  | DeleteLog
  | NotSpamLog
  | BlockLog "actionReq result"
  | ReportLog "actionReq result"

fun log_step :: "mail_env \<Rightarrow> uuid option \<Rightarrow> (scope \<times> identity) result \<Rightarrow> log_request \<Rightarrow> mail_db \<Rightarrow> mail_db" where
  "log_step env i sc ReleaseLog db = snd (releaseHeld env i sc db)"
| "log_step env i sc DeleteLog db = snd (deleteHeld env i sc db)"
| "log_step env i sc NotSpamLog db = snd (notSpam_log env i sc db)"
| "log_step env i sc (BlockLog body) db = snd (blockSender_log env i sc body db)"
| "log_step env i sc (ReportLog body) db = snd (reportSourceIP env i sc body db)"

text \<open>The held copies that a caller may handle through the log entry \<open>i\<close>.\<close>

definition log_may :: "uuid option \<Rightarrow> (scope \<times> identity) result \<Rightarrow> mail_db \<Rightarrow> quarantine_row \<Rightarrow> bool" where
  "log_may param sc db q =
     (case (param, sc) of
        (Some i, Inr (scope, ident)) \<Rightarrow>
          (case log_by_id (md_Logs db) i of
             None \<Rightarrow> False
           | Some m \<Rightarrow> Allows scope (ml_OrganizationID m) \<and> qe_MailLogID q = Some i \<and>
               (id_Role ident = ''org_user'' \<longrightarrow> equal_fold (qe_ToAddr q) (id_Email ident)))
      | _ \<Rightarrow> False)"

text \<open>What one handled recipient may change.\<close>

definition own_copy :: "mail_log_row \<Rightarrow> identity \<Rightarrow> quarantine_row \<Rightarrow> bool" where
  "own_copy m ident q =
     (qe_MailLogID q = Some (ml_ID m) \<and> (id_Role ident = ''org_user'' \<longrightarrow> equal_fold (qe_ToAddr q) (id_Email ident)))"

lemma logForAction_may:
  "logForAction env param sc db = Inr (m, ident) \<Longrightarrow> own_copy m ident q \<Longrightarrow> log_may param sc db q"
  by (auto simp: logForAction_def log_may_def own_copy_def dest: log_by_id_Some split: option.splits sum.splits if_splits)

lemma each_recipient_moves:
  assumes "\<And>a db. a \<in> set as \<Longrightarrow> q_keys db \<Longrightarrow> q_moves may db (snd (act a db))" "q_keys db"
  shows "q_moves may db (snd (each_recipient act as counts db))"
  using assms
proof (induction act as counts db rule: each_recipient.induct)
  case (2 act a rest handled failed db)
  obtain r db1 where act: "act a db = (r, db1)" by (cases "act a db")
  from 2(2) [of a db] 2(3) act have first: "q_moves may db db1" by simp
  have "q_moves may db1 (snd (each_recipient act rest
      (case r of Inl _ \<Rightarrow> (handled, Suc failed) | Inr ok \<Rightarrow> (if ok then Suc handled else handled, failed)) db1))"
    using 2(1) [OF act [symmetric] refl] 2(2) q_keys_moves [OF 2(3) first] by simp
  with first act show ?case by simp
qed simp

lemma actionRecipients_own:
  "actionRecipients env m ident db = Inr as \<Longrightarrow> a \<in> set as \<Longrightarrow> held_for (ml_ID m) a q \<Longrightarrow> own_copy m ident q"
  by (auto simp: actionRecipients_def own_copy_def held_for_def equal_fold_def split: if_splits)

lemma held_recipients_moves:
  assumes "q_keys db"
  shows "q_moves (own_copy m ident) db (snd (releaseHeldRecipients env m ident db))"
    and "q_moves (own_copy m ident) db (snd (deleteHeldRecipients env m ident db))"
  by (auto simp: releaseHeldRecipients_def deleteHeldRecipients_def split: sum.split
      intro!: each_recipient_moves [OF _ assms] intro: q_moves_mono [OF ReleaseHeldForRecipient_moves] q_moves_mono [OF DeleteHeldForRecipient_moves]
      actionRecipients_own)

lemma rules_same:
  "q_same db (snd (upsertOrgSenderBlock env i sender remark db))" "q_same db (snd (domain_decision env org d u es name act remark db))"
  "q_same db (snd (log_block_rule env m ident match sender db))"
proof -
  show 1: "q_same db (snd (upsertOrgSenderBlock env i sender remark db))" for i remark
    by (auto simp: upsertOrgSenderBlock_def Let_def split: option.split)
  show 2: "q_same db (snd (domain_decision env org d u es name act remark db))" for org d u es name act remark
    by (metis domain_decision_same prod.collapse)
  have "ends_in (q_same db) (log_block_rule env m ident match sender db)"
    unfolding log_block_rule_def
    by (intro handler_walk) (auto split: if_splits prod.splits dest: domain_decision_same dest!: arg_cong [where f = snd] intro: 1 2)
  then show "q_same db (snd (log_block_rule env m ident match sender db))" by (rule ends_inI)
qed

lemma then_held_moves:
  assumes "q_keys db" "q_same db db1"
  shows "((n, f), db2) = releaseHeldRecipients env m ident db1 \<Longrightarrow> q_moves (own_copy m ident) db db2"
    and "((n, f), db2) = deleteHeldRecipients env m ident db1 \<Longrightarrow> q_moves (own_copy m ident) db db2"
proof -
  note first = q_same_moves0 [OF assms(2), of "own_copy m ident"] and keys = q_keys_same [OF assms]
  show "q_moves (own_copy m ident) db db2" if "((n, f), db2) = releaseHeldRecipients env m ident db1"
    using rtranclp_trans [OF first held_recipients_moves(1) [OF keys, of m ident env]] that by (metis snd_conv)
  show "q_moves (own_copy m ident) db db2" if "((n, f), db2) = deleteHeldRecipients env m ident db1"
    using rtranclp_trans [OF first held_recipients_moves(2) [OF keys, of m ident env]] that by (metis snd_conv)
qed

text \<open>Every request makes moves of the entries that \<open>log_may\<close> names only.\<close>

lemma log_step_moves:
  assumes keys: "q_keys db"
  shows "q_moves (log_may i sc db) db (log_step env i sc r db)"
proof -
  let ?ok = "\<lambda>db'. q_moves (log_may i sc db) db db'"
  have up: "?ok db'" if "q_moves (own_copy m ident) db db'" "logForAction env i sc db = Inr (m, ident)" for m ident db'
    by (rule q_moves_mono [OF that(1)]) (rule logForAction_may [OF that(2)])
  have same: "?ok db'" if "q_same db db'" for db' by (rule q_same_moves0 [OF that])
  note held = then_held_moves [OF keys]
  have released: "?ok db2" if "domain_decision env org d u es name act remark db = (x, db1)"
    "((n, f), db2) = releaseHeldRecipients env m ident db1" "logForAction env i sc db = Inr (m, ident)"
    for org d u es name act remark x db1 n f db2 m ident
    by (rule up [OF held(1) [OF domain_decision_same [OF that(1)] that(2)] that(3)])
  show ?thesis
  proof (cases r)
    case ReleaseLog
    then show ?thesis
      by (auto simp: releaseHeld_def case_prod_beta split: sum.split intro: up held_recipients_moves(1) [OF keys])
  next
    case DeleteLog
    then show ?thesis
      by (auto simp: deleteHeld_def case_prod_beta split: sum.split intro: up held_recipients_moves(2) [OF keys])
  next
    case NotSpamLog
    have "ends_in ?ok (notSpam_log env i sc db)"
      unfolding notSpam_log_def
      by (intro handler_walk) (auto simp: ends_in_def intro: same released dest: domain_decision_same)
    then show ?thesis by (simp add: NotSpamLog ends_inI)
  next
    case (BlockLog body)
    have rule_same: "q_same db db1" if "log_block_rule env m ident match sender db = (x, db1)" for x db1 m ident match sender
      using rules_same(3) [of db env m ident match sender] that by simp
    have deleted: "?ok db2" if "log_block_rule env m ident match sender db = (x, db1)"
      "((n, f), db2) = deleteHeldRecipients env m ident db1" "logForAction env i sc db = Inr (m, ident)"
      for match sender x db1 n f db2 m ident
      by (rule up [OF held(2) [OF rule_same [OF that(1)] that(2)] that(3)])
    have "ends_in ?ok (blockSender_log env i sc body db)"
      unfolding blockSender_log_def
      by (intro handler_walk) (auto simp: ends_in_def simp del: to_lower_simps intro: same deleted [OF sym] dest: rule_same [OF sym])
    then show ?thesis by (simp add: BlockLog ends_inI)
  next
    case (ReportLog body)
    have "q_same db db1" if "(x, db1) = SendSourceIPReportForEntry env e db" for x e db1
      using that by (auto simp: SendSourceIPReportForEntry_def Let_def split: sum.splits if_splits prod.splits option.splits
          dest: sendAbuseReport_same)
    then have "ends_in ?ok (reportSourceIP env i sc body db)"
      unfolding reportSourceIP_def by (intro handler_walk) (auto simp: ends_in_def intro: same split: option.split)
    then show ?thesis by (simp add: ReportLog ends_inI)
  qed
qed

text \<open>C17 (actions on logged mail): through an entry of the mail log a caller changes no quarantine entries but those of
  this message, only when its organization is in his scope, and an ordinary user only those addressed to him.\<close>

theorem log_actions_isolated:
  assumes "q_keys db"
  shows "list_all (\<lambda>q. log_may i sc db q \<or> q \<in> set (md_Quarantine (log_step env i sc r db))) (md_Quarantine db)"
  using q_moves_foreign [OF log_step_moves [OF assms, of i sc env r]] by (auto simp: list_all_iff)

section \<open>Concrete instances\<close>

definition sample_logged :: mail_db where
  "sample_logged = sample_db\<lparr>md_Logs := [sample_log 21 ''none'']\<rparr>"

lemma listed_can_be_read_witness:
  "read_log sample_mail_env (Some 21) (Inr (sample_caller 1 ''org_admin'')) sample_logged = WriteJSON 200 (scan_log (sample_log 21 ''none''))"
proof -
  obtain scope ident where c: "sample_caller 1 ''org_admin'' = (scope, ident)" by (cases "sample_caller 1 ''org_admin''")
  have "visible_log scope ident sample_logged (sample_log 21 ''none'')"
    using c by (auto simp: visible_log_def sample_caller_def sample_log_def)
  moreover have "mv_Err sample_mail_env = no_faults" "distinct (map ml_ID (md_Logs sample_logged))"
    "sample_log 21 ''none'' \<in> set (md_Logs sample_logged)" "ml_ID (sample_log 21 ''none'') = 21"
    by (simp_all add: sample_mail_env_def sample_logged_def) (simp add: sample_log_def)
  ultimately show ?thesis using listed_can_be_read [of sample_mail_env sample_logged] by (metis c)
qed

lemma log_actions_isolated_witness:
  "sample_entry 12 2 \<in> set (md_Quarantine (log_step sample_mail_env (Some 21) (Inr (sample_caller 1 ''org_admin'')) ReleaseLog sample_logged))"
proof -
  have keys: "q_keys sample_logged" using sample_db_keys(1) by (simp add: sample_logged_def q_keys_def)
  have "\<not> log_may (Some 21) (Inr (sample_caller 1 ''org_admin'')) sample_logged (sample_entry 12 2)"
    by (simp add: log_may_def sample_caller_def sample_logged_def log_by_id_def sample_log_def sample_entry_def)
  with log_actions_isolated [OF keys, of "Some 21" "Inr (sample_caller 1 ''org_admin'')" sample_mail_env ReleaseLog] show ?thesis
    by (simp add: sample_logged_def sample_db_def)
qed

end
