(* ===== verification/SmtpEvents.thy ===== *)
theory SmtpEvents
  imports MailTables GoCodec SenderLists GoScan
begin

text \<open>
  \<open>internal/smtpevents/events.go\<close>: what Postfix reports about the end of a transaction. An event is stored, and
  one that ends a delivery is written beside the verdict of the message that had its queue identifier. Parameters
  are the keyed hash, the decoding of the body, the parser of RFC 3339 times (from 1970 on) and the validity of an \<open>inet\<close>.
\<close>

record smtp_ingestReq =
  sq_QueueID :: string
  sq_EventType :: string
  sq_Phase :: string
  sq_Direction :: string
  sq_FromAddr :: string
  sq_ToAddr :: string
  sq_ClientIP :: string
  sq_Helo :: string
  sq_Relay :: string
  sq_StatusCode :: string
  sq_DSN :: string
  sq_EventReason :: string
  sq_RawLog :: string
  sq_OccurredAt :: string

record smtp_env =
  sx_Err :: faults
  sx_Now :: nat
  sx_Secret :: string
  sx_HMAC :: "string \<Rightarrow> string \<Rightarrow> string"
  sx_Unmarshal :: "string \<Rightarrow> smtp_ingestReq option"
  sx_ParseTime :: "string \<Rightarrow> nat option"
  sx_ValidInet :: "string \<Rightarrow> bool"
  sx_NewID :: uuid
  sx_Domains :: "domain_row list"

record smtp_state =
  ss_Events :: "smtp_event_row list"
  ss_Logs :: "mail_log_row list"

section \<open>Helpers\<close>

definition verifyEventSig :: "(string \<Rightarrow> string \<Rightarrow> string) \<Rightarrow> string \<Rightarrow> string \<Rightarrow> string \<Rightarrow> bool" where
  "verifyEventSig hmac secret body got =
     (if length secret < 16 \<or> got = [] then False
      else case hex_decode (trim_space (trim_prefix got ''sha256='')) of None \<Rightarrow> False | Some raw \<Rightarrow> raw = hmac secret body)"

definition event_domain :: "string \<Rightarrow> string" where
  "event_domain addr0 =
     (let addr = to_lower (trim_space addr0)
      in case last_index_char addr CHR ''@'' of
           None \<Rightarrow> []
         | Some i \<Rightarrow> if Suc i < length addr then trim (drop (Suc i) addr) '' <>'' else [])"

text \<open>An error of the query is ignored by the caller, as is a missing domain.\<close>

definition event_owner :: "smtp_env \<Rightarrow> string \<Rightarrow> (uuid \<times> uuid) option" where
  "event_owner env addr =
     (let domain = event_domain addr
      in if domain = [] \<or> sx_Err env ''select domains'' then None
         else map_option (\<lambda>d. (dm_OrganizationID d, dm_ID d))
           (find (\<lambda>d. to_lower (dm_Name d) = domain \<and> dm_IsActive d) (sx_Domains env)))"

definition normalizeEventType :: "string \<Rightarrow> string" where
  "normalizeEventType value =
     (let v = to_lower (trim_space value)
      in if v \<in> {''reject'', ''rejected'', ''noqueue''} then ''reject''
         else if v \<in> {''discard'', ''discarded''} then ''discarded''
         else if v \<in> {''deliver'', ''delivered'', ''sent''} then ''delivered''
         else if v \<in> {''defer'', ''deferred''} then ''deferred''
         else if v \<in> {''bounce'', ''bounced''} then ''bounced''
         else if v \<in> {''fail'', ''failed''} then ''failed''
         else if v \<in> {''tls'', ''tls_error'', ''tls-error''} then ''tls_error''
         else if v = ''disconnect'' then ''disconnect''
         else if v = ''info'' then ''info''
         else [])"

definition terminalActionForEvent :: "string \<Rightarrow> string" where
  "terminalActionForEvent eventType =
     (let t = normalizeEventType eventType
      in if t = ''delivered'' then ''delivered''
         else if t = ''discarded'' then ''discarded''
         else if t = ''reject'' then ''rejected''
         else if t = ''bounced'' then ''bounced''
         else if t = ''failed'' then ''failed''
         else [])"

definition trimRaw :: "string \<Rightarrow> string" where
  "trimRaw value = take 2000 (trim_space value)"

section \<open>The outcome beside the verdict\<close>

definition same_transaction :: "string \<Rightarrow> nat \<Rightarrow> mail_log_row \<Rightarrow> bool" where
  "same_transaction queueID when m =
     (ml_QueueID m = Some queueID \<and> ml_ReceivedAt m + 24 * 3600 \<ge> when \<and> ml_ReceivedAt m \<le> when + 300)"

definition set_outcome :: "string \<Rightarrow> string \<Rightarrow> string \<Rightarrow> string \<Rightarrow> nat \<Rightarrow> mail_log_row \<Rightarrow> mail_log_row" where
  "set_outcome action code reason relay when m =
     m\<lparr>ml_TerminalAction := Some action, ml_TerminalStatusCode := nullif_empty code, ml_TerminalReason := nullif_empty reason,
       ml_TerminalRelay := nullif_empty relay, ml_TerminalAt := Some when,
       ml_DeliveryMismatch := (ml_DeliveryMismatch m \<or>
         (action = ''delivered'' \<and> (ml_Disposition m = ''quarantined'' \<or> ml_Disposition m = ''rejected'')))\<rparr>"

definition correlateTerminalOutcome ::
  "faults \<Rightarrow> smtp_ingestReq \<Rightarrow> nat \<Rightarrow> mail_log_row list \<Rightarrow> (uuid \<times> bool) option result \<times> mail_log_row list" where
  "correlateTerminalOutcome err req when logs =
     (let action = terminalActionForEvent (sq_EventType req); queueID = trim_space (sq_QueueID req);
          code0 = trim_space (sq_StatusCode req); code = (if code0 = [] then trim_space (sq_DSN req) else code0)
      in if action = [] \<or> queueID = [] then (Inr None, logs)
         else if err ''update terminal outcome'' then (Inl ''update terminal outcome'', logs)
         else case first_by (\<lambda>m. abs (int (ml_ReceivedAt m) - int when)) (filter (same_transaction queueID when) logs) of
           None \<Rightarrow> (Inr None, logs)
         | Some m \<Rightarrow>
             (let f = set_outcome action code (sq_EventReason req) (sq_Relay req) when
              in (Inr (Some (ml_ID m, ml_DeliveryMismatch (f m))), update_where (\<lambda>x. ml_ID x = ml_ID m) f logs)))"

section \<open>The endpoint of Postfix\<close>

definition event_row :: "smtp_env \<Rightarrow> smtp_ingestReq \<Rightarrow> nat \<Rightarrow> smtp_event_row" where
  "event_row env req when =
     (let owner = event_owner env (sq_ToAddr req)
      in \<lparr>se_ID = sx_NewID env, se_OrganizationID = map_option fst owner, se_DomainID = map_option snd owner,
          se_QueueID = nullif_empty (sq_QueueID req), se_EventType = sq_EventType req, se_Phase = nullif_empty (sq_Phase req),
          se_Direction = sq_Direction req, se_FromAddr = nullif_empty (sq_FromAddr req), se_ToAddr = nullif_empty (sq_ToAddr req),
          se_ClientIP = nullif_empty (sq_ClientIP req), se_Helo = nullif_empty (sq_Helo req), se_Relay = nullif_empty (sq_Relay req),
          se_StatusCode = nullif_empty (sq_StatusCode req), se_DSN = nullif_empty (sq_DSN req),
          se_Reason = nullif_empty (sq_EventReason req), se_RawLog = nullif_empty (trimRaw (sq_RawLog req)), se_OccurredAt = when\<rparr>)"

definition event_request :: "smtp_ingestReq \<Rightarrow> smtp_ingestReq" where
  "event_request req =
     req\<lparr>sq_EventType := normalizeEventType (sq_EventType req),
       sq_Direction := (if sq_Direction req = [] then ''inbound'' else sq_Direction req)\<rparr>"

definition occurred_at :: "smtp_env \<Rightarrow> smtp_ingestReq \<Rightarrow> nat" where
  "occurred_at env req =
     (if sq_OccurredAt req = [] then sx_Now env
      else case sx_ParseTime env (sq_OccurredAt req) of None \<Rightarrow> sx_Now env | Some t \<Rightarrow> t)"

record smtp_answer =
  sa_ID :: uuid
  sa_MailLogID :: "uuid option"
  sa_Mismatch :: bool

text \<open>Both tables change in one transaction.\<close>

definition ingest_event :: "smtp_env \<Rightarrow> string \<Rightarrow> string \<Rightarrow> smtp_state \<Rightarrow> smtp_answer response \<times> smtp_state" where
  "ingest_event env body signature st =
     (if length body > 64 * 2 ^ 10 then (WriteError 400 ''read body: http: request body too large'', st)
      else if \<not> verifyEventSig (sx_HMAC env) (sx_Secret env) body signature then (WriteError 401 ''bad signature'', st)
      else case sx_Unmarshal env body of
        None \<Rightarrow> (WriteError 400 ''invalid json: '', st)
      | Some req0 \<Rightarrow>
          (let req = event_request req0; when = occurred_at env req
           in if sq_EventType req = [] then (WriteError 400 ''event_type required'', st)
              else if sx_Err env ''begin'' then (WriteError 500 ''begin transaction'', st)
              else if sx_Err env ''insert smtp_events'' \<or> (sq_ClientIP req \<noteq> [] \<and> \<not> sx_ValidInet env (sq_ClientIP req)) then
                (WriteError 500 ''insert: '', st)
              else case correlateTerminalOutcome (sx_Err env) req when (ss_Logs st) of
                (Inl e, _) \<Rightarrow> (WriteError 500 (''correlate terminal outcome: '' @ e), st)
              | (Inr found, logs) \<Rightarrow>
                  if sx_Err env ''commit'' then (WriteError 500 ''commit terminal outcome'', st)
                  else (WriteJSON 202 \<lparr>sa_ID = sx_NewID env, sa_MailLogID = map_option fst found,
                          sa_Mismatch = (case found of None \<Rightarrow> False | Some (_, x) \<Rightarrow> x)\<rparr>,
                        st\<lparr>ss_Events := ss_Events st @ [event_row env req when], ss_Logs := logs\<rparr>)))"

section \<open>The list\<close>

text \<open>The domain of a pattern as the query takes it: without \<open>*@\<close>, then without \<open>@\<close>, and without a final dot.\<close>

definition patternDomain :: "string \<Rightarrow> string" where
  "patternDomain p = to_lower (trim_suffix (trim_prefix (trim_prefix p ''*@'') ''@'') ''.'')"

definition eventText :: "smtp_event_row \<Rightarrow> string" where
  "eventText e = to_lower (join (map text_or_empty [se_FromAddr e, se_Relay e, se_Reason e, se_RawLog e]) '' '')"

definition noise_rule :: "smtp_event_row \<Rightarrow> list_entry_row \<Rightarrow> bool" where
  "noise_rule e l =
     (le_Action l = ''block'' \<and> le_Scope l \<in> {''system'', ''org'', ''domain''} \<and> le_UserID l = None \<and>
      (le_OrganizationID l = None \<or> (se_OrganizationID e \<noteq> None \<and> le_OrganizationID l = se_OrganizationID e)) \<and>
      (le_DomainID l = None \<or> le_DomainID l = se_DomainID e) \<and> le_Pattern l \<noteq> [] \<and>
      sql_like (''%'' @ patternDomain (le_Pattern l) @ ''%'') (eventText e) \<and>
      \<not> sql_like (''%'' @ patternDomain (le_Pattern l) @ ''%'') (to_lower (text_or_empty (se_ToAddr e))))"

definition smtpEventNoiseClause :: "list_entry_row list \<Rightarrow> smtp_event_row \<Rightarrow> bool" where
  "smtpEventNoiseClause entries e =
     (\<not> (se_EventType e \<in> {''deferred'', ''bounced'', ''failed''} \<and> list_ex (noise_rule e) entries))"

record event_query =
  eq_EventType :: string
  eq_To :: string
  eq_From :: string
  eq_IncludeNoise :: string

definition query_bool :: "string \<Rightarrow> bool" where
  "query_bool value = (to_lower (trim_space value) \<in> {''1'', ''true'', ''yes'', ''on''})"

definition event_matches :: "scope \<Rightarrow> event_query \<Rightarrow> list_entry_row list \<Rightarrow> smtp_event_row \<Rightarrow> bool" where
  "event_matches scope q entries e =
     (let t = normalizeEventType (eq_EventType q); tos = trim_space (eq_To q); sender = trim_space (eq_From q);
          noise = query_bool (eq_IncludeNoise q); like = (\<lambda>v x. sql_like (''%'' @ to_lower v @ ''%'') (to_lower (text_or_empty x)))
      in (IsSuperAdmin scope \<or> (case se_OrganizationID e of None \<Rightarrow> False | Some i \<Rightarrow> i \<in> set (VisibleOrgIDs scope))) \<and>
         (t = [] \<or> se_EventType e = t) \<and> (tos = [] \<or> like tos (se_ToAddr e)) \<and> (sender = [] \<or> like sender (se_FromAddr e)) \<and>
         (noise \<or> (smtpEventNoiseClause entries e \<and> (t \<noteq> [] \<or> se_EventType e \<noteq> ''delivered''))))"

definition list_events ::
  "faults \<Rightarrow> (scope \<times> identity) result \<Rightarrow> page \<Rightarrow> event_query \<Rightarrow> list_entry_row list \<Rightarrow> smtp_state \<Rightarrow>
     smtp_event_row list_envelope response" where
  "list_events err sc pg q entries st =
     (case sc of
        Inl e \<Rightarrow> WriteError 500 ''scope''
      | Inr (scope, ident) \<Rightarrow>
          if id_Role ident = ''org_user'' then WriteError 403 ''admin role required''
          else if err ''count smtp_events'' then WriteError 500 ''count''
          else if err ''select smtp_events'' then WriteError 500 ''select smtp_events''
          else WriteJSON 200 (envelope pg (sort_key (\<lambda>e. (- int (se_OccurredAt e), - int (se_ID e)))
                 (filter (event_matches scope q entries) (ss_Events st)))))"

section \<open>Reports do not touch verdicts\<close>

text \<open>What a series of reports may have done to a log entry.\<close>

definition outcome_only :: "mail_log_row \<Rightarrow> mail_log_row \<Rightarrow> bool" where
  "outcome_only m m' =
     (m' = m\<lparr>ml_TerminalAction := ml_TerminalAction m', ml_TerminalStatusCode := ml_TerminalStatusCode m',
        ml_TerminalReason := ml_TerminalReason m', ml_TerminalRelay := ml_TerminalRelay m', ml_TerminalAt := ml_TerminalAt m',
        ml_DeliveryMismatch := ml_DeliveryMismatch m'\<rparr> \<and>
      (ml_DeliveryMismatch m \<longrightarrow> ml_DeliveryMismatch m') \<and>
      (ml_DeliveryMismatch m' \<longrightarrow> ml_DeliveryMismatch m \<or> ml_Disposition m \<in> {''quarantined'', ''rejected''}) \<and>
      (ml_TerminalAction m' = Some ''delivered'' \<and> ml_TerminalAction m \<noteq> Some ''delivered'' \<and>
         ml_Disposition m \<in> {''quarantined'', ''rejected''} \<longrightarrow> ml_DeliveryMismatch m'))"

lemma outcome_only_refl [simp]: "outcome_only m m"
  by (auto simp: outcome_only_def)

lemma outcome_only_trans: "outcome_only a b \<Longrightarrow> outcome_only b c \<Longrightarrow> outcome_only a c"
proof (cases a; cases b; cases c)
qed (auto simp: outcome_only_def)

lemma outcome_only_set: "outcome_only m (set_outcome action code reason relay when m)"
  by (simp add: outcome_only_def set_outcome_def)

lemma correlate_outcome_only:
  "correlateTerminalOutcome err req when logs = (r, logs') \<Longrightarrow> list_all2 outcome_only logs logs'"
  by (auto simp: correlateTerminalOutcome_def Let_def update_where_def list.rel_map outcome_only_set intro!: list.rel_refl
      split: if_splits option.splits intro: list.rel_refl_strong)

definition report_step :: "smtp_env \<times> string \<times> string \<Rightarrow> smtp_state \<Rightarrow> smtp_state" where
  "report_step r st = (case r of (env, body, signature) \<Rightarrow> snd (ingest_event env body signature st))"

lemma report_step_outcome_only: "list_all2 outcome_only (ss_Logs st) (ss_Logs (report_step r st))"
proof -
  obtain env body signature where r: "r = (env, body, signature)" by (cases r)
  have refl: "list_all2 outcome_only xs xs" for xs by (rule list.rel_refl) simp
  have "ends_in (\<lambda>st'. list_all2 outcome_only (ss_Logs st) (ss_Logs st')) (ingest_event env body signature st)"
    unfolding ingest_event_def by (intro handler_walk) (auto intro: refl dest: correlate_outcome_only)
  then show ?thesis by (simp add: report_step_def r ends_in_def)
qed

text \<open>C19 (reports keep verdicts): any series of reports of the mail server changes of a logged message only the columns of
  its outcome; the mismatch flag is never taken back, it comes only to a quarantined or rejected message, and such
  a message that becomes delivered has it.\<close>

theorem reports_keep_verdicts: "list_all2 outcome_only (ss_Logs st) (ss_Logs (fold report_step rs st))"
proof (induction rs arbitrary: st)
  case Nil
  show ?case by (simp add: list.rel_refl)
next
  case (Cons r rs)
  show ?case using list_all2_trans [OF _ report_step_outcome_only Cons, of outcome_only] outcome_only_trans by auto
qed

end
