(* ===== verification/AuditLog.thy ===== *)
theory AuditLog
  imports Tenant Sql
begin

text \<open>
  \<open>internal/audit/audit.go\<close>: the table of audit records, its writer, and the list. Which texts the column
  \<open>actor_ip\<close> of type \<open>inet\<close> takes is a parameter; a text that it refuses fails the insertion.
\<close>

record audit_event =
  ae_OrganizationID :: uuid
  ae_ActorUserID :: uuid
  ae_ActorIP :: string
  ae_Action :: string
  ae_TargetKind :: string
  ae_TargetID :: string
  ae_Detail :: json_map

record audit_row =
  au_ID :: nat
  au_OrgID :: "uuid option"
  au_ActorID :: "uuid option"
  au_ActorIP :: "string option"
  au_Action :: string
  au_TargetKind :: "string option"
  au_TargetID :: "string option"
  au_Detail :: "json option"
  au_CreatedAt :: nat

record audit_env =
  ax_Err :: faults
  ax_Now :: nat
  ax_ValidInet :: "string \<Rightarrow> bool"

definition nullableUUID :: "uuid \<Rightarrow> uuid option" where
  "nullableUUID u = (if u = 0 then None else Some u)"

text \<open>The identifiers of the table come from a sequence.\<close>

definition next_audit_id :: "audit_row list \<Rightarrow> nat" where
  "next_audit_id rows = Suc (fold max (map au_ID rows) 0)"

definition audit_Write :: "audit_env \<Rightarrow> audit_event \<Rightarrow> audit_row list \<Rightarrow> string option \<times> audit_row list" where
  "audit_Write env ev rows =
     (if ax_Err env ''insert audit_log'' \<or> (ae_ActorIP ev \<noteq> [] \<and> \<not> ax_ValidInet env (ae_ActorIP ev)) then
        (Some ''insert audit_log'', rows)
      else (None, rows @
        [\<lparr>au_ID = next_audit_id rows, au_OrgID = nullableUUID (ae_OrganizationID ev), au_ActorID = nullableUUID (ae_ActorUserID ev),
          au_ActorIP = nullif_empty (ae_ActorIP ev), au_Action = ae_Action ev, au_TargetKind = nullif_empty (ae_TargetKind ev),
          au_TargetID = nullif_empty (ae_TargetID ev),
          au_Detail = (if ae_Detail ev = [] then None else Some (JObj (ae_Detail ev))), au_CreatedAt = ax_Now env\<rparr>]))"

text \<open>The goroutine drops the error.\<close>

definition audit_WriteAsync :: "audit_env \<Rightarrow> audit_event \<Rightarrow> audit_row list \<Rightarrow> audit_row list" where
  "audit_WriteAsync env ev rows = snd (audit_Write env ev rows)"

definition clientIP :: "string \<Rightarrow> string \<Rightarrow> string" where
  "clientIP xff remote =
     (if xff \<noteq> [] then
        trim_space (case index_char xff CHR '','' of
            None \<Rightarrow> xff
          | Some comma \<Rightarrow> if comma > 0 then take comma xff else xff)
      else case last_index_char remote CHR '':'' of
          None \<Rightarrow> remote
        | Some i \<Rightarrow> if i > 0 then take i remote else remote)"

definition FromRequest :: "identity option \<Rightarrow> string \<Rightarrow> string \<Rightarrow> string \<Rightarrow> audit_event" where
  "FromRequest ctx xff remote action =
     \<lparr>ae_OrganizationID = (case ctx of None \<Rightarrow> 0 | Some ident \<Rightarrow> id_OrganizationID ident),
      ae_ActorUserID = (case ctx of None \<Rightarrow> 0 | Some ident \<Rightarrow> id_UserID ident),
      ae_ActorIP = clientIP xff remote, ae_Action = action, ae_TargetKind = [], ae_TargetID = [], ae_Detail = []\<rparr>"

text \<open>The actor of the query is the result of \<open>uuid.Parse\<close>: a text that it refuses is not looked at.\<close>

definition audit_matches :: "scope \<Rightarrow> identity \<Rightarrow> string \<Rightarrow> uuid option \<Rightarrow> audit_row \<Rightarrow> bool" where
  "audit_matches scope ident action actor r =
     ((IsSuperAdmin scope \<or> (case au_OrgID r of None \<Rightarrow> True | Some i \<Rightarrow> i \<in> set (VisibleOrgIDs scope))) \<and>
      (id_Role ident = ''org_user'' \<longrightarrow> au_ActorID r = Some (id_UserID ident)) \<and>
      (action \<noteq> [] \<longrightarrow> au_Action r = action) \<and>
      (case actor of None \<Rightarrow> True | Some i \<Rightarrow> au_ActorID r = Some i))"

definition list_audit ::
  "faults \<Rightarrow> (scope \<times> identity) result \<Rightarrow> page \<Rightarrow> string \<Rightarrow> uuid option \<Rightarrow> audit_row list \<Rightarrow> audit_row list_envelope response" where
  "list_audit err sc pg action actor rows =
     (case sc of
        Inl e \<Rightarrow> WriteError 500 ''scope''
      | Inr (scope, ident) \<Rightarrow>
          if err ''count audit_log'' then WriteError 500 ''db''
          else if err ''select audit_log'' then WriteError 500 ''select audit_log''
          else WriteJSON 200 (envelope pg (sort_key (\<lambda>r. - int (au_ID r)) (filter (audit_matches scope ident action actor) rows))))"

text \<open>\<open>ON DELETE SET NULL\<close>: what the deletion of an organization leaves of its records.\<close>

definition orphan_audit :: "uuid \<Rightarrow> audit_row list \<Rightarrow> audit_row list" where
  "orphan_audit i rows = update_where (\<lambda>r. au_OrgID r = Some i) (\<lambda>r. r\<lparr>au_OrgID := None\<rparr>) rows"

section \<open>Records that are lost or shown to strangers\<close>

text \<open>The address of an IPv6 client keeps its brackets, which \<open>inet\<close> refuses, and nothing is recorded.\<close>

lemma ipv6_client_not_recorded:
  assumes "\<not> ax_ValidInet env ''[::1]''"
  shows "audit_WriteAsync env (FromRequest ctx [] ''[::1]:4242'' action) rows = rows"
  using assms by (simp add: audit_WriteAsync_def audit_Write_def FromRequest_def clientIP_def)

text \<open>The records of a deleted organization are visible to the administrators of all others.\<close>

lemma orphans_shown_to_all:
  assumes "r \<in> set rows" "au_OrgID r = Some i" "id_Role ident \<noteq> ''org_user''"
  shows "\<exists>r' \<in> set (orphan_audit i rows). au_ID r' = au_ID r \<and> au_Detail r' = au_Detail r \<and> audit_matches scope ident [] None r'"
  using assms by (intro bexI [of _ "r\<lparr>au_OrgID := None\<rparr>"]) (auto simp: orphan_audit_def update_where_def audit_matches_def image_iff)

end
