(* ===== verification/Orgs.thy ===== *)
theory Orgs
  imports Tenant Tables
begin

text \<open>
  \<open>internal/orgs/orgs.go\<close>: the organizations themselves. The handlers ask for the caller's scope by the recursive
  query of \<open>Tenant\<close> over the table as it is, so a request is \<open>None\<close> when that query would not end. Of the tables
  that a deletion cascades to, the users and the domains are kept here.
\<close>

record orgWriteReq =
  ow_Name :: string
  ow_Slug :: string
  ow_ParentID :: "uuid option"
  ow_IsActive :: "bool option"

record org_state =
  og_Orgs :: "organization list"
  og_Users :: "user_row list"
  og_Domains :: "domain_row list"

record org_env =
  ox_Err :: faults
  ox_NewID :: uuid

section \<open>Handlers\<close>

text \<open>\<open>^[a-z0-9][a-z0-9-]{1,62}[a-z0-9]$\<close>\<close>

definition slugRE :: "string \<Rightarrow> bool" where
  "slugRE s =
     (length s \<ge> 3 \<and> length s \<le> 64 \<and> list_all (\<lambda>c. is_lower c \<or> is_digit c \<or> c = CHR ''-'') s \<and>
      hd s \<noteq> CHR ''-'' \<and> last s \<noteq> CHR ''-'')"

definition list_orgs :: "faults \<Rightarrow> (scope \<times> identity) result \<Rightarrow> page \<Rightarrow> org_state \<Rightarrow> organization list_envelope response" where
  "list_orgs err sc pg st =
     (case sc of
        Inl e \<Rightarrow> WriteError 500 ''scope error''
      | Inr (scope, ident) \<Rightarrow>
          (let rows = (if IsSuperAdmin scope then og_Orgs st
                       else filter (\<lambda>o'. org_ID o' \<in> set (VisibleOrgIDs scope)) (og_Orgs st))
           in if err ''count organizations'' then WriteError 500 ''db error''
              else if err ''select organizations'' then WriteError 500 (''db error: '' @ ''select organizations'')
              else WriteJSON 200 (envelope pg (sort_key (\<lambda>o'. map byte (org_Name o')) rows))))"

text \<open>The unique identifier and slug, and the reference to the parent, are constraints of the table.\<close>

definition insert_org :: "org_env \<Rightarrow> orgWriteReq \<Rightarrow> organization list \<Rightarrow> (organization \<times> organization list) option" where
  "insert_org env req orgs =
     (let o' = \<lparr>org_ID = ox_NewID env, org_Name = ow_Name req, org_Slug = ow_Slug req, org_ParentID = ow_ParentID req,
                org_IsSystem = False, org_IsActive = True\<rparr>
      in if ox_Err env ''insert organizations'' \<or> ox_NewID env \<in> set (map org_ID orgs) \<or> ow_Slug req \<in> set (map org_Slug orgs) \<or>
            (case ow_ParentID req of None \<Rightarrow> False | Some p \<Rightarrow> p \<notin> set (map org_ID orgs)) then None
         else Some (o', orgs @ [o']))"

definition create_org ::
  "org_env \<Rightarrow> (scope \<times> identity) result \<Rightarrow> orgWriteReq result \<Rightarrow> org_state \<Rightarrow> organization response \<times> org_state" where
  "create_org env sc body st =
     (case sc of
        Inl e \<Rightarrow> (WriteError 500 ''scope error'', st)
      | Inr (scope, ident) \<Rightarrow>
          if \<not> IsSuperAdmin scope \<and> id_Role ident \<noteq> ''msp_admin'' then (WriteError 403 ''forbidden'', st)
          else case body of
            Inl e \<Rightarrow> (WriteError 400 (''bad request: '' @ e), st)
          | Inr req \<Rightarrow>
              if ow_Name req = [] \<or> \<not> slugRE (ow_Slug req) then (WriteError 400 ''name and valid slug required'', st)
              else
                (let parent = (case ow_ParentID req of None \<Rightarrow> id_OrganizationID ident | Some p \<Rightarrow> p)
                 in if \<not> IsSuperAdmin scope \<and> \<not> CanAdmin scope (id_Role ident) parent then
                      (WriteError 403 ''cannot create under that parent'', st)
                    else case insert_org env (if IsSuperAdmin scope then req else req\<lparr>ow_ParentID := Some parent\<rparr>) (og_Orgs st) of
                      None \<Rightarrow> (WriteError 500 ''create failed: '', st)
                    | Some (o', orgs) \<Rightarrow> (WriteJSON 201 o', st\<lparr>og_Orgs := orgs\<rparr>)))"

definition read_org :: "faults \<Rightarrow> uuid option \<Rightarrow> (scope \<times> identity) result \<Rightarrow> org_state \<Rightarrow> organization response" where
  "read_org err oid sc st =
     (case oid of
        None \<Rightarrow> WriteError 400 ''invalid id''
      | Some i \<Rightarrow>
          case sc of
            Inl e \<Rightarrow> WriteError 404 ''not found''
          | Inr (scope, ident) \<Rightarrow>
              if \<not> Allows scope i then WriteError 404 ''not found''
              else if err ''select organization'' then WriteError 500 ''db error''
              else case find (\<lambda>o'. org_ID o' = i) (og_Orgs st) of
                None \<Rightarrow> WriteError 404 ''not found''
              | Some o' \<Rightarrow> WriteJSON 200 o')"

definition changed_org :: "orgWriteReq \<Rightarrow> organization \<Rightarrow> organization" where
  "changed_org req o' =
     o'\<lparr>org_Name := coalesce_text (ow_Name req) (org_Name o'), org_Slug := coalesce_text (ow_Slug req) (org_Slug o'),
       org_IsActive := coalesce (ow_IsActive req) (org_IsActive o')\<rparr>"

text \<open>The answer is the one of a read, which asks for the scope again: no change touches the tree.\<close>

definition update_org ::
  "org_env \<Rightarrow> uuid option \<Rightarrow> (scope \<times> identity) result \<Rightarrow> orgWriteReq result \<Rightarrow> org_state \<Rightarrow> organization response \<times> org_state" where
  "update_org env oid sc body st =
     (case oid of
        None \<Rightarrow> (WriteError 400 ''invalid id'', st)
      | Some i \<Rightarrow>
          case sc of
            Inl e \<Rightarrow> (WriteError 403 ''forbidden'', st)
          | Inr (scope, ident) \<Rightarrow>
              if \<not> CanAdmin scope (id_Role ident) i then (WriteError 403 ''forbidden'', st)
              else case body of
                Inl e \<Rightarrow> (WriteError 400 e, st)
              | Inr req \<Rightarrow>
                  if ox_Err env ''update organizations'' \<or>
                     (ow_Slug req \<noteq> [] \<and> i \<in> set (map org_ID (og_Orgs st)) \<and>
                      list_ex (\<lambda>o'. org_ID o' \<noteq> i \<and> org_Slug o' = ow_Slug req) (og_Orgs st)) then
                    (WriteError 500 ''update failed'', st)
                  else
                    (let st' = st\<lparr>og_Orgs := update_where (\<lambda>o'. org_ID o' = i) (changed_org req) (og_Orgs st)\<rparr>
                     in (read_org (ox_Err env) oid sc st', st')))"

text \<open>A parent of other organizations may not go (\<open>ON DELETE RESTRICT\<close>).\<close>

definition delete_org :: "faults \<Rightarrow> uuid option \<Rightarrow> (scope \<times> identity) result \<Rightarrow> org_state \<Rightarrow> unit response \<times> org_state" where
  "delete_org err oid sc st =
     (case oid of
        None \<Rightarrow> (WriteError 400 ''invalid id'', st)
      | Some i \<Rightarrow>
          case sc of
            Inl e \<Rightarrow> (WriteError 403 ''super_admin required'', st)
          | Inr (scope, ident) \<Rightarrow>
              if id_Role ident \<noteq> ''super_admin'' then (WriteError 403 ''super_admin required'', st)
              else
                (let there = list_ex (\<lambda>o'. org_ID o' = i \<and> \<not> org_IsSystem o') (og_Orgs st)
                 in if err ''delete organizations'' \<or> (there \<and> list_ex (\<lambda>o'. org_ParentID o' = Some i) (og_Orgs st)) then
                      (WriteError 500 ''delete failed'', st)
                    else if \<not> there then (WriteError 404 ''not found or system org'', st)
                    else (WriteHeader 204,
                       st\<lparr>og_Orgs := filter (\<lambda>o'. org_ID o' \<noteq> i) (og_Orgs st),
                          og_Users := filter (\<lambda>u. u_OrganizationID u \<noteq> i) (og_Users st),
                          og_Domains := filter (\<lambda>d. dm_OrganizationID d \<noteq> i) (og_Domains st)\<rparr>)))"

section \<open>Requests\<close>

datatype org_cmd =
    CreateOrg "orgWriteReq result"
  | UpdateOrg "uuid option" "orgWriteReq result"
  | DeleteOrg "uuid option"

definition org_step :: "org_env \<Rightarrow> (scope \<times> identity) result \<Rightarrow> org_cmd \<Rightarrow> org_state \<Rightarrow> org_state" where
  "org_step env sc cmd st =
     (case cmd of
        CreateOrg body \<Rightarrow> snd (create_org env sc body st)
      | UpdateOrg oid body \<Rightarrow> snd (update_org env oid sc body st)
      | DeleteOrg oid \<Rightarrow> snd (delete_org (ox_Err env) oid sc st))"

definition org_request :: "org_env \<Rightarrow> identity option \<Rightarrow> org_cmd \<Rightarrow> org_state \<Rightarrow> org_state option" where
  "org_request env ctx cmd st =
     map_option (\<lambda>sc. org_step env sc cmd st) (FromContext (ox_Err env) (og_Orgs st) ctx)"

fun org_requests :: "(org_env \<times> identity option \<times> org_cmd) list \<Rightarrow> org_state \<Rightarrow> org_state option" where
  "org_requests [] st = Some st"
| "org_requests ((env, ctx, cmd) # reqs) st = Option.bind (org_request env ctx cmd st) (org_requests reqs)"

section \<open>The forest is kept\<close>

lemma orgs_from_insert:
  "orgs_from seen (orgs @ [o']) =
     (orgs_from seen orgs \<and> org_ID o' \<notin> set seen \<union> org_ID ` set orgs \<and>
      (case org_ParentID o' of None \<Rightarrow> True | Some p \<Rightarrow> p \<in> set seen \<union> org_ID ` set orgs))"
  by (induction seen orgs rule: orgs_from.induct) (auto split: option.splits)

lemma orgs_from_map:
  "(\<And>x. org_ID (f x) = org_ID x \<and> org_ParentID (f x) = org_ParentID x) \<Longrightarrow> orgs_from seen (map f orgs) = orgs_from seen orgs"
  by (induction seen orgs rule: orgs_from.induct) auto

lemma orgs_from_delete:
  "orgs_from seen orgs \<Longrightarrow> set seen - {i} \<subseteq> set seen' \<Longrightarrow> set seen' \<subseteq> set seen \<Longrightarrow> \<forall>o' \<in> set orgs. org_ParentID o' \<noteq> Some i \<Longrightarrow>
     orgs_from seen' (filter (\<lambda>o'. org_ID o' \<noteq> i) orgs)"
proof (induction seen orgs arbitrary: seen' rule: orgs_from.induct)
  case (2 seen o' orgs)
  show ?case
  proof (cases "org_ID o' = i")
    case True
    have "orgs_from seen' (filter (\<lambda>o'. org_ID o' \<noteq> i) orgs)"
      by (rule "2.IH") (use 2 True in auto)
    with True show ?thesis by simp
  next
    case False
    have "orgs_from (org_ID o' # seen') (filter (\<lambda>o'. org_ID o' \<noteq> i) orgs)"
      by (rule "2.IH") (use 2 in auto)
    with False 2 show ?thesis by (auto split: option.splits)
  qed
qed simp

lemma changed_org_keys [simp]:
  "org_ID (changed_org req o') = org_ID o'" "org_ParentID (changed_org req o') = org_ParentID o'"
  "org_IsSystem (changed_org req o') = org_IsSystem o'"
  by (simp_all add: changed_org_def)

text \<open>What one request does to the table, whoever sends it.\<close>

inductive org_move :: "organization list \<Rightarrow> organization list \<Rightarrow> bool" where
  keep: "org_move orgs orgs"
| insert: "org_ID o' \<notin> org_ID ` set orgs \<Longrightarrow> org_Slug o' \<notin> org_Slug ` set orgs \<Longrightarrow>
    (\<And>p. org_ParentID o' = Some p \<Longrightarrow> p \<in> org_ID ` set orgs) \<Longrightarrow> org_move orgs (orgs @ [o'])"
| change: "(ow_Slug req \<noteq> [] \<Longrightarrow> i \<in> org_ID ` set orgs \<Longrightarrow> \<forall>o' \<in> set orgs. org_ID o' \<noteq> i \<longrightarrow> org_Slug o' \<noteq> ow_Slug req) \<Longrightarrow>
    org_move orgs (update_where (\<lambda>o'. org_ID o' = i) (changed_org req) orgs)"
| remove: "\<forall>o' \<in> set orgs. org_ParentID o' \<noteq> Some i \<Longrightarrow> \<exists>o' \<in> set orgs. org_ID o' = i \<and> \<not> org_IsSystem o' \<Longrightarrow>
    org_move orgs (filter (\<lambda>o'. org_ID o' \<noteq> i) orgs)"

lemma insert_org_move: "insert_org env req orgs = Some (o', orgs') \<Longrightarrow> org_move orgs orgs'"
  by (auto simp: insert_org_def Let_def split: if_splits option.splits intro!: org_move.insert)

lemma update_org_move: "org_move (og_Orgs st) (og_Orgs (snd (update_org env oid sc body st)))"
  unfolding update_org_def
  by (rule ends_inI, intro handler_walk)
     (auto simp: list_ex_iff update_where_def image_iff intro: org_move.keep
       intro!: org_move.change [unfolded update_where_def])

lemma org_step_move: "org_move (og_Orgs st) (og_Orgs (org_step env sc cmd st))"
proof (cases cmd)
  case (CreateOrg body)
  have "org_move (og_Orgs st) (og_Orgs (snd (create_org env sc body st)))"
    unfolding create_org_def by (rule ends_inI, intro handler_walk) (auto intro: org_move.keep insert_org_move)
  with CreateOrg show ?thesis by (simp add: org_step_def)
next
  case (UpdateOrg oid body)
  then show ?thesis by (simp add: org_step_def update_org_move)
next
  case (DeleteOrg oid)
  have "org_move (og_Orgs st) (og_Orgs (snd (delete_org (ox_Err env) oid sc st)))"
    unfolding delete_org_def
    by (rule ends_inI, intro handler_walk) (auto simp: list_ex_iff intro: org_move.keep intro!: org_move.remove)
  with DeleteOrg show ?thesis by (simp add: org_step_def)
qed

lemma org_move_wf: "org_move orgs orgs' \<Longrightarrow> wf_orgs orgs \<Longrightarrow> wf_orgs orgs'"
proof (induction rule: org_move.induct)
  case (insert o' orgs)
  then show ?case by (auto simp: wf_orgs_def orgs_from_insert split: option.splits)
next
  case (change req i orgs)
  then show ?case by (simp add: wf_orgs_def update_where_def orgs_from_map)
next
  case (remove orgs i)
  then show ?case by (auto simp: wf_orgs_def intro!: orgs_from_delete [of "[]"])
qed simp

lemma org_move_slugs:
  assumes "org_move orgs orgs'" "wf_orgs orgs" "distinct (map org_Slug orgs)"
  shows "distinct (map org_Slug orgs')"
  using assms
proof (induction rule: org_move.induct)
  case (change req i orgs)
  let ?g = "\<lambda>x. if org_ID x = i then changed_org req x else x"
  have ids: "inj_on org_ID (set orgs)" using orgs_from_ids change.prems(1) by (auto simp: wf_orgs_def distinct_map)
  have slugs: "inj_on org_Slug (set orgs)" and d: "distinct orgs" using change.prems(2) by (auto simp: distinct_map)
  have "inj_on (\<lambda>x. org_Slug (?g x)) (set orgs)"
  proof (rule inj_onI)
    fix x y
    assume xy: "x \<in> set orgs" "y \<in> set orgs" "org_Slug (?g x) = org_Slug (?g y)"
    have "org_ID x = i \<Longrightarrow> org_ID y = i \<Longrightarrow> x = y" using xy ids by (auto dest: inj_onD)
    moreover have "x = y" if "ow_Slug req = [] \<or> (org_ID x \<noteq> i \<and> org_ID y \<noteq> i)"
      using xy slugs that by (auto simp: changed_org_def split: if_splits dest: inj_onD)
    moreover have "i \<in> org_ID ` set orgs" if "org_ID x = i \<or> org_ID y = i" using xy that by auto
    ultimately show "x = y" using xy change.hyps by (auto simp: changed_org_def coalesce_text_def split: if_splits)
  qed
  with d show ?case by (simp add: update_where_def distinct_map o_def)
qed (auto simp: distinct_map_filter)

text \<open>What is kept of an organization that may not be deleted.\<close>

definition system_kept :: "organization list \<Rightarrow> organization list \<Rightarrow> bool" where
  "system_kept orgs orgs' =
     (\<forall>o' \<in> set orgs. org_IsSystem o' \<longrightarrow>
        (\<exists>x \<in> set orgs'. org_ID x = org_ID o' \<and> org_IsSystem x \<and> org_ParentID x = org_ParentID o'))"

lemma org_move_system: "org_move orgs orgs' \<Longrightarrow> wf_orgs orgs \<Longrightarrow> system_kept orgs orgs'"
proof (induction rule: org_move.induct)
  case (remove orgs i)
  have "inj_on org_ID (set orgs)" using orgs_from_ids remove.prems by (auto simp: wf_orgs_def distinct_map)
  with remove.hyps(2) show ?case by (auto simp: system_kept_def dest: inj_onD)
next
  case (change req i orgs)
  show ?case unfolding system_kept_def update_where_def set_map bex_simps by (intro ballI impI, rule_tac x = o' in bexI) auto
qed (auto simp: system_kept_def)

lemma system_kept_trans: "system_kept a b \<Longrightarrow> system_kept b c \<Longrightarrow> system_kept a c"
  unfolding system_kept_def by metis

lemma scope_query_ends:
  assumes "wf_orgs orgs"
  shows "\<exists>sc. FromContext err orgs ctx = Some sc"
proof -
  have "tree_query orgs i \<noteq> None" for i
  proof (cases "i \<in> org_ID ` set orgs")
    case True
    with tree_query_descendants [OF assms] show ?thesis by fastforce
  next
    case False
    then have "filter (\<lambda>j. j = i) (map org_ID orgs) = []" by (auto simp: filter_empty_conv)
    then show ?thesis by (simp add: tree_query_def)
  qed
  then show ?thesis by (cases ctx) (auto simp: FromContext_def ScopeForIdentity_def Let_def)
qed

text \<open>C20 (organization forest): over any series of organization requests, by anybody, every request is answered: the
  recursive query of its scope ends. The table stays a forest in which every parent exists, slugs stay unique, and
  system organizations stay where they are in the tree.\<close>

theorem org_requests_answered:
  assumes "wf_orgs (og_Orgs st)" "distinct (map org_Slug (og_Orgs st))"
  shows "\<exists>st'. org_requests reqs st = Some st' \<and> wf_orgs (og_Orgs st') \<and> distinct (map org_Slug (og_Orgs st')) \<and>
           system_kept (og_Orgs st) (og_Orgs st')"
  using assms
proof (induction reqs arbitrary: st)
  case Nil
  then show ?case by (auto simp: system_kept_def)
next
  case (Cons r reqs)
  obtain env ctx cmd where r: "r = (env, ctx, cmd)" by (cases r)
  obtain sc where sc: "FromContext (ox_Err env) (og_Orgs st) ctx = Some sc" using scope_query_ends Cons.prems(1) by blast
  note move = org_step_move [of st env sc cmd]
  obtain st' where st': "org_requests reqs (org_step env sc cmd st) = Some st'" "wf_orgs (og_Orgs st')"
    "distinct (map org_Slug (og_Orgs st'))" "system_kept (og_Orgs (org_step env sc cmd st)) (og_Orgs st')"
    using Cons.IH [OF org_move_wf [OF move Cons.prems(1)] org_move_slugs [OF move Cons.prems]] by blast
  with system_kept_trans [OF org_move_system [OF move Cons.prems(1)]] show ?case by (simp add: r org_request_def sc)
qed

text \<open>An organization with a child, whose administrator asks for a grandchild; and for the child's deletion, in vain.\<close>

definition sample_orgs :: org_state where
  "sample_orgs = \<lparr>og_Orgs = [(sample_org 1 None)\<lparr>org_IsSystem := True, org_Slug := ''sys''\<rparr>, sample_org 2 (Some 1)],
     og_Users = [], og_Domains = []\<rparr>"

definition sample_org_env :: "uuid \<Rightarrow> org_env" where
  "sample_org_env i = \<lparr>ox_Err = no_faults, ox_NewID = i\<rparr>"

definition sample_org_body :: "string \<Rightarrow> orgWriteReq" where
  "sample_org_body slug = \<lparr>ow_Name = ''n'', ow_Slug = slug, ow_ParentID = None, ow_IsActive = None\<rparr>"

lemma org_requests_answered_witness:
  "\<exists>st'. org_requests
     [(sample_org_env 3, Some (snd (sample_caller 2 ''msp_admin'')), CreateOrg (Inr (sample_org_body ''abc''))),
      (sample_org_env 4, Some (snd (sample_caller 1 ''super_admin'')), DeleteOrg (Some 2))] sample_orgs = Some st'"
proof -
  have "wf_orgs (og_Orgs sample_orgs)" "distinct (map org_Slug (og_Orgs sample_orgs))"
    by (simp_all add: sample_orgs_def sample_org_def wf_orgs_def)
  from org_requests_answered [OF this] show ?thesis by blast
qed

section \<open>Requests stay in the caller's subtree\<close>

lemma org_step_scope:
  assumes "case sc of Inl e \<Rightarrow> True | Inr (scope, ident) \<Rightarrow> \<not> IsSuperAdmin scope \<and> id_Role ident \<noteq> ''super_admin''"
  shows "(\<forall>x \<in> set (og_Orgs st). \<not> may_admin sc (org_ID x) \<longrightarrow> x \<in> set (og_Orgs (org_step env sc cmd st))) \<and>
         (\<forall>x \<in> set (og_Orgs (org_step env sc cmd st)). org_ID x \<notin> org_ID ` set (og_Orgs st) \<longrightarrow>
            (\<exists>p. org_ParentID x = Some p \<and> may_admin sc p))"
    (is "?P (org_step env sc cmd st)")
proof (cases cmd)
  case (CreateOrg body)
  have "?P (snd (create_org env sc body st))"
    unfolding create_org_def using assms
    by (intro ends_inI [of ?P] handler_walk)
       (auto simp: insert_org_def Let_def may_admin_def split: if_splits option.splits)
  with CreateOrg show ?thesis by (simp add: org_step_def)
next
  case (UpdateOrg oid body)
  have "?P (snd (update_org env oid sc body st))"
    unfolding update_org_def using assms
    by (intro ends_inI [of ?P] handler_walk) (auto simp: may_admin_def update_where_def image_iff split: if_splits)
  with UpdateOrg show ?thesis by (simp add: org_step_def)
next
  case (DeleteOrg oid)
  have "?P (snd (delete_org (ox_Err env) oid sc st))"
    unfolding delete_org_def using assms by (intro ends_inI [of ?P] handler_walk) auto
  with DeleteOrg show ?thesis by (simp add: org_step_def)
qed

lemma scope_not_super:
  assumes "FromContext err orgs (Some ident) = Some sc" "id_Role ident \<noteq> ''super_admin''"
  shows "case sc of Inl e \<Rightarrow> True | Inr (scope, ident) \<Rightarrow> \<not> IsSuperAdmin scope \<and> id_Role ident \<noteq> ''super_admin''"
proof -
  obtain z where z: "ScopeForIdentity err orgs ident = Some z" "sc = (case z of Inl e \<Rightarrow> Inl e | Inr s \<Rightarrow> Inr (s, ident))"
    using assms(1) by (auto simp: FromContext_def)
  then show ?thesis using assms(2) by (cases z) (auto simp: ScopeForIdentity_def Let_def split: if_splits)
qed

text \<open>C21 (organizations isolated): a request of a caller who is no super administrator leaves every organization outside
  the caller's subtree as it is, and what it creates hangs below an organization of that subtree.\<close>

theorem org_requests_isolated:
  assumes "wf_orgs (og_Orgs st)" "id_OrganizationID ident \<in> org_ID ` set (og_Orgs st)" "id_Role ident \<noteq> ''super_admin''"
    "org_request env (Some ident) cmd st = Some st'"
  shows "(\<forall>x \<in> set (og_Orgs st). (id_OrganizationID ident, org_ID x) \<notin> (parent_rel (og_Orgs st))\<^sup>* \<longrightarrow> x \<in> set (og_Orgs st')) \<and>
         (\<forall>x \<in> set (og_Orgs st'). org_ID x \<notin> org_ID ` set (og_Orgs st) \<longrightarrow>
            (\<exists>p. org_ParentID x = Some p \<and> (id_OrganizationID ident, p) \<in> (parent_rel (og_Orgs st))\<^sup>*))"
proof -
  obtain sc where sc: "FromContext (ox_Err env) (og_Orgs st) (Some ident) = Some sc" and st': "st' = org_step env sc cmd st"
    using assms(4) by (auto simp: org_request_def)
  from org_step_scope [OF scope_not_super [OF sc assms(3)], of st env cmd, folded st'] FromContext_admin [OF assms(1-3) sc] show ?thesis by blast
qed

lemma org_requests_isolated_witness:
  "\<exists>st'. org_request (sample_org_env 3) (Some (snd (sample_caller 2 ''msp_admin''))) (UpdateOrg (Some 1) (Inr (sample_org_body ''abc'')))
           sample_orgs = Some st' \<and> hd (og_Orgs sample_orgs) \<in> set (og_Orgs st')"
proof -
  let ?ident = "snd (sample_caller 2 ''msp_admin'')"
  have wf: "wf_orgs (og_Orgs sample_orgs)" and there: "id_OrganizationID ?ident \<in> org_ID ` set (og_Orgs sample_orgs)"
    and role: "id_Role ?ident \<noteq> ''super_admin''"
    by (simp_all add: sample_orgs_def sample_org_def sample_caller_def wf_orgs_def)
  obtain st' where st': "org_request (sample_org_env 3) (Some ?ident) (UpdateOrg (Some 1) (Inr (sample_org_body ''abc''))) sample_orgs = Some st'"
    using scope_query_ends [OF wf, of "ox_Err (sample_org_env 3)" "Some ?ident"] that unfolding org_request_def by auto
  have "(2, 1) \<notin> (parent_rel (og_Orgs sample_orgs))\<^sup>*"
    by (auto simp: sample_orgs_def sample_org_def parent_rel_def elim: converse_rtranclE)
  with org_requests_isolated [OF wf there role st'] st' show ?thesis
    by (auto simp: sample_orgs_def sample_org_def sample_caller_def)
qed

end
