(* ===== verification/Platform.thy ===== *)
theory Platform
  imports Settings Orgs SenderLists AuthStore
begin

text \<open>
  Three small packages: \<open>internal/billing/billing.go\<close> (the signed webhook and its list), \<open>internal/cluster/cluster.go\<close> (the heartbeat
  of the nodes) and \<open>internal/bootstrap/bootstrap.go\<close> (what a start writes before the first request; the migrations themselves
  are run by a third-party tool), with the checks of \<open>internal/config/config.go\<close>. JSON decoding, the keyed hash, the address parser, the
  host name and random bytes are parameters.
\<close>

section \<open>Billing webhooks\<close>

record billing_event =
  bl_ID :: uuid
  bl_Provider :: string
  bl_EventType :: "string option"
  bl_ExternalID :: "string option"
  bl_Payload :: string
  bl_SignatureValid :: bool
  bl_ReceivedAt :: nat

record billing_env =
  by_Err :: faults
  by_Now :: nat
  by_Secret :: string
  by_HMAC :: "string \<Rightarrow> string \<Rightarrow> string"
  by_Decode :: "string \<Rightarrow> json_map result"
  by_ValidJSON :: "string \<Rightarrow> bool"
  by_Settings :: "setting_row list"
  by_NewID :: uuid

text \<open>\<open>^[a-z0-9_-]{2,32}$\<close>\<close>

definition providerRe :: "string \<Rightarrow> bool" where
  "providerRe s = (length s \<ge> 2 \<and> length s \<le> 32 \<and> list_all (\<lambda>c. is_lower c \<or> is_digit c \<or> c = CHR ''_'' \<or> c = CHR ''-'') s)"

definition billingWebhooksEnabled :: "faults \<Rightarrow> setting_row list \<Rightarrow> bool" where
  "billingWebhooksEnabled err rows =
     (case settings_Lookup err rows ''billing.webhooks_enabled'' of
        Inl e \<Rightarrow> False
      | Inr None \<Rightarrow> False
      | Inr (Some v) \<Rightarrow> v = JBool True)"

definition verifyBillingSig :: "(string \<Rightarrow> string \<Rightarrow> string) \<Rightarrow> string \<Rightarrow> string \<Rightarrow> string \<Rightarrow> bool" where
  "verifyBillingSig hmac secret body sigHex =
     (case hex_decode (trim_space sigHex) of None \<Rightarrow> False | Some got \<Rightarrow> got = hmac secret body)"

fun stringPtr :: "json_map \<Rightarrow> string list \<Rightarrow> string option" where
  "stringPtr payload [] = None"
| "stringPtr payload (key # keys) =
     (case map_of payload key of
        Some (JStr value) \<Rightarrow> (if trim_space value \<noteq> [] then Some (trim_space value) else stringPtr payload keys)
      | _ \<Rightarrow> stringPtr payload keys)"

definition maxBodyBytes :: nat where "maxBodyBytes = 2 ^ 20"

text \<open>The body is decoded before its signature is looked at.\<close>

definition webhook ::
  "billing_env \<Rightarrow> string \<Rightarrow> string \<Rightarrow> string \<Rightarrow> billing_event list \<Rightarrow> (uuid \<times> string) response \<times> billing_event list" where
  "webhook env arg body signature events =
     (let provider = to_lower (trim_space arg)
      in if \<not> providerRe provider then (WriteError 400 ''invalid provider'', events)
         else if length (by_Secret env) < 16 then (WriteError 503 ''webhook signing is not configured'', events)
         else if \<not> billingWebhooksEnabled (by_Err env) (by_Settings env) then (WriteError 403 ''billing webhooks disabled'', events)
         else if length body > maxBodyBytes then (WriteError 400 ''http: request body too large'', events)
         else case by_Decode env body of
           Inl e \<Rightarrow> (WriteError 400 e, events)
         | Inr payload \<Rightarrow>
             if \<not> verifyBillingSig (by_HMAC env) (by_Secret env) body signature then (WriteError 401 ''bad signature'', events)
             else if by_Err env ''insert billing_webhook_events'' \<or> \<not> by_ValidJSON env body then (WriteError 500 ''store failed'', events)
             else (WriteJSON 202 (by_NewID env, ''accepted''), events @
               [\<lparr>bl_ID = by_NewID env, bl_Provider = provider,
                 bl_EventType = stringPtr payload [''event_type'', ''event'', ''type''],
                 bl_ExternalID = stringPtr payload [''id'', ''event_id'', ''invoice_id'', ''service_id''],
                 bl_Payload = body, bl_SignatureValid = True, bl_ReceivedAt = by_Now env\<rparr>]))"

definition list_billing :: "faults \<Rightarrow> identity option \<Rightarrow> page \<Rightarrow> billing_event list \<Rightarrow> billing_event list_envelope response" where
  "list_billing err ctx pg events =
     (case ctx of
        None \<Rightarrow> WriteError 401 ''auth''
      | Some ident \<Rightarrow>
          if id_Role ident \<noteq> ''super_admin'' then WriteError 403 ''super_admin required''
          else if err ''select billing_webhook_events'' then WriteError 500 ''db''
          else if err ''count billing_webhook_events'' then WriteError 500 ''count''
          else WriteJSON 200 (envelope pg (sort_key (\<lambda>e. - int (bl_ReceivedAt e)) events)))"

text \<open>Only signed bodies are stored, under the name of a provider.\<close>

lemma webhook_stores_signed:
  "list_all (\<lambda>e. e \<in> set events \<or>
      (providerRe (bl_Provider e) \<and> length (by_Secret env) \<ge> 16 \<and> bl_Payload e = body \<and>
       hex_decode (trim_space signature) = Some (by_HMAC env (by_Secret env) body)))
     (snd (webhook env arg body signature events))"
  unfolding webhook_def
  by (rule ends_inI, intro handler_walk) (auto simp: list_all_iff verifyBillingSig_def split: option.splits)

section \<open>Nodes\<close>

record cluster_node =
  cn_ID :: string
  cn_Hostname :: string
  cn_Version :: string
  cn_LastSeenAt :: nat

record cluster_status =
  cs_Mode :: string
  cs_LocalID :: string
  cs_Hostname :: string
  cs_Version :: string
  cs_Nodes :: "cluster_node list"
  cs_Checked :: nat

definition cluster_lookupString :: "faults \<Rightarrow> setting_row list \<Rightarrow> string \<Rightarrow> string" where
  "cluster_lookupString err rows key =
     (case settings_Lookup err rows key of
        Inr (Some (JStr value)) \<Rightarrow> trim_space value
      | _ \<Rightarrow> [])"

fun firstNonEmpty :: "string list \<Rightarrow> string" where
  "firstNonEmpty [] = []"
| "firstNonEmpty (value # values) = (if trim_space value \<noteq> [] then trim_space value else firstNonEmpty values)"

definition heartbeat :: "nat \<Rightarrow> string \<Rightarrow> string \<Rightarrow> string \<Rightarrow> cluster_node list \<Rightarrow> cluster_node list" where
  "heartbeat now version nodeID host_name nodes =
     upsert_row cn_ID (\<lambda>_ new. new) \<lparr>cn_ID = nodeID, cn_Hostname = host_name, cn_Version = version, cn_LastSeenAt = now\<rparr> nodes"

definition cluster_status_of ::
  "faults \<Rightarrow> nat \<Rightarrow> string \<Rightarrow> string \<Rightarrow> setting_row list \<Rightarrow> identity option \<Rightarrow> cluster_node list \<Rightarrow>
     cluster_status response \<times> cluster_node list" where
  "cluster_status_of err now version host_name rows ctx nodes =
     (case ctx of
        None \<Rightarrow> (WriteError 401 ''auth'', nodes)
      | Some ident \<Rightarrow>
          if id_Role ident \<noteq> ''super_admin'' then (WriteError 403 ''super_admin required'', nodes)
          else
            (let nodeID = firstNonEmpty [cluster_lookupString err rows ''cluster.node_id'', host_name];
                 mode = firstNonEmpty [cluster_lookupString err rows ''cluster.mode'', ''single''];
                 nodes' = heartbeat now version nodeID host_name nodes
             in if err ''insert cluster_nodes'' then (WriteError 500 ''heartbeat failed'', nodes)
                else if err ''select cluster_nodes'' then (WriteError 500 ''node list failed'', nodes')
                else (WriteJSON 200 \<lparr>cs_Mode = mode, cs_LocalID = nodeID, cs_Hostname = host_name, cs_Version = version,
                        cs_Nodes = sort_key (\<lambda>n. - int (cn_LastSeenAt n)) nodes', cs_Checked = now\<rparr>, nodes')))"

section \<open>Start of the process\<close>

text \<open>The lengths that \<open>config.Load\<close> asks for after the environment was read.\<close>

definition config_ok :: "string \<Rightarrow> string \<Rightarrow> string option" where
  "config_ok sessionSecret auditKey =
     (if length sessionSecret < 32 then Some ''config: SMG_SESSION_SECRET must be at least 32 chars''
      else if length auditKey < 32 then Some ''config: SMG_AUDIT_HMAC_KEY must be at least 32 chars''
      else None)"

definition normalizedSystemFromAddress :: "addr_env \<Rightarrow> string \<Rightarrow> string result" where
  "normalizedSystemFromAddress addr value0 =
     (let value = trim_space value0
      in if value = [] then Inr []
         else case ParseAddress addr value of
           None \<Rightarrow> Inl ''bootstrap: SMG_SYSTEM_FROM_ADDRESS must be a valid email address''
         | Some a \<Rightarrow> if a = [] then Inl ''bootstrap: SMG_SYSTEM_FROM_ADDRESS must be a valid email address'' else Inr (to_lower a))"

definition ApplyEnvironmentSettings ::
  "faults \<Rightarrow> addr_env \<Rightarrow> nat \<Rightarrow> string \<Rightarrow> setting_row list \<Rightarrow> string option \<times> setting_row list" where
  "ApplyEnvironmentSettings err addr now value rows =
     (case normalizedSystemFromAddress addr value of
        Inl e \<Rightarrow> (Some e, rows)
      | Inr a \<Rightarrow>
          if a = [] then (None, rows)
          else if err ''insert system_settings'' then (Some ''bootstrap: system from address: '', rows)
          else (None, upsert_row setting_key (\<lambda>old new. old\<lparr>st_Value := st_Value new, st_UpdatedAt := now\<rparr>)
                 \<lparr>st_OrganizationID = None, st_Key = ''mail.system_from_address'', st_Value = JStr a, st_UpdatedBy = None,
                  st_UpdatedAt = now\<rparr> rows))"

record seed_env =
  se_Err :: faults
  se_Now :: nat
  se_Email :: string
  se_Password :: string
  se_Random :: string
  se_Salt :: string
  se_Argon :: argon
  se_OrgRow :: uuid
  se_UserRow :: uuid

definition seed_user :: "seed_env \<Rightarrow> string \<Rightarrow> string \<Rightarrow> user_row" where
  "seed_user env email hash =
     \<lparr>u_ID = se_UserRow env, u_OrganizationID = se_OrgRow env, u_Email = email, u_PasswordHash = hash, u_Role = ''super_admin'',
      u_DisplayName = None, u_IsActive = True, u_MFASecret = None, u_MFAEnrolledAt = None, u_LastLoginAt = None, u_FailedLoginCount = 0,
      u_PhishingAlertFrequency = ''weekly'', u_BulkCompletionNotify = ''email'', u_ChallengeResponseMode = ''inherit'',
      u_ChallengeAlertFrequency = ''immediate'', u_CreatedAt = se_Now env, u_UpdatedAt = se_Now env\<rparr>"

definition SeedIfEmpty :: "seed_env \<Rightarrow> org_state \<Rightarrow> string option \<times> org_state" where
  "SeedIfEmpty env st =
     (if se_Err env ''count organizations'' then (Some ''bootstrap: count orgs: '', st)
      else if og_Orgs st \<noteq> [] then (None, st)
      else
        (let email0 = trim_space (to_lower (se_Email env)); email = (if email0 = [] then ''admin@sentinelmail.local'' else email0);
             password = (if se_Password env = [] then hex_encode (se_Random env) else se_Password env)
         in case HashPassword (se_Argon env) (se_Salt env) password of
              Inl e \<Rightarrow> (Some e, st)
            | Inr hash \<Rightarrow>
                if se_Err env ''begin'' then (Some ''begin'', st)
                else if se_Err env ''insert organizations'' then (Some ''bootstrap: create org: '', st)
                else if se_Err env ''insert users'' then (Some ''bootstrap: create user: '', st)
                else if se_Err env ''commit'' then (Some ''commit'', st)
                else (None, st\<lparr>og_Orgs := [\<lparr>org_ID = se_OrgRow env, org_Name = ''System'', org_Slug = ''system'', org_ParentID = None,
                                             org_IsSystem = True, org_IsActive = True\<rparr>],
                               og_Users := og_Users st @ [seed_user env email hash]\<rparr>)))"

text \<open>The table that a first start leaves is a forest, from which all requests to organizations are answered.\<close>

lemma seed_forest:
  assumes "wf_orgs (og_Orgs st)" "distinct (map org_Slug (og_Orgs st))"
  shows "wf_orgs (og_Orgs (snd (SeedIfEmpty env st))) \<and> distinct (map org_Slug (og_Orgs (snd (SeedIfEmpty env st))))"
  unfolding SeedIfEmpty_def using assms
  by (intro ends_inI [of "\<lambda>st'. wf_orgs (og_Orgs st') \<and> distinct (map org_Slug (og_Orgs st'))"] handler_walk)
     (auto simp: wf_orgs_def)

lemma seed_leaves_org: "runs_to (\<lambda>(e, st'). e = None \<longrightarrow> og_Orgs st' \<noteq> []) (SeedIfEmpty env st)"
  unfolding SeedIfEmpty_def by (intro run_walk) auto

lemma seed_only_once:
  assumes "SeedIfEmpty env st = (None, st')"
  shows "snd (SeedIfEmpty env' st') = st'"
proof -
  have "og_Orgs st' \<noteq> []" using seed_leaves_org [of env st] by (simp add: assms runs_to_def)
  then show ?thesis by (simp add: SeedIfEmpty_def)
qed

end
