(* ===== verification/Brands.thy ===== *)
theory Brands
  imports ThreatFeed GoScan Sql AuditLog MailBrand
begin

text \<open>
  \<open>internal/brandintel\<close>: the catalog of brands that phishing mail imitates (\<open>catalog.go\<close>), its administration
  (\<open>handler.go\<close>) and the import of the brands that PhishTank observes (\<open>phishtank.go\<close>). Parameters are the built-in
  list, the parser of RFC 3339 times and what the download yields after gzip and CSV decoding. A \<open>time.Time\<close> is the number of
  nanoseconds since the zero time. The identifiers come from a sequence, which every insertion advances.
\<close>

record Profile =
  pf_Name :: string
  pf_Slug :: string
  pf_Aliases :: "string list"
  pf_OfficialDomains :: "string list"
  pf_Cues :: "string list"
  pf_Priority :: int

record seedProfile =
  sp_Profile :: Profile
  sp_Group :: string

record brand_row =
  br_ID :: nat
  br_Slug :: string
  br_Name :: string
  br_Aliases :: "string list"
  br_OfficialDomains :: "string list"
  br_Cues :: "string list"
  br_Protected :: bool
  br_Priority :: int
  br_Active :: bool
  br_ReviewedAt :: "nat option"
  br_UpdatedAt :: nat

datatype evidence_metadata =
    CueGroup string
  | ImportPosition nat

record evidence_row =
  bv_BrandID :: nat
  bv_Source :: string
  bv_SourceBrandName :: string
  bv_ObservationCount :: nat
  bv_SourceRank :: "int option"
  bv_FirstSeen :: "int option"
  bv_LastSeen :: "int option"
  bv_SourceURL :: string
  bv_LicenseNote :: string
  bv_Metadata :: evidence_metadata
  bv_RefreshedAt :: nat

section \<open>The built-in list\<close>

definition splitList :: "string \<Rightarrow> string list" where
  "splitList raw =
     dedup_on (\<lambda>v. v) [] (filter (\<lambda>v. v \<noteq> []) (map (\<lambda>p. to_lower (trim_space p)) (split_char raw CHR '';'')))"

fun slug_loop :: "bool \<Rightarrow> string \<Rightarrow> string \<Rightarrow> string" where
  "slug_loop dash b [] = b"
| "slug_loop dash b (r # value) =
     (if is_lower r \<or> is_digit r then slug_loop False (b @ [r]) value
      else if b \<noteq> [] \<and> \<not> dash then slug_loop True (b @ ''-'') value
      else slug_loop dash b value)"

definition normalizeSlug :: "string \<Rightarrow> string" where
  "normalizeSlug value = trim (slug_loop False [] (to_lower (trim_space value))) ''-''"

definition cueGroups :: "(string \<times> string list) list" where
  "cueGroups =
    [(''identity'', [''account'', ''password'', ''security'', ''verify'', ''verification'', ''sign in'', ''login'', ''subscription'', ''billing'', ''storage'']),
     (''finance'', [''account'', ''payment'', ''card'', ''transaction'', ''invoice'', ''refund'', ''charged'', ''billing'', ''verify'', ''security'', ''statement'']),
     (''commerce'', [''account'', ''order'', ''shipment'', ''delivery'', ''payment'', ''invoice'', ''receipt'', ''refund'', ''membership'', ''reward'']),
     (''delivery'', [''package'', ''parcel'', ''shipment'', ''delivery'', ''tracking'', ''address'', ''postage'', ''fee'', ''reschedule'']),
     (''streaming'', [''account'', ''payment'', ''billing'', ''subscription'', ''premium'', ''update'', ''verify'', ''sign in'', ''login'', ''membership'']),
     (''social'', [''account'', ''password'', ''security'', ''verify'', ''verification'', ''sign in'', ''login'', ''message'', ''business'']),
     (''crypto'', [''account'', ''wallet'', ''seed phrase'', ''recovery phrase'', ''verify'', ''security'', ''withdrawal'', ''transaction'', ''airdrop'']),
     (''telecom'', [''account'', ''bill'', ''billing'', ''payment'', ''upgrade'', ''reward'', ''verify'', ''security'', ''service'']),
     (''travel'', [''account'', ''booking'', ''reservation'', ''payment'', ''refund'', ''cancel'', ''verify'', ''itinerary'', ''reward'']),
     (''gaming'', [''account'', ''password'', ''security'', ''verify'', ''sign in'', ''login'', ''wallet'', ''gift'', ''subscription'']),
     (''government'', [''account'', ''tax'', ''refund'', ''notice'', ''benefit'', ''payment'', ''verify'', ''identity'', ''urgent'']),
     (''business'', [''account'', ''password'', ''security'', ''verify'', ''sign in'', ''login'', ''document'', ''shared'', ''invoice'', ''subscription''])]"

definition default_line :: "nat \<Rightarrow> string list \<Rightarrow> string \<Rightarrow> seedProfile option result" where
  "default_line lineNo seen text0 =
     (let line = trim_space text0; bad = (\<lambda>e. Inl (''default brand line '' @ itoa lineNo @ '': '' @ e)); parts = split_char line CHR ''|''
      in if line = [] \<or> has_prefix line ''#'' then Inr None
         else if length parts \<noteq> 6 then bad ''expected 6 fields''
         else case atoi (trim_space (parts ! 5)) of
           None \<Rightarrow> bad ''invalid priority''
         | Some priority \<Rightarrow>
             (let slug = normalizeSlug (parts ! 0); group = trim_space (parts ! 4)
              in if priority < 0 then bad ''invalid priority''
                 else if slug = [] then bad ''empty slug''
                 else if slug \<in> set seen then bad (''duplicate slug '' @ slug)
                 else case map_of cueGroups group of
                   None \<Rightarrow> bad (''unknown cue group '' @ group)
                 | Some cues \<Rightarrow>
                     (let p = \<lparr>pf_Name = trim_space (parts ! 1), pf_Slug = slug, pf_Aliases = splitList (parts ! 2),
                               pf_OfficialDomains = splitList (parts ! 3), pf_Cues = cues, pf_Priority = priority\<rparr>
                      in if pf_Name p = [] \<or> pf_Aliases p = [] \<or> pf_OfficialDomains p = [] then
                           bad ''name, aliases, and domains are required''
                         else Inr (Some \<lparr>sp_Profile = p, sp_Group = group\<rparr>))))"

text \<open>A line of 64 KiB or more ends the scan; the error is reported after the lines before it.\<close>

fun default_lines :: "nat \<Rightarrow> string list \<Rightarrow> string list \<Rightarrow> seedProfile list result" where
  "default_lines lineNo seen [] = Inr []"
| "default_lines lineNo seen (line # lines) =
     (if length line \<ge> 64 * 2 ^ 10 then Inl ''bufio.Scanner: token too long''
      else case default_line (Suc lineNo) seen line of
        Inl e \<Rightarrow> Inl e
      | Inr None \<Rightarrow> default_lines (Suc lineNo) seen lines
      | Inr (Some p) \<Rightarrow>
          map_sum id ((#) p) (default_lines (Suc lineNo) (pf_Slug (sp_Profile p) # seen) lines))"

definition parseDefaults :: "string \<Rightarrow> seedProfile list result" where
  "parseDefaults raw =
     (case default_lines 0 [] (line_split raw) of
        Inl e \<Rightarrow> Inl e
      | Inr out \<Rightarrow>
          if length out < 100 \<or> length out > 1000 then
            Inl (''default brand count '' @ itoa (length out) @ '' outside supported range 100..1000'')
          else Inr out)"

section \<open>The tables\<close>

text \<open>The cache of a catalog: its profiles and when they were loaded.\<close>

record catalog_cache =
  ct_Profiles :: "Profile list"
  ct_LoadedAt :: "nat option"

record brand_state =
  bs_Brands :: "brand_row list"
  bs_Evidence :: "evidence_row list"
  bs_Feeds :: "FeedConfig list"
  bs_NextID :: nat
  bs_Catalog :: "catalog_cache option"
  bs_Refreshing :: bool
  bs_Audit :: "audit_row list"

definition brand_where :: "(brand_row \<Rightarrow> brand_row \<Rightarrow> brand_row) \<Rightarrow> brand_row \<Rightarrow> brand_state \<Rightarrow> nat \<times> brand_state" where
  "brand_where merge new st =
     (let brands = upsert_row br_Slug merge new (bs_Brands st)
      in (case row_of br_Slug (br_Slug new) brands of None \<Rightarrow> 0 | Some b \<Rightarrow> br_ID b,
          st\<lparr>bs_Brands := brands, bs_NextID := Suc (bs_NextID st)\<rparr>))"

definition put_evidence :: "evidence_row \<Rightarrow> brand_state \<Rightarrow> brand_state" where
  "put_evidence new st =
     st\<lparr>bs_Evidence := upsert_row (\<lambda>v. (bv_BrandID v, bv_Source v)) (\<lambda>_ new. new) new (bs_Evidence st)\<rparr>"

record brand_env =
  bx_Err :: faults
  bx_Now :: nat
  bx_ValidInet :: "string \<Rightarrow> bool"
  bx_ParseTime :: "string \<Rightarrow> int option"
  bx_Get :: "string \<Rightarrow> (nat \<times> (string + string list result list)) option"

definition builtinSource :: string where "builtinSource = ''builtin-curated''"
definition phishTankFeedName :: string where "phishTankFeedName = ''phishtank_brands''"
definition phishTankBaseURL :: string where "phishTankBaseURL = ''https://data.phishtank.com/data/''"
definition phishTankLicenseURL :: string where "phishTankLicenseURL = ''https://www.phishtank.com/developer_info.php''"
definition maxImportedTargets :: nat where "maxImportedTargets = 1000"

text \<open>What a built-in profile makes of a brand that is there: a manual review protects all columns but the priority.\<close>

definition merge_seed :: "nat \<Rightarrow> brand_row \<Rightarrow> brand_row \<Rightarrow> brand_row" where
  "merge_seed now old new =
     old\<lparr>br_Name := (if br_ReviewedAt old = None then br_Name new else br_Name old),
         br_Aliases := (if br_ReviewedAt old = None then br_Aliases new else br_Aliases old),
         br_OfficialDomains := (if br_ReviewedAt old = None then br_OfficialDomains new else br_OfficialDomains old),
         br_Cues := (if br_ReviewedAt old = None then br_Cues new else br_Cues old),
         br_Protected := (if br_ReviewedAt old = None then True else br_Protected old),
         br_Priority := max (br_Priority old) (br_Priority new), br_UpdatedAt := now\<rparr>"

definition seed_row :: "nat \<Rightarrow> nat \<Rightarrow> Profile \<Rightarrow> brand_row" where
  "seed_row now i p =
     \<lparr>br_ID = i, br_Slug = pf_Slug p, br_Name = pf_Name p, br_Aliases = pf_Aliases p, br_OfficialDomains = pf_OfficialDomains p,
      br_Cues = pf_Cues p, br_Protected = True, br_Priority = pf_Priority p, br_Active = True, br_ReviewedAt = None, br_UpdatedAt = now\<rparr>"

definition seed_evidence :: "nat \<Rightarrow> nat \<Rightarrow> seedProfile \<Rightarrow> evidence_row" where
  "seed_evidence now brandID seed =
     \<lparr>bv_BrandID = brandID, bv_Source = builtinSource, bv_SourceBrandName = pf_Name (sp_Profile seed), bv_ObservationCount = 0,
      bv_SourceRank = Some (pf_Priority (sp_Profile seed)), bv_FirstSeen = None, bv_LastSeen = None,
      bv_SourceURL = ''https://blog.checkpoint.com/research/which-brands-are-impersonated-most-inside-the-q2-2026-brand-phishing-report/'',
      bv_LicenseNote = ''Independently curated brand/domain mapping informed by public vendor reports; no third-party feed records redistributed.'',
      bv_Metadata = CueGroup (sp_Group seed), bv_RefreshedAt = now\<rparr>"

text \<open>The columns of the priority and the rank are 32-bit integers.\<close>

fun seed_brands :: "brand_env \<Rightarrow> seedProfile list \<Rightarrow> brand_state \<Rightarrow> brand_state result" where
  "seed_brands env [] st = Inr st"
| "seed_brands env (seed # seeds) st =
     (let p = sp_Profile seed
      in if bx_Err env (''insert phishing_brands '' @ pf_Slug p) \<or> pf_Priority p \<ge> 2 ^ 31 then Inl (''seed brand '' @ pf_Slug p @ '': '')
         else
           (let (brandID, st') = brand_where (merge_seed (bx_Now env)) (seed_row (bx_Now env) (bs_NextID st) p) st
            in if bx_Err env (''insert phishing_brand_evidence '' @ pf_Slug p) then Inl (''seed evidence '' @ pf_Slug p @ '': '')
               else seed_brands env seeds (put_evidence (seed_evidence (bx_Now env) brandID seed) st')))"

definition EnsureDefaults :: "brand_env \<Rightarrow> string \<Rightarrow> brand_state \<Rightarrow> string option \<times> brand_state" where
  "EnsureDefaults env raw st =
     (case parseDefaults raw of
        Inl e \<Rightarrow> (Some e, st)
      | Inr profiles \<Rightarrow>
          if bx_Err env ''begin'' then (Some ''begin'', st)
          else case seed_brands env profiles st of
            Inl e \<Rightarrow> (Some e, st)
          | Inr st' \<Rightarrow> if bx_Err env ''commit'' then (Some ''commit'', st) else (None, st'))"

text \<open>A reviewed brand keeps what its reviewer gave it, except that the built-in priority wins when it is larger.\<close>

lemma merge_seed_reviewed:
  "br_ReviewedAt old \<noteq> None \<Longrightarrow>
     merge_seed now old new = old\<lparr>br_Priority := max (br_Priority old) (br_Priority new), br_UpdatedAt := now\<rparr>"
  by (cases old) (auto simp: merge_seed_def)

section \<open>The catalog that ingest asks\<close>

definition profile_of :: "brand_row \<Rightarrow> Profile" where
  "profile_of b =
     \<lparr>pf_Name = br_Name b, pf_Slug = br_Slug b, pf_Aliases = br_Aliases b, pf_OfficialDomains = br_OfficialDomains b,
      pf_Cues = br_Cues b, pf_Priority = br_Priority b\<rparr>"

definition protected_query :: "brand_row list \<Rightarrow> Profile list" where
  "protected_query brands =
     take 1000 (map profile_of (sort_key (\<lambda>b. (- br_Priority b, map byte (br_Name b)))
       (filter (\<lambda>b. br_Active b \<and> br_Protected b \<and> br_Aliases b \<noteq> [] \<and> br_OfficialDomains b \<noteq> []) brands)))"

definition catalog_ttl :: nat where "catalog_ttl = 300"

definition cache_fresh :: "nat \<Rightarrow> catalog_cache \<Rightarrow> bool" where
  "cache_fresh now c =
     (ct_Profiles c \<noteq> [] \<and> (case ct_LoadedAt c of None \<Rightarrow> False | Some t \<Rightarrow> now < t + catalog_ttl))"

definition ProtectedProfiles ::
  "brand_env \<Rightarrow> brand_row list \<Rightarrow> catalog_cache option \<Rightarrow> Profile list result \<times> catalog_cache option" where
  "ProtectedProfiles env brands catalog =
     (case catalog of
        None \<Rightarrow> (Inr [], None)
      | Some c \<Rightarrow>
          if cache_fresh (bx_Now env) c then (Inr (ct_Profiles c), Some c)
          else if bx_Err env ''select protected brands'' then (Inl ''select protected brands'', Some c)
          else (let out = protected_query brands in (Inr out, Some \<lparr>ct_Profiles = out, ct_LoadedAt = Some (bx_Now env)\<rparr>)))"

definition Invalidate :: "catalog_cache option \<Rightarrow> catalog_cache option" where
  "Invalidate catalog = map_option (\<lambda>_. \<lparr>ct_Profiles = [], ct_LoadedAt = None\<rparr>) catalog"

text \<open>What ingest makes of a profile.\<close>

definition ingest_profile :: "Profile \<Rightarrow> protectedBrandProfile" where
  "ingest_profile p =
     \<lparr>bp_name = pf_Name p, bp_terms = pf_Aliases p, bp_senderDomains = pf_OfficialDomains p, bp_cues = pf_Cues p\<rparr>"

section \<open>The import of observed brands\<close>

record targetObservation =
  to_Slug :: string
  to_Name :: string
  to_Count :: nat
  to_FirstSeen :: int
  to_LastSeen :: int

definition normalizeTargetName :: "string \<Rightarrow> string" where
  "normalizeTargetName raw =
     (let value = join (str_fields (trim_space raw)) '' ''
      in if to_lower value \<in> {[], ''other'', ''unknown'', ''generic'', ''n/a'', ''na'', ''none'', ''unavailable''} then [] else value)"

definition observe :: "int option \<Rightarrow> targetObservation \<Rightarrow> targetObservation" where
  "observe parsed item0 =
     (let item = item0\<lparr>to_Count := Suc (to_Count item0)\<rparr>
      in case parsed of
           None \<Rightarrow> item
         | Some t \<Rightarrow>
             item\<lparr>to_FirstSeen := (if to_FirstSeen item = 0 \<or> t < to_FirstSeen item then t else to_FirstSeen item),
                  to_LastSeen := (if to_LastSeen item = 0 \<or> t > to_LastSeen item then t else to_LastSeen item)\<rparr>)"

text \<open>The observations in the order of their first record; Go keeps them in a map and sorts them afterwards.\<close>

definition observe_record ::
  "(string \<Rightarrow> int option) \<Rightarrow> nat \<Rightarrow> nat \<Rightarrow> string list \<Rightarrow> targetObservation list \<Rightarrow> targetObservation list" where
  "observe_record parse targetIndex submittedIndex cells observed =
     (if targetIndex \<ge> length cells then observed
      else
        (let name = normalizeTargetName (cells ! targetIndex); slug = normalizeSlug name;
             parsed = (if submittedIndex < length cells then parse (trim_space (cells ! submittedIndex)) else None)
         in if name = [] \<or> slug = [] then observed
            else upsert_row to_Slug (\<lambda>old _. observe parsed old)
                   (observe parsed \<lparr>to_Slug = slug, to_Name = name, to_Count = 0, to_FirstSeen = 0, to_LastSeen = 0\<rparr>) observed))"

fun csv_loop ::
  "(string \<Rightarrow> int option) \<Rightarrow> nat \<Rightarrow> nat \<Rightarrow> targetObservation list \<Rightarrow> string list result list \<Rightarrow> targetObservation list result" where
  "csv_loop parse ti si observed [] = Inr observed"
| "csv_loop parse ti si observed (Inl e # records) = Inl (''read PhishTank record: '' @ e)"
| "csv_loop parse ti si observed (Inr cells # records) = csv_loop parse ti si (observe_record parse ti si cells observed) records"

definition header_index :: "string list \<Rightarrow> string \<Rightarrow> nat option" where
  "header_index header name =
     map_of (rev (zip (map (\<lambda>h. to_lower (trim_space h)) header) [0..<length header])) name"

definition parsePhishTankCSV :: "(string \<Rightarrow> int option) \<Rightarrow> string list result list \<Rightarrow> targetObservation list result" where
  "parsePhishTankCSV parse csv =
     (case csv of
        [] \<Rightarrow> Inl ''read PhishTank header: EOF''
      | Inl e # _ \<Rightarrow> Inl (''read PhishTank header: '' @ e)
      | Inr header # records \<Rightarrow>
          (case header_index header ''target'' of
             None \<Rightarrow> Inl ''PhishTank feed is missing target column''
           | Some targetIndex \<Rightarrow>
               map_sum id (\<lambda>observed. take maxImportedTargets (sort_key (\<lambda>t. (- int (to_Count t), map byte (to_Name t))) observed))
                 (csv_loop parse targetIndex (coalesce (header_index header ''submission_time'') 0) [] records)))"

definition nullTime :: "int \<Rightarrow> int option" where
  "nullTime t = (if t = 0 then None else Some t)"

definition target_row :: "nat \<Rightarrow> nat \<Rightarrow> targetObservation \<Rightarrow> brand_row" where
  "target_row now i t =
     \<lparr>br_ID = i, br_Slug = normalizeSlug (to_Name t), br_Name = to_Name t, br_Aliases = [to_lower (to_Name t)], br_OfficialDomains = [],
      br_Cues = [], br_Protected = False, br_Priority = 0, br_Active = True, br_ReviewedAt = None, br_UpdatedAt = now\<rparr>"

definition target_evidence :: "nat \<Rightarrow> nat \<Rightarrow> nat \<Rightarrow> targetObservation \<Rightarrow> evidence_row" where
  "target_evidence now brandID rank t =
     \<lparr>bv_BrandID = brandID, bv_Source = phishTankFeedName, bv_SourceBrandName = to_Name t, bv_ObservationCount = to_Count t,
      bv_SourceRank = Some (int rank + 1), bv_FirstSeen = nullTime (to_FirstSeen t), bv_LastSeen = nullTime (to_LastSeen t),
      bv_SourceURL = phishTankLicenseURL,
      bv_LicenseNote = ''PhishTank verified feed target field; application key and Cisco/PhishTank terms apply.'',
      bv_Metadata = ImportPosition (rank + 1), bv_RefreshedAt = now\<rparr>"

fun store_loop :: "brand_env \<Rightarrow> nat \<Rightarrow> targetObservation list \<Rightarrow> brand_state \<Rightarrow> brand_state result" where
  "store_loop env rank [] st = Inr st"
| "store_loop env rank (t # ts) st =
     (let slug = normalizeSlug (to_Name t)
      in if bx_Err env (''insert phishing_brands '' @ slug) then Inl (''upsert PhishTank brand '' @ slug @ '': '')
         else
           (let (brandID, st') = brand_where (\<lambda>old _. old\<lparr>br_UpdatedAt := bx_Now env\<rparr>) (target_row (bx_Now env) (bs_NextID st) t) st
            in if bx_Err env (''insert phishing_brand_evidence '' @ slug) then Inl (''upsert PhishTank evidence '' @ slug @ '': '')
               else store_loop env (Suc rank) ts (put_evidence (target_evidence (bx_Now env) brandID rank t) st')))"

definition store_observations :: "brand_env \<Rightarrow> targetObservation list \<Rightarrow> brand_state \<Rightarrow> string option \<times> brand_state" where
  "store_observations env observations st =
     (if bx_Err env ''begin'' then (Some ''begin'', st)
      else case store_loop env 0 observations st of
        Inl e \<Rightarrow> (Some e, st)
      | Inr st' \<Rightarrow>
          if bx_Err env ''update threat_feed_config'' then (Some ''update threat_feed_config'', st)
          else if bx_Err env ''commit'' then (Some ''commit'', st)
          else (None, st'\<lparr>bs_Feeds := update_where (\<lambda>c. fc_Feed c = phishTankFeedName) (\<lambda>c. c\<lparr>fc_LastRefreshErr := None\<rparr>) (bs_Feeds st')\<rparr>))"

text \<open>\<open>url.PathEscape\<close>: a path segment keeps only these bytes beside the unreserved ones.\<close>

fun PathEscape :: "string \<Rightarrow> string" where
  "PathEscape [] = []"
| "PathEscape (c # s) =
     (if unreserved c \<or> c \<in> set ''$&+=:@'' then c # PathEscape s
      else CHR ''%'' # hex_digit (byte c div 16) # hex_digit (byte c mod 16) # PathEscape s)"

definition Feed_Refresh :: "brand_env \<Rightarrow> brand_state \<Rightarrow> string option \<times> brand_state" where
  "Feed_Refresh env st =
     (if bx_Err env ''select threat_feed_config'' then (Some ''load PhishTank configuration: '', st)
      else case row_of fc_Feed phishTankFeedName (bs_Feeds st) of
        None \<Rightarrow> (Some ''load PhishTank configuration: no rows in result set'', st)
      | Some c \<Rightarrow>
          (let key = trim_space (text_or_empty (fc_APIKey c))
           in if key = [] then (Some ''PhishTank application key is not configured'', st)
              else case bx_Get env (phishTankBaseURL @ PathEscape key @ ''/online-valid.csv.gz'') of
                None \<Rightarrow> (Some ''download PhishTank feed: request failed'', st)
              | Some (code, answer) \<Rightarrow>
                  if code \<noteq> 200 then (Some (''download PhishTank feed: HTTP '' @ itoa code), st)
                  else case answer of
                    Inl e \<Rightarrow> (Some (''open PhishTank gzip: '' @ e), st)
                  | Inr csv \<Rightarrow>
                      (case parsePhishTankCSV (bx_ParseTime env) csv of
                         Inl e \<Rightarrow> (Some e, st)
                       | Inr observations \<Rightarrow> store_observations env observations st)))"

section \<open>Administration\<close>

definition requireBrandAdmin :: "identity option \<Rightarrow> bool \<Rightarrow> identity result" where
  "requireBrandAdmin ctx superOnly =
     (let refused = Inl (if superOnly then ''super_admin required'' else ''admin required'')
      in case ctx of
           None \<Rightarrow> refused
         | Some ident \<Rightarrow>
             if (superOnly \<and> id_Role ident \<noteq> ''super_admin'') \<or>
                (\<not> superOnly \<and> id_Role ident \<noteq> ''super_admin'' \<and> id_Role ident \<noteq> ''msp_admin'') then refused
             else Inr ident)"

definition brand_matches :: "string \<Rightarrow> brand_row \<Rightarrow> bool" where
  "brand_matches q b =
     (let query = trim_space q; like = (\<lambda>t. sql_like (''%'' @ to_lower query @ ''%'') (to_lower t))
      in query = [] \<or> like (br_Name b) \<or> like (br_Slug b) \<or> list_ex like (br_Aliases b) \<or> list_ex like (br_OfficialDomains b))"

record BrandDTO =
  bd_Brand :: brand_row
  bd_Evidence :: "evidence_row list"

definition brand_dto :: "evidence_row list \<Rightarrow> brand_row \<Rightarrow> BrandDTO" where
  "brand_dto evidence b =
     \<lparr>bd_Brand = b,
      bd_Evidence = sort_key (\<lambda>v. (bv_SourceRank v = None, coalesce (bv_SourceRank v) 0, map byte (bv_Source v)))
        (filter (\<lambda>v. bv_BrandID v = br_ID b) evidence)\<rparr>"

record SourceDTO =
  sd_Feed :: string
  sd_Enabled :: bool
  sd_RefreshSeconds :: int
  sd_SourceURL :: "string option"
  sd_HasAPIKey :: bool
  sd_LastRefreshAt :: "nat option"
  sd_LastRefreshOK :: "bool option"
  sd_LastRefreshErr :: "string option"
  sd_ObservedBrands :: nat
  sd_Refreshing :: bool

definition sourceStatus :: "faults \<Rightarrow> brand_state \<Rightarrow> SourceDTO list result" where
  "sourceStatus err st =
     (if err ''select brand sources'' then Inl ''select brand sources''
      else Inr (map (\<lambda>c.
        \<lparr>sd_Feed = fc_Feed c, sd_Enabled = fc_Enabled c, sd_RefreshSeconds = fc_RefreshInterval c, sd_SourceURL = fc_SourceURL c,
         sd_HasAPIKey = (text_or_empty (fc_APIKey c) \<noteq> []), sd_LastRefreshAt = fc_LastRefreshAt c, sd_LastRefreshOK = fc_LastRefreshOK c,
         sd_LastRefreshErr = fc_LastRefreshErr c,
         sd_ObservedBrands = length (remdups (map bv_BrandID (filter (\<lambda>v. bv_Source v = fc_Feed c) (bs_Evidence st)))),
         sd_Refreshing = (fc_Feed c = phishTankFeedName \<and> bs_Refreshing st)\<rparr>)
        (sort_key (\<lambda>c. map byte (fc_Feed c)) (filter (\<lambda>c. fc_Kind c = ''brand'') (bs_Feeds st)))))"

definition list_brands ::
  "faults \<Rightarrow> identity option \<Rightarrow> page \<Rightarrow> string \<Rightarrow> brand_state \<Rightarrow> (BrandDTO list_envelope \<times> SourceDTO list) response" where
  "list_brands err ctx pg q st =
     (case requireBrandAdmin ctx False of
        Inl e \<Rightarrow> WriteError 403 e
      | Inr ident \<Rightarrow>
          if err ''count phishing_brands'' then WriteError 500 ''brand count failed''
          else if err ''select phishing_brands'' then WriteError 500 ''brand list failed''
          else case sourceStatus err st of
            Inl e \<Rightarrow> WriteError 500 ''brand source status failed''
          | Inr sources \<Rightarrow> WriteJSON 200 (envelope pg (map (brand_dto (bs_Evidence st))
              (sort_key (\<lambda>b. (\<not> br_Protected b, - br_Priority b, map byte (br_Name b))) (filter (brand_matches q) (bs_Brands st)))), sources))"

definition normalizeValues :: "string list \<Rightarrow> string list" where
  "normalizeValues values =
     dedup_on (\<lambda>v. v) [] (filter (\<lambda>v. v \<noteq> [] \<and> length v \<le> 253) (map (\<lambda>raw. to_lower (trim_space raw)) values))"

definition valid_label :: "string \<Rightarrow> bool" where
  "valid_label label =
     (label \<noteq> [] \<and> length label \<le> 63 \<and> hd label \<noteq> CHR ''-'' \<and> last label \<noteq> CHR ''-'' \<and>
      list_all (\<lambda>r. is_lower r \<or> is_digit r \<or> r = CHR ''-'') label)"

definition validDomain :: "string \<Rightarrow> bool" where
  "validDomain domain =
     (if length domain > 253 \<or> \<not> contains domain ''.'' \<or> contains_chars domain (''/:@ '' @ [CHR 0x09, CHR 0x0D, CHR 0x0A]) \<or>
         has_prefix domain ''.'' \<or> has_suffix domain ''.'' then False
      else list_all valid_label (split_char domain CHR ''.''))"

record updateBrandRequest =
  ub_Name :: "string option"
  ub_Aliases :: "string list option"
  ub_OfficialDomains :: "string list option"
  ub_Cues :: "string list option"
  ub_Protected :: "bool option"
  ub_Priority :: "int option"
  ub_Active :: "bool option"

definition mergeBrandUpdate :: "brand_row \<Rightarrow> updateBrandRequest \<Rightarrow> brand_row result" where
  "mergeBrandUpdate current0 req =
     (let current = current0\<lparr>br_Name := coalesce (map_option trim_space (ub_Name req)) (br_Name current0),
        br_Aliases := coalesce (map_option normalizeValues (ub_Aliases req)) (br_Aliases current0),
        br_OfficialDomains := coalesce (map_option normalizeValues (ub_OfficialDomains req)) (br_OfficialDomains current0),
        br_Cues := coalesce (map_option normalizeValues (ub_Cues req)) (br_Cues current0),
        br_Protected := coalesce (ub_Protected req) (br_Protected current0),
        br_Priority := coalesce (ub_Priority req) (br_Priority current0),
        br_Active := coalesce (ub_Active req) (br_Active current0)\<rparr>
      in if br_Name current = [] \<or> length (br_Name current) > 128 then Inl ''name must be 1 to 128 characters''
         else if br_Priority current < 0 \<or> br_Priority current > 10000 then Inl ''priority must be between 0 and 10000''
         else if length (br_Aliases current) > 100 \<or> length (br_OfficialDomains current) > 100 \<or> length (br_Cues current) > 100 then
           Inl ''aliases, domains, and cues are limited to 100 values each''
         else case find (\<lambda>d. \<not> validDomain d) (br_OfficialDomains current) of
           Some d \<Rightarrow> Inl ''invalid official domain ''
         | None \<Rightarrow>
             if br_Active current \<and> br_Protected current \<and> (br_Aliases current = [] \<or> br_OfficialDomains current = []) then
               Inl ''protected brands require at least one alias and official domain''
             else Inr current)"

definition brand_audit_env :: "brand_env \<Rightarrow> audit_env" where
  "brand_audit_env env = \<lparr>ax_Err = bx_Err env, ax_Now = bx_Now env, ax_ValidInet = bx_ValidInet env\<rparr>"

definition update_event :: "identity \<Rightarrow> string \<Rightarrow> string \<Rightarrow> string \<Rightarrow> brand_row \<Rightarrow> audit_event" where
  "update_event ident xff remote slug b =
     (FromRequest (Some ident) xff remote ''phishing_brand.update'')
       \<lparr>ae_TargetKind := ''phishing_brand'', ae_TargetID := slug,
        ae_Detail := [(''name'', JStr (br_Name b)), (''aliases'', JArr (map JStr (br_Aliases b))),
          (''official_domains'', JArr (map JStr (br_OfficialDomains b))), (''cues'', JArr (map JStr (br_Cues b))),
          (''protected'', JBool (br_Protected b)), (''priority'', JNum (of_int (br_Priority b))), (''active'', JBool (br_Active b)),
          (''actor_role'', JStr (id_Role ident))]\<rparr>"

definition update_brand ::
  "brand_env \<Rightarrow> identity option \<Rightarrow> string \<Rightarrow> string \<Rightarrow> string \<Rightarrow> updateBrandRequest result \<Rightarrow> brand_state \<Rightarrow>
     BrandDTO response \<times> brand_state" where
  "update_brand env ctx xff remote arg body st =
     (case requireBrandAdmin ctx True of
        Inl e \<Rightarrow> (WriteError 403 e, st)
      | Inr ident \<Rightarrow>
          (let slug = normalizeSlug arg
           in if slug = [] \<or> slug \<noteq> arg then (WriteError 400 ''invalid brand slug'', st)
              else if bx_Err env ''select phishing_brand'' then (WriteError 500 ''brand read failed'', st)
              else case row_of br_Slug slug (bs_Brands st) of
                None \<Rightarrow> (WriteError 404 ''brand not found'', st)
              | Some current \<Rightarrow>
                  case body of
                    Inl e \<Rightarrow> (WriteError 400 e, st)
                  | Inr req \<Rightarrow>
                      case mergeBrandUpdate current req of
                        Inl e \<Rightarrow> (WriteError 400 e, st)
                      | Inr updated \<Rightarrow>
                          if bx_Err env ''update phishing_brands'' then (WriteError 500 ''brand update failed'', st)
                          else (WriteJSON 200 \<lparr>bd_Brand = updated\<lparr>br_ReviewedAt := Some (bx_Now env)\<rparr>, bd_Evidence = []\<rparr>,
                            st\<lparr>bs_Brands := update_where (\<lambda>b. br_Slug b = slug)
                                 (\<lambda>b. b\<lparr>br_Name := br_Name updated, br_Aliases := br_Aliases updated,
                                         br_OfficialDomains := br_OfficialDomains updated, br_Cues := br_Cues updated,
                                         br_Protected := br_Protected updated, br_Priority := br_Priority updated,
                                         br_Active := br_Active updated, br_ReviewedAt := Some (bx_Now env),
                                         br_UpdatedAt := bx_Now env\<rparr>) (bs_Brands st),
                               bs_Catalog := Invalidate (bs_Catalog st),
                               bs_Audit := audit_WriteAsync (brand_audit_env env) (update_event ident xff remote slug updated) (bs_Audit st)\<rparr>)))"

definition brand_history :: "faults \<Rightarrow> identity option \<Rightarrow> string \<Rightarrow> audit_row list \<Rightarrow> audit_row list response" where
  "brand_history err ctx arg rows =
     (case requireBrandAdmin ctx False of
        Inl e \<Rightarrow> WriteError 403 e
      | Inr ident \<Rightarrow>
          (let slug = normalizeSlug arg
           in if slug = [] \<or> slug \<noteq> arg then WriteError 400 ''invalid brand slug''
              else if err ''select audit_log'' then WriteError 500 ''brand history failed''
              else WriteJSON 200 (take 100 (sort_key (\<lambda>r. - int (au_ID r))
                (filter (\<lambda>r. au_TargetKind r = Some ''phishing_brand'' \<and> au_TargetID r = Some slug) rows)))))"

section \<open>Refreshing\<close>

text \<open>The request only starts the run, of which there is one at a time.\<close>

definition refresh_brands ::
  "brand_env \<Rightarrow> identity option \<Rightarrow> string \<Rightarrow> string \<Rightarrow> brand_state \<Rightarrow> (string \<times> string) response \<times> brand_state" where
  "refresh_brands env ctx xff remote st =
     (case requireBrandAdmin ctx True of
        Inl e \<Rightarrow> (WriteError 403 e, st)
      | Inr ident \<Rightarrow>
          if bs_Refreshing st then (WriteError 409 ''brand refresh already running'', st)
          else (WriteJSON 202 (''refreshing'', phishTankFeedName),
            st\<lparr>bs_Refreshing := True,
               bs_Audit := audit_WriteAsync (brand_audit_env env)
                 ((FromRequest (Some ident) xff remote ''phishing_brand.refresh'')
                    \<lparr>ae_TargetKind := ''threat_feed'', ae_TargetID := phishTankFeedName,
                     ae_Detail := [(''requested_by_role'', JStr (id_Role ident))]\<rparr>) (bs_Audit st)\<rparr>))"

definition runRefresh :: "brand_env \<Rightarrow> brand_state \<Rightarrow> brand_state" where
  "runRefresh env st0 =
     (let (failed, st) = Feed_Refresh env st0; ok = (failed = None)
      in st\<lparr>bs_Feeds := (if bx_Err env ''update refresh status'' then bs_Feeds st
                         else recordRefreshStatus (bx_Now env) phishTankFeedName ok (coalesce failed []) (bs_Feeds st)),
            bs_Catalog := (if ok then Invalidate (bs_Catalog st) else bs_Catalog st),
            bs_Refreshing := False\<rparr>)"

datatype brand_cmd =
    UpdateBrand "identity option" string string string "updateBrandRequest result"
  | RefreshBrands "identity option" string string
  | RunRefresh
  | AskProfiles

text \<open>What may happen in a running process; \<open>EnsureDefaults\<close> runs once before.\<close>

definition brand_step :: "brand_env \<times> brand_cmd \<Rightarrow> brand_state \<Rightarrow> brand_state" where
  "brand_step c st =
     (case c of (env, cmd) \<Rightarrow>
       (case cmd of
          UpdateBrand ctx xff remote arg body \<Rightarrow> snd (update_brand env ctx xff remote arg body st)
        | RefreshBrands ctx xff remote \<Rightarrow> snd (refresh_brands env ctx xff remote st)
        | RunRefresh \<Rightarrow> (if bs_Refreshing st then runRefresh env st else st)
        | AskProfiles \<Rightarrow> st\<lparr>bs_Catalog := snd (ProtectedProfiles env (bs_Brands st) (bs_Catalog st))\<rparr>))"

section \<open>What an import leaves alone\<close>

lemma insort_key_map: "map f (insort_key (\<lambda>x. k (f x)) x xs) = insort_key k (f x) (map f xs)"
  by (induction xs) auto

lemma sort_key_map: "map f (sort_key (\<lambda>x. k (f x)) xs) = sort_key k (map f xs)"
  by (induction xs) (simp_all add: insort_key_map)

definition protected_rows :: "brand_row list \<Rightarrow> Profile list" where
  "protected_rows brands =
     map profile_of (filter (\<lambda>b. br_Active b \<and> br_Protected b \<and> br_Aliases b \<noteq> [] \<and> br_OfficialDomains b \<noteq> []) brands)"

lemma protected_query_rows:
  "protected_query brands = take 1000 (sort_key (\<lambda>p. (- pf_Priority p, map byte (pf_Name p))) (protected_rows brands))"
  by (simp add: protected_query_def protected_rows_def sort_key_map [symmetric] profile_of_def)

lemma upsert_target_rows:
  "protected_rows (upsert_row br_Slug (\<lambda>old _. old\<lparr>br_UpdatedAt := now\<rparr>) (target_row now' i t) brands) = protected_rows brands"
  by (induction brands) (auto simp: protected_rows_def target_row_def profile_of_def)

lemma brand_where_rows:
  "brand_where (\<lambda>old _. old\<lparr>br_UpdatedAt := now\<rparr>) (target_row now' i t) st = (j, st') \<Longrightarrow>
     protected_rows (bs_Brands st') = protected_rows (bs_Brands st)"
  by (auto simp: brand_where_def Let_def upsert_target_rows)

lemma put_evidence_brands [simp]: "bs_Brands (put_evidence v st) = bs_Brands st"
  by (simp add: put_evidence_def)

lemma store_loop_rows: "store_loop env rank ts st = Inr st' \<Longrightarrow> protected_rows (bs_Brands st') = protected_rows (bs_Brands st)"
  by (induction env rank ts st rule: store_loop.induct)
     (auto simp: Let_def split: if_splits prod.splits dest: brand_where_rows)

lemma store_observations_rows: "protected_rows (bs_Brands (snd (store_observations env obs st))) = protected_rows (bs_Brands st)"
  unfolding store_observations_def by (rule ends_inI, intro handler_walk) (auto dest: store_loop_rows)

lemma Feed_Refresh_rows: "protected_rows (bs_Brands (snd (Feed_Refresh env st))) = protected_rows (bs_Brands st)"
  unfolding Feed_Refresh_def
  by (rule ends_inI, intro handler_walk) (auto simp: ends_in_def store_observations_rows)

lemma refresh_protection: "protected_query (bs_Brands (runRefresh env st)) = protected_query (bs_Brands st)"
proof -
  have "bs_Brands (runRefresh env st) = bs_Brands (snd (Feed_Refresh env st))"
    by (simp add: runRefresh_def Let_def split: prod.split)
  then show ?thesis by (simp add: protected_query_rows Feed_Refresh_rows)
qed

text \<open>Whatever PhishTank delivers, and whatever fails on the way, the run of a refresh leaves the
  profiles that ingest compares mail with exactly as they are.\<close>

theorem import_keeps_protection: "protected_query (bs_Brands (runRefresh env st)) = protected_query (bs_Brands st)"
  by (rule refresh_protection)

section \<open>The cache agrees with the table\<close>

definition coherent :: "brand_state \<Rightarrow> bool" where
  "coherent st =
     (case bs_Catalog st of None \<Rightarrow> False | Some c \<Rightarrow> ct_Profiles c = [] \<or> ct_Profiles c = protected_query (bs_Brands st))"

lemma coherent_invalidated: "coherent st \<Longrightarrow> bs_Catalog st' = Invalidate (bs_Catalog st) \<Longrightarrow> coherent st'"
  by (auto simp: coherent_def Invalidate_def split: option.splits)

lemma update_brand_coherent: "coherent st \<Longrightarrow> coherent (snd (update_brand env ctx xff remote arg body st))"
  unfolding update_brand_def by (rule ends_inI, intro handler_walk) (auto intro: coherent_invalidated)

lemma refresh_brands_coherent: "coherent st \<Longrightarrow> coherent (snd (refresh_brands env ctx xff remote st))"
  unfolding refresh_brands_def by (rule ends_inI, intro handler_walk) (auto simp: coherent_def split: option.splits)

lemma store_loop_catalog: "store_loop env rank ts st = Inr st' \<Longrightarrow> bs_Catalog st' = bs_Catalog st"
  by (induction env rank ts st rule: store_loop.induct)
     (auto simp: Let_def brand_where_def put_evidence_def split: if_splits)

lemma Feed_Refresh_catalog: "bs_Catalog (snd (Feed_Refresh env st)) = bs_Catalog st"
proof -
  have "bs_Catalog (snd (store_observations env obs st)) = bs_Catalog st" for obs
    unfolding store_observations_def by (rule ends_inI, intro handler_walk) (auto dest: store_loop_catalog)
  then show ?thesis
    unfolding Feed_Refresh_def by (intro ends_inI [of "\<lambda>s. bs_Catalog s = bs_Catalog st"] handler_walk) (auto simp: ends_in_def)
qed

lemma runRefresh_coherent: "coherent st \<Longrightarrow> coherent (runRefresh env st)"
proof -
  assume "coherent st"
  moreover have "bs_Catalog (runRefresh env st) \<in> {bs_Catalog st, Invalidate (bs_Catalog st)}"
    using Feed_Refresh_catalog [of env st] by (auto simp: runRefresh_def Let_def split: prod.splits)
  ultimately show ?thesis
    using coherent_invalidated [of st "runRefresh env st"] by (auto simp: coherent_def refresh_protection split: option.splits)
qed

lemma ask_coherent: "coherent st \<Longrightarrow> coherent (st\<lparr>bs_Catalog := snd (ProtectedProfiles env (bs_Brands st) (bs_Catalog st))\<rparr>)"
  by (auto simp: coherent_def ProtectedProfiles_def Let_def split: option.splits)

lemma brand_step_coherent: "coherent st \<Longrightarrow> coherent (brand_step c st)"
  by (cases c; cases "snd c")
     (auto simp: brand_step_def update_brand_coherent refresh_brands_coherent runRefresh_coherent ask_coherent)

text \<open>C22 (catalog cache): after any series of administrators' changes, refreshes and lookups in a process the cache never
  answers anything but what the table holds at that moment.\<close>

theorem catalog_coherent:
  assumes "bs_Catalog st = Some \<lparr>ct_Profiles = [], ct_LoadedAt = None\<rparr>" "\<not> bx_Err env ''select protected brands''"
  shows "fst (ProtectedProfiles env (bs_Brands (fold brand_step cs st)) (bs_Catalog (fold brand_step cs st))) =
           Inr (protected_query (bs_Brands (fold brand_step cs st)))"
proof -
  have "coherent (fold brand_step cs st)"
    by (rule fold_invariant [of cs "\<lambda>_. True"]) (use assms(1) in \<open>auto intro: brand_step_coherent, simp add: coherent_def\<close>)
  then show ?thesis
    using assms(2) by (auto simp: coherent_def ProtectedProfiles_def cache_fresh_def Let_def split: option.splits)
qed

text \<open>A brand that an administrator gives its official domain is asked for, changed and asked for again.\<close>

definition sample_brand :: brand_row where
  "sample_brand = \<lparr>br_ID = 1, br_Slug = ''acme'', br_Name = ''Acme'', br_Aliases = [''acme''], br_OfficialDomains = [], br_Cues = [],
     br_Protected = False, br_Priority = 0, br_Active = True, br_ReviewedAt = None, br_UpdatedAt = 0\<rparr>"

definition sample_brands :: brand_state where
  "sample_brands = \<lparr>bs_Brands = [sample_brand], bs_Evidence = [], bs_Feeds = [], bs_NextID = 2,
     bs_Catalog = Some \<lparr>ct_Profiles = [], ct_LoadedAt = None\<rparr>, bs_Refreshing = False, bs_Audit = []\<rparr>"

definition sample_brand_env :: brand_env where
  "sample_brand_env = \<lparr>bx_Err = no_faults, bx_Now = 5, bx_ValidInet = (\<lambda>_. True), bx_ParseTime = (\<lambda>_. None), bx_Get = (\<lambda>_. None)\<rparr>"

definition sample_protect :: brand_cmd where
  "sample_protect = UpdateBrand (Some (snd (sample_caller 1 ''super_admin''))) [] ''1.2.3.4:5'' ''acme''
     (Inr \<lparr>ub_Name = None, ub_Aliases = None, ub_OfficialDomains = Some [''acme.com''], ub_Cues = None, ub_Protected = Some True,
           ub_Priority = None, ub_Active = None\<rparr>)"

lemma catalog_coherent_witness:
  "fst (ProtectedProfiles sample_brand_env [sample_brand] (bs_Catalog (brand_step (sample_brand_env, AskProfiles) sample_brands)))
     = Inr (protected_query [sample_brand])"
proof -
  have "bs_Catalog sample_brands = Some \<lparr>ct_Profiles = [], ct_LoadedAt = None\<rparr>"
    and "\<not> bx_Err sample_brand_env ''select protected brands''"
    by (simp_all add: sample_brands_def sample_brand_env_def)
  from catalog_coherent [OF this, of "[(sample_brand_env, AskProfiles)]"] show ?thesis
    by (simp add: brand_step_def sample_brands_def)
qed

text \<open>Evaluated: the change is seen although the cache was just loaded.\<close>

lemma protection_takes_effect:
  "map pf_OfficialDomains (protected_query (bs_Brands (fold brand_step [(sample_brand_env, AskProfiles), (sample_brand_env, sample_protect)]
     sample_brands))) = [[''acme.com'']]"
  by code_simp

end
