(* ===== verification/Alerts.thy ===== *)
theory Alerts
  imports AbuseReports Unsubscribe DeepAnalysis
begin

text \<open>
  \<open>internal/notifications\<close>: mail to users about mail that is held. \<open>phishing.go\<close> has the alert for a message, and the reminder of
  messages that wait for an approval; \<open>quarantine_digest.go\<close> has the daily and weekly digest. The users of a run are
  those of the environment's view; when a user was last written to is kept beside them. The time of an \<open>UPDATE\<close> is later than the time
  at which a run began by a parameter. \<open>sort.Slice\<close> is taken to be stable.
\<close>

record alert_times =
  at_AlertSent :: "nat option"
  at_ChallengeAttempt :: "nat option"
  at_ChallengeSent :: "nat option"

record alert_state =
  nt_Db :: mail_db
  nt_Times :: "uuid \<Rightarrow> alert_times"

record alert_env =
  nx_Mail :: mail_env
  nx_Later :: "uuid \<Rightarrow> nat"

record phishingMessage =
  pm_MailLogID :: uuid
  pm_OrganizationID :: uuid
  pm_DomainID :: "uuid option"
  pm_FromAddr :: string
  pm_ToAddrs :: "string list"
  pm_Subject :: string
  pm_ClientIP :: string
  pm_Reason :: string
  pm_ThreatClass :: string
  pm_ReceivedAt :: nat

record pendingApproval =
  pa_ToAddr :: string
  pa_FromAddr :: string
  pa_Subject :: string
  pa_ReceivedAt :: nat

section \<open>Texts\<close>

definition alertSubjectKind :: "string \<Rightarrow> string \<times> string" where
  "alertSubjectKind threatClass =
     (if threatClass = ''PHISHING'' then (''SentinelMail quarantined a phishing email'', ''phishing_alert'')
      else (''SentinelMail quarantined a suspicious email'', ''quarantine_alert''))"

definition alertHeadline :: "string \<Rightarrow> string" where
  "alertHeadline threatClass = (if threatClass = ''PHISHING'' then ''phishing email'' else ''suspicious email'')"

definition spaced :: "string \<Rightarrow> string" where
  "spaced s = to_lower (map (\<lambda>c. if c = CHR ''_'' then CHR '' '' else c) s)"

definition alertCategory :: "string \<Rightarrow> string" where
  "alertCategory threatClass = (if threatClass = [] then ''quarantined'' else spaced threatClass)"

definition textAlert :: "string \<Rightarrow> phishingMessage \<Rightarrow> string \<Rightarrow> string" where
  "textAlert to msg link =
     join ([''SentinelMail quarantined a '' @ alertHeadline (pm_ThreatClass msg) @ '' before it reached your mailbox.'',
            [], ''Recipient: '' @ to, ''From: '' @ emptyDash (pm_FromAddr msg), ''Subject: '' @ emptyDash (pm_Subject msg),
            ''Source IP: '' @ emptyDash (pm_ClientIP msg), ''Category: '' @ alertCategory (pm_ThreatClass msg),
            ''Reason: '' @ emptyDash (pm_Reason msg)] @
           (if link \<noteq> [] then [[], ''Review it here: '' @ link] else [])) crlf"

definition textChallengeAlert :: "mail_env \<Rightarrow> string \<Rightarrow> phishingMessage \<Rightarrow> pendingApproval list \<Rightarrow> string \<Rightarrow> string" where
  "textChallengeAlert env to msg pending link =
     join ([''SentinelMail is holding a message until you approve or deny the sender.'', [],
            ''Protected recipient: '' @ join (pm_ToAddrs msg) '', '', ''Approval notice sent to: '' @ to,
            ''From: '' @ emptyDash (pm_FromAddr msg), ''Subject: '' @ emptyDash (pm_Subject msg),
            ''Source IP: '' @ emptyDash (pm_ClientIP msg)] @
           (if link \<noteq> [] then [[], ''Review it here: '' @ link] else []) @
           (if pending \<noteq> [] then
              [[], ''Currently waiting ('' @ itoa (length pending) @ '', newest 25 shown):''] @
              map (\<lambda>p. ''- '' @ mv_TimeText env ''2006-01-02 15:04 MST'' (pa_ReceivedAt p) @ '' | '' @ pa_ToAddr p @ '' | '' @
                     emptyDash (pa_FromAddr p) @ '' | '' @ emptyDash (pa_Subject p)) pending
            else []) @
           [[], ''Release the message to allow this sender for that mailbox. Allowed senders must still pass DMARC through aligned SPF or DKIM and have a usable reverse hostname. Block the sender to deny future mail, or delete only this held message.'']) crlf"

section \<open>Markup\<close>

text \<open>\<open>html.EscapeString\<close>.\<close>

definition escape_char :: "char \<Rightarrow> string" where
  "escape_char c =
     (if c = CHR ''&'' then ''&amp;'' else if c = CHR 0x27 then ''&#39;'' else if c = CHR ''<'' then ''&lt;''
      else if c = CHR ''>'' then ''&gt;'' else if c = CHR 0x22 then ''&#34;'' else [c])"

definition EscapeString :: "string \<Rightarrow> string" where
  "EscapeString s = concat (map escape_char s)"

definition lf :: string where "lf = [CHR 0x0A]"

definition detailRow :: "string \<Rightarrow> string \<Rightarrow> string" where
  \<open>detailRow label value =
     ''<tr><td style="padding:10px 14px;border-bottom:1px solid #e2e8f0;color:#64748b;font-size:13px;width:110px">'' @ EscapeString label @
     ''</td><td style="padding:10px 14px;border-bottom:1px solid #e2e8f0;font-size:14px;color:#0f172a">'' @ EscapeString value @ ''</td></tr>''\<close>

definition review_button :: "string \<Rightarrow> string \<Rightarrow> string \<Rightarrow> string" where
  \<open>review_button link colour title =
     (if link \<noteq> [] then
        ''<tr><td style="padding:24px 0 4px"><a href="'' @ EscapeString link @ ''" style="display:inline-block;background:'' @ colour @
        '';color:#ffffff;text-decoration:none;font-weight:700;padding:12px 18px;border-radius:8px">'' @ title @ ''</a></td></tr>''
      else [])\<close>

definition html_head :: "string \<Rightarrow> string \<Rightarrow> string \<Rightarrow> string \<Rightarrow> string" where
  \<open>html_head width dark light title =
     ''<!doctype html><html><body style="margin:0;background:#f4f7fb;color:#102033;font-family:Arial,Helvetica,sans-serif">'' @ lf @
     ''<table role="presentation" width="100%" cellspacing="0" cellpadding="0" style="background:#f4f7fb;padding:28px 12px"><tr><td align="center">'' @ lf @
     ''<table role="presentation" width="100%" cellspacing="0" cellpadding="0" style="max-width:'' @ width @
     '';background:#ffffff;border:1px solid #d8e2ef;border-radius:12px;overflow:hidden">'' @ lf @
     ''<tr><td style="background:'' @ dark @ '';color:#ffffff;padding:22px 26px"><div style="font-size:13px;letter-spacing:.08em;text-transform:uppercase;color:'' @
     light @ ''">SentinelMail Gateway</div><h1 style="margin:8px 0 0;font-size:24px;line-height:1.25">'' @ title @ ''</h1></td></tr>'' @ lf\<close>

definition html_foot :: "string \<Rightarrow> string" where
  \<open>html_foot note =
     ''<p style="margin:18px 0 0;color:#64748b;font-size:13px;line-height:1.5">'' @ note @ ''</p></td></tr>'' @ lf @
     ''</table></td></tr></table></body></html>''\<close>

definition details_table :: string where
  \<open>details_table = ''<table role="presentation" width="100%" cellspacing="0" cellpadding="0" style="border-collapse:collapse;background:#f8fafc;border:1px solid #e2e8f0;border-radius:8px">'' @ lf\<close>

definition button_table :: "string \<Rightarrow> string" where
  \<open>button_table button = ''<table role="presentation" cellspacing="0" cellpadding="0">'' @ button @ ''</table>'' @ lf\<close>

definition htmlAlert :: "string \<Rightarrow> phishingMessage \<Rightarrow> string \<Rightarrow> string" where
  \<open>htmlAlert to msg link =
     html_head ''640px'' ''#0f172a'' ''#93c5fd'' ''Email quarantined'' @
     ''<tr><td style="padding:26px"><p style="margin:0 0 18px;font-size:16px;line-height:1.5">A '' @ alertHeadline (pm_ThreatClass msg) @
     '' was held before it reached your mailbox.</p>'' @ lf @ details_table @
     detailRow ''Recipient'' to @ detailRow ''From'' (emptyDash (pm_FromAddr msg)) @ detailRow ''Subject'' (emptyDash (pm_Subject msg)) @
     detailRow ''Source IP'' (emptyDash (pm_ClientIP msg)) @ detailRow ''Category'' (alertCategory (pm_ThreatClass msg)) @
     detailRow ''Reason'' (emptyDash (pm_Reason msg)) @ lf @
     ''</table>'' @ button_table (review_button link ''#1d4ed8'' ''Review quarantine'') @
     html_foot ''Do not click links in the original message. Review or delete it from SentinelMail quarantine.''\<close>

definition small_cell :: "string \<Rightarrow> string" where
  \<open>small_cell text = ''<td style="padding:8px;border-bottom:1px solid #e2e8f0">'' @ EscapeString text @ ''</td>''\<close>

definition htmlChallengeAlert :: "mail_env \<Rightarrow> string \<Rightarrow> phishingMessage \<Rightarrow> pendingApproval list \<Rightarrow> string \<Rightarrow> string" where
  \<open>htmlChallengeAlert env to msg pending link =
     (let pendingRows = concat (map (\<lambda>p. ''<tr>'' @ small_cell (mv_TimeText env ''Jan 2 15:04'' (pa_ReceivedAt p)) @ small_cell (pa_ToAddr p) @
                          small_cell (emptyDash (pa_FromAddr p)) @ small_cell (emptyDash (pa_Subject p)) @ ''</tr>'') pending);
          pendingTable = (if pendingRows \<noteq> [] then
             ''<h2 style="margin:22px 0 8px;font-size:17px">Currently waiting (newest 25)</h2><table role="presentation" width="100%" cellspacing="0" cellpadding="0" style="border-collapse:collapse;font-size:12px"><tr><th align="left">Time</th><th align="left">Recipient</th><th align="left">From</th><th align="left">Subject</th></tr>'' @
             pendingRows @ ''</table>'' else [])
      in html_head ''640px'' ''#134e4a'' ''#99f6e4'' ''Sender approval required'' @
         ''<tr><td style="padding:26px"><p style="margin:0 0 18px;font-size:16px;line-height:1.5">A message is being held until you decide whether this sender is allowed to reach your mailbox.</p>'' @ lf @
         details_table @
         detailRow ''Protected recipient'' (join (pm_ToAddrs msg) '', '') @ detailRow ''Approval notice'' to @
         detailRow ''From'' (emptyDash (pm_FromAddr msg)) @ detailRow ''Subject'' (emptyDash (pm_Subject msg)) @
         detailRow ''Source IP'' (emptyDash (pm_ClientIP msg)) @ lf @
         ''</table>'' @ pendingTable @ button_table (review_button link ''#0f766e'' ''Review sender'') @
         html_foot ''Release the message to allow this sender for that mailbox. Allowed senders must still pass DMARC through aligned SPF or DKIM and have a usable reverse hostname. Block the sender to deny future mail, or delete only this held message.'')\<close>

section \<open>Lookups\<close>

definition lowerAddrs :: "string list \<Rightarrow> string list" where
  "lowerAddrs values = filter (\<lambda>v. v \<noteq> []) (map (\<lambda>v. to_lower (trim_space v)) values)"

definition loadPhishingMessage :: "mail_env \<Rightarrow> uuid \<Rightarrow> mail_db \<Rightarrow> phishingMessage option result" where
  "loadPhishingMessage env i db =
     (if mv_Err env ''select mail_log'' then Inl ''select mail_log''
      else Inr (map_option (\<lambda>m.
        \<lparr>pm_MailLogID = ml_ID m, pm_OrganizationID = ml_OrganizationID m, pm_DomainID = ml_DomainID m,
         pm_FromAddr = text_or_empty (ml_FromAddr m), pm_ToAddrs = ml_ToAddrs m, pm_Subject = text_or_empty (ml_Subject m),
         pm_ClientIP = (case ml_ClientIP m of None \<Rightarrow> [] | Some a \<Rightarrow> mv_InetText env a), pm_Reason = text_or_empty (ml_Reason m),
         pm_ThreatClass = (case first_by (\<lambda>q. - int (qe_ReceivedAt q)) (filter (\<lambda>q. qe_MailLogID q = Some i) (md_Quarantine db)) of
            None \<Rightarrow> [] | Some q \<Rightarrow> text_or_empty (qe_ThreatClass q)),
         pm_ReceivedAt = ml_ReceivedAt m\<rparr>)
        (find (\<lambda>m. ml_ID m = i \<and> ml_Disposition m = ''quarantined'') (md_Logs db))))"

definition alertUsers :: "mail_env \<Rightarrow> phishingMessage option \<Rightarrow> user_row list result" where
  "alertUsers env msg =
     (case msg of
        None \<Rightarrow> Inr []
      | Some m \<Rightarrow>
          if pm_ToAddrs m = [] then Inr []
          else if mv_Err env ''select users'' then Inl ''select users''
          else Inr (filter (\<lambda>u. u_OrganizationID u = pm_OrganizationID m \<and> u_IsActive u \<and> u_PhishingAlertFrequency u \<noteq> ''off'' \<and>
                     to_lower (u_Email u) \<in> set (lowerAddrs (pm_ToAddrs m))) (lv_Users (mv_View env))))"

definition challengeUsers :: "mail_env \<Rightarrow> phishingMessage option \<Rightarrow> user_row list result" where
  "challengeUsers env msg =
     (case msg of
        None \<Rightarrow> Inr []
      | Some m \<Rightarrow>
          if pm_ToAddrs m = [] then Inr []
          else if mv_Err env ''select users'' then Inl ''select users''
          else Inr (filter (\<lambda>u. u_OrganizationID u = pm_OrganizationID m \<and> u_IsActive u \<and>
                     (to_lower (u_Email u) \<in> set (lowerAddrs (pm_ToAddrs m)) \<or> u_Role u = ''org_admin'')) (lv_Users (mv_View env))))"

definition shouldSend :: "string \<Rightarrow> nat option \<Rightarrow> nat \<Rightarrow> bool" where
  "shouldSend frequency lastSent now =
     (if frequency = ''immediate'' then True
      else if frequency = ''daily'' then (case lastSent of None \<Rightarrow> True | Some t \<Rightarrow> int now - int t \<ge> 24 * 3600)
      else if frequency = ''weekly'' \<or> frequency = [] then (case lastSent of None \<Rightarrow> True | Some t \<Rightarrow> int now - int t \<ge> 7 * 24 * 3600)
      else False)"

text \<open>An address without \<open>@\<close> is its own domain here.\<close>

definition recipient_domain :: "string \<Rightarrow> string" where
  "recipient_domain addr =
     (case last_index_char addr CHR ''@'' of
        None \<Rightarrow> to_lower (trim_space addr)
      | Some i \<Rightarrow> to_lower (trim_space (drop (Suc i) addr)))"

definition gatewayForRecipient :: "mail_env \<Rightarrow> uuid \<Rightarrow> string \<Rightarrow> (string \<times> int) result" where
  "gatewayForRecipient env orgID recipient =
     (let domain = recipient_domain recipient
      in if domain = [] then Inl ''recipient has no domain''
         else if mv_Err env ''select gateway'' then Inl ''select gateway''
         else case first_by (\<lambda>g. (gw_Priority g, gw_CreatedAt g))
                (filter (\<lambda>g. gw_IsActive g \<and> list_ex (\<lambda>d. dm_ID d = gw_DomainID g \<and> dm_OrganizationID d = orgID \<and>
                     to_lower (dm_Name d) = domain \<and> dm_IsActive d) (lv_Domains (mv_View env))) (mv_Gateways env)) of
           None \<Rightarrow> Inl ''no rows in result set''
         | Some g \<Rightarrow>
             (let host = trim_space (gw_Host g)
              in if host = [] \<or> gw_Port g \<le> 0 then Inl ''invalid downstream gateway'' else Inr (host, gw_Port g)))"

definition alertFrom :: "mail_env \<Rightarrow> uuid \<Rightarrow> string \<times> string" where
  "alertFrom env org =
     (let a1 = lookupSystemSetting env ''mail.system_from_address'' [];
          a2 = (if a1 = [] then lookupOrgSetting env org ''brand.support_email'' [] else a1);
          a3 = (if a2 = [] then ''no-reply@'' @ recipient_domain (''x@'' @ lookupSystemSetting env ''mail.hostname'' ''sentinelmail.local'')
                else a2);
          parsed = (case ParseAddress (mv_Addr env) a3 of
                      Some a \<Rightarrow> if a = [] then ''no-reply@sentinelmail.local'' else a
                    | None \<Rightarrow> ''no-reply@sentinelmail.local'')
      in (brand_name env org, parsed))"

text \<open>\<open>url.QueryEscape\<close> and \<open>Values.Encode\<close>, which sorts by key.\<close>

fun QueryEscape :: "string \<Rightarrow> string" where
  "QueryEscape [] = []"
| "QueryEscape (c # s) =
     (if unreserved c then c # QueryEscape s
      else if c = CHR '' '' then CHR ''+'' # QueryEscape s
      else CHR ''%'' # hex_digit (byte c div 16) # hex_digit (byte c mod 16) # QueryEscape s)"

definition encode_query :: "(string \<times> string) list \<Rightarrow> string" where
  "encode_query pairs = join (map (\<lambda>(k, v). QueryEscape k @ ''='' @ QueryEscape v) (sort_key (\<lambda>(k, _). map byte k) pairs)) ''&''"

definition quarantineEntryID :: "mail_env \<Rightarrow> uuid \<Rightarrow> string \<Rightarrow> mail_db \<Rightarrow> uuid option" where
  "quarantineEntryID env mailLogID recipient0 db =
     (let recipient = to_lower (trim_space recipient0)
      in if mailLogID = 0 \<or> recipient = [] \<or> mv_Err env ''select quarantine entry'' then None
         else map_option qe_ID (first_by (\<lambda>q. - int (qe_ReceivedAt q))
           (filter (\<lambda>q. qe_MailLogID q = Some mailLogID \<and> to_lower (qe_ToAddr q) = recipient) (md_Quarantine db))))"

text \<open>A path of the base that decodes to \<open>/quarantine\<close> keeps its spelling.\<close>

definition quarantineURL :: "mail_env \<Rightarrow> phishingMessage option \<Rightarrow> string \<Rightarrow> mail_db \<Rightarrow> string" where
  "quarantineURL env msg recipient db =
     (let base0 = lookupSystemSetting env ''link_rewrite.public_base_url'' []; host = lookupSystemSetting env ''tls.hostname'' [];
          base = (if base0 = [] \<and> host \<noteq> [] then ''https://'' @ host else base0)
      in case url_parse base of
           None \<Rightarrow> []
         | Some u \<Rightarrow>
             if url_Scheme u \<noteq> ''https'' \<or> url_Host u = [] then []
             else
               (let path = (if unescape EncodePath (url_EscapedPath u) = Some ''/quarantine'' then url_EscapedPath u else ''/quarantine'');
                    query = (case Option.bind msg (\<lambda>m. quarantineEntryID env (pm_MailLogID m) recipient db) of
                       None \<Rightarrow> url_RawQuery u
                     | Some i \<Rightarrow> encode_query (filter (\<lambda>(k, _). k \<noteq> ''id'')
                         (List.map_filter query_pair (split_char (url_RawQuery u) CHR ''&'')) @ [(''id'', mv_UUIDText env i)]))
                in url_string (u\<lparr>url_EscapedPath := path, url_RawQuery := query\<rparr>)))"

section \<open>Messages\<close>

definition multipart :: "string list \<Rightarrow> string \<Rightarrow> string \<Rightarrow> string \<Rightarrow> string" where
  "multipart headers boundary text markup =
     join headers crlf @ crlf @ crlf @ ''--'' @ boundary @ crlf @
     ''Content-Type: text/plain; charset=UTF-8'' @ crlf @ crlf @ text @ crlf @ crlf @ ''--'' @ boundary @ crlf @
     ''Content-Type: text/html; charset=UTF-8'' @ crlf @ crlf @ markup @ crlf @ crlf @ ''--'' @ boundary @ ''--'' @ crlf"

definition alert_headers :: "string \<Rightarrow> string \<Rightarrow> string \<Rightarrow> string \<Rightarrow> string list" where
  \<open>alert_headers sender to subject boundary =
     [''From: '' @ sender, ''To: '' @ to, ''Subject: '' @ subject, ''MIME-Version: 1.0'',
      ''Content-Type: multipart/alternative; boundary="'' @ boundary @ ''"'']\<close>

definition buildPhishingAlertEmail :: "mail_env \<Rightarrow> string \<times> string \<Rightarrow> string \<Rightarrow> phishingMessage \<Rightarrow> string \<Rightarrow> mail_db \<Rightarrow> string" where
  "buildPhishingAlertEmail env sender to msg subject db =
     (let link = quarantineURL env (Some msg) to db; boundary = ''smg-phishing-alert-boundary''
      in multipart (alert_headers (mv_AddrText env (fst sender) (snd sender)) (mv_AddrText env [] to) subject boundary) boundary
           (textAlert to msg link) (htmlAlert to msg link))"

definition challenge_subject :: string where "challenge_subject = ''SentinelMail is holding mail for your approval''"

definition buildChallengeResponseEmail ::
  "mail_env \<Rightarrow> string \<times> string \<Rightarrow> string \<Rightarrow> phishingMessage \<Rightarrow> pendingApproval list \<Rightarrow> mail_db \<Rightarrow> string" where
  "buildChallengeResponseEmail env sender to msg pending db =
     (let link = quarantineURL env (Some msg) to db; boundary = ''smg-challenge-response-boundary''
      in multipart (alert_headers (mv_AddrText env (fst sender) (snd sender)) (mv_AddrText env [] to) challenge_subject boundary) boundary
           (textChallengeAlert env to msg pending link) (htmlChallengeAlert env to msg pending link))"

text \<open>Every mail of the package goes to one user, through the log of sent mail.\<close>

definition send_alert ::
  "mail_env \<Rightarrow> user_row \<Rightarrow> string \<times> int \<Rightarrow> string \<Rightarrow> uuid \<Rightarrow> uuid option \<Rightarrow> uuid option \<Rightarrow> string \<Rightarrow> string \<Rightarrow> string \<Rightarrow> json_map \<Rightarrow>
     mail_db \<Rightarrow> string option \<times> mail_db" where
  "send_alert env u gateway sender org domain logID kind subject raw metadata db =
     Send env \<lparr>sr_OrganizationID = org, sr_DomainID = domain, sr_MailLogID = logID, sr_QuarantineEntryID = None, sr_Kind = kind,
               sr_FromAddr = sender, sr_ToAddrs = [u_Email u], sr_Subject = subject, sr_RelayHost = fst gateway,
               sr_RelayPort = snd gateway, sr_Raw = raw, sr_Metadata = (''alert_user_id'', JStr (mv_UUIDText env (u_ID u))) # metadata\<rparr>
       \<lparr>sn_Addr = join_host_port (fst gateway) (itoa (nat (snd gateway))), sn_Plain = False, sn_From = sender,
        sn_To = [u_Email u], sn_Raw = raw\<rparr> db"

section \<open>The alert for a message\<close>

definition sendOne :: "mail_env \<Rightarrow> phishingMessage \<Rightarrow> user_row \<Rightarrow> mail_db \<Rightarrow> string option \<times> mail_db" where
  "sendOne env msg u db =
     (case gatewayForRecipient env (pm_OrganizationID msg) (u_Email u) of
        Inl e \<Rightarrow> (Some e, db)
      | Inr gateway \<Rightarrow>
          (let sender = alertFrom env (pm_OrganizationID msg); (subject, kind) = alertSubjectKind (pm_ThreatClass msg)
           in send_alert env u gateway (snd sender) (pm_OrganizationID msg) (pm_DomainID msg) (Some (pm_MailLogID msg)) kind subject
                (buildPhishingAlertEmail env sender (u_Email u) msg subject db) [] db))"

definition first_error :: "string option \<Rightarrow> string option \<Rightarrow> string option" where
  "first_error a b = (case a of None \<Rightarrow> b | Some e \<Rightarrow> a)"

definition mark_alerted :: "alert_env \<Rightarrow> uuid \<Rightarrow> alert_state \<Rightarrow> string option \<times> alert_state" where
  "mark_alerted env i st =
     (if mv_Err (nx_Mail env) ''update users'' then (Some ''update users'', st)
      else (None, st\<lparr>nt_Times := (nt_Times st)(i := (nt_Times st i)\<lparr>at_AlertSent := Some (nx_Later env i)\<rparr>)\<rparr>))"

fun alert_loop :: "alert_env \<Rightarrow> phishingMessage \<Rightarrow> user_row list \<Rightarrow> string option \<Rightarrow> alert_state \<Rightarrow> string option \<times> alert_state" where
  "alert_loop env msg [] firstErr st = (firstErr, st)"
| "alert_loop env msg (u # us) firstErr st =
     (if u_PhishingAlertFrequency u \<noteq> ''immediate'' then alert_loop env msg us firstErr st
      else case sendOne (nx_Mail env) msg u (nt_Db st) of
        (Some e, db) \<Rightarrow> alert_loop env msg us (first_error firstErr (Some e)) (st\<lparr>nt_Db := db\<rparr>)
      | (None, db) \<Rightarrow>
          (let (e, st') = mark_alerted env (u_ID u) (st\<lparr>nt_Db := db\<rparr>) in alert_loop env msg us (first_error firstErr e) st'))"

definition SendPhishingAlertForMailLog :: "alert_env \<Rightarrow> uuid \<Rightarrow> alert_state \<Rightarrow> string option \<times> alert_state" where
  "SendPhishingAlertForMailLog env i st =
     (case loadPhishingMessage (nx_Mail env) i (nt_Db st) of
        Inl e \<Rightarrow> (Some e, st)
      | Inr None \<Rightarrow> (None, st)
      | Inr (Some msg) \<Rightarrow>
          case alertUsers (nx_Mail env) (Some msg) of
            Inl e \<Rightarrow> (Some e, st)
          | Inr users \<Rightarrow> alert_loop env msg users None st)"

section \<open>Reminders of pending approvals\<close>

definition challengeDigestRetryDelay :: nat where "challengeDigestRetryDelay = 15 * 60"

definition challengeDigestDue :: "string \<Rightarrow> nat option \<Rightarrow> nat option \<Rightarrow> nat \<Rightarrow> nat \<Rightarrow> bool" where
  "challengeDigestDue frequency lastAttempt lastSent newestPending now =
     (if (case lastAttempt of None \<Rightarrow> False
          | Some a \<Rightarrow> (case lastSent of None \<Rightarrow> True | Some t \<Rightarrow> a > t) \<and> int now - int a < int challengeDigestRetryDelay) then False
      else if frequency = ''hourly'' then (case lastSent of None \<Rightarrow> True | Some t \<Rightarrow> int now - int t \<ge> 3600)
      else if frequency = ''daily'' then (case lastSent of None \<Rightarrow> True | Some t \<Rightarrow> int now - int t \<ge> 24 * 3600)
      else if frequency = ''immediate'' \<or> frequency = [] then (case lastSent of None \<Rightarrow> True | Some t \<Rightarrow> newestPending > t)
      else False)"

text \<open>One statement tests and takes the attempt, so of two processes one has it.\<close>

definition claimable :: "nat \<Rightarrow> alert_times \<Rightarrow> bool" where
  "claimable now t =
     (case at_ChallengeAttempt t of
        None \<Rightarrow> True
      | Some a \<Rightarrow> a + challengeDigestRetryDelay \<le> now \<or> (case at_ChallengeSent t of None \<Rightarrow> False | Some s \<Rightarrow> a \<le> s))"

definition claimChallengeDigestAttempt :: "mail_env \<Rightarrow> uuid \<Rightarrow> alert_state \<Rightarrow> bool result \<times> alert_state" where
  "claimChallengeDigestAttempt env i st =
     (if mv_Err env ''claim challenge attempt'' then (Inl ''claim challenge attempt'', st)
      else if list_ex (\<lambda>u. u_ID u = i \<and> u_IsActive u) (lv_Users (mv_View env)) \<and> claimable (mv_Now env) (nt_Times st i) then
        (Inr True, st\<lparr>nt_Times := (nt_Times st)(i := (nt_Times st i)\<lparr>at_ChallengeAttempt := Some (mv_Now env)\<rparr>)\<rparr>)
      else (Inr False, st))"

text \<open>A copy that is held for an approval, together with its log entry.\<close>

definition awaits_approval :: "mail_log_row list \<Rightarrow> uuid \<Rightarrow> quarantine_row \<Rightarrow> bool" where
  "awaits_approval logs org q =
     (qe_OrganizationID q = org \<and> qe_State q = ''held'' \<and>
      list_ex (\<lambda>m. Some (ml_ID m) = qe_MailLogID q \<and> ml_Disposition m = ''quarantined'' \<and>
                   to_lower (text_or_empty (ml_Reason m)) = reason_pending) logs)"

definition for_user :: "user_row \<Rightarrow> quarantine_row \<Rightarrow> bool" where
  "for_user u q = (u_Role u = ''org_user'' \<longrightarrow> to_lower (qe_ToAddr q) = to_lower (u_Email u))"

definition pendingApprovals :: "mail_env \<Rightarrow> uuid \<Rightarrow> user_row \<Rightarrow> mail_db \<Rightarrow> pendingApproval list result" where
  "pendingApprovals env org u db =
     (if mv_Err env ''select pending approvals'' then Inl ''select pending approvals''
      else Inr (map (\<lambda>q. \<lparr>pa_ToAddr = qe_ToAddr q, pa_FromAddr = text_or_empty (qe_FromAddr q), pa_Subject = text_or_empty (qe_Subject q),
                         pa_ReceivedAt = qe_ReceivedAt q\<rparr>)
        (take 25 (sort_key (\<lambda>q. - int (qe_ReceivedAt q))
          (filter (\<lambda>q. awaits_approval (md_Logs db) org q \<and> for_user u q) (md_Quarantine db))))))"

definition latestPendingMessage :: "mail_env \<Rightarrow> user_row \<Rightarrow> mail_db \<Rightarrow> phishingMessage option result" where
  "latestPendingMessage env u db =
     (if mv_Err env ''select latest pending'' then Inl ''select latest pending''
      else case first_by (\<lambda>q. - int (qe_ReceivedAt q))
             (filter (\<lambda>q. awaits_approval (md_Logs db) (u_OrganizationID u) q \<and> for_user u q) (md_Quarantine db)) of
        None \<Rightarrow> Inr None
      | Some q \<Rightarrow> (case qe_MailLogID q of None \<Rightarrow> Inr None | Some i \<Rightarrow> loadPhishingMessage env i db))"

definition mark_reminded :: "alert_env \<Rightarrow> uuid \<Rightarrow> alert_state \<Rightarrow> bool result \<times> alert_state" where
  "mark_reminded env i st =
     (if mv_Err (nx_Mail env) ''update users'' then (Inl ''update users'', st)
      else (Inr True, st\<lparr>nt_Times := (nt_Times st)(i := (nt_Times st i)
              \<lparr>at_ChallengeSent := Some (nx_Later env i), at_ChallengeAttempt := Some (nx_Later env i)\<rparr>)\<rparr>))"

definition remind :: "alert_env \<Rightarrow> phishingMessage \<Rightarrow> user_row \<Rightarrow> alert_state \<Rightarrow> bool result \<times> alert_state" where
  "remind env msg u st =
     (let mail = nx_Mail env; org = pm_OrganizationID msg
      in case pendingApprovals mail org u (nt_Db st) of
           Inl e \<Rightarrow> (Inl e, st)
         | Inr pending \<Rightarrow>
             case gatewayForRecipient mail org (u_Email u) of
               Inl e \<Rightarrow> (Inl e, st)
             | Inr gateway \<Rightarrow>
                 (let sender = alertFrom mail org
                  in case send_alert mail u gateway (snd sender) org (pm_DomainID msg) (Some (pm_MailLogID msg)) ''challenge_response_alert''
                            challenge_subject (buildChallengeResponseEmail mail sender (u_Email u) msg pending (nt_Db st))
                            [(''digest_frequency'', JStr (u_ChallengeAlertFrequency u)), (''pending_count'', JNum (of_nat (length pending)))]
                            (nt_Db st) of
                       (Some e, db) \<Rightarrow> (Inl e, st\<lparr>nt_Db := db\<rparr>)
                     | (None, db) \<Rightarrow> mark_reminded env (u_ID u) (st\<lparr>nt_Db := db\<rparr>)))"

definition sendChallengeOne :: "alert_env \<Rightarrow> phishingMessage \<Rightarrow> user_row \<Rightarrow> alert_state \<Rightarrow> bool result \<times> alert_state" where
  "sendChallengeOne env msg u st =
     (let t = nt_Times st (u_ID u)
      in if \<not> challengeDigestDue (u_ChallengeAlertFrequency u) (at_ChallengeAttempt t) (at_ChallengeSent t) (pm_ReceivedAt msg)
               (mv_Now (nx_Mail env)) then (Inr False, st)
         else case claimChallengeDigestAttempt (nx_Mail env) (u_ID u) st of
           (Inl e, st') \<Rightarrow> (Inl e, st')
         | (Inr claimed, st') \<Rightarrow> if \<not> claimed then (Inr False, st') else remind env msg u st')"

fun challenge_loop :: "alert_env \<Rightarrow> phishingMessage \<Rightarrow> user_row list \<Rightarrow> string option \<Rightarrow> alert_state \<Rightarrow> string option \<times> alert_state" where
  "challenge_loop env msg [] firstErr st = (firstErr, st)"
| "challenge_loop env msg (u # us) firstErr st =
     (let (r, st') = sendChallengeOne env msg u st
      in challenge_loop env msg us (first_error firstErr (case r of Inl e \<Rightarrow> Some e | Inr _ \<Rightarrow> None)) st')"

definition SendChallengeResponseAlertForMailLog :: "alert_env \<Rightarrow> uuid \<Rightarrow> alert_state \<Rightarrow> string option \<times> alert_state" where
  "SendChallengeResponseAlertForMailLog env i st =
     (case loadPhishingMessage (nx_Mail env) i (nt_Db st) of
        Inl e \<Rightarrow> (Some e, st)
      | Inr None \<Rightarrow> (None, st)
      | Inr (Some msg) \<Rightarrow>
          case challengeUsers (nx_Mail env) (Some msg) of
            Inl e \<Rightarrow> (Some e, st)
          | Inr users \<Rightarrow> challenge_loop env msg users None st)"

definition challengeDigestCandidates :: "mail_env \<Rightarrow> mail_db \<Rightarrow> user_row list result" where
  "challengeDigestCandidates env db =
     (if mv_Err env ''select challenge candidates'' then Inl ''select challenge candidates''
      else Inr (sort_key (\<lambda>u. (u_OrganizationID u, map byte (to_lower (u_Email u))))
        (filter (\<lambda>u. u_IsActive u \<and> u_Role u \<in> {''org_user'', ''org_admin''} \<and>
                     list_ex (\<lambda>q. awaits_approval (md_Logs db) (u_OrganizationID u) q \<and> for_user u q) (md_Quarantine db))
          (lv_Users (mv_View env)))))"

fun reminder_loop :: "alert_env \<Rightarrow> user_row list \<Rightarrow> nat \<Rightarrow> string option \<Rightarrow> alert_state \<Rightarrow> (nat \<times> string option) \<times> alert_state" where
  "reminder_loop env [] sent firstErr st = ((sent, firstErr), st)"
| "reminder_loop env (u # us) sent firstErr st =
     (case latestPendingMessage (nx_Mail env) u (nt_Db st) of
        Inl e \<Rightarrow> reminder_loop env us sent (first_error firstErr (Some e)) st
      | Inr None \<Rightarrow> reminder_loop env us sent firstErr st
      | Inr (Some msg) \<Rightarrow>
          case sendChallengeOne env msg u st of
            (Inl e, st') \<Rightarrow> reminder_loop env us sent (first_error firstErr (Some e)) st'
          | (Inr didSend, st') \<Rightarrow> reminder_loop env us (if didSend then Suc sent else sent) firstErr st')"

definition RunChallengeResponseDigests :: "alert_env \<Rightarrow> alert_state \<Rightarrow> (nat \<times> string option) \<times> alert_state" where
  "RunChallengeResponseDigests env st =
     (case challengeDigestCandidates (nx_Mail env) (nt_Db st) of
        Inl e \<Rightarrow> ((0, Some e), st)
      | Inr users \<Rightarrow> reminder_loop env users 0 None st)"

section \<open>The digest\<close>

record digestItem =
  dg_ReceivedAt :: nat
  dg_ToAddr :: string
  dg_FromAddr :: string
  dg_Subject :: string
  dg_ThreatClass :: string
  dg_Tagged :: bool

definition digestItemLimit :: nat where "digestItemLimit = 50"
definition digestLookbackCap :: int where "digestLookbackCap = 30 * 24 * 3600"

definition digestSince :: "string \<Rightarrow> nat option \<Rightarrow> nat \<Rightarrow> int" where
  "digestSince frequency lastSent now =
     (let window = (if frequency = ''daily'' then 24 * 3600 else 7 * 24 * 3600);
          since = (case lastSent of None \<Rightarrow> int now - window | Some t \<Rightarrow> int t);
          bottom = int now - digestLookbackCap
      in if since < bottom then bottom else since)"

definition quarantineDigestCandidates :: "mail_env \<Rightarrow> user_row list result" where
  "quarantineDigestCandidates env =
     (if mv_Err env ''select digest candidates'' then Inl ''select digest candidates''
      else Inr (sort_key (\<lambda>u. (u_OrganizationID u, map byte (to_lower (u_Email u))))
        (filter (\<lambda>u. u_IsActive u \<and> u_PhishingAlertFrequency u \<in> {''daily'', ''weekly''}) (lv_Users (mv_View env)))))"

definition digest_held :: "user_row \<Rightarrow> int \<Rightarrow> mail_db \<Rightarrow> quarantine_row list" where
  "digest_held u since db =
     filter (\<lambda>q. qe_OrganizationID q = u_OrganizationID u \<and> qe_State q = ''held'' \<and> int (qe_ReceivedAt q) > since \<and>
                 list_ex (\<lambda>m. Some (ml_ID m) = qe_MailLogID q \<and> to_lower (text_or_empty (ml_Reason m)) \<noteq> reason_pending) (md_Logs db) \<and>
                 for_user u q) (md_Quarantine db)"

definition digest_tagged :: "user_row \<Rightarrow> int \<Rightarrow> mail_db \<Rightarrow> mail_log_row list" where
  "digest_tagged u since db =
     filter (\<lambda>m. ml_OrganizationID m = u_OrganizationID u \<and> ml_Disposition m = ''tagged'' \<and> int (ml_ReceivedAt m) > since \<and>
                 (u_Role u = ''org_user'' \<longrightarrow> list_ex (\<lambda>a. to_lower a = to_lower (u_Email u)) (ml_ToAddrs m))) (md_Logs db)"

definition newest :: "('a \<Rightarrow> nat) \<Rightarrow> 'a list \<Rightarrow> 'a list" where
  "newest received xs = take digestItemLimit (sort_key (\<lambda>x. - int (received x)) xs)"

definition held_item :: "quarantine_row \<Rightarrow> digestItem" where
  "held_item q =
     \<lparr>dg_ReceivedAt = qe_ReceivedAt q, dg_ToAddr = qe_ToAddr q, dg_FromAddr = text_or_empty (qe_FromAddr q),
      dg_Subject = text_or_empty (qe_Subject q), dg_ThreatClass = text_or_empty (qe_ThreatClass q), dg_Tagged = False\<rparr>"

definition tagged_item :: "mail_log_row \<Rightarrow> digestItem" where
  "tagged_item m =
     \<lparr>dg_ReceivedAt = ml_ReceivedAt m, dg_ToAddr = join (ml_ToAddrs m) '', '', dg_FromAddr = text_or_empty (ml_FromAddr m),
      dg_Subject = text_or_empty (ml_Subject m), dg_ThreatClass = [], dg_Tagged = True\<rparr>"

definition digestItems :: "mail_env \<Rightarrow> user_row \<Rightarrow> int \<Rightarrow> mail_db \<Rightarrow> (digestItem list \<times> nat) result" where
  "digestItems env u since db =
     (let held = digest_held u since db; tagged = digest_tagged u since db
      in if mv_Err env ''count held'' then Inl ''count held''
         else if mv_Err env ''select held'' then Inl ''select held''
         else if mv_Err env ''count tagged'' then Inl ''count tagged''
         else if mv_Err env ''select tagged'' then Inl ''select tagged''
         else Inr (newest dg_ReceivedAt (map held_item (newest qe_ReceivedAt held) @ map tagged_item (newest ml_ReceivedAt tagged)),
                   length held + length tagged))"

definition digestItemLabel :: "digestItem \<Rightarrow> string" where
  "digestItemLabel item =
     (if dg_Tagged item then ''tagged as spam'' else if dg_ThreatClass item = [] then ''quarantined'' else spaced (dg_ThreatClass item))"

definition textQuarantineDigest :: "mail_env \<Rightarrow> string \<Rightarrow> digestItem list \<Rightarrow> nat \<Rightarrow> int \<Rightarrow> string \<Rightarrow> string" where
  "textQuarantineDigest env to items n since link =
     join ([''SentinelMail held or tagged '' @ itoa n @ '' message(s) for '' @ to @ '' since '' @
              mv_TimeText env ''2006-01-02 15:04 MST'' (nat since) @ ''.'', []] @
           map (\<lambda>item. ''- '' @ mv_TimeText env ''2006-01-02 15:04 MST'' (dg_ReceivedAt item) @ '' | '' @ dg_ToAddr item @ '' | '' @
                  emptyDash (dg_FromAddr item) @ '' | '' @ emptyDash (dg_Subject item) @ '' | '' @ digestItemLabel item) items @
           (if n > length items then [[], ''Showing the newest '' @ itoa (length items) @ '' of '' @ itoa n @ '' messages.''] else []) @
           (if link \<noteq> [] then [[], ''Review quarantine here: '' @ link] else []) @
           [[], ''Messages stay held until you release or delete them. Releasing a message delivers it to the mailbox it was addressed to.'']) crlf"

definition digest_row :: "mail_env \<Rightarrow> digestItem \<Rightarrow> string" where
  \<open>digest_row env item =
     ''<tr><td style="padding:8px;border-bottom:1px solid #e2e8f0;white-space:nowrap">'' @
     EscapeString (mv_TimeText env ''Jan 2 15:04'' (dg_ReceivedAt item)) @ ''</td>'' @ small_cell (dg_ToAddr item) @
     small_cell (emptyDash (dg_FromAddr item)) @ small_cell (emptyDash (dg_Subject item)) @ small_cell (digestItemLabel item) @ ''</tr>''\<close>

definition htmlQuarantineDigest :: "mail_env \<Rightarrow> string \<Rightarrow> digestItem list \<Rightarrow> nat \<Rightarrow> int \<Rightarrow> string \<Rightarrow> string" where
  \<open>htmlQuarantineDigest env to items n since link =
     (let truncNote = (if n > length items then
            ''<p style="margin:10px 0 0;color:#64748b;font-size:13px">Showing the newest '' @ itoa (length items) @ '' of '' @ itoa n @ '' messages.</p>''
          else [])
      in html_head ''720px'' ''#0f172a'' ''#93c5fd'' ''Quarantine digest'' @
         ''<tr><td style="padding:26px"><p style="margin:0 0 18px;font-size:16px;line-height:1.5">SentinelMail held or tagged <strong>'' @ itoa n @
         ''</strong> message(s) for '' @ EscapeString to @ '' since '' @ EscapeString (mv_TimeText env ''Jan 2 15:04 MST'' (nat since)) @ ''.</p>'' @ lf @
         ''<table role="presentation" width="100%" cellspacing="0" cellpadding="0" style="border-collapse:collapse;font-size:12px"><tr><th align="left" style="padding:8px">Time</th><th align="left" style="padding:8px">Recipient</th><th align="left" style="padding:8px">From</th><th align="left" style="padding:8px">Subject</th><th align="left" style="padding:8px">Status</th></tr>'' @
         concat (map (digest_row env) items) @ ''</table>'' @ truncNote @ button_table (review_button link ''#1d4ed8'' ''Review quarantine'') @
         html_foot ''Messages stay held until you release or delete them. Do not click links inside a quarantined message.'')\<close>

definition sendQuarantineDigest ::
  "mail_env \<Rightarrow> user_row \<Rightarrow> digestItem list \<Rightarrow> nat \<Rightarrow> int \<Rightarrow> mail_db \<Rightarrow> string option \<times> mail_db" where
  "sendQuarantineDigest env u items n since db =
     (case gatewayForRecipient env (u_OrganizationID u) (u_Email u) of
        Inl e \<Rightarrow> (Some e, db)
      | Inr gateway \<Rightarrow>
          (let sender = alertFrom env (u_OrganizationID u); link = quarantineURL env None [] db;
               subject = ''SentinelMail quarantine digest ('' @ itoa n @ '' message'' @ (if n = 1 then '')'' else ''s)'');
               boundary = ''smg-quarantine-digest-boundary''
           in send_alert env u gateway (snd sender) (u_OrganizationID u) None None ''quarantine_digest'' subject
                (multipart (alert_headers (mv_AddrText env (fst sender) (snd sender)) (u_Email u) subject boundary) boundary
                   (textQuarantineDigest env (u_Email u) items n since link) (htmlQuarantineDigest env (u_Email u) items n since link))
                [(''item_count'', JNum (of_nat (length items))), (''total_count'', JNum (of_nat n)),
                 (''since'', JStr (mv_TimeText env ''2006-01-02T15:04:05Z07:00'' (nat since)))] db))"

fun digest_loop :: "alert_env \<Rightarrow> user_row list \<Rightarrow> nat \<Rightarrow> string option \<Rightarrow> alert_state \<Rightarrow> (nat \<times> string option) \<times> alert_state" where
  "digest_loop env [] sent firstErr st = ((sent, firstErr), st)"
| "digest_loop env (u # us) sent firstErr st =
     (let mail = nx_Mail env; lastSent = at_AlertSent (nt_Times st (u_ID u)); since = digestSince (u_PhishingAlertFrequency u) lastSent (mv_Now mail)
      in if \<not> shouldSend (u_PhishingAlertFrequency u) lastSent (mv_Now mail) then digest_loop env us sent firstErr st
         else case digestItems mail u since (nt_Db st) of
           Inl e \<Rightarrow> digest_loop env us sent (first_error firstErr (Some e)) st
         | Inr (items, n) \<Rightarrow>
             if n = 0 then digest_loop env us sent firstErr st
             else case sendQuarantineDigest mail u items n since (nt_Db st) of
               (Some e, db) \<Rightarrow> digest_loop env us sent (first_error firstErr (Some e)) (st\<lparr>nt_Db := db\<rparr>)
             | (None, db) \<Rightarrow>
                 (let (e, st') = mark_alerted env (u_ID u) (st\<lparr>nt_Db := db\<rparr>)
                  in digest_loop env us (Suc sent) (first_error firstErr e) st'))"

definition RunQuarantineAlertDigests :: "alert_env \<Rightarrow> alert_state \<Rightarrow> (nat \<times> string option) \<times> alert_state" where
  "RunQuarantineAlertDigests env st =
     (case quarantineDigestCandidates (nx_Mail env) of
        Inl e \<Rightarrow> ((0, Some e), st)
      | Inr users \<Rightarrow> digest_loop env users 0 None st)"

section \<open>No markup from messages\<close>

text \<open>The bytes of a document that HTML reads as markup: those that delimit tags and attribute values.\<close>

definition markup :: "string \<Rightarrow> string" where
  "markup s = filter (\<lambda>c. c \<in> {CHR ''<'', CHR ''>'', CHR 0x22}) s"

lemma markup_append [simp]: "markup (a @ b) = markup a @ markup b"
  by (simp add: markup_def)

lemma markup_Nil [simp]: "markup [] = []"
  by (simp add: markup_def)

lemma markup_EscapeString [simp]: "markup (EscapeString s) = []"
  by (induction s) (auto simp: EscapeString_def escape_char_def markup_def)

lemma markup_digits [simp]: "markup (itoa n) = []"
proof -
  have "\<not> is_digit c" if "c \<in> {CHR ''<'', CHR ''>'', CHR 0x22}" for c using that by auto
  with itoa_digits [of n] show ?thesis by (auto simp: markup_def filter_empty_conv list_all_iff)
qed

lemma markup_headline: "markup (alertHeadline c) = []"
  by (simp add: alertHeadline_def markup_def)

lemma markup_concat: "markup (concat xs) = concat (map markup xs)"
  by (induction xs) auto

lemma markup_cell: "markup (small_cell s) = markup (small_cell [])"
  unfolding small_cell_def markup_append markup_EscapeString ..

lemma markup_row: "markup (detailRow l s) = markup (detailRow [] [])"
  unfolding detailRow_def markup_append markup_EscapeString ..

lemma markup_button: "markup (review_button link colour title) = markup (review_button (if link = [] then [] else ''x'') colour title)"
proof (cases "link = []")
  case False
  then have l: "(link \<noteq> []) = True" by simp
  have x: "(''x'' \<noteq> []) = True" by simp
  show ?thesis unfolding review_button_def if_not_P [OF False] l x if_True markup_append markup_EscapeString ..
qed simp

definition blank_message :: phishingMessage where
  "blank_message = \<lparr>pm_MailLogID = 0, pm_OrganizationID = 0, pm_DomainID = None, pm_FromAddr = [], pm_ToAddrs = [], pm_Subject = [],
     pm_ClientIP = [], pm_Reason = [], pm_ThreatClass = [], pm_ReceivedAt = 0\<rparr>"

definition blank_item :: digestItem where
  "blank_item = \<lparr>dg_ReceivedAt = 0, dg_ToAddr = [], dg_FromAddr = [], dg_Subject = [], dg_ThreatClass = [], dg_Tagged = False\<rparr>"

lemma htmlAlert_markup: "markup (htmlAlert to msg link) = markup (htmlAlert [] blank_message (if link = [] then [] else ''x''))"
  unfolding htmlAlert_def markup_append markup_headline button_table_def
  by (subst (1 2 3 4 5 6 7 8 9 10 11 12) markup_row) (subst markup_button, rule refl)

lemma digest_row_markup: "markup (digest_row env item) = markup (digest_row env blank_item)"
  unfolding digest_row_def markup_append markup_EscapeString by (subst (1 2 3 4 5 6 7 8) markup_cell) (rule refl)

lemma digest_rows_markup:
  "markup (concat (map (digest_row env) items)) = markup (concat (map (digest_row env) (map (\<lambda>_. blank_item) items)))"
  unfolding markup_concat map_map o_def
  by (rule arg_cong [where f = concat], rule map_cong [OF refl]) (rule digest_row_markup)

lemma htmlQuarantineDigest_markup:
  "markup (htmlQuarantineDigest env to items n since link) =
     markup (htmlQuarantineDigest env [] (map (\<lambda>_. blank_item) items) n 0 (if link = [] then [] else ''x''))"
  unfolding htmlQuarantineDigest_def Let_def markup_append button_table_def markup_EscapeString length_map
  by (subst digest_rows_markup, subst markup_button) (rule refl)

definition pending_row :: "mail_env \<Rightarrow> pendingApproval \<Rightarrow> string" where
  "pending_row env p =
     ''<tr>'' @ small_cell (mv_TimeText env ''Jan 2 15:04'' (pa_ReceivedAt p)) @ small_cell (pa_ToAddr p) @
     small_cell (emptyDash (pa_FromAddr p)) @ small_cell (emptyDash (pa_Subject p)) @ ''</tr>''"

definition blank_approval :: pendingApproval where
  "blank_approval = \<lparr>pa_ToAddr = [], pa_FromAddr = [], pa_Subject = [], pa_ReceivedAt = 0\<rparr>"

lemma pending_row_markup: "markup (pending_row env p) = markup (pending_row env blank_approval)"
  unfolding pending_row_def markup_append by (subst (1 2 3 4 5 6 7 8) markup_cell) (rule refl)

lemma pending_rows_markup:
  "markup (concat (map (pending_row env) pending)) = markup (concat (map (pending_row env) (map (\<lambda>_. blank_approval) pending)))"
  unfolding markup_concat map_map o_def
  by (rule arg_cong [where f = concat], rule map_cong [OF refl]) (rule pending_row_markup)

lemma pending_rows_empty: "(concat (map (pending_row env) pending) = []) = (pending = [])"
  by (cases pending) (simp_all add: pending_row_def)

lemma htmlChallengeAlert_markup:
  "markup (htmlChallengeAlert env to msg pending link) =
     markup (htmlChallengeAlert env [] blank_message (map (\<lambda>_. blank_approval) pending) (if link = [] then [] else ''x''))"
proof (cases "pending = []")
  case True
  show ?thesis
    unfolding htmlChallengeAlert_def Let_def pending_row_def [symmetric] pending_rows_empty True list.map
      markup_append button_table_def
    by (subst (1 2 3 4 5 6 7 8 9 10) markup_row) (subst markup_button, rule refl)
next
  case False
  then have "(pending \<noteq> []) = True" "(map (\<lambda>_. blank_approval) pending \<noteq> []) = True" by simp_all
  then show ?thesis
    unfolding htmlChallengeAlert_def Let_def pending_row_def [symmetric] pending_rows_empty
    apply (simp only: if_True markup_append button_table_def)
    apply (subst (1 2 3 4 5 6 7 8 9 10) markup_row)
    apply (subst pending_rows_markup, subst markup_button)
    by (rule refl)
qed

text \<open>C23 (markup of alerts): the HTML of an alert, a reminder or a digest has the same tags and quoted values, in the same
  order, whatever the held message, its sender and the settings say: the text of mail never becomes markup.\<close>

theorem alert_markup_fixed:
  "markup (htmlAlert to msg link) = markup (htmlAlert [] blank_message (if link = [] then [] else ''x'')) \<and>
   markup (htmlChallengeAlert env to msg pending link) =
     markup (htmlChallengeAlert env [] blank_message (map (\<lambda>_. blank_approval) pending) (if link = [] then [] else ''x'')) \<and>
   markup (htmlQuarantineDigest env to items n since link) =
     markup (htmlQuarantineDigest env [] (map (\<lambda>_. blank_item) items) n 0 (if link = [] then [] else ''x''))"
  using htmlAlert_markup htmlChallengeAlert_markup htmlQuarantineDigest_markup by blast

section \<open>Reminders keep their distance\<close>

text \<open>What a step does that leaves user \<open>i\<close> alone: his times stay, and mail goes to others among \<open>vs\<close> only.\<close>

definition spares :: "uuid \<Rightarrow> user_row set \<Rightarrow> alert_state \<Rightarrow> alert_state \<Rightarrow> bool" where
  "spares i vs st st' =
     (nt_Times st' i = nt_Times st i \<and>
      (\<exists>new. md_Outbox (nt_Db st') = md_Outbox (nt_Db st) @ new \<and>
         (\<forall>s \<in> set new. \<exists>v \<in> vs. u_ID v \<noteq> i \<and> sn_To s = [u_Email v])))"

lemma spares_refl [simp]: "spares i vs st st"
  by (simp add: spares_def)

lemma spares_trans: "spares i vs a b \<Longrightarrow> spares i vs b c \<Longrightarrow> spares i vs a c"
proof -
  assume "spares i vs a b" "spares i vs b c"
  then obtain x y where "md_Outbox (nt_Db b) = md_Outbox (nt_Db a) @ x" "md_Outbox (nt_Db c) = md_Outbox (nt_Db b) @ y"
    "\<forall>s \<in> set x. \<exists>v \<in> vs. u_ID v \<noteq> i \<and> sn_To s = [u_Email v]" "\<forall>s \<in> set y. \<exists>v \<in> vs. u_ID v \<noteq> i \<and> sn_To s = [u_Email v]"
    "nt_Times c i = nt_Times a i"
    unfolding spares_def by metis
  then show ?thesis unfolding spares_def by (intro conjI exI [of _ "x @ y"]) auto
qed

lemma spares_mono: "spares i vs a b \<Longrightarrow> vs \<subseteq> vs' \<Longrightarrow> spares i vs' a b"
  unfolding spares_def by blast

lemma send_alert_outbox:
  "send_alert env u gateway sender org domain logID kind subject raw metadata db = (e, db') \<Longrightarrow>
     \<exists>new. md_Outbox db' = md_Outbox db @ new \<and> (\<forall>s \<in> set new. sn_To s = [u_Email u])"
  unfolding send_alert_def by (drule Send_cases) auto

lemma remind_spares: "u_ID u \<noteq> i \<Longrightarrow> u \<in> vs \<Longrightarrow> spares i vs st (snd (remind env msg u st))"
  unfolding remind_def
  by (rule ends_inI, intro handler_walk)
     (auto simp: ends_in_def mark_reminded_def spares_def dest!: send_alert_outbox)

lemma sendChallengeOne_spares:
  assumes "u_ID u \<noteq> i" "u \<in> vs"
  shows "spares i vs st (snd (sendChallengeOne env msg u st))"
proof -
  have claim: "spares i vs st (snd (claimChallengeDigestAttempt (nx_Mail env) (u_ID u) st))"
    using assms(1) by (simp add: claimChallengeDigestAttempt_def spares_def)
  show ?thesis
    using claim spares_trans [OF claim remind_spares [OF assms]]
    by (auto simp: sendChallengeOne_def Let_def split: prod.splits sum.splits)
qed

definition reminder_gap :: "string \<Rightarrow> nat" where
  "reminder_gap frequency = (if frequency = ''hourly'' then 3600 else if frequency = ''daily'' then 24 * 3600 else 0)"

lemma sendChallengeOne_early:
  assumes "at_ChallengeSent (nt_Times st (u_ID u)) = Some t" "mv_Now (nx_Mail env) < t + reminder_gap (u_ChallengeAlertFrequency u)"
    "reminder_gap (u_ChallengeAlertFrequency u) \<noteq> 0"
  shows "sendChallengeOne env msg u st = (Inr False, st)"
proof -
  have "\<not> challengeDigestDue (u_ChallengeAlertFrequency u) a (Some t) p (mv_Now (nx_Mail env))" for a p
    using assms(2,3) by (auto simp: challengeDigestDue_def reminder_gap_def split: if_splits)
  with assms(1) show ?thesis by (simp add: sendChallengeOne_def Let_def)
qed

text \<open>A user who has had a reminder at \<open>t\<close> and wants them less often than that.\<close>

definition rested :: "alert_env \<Rightarrow> nat \<Rightarrow> user_row \<Rightarrow> bool" where
  "rested env t u = (reminder_gap (u_ChallengeAlertFrequency u) \<noteq> 0 \<and> mv_Now (nx_Mail env) < t + reminder_gap (u_ChallengeAlertFrequency u))"

lemma sendChallengeOne_rested:
  assumes "at_ChallengeSent (nt_Times st i) = Some t" "u \<in> vs" "\<forall>v \<in> vs. u_ID v = i \<longrightarrow> rested env t v"
  shows "spares i vs st (snd (sendChallengeOne env msg u st))"
proof (cases "u_ID u = i")
  case True
  with assms have "sendChallengeOne env msg u st = (Inr False, st)"
    by (intro sendChallengeOne_early [of st u t]) (auto simp: rested_def)
  then show ?thesis by simp
qed (use assms(2) in \<open>simp add: sendChallengeOne_spares\<close>)

lemma spares_time: "spares i vs st st' \<Longrightarrow> nt_Times st' i = nt_Times st i"
  by (simp add: spares_def)

lemma reminder_loop_spares:
  assumes "at_ChallengeSent (nt_Times st i) = Some t" "set us \<subseteq> vs" "\<forall>v \<in> vs. u_ID v = i \<longrightarrow> rested env t v"
  shows "spares i vs st (snd (reminder_loop env us sent e st))"
  using assms
proof (induction us arbitrary: sent e st)
  case (Cons u us)
  have one: "spares i vs st st'" if "sendChallengeOne env msg u st = (r, st')" for msg r st'
    using sendChallengeOne_rested [of st i t u vs env msg] Cons.prems that by auto
  have rest: "spares i vs st (snd (reminder_loop env us sent' e' st'))" if "spares i vs st st'" for sent' e' st'
    using spares_trans [OF that] Cons.IH [of st' sent' e'] Cons.prems spares_time [OF that] by simp
  show ?case using rest [OF one] rest [OF spares_refl] by (auto split: sum.split option.split prod.split)
qed simp

lemma challenge_loop_spares:
  assumes "at_ChallengeSent (nt_Times st i) = Some t" "set us \<subseteq> vs" "\<forall>v \<in> vs. u_ID v = i \<longrightarrow> rested env t v"
  shows "spares i vs st (snd (challenge_loop env msg us e st))"
  using assms
proof (induction us arbitrary: e st)
  case (Cons u us)
  have one: "spares i vs st st'" if "sendChallengeOne env msg u st = (r, st')" for r st'
    using sendChallengeOne_rested [of st i t u vs env msg] Cons.prems that by auto
  have rest: "spares i vs st (snd (challenge_loop env msg us e' st'))" if "spares i vs st st'" for e' st'
    using spares_trans [OF that] Cons.IH [of st' e'] Cons.prems spares_time [OF that] by simp
  show ?case using rest [OF one] by (auto simp: Let_def split: prod.split)
qed simp

datatype reminder_cmd = HeldMessage uuid | ReminderRun

definition reminder_step :: "alert_env \<times> reminder_cmd \<Rightarrow> alert_state \<Rightarrow> alert_state" where
  "reminder_step c st =
     (case c of (env, cmd) \<Rightarrow>
       (case cmd of
          HeldMessage i \<Rightarrow> snd (SendChallengeResponseAlertForMailLog env i st)
        | ReminderRun \<Rightarrow> snd (RunChallengeResponseDigests env st)))"

abbreviation run_users :: "alert_env \<Rightarrow> user_row set" where
  "run_users env \<equiv> set (lv_Users (mv_View (nx_Mail env)))"

lemma reminder_step_spares:
  assumes "at_ChallengeSent (nt_Times st i) = Some t" "\<forall>v \<in> run_users env. u_ID v = i \<longrightarrow> rested env t v"
  shows "spares i (run_users env) st (reminder_step (env, cmd) st)"
proof (cases cmd)
  case (HeldMessage j)
  have sub: "set users \<subseteq> run_users env" if "challengeUsers (nx_Mail env) m = Inr users" for users m
    using that by (auto simp: challengeUsers_def split: option.splits if_splits)
  show ?thesis
    using challenge_loop_spares [OF assms(1) sub assms(2)]
    by (auto simp: HeldMessage reminder_step_def SendChallengeResponseAlertForMailLog_def split: sum.split option.split)
next
  case ReminderRun
  have sub: "set users \<subseteq> run_users env" if "challengeDigestCandidates (nx_Mail env) db = Inr users" for users db
    using that by (auto simp: challengeDigestCandidates_def split: if_splits)
  show ?thesis
    using reminder_loop_spares [OF assms(1) sub assms(2)]
    by (auto simp: ReminderRun reminder_step_def RunChallengeResponseDigests_def split: sum.split)
qed

lemma rested_spares:
  assumes "at_ChallengeSent (nt_Times st i) = Some t"
    "\<forall>(env, cmd) \<in> set cs. \<forall>v \<in> run_users env. u_ID v = i \<longrightarrow> rested env t v"
  shows "spares i (\<Union>(env, cmd) \<in> set cs. run_users env) st (fold reminder_step cs st)"
  using assms
proof (induction cs arbitrary: st)
  case (Cons c cs)
  obtain env cmd where c: "c = (env, cmd)" by (cases c)
  have one: "spares i (run_users env) st (reminder_step c st)"
    using reminder_step_spares Cons.prems by (auto simp: c)
  let ?vs = "\<Union>(env, cmd) \<in> set (c # cs). run_users env"
  have "spares i (\<Union>(env, cmd) \<in> set cs. run_users env) (reminder_step c st) (fold reminder_step cs (reminder_step c st))"
    using Cons.IH [of "reminder_step c st"] Cons.prems spares_time [OF one] by simp
  then have "spares i ?vs (reminder_step c st) (fold reminder_step cs (reminder_step c st))" by (rule spares_mono) auto
  moreover have "spares i ?vs st (reminder_step c st)" using one by (rule spares_mono) (auto simp: c)
  ultimately show ?case unfolding fold_simps o_apply by (rule spares_trans [rotated])
qed simp

text \<open>A step as user \<open>u\<close> meets it: his last reminder is now the one that the step recorded, or nothing was recorded and no mail
  went to his address.\<close>

definition noted :: "alert_env \<Rightarrow> user_row \<Rightarrow> alert_state \<Rightarrow> alert_state \<Rightarrow> bool" where
  "noted env u st st' =
     (at_ChallengeSent (nt_Times st' (u_ID u)) = Some (nx_Later env (u_ID u)) \<or>
      at_ChallengeSent (nt_Times st' (u_ID u)) = at_ChallengeSent (nt_Times st (u_ID u)) \<and>
      (\<exists>new. md_Outbox (nt_Db st') = md_Outbox (nt_Db st) @ new \<and> (\<forall>s \<in> set new. sn_To s \<noteq> [u_Email u])))"

lemma noted_refl [simp]: "noted env u st st"
  by (simp add: noted_def)

lemma noted_trans: "noted env u a b \<Longrightarrow> noted env u b c \<Longrightarrow> noted env u a c"
  by (fastforce simp: noted_def)

lemma spares_noted: "spares (u_ID u) {v} st st' \<Longrightarrow> u_Email v \<noteq> u_Email u \<Longrightarrow> noted env u st st'"
  by (auto simp: spares_def noted_def)

text \<open>His own turn: the mail is sent and then recorded, or it is not sent.\<close>

lemma remind_noted:
  assumes "u_ID v = u_ID u" "\<not> mv_Err (nx_Mail env) ''update users''"
  shows "noted env u st (snd (remind env msg v st))"
proof -
  have failed: "md_Outbox db' = md_Outbox db"
    if "send_alert env' w gateway sender org domain logID kind subject raw metadata db = (Some e, db')"
    for env' w gateway sender org domain logID kind subject raw metadata db e db'
    using Send_cases [OF that [unfolded send_alert_def]] by simp
  show ?thesis
    unfolding remind_def
    by (rule ends_inI, intro handler_walk)
      (use assms in \<open>auto simp: ends_in_def mark_reminded_def noted_def dest: failed [OF sym] failed\<close>)
qed

lemma sendChallengeOne_noted:
  assumes "u_Email v = u_Email u \<longrightarrow> u_ID v = u_ID u" "\<not> mv_Err (nx_Mail env) ''update users''"
  shows "noted env u st (snd (sendChallengeOne env msg v st))"
proof (cases "u_ID v = u_ID u")
  case True
  have claim: "noted env u st (snd (claimChallengeDigestAttempt (nx_Mail env) (u_ID v) st))"
    by (simp add: claimChallengeDigestAttempt_def noted_def)
  show ?thesis
    using claim noted_trans [OF claim remind_noted [OF True assms(2)]]
    by (auto simp: sendChallengeOne_def Let_def split: prod.splits sum.splits)
next
  case False
  with assms(1) sendChallengeOne_spares [OF False, of "{v}" st env msg] show ?thesis by (auto intro: spares_noted)
qed

lemma reminder_loop_noted:
  assumes "\<forall>v \<in> set us. u_Email v = u_Email u \<longrightarrow> u_ID v = u_ID u" "\<not> mv_Err (nx_Mail env) ''update users''"
  shows "noted env u st (snd (reminder_loop env us sent e st))"
  using assms(1)
proof (induction us arbitrary: sent e st)
  case (Cons v us)
  have prem: "u_Email v = u_Email u \<longrightarrow> u_ID v = u_ID u" "\<forall>v \<in> set us. u_Email v = u_Email u \<longrightarrow> u_ID v = u_ID u"
    using Cons.prems by auto
  have one: "noted env u st st'" if "sendChallengeOne env msg v st = (r, st')" for msg r st'
    using sendChallengeOne_noted [OF prem(1) assms(2), of st msg] that by simp
  have rest: "noted env u st (snd (reminder_loop env us sent' e' st'))" if "noted env u st st'" for sent' e' st'
    by (rule noted_trans [OF that Cons.IH [OF prem(2)]])
  have step: "runs_to (\<lambda>x. noted env u st (snd x)) (reminder_loop env (v # us) sent e st)"
    unfolding reminder_loop.simps
    by (intro run_walk) (simp_all add: runs_to_def rest rest [OF one])
  then show ?case by (simp add: runs_to_def)
qed simp

lemma challenge_loop_noted:
  assumes "\<forall>v \<in> set us. u_Email v = u_Email u \<longrightarrow> u_ID v = u_ID u" "\<not> mv_Err (nx_Mail env) ''update users''"
  shows "noted env u st (snd (challenge_loop env msg us e st))"
  using assms(1)
proof (induction us arbitrary: e st)
  case (Cons v us)
  have prem: "u_Email v = u_Email u \<longrightarrow> u_ID v = u_ID u" "\<forall>v \<in> set us. u_Email v = u_Email u \<longrightarrow> u_ID v = u_ID u"
    using Cons.prems by auto
  obtain r st' where r: "sendChallengeOne env msg v st = (r, st')" by fastforce
  have one: "noted env u st st'"
    using sendChallengeOne_noted [OF prem(1) assms(2), of st msg] r by simp
  have "noted env u st (snd (challenge_loop env msg us e' st'))" for e'
    by (rule noted_trans [OF one Cons.IH [OF prem(2)]])
  then show ?case by (simp add: r)
qed simp

lemma reminder_step_noted:
  assumes "\<forall>v \<in> run_users env. u_Email v = u_Email u \<longrightarrow> u_ID v = u_ID u" "\<not> mv_Err (nx_Mail env) ''update users''"
  shows "noted env u st (reminder_step (env, cmd) st)"
proof (cases cmd)
  case (HeldMessage j)
  have sub: "\<forall>v \<in> set users. u_Email v = u_Email u \<longrightarrow> u_ID v = u_ID u" if "challengeUsers (nx_Mail env) m = Inr users" for users m
    using that assms(1) by (auto simp: challengeUsers_def split: option.splits if_splits)
  show ?thesis
    using challenge_loop_noted [OF sub assms(2)]
    by (auto simp: HeldMessage reminder_step_def SendChallengeResponseAlertForMailLog_def split: sum.split option.split)
next
  case ReminderRun
  have sub: "\<forall>v \<in> set users. u_Email v = u_Email u \<longrightarrow> u_ID v = u_ID u"
    if "challengeDigestCandidates (nx_Mail env) db = Inr users" for users db
    using that assms(1) by (auto simp: challengeDigestCandidates_def split: if_splits)
  show ?thesis
    using reminder_loop_noted [OF sub assms(2)]
    by (auto simp: ReminderRun reminder_step_def RunChallengeResponseDigests_def split: sum.split)
qed

text \<open>C24 (reminders keep their distance): when a reminder has gone out to a user with an hourly or daily reminder, and the
  statement that records it did not fail, no series of newly held messages and reminder runs within that hour or day after
  the recorded time sends him another: his recorded times stay, and all mail that leaves goes to other users.\<close>

theorem reminders_keep_distance:
  fixes u :: user_row
  assumes "st = reminder_step (env0, cmd0) st0"
    and "s \<in> set (drop (length (md_Outbox (nt_Db st0))) (md_Outbox (nt_Db st)))" "sn_To s = [u_Email u]"
    and "\<forall>v \<in> run_users env0. u_Email v = u_Email u \<longrightarrow> u_ID v = u_ID u" "\<not> mv_Err (nx_Mail env0) ''update users''"
    and "\<forall>(env, cmd) \<in> set cs. \<forall>v \<in> run_users env. u_ID v = u_ID u \<longrightarrow> rested env (nx_Later env0 (u_ID u)) v"
  shows "spares (u_ID u) (\<Union>(env, cmd) \<in> set cs. run_users env) st (fold reminder_step cs st)"
proof -
  have "noted env0 u st0 st" unfolding assms(1) by (rule reminder_step_noted [OF assms(4,5)])
  with assms(2,3) have "at_ChallengeSent (nt_Times st (u_ID u)) = Some (nx_Later env0 (u_ID u))"
    by (auto simp: noted_def)
  from rested_spares [OF this assms(6)] show ?thesis .
qed

text \<open>An hourly user gets a reminder at 100, and half an hour later there are other messages.\<close>

definition hourly_user :: user_row where
  "hourly_user = (sample_user 7 1 ''org_user'')\<lparr>u_ChallengeAlertFrequency := ''hourly''\<rparr>"

definition hourly_env :: "nat \<Rightarrow> alert_env" where
  "hourly_env now =
     \<lparr>nx_Mail = sample_mail_env\<lparr>mv_Now := now, mv_View := sample_view\<lparr>lv_Users := [hourly_user], lv_Domains := [sample_domain 5 1 ''x.io'']\<rparr>\<rparr>,
      nx_Later = (\<lambda>_. now)\<rparr>"

definition unreminded :: alert_state where
  "unreminded = \<lparr>nt_Db = sample_db\<lparr>md_Logs := [(sample_log 3 ''not_required'')\<lparr>ml_ToAddrs := [''u@x.io'']\<rparr>]\<rparr>,
     nt_Times = (\<lambda>_. \<lparr>at_AlertSent = None, at_ChallengeAttempt = None, at_ChallengeSent = None\<rparr>)\<rparr>"

lemma sends_once:
  assumes "loadPhishingMessage (nx_Mail env) i (nt_Db st) = Inr (Some msg)" "challengeUsers (nx_Mail env) (Some msg) = Inr [u]"
    and "mv_Err (nx_Mail env) = no_faults" "mv_Relay (nx_Mail env) = (\<lambda>_. None)"
    and "gatewayForRecipient (nx_Mail env) (pm_OrganizationID msg) (u_Email u) = Inr gateway"
    and "u_ChallengeAlertFrequency u = ''hourly''" "u \<in> run_users env" "u_IsActive u"
    and "at_ChallengeAttempt (nt_Times st (u_ID u)) = None" "at_ChallengeSent (nt_Times st (u_ID u)) = None"
  shows "\<exists>s. md_Outbox (nt_Db (reminder_step (env, HeldMessage i) st)) = md_Outbox (nt_Db st) @ [s] \<and> sn_To s = [u_Email u]"
proof -
  have send: "\<exists>db' s. send_alert (nx_Mail env) u gateway sender org domain logID kind subject raw metadata db = (None, db') \<and>
      md_Outbox db' = md_Outbox db @ [s] \<and> sn_To s = [u_Email u]"
    for sender org domain logID kind subject raw metadata db
  proof -
    obtain e db' where r: "send_alert (nx_Mail env) u gateway sender org domain logID kind subject raw metadata db = (e, db')"
      by fastforce
    from Send_cases [OF r [unfolded send_alert_def]] assms(4) r show ?thesis by simp
  qed
  have due: "challengeDigestDue ''hourly'' None None p n" for p n by (simp add: challengeDigestDue_def)
  have "list_ex (\<lambda>v. u_ID v = u_ID u \<and> u_IsActive v) (lv_Users (mv_View (nx_Mail env)))" using assms(7,8) by (auto simp: list_ex_iff)
  then have claim: "\<exists>st'. claimChallengeDigestAttempt (nx_Mail env) (u_ID u) st = (Inr True, st') \<and> nt_Db st' = nt_Db st"
    using assms(3,9) by (simp add: claimChallengeDigestAttempt_def claimable_def)
  have remind: "\<exists>s. md_Outbox (nt_Db (snd (remind env msg u st'))) = md_Outbox (nt_Db st') @ [s] \<and> sn_To s = [u_Email u]" for st'
  proof -
    obtain pending where pending: "pendingApprovals (nx_Mail env) (pm_OrganizationID msg) u (nt_Db st') = Inr pending"
      using assms(3) by (simp add: pendingApprovals_def)
    show ?thesis
      using send [of "snd (alertFrom (nx_Mail env) (pm_OrganizationID msg))" "pm_OrganizationID msg" "pm_DomainID msg" "Some (pm_MailLogID msg)"
          "''challenge_response_alert''" challenge_subject
          "buildChallengeResponseEmail (nx_Mail env) (alertFrom (nx_Mail env) (pm_OrganizationID msg)) (u_Email u) msg pending (nt_Db st')"
          "[(''digest_frequency'', JStr (u_ChallengeAlertFrequency u)), (''pending_count'', JNum (of_nat (length pending)))]" "nt_Db st'"]
      by (auto simp: remind_def Let_def pending assms(3,5) mark_reminded_def)
  qed
  obtain st' where st': "claimChallengeDigestAttempt (nx_Mail env) (u_ID u) st = (Inr True, st')" "nt_Db st' = nt_Db st"
    using claim by blast
  then have "snd (sendChallengeOne env msg u st) = snd (remind env msg u st')"
    by (simp add: sendChallengeOne_def Let_def assms(6,9,10) due)
  with remind [of st'] st'(2) show ?thesis
    by (simp add: reminder_step_def SendChallengeResponseAlertForMailLog_def assms(1,2) case_prod_beta)
qed

lemma reminders_keep_distance_witness:
  "\<exists>s. md_Outbox (nt_Db (reminder_step (hourly_env 100, HeldMessage 3) unreminded)) = [s] \<and> sn_To s = [''u@x.io''] \<and>
     nt_Times (fold reminder_step [(hourly_env 1900, HeldMessage 3), (hourly_env 1900, ReminderRun)]
       (reminder_step (hourly_env 100, HeldMessage 3) unreminded)) 7 =
     nt_Times (reminder_step (hourly_env 100, HeldMessage 3) unreminded) 7"
proof -
  let ?st = "reminder_step (hourly_env 100, HeldMessage 3) unreminded"
  let ?cs = "[(hourly_env 1900, HeldMessage 3), (hourly_env 1900, ReminderRun)]"
  obtain msg where msg: "loadPhishingMessage (nx_Mail (hourly_env 100)) 3 (nt_Db unreminded) = Inr (Some msg)"
    "pm_OrganizationID msg = 1" "pm_ToAddrs msg = [''u@x.io'']"
    by (simp add: loadPhishingMessage_def unreminded_def hourly_env_def sample_mail_env_def sample_log_def)
  have low: "to_lower ''u@x.io'' = ''u@x.io''" "trim_space ''u@x.io'' = ''u@x.io''" "recipient_domain ''u@x.io'' = ''x.io''"
    "to_lower ''x.io'' = ''x.io''" "trim_space ''mx'' = ''mx''"
    by code_simp+
  have users: "challengeUsers (nx_Mail (hourly_env 100)) (Some msg) = Inr [hourly_user]"
    using msg(2,3) low by (simp add: challengeUsers_def lowerAddrs_def hourly_env_def sample_mail_env_def hourly_user_def sample_user_def)
  have gateway: "gatewayForRecipient (nx_Mail (hourly_env 100)) (pm_OrganizationID msg) (u_Email hourly_user) = Inr (''mx'', 25)"
    using msg(2) low by (simp add: gatewayForRecipient_def hourly_env_def sample_mail_env_def hourly_user_def sample_user_def sample_domain_def)
  have "\<exists>s. md_Outbox (nt_Db ?st) = md_Outbox (nt_Db unreminded) @ [s] \<and> sn_To s = [u_Email hourly_user]"
    by (rule sends_once [OF msg(1) users _ _ gateway])
      (simp_all add: hourly_env_def sample_mail_env_def hourly_user_def sample_user_def unreminded_def)
  then obtain s where s: "md_Outbox (nt_Db ?st) = [s]" "sn_To s = [u_Email hourly_user]" "md_Outbox (nt_Db unreminded) = []"
    by (auto simp: unreminded_def sample_db_def)
  have rest: "rested (hourly_env 1900) (nx_Later (hourly_env 100) (u_ID hourly_user)) v" if "v \<in> run_users (hourly_env 1900)" for v
    using that by (simp add: hourly_env_def rested_def reminder_gap_def hourly_user_def)
  have one: "\<forall>v \<in> run_users (hourly_env 100). u_Email v = u_Email hourly_user \<longrightarrow> u_ID v = u_ID hourly_user"
    "\<not> mv_Err (nx_Mail (hourly_env 100)) ''update users''"
    by (simp_all add: hourly_env_def sample_mail_env_def)
  have "spares (u_ID hourly_user) (\<Union>(env, cmd) \<in> set ?cs. run_users env) ?st (fold reminder_step ?cs ?st)"
    by (rule reminders_keep_distance [OF refl _ s(2) one]) (auto simp: s intro: rest)
  from spares_time [OF this] s show ?thesis by (simp add: hourly_user_def sample_user_def)
qed

section \<open>What a digest misses\<close>

text \<open>The window of a digest begins when the previous one was recorded, after it was sent: what arrived while that was under
  way is in neither.\<close>

lemma digest_skips_arrivals:
  assumes "qe_ReceivedAt q \<le> t" "now \<le> t + nat digestLookbackCap"
  shows "q \<notin> set (digest_held u (digestSince frequency (Some t) now) db)"
  using assms by (auto simp: digest_held_def digestSince_def Let_def digestLookbackCap_def)

lemma digest_items_bound: "digestItems env u since db = Inr (items, n) \<Longrightarrow> length items \<le> digestItemLimit"
  by (auto simp: digestItems_def newest_def Let_def split: if_splits)

end
