(* ===== verification/Reports.thy ===== *)
theory Reports
  imports MailLogs Orgs
begin

text \<open>
  \<open>internal/reports/reports.go\<close>: counts of a window of logged mail, of reports and of what organizations and users had. A \<open>GROUP BY\<close> is
  the list of its groups in the order of their first row before it is sorted; which of equal counts comes first is open in the
  code. Days and hours are those of UTC. The recursive query of the MSP statistics is the walk of \<open>Tenant\<close>.
\<close>

type_synonym count_row = "string \<times> nat"

definition group_counts :: "('a \<Rightarrow> 'k) \<Rightarrow> 'a list \<Rightarrow> ('k \<times> nat) list" where
  "group_counts f rows = map (\<lambda>k. (k, length (filter (\<lambda>x. f x = k) rows))) (dedup_on (\<lambda>k. k) [] (map f rows))"

definition by_count :: "('k \<times> nat) list \<Rightarrow> ('k \<times> nat) list" where
  "by_count rows = sort_key (\<lambda>r. - int (snd r)) rows"

section \<open>What a caller counts\<close>

definition parseWindow :: "string \<Rightarrow> nat option" where
  "parseWindow value =
     (if value = ''24h'' then Some (24 * 3600) else if value = ''7d'' then Some (7 * 24 * 3600)
      else if value = ''30d'' then Some (30 * 24 * 3600) else None)"

text \<open>The window that is reported, and its length.\<close>

definition window_of :: "string \<Rightarrow> string \<Rightarrow> string \<times> nat" where
  "window_of standard value0 =
     (let value = (if value0 = [] then standard else value0)
      in case parseWindow value of Some n \<Rightarrow> (value, n) | None \<Rightarrow> (standard, the (parseWindow standard)))"

definition scopedWhere :: "scope \<Rightarrow> identity \<Rightarrow> int \<Rightarrow> int \<Rightarrow> mail_db \<Rightarrow> mail_log_row \<Rightarrow> bool" where
  "scopedWhere scope ident since until db m =
     (int (ml_ReceivedAt m) \<ge> since \<and> int (ml_ReceivedAt m) < until \<and>
      (IsSuperAdmin scope \<or> ml_OrganizationID m \<in> set (VisibleOrgIDs scope)) \<and>
      (id_Role ident = ''org_user'' \<longrightarrow> recipientClause db (to_lower (trim_space (id_Email ident))) m))"

definition scopedQuarantineWhere :: "scope \<Rightarrow> identity \<Rightarrow> int \<Rightarrow> quarantine_row \<Rightarrow> bool" where
  "scopedQuarantineWhere scope ident since q =
     ((case qe_ReleasedAt q of None \<Rightarrow> False | Some t \<Rightarrow> int t \<ge> since) \<and> qe_State q = ''released'' \<and>
      (IsSuperAdmin scope \<or> qe_OrganizationID q \<in> set (VisibleOrgIDs scope)) \<and>
      (id_Role ident = ''org_user'' \<longrightarrow> to_lower (qe_ToAddr q) = to_lower (trim_space (id_Email ident))))"

definition report_log :: "mail_db \<Rightarrow> phishing_report_row \<Rightarrow> mail_log_row option" where
  "report_log db r = Option.bind (pr_MailLogID r) (log_by_id (md_Logs db))"

definition report_message :: "mail_db \<Rightarrow> phishing_report_row \<Rightarrow> mailbox_row option" where
  "report_message db r = Option.bind (pr_MailboxMessageID r) (\<lambda>i. find (\<lambda>c. mb_ID c = i) (md_Mailbox db))"

definition scopedPhishingWhere :: "scope \<Rightarrow> identity \<Rightarrow> int \<Rightarrow> mail_db \<Rightarrow> phishing_report_row \<Rightarrow> bool" where
  "scopedPhishingWhere scope ident since db r =
     (let email = to_lower (trim_space (id_Email ident))
      in int (pr_ReportedAt r) \<ge> since \<and>
         (IsSuperAdmin scope \<or> pr_OrganizationID r \<in> set (VisibleOrgIDs scope)) \<and>
         (id_Role ident = ''org_user'' \<longrightarrow>
            (case report_log db r of None \<Rightarrow> False | Some m \<Rightarrow> list_ex (\<lambda>t. to_lower t = email) (ml_ToAddrs m)) \<or>
            (case report_message db r of None \<Rightarrow> False | Some c \<Rightarrow> to_lower (mb_ToAddr c) = email)))"

section \<open>Classes of messages\<close>

definition emailTypeCase :: "mail_db \<Rightarrow> mail_log_row \<Rightarrow> string" where
  "emailTypeCase db m =
     (let verdict_in = (\<lambda>vs. list_ex (\<lambda>c. mb_MailLogID c = ml_ID m \<and> mb_Verdict c \<in> set vs) (md_Mailbox db));
          reason = to_lower (text_or_empty (ml_Reason m)); d = ml_Disposition m;
          score = (case ml_RspamdScore m of None \<Rightarrow> 0 | Some s \<Rightarrow> s)
      in if verdict_in [''not_spam''] then ''User confirmed clean''
         else if verdict_in [''phishing'', ''malware''] then ''User reported threat''
         else if verdict_in [''spam''] then ''User reported spam''
         else if scan_verdict_in db m [''malicious'', ''phishing'', ''malware''] then ''Scanner confirmed threat''
         else if sql_like ''%phishing signal%'' reason then ''Possible phishing''
         else if sql_like ''%phishing%'' reason then ''Likely phishing''
         else if sql_like ''%malware%'' reason \<or> sql_like ''%virus%'' reason then ''Likely malware''
         else if d = ''quarantined'' \<or> score \<ge> 7 then ''Likely spam''
         else if d = ''tagged'' \<or> score \<ge> 5 then ''Possible spam''
         else if d = ''rejected'' then ''Rejected''
         else if d = ''failed'' then ''Failed/deferred''
         else ''Clean or wanted mail'')"

definition reason_blocked :: "mail_log_row \<Rightarrow> bool" where
  "reason_blocked m = (to_lower (text_or_empty (ml_Reason m)) = ''sender matched blacklist'')"

definition threat_category :: "mail_log_row \<Rightarrow> string" where
  "threat_category m =
     (let d = ml_Disposition m; symbols = log_symbols m
      in if reason_blocked m then ''Sender blocklist''
         else if to_lower (text_or_empty (ml_Reason m)) = ''reputation blocklist hit'' then ''Reputation blocklist''
         else if list_ex phishing_symbol symbols then ''Phishing / impersonation''
         else if list_ex malware_symbol symbols then ''Malware''
         else if list_ex blocklist_symbol symbols then ''Reputation blocklist''
         else if d \<in> {''quarantined'', ''tagged''} then ''Spam content''
         else if d \<in> {''rejected'', ''failed''} then ''Rejected / failed''
         else ''Clean or low risk'')"

definition delivery_outcome :: "mail_log_row \<Rightarrow> string" where
  "delivery_outcome m =
     (let d = ml_Disposition m
      in if reason_blocked m then ''blocked''
         else if d \<in> {''rejected'', ''failed'', ''deferred'', ''tagged'', ''quarantined''} then d
         else ''delivered'')"

definition outcome_rank :: "string \<Rightarrow> nat" where
  "outcome_rank x =
     (if x = ''blocked'' then 1 else if x = ''rejected'' then 2 else if x = ''failed'' then 3 else if x = ''deferred'' then 4
      else if x = ''quarantined'' then 5 else if x = ''tagged'' then 6 else 7)"

text \<open>A message without a score fails all comparisons.\<close>

definition score_band :: "mail_log_row \<Rightarrow> string" where
  "score_band m =
     (let s = ml_RspamdScore m
      in if at_least s 15 then ''Reject level >= 15''
         else if at_least s 7 then ''Quarantine level 7-14.99''
         else if at_least s 5 then ''Tagged spam 5-6.99''
         else if at_least s 0 then ''Low or neutral 0-4.99''
         else ''Trusted / negative score'')"

definition band_rank :: "string \<Rightarrow> nat" where
  "band_rank x =
     (if x = ''Reject level >= 15'' then 1 else if x = ''Quarantine level 7-14.99'' then 2 else if x = ''Tagged spam 5-6.99'' then 3
      else if x = ''Low or neutral 0-4.99'' then 4 else 5)"

definition blocked_domain :: "mail_log_row \<Rightarrow> string" where
  "blocked_domain m = (case log_domain m of None \<Rightarrow> ''(unknown)'' | Some d \<Rightarrow> if d = [] then ''(unknown)'' else d)"

definition sender_key :: "mail_log_row \<Rightarrow> string" where
  "sender_key m = (let a = to_lower (text_or_empty (ml_FromAddr m)) in if a = [] then ''(unknown)'' else a)"

definition domain_key :: "domain_row list \<Rightarrow> mail_log_row \<Rightarrow> string" where
  "domain_key domains m =
     (case Option.bind (ml_DomainID m) (domain_by_id domains) of None \<Rightarrow> ''(unknown)'' | Some d \<Rightarrow> dm_Name d)"

definition trunc :: "nat \<Rightarrow> nat \<Rightarrow> nat" where
  "trunc unit t = t div unit * unit"

definition dnsbl_unavailable :: "mail_log_row \<Rightarrow> bool" where
  "dnsbl_unavailable m =
     list_ex (\<lambda>s. let k = to_upper (fst s) in sql_like ''%_BLOCKED'' k \<or> sql_like ''%DNSFAIL%'' k) (log_symbols m)"

section \<open>The summary\<close>

record summary =
  sy_Window :: string
  sy_Since :: int
  sy_Until :: int
  sy_Total :: nat
  sy_Inbound :: nat
  sy_Outbound :: nat
  sy_Disposition :: "count_row list"
  sy_DeliveryOutcomes :: "count_row list"
  sy_ThreatCategories :: "count_row list"
  sy_EmailTypes :: "count_row list"
  sy_ScoreBands :: "count_row list"
  sy_PhishingReports :: "count_row list"
  sy_TopSymbols :: "count_row list"
  sy_TopDomains :: "count_row list"
  sy_TopSenders :: "count_row list"
  sy_BlockedSenders :: "count_row list"
  sy_DailyVolume :: "(nat \<times> nat) list"
  sy_MailTypeTimeline :: "((nat \<times> string) \<times> nat) list"
  sy_Quarantined :: nat
  sy_Released :: nat
  sy_PhishingTotal :: nat
  sy_Rejected :: nat
  sy_Delivered :: nat
  sy_Tagged :: nat
  sy_Failed :: nat
  sy_BlockedTotal :: nat
  sy_Feedback :: "count_row list"
  sy_FalseNegatives :: nat
  sy_FalsePositives :: nat
  sy_FeedbackCoverage :: nat
  sy_DNSBLBlocked :: nat
  sy_AIJobs :: nat
  sy_AIUnavailable :: nat
  sy_DeepAnalysis :: "count_row list"

text \<open>The queries in their order, each with the answer when it fails.\<close>

definition summary_queries :: "string list" where
  "summary_queries =
     [''total failed'', ''direction summary failed'', ''disposition summary failed'', ''delivery outcome summary failed'',
      ''domain summary failed'', ''sender summary failed'', ''blocked sender summary failed'', ''blocked sender domains failed'',
      ''daily summary failed'', ''symbol summary failed'', ''threat category summary failed'', ''score band summary failed'',
      ''phishing report summary failed'', ''phishing total failed'', ''email type summary failed'', ''mail type timeline failed'',
      ''released summary failed'', ''feedback summary failed'', ''false-negative summary failed'', ''false-positive summary failed'',
      ''feedback coverage failed'', ''DNSBL availability summary failed'', ''AI job summary failed'', ''AI availability summary failed'',
      ''deep-analysis summary failed'']"

text \<open>Reports of one message, held copy or mailbox copy count once; one that names none of them counts for itself.\<close>

definition phishing_total :: "phishing_report_row list \<Rightarrow> nat" where
  "phishing_total reports =
     (let key = (\<lambda>r. case pr_MailLogID r of Some i \<Rightarrow> Some (0 :: nat, i)
                   | None \<Rightarrow> (case pr_QuarantineEntryID r of Some i \<Rightarrow> Some (1, i)
                   | None \<Rightarrow> map_option (Pair 2) (pr_MailboxMessageID r)))
      in length (remdups (filter (\<lambda>k. k \<noteq> None) (map key reports))) + length (filter (\<lambda>r. key r = None) reports))"

definition count_of :: "string \<Rightarrow> count_row list \<Rightarrow> nat" where
  "count_of k rows = (case map_of rows k of None \<Rightarrow> 0 | Some n \<Rightarrow> n)"

definition summary_of :: "mail_env \<Rightarrow> scope \<Rightarrow> identity \<Rightarrow> string \<Rightarrow> mail_db \<Rightarrow> summary" where
  "summary_of env scope ident arg db =
     (let (window, n) = window_of ''7d'' arg; until = int (mv_Now env); since = until - int n;
          logs = filter (scopedWhere scope ident since until db) (md_Logs db);
          reports = filter (scopedPhishingWhere scope ident since db) (md_Reports db);
          blocked = filter reason_blocked logs;
          copies = List.map_filter (\<lambda>c. map_option (Pair c) (find (\<lambda>m. ml_ID m = mb_MailLogID c) logs)) (md_Mailbox db);
          ai = filter (\<lambda>j. sj_Kind j = ''ai'' \<and> list_ex (\<lambda>m. sj_MailLogID j = Some (ml_ID m)) logs) (md_Jobs db);
          dispositions = by_count (group_counts ml_Disposition logs);
          directions = group_counts ml_Direction logs
      in \<lparr>sy_Window = window, sy_Since = since, sy_Until = until, sy_Total = length logs,
          sy_Inbound = count_of ''inbound'' directions, sy_Outbound = count_of ''outbound'' directions,
          sy_Disposition = dispositions,
          sy_DeliveryOutcomes = sort_key (\<lambda>r. outcome_rank (fst r)) (group_counts delivery_outcome logs),
          sy_ThreatCategories = by_count (group_counts threat_category logs),
          sy_EmailTypes = by_count (group_counts (emailTypeCase db) logs),
          sy_ScoreBands = sort_key (\<lambda>r. band_rank (fst r)) (group_counts score_band logs),
          sy_PhishingReports = by_count (group_counts pr_PhishingType reports),
          sy_TopSymbols = take 12 (by_count (group_counts id (concat (map (\<lambda>m. map fst (log_symbols m)) logs)))),
          sy_TopDomains = take 10 (by_count (group_counts (domain_key (lv_Domains (mv_View env))) logs)),
          sy_TopSenders = take 10 (by_count (group_counts sender_key logs)),
          sy_BlockedSenders = take 10 (by_count (group_counts blocked_domain blocked)),
          sy_DailyVolume = sort_key fst (group_counts (\<lambda>m. trunc 86400 (ml_ReceivedAt m)) logs),
          sy_MailTypeTimeline = sort_key (\<lambda>r. (fst (fst r), map byte (snd (fst r))))
            (group_counts (\<lambda>m. (trunc (if window = ''24h'' then 3600 else 86400) (ml_ReceivedAt m), emailTypeCase db m)) logs),
          sy_Quarantined = count_of ''quarantined'' dispositions,
          sy_Released = length (filter (scopedQuarantineWhere scope ident since) (md_Quarantine db)),
          sy_PhishingTotal = phishing_total reports,
          sy_Rejected = count_of ''rejected'' dispositions, sy_Delivered = count_of ''delivered'' dispositions,
          sy_Tagged = count_of ''tagged'' dispositions, sy_Failed = count_of ''failed'' dispositions,
          sy_BlockedTotal = length blocked,
          sy_Feedback = by_count (group_counts (\<lambda>(c, m). mb_Verdict c) (filter (\<lambda>(c, m). mb_Verdict c \<noteq> ''unreviewed'') copies)),
          sy_FalseNegatives = length (filter (\<lambda>(c, m). mb_Verdict c \<in> {''spam'', ''phishing'', ''malware''} \<and>
                                                        ml_TerminalAction m = Some ''delivered'') copies),
          sy_FalsePositives = length (filter (\<lambda>(c, m). mb_Verdict c = ''not_spam'' \<and>
                                                        ml_Disposition m \<in> {''tagged'', ''quarantined'', ''rejected''}) copies),
          sy_FeedbackCoverage = length (filter (\<lambda>(c, m). mb_Verdict c \<noteq> ''unreviewed'') copies),
          sy_DNSBLBlocked = length (filter dnsbl_unavailable logs),
          sy_AIJobs = length ai,
          sy_AIUnavailable = length (filter (\<lambda>j. sj_State j = ''failed'' \<or>
             to_lower (text_or_empty (sj_Verdict j)) \<in> {''unavailable'', ''inconclusive'', ''failed''}) ai),
          sy_DeepAnalysis = by_count (group_counts ml_DeepAnalysisState logs)\<rparr>)"

definition report_summary :: "mail_env \<Rightarrow> (scope \<times> identity) result \<Rightarrow> string \<Rightarrow> mail_db \<Rightarrow> summary response" where
  "report_summary env sc arg db =
     (case sc of
        Inl e \<Rightarrow> WriteError 500 ''scope''
      | Inr (scope, ident) \<Rightarrow>
          case find (mv_Err env) summary_queries of
            Some e \<Rightarrow> WriteError 500 e
          | None \<Rightarrow> WriteJSON 200 (summary_of env scope ident arg db))"

section \<open>The list of phishing reports\<close>

record phishing_item =
  pi_Report :: phishing_report_row
  pi_Domain :: string
  pi_FromAddr :: string
  pi_ToAddr :: string
  pi_Subject :: string

text \<open>\<open>evidence->>'key'\<close>.\<close>

definition json_field :: "mail_env \<Rightarrow> json \<Rightarrow> string \<Rightarrow> string option" where
  "json_field env v key =
     (case v of
        JObj kvs \<Rightarrow>
          (case map_of kvs key of None \<Rightarrow> None | Some JNull \<Rightarrow> None | Some (JStr s) \<Rightarrow> Some s | Some x \<Rightarrow> Some (mv_JSONText env x))
      | _ \<Rightarrow> None)"

fun coalesce_all :: "'a option list \<Rightarrow> 'a \<Rightarrow> 'a" where
  "coalesce_all [] d = d"
| "coalesce_all (x # xs) d = (case x of None \<Rightarrow> coalesce_all xs d | Some v \<Rightarrow> v)"

definition phishing_item_of :: "mail_env \<Rightarrow> mail_db \<Rightarrow> phishing_report_row \<Rightarrow> phishing_item" where
  "phishing_item_of env db r =
     (let ml = report_log db r; mm = report_message db r; evidence = json_field env (pr_Evidence r)
      in \<lparr>pi_Report = r,
          pi_Domain = (case Option.bind (pr_DomainID r) (domain_by_id (lv_Domains (mv_View env))) of None \<Rightarrow> [] | Some d \<Rightarrow> dm_Name d),
          pi_FromAddr = coalesce_all [Option.bind ml ml_FromAddr, Option.bind mm mb_FromAddr, evidence ''from_addr''] [],
          pi_ToAddr = coalesce_all [map_option mb_ToAddr mm,
             Option.bind ml (\<lambda>m. case ml_ToAddrs m of [] \<Rightarrow> None | t # _ \<Rightarrow> Some t), evidence ''to_addr''] [],
          pi_Subject = coalesce_all [Option.bind ml ml_Subject, Option.bind mm mb_Subject, evidence ''subject''] []\<rparr>)"

definition report_phishing ::
  "mail_env \<Rightarrow> (scope \<times> identity) result \<Rightarrow> page \<Rightarrow> string \<Rightarrow> mail_db \<Rightarrow> phishing_item list_envelope response" where
  "report_phishing env sc pg arg db =
     (case sc of
        Inl e \<Rightarrow> WriteError 500 ''scope''
      | Inr (scope, ident) \<Rightarrow>
          if mv_Err env ''count phishing_reports'' then WriteError 500 ''phishing report count failed''
          else if mv_Err env ''select phishing_reports'' then WriteError 500 ''phishing reports failed''
          else (let since = int (mv_Now env) - int (snd (window_of ''30d'' arg))
                in WriteJSON 200 (envelope pg (map (phishing_item_of env db) (sort_key (\<lambda>r. - int (pr_ReportedAt r))
                     (filter (scopedPhishingWhere scope ident since db) (md_Reports db)))))))"

section \<open>Statistics of organizations, users and MSPs\<close>

record org_stats =
  oa_Org :: organization
  oa_ActiveUsers :: nat
  oa_Domains :: nat
  oa_Processed :: nat
  oa_Quarantined :: nat
  oa_Rejected :: nat
  oa_PhishingReports :: nat

record user_stats =
  us_User :: user_row
  us_Processed :: nat
  us_Quarantined :: nat
  us_ReportedThreats :: nat

record msp_stats =
  ms_Org :: organization
  ms_ChildOrgs :: nat
  ms_Counts :: org_stats

record admin_stats =
  as_Window :: string
  as_Since :: int
  as_MSPs :: "msp_stats list"
  as_Orgs :: "org_stats list"
  as_Users :: "user_stats list"

text \<open>The counts over the rows whose organization is in a list.\<close>

definition stats_of :: "mail_env \<Rightarrow> int \<Rightarrow> organization \<Rightarrow> uuid list \<Rightarrow> mail_db \<Rightarrow> org_stats" where
  "stats_of env since o' ids db =
     (let logs = filter (\<lambda>m. ml_OrganizationID m \<in> set ids \<and> int (ml_ReceivedAt m) \<ge> since) (md_Logs db)
      in \<lparr>oa_Org = o',
          oa_ActiveUsers = length (filter (\<lambda>u. u_OrganizationID u \<in> set ids \<and> u_IsActive u) (lv_Users (mv_View env))),
          oa_Domains = length (filter (\<lambda>d. dm_OrganizationID d \<in> set ids \<and> dm_IsActive d) (lv_Domains (mv_View env))),
          oa_Processed = length logs, oa_Quarantined = length (filter (\<lambda>m. ml_Disposition m = ''quarantined'') logs),
          oa_Rejected = length (filter (\<lambda>m. ml_Disposition m = ''rejected'') logs),
          oa_PhishingReports = length (filter (\<lambda>r. pr_OrganizationID r \<in> set ids \<and> int (pr_ReportedAt r) \<ge> since) (md_Reports db))\<rparr>)"

definition org_filter :: "scope \<Rightarrow> organization \<Rightarrow> bool" where
  "org_filter scope o' = (IsSuperAdmin scope \<or> org_ID o' \<in> set (VisibleOrgIDs scope))"

definition orgStats :: "mail_env \<Rightarrow> scope \<Rightarrow> int \<Rightarrow> mail_db \<Rightarrow> org_stats list" where
  "orgStats env scope since db =
     map (\<lambda>o'. stats_of env since o' [org_ID o'] db)
       (sort_key (\<lambda>o'. map byte (org_Name o')) (filter (org_filter scope) (lv_Orgs (mv_View env))))"

text \<open>A message counts for a user as logged for him or as copied to his mailbox, once.\<close>

definition user_mail :: "user_row \<Rightarrow> int \<Rightarrow> (mail_log_row \<Rightarrow> bool) \<Rightarrow> mail_db \<Rightarrow> uuid list" where
  "user_mail u since p db =
     (let mine = (\<lambda>t. to_lower t = to_lower (u_Email u))
      in remdups (map ml_ID (filter (\<lambda>m. ml_OrganizationID m = u_OrganizationID u \<and> int (ml_ReceivedAt m) \<ge> since \<and> p m \<and>
                               list_ex mine (ml_ToAddrs m)) (md_Logs db)) @
                  map mb_MailLogID (filter (\<lambda>c. mb_OrganizationID c = u_OrganizationID u \<and> int (mb_ReceivedAt c) \<ge> since \<and>
                               mine (mb_ToAddr c) \<and> list_ex (\<lambda>m. ml_ID m = mb_MailLogID c \<and> p m) (md_Logs db)) (md_Mailbox db))))"

definition user_stats_of :: "int \<Rightarrow> mail_db \<Rightarrow> user_row \<Rightarrow> user_stats" where
  "user_stats_of since db u =
     \<lparr>us_User = u, us_Processed = length (user_mail u since (\<lambda>_. True) db),
      us_Quarantined = length (user_mail u since (\<lambda>m. ml_Disposition m = ''quarantined'') db),
      us_ReportedThreats = length (filter (\<lambda>c. mb_OrganizationID c = u_OrganizationID u \<and> int (mb_ReceivedAt c) \<ge> since \<and>
        to_lower (mb_ToAddr c) = to_lower (u_Email u) \<and> mb_Verdict c \<in> {''spam'', ''phishing'', ''malware''}) (md_Mailbox db))\<rparr>"

definition userStats :: "mail_env \<Rightarrow> scope \<Rightarrow> int \<Rightarrow> mail_db \<Rightarrow> user_stats list" where
  "userStats env scope since db =
     map (user_stats_of since db) (sort_key (\<lambda>u. map byte (to_lower (u_Email u)))
       (filter (\<lambda>u. list_ex (\<lambda>o'. org_ID o' = u_OrganizationID u \<and> org_filter scope o') (lv_Orgs (mv_View env))) (lv_Users (mv_View env))))"

definition is_root :: "mail_env \<Rightarrow> scope \<Rightarrow> organization \<Rightarrow> bool" where
  "is_root env scope o' =
     ((list_ex (\<lambda>u. u_OrganizationID u = org_ID o' \<and> u_Role u = ''msp_admin'') (lv_Users (mv_View env)) \<or>
       list_ex (\<lambda>c. org_ParentID c = Some (org_ID o')) (lv_Orgs (mv_View env))) \<and> org_filter scope o')"

text \<open>\<open>None\<close> when the tree below some root has no end.\<close>

definition mspStats :: "mail_env \<Rightarrow> scope \<Rightarrow> int \<Rightarrow> mail_db \<Rightarrow> msp_stats list option" where
  "mspStats env scope since db =
     (let orgs = lv_Orgs (mv_View env)
      in all_some (map (\<lambda>o'. map_option (\<lambda>ids.
             \<lparr>ms_Org = o', ms_ChildOrgs = length (filter (\<lambda>c. org_ParentID c = Some (org_ID o')) orgs),
              ms_Counts = stats_of env since o' ids db\<rparr>) (tree_query orgs (org_ID o')))
           (sort_key (\<lambda>o'. map byte (org_Name o')) (filter (is_root env scope) orgs))))"

definition adminStats :: "mail_env \<Rightarrow> (scope \<times> identity) result \<Rightarrow> string \<Rightarrow> mail_db \<Rightarrow> admin_stats response option" where
  "adminStats env sc arg db =
     (case sc of
        Inl e \<Rightarrow> Some (WriteError 500 ''scope'')
      | Inr (scope, ident) \<Rightarrow>
          if id_Role ident = ''org_user'' then Some (WriteError 403 ''admin required'')
          else
            (let (window, n) = window_of ''7d'' arg; since = int (mv_Now env) - int n
             in if mv_Err env ''select org stats'' then Some (WriteError 500 ''organization stats failed'')
                else if mv_Err env ''select user stats'' then Some (WriteError 500 ''user stats failed'')
                else if mv_Err env ''select msp stats'' then Some (WriteError 500 ''msp stats failed'')
                else map_option (\<lambda>msps. WriteJSON 200 \<lparr>as_Window = window, as_Since = since, as_MSPs = msps,
                        as_Orgs = orgStats env scope since db, as_Users = userStats env scope since db\<rparr>)
                      (mspStats env scope since db)))"

section \<open>Counts add up\<close>

lemma sum_key_counts:
  "finite K \<Longrightarrow> f ` set rows \<subseteq> K \<Longrightarrow> (\<Sum>k \<in> K. length (filter (\<lambda>x. f x = k) rows)) = length rows"
proof (induction rows)
  case (Cons x rows)
  have "(\<Sum>k \<in> K. length (filter (\<lambda>x. f x = k) (x # rows))) =
      (\<Sum>k \<in> K. (if f x = k then 1 else 0) + length (filter (\<lambda>x. f x = k) rows))"
    by (rule sum.cong) auto
  with Cons show ?case by (simp add: sum.distrib)
qed simp

lemma sum_group_counts: "sum_list (map snd (group_counts f rows)) = length rows"
proof -
  let ?ks = "dedup_on (\<lambda>k. k) [] (map f rows)"
  have "distinct ?ks" by (rule distinct_dedup_on_id)
  then have "sum_list (map snd (group_counts f rows)) = (\<Sum>k \<in> set ?ks. length (filter (\<lambda>x. f x = k) rows))"
    by (simp add: group_counts_def o_def sum_list_distinct_conv_sum_set)
  also have "\<dots> = length rows" by (rule sum_key_counts) (simp_all add: set_dedup_on_id)
  finally show ?thesis .
qed

lemma sum_sorted: "sum_list (map snd (sort_key k rows)) = sum_list (map snd (rows :: ('a \<times> nat) list))"
  by (metis mset_map mset_sort sum_mset_sum_list)

lemma group_counts_mem: "(k, n) \<in> set (group_counts f rows) \<Longrightarrow> n = length (filter (\<lambda>x. f x = k) rows) \<and> k \<in> f ` set rows"
  by (auto simp: group_counts_def set_dedup_on_id)

lemma summary_sums:
  fixes env scope ident arg db
  defines "s \<equiv> summary_of env scope ident arg db"
  shows "sum_list (map snd (sy_EmailTypes s)) = sy_Total s" "sum_list (map snd (sy_ThreatCategories s)) = sy_Total s"
    "sum_list (map snd (sy_Disposition s)) = sy_Total s" "sum_list (map snd (sy_DeliveryOutcomes s)) = sy_Total s"
    "sum_list (map snd (sy_ScoreBands s)) = sy_Total s" "sum_list (map snd (sy_DailyVolume s)) = sy_Total s"
    "sum_list (map snd (sy_MailTypeTimeline s)) = sy_Total s" "sum_list (map snd (sy_DeepAnalysis s)) = sy_Total s"
  by (simp_all add: s_def summary_of_def Let_def by_count_def sum_sorted sum_group_counts split: prod.split)

section \<open>The summary and the list agree\<close>

lemma emailTypeCase_list: "emailTypeCase db m = mailLogEmailTypeCase db m"
proof -
  have "list_ex (\<lambda>c. mb_Verdict c \<in> set vs) (log_copies db m) =
      list_ex (\<lambda>c. mb_MailLogID c = ml_ID m \<and> mb_Verdict c \<in> set vs) (md_Mailbox db)" for vs
    by (auto simp: log_copies_def list_ex_iff)
  from this [of "[''not_spam'']"] this [of "[''phishing'', ''malware'']"] this [of "[''spam'']"]
  show ?thesis by (simp add: emailTypeCase_def mailLogEmailTypeCase_def Let_def)
qed

lemma threat_category_list: "threat_category m = mailLogThreatCategoryCase m"
  by (simp add: threat_category_def mailLogThreatCategoryCase_def reason_blocked_def Let_def)

text \<open>The request that a chart opens: the list with one class as its filter, over the window of the summary.\<close>

definition no_query :: log_query where
  "no_query = \<lparr>lq_Disposition = [], lq_Outcome = [], lq_Direction = [], lq_DeliveryMismatch = [], lq_Since = [], lq_Until = [],
     lq_From = [], lq_SenderDomain = [], lq_To = [], lq_Reason = [], lq_Search = [], lq_Domain = [], lq_Symbol = [], lq_ScoreBand = [],
     lq_EmailType = [], lq_ThreatCategory = []\<rparr>"

definition drill_query :: "string \<Rightarrow> string \<Rightarrow> log_query" where
  "drill_query since until = no_query\<lparr>lq_Since := since, lq_Until := until\<rparr>"

lemma email_type_text: "trim_space (mailLogEmailTypeCase db m) = mailLogEmailTypeCase db m \<and> mailLogEmailTypeCase db m \<noteq> []"
  by (simp add: mailLogEmailTypeCase_def Let_def trim_defs)

lemma threat_category_text: "trim_space (mailLogThreatCategoryCase m) = mailLogThreatCategoryCase m \<and> mailLogThreatCategoryCase m \<noteq> []"
  by (simp add: mailLogThreatCategoryCase_def Let_def trim_defs)

lemma scoped_is_visible:
  "scopedWhere scope ident since until db m =
     (int (ml_ReceivedAt m) \<ge> since \<and> int (ml_ReceivedAt m) < until \<and> visible_log scope ident db m)"
  by (auto simp: scopedWhere_def visible_log_def)

lemma list_total:
  "list_logs lenv (Inr (scope, ident)) pg q db = WriteJSON 200 found \<Longrightarrow>
     Total found = length (filter (\<lambda>m. visible_log scope ident db m \<and> list_all id (log_clauses lenv q db m)) (md_Logs db))"
  by (auto simp: list_logs_def Let_def envelope_def split: if_splits)

lemma drill_clauses:
  assumes "parseFilterTime lenv a = Some since" "parseFilterTime lenv b = Some until"
  shows "trim_space k = k \<Longrightarrow> k \<noteq> [] \<Longrightarrow> list_all id (log_clauses lenv ((drill_query a b)\<lparr>lq_EmailType := k\<rparr>) db m) =
           (int (ml_ReceivedAt m) \<ge> since \<and> int (ml_ReceivedAt m) < until \<and> mailLogEmailTypeCase db m = k)"
    "trim_space k = k \<Longrightarrow> k \<noteq> [] \<Longrightarrow> list_all id (log_clauses lenv ((drill_query a b)\<lparr>lq_ThreatCategory := k\<rparr>) db m) =
           (int (ml_ReceivedAt m) \<ge> since \<and> int (ml_ReceivedAt m) < until \<and> mailLogThreatCategoryCase m = k)"
  using assms by (simp_all add: log_clauses_def drill_query_def no_query_def parseQueryBool_def Let_def)

text \<open>C25 (summary and list agree): the number that the summary gives for an email type or a threat category is the number of messages
  that the list finds for it over the same window, for every caller.\<close>

theorem summary_agrees_with_list:
  assumes "report_summary env (Inr (scope, ident)) arg db = WriteJSON 200 s"
    "parseFilterTime lenv a = Some (sy_Since s)" "parseFilterTime lenv b = Some (sy_Until s)"
    "(k, n) \<in> set (sy_EmailTypes s) \<and> q = (drill_query a b)\<lparr>lq_EmailType := k\<rparr> \<or>
     (k, n) \<in> set (sy_ThreatCategories s) \<and> q = (drill_query a b)\<lparr>lq_ThreatCategory := k\<rparr>"
    "list_logs lenv (Inr (scope, ident)) pg q db = WriteJSON 200 found"
  shows "Total found = n"
proof -
  let ?logs = "filter (scopedWhere scope ident (sy_Since s) (sy_Until s) db) (md_Logs db)"
  have s: "s = summary_of env scope ident arg db"
    using assms(1) by (auto simp: report_summary_def split: option.splits)
  have types: "sy_EmailTypes s = by_count (group_counts (emailTypeCase db) ?logs)"
    and cats: "sy_ThreatCategories s = by_count (group_counts threat_category ?logs)"
    by (simp_all add: s summary_of_def Let_def split: prod.split)
  from assms(4) show ?thesis
  proof
    assume k: "(k, n) \<in> set (sy_EmailTypes s) \<and> q = (drill_query a b)\<lparr>lq_EmailType := k\<rparr>"
    then have n: "n = length (filter (\<lambda>m. emailTypeCase db m = k) ?logs) \<and> k \<in> emailTypeCase db ` set ?logs"
      using group_counts_mem [of k n "emailTypeCase db" ?logs] by (auto simp: types by_count_def)
    then have "trim_space k = k" "k \<noteq> []" using email_type_text by (auto simp: emailTypeCase_list)
    with n k list_total [OF assms(5)] drill_clauses(1) [OF assms(2,3)] show ?thesis
      by (simp add: emailTypeCase_list scoped_is_visible conj_ac)
  next
    assume k: "(k, n) \<in> set (sy_ThreatCategories s) \<and> q = (drill_query a b)\<lparr>lq_ThreatCategory := k\<rparr>"
    then have n: "n = length (filter (\<lambda>m. threat_category m = k) ?logs) \<and> k \<in> threat_category ` set ?logs"
      using group_counts_mem [of k n "threat_category" ?logs] by (auto simp: cats by_count_def)
    then have "trim_space k = k" "k \<noteq> []" using threat_category_text by (auto simp: threat_category_list)
    with n k list_total [OF assms(5)] drill_clauses(2) [OF assms(2,3)] show ?thesis
      by (simp add: threat_category_list scoped_is_visible conj_ac)
  qed
qed

definition sample_window :: log_env where
  "sample_window = \<lparr>lx_Mail = sample_mail_env, lx_ParseTime = (\<lambda>t. if t = ''a'' then Some (5 - 7 * 24 * 3600) else Some 5),
     lx_ParseDuration = (\<lambda>_. None)\<rparr>"

lemma summary_agrees_with_list_witness:
  "\<exists>scope ident s k found. report_summary sample_mail_env (Inr (scope, ident)) [] sample_logged = WriteJSON 200 s \<and>
     sy_EmailTypes s = [(k, 1)] \<and>
     list_logs sample_window (Inr (scope, ident)) \<lparr>Limit = 50, Offset = 0\<rparr> ((drill_query ''a'' ''b'')\<lparr>lq_EmailType := k\<rparr>) sample_logged
       = WriteJSON 200 found \<and> Total found = 1"
proof -
  let ?m = "sample_log 21 ''none''"
  obtain scope ident where c: "sample_caller 1 ''org_admin'' = (scope, ident)" by (cases "sample_caller 1 ''org_admin''")
  define s where "s = summary_of sample_mail_env scope ident [] sample_logged"
  define k where "k = emailTypeCase sample_logged ?m"
  let ?q = "(drill_query ''a'' ''b'')\<lparr>lq_EmailType := k\<rparr>"
  have env: "mv_Err sample_mail_env = no_faults" "mv_Now sample_mail_env = 5" by (simp_all add: sample_mail_env_def)
  have s: "report_summary sample_mail_env (Inr (scope, ident)) [] sample_logged = WriteJSON 200 s"
    by (simp add: report_summary_def s_def env summary_queries_def)
  have win: "window_of ''7d'' [] = (''7d'', 7 * 24 * 3600)" by (simp add: window_of_def parseWindow_def)
  have bounds: "sy_Since s = 5 - 7 * 24 * 3600" "sy_Until s = 5" by (simp_all add: s_def summary_of_def win env Let_def)
  have "scopedWhere scope ident (5 - 7 * 24 * 3600) 5 sample_logged ?m"
    using c by (auto simp: scopedWhere_def sample_caller_def sample_log_def)
  then have logs: "filter (scopedWhere scope ident (5 - 7 * 24 * 3600) 5 sample_logged) (md_Logs sample_logged) = [?m]"
    by (simp add: sample_logged_def)
  have "sy_EmailTypes s = by_count (group_counts (emailTypeCase sample_logged)
      (filter (scopedWhere scope ident (sy_Since s) (sy_Until s) sample_logged) (md_Logs sample_logged)))"
    by (simp add: s_def summary_of_def Let_def split: prod.split)
  then have types: "sy_EmailTypes s = [(k, 1)]"
    unfolding bounds logs by (simp add: group_counts_def by_count_def k_def)
  have parse: "parseFilterTime sample_window ''a'' = Some (sy_Since s)" "parseFilterTime sample_window ''b'' = Some (sy_Until s)"
    by (simp_all add: parseFilterTime_def sample_window_def bounds trim_defs Let_def)
  obtain found where found: "list_logs sample_window (Inr (scope, ident)) \<lparr>Limit = 50, Offset = 0\<rparr> ?q sample_logged = WriteJSON 200 found"
    by (simp add: list_logs_def Let_def sample_window_def env drill_query_def no_query_def)
  have "(k, 1) \<in> set (sy_EmailTypes s) \<and> ?q = ?q" by (simp add: types)
  from summary_agrees_with_list [OF s parse disjI1 [OF this] found] s types found show ?thesis by blast
qed

text \<open>Two classes of the summary do not agree with the filter of the same name.\<close>

lemma unscored_counts_as_trusted:
  "ml_RspamdScore m = None \<Longrightarrow> score_band m = ''Trusted / negative score'' \<and> \<not> scoreBandClause ''Trusted / negative score'' m"
  by (simp add: score_band_def at_least_def scoreBandClause_def)

end
