(* ===== verification/IngestSafety.thy ===== *)
theory IngestSafety
  imports Ingest
begin

text \<open>
  What the accepted events mean over time: the flood of copies of one campaign, and the reasons for which inbound mail
  is rejected.
\<close>

text \<open>What an event is judged to be: its organization, the applicable policy and the verdict before the campaign is
  counted.\<close>

definition judged :: "ingest_env \<Rightarrow> string \<Rightarrow> (uuid \<times> Policy \<times> ingest_verdict) option" where
  "judged env raw =
     (case ie_Unmarshal env raw of
        Inl _ \<Rightarrow> None
      | Inr ev \<Rightarrow>
          case lookupDomainOrg (ie_Err env) (lv_Domains (ie_View env)) (primaryDomain (hd (ev_To (received ev)))) of
            Inl _ \<Rightarrow> None
          | Inr (domainID, orgID) \<Rightarrow>
              case Resolve (ie_Err env) (lv_Orgs (ie_View env)) (ie_Policies env) (Some domainID) (Some orgID) of
                Inl _ \<Rightarrow> None
              | Inr pol \<Rightarrow>
                  case ingest_lookups env orgID domainID pol (received ev) of
                    Inl _ \<Rightarrow> None
                  | Inr cx \<Rightarrow> Some (orgID, pol, ingest_decide env cx (received ev)))"

text \<open>The campaign that counts the event: organization, fingerprint and day.\<close>

definition campaign_of :: "ingest_env \<Rightarrow> string \<Rightarrow> (uuid \<times> string \<times> nat) option" where
  "campaign_of env raw =
     (case judged env raw of
        None \<Rightarrow> None
      | Some (orgID, _, v) \<Rightarrow>
          Some (orgID, ck_Fingerprint (campaignFingerprint (ie_SHA256 env) (iv_Event v)), bucket_date (ie_Now env)))"

definition high_confidence :: "ingest_env \<Rightarrow> string \<Rightarrow> bool" where
  "high_confidence env raw =
     (case judged env raw of
        None \<Rightarrow> False
      | Some (_, _, v) \<Rightarrow> highConfidenceCampaign (iv_Disposition v) (iv_Reason v) (iv_ThreatClass v))"

section \<open>A campaign with a representative\<close>

definition represented :: "uuid \<times> string \<times> nat \<Rightarrow> campaign list \<Rightarrow> bool" where
  "represented k camps =
     (case row_of campaign_row_key k camps of None \<Rightarrow> False | Some c \<Rightarrow> cp_RepresentativeQuarantineID c \<noteq> None \<and> cp_MessageCount c \<ge> 1)"

lemma row_of_update_where:
  "(\<And>r. key (f r) = key r) \<Longrightarrow> row_of key k (update_where p f rows) = map_option (\<lambda>r. if p r then f r else r) (row_of key k rows)"
  by (induction rows) auto

lemma represented_update:
  assumes "\<And>c. campaign_row_key (f c) = campaign_row_key c"
    "\<And>c. cp_RepresentativeQuarantineID c \<noteq> None \<Longrightarrow> cp_RepresentativeQuarantineID (f c) \<noteq> None"
    "\<And>c. cp_MessageCount (f c) = cp_MessageCount c"
    "represented k camps"
  shows "represented k (update_where p f camps)"
  using assms(2,3,4) by (auto simp: represented_def row_of_update_where [where key = campaign_row_key and f = f, OF assms(1)] split: option.splits)

lemma represented_touch:
  assumes "\<And>c. campaign_row_key (f c) = campaign_row_key c"
    "\<And>c. cp_RepresentativeQuarantineID c \<noteq> None \<Longrightarrow> cp_RepresentativeQuarantineID (f c) \<noteq> None"
    "\<And>c. cp_MessageCount (f c) = cp_MessageCount c"
    "represented k camps"
  shows "represented k (touch_campaign fails i f camps)"
  using represented_update [OF assms] assms(4) by (simp add: touch_campaign_def)

lemma represented_touches [intro]:
  assumes "represented k camps"
  shows "represented k (log_representative env i d camps)" "represented k (quarantine_representative env i camps)"
    "represented k (campaign_alerted env i camps)" "represented k (campaign_suppressed env i camps)"
  using assms
  by (auto simp: log_representative_def quarantine_representative_def campaign_alerted_def campaign_suppressed_def
      campaign_row_key_def split: option.splits intro!: represented_touch)

lemma represented_upsert:
  "represented k camps \<Longrightarrow> represented k (upsert_row campaign_row_key merge_campaign new camps)"
  by (induction camps) (auto simp: represented_def merge_campaign_def campaign_row_key_def split: option.splits)

lemma represented_record:
  assumes "represented k camps"
  shows "represented k (fst (snd (recordCampaign err sha256 inet new_id now orgID domainID d t ev (camps, sources))))"
  using assms
  by (auto simp: recordCampaign_def record_source_def Let_def campaign_row_key_def split: option.splits
      intro!: represented_upsert represented_update)

lemma store_log_represented:
  assumes "represented k (is_Campaigns st)"
  shows "represented k (is_Campaigns (snd (store_log env orgID domainID c d reason suppress v ev st)))"
  unfolding store_log_def
  by (rule ends_inI, intro handler_walk) (use assms in auto)

lemma quarantine_message_represented:
  assumes "represented k (is_Campaigns st)"
  shows "represented k (is_Campaigns (snd (quarantine_message env orgID domainID hc c t ev st)))"
  unfolding quarantine_message_def
  by (rule ends_inI, intro handler_walk) (use assms in auto)

lemma finish_message_represented:
  assumes "represented k (is_Campaigns st)"
  shows "represented k (is_Campaigns (snd (finish_message env orgID c d suppressed ev st)))"
  using assms by (auto simp: finish_message_def Let_def)

text \<open>The same as a fact about the state.\<close>

definition represented_in :: "uuid \<times> string \<times> nat \<Rightarrow> ingest_state \<Rightarrow> bool" where
  "represented_in k st = represented k (is_Campaigns st)"

lemma ingest_store_represented:
  assumes "represented_in k st"
  shows "represented_in k (snd (ingest_store env orgID domainID cx v st))"
proof -
  have rec: "represented_in k (st\<lparr>is_Campaigns := camps, is_Sources := sources'\<rparr>)"
    if "recordCampaign err sha256 inet new_id now org domain d t ev (is_Campaigns st, sources) = (a, camps, sources')"
    for err sha256 inet new_id now org domain d t ev a camps sources sources'
    using represented_record [of k "is_Campaigns st" err sha256 inet new_id now org domain d t ev sources] that assms
    by (simp add: represented_in_def)
  have store: "represented_in k st5" if "store_log env orgID domainID c d reason suppress v ev st1 = (a, st5)"
    "represented_in k st1" for c d reason suppress ev st1 a st5
    using that store_log_represented [of k st1 env orgID domainID c d reason suppress v ev] by (simp add: represented_in_def)
  have quar: "represented_in k st5" if "quarantine_message env orgID domainID hc c t ev st1 = (a, st5)"
    "represented_in k st1" for hc c t ev st1 a st5
    using that quarantine_message_represented [of k st1 env orgID domainID hc c t ev] by (simp add: represented_in_def)
  have fin: "represented_in k st5" if "finish_message env orgID c d suppressed ev st1 = (a, st5)"
    "represented_in k st1" for c d suppressed ev st1 a st5
    using that finish_message_represented [of k st1 env orgID c d suppressed ev] by (simp add: represented_in_def)
  show ?thesis
    unfolding ingest_store_def
    by (rule ends_inI, intro handler_walk)
      (auto split: if_splits dest!: rec [OF sym] dest: store [OF sym] quar [OF sym] fin [OF sym])
qed

lemma handle_represented:
  assumes "represented_in k st"
  shows "represented_in k (snd (handle env raw sigHex st))"
  unfolding handle_def
  by (rule ends_inI, intro handler_walk) (simp_all add: assms ends_in_def ingest_store_represented)

lemma events_represented:
  "represented_in k st \<Longrightarrow> represented_in k (foldl (\<lambda>st (env, raw, sigHex). snd (handle env raw sigHex st)) st events)"
  by (induction events arbitrary: st) (auto simp: handle_represented)

section \<open>The first copy\<close>

text \<open>The row that counts an event, by key and id.\<close>

definition counting_row :: "uuid \<times> string \<times> nat \<Rightarrow> uuid \<Rightarrow> campaign list \<Rightarrow> bool" where
  "counting_row k i camps =
     (case row_of campaign_row_key k camps of None \<Rightarrow> False | Some c \<Rightarrow> cp_ID c = i \<and> cp_MessageCount c \<ge> 1)"

lemma upserted_row:
  "row_of campaign_row_key (campaign_row_key new) (upsert_row campaign_row_key merge_campaign new camps) =
     Some (case row_of campaign_row_key (campaign_row_key new) camps of None \<Rightarrow> new | Some old \<Rightarrow> merge_campaign old new)"
  by (induction camps) (auto split: option.splits)

lemma recordCampaign_row:
  assumes "recordCampaign err sha256 inet new_id now (Some org) domainID d t ev (camps, sources) = (Inr c, camps', sources')"
  shows "counting_row (org, ck_Fingerprint (campaignFingerprint sha256 ev), bucket_date now) (cr_ID c) camps'"
    "represented (org, ck_Fingerprint (campaignFingerprint sha256 ev), bucket_date now) camps \<Longrightarrow>
       cr_HasRepresentative c \<and> cr_MessageCount c > 1"
proof -
  let ?k = "(org, ck_Fingerprint (campaignFingerprint sha256 ev), bucket_date now)"
  let ?new = "new_campaign sha256 new_id now org domainID d t ev"
  let ?row = "case row_of campaign_row_key ?k camps of None \<Rightarrow> ?new | Some old \<Rightarrow> merge_campaign old ?new"
  have key: "campaign_row_key ?new = ?k" by (simp add: campaign_row_key_def new_campaign_def Let_def)
  have count: "cp_MessageCount ?row \<ge> 1" by (simp add: new_campaign_def Let_def split: option.split)
  have row: "row_of campaign_row_key ?k (upsert_row campaign_row_key merge_campaign ?new camps) = Some ?row"
    using upserted_row [of ?new camps] key by simp
  have c: "cr_ID c = cp_ID ?row" "cr_MessageCount c = cp_MessageCount ?row"
    "cr_HasRepresentative c = (cp_RepresentativeQuarantineID ?row \<noteq> None)"
    using assms by (auto simp: recordCampaign_def record_source_def Let_def key row split: option.splits if_splits)
  have "camps' = upsert_row campaign_row_key merge_campaign ?new camps \<or>
      (\<exists>n. camps' = update_where (\<lambda>x. cp_ID x = cr_ID c) (\<lambda>x. x\<lparr>cp_UniqueSourceIPs := n, cp_UpdatedAt := now\<rparr>)
        (upsert_row campaign_row_key merge_campaign ?new camps))"
    using assms by (auto simp: recordCampaign_def record_source_def Let_def key row split: option.splits if_splits)
  then show "counting_row ?k (cr_ID c) camps'"
    using row count c(1)
    by (auto simp: counting_row_def row_of_update_where [where key = campaign_row_key] campaign_row_key_def)
  show "cr_HasRepresentative c \<and> cr_MessageCount c > 1" if "represented ?k camps"
    using that c(2,3) by (auto simp: represented_def merge_campaign_def split: option.splits)
qed

lemma counting_row_touch:
  assumes "\<And>c. campaign_row_key (f c) = campaign_row_key c" "\<And>c. cp_ID (f c) = cp_ID c"
    "\<And>c. cp_MessageCount (f c) = cp_MessageCount c" "counting_row k j camps"
  shows "counting_row k j (touch_campaign fails i f camps)"
  using assms(2-4)
  by (auto simp: counting_row_def touch_campaign_def row_of_update_where [where key = campaign_row_key and f = f, OF assms(1)] split: option.splits)

lemma store_log_counting:
  assumes "counting_row k i (is_Campaigns st)"
  shows "counting_row k i (is_Campaigns (snd (store_log env orgID domainID c d reason suppress v ev st)))"
proof -
  have "counting_row k i (log_representative env j e (is_Campaigns st))" for j e
    unfolding log_representative_def
    by (rule counting_row_touch) (simp_all add: assms campaign_row_key_def)
  then show ?thesis
    unfolding store_log_def
    by - (rule ends_inI, intro handler_walk, use assms in auto)
qed

lemma store_log_counting':
  "store_log env orgID domainID c d reason suppress v ev st = (a, st') \<Longrightarrow> counting_row k i (is_Campaigns st) \<Longrightarrow>
     counting_row k i (is_Campaigns st')"
  using store_log_counting [of k i st env orgID domainID c d reason suppress v ev] by simp

lemma finish_message_represented':
  "finish_message env orgID c d suppressed ev st = (s, st') \<Longrightarrow> represented k (is_Campaigns st) \<Longrightarrow> represented k (is_Campaigns st')"
  using finish_message_represented [of k st env orgID c d suppressed ev] by simp

lemma represented_now:
  assumes "counting_row k i camps" "i \<noteq> 0" "\<not> ie_Err env ''update campaign quarantine''"
  shows "represented k (quarantine_representative env i camps)"
proof -
  have row: "row_of campaign_row_key k (update_where p (\<lambda>c. c\<lparr>cp_RepresentativeQuarantineID := (case cp_RepresentativeQuarantineID c of
        None \<Rightarrow> Some (ie_QuarantineID env) | r \<Rightarrow> r), cp_UpdatedAt := ie_Now env\<rparr>) camps) =
      map_option (\<lambda>r. if p r then r\<lparr>cp_RepresentativeQuarantineID := (case cp_RepresentativeQuarantineID r of
        None \<Rightarrow> Some (ie_QuarantineID env) | r \<Rightarrow> r), cp_UpdatedAt := ie_Now env\<rparr> else r) (row_of campaign_row_key k camps)" for p
    by (rule row_of_update_where) (simp add: campaign_row_key_def)
  from assms show ?thesis
    by (auto simp: counting_row_def represented_def quarantine_representative_def touch_campaign_def row split: option.splits)
qed

lemma quarantine_message_represents:
  assumes "quarantine_message env orgID domainID hc c t ev st = (Inr False, st')"
    and "counting_row k (cr_ID c) (is_Campaigns st)" "cr_ID c \<noteq> 0" "\<not> ie_Err env ''update campaign quarantine''"
  shows "represented k (is_Campaigns st')"
proof -
  let ?Q = "\<lambda>(a, st'). a = Inr False \<longrightarrow> represented k (is_Campaigns st')"
  have "runs_to ?Q (quarantine_message env orgID domainID hc c t ev st)"
    unfolding quarantine_message_def
    by (intro run_walk) (use represented_now [OF assms(2-4)] in \<open>auto intro: represented_touches\<close>)
  with assms(1) show ?thesis by (simp add: runs_to_def)
qed

lemma first_copy_represents:
  assumes "handle env raw sigHex st = (WriteJSON n r, st')" "ir_Disposition r = Quarantined" "\<not> ir_CampaignSuppressed r"
    and "ir_CampaignID r \<noteq> 0" "\<not> ie_Err env ''update campaign quarantine''"
  shows "\<exists>k. campaign_of env raw = Some k \<and> represented_in k st'"
  using handle_handled [OF assms(1)]
proof cases
  case (handledI ev domainID orgID pol cx)
  let ?v = "ingest_decide env cx (received ev)"
  let ?k = "(orgID, ck_Fingerprint (campaignFingerprint (ie_SHA256 env) (iv_Event ?v)), bucket_date (ie_Now env))"
  have k: "campaign_of env raw = Some ?k" using handledI by (simp add: campaign_of_def judged_def)
  from handledI(5) have "represented_in ?k st'"
  proof (cases rule: answered.cases)
    case (answeredI c camps sources action d reason suppress ev' m st4 suppressed st5 s)
    have "counting_row ?k (cr_ID c) camps" by (rule recordCampaign_row(1) [OF answeredI(1)])
    then have "counting_row ?k (cr_ID c) (is_Campaigns st4)" by (intro store_log_counting' [OF answeredI(4)]) simp
    moreover have "quarantine_message env orgID domainID
        (highConfidenceCampaign (iv_Disposition ?v) (iv_Reason ?v) (iv_ThreatClass ?v)) c (iv_ThreatClass ?v) ev' st4 = (Inr False, st5)"
      using answeredI(5,8,9) assms(2,3) by (simp split: if_splits)
    moreover have "cr_ID c \<noteq> 0" using answeredI(11) assms(4) by simp
    ultimately have "represented ?k (is_Campaigns st5)"
      using assms(5) by (blast intro: quarantine_message_represents)
    then show ?thesis unfolding represented_in_def by (rule finish_message_represented' [OF answeredI(6)])
  qed
  with k show ?thesis by blast
qed

section \<open>The copies that follow\<close>

text \<open>The notifications that were started, without the warm-ups of the feeds.\<close>

definition alerts :: "ingest_state \<Rightarrow> ingest_effect list" where
  "alerts st = filter (\<lambda>e. case e of WarmFeeds _ \<Rightarrow> False | _ \<Rightarrow> True) (is_Effects st)"

lemma store_log_suppressed:
  assumes "store_log env orgID domainID c d reason True v ev st = (Inr m, st')" "\<not> shouldCreateMailboxCopy d"
  shows "\<exists>camps. st' = st\<lparr>is_MailLogs := is_MailLogs st @ [m], is_Campaigns := camps\<rparr>"
  using assms by (auto simp: store_log_def insertMailboxCopies_held Let_def split: option.splits)

lemma finish_message_suppressed:
  assumes "finish_message env orgID c d True ev st = (s, st')"
  shows "is_ScanJobs st' = is_ScanJobs st \<and> is_Queue st' = is_Queue st \<and> is_QuarantineBlobs st' = is_QuarantineBlobs st \<and>
    is_LogBlobs st' = is_LogBlobs st \<and> alerts st' = alerts st"
  using assms by (auto simp: finish_message_def alerts_def Let_def)

lemma campaign_verdict_repeat:
  assumes "campaign_verdict pol True c d reason = (action, d', reason', suppress)" "cr_HasRepresentative c" "cr_MessageCount c > 1"
  shows "suppress \<and> d' \<in> {d, Rejected}"
  using assms by (auto simp: campaign_verdict_def Let_def split: if_splits)

lemma insert_mail_log_campaign:
  "insert_mail_log env orgID domainID c d reason v ev = Some m \<Longrightarrow>
     ml_CampaignID m = (if cr_ID c = 0 then None else Some (cr_ID c)) \<and> ml_Reason m = Some reason"
  by (auto simp: insert_mail_log_def split: option.splits if_splits)

text \<open>What a suppressed copy leaves: one mail log row, and nothing to keep, to look at, to scan or to be told of.\<close>

definition only_logged :: "ingest_reply \<Rightarrow> ingest_state \<Rightarrow> ingest_state \<Rightarrow> bool" where
  "only_logged r st st' =
     (is_Quarantine st' = is_Quarantine st \<and> is_QuarantineBlobs st' = is_QuarantineBlobs st \<and> is_LogBlobs st' = is_LogBlobs st \<and>
      is_Mailbox st' = is_Mailbox st \<and> is_ScanJobs st' = is_ScanJobs st \<and> is_Queue st' = is_Queue st \<and> alerts st' = alerts st \<and>
      (\<exists>m. is_MailLogs st' = is_MailLogs st @ [m] \<and> ml_ID m = ir_MailLogID r))"

lemma repeat_only_logged:
  assumes "handle env raw sigHex st = (WriteJSON n r, st')" "high_confidence env raw"
    and "campaign_of env raw = Some k" "represented_in k st"
  shows "ir_CampaignSuppressed r \<and> only_logged r st st'"
  using handle_handled [OF assms(1)]
proof cases
  case (handledI ev domainID orgID pol cx)
  let ?v = "ingest_decide env cx (received ev)"
  have j: "judged env raw = Some (orgID, pol, ?v)" using handledI by (simp add: judged_def)
  then have k: "k = (orgID, ck_Fingerprint (campaignFingerprint (ie_SHA256 env) (iv_Event ?v)), bucket_date (ie_Now env))"
    using assms(3) by (simp add: campaign_of_def)
  have hc: "highConfidenceCampaign (iv_Disposition ?v) (iv_Reason ?v) (iv_ThreatClass ?v)"
    using assms(2) j by (simp add: high_confidence_def)
  then have q: "iv_Disposition ?v = Quarantined" by (simp add: highConfidenceCampaign_def split: if_splits)
  from handledI(5) show ?thesis
  proof (cases rule: answered.cases)
    case (answeredI c camps sources action d reason suppress ev' m st4 suppressed st5 s)
    have "cr_HasRepresentative c \<and> cr_MessageCount c > 1"
      by (rule recordCampaign_row(2) [OF answeredI(1)]) (use assms(4) k in \<open>simp add: represented_in_def\<close>)
    with campaign_verdict_repeat answeredI(2) hc q have sup: "suppress" "d \<in> {Quarantined, Rejected}" by (metis (full_types))+
    then have nocopy: "\<not> shouldCreateMailboxCopy d" by (auto simp: shouldCreateMailboxCopy_def)
    have st5: "st5 = st4" "suppressed" using answeredI(5) sup(1) by auto
    obtain camps' where st4: "st4 = st\<lparr>is_Campaigns := camps, is_Sources := sources, is_MailLogs := is_MailLogs st @ [m], is_Campaigns := camps'\<rparr>"
      using store_log_suppressed [of env orgID domainID c d reason ?v ev' _ m st4] answeredI(4) sup(1) nocopy by fastforce
    have "only_logged r st st'"
      using finish_message_suppressed [of env orgID c d ev' st5 s st'] finish_message_keeps [OF answeredI(6)] answeredI(6,7) st5 st4
      by (simp add: only_logged_def alerts_def)
    then show ?thesis using st5(2) answeredI(9) by simp
  qed
qed


section \<open>Why inbound mail is rejected\<close>

text \<open>The policy rejects the campaign of an event that is its \<open>copies\<close>th message.\<close>

definition campaign_rejects :: "ingest_env \<Rightarrow> string \<Rightarrow> nat \<Rightarrow> bool" where
  "campaign_rejects env raw copies =
     (case judged env raw of
        None \<Rightarrow> False
      | Some (_, pol, v) \<Rightarrow> highConfidenceCampaign (iv_Disposition v) (iv_Reason v) (iv_ThreatClass v) \<and>
          CampaignAction (Some pol) = ''reject'' \<and> CampaignThreshold (Some pol) \<le> int copies)"

lemma campaign_verdict_rejected:
  assumes "campaign_verdict pol hc c d reason = (action, Rejected, reason', suppress)"
  shows "d = Rejected \<and> reason' = reason \<and> \<not> hc \<or>
    hc \<and> reason' = ''high-confidence campaign threshold reached; rejected by tenant policy'' \<and>
    CampaignAction (Some pol) = ''reject'' \<and> CampaignThreshold (Some pol) \<le> int (cr_MessageCount c) \<or> d = Rejected \<and> hc"
  using assms by (auto simp: campaign_verdict_def Let_def split: if_splits)

lemma decided_rejected:
  assumes "iv_Disposition (ingest_decide env cx ev) = Rejected" "equal_fold (ev_Direction ev) ''inbound''"
  shows "iv_Reason (ingest_decide env cx ev) = ''sender matched blacklist''"
proof -
  have "fst (fst (run_stages cx ev)) = Rejected"
    using assms(1) by (auto simp: ingest_decide_def Let_def split: prod.splits if_splits)
  with assms inbound_rejected_only_if_blocked [of ev cx] show ?thesis
    by (auto simp: ingest_decide_def Let_def split: prod.splits if_splits)
qed


text \<open>The answer to the first message that a gateway takes.\<close>

lemma quarantine_message_first:
  assumes "quarantine_message env orgID domainID hc c t ev st = (Inr x, st')" "is_Quarantine st = []"
  shows "\<not> x"
proof -
  let ?Q = "\<lambda>(a, st'). a \<noteq> Inr True"
  have "runs_to ?Q (quarantine_message env orgID domainID hc c t ev st)"
    unfolding quarantine_message_def
    by (intro run_walk) (use assms(2) in \<open>auto simp: insert_quarantine_def split: option.splits if_splits\<close>)
  with assms(1) show ?thesis by (auto simp: runs_to_def)
qed

lemma first_answer:
  assumes "handle env raw sigHex empty_ingest_state = (WriteJSON n r, st')" "judged env raw = Some (orgID, pol, v)"
  shows "ir_Disposition r = iv_Disposition v" "\<not> ir_CampaignSuppressed r" "ir_CampaignID r = ie_CampaignID env"
proof -
  have "ir_Disposition r = iv_Disposition v \<and> \<not> ir_CampaignSuppressed r \<and> ir_CampaignID r = ie_CampaignID env"
    using handle_handled [OF assms(1)]
  proof cases
    case (handledI ev domainID' orgID' pol' cx)
    have v: "v = ingest_decide env cx (received ev)" using handledI assms(2) by (simp add: judged_def)
    from handledI(5) show ?thesis unfolding v [symmetric]
    proof (cases rule: answered.cases)
      case (answeredI c camps sources action d reason suppress ev' m st4 suppressed st5 s)
      have c: "cr_ID c = ie_CampaignID env" "cr_MessageCount c = 1" "\<not> cr_HasRepresentative c"
        using answeredI(1)
        by (auto simp: recordCampaign_def record_source_def empty_ingest_state_def new_campaign_def Let_def
            split: option.splits if_splits)
      have "d = iv_Disposition v \<and> \<not> suppress"
        using answeredI(2) c CampaignThreshold_bounds [of "Some (cx_Policy cx)"]
        by (auto simp: campaign_verdict_def Let_def split: if_splits)
      moreover have "is_Quarantine st4 = []" using store_log_Inr [OF answeredI(4)] by (simp add: empty_ingest_state_def)
      ultimately show ?thesis
        using answeredI(5,8,9,11) c by (auto dest: quarantine_message_first split: if_splits)
    qed
  qed
  then show "ir_Disposition r = iv_Disposition v" "\<not> ir_CampaignSuppressed r" "ir_CampaignID r = ie_CampaignID env" by auto
qed

text \<open>A message to a configured domain that is held, and one whose sender Rspamd lists.\<close>

definition judged_as :: "disposition \<Rightarrow> ingest_env \<Rightarrow> string \<Rightarrow> bool" where
  "judged_as d env raw = (case judged env raw of None \<Rightarrow> False | Some (_, _, v) \<Rightarrow> iv_Disposition v = d)"

lemma judged_asD: "judged_as d env raw \<Longrightarrow> \<exists>orgID pol v. judged env raw = Some (orgID, pol, v) \<and> iv_Disposition v = d"
  by (auto simp: judged_as_def split: option.splits)

definition listed_env :: ingest_env where
  "listed_env = sample_ingest_env\<lparr>ie_Unmarshal := (\<lambda>b. Inr (sample_event\<lparr>ev_To := [''u@m.x.io''], ev_Direction := [],
     ev_Symbols := [(''SMG_SENDER_BLACKLIST'', JObj [])]\<rparr>))\<rparr>"

lemma sample_judged: "judged_as Quarantined sample_ingest_env []" "high_confidence sample_ingest_env []"
  "judged_as Rejected listed_env []"
  by code_simp+

lemma listed_acceptable:
  "acceptable listed_env [] ''41'' (sample_event\<lparr>ev_To := [''u@m.x.io''], ev_Direction := [],
     ev_Symbols := [(''SMG_SENDER_BLACKLIST'', JObj [])]\<rparr>)"
  using sample_acceptable by (simp add: acceptable_def listed_env_def storable_def)

lemma listed_Err: "ie_Err listed_env = no_faults"
  by (simp add: listed_env_def sample_Err)



end
