(* ===== verification/Maintenance.thy ===== *)
theory Maintenance
  imports Platform Quarantine ThreatFeed
begin

text \<open>
  What runs beside the handlers: the daily purge of old messages, the health endpoints and the probe of the container
  (\<open>cmd/api/main.go\<close>, \<open>internal/httpapi/server.go\<close>), and the commands of \<open>cmd/migrate\<close> that write users and settings.
  The purge is one statement over the tables of \<open>mail_db\<close>; it removes what \<open>purge_rows\<close> removes.
\<close>

section \<open>The retention purge\<close>

text \<open>The first value that is present and not null counts; \<open>None\<close> is an error of its cast to \<open>int\<close>.\<close>

fun coalesce_int :: "json option list \<Rightarrow> int option" where
  "coalesce_int [] = Some 90"
| "coalesce_int (None # vs) = coalesce_int vs"
| "coalesce_int (Some v # vs) = (if v = JNull then coalesce_int vs else pg_int v)"

definition purge_days :: "setting_row list \<Rightarrow> uuid \<Rightarrow> int option" where
  "purge_days rows org =
     map_option (\<lambda>d. max 1 (min 365 d)) (coalesce_int (map (\<lambda>k. map_option st_Value (row_of setting_key k rows))
       [(Some org, ''message.retention_days''), (Some org, ''quarantine.retention_days''),
        (None, ''message.retention_days''), (None, ''quarantine.retention_days'')]))"

definition org_retention :: "setting_row list \<Rightarrow> organization list \<Rightarrow> (uuid \<times> int) list option" where
  "org_retention rows orgs = all_some (map (\<lambda>o'. map_option (Pair (org_ID o')) (purge_days rows (org_ID o'))) orgs)"

definition too_old :: "nat \<Rightarrow> (uuid \<times> int) list \<Rightarrow> uuid \<Rightarrow> nat \<Rightarrow> bool" where
  "too_old now days org received =
     (case map_of days org of None \<Rightarrow> False | Some d \<Rightarrow> int received < int now - d * 86400)"

definition purgeable_entry :: "nat \<Rightarrow> (uuid \<times> int) list \<Rightarrow> quarantine_row \<Rightarrow> bool" where
  "purgeable_entry now days q =
     (map_of days (qe_OrganizationID q) \<noteq> None \<and> (case qe_ExpiresAt q of None \<Rightarrow> False | Some t \<Rightarrow> t \<le> now) \<or>
      too_old now days (qe_OrganizationID q) (qe_ReceivedAt q))"

definition purgeable_message :: "nat \<Rightarrow> (uuid \<times> int) list \<Rightarrow> mailbox_row \<Rightarrow> bool" where
  "purgeable_message now days m = too_old now days (mb_OrganizationID m) (mb_ReceivedAt m)"

definition purgeMessages :: "mail_env \<Rightarrow> mail_db \<Rightarrow> (nat \<times> nat \<times> nat) option \<times> mail_db" where
  "purgeMessages env db =
     (case (if mv_Err env ''retention purge'' then None else org_retention (mv_Settings env) (lv_Orgs (mv_View env))) of
        None \<Rightarrow> (None, db)
      | Some days \<Rightarrow>
          (let old = purgeable_entry (mv_Now env) days; oldmail = purgeable_message (mv_Now env) days;
               gone = map qe_ID (filter old (md_Quarantine db))
           in (Some (length gone, length (filter (\<lambda>b. qb_EntryID b \<in> set gone) (md_QuarantineBlobs db)),
                     length (filter oldmail (md_Mailbox db))), purge_rows old oldmail db)))"

lemma coalesce_int_bounds: "purge_days rows org = Some d \<Longrightarrow> 1 \<le> d \<and> d \<le> 365"
  by (auto simp: purge_days_def)

lemma org_retention_Some:
  assumes "org_retention rows orgs = Some days"
  shows "map fst days = map org_ID orgs" "(org, d) \<in> set days \<Longrightarrow> purge_days rows org = Some d"
  using assms
proof (induction orgs arbitrary: days)
  case (Cons o' orgs)
  { case 1 with Cons show ?case by (cases "purge_days rows (org_ID o')") (auto simp: org_retention_def)
  next
    case 2 with Cons show ?case by (cases "purge_days rows (org_ID o')") (auto simp: org_retention_def) }
qed (auto simp: org_retention_def)

text \<open>An organization keeps its mail for at least a day and at most a year.\<close>

lemma org_retention_range:
  assumes "org_retention rows orgs = Some days" "map_of days org = Some d"
  shows "1 \<le> d \<and> d \<le> 365"
  using org_retention_Some(2) [OF assms(1) map_of_SomeD [OF assms(2)]] by (rule coalesce_int_bounds)

theorem purge_within_bounds:
  assumes "purgeMessages env db = (Some counts, db')"
  shows "(\<forall>q \<in> set (md_Quarantine db) - set (md_Quarantine db').
            (\<exists>t. qe_ExpiresAt q = Some t \<and> t \<le> mv_Now env) \<or> qe_ReceivedAt q + 86400 < mv_Now env) \<and>
         (\<forall>q \<in> set (md_Quarantine db'). qe_OrganizationID q \<in> org_ID ` set (lv_Orgs (mv_View env)) \<longrightarrow>
            mv_Now env \<le> qe_ReceivedAt q + 365 * 86400 \<and> (\<forall>t. qe_ExpiresAt q = Some t \<longrightarrow> mv_Now env < t)) \<and>
         (\<forall>m \<in> set (md_Mailbox db) - set (md_Mailbox db'). mb_ReceivedAt m + 86400 < mv_Now env) \<and>
         (\<forall>m \<in> set (md_Mailbox db'). mb_OrganizationID m \<in> org_ID ` set (lv_Orgs (mv_View env)) \<longrightarrow>
            mv_Now env \<le> mb_ReceivedAt m + 365 * 86400)"
proof -
  obtain days where days: "org_retention (mv_Settings env) (lv_Orgs (mv_View env)) = Some days"
    and db': "db' = purge_rows (purgeable_entry (mv_Now env) days) (purgeable_message (mv_Now env) days) db"
    using assms by (auto simp: purgeMessages_def Let_def split: option.splits if_splits)
  have old: "too_old (mv_Now env) days org t \<Longrightarrow> t + 86400 < mv_Now env" for org t
    using org_retention_range [OF days, of org] by (force simp: too_old_def split: option.splits)
  have known: "org \<in> org_ID ` set (lv_Orgs (mv_View env)) \<Longrightarrow> \<exists>d. map_of days org = Some d" for org
    using arg_cong [OF org_retention_Some(1) [OF days], of set] by (force simp: map_of_eq_None_iff dest: weak_map_of_SomeI)
  have young: "org \<in> org_ID ` set (lv_Orgs (mv_View env)) \<Longrightarrow> \<not> too_old (mv_Now env) days org t \<Longrightarrow> mv_Now env \<le> t + 365 * 86400"
    for org t using known [of org] org_retention_range [OF days, of org] by (force simp: too_old_def)
  have "\<exists>t. qe_ExpiresAt q = Some t \<and> t \<le> mv_Now env \<or> qe_ReceivedAt q + 86400 < mv_Now env"
    if "purgeable_entry (mv_Now env) days q" for q
    using that old [of "qe_OrganizationID q" "qe_ReceivedAt q"] by (auto simp: purgeable_entry_def split: option.splits)
  moreover have "mv_Now env \<le> qe_ReceivedAt q + 365 * 86400 \<and> (\<forall>t. qe_ExpiresAt q = Some t \<longrightarrow> mv_Now env < t)"
    if "\<not> purgeable_entry (mv_Now env) days q" "qe_OrganizationID q \<in> org_ID ` set (lv_Orgs (mv_View env))" for q
    using that(1) known [OF that(2)] young [OF that(2), of "qe_ReceivedAt q"] by (auto simp: purgeable_entry_def)
  moreover have "mv_Now env \<le> mb_ReceivedAt m + 365 * 86400"
    if "\<not> purgeable_message (mv_Now env) days m" "mb_OrganizationID m \<in> org_ID ` set (lv_Orgs (mv_View env))" for m
    using that(1) young [OF that(2), of "mb_ReceivedAt m"] by (simp add: purgeable_message_def)
  ultimately show ?thesis
    using old by (auto simp: db' purge_rows_def Let_def purgeable_message_def)
qed

text \<open>The days are those by which \<open>ingest\<close> sets the expiry, when all retention settings are integers.\<close>

theorem purge_days_agree:
  assumes "distinct (map setting_key rows)" "\<forall>r \<in> set rows. is_retention r \<longrightarrow> pg_int (st_Value r) \<noteq> None" "\<not> err ''select retention''"
  shows "purge_days rows org = Some (MessageRetentionDays err rows org)"
proof (cases "retention_row rows org")
  case None
  then have "\<forall>r \<in> set rows. \<not> (is_retention r \<and> (st_OrganizationID r = Some org \<or> st_OrganizationID r = None))"
    unfolding retention_row_def first_by_filter_None .
  then have "row_of setting_key (x, k) rows = None" if "x \<in> {Some org, None}" "k \<in> {''message.retention_days'', ''quarantine.retention_days''}" for x k
    using that by (force simp: row_of_None setting_key_def is_retention_def)
  with None assms(3) show ?thesis
    by (simp add: purge_days_def MessageRetentionDays_def clampRetentionDays_def retentionMinDays_def retentionMaxDays_def)
next
  case (Some r)
  note least = first_by_filter_Some [OF Some [unfolded retention_row_def]]
  then have r: "row_of setting_key (setting_key r) rows = Some r" using row_of_unique [OF assms(1)] by blast
  obtain d where d: "pg_int (st_Value r) = Some d" using assms(2) least by blast
  then have v: "st_Value r \<noteq> JNull" by (auto simp: pg_int_def)
  have none: "row_of setting_key (x, k) rows = None"
    if "x \<in> {Some org, None}" "k \<in> {''message.retention_days'', ''quarantine.retention_days''}"
      "(x = None, if k = ''message.retention_days'' then 0 else 1) < (st_OrganizationID r = None, retention_rank r)" for x k
  proof (rule ccontr)
    assume "row_of setting_key (x, k) rows \<noteq> None"
    then obtain s where "s \<in> set rows" "setting_key s = (x, k)" using row_of_Some by fastforce
    with least that show False by (fastforce simp: setting_key_def is_retention_def retention_rank_def)
  qed
  have "st_OrganizationID r \<in> {Some org, None}" "st_Key r \<in> {''message.retention_days'', ''quarantine.retention_days''}"
    using least by (auto simp: is_retention_def)
  then have "coalesce_int (map (\<lambda>k. map_option st_Value (row_of setting_key k rows))
       [(Some org, ''message.retention_days''), (Some org, ''quarantine.retention_days''),
        (None, ''message.retention_days''), (None, ''quarantine.retention_days'')]) = Some d"
    using r d v none by (auto simp: setting_key_def retention_rank_def)
  with Some d assms(3) show ?thesis
    by (simp add: purge_days_def MessageRetentionDays_def clampRetentionDays_def retentionMinDays_def retentionMaxDays_def)
qed

text \<open>A domain may keep its mail longer than its organization; ingest sets the expiry so, and the purge does not ask.\<close>

lemma domain_retention_ignored:
  assumes "org_retention (mv_Settings env) (lv_Orgs (mv_View env)) = Some days" "map_of days (mb_OrganizationID m) = Some d"
    "int (mb_ReceivedAt m) < int (mv_Now env) - d * 86400"
  shows "m \<notin> set (md_Mailbox (snd (purgeMessages env db))) \<or> mv_Err env ''retention purge''"
  using assms by (simp add: purgeMessages_def Let_def purge_rows_def purgeable_message_def too_old_def)

section \<open>Commands\<close>

text \<open>\<open>migrate reset-admin\<close>: the arguments, the environment and the table of users. The key of the table is the pair of
  organization and email, so one email may name users of several organizations.\<close>

definition reset_user :: "string \<Rightarrow> string \<Rightarrow> user_row \<Rightarrow> user_row" where
  "reset_user hash email u = u\<lparr>u_PasswordHash := hash, u_Email := email, u_MFASecret := None, u_MFAEnrolledAt := None\<rparr>"

definition resetAdmin :: "seed_env \<Rightarrow> string list \<Rightarrow> user_row list \<Rightarrow> string option \<times> user_row list" where
  "resetAdmin env args users =
     (if args = [] \<or> length args > 2 then (Some ''usage: migrate reset-admin <current-email> [new-email]'', users)
      else
        (let current = to_lower (trim_space (args ! 0)); newEmail = (if length args = 2 then to_lower (trim_space (args ! 1)) else current);
             password = (if se_Password env = [] then hex_encode (se_Random env) else se_Password env);
             named = (\<lambda>u. to_lower (u_Email u) = current)
         in if current = [] then (Some ''reset-admin: empty current email'', users)
            else if newEmail = [] then (Some ''reset-admin: empty new email'', users)
            else case HashPassword (se_Argon env) (se_Salt env) password of
              Inl e \<Rightarrow> (Some e, users)
            | Inr hash \<Rightarrow>
                if se_Err env ''update users'' \<or>
                   list_ex (\<lambda>u. named u \<and> list_ex (\<lambda>v. \<not> named v \<and> u_OrganizationID v = u_OrganizationID u \<and>
                                                   to_lower (u_Email v) = newEmail) users) users then
                  (Some ''reset-admin: update: '', users)
                else if \<not> list_ex named users then (Some ''reset-admin: no user with email'', users)
                else (None, map (\<lambda>u. if named u then reset_user hash newEmail u else u) users)))"

definition seedDefaults ::
  "seed_env \<Rightarrow> addr_env \<Rightarrow> string \<Rightarrow> setting_row list \<Rightarrow> org_state \<Rightarrow> string option \<times> setting_row list \<times> org_state" where
  "seedDefaults env addr system_from rows st =
     (case ApplyEnvironmentSettings (se_Err env) addr (se_Now env) system_from rows of
        (Some e, rows') \<Rightarrow> (Some e, rows', st)
      | (None, rows') \<Rightarrow> (let (e, st') = SeedIfEmpty env st in (e, rows', st')))"

text \<open>A reset keeps the key of the table and opens every account of that name with the password, without second factor;
  accounts of other names stay as they are.\<close>

definition user_key :: "user_row \<Rightarrow> uuid \<times> string" where
  "user_key u = (u_OrganizationID u, to_lower (u_Email u))"

definition reset_password :: "seed_env \<Rightarrow> string" where
  "reset_password env = (if se_Password env = [] then hex_encode (se_Random env) else se_Password env)"

lemma resetAdmin_cases:
  assumes "resetAdmin env args users = (e, users')"
  shows "e \<noteq> None \<and> users' = users \<or>
    (\<exists>hash email. e = None \<and> HashPassword (se_Argon env) (se_Salt env) (reset_password env) = Inr hash \<and> to_lower email = email \<and>
       users' = map (\<lambda>u. if to_lower (u_Email u) = to_lower (trim_space (args ! 0)) then reset_user hash email u else u) users \<and>
       (\<forall>u \<in> set users. \<forall>v \<in> set users. to_lower (u_Email u) = to_lower (trim_space (args ! 0)) \<and> u_OrganizationID v = u_OrganizationID u \<and>
          to_lower (u_Email v) \<noteq> to_lower (trim_space (args ! 0)) \<longrightarrow> to_lower (u_Email v) \<noteq> email))"
proof -
  let ?email = "if length args = 2 then to_lower (trim_space (args ! 1)) else to_lower (trim_space (args ! 0))"
  have low: "to_lower ?email = ?email" by simp
  show ?thesis
  proof (cases e)
    case None
    have "\<exists>hash. HashPassword (se_Argon env) (se_Salt env) (reset_password env) = Inr hash \<and>
       users' = map (\<lambda>u. if to_lower (u_Email u) = to_lower (trim_space (args ! 0)) then reset_user hash ?email u else u) users \<and>
       (\<forall>u \<in> set users. \<forall>v \<in> set users. to_lower (u_Email u) = to_lower (trim_space (args ! 0)) \<and> u_OrganizationID v = u_OrganizationID u \<and>
          to_lower (u_Email v) \<noteq> to_lower (trim_space (args ! 0)) \<longrightarrow> to_lower (u_Email v) \<noteq> ?email)"
      using assms None unfolding resetAdmin_def reset_password_def Let_def
      by (simp add: list_ex_iff del: if_split split: if_split_asm sum.split_asm) blast+
    with None low show ?thesis by blast
  next
    case (Some x)
    with assms show ?thesis by (auto simp: resetAdmin_def Let_def split: if_splits sum.splits)
  qed
qed

lemma renamed_apart:
  "(if x = n then e else x) = (if y = n then e else y) \<Longrightarrow> x = n \<and> y \<noteq> n \<longrightarrow> y \<noteq> e \<Longrightarrow> y = n \<and> x \<noteq> n \<longrightarrow> x \<noteq> e \<Longrightarrow> x = y"
  by (auto split: if_split_asm)

lemma reset_key:
  assumes "to_lower email = email"
  shows "user_key (if to_lower (u_Email u) = name then reset_user hash email u else u) =
    (u_OrganizationID u, if to_lower (u_Email u) = name then email else to_lower (u_Email u))"
  using assms by (simp add: user_key_def reset_user_def)

lemma reset_apart:
  assumes "(if to_lower (u_Email u) = name then email else to_lower (u_Email u)) =
      (if to_lower (u_Email v) = name then email else to_lower (u_Email v))"
    "to_lower (u_Email u) = name \<and> to_lower (u_Email v) \<noteq> name \<longrightarrow> to_lower (u_Email v) \<noteq> email"
    "to_lower (u_Email v) = name \<and> to_lower (u_Email u) \<noteq> name \<longrightarrow> to_lower (u_Email u) \<noteq> email"
  shows "to_lower (u_Email u) = to_lower (u_Email v)"
  using renamed_apart [of "to_lower (u_Email u)" name email "to_lower (u_Email v)"] assms by blast

lemma distinct_keys_map:
  assumes "distinct (map key xs)" "\<And>x y. x \<in> set xs \<Longrightarrow> y \<in> set xs \<Longrightarrow> key (f x) = key (f y) \<Longrightarrow> key x = key y"
  shows "distinct (map key (map f xs))"
  using assms
proof (induction xs)
  case (Cons x xs)
  have "key (f x) \<notin> (\<lambda>y. key (f y)) ` set xs"
  proof
    assume "key (f x) \<in> (\<lambda>y. key (f y)) ` set xs"
    then obtain y where "y \<in> set xs" "key (f x) = key (f y)" by blast
    with Cons.prems(2) [of x y] Cons.prems(1) show False by (auto simp: image_iff)
  qed
  moreover have "distinct (map key (map f xs))" using Cons.prems by (intro Cons.IH) auto
  ultimately show ?case by (simp add: comp_def)
qed simp
lemma reset_keys:
  assumes "distinct (map user_key users)" "to_lower email = email"
    and free: "\<forall>u \<in> set users. \<forall>v \<in> set users. to_lower (u_Email u) = name \<and> u_OrganizationID v = u_OrganizationID u \<and>
       to_lower (u_Email v) \<noteq> name \<longrightarrow> to_lower (u_Email v) \<noteq> email"
  shows "distinct (map user_key (map (\<lambda>u. if to_lower (u_Email u) = name then reset_user hash email u else u) users))"
proof (rule distinct_keys_map [OF assms(1)])
  fix u v
  assume uv: "u \<in> set users" "v \<in> set users"
    "user_key (if to_lower (u_Email u) = name then reset_user hash email u else u) =
     user_key (if to_lower (u_Email v) = name then reset_user hash email v else v)"
  note eq = uv(3) [unfolded reset_key [OF assms(2)] prod.inject]
  note org = conjunct1 [OF eq]
  have "to_lower (u_Email u) = to_lower (u_Email v)"
  proof (rule reset_apart [OF conjunct2 [OF eq]])
    show "to_lower (u_Email u) = name \<and> to_lower (u_Email v) \<noteq> name \<longrightarrow> to_lower (u_Email v) \<noteq> email"
      using bspec [OF bspec [OF free uv(1)] uv(2)] org by argo
    show "to_lower (u_Email v) = name \<and> to_lower (u_Email u) \<noteq> name \<longrightarrow> to_lower (u_Email u) \<noteq> email"
      using bspec [OF bspec [OF free uv(2)] uv(1)] org by argo
  qed
  with org show "user_key u = user_key v" by (simp only: user_key_def)
qed

theorem reset_admin_keys:
  assumes "resetAdmin env args users = (e, users')" "distinct (map user_key users)"
  shows "distinct (map user_key users')"
  using resetAdmin_cases [OF assms(1)]
proof (elim disjE exE conjE)
  fix hash email
  assume "to_lower email = email" and u: "users' = map (\<lambda>u. if to_lower (u_Email u) = to_lower (trim_space (args ! 0)) then reset_user hash email u else u) users"
    and "\<forall>u \<in> set users. \<forall>v \<in> set users. to_lower (u_Email u) = to_lower (trim_space (args ! 0)) \<and> u_OrganizationID v = u_OrganizationID u \<and>
          to_lower (u_Email v) \<noteq> to_lower (trim_space (args ! 0)) \<longrightarrow> to_lower (u_Email v) \<noteq> email"
  from reset_keys [OF assms(2) this(1,3)] show ?thesis unfolding u .
qed (simp add: assms(2))

text \<open>Its sessions are not touched: whoever was logged in stays so.\<close>

theorem reset_admin_accounts:
  assumes "resetAdmin env args users = (e, users')" "u \<in> set users"
  shows "if to_lower (u_Email u) = to_lower (trim_space (args ! 0)) \<and> e = None
    then \<exists>u' \<in> set users'. u_ID u' = u_ID u \<and> HashPassword (se_Argon env) (se_Salt env) (reset_password env) = Inr (u_PasswordHash u') \<and>
           u_MFAEnrolledAt u' = None
    else u \<in> set users'"
proof -
  have row: "(if to_lower (u_Email u) = n then reset_user hash email u else u) \<in>
      set (map (\<lambda>u. if to_lower (u_Email u) = n then reset_user hash email u else u) users)" for n hash email
    unfolding set_map by (rule imageI [OF assms(2)])
  have new: "u_ID (reset_user hash email u) = u_ID u" "u_PasswordHash (reset_user hash email u) = hash"
    "u_MFAEnrolledAt (reset_user hash email u) = None" for hash email
    by (simp_all add: reset_user_def)
  from resetAdmin_cases [OF assms(1)] show ?thesis
  proof (elim disjE exE conjE)
    assume "e \<noteq> None" "users' = users"
    then show ?thesis using assms(2) by auto
  next
    fix hash email
    assume h: "HashPassword (se_Argon env) (se_Salt env) (reset_password env) = Inr hash"
      and u: "users' = map (\<lambda>u. if to_lower (u_Email u) = to_lower (trim_space (args ! 0)) then reset_user hash email u else u) users"
    show ?thesis
    proof (cases "to_lower (u_Email u) = to_lower (trim_space (args ! 0))")
      case True
      then have "reset_user hash email u \<in> set users'"
        using row [of "to_lower (trim_space (args ! 0))" hash email] unfolding u by (simp only: if_True True)
      then have "\<exists>u' \<in> set users'. u_ID u' = u_ID u \<and> HashPassword (se_Argon env) (se_Salt env) (reset_password env) = Inr (u_PasswordHash u') \<and>
           u_MFAEnrolledAt u' = None"
        by (rule bexI [rotated]) (simp add: new h)
      moreover have "u \<in> set users'" if "e \<noteq> None"
        using resetAdmin_cases [OF assms(1)] that assms(2) by blast
      ultimately show ?thesis using True by auto
    next
      case False
      then have "u \<in> set users'" using row [of "to_lower (trim_space (args ! 0))" hash email] unfolding u by (simp only: if_False False)
      with False show ?thesis by simp
    qed
  qed
qed

section \<open>Health\<close>

record api_health =
  ah_Status :: string
  ah_Version :: string
  ah_Checks :: "(string \<times> string) list"

text \<open>The arguments are the errors of the two pings, the configuration that \<open>LookupAIConfig\<close> finds, and the feed table.\<close>

definition handleAPIHealth ::
  "faults \<Rightarrow> string \<Rightarrow> string option \<Rightarrow> string option \<Rightarrow> AIConfig \<Rightarrow> FeedConfig list \<Rightarrow> nat \<times> api_health" where
  "handleAPIHealth err version ping_db ping_redis ai feeds =
     (let check = (\<lambda>p. case p of None \<Rightarrow> ''ok'' | Some e \<Rightarrow> ''error: '' @ e);
          status = (if ping_db = None \<and> ping_redis = None then ''ok'' else ''degraded'');
          ai_text = (if ai_Mode ai = ''disabled'' then ''disabled: no provider calls are queued''
                     else if \<not> ai_Available ai then ''unavailable: '' @ ai_AvailabilityReason ai
                     else ''ready: '' @ ai_Provider ai @ '' ('' @ ai_Model ai @ ''), mode='' @ ai_Mode ai);
          failed = length (filter (\<lambda>c. fc_Enabled c \<and> fc_LastRefreshOK c = Some False) feeds);
          feed_text = (if err ''count threat_feed_config'' then ''unknown: status unavailable''
                       else if failed > 0 then ''degraded: '' @ itoa failed @ '' enabled feed failures''
                       else ''ok'')
      in (if status \<noteq> ''ok'' then 503 else 200,
          \<lparr>ah_Status = status, ah_Version = version,
           ah_Checks = [(''db'', check ping_db), (''redis'', check ping_redis), (''ai'', ai_text), (''threat_feeds'', feed_text)]\<rparr>))"

text \<open>\<open>net.SplitHostPort\<close>: the port, when the text has the form \<open>host:port\<close> or \<open>[host]:port\<close>.\<close>

definition split_port :: "string \<Rightarrow> string option" where
  "split_port s =
     (case last_index_char s CHR '':'' of
        None \<Rightarrow> None
      | Some i \<Rightarrow>
          if has_prefix s ''['' then
            (case index_char s CHR '']'' of
               None \<Rightarrow> None
             | Some j \<Rightarrow> if Suc j \<noteq> i \<or> CHR ''['' \<in> set (drop 1 s) \<or> CHR '']'' \<in> set (drop (Suc j) s) then None
                          else Some (drop (Suc i) s))
          else if CHR '':'' \<in> set (take i s) \<or> CHR ''['' \<in> set s \<or> CHR '']'' \<in> set s then None
          else Some (drop (Suc i) s))"

definition health_url :: "string \<Rightarrow> string" where
  "health_url listen =
     (let addr = (if listen = [] then '':8080'' else listen);
          port = (if has_prefix addr '':'' then addr else case split_port addr of None \<Rightarrow> addr | Some p \<Rightarrow> '':'' @ p)
      in ''http://127.0.0.1'' @ port @ ''/healthz'')"

text \<open>\<open>get\<close> is the answer of the HTTP client: an error or a status.\<close>

definition healthcheck :: "(string \<Rightarrow> nat result) \<Rightarrow> string \<Rightarrow> string option" where
  "healthcheck get listen =
     (case get (health_url listen) of
        Inl e \<Rightarrow> Some e
      | Inr code \<Rightarrow> if code \<ge> 400 then Some (''healthcheck status '' @ itoa code) else None)"

text \<open>A server that listens on a port is asked on that port.\<close>

lemma last_index_char_append:
  "CHR '':'' \<notin> set port \<Longrightarrow> last_index_char (host @ '':'' @ port) CHR '':'' = Some (length host)"
proof -
  have none: "c \<notin> set s \<Longrightarrow> last_index_char s c = None" for s c by (induction s) auto
  show "CHR '':'' \<notin> set port \<Longrightarrow> ?thesis" by (induction host) (simp_all add: none)
qed

theorem health_url_port:
  assumes "set host \<inter> {CHR '':'', CHR ''['', CHR '']''} = {}" "set port \<inter> {CHR '':'', CHR ''['', CHR '']''} = {}"
  shows "health_url (host @ '':'' @ port) = ''http://127.0.0.1:'' @ port @ ''/healthz''"
proof (cases host)
  case Nil
  then show ?thesis by (simp add: health_url_def has_prefix_def)
next
  case (Cons c cs)
  with assms have c: "c \<noteq> CHR '':''" "c \<noteq> CHR ''[''" by auto
  have "split_port (host @ '':'' @ port) = Some port"
    using assms last_index_char_append [of port host] c Cons by (auto simp: split_port_def has_prefix_def)
  with c Cons show ?thesis by (simp add: health_url_def has_prefix_def)
qed

section \<open>Routes\<close>

text \<open>Who may reach a handler: anybody, a caller who signs the body with the ingest secret, or the owner of a session.\<close>

datatype route_guard = Anybody | Signed | Session

definition routes :: "string \<Rightarrow> (string \<times> route_guard) list" where
  "routes ingestSecret =
     (''/healthz'', Anybody) #
     map (\<lambda>(p, g). (''/api/v1'' @ p, g))
       ([(''/healthz'', Anybody), (''/auth/login'', Anybody), (''/auth/logout'', Anybody), (''/auth/mfa/verify'', Anybody)] @
        (if length ingestSecret \<ge> 16 then
           [(''/mail'', Signed), (''/smtp'', Signed), (''/scan-callback'', Signed), (''/billing-webhooks'', Signed)]
         else []) @
        map (\<lambda>p. (p, Session))
          [''/me'', ''/auth/mfa/setup'', ''/auth/mfa/confirm'', ''/auth/mfa/disable'', ''/auth/impersonate/start'',
           ''/auth/impersonate/stop'', ''/orgs'', ''/domains'', ''/gateways'', ''/policies'', ''/quarantine'', ''/mailbox'',
           ''/mail-logs'', ''/reports'', ''/billing'', ''/cluster'', ''/users'', ''/system/settings'', ''/org-settings'',
           ''/sender-lists'', ''/threat-feeds'', ''/brand-intelligence'', ''/scan'', ''/audit-log'', ''/smtp-events'', ''/sent-emails''])"

lemma short_secret_mounts_no_callback: "length secret < 16 \<Longrightarrow> (p, Signed) \<notin> set (routes secret)"
  by (auto simp: routes_def)

lemma routes_once: "distinct (map fst (routes secret))"
  by (cases "length secret \<ge> 16") (simp_all add: routes_def)

end
