(* ===== verification/Spec2Isabelle.thy ===== *)
theory Spec2Isabelle
  imports Prelude GoText GoNet Httpx Tenant Policies Upsert Classifier GoUrl GoCodec ThreatFeed
    Signals MailUrls MailBrand MailStages MailPipeline Campaign Tables Settings GoScan AuthStore AuthHandlers Users MailTables Domains Sql GoAddr SenderLists SenderPolicy Ingest
    Rdap MailDb SentEmails Spoofing PhishingReports Gateways Quarantine QuarantineActions AbuseReports QuarantineBulk
    QuarantineMoves QuarantineSafety Scan DeepAnalysis Unsubscribe Mailbox MailboxSafety MailLogs SmtpEvents AuditLog Orgs Platform Brands Alerts Reports
    IngestSafety Maintenance
begin

text \<open>
  SentinelMail Gateway: a mail filter gateway in Go (\<open>src/\<close>). Rspamd posts a signed event for every
  message to the ingest endpoint; the ingest handler decides a disposition (delivered, tagged,
  quarantined, rejected) from the tenant's policy, sender lists, threat feeds, learned verdicts and
  text analysis. An HTTP API administers the tenants: organizations form a forest, and a caller sees
  the subtree of his organization. PostgreSQL and redis hold the state.

  \<^bold>\<open>Conventions.\<close> A Go string is a list of bytes, case and white space are those of ASCII text. A
  \<open>uuid\<close> is a natural number, \<open>uuid.Nil\<close> is 0; times are seconds; a \<open>float64\<close> that comes from
  JSON or a numeric column is a rational number. A Go map that is ranged over is the list of its pairs
  in the order of one such loop. An error is \<open>Inl\<close> its message. A SQL table is the list of its rows, a
  statement is a function on it, and a handler is a function from the decoded request (\<open>None\<close> for a
  path parameter that does not parse, \<open>Inl e\<close> for a body that does not decode), the caller (the answer
  of \<open>FromContext\<close>) and the tables to the response and the new tables. The statements of a handler
  that may fail on their own have labels; \<open>faults\<close> says which of them fail. The text after the
  colon of a database error message is left out. Code that is not under \<open>src/\<close> (hash functions, AES-GCM,
  DNS, HTTP clients, the public suffix list) is an argument of the definitions that call it.

  \<^bold>\<open>Shared theories.\<close> \<open>Prelude\<close>: responses, faults, first occurrences, \<open>ORDER BY ... LIMIT 1\<close>, and the
  rules \<open>handler_walk\<close> by which a predicate of the state after a handler is shown guard by guard.
  \<open>GoText\<close>, \<open>GoNet\<close>, \<open>GoUrl\<close>, \<open>GoCodec\<close>, \<open>GoScan\<close>: the functions of the Go library that the
  gateway uses, with their round trips. \<open>Httpx\<close>: \<open>internal/httpapi/httpx\<close>. \<open>Upsert\<close>: \<open>INSERT ... ON
  CONFLICT\<close> and the contract \<open>keyed_table\<close>. \<open>Tables\<close>: rows that several components read.

  \<^bold>\<open>Tenancy.\<close> \<open>Tenant\<close> (\<open>internal/tenant/scope.go\<close>): the recursive query over organizations with a
  bound on its rounds, which is the number of organizations: it ends because the parents form a forest
  (\<open>wf_orgs\<close>), and it allows exactly the caller's subtree. The locale \<open>tenant_table\<close> is the contract of
  a table whose rows only some callers may change; every CRUD component is an interpretation of it.
  \<open>Policies\<close> (\<open>internal/policies\<close>): policies, their handlers and the resolution order. \<open>Users\<close>
  (\<open>internal/users\<close>): user administration and role tiers. \<open>AuthStore\<close>, \<open>AuthHandlers\<close>
  (\<open>internal/auth\<close>): passwords, sessions, TOTP enrollment and the login challenge; the invariant is
  that every live session belongs to an entitled user, and a login names its user. \<open>Settings\<close>
  (\<open>internal/settings\<close>): the catalogue of settings, their validation, encrypted secrets.

  \<^bold>\<open>Mail.\<close> \<open>Signals\<close>, \<open>MailUrls\<close>, \<open>MailBrand\<close>, \<open>MailStages\<close>, \<open>MailPipeline\<close>
  (\<open>internal/mail/ingest.go\<close>): what is read from an event, which URLs are opened and asked of feeds,
  brand impersonation, the verdict stages, and their sequence in \<open>handle\<close>. Stages that only raise the
  severity meet the contract \<open>escalating_stage\<close>; theorems about the whole sequence say which verdicts
  survive it. \<open>Campaign\<close> (\<open>campaign.go\<close>): fingerprints and the daily campaign rows. \<open>Classifier\<close>
  (\<open>internal/classifier\<close>): scam texts, learned verdicts. \<open>ThreatFeed\<close> (\<open>internal/threatfeed\<close>): feeds,
  return codes, the registry and its cache.

  \<open>Ingest\<close> (\<open>IngestHandler.handle\<close>) composes them: the signed body, the domain of the first recipient,
  the policy, the lookups and the verdict (\<open>ingest_decide\<close>), the campaign row, and what is stored:
  mail log, mailbox copies, raw message, quarantine entry, scan jobs. Its theorems are end to end: what
  is stored agrees with the answer, unauthenticated mail reaches no mailbox, scans are bounded, and every
  well-formed message is taken when no statement fails. \<open>IngestSafety\<close> has what needs more than one event or stage:
  the copies of a campaign that is in quarantine are only logged, and the reasons for which inbound mail is rejected.
  \<open>SenderLists\<close> and \<open>SenderPolicy\<close> (\<open>internal/senderlists\<close>, \<open>sender_policy.go\<close>): allow and block entries,
  which one counts for a message, and the domains that may not be blocked. \<open>Domains\<close>
  (\<open>internal/domains\<close>): recipient domains and their retention. \<open>MailTables\<close>, \<open>Sql\<close>, \<open>GoAddr\<close>: rows of the
  mail tables, SQL expressions and address parsing that these share.
  \<open>MailDb\<close> gathers the tables that the handlers around stored messages share, and the messages that have
  left the gateway; the mail relay is a parameter. \<open>SentEmails\<close> (\<open>internal/sentemails\<close>) logs and sends
  the gateway's own mail. \<open>PhishingReports\<close>, \<open>Spoofing\<close>, \<open>Gateways\<close> model the packages of these names.
  \<open>Quarantine\<close> (reading, release, deletion, purge), \<open>QuarantineActions\<close> (verdicts, block and allow),
  \<open>Rdap\<close> and \<open>AbuseReports\<close> (reports to the source network) and \<open>QuarantineBulk\<close> are
  \<open>internal/quarantine\<close>. \<open>QuarantineMoves\<close> shows that every one of these operations is a sequence of
  moves of a step relation on the entries; \<open>QuarantineSafety\<close> gets from the relation that released entries have
  left the gateway, that entries of others stay untouched, and that states only advance.
  \<open>Scan\<close> (\<open>internal/scan\<close>) has the scan jobs and the results that workers post; \<open>DeepAnalysis\<close> shows that only clean
  results let mail out, that they send it and mark it as sent, and that the analysis of a message follows its state machine.
  \<open>Unsubscribe\<close> and \<open>Mailbox\<close> are \<open>internal/mailbox\<close>: the List-Unsubscribe feature with its protection against
  targets inside the network, and the users' view of delivered mail with verdicts, sender rules and bulk actions.
  \<open>MailboxSafety\<close> shows that mailbox requests leave the messages of others alone and that held mail stays hidden.
  \<open>MailLogs\<close> (\<open>internal/maillogs\<close>) has the list with its filters, and the actions on held copies of a logged message.
  \<open>SmtpEvents\<close> (\<open>internal/smtpevents\<close>): what the mail server reports about the end of a delivery, written beside the
  verdict and never over it.
  \<open>Orgs\<close> (\<open>internal/orgs\<close>): organization requests keep the forest that every scope query relies on, and touch the
  caller's subtree only. \<open>AuditLog\<close> (\<open>internal/audit\<close>): records and who sees them. \<open>Brands\<close> (\<open>internal/brandintel\<close>):
  the built-in list, the PhishTank import and the cached catalog that ingest asks, coherent with its table in one
  process. \<open>Alerts\<close> (\<open>internal/notifications\<close>): alerts, reminders and digests; the text of mail never becomes markup
  in them, and after a reminder has gone out the next one waits for its cadence. \<open>Reports\<close> (\<open>internal/reports\<close>): the summary and the statistics; its numbers
  for email types and threat categories are those that the list of \<open>MailLogs\<close> finds. \<open>Platform\<close>: \<open>internal/billing\<close>,
  \<open>internal/cluster\<close>, \<open>internal/bootstrap\<close> without the migration tool, and the checks of \<open>config.go\<close>; an empty database is
  seeded once, with a forest of one system organization.
  \<open>Maintenance\<close>: the statement of the daily retention purge (\<open>cmd/api/main.go\<close>) with the bounds within which mail is
  kept, the commands \<open>reset-admin\<close> and \<open>seed\<close> (\<open>cmd/migrate\<close>), the health endpoints, and the route table of \<open>server.go\<close>
  with who may reach each route.

  \<^bold>\<open>Not modelled.\<close> Process start and wiring (\<open>cmd\<close>), the middleware of the router, the connection pool (\<open>db.go\<close>) and
  the embedded migrations (\<open>migrations.go\<close>) call third-party code only; the constraints, triggers and cascades of
  the migrations are part of the statements that meet them. Parameters are the SMTP and HTTP dialogues, DNS, the public
  suffix list, hash functions and ciphers, JSON decoding of requests, and the parsers and renderers of times. PostgreSQL's
  refusal of a text that is not UTF-8 is one of the faults of its statement, not a consequence of the text. The reads
  and writes of the feed cache succeed when there is a redis client. Timers and goroutines are not modelled: background
  work is a definition that a step applies at some moment, and a refresh is one step.
\<close>

end
